(* ===== verification/Prelude.thy ===== *)
theory Prelude
  imports Main "HOL-Library.Word"
begin

text \<open>
  Shared vocabulary of the development: the error values that replace Rust's
  \<^verbatim>\<open>anyhow::Error\<close>, the result type with its sequencing operators
  (\<^verbatim>\<open>?\<close> and \<^verbatim>\<open>ensure!\<close>), bounded integer arithmetic (checked and
  saturating operations of \<^verbatim>\<open>u32\<close>, \<^verbatim>\<open>u64\<close>, \<^verbatim>\<open>i64\<close>),
  monotonic instants, UTF-8 byte strings, and the list lemmas the journals share.

  Conventions. \<^verbatim>\<open>u64\<close> and \<^verbatim>\<open>usize\<close> values are natural numbers together
  with the bound written where the source checks it (\<^verbatim>\<open>usize\<close> is 64 bits wide on
  the supported targets). An \<^verbatim>\<open>Instant\<close> is a natural number of nanoseconds; a
  \<^verbatim>\<open>Duration\<close> in milliseconds is scaled by \<open>ns_per_ms\<close>. A Rust string is its UTF-8
  byte sequence, a HOL \<^typ>\<open>string\<close> of 8-bit characters.
\<close>

section \<open>Errors and results\<close>

text \<open>One enumeration per component; a constructor stands for one refusal of the source.\<close>

datatype ident_error =
    NodeIdInvalid | NodeIdReserved | DraftIdInvalid | OperationIdInvalid | NilIdentity
  | AreaInvalid | RequestIdentityInvalid | JobMemoryInvalid

datatype lease_error =
    LeasePolicyInvalid | LeaseContractInvalid | LeaseDisabled | ProbeInvalid
  | IssuerBounds | ConsumedChanged | CompletionDiffers | IssuerChanged | IssuerNoBudget
  | IssuerExhausted

datatype proof_error =
    ChallengeExpired | LeaseWidened | NoConservativeBudget | LeaseTimeOverflow
  | RoundTripConsumed | InitialScopeChanged | InitialExpired | ChallengeCapacity
  | ChallengeClock | ChallengeTimeout

datatype window_error =
    LeaseExpired | RenewalChanged | RenewalExpired | ReportingInactive
  | ReportingUnavailable | ReportingExpired | CheckpointScope | CheckpointRetired
  | ReportingBound | ReportingRenewal | BoundaryDiffers | OperationFailed

datatype definition_error =
    DefinitionInvalid | PriorityInvalid | SessionLimits | EventBounds | EnergyInvalid
  | SourceChanged | BindingChanged | ScopeInvalid | TemplateInvalid

datatype event_error =
    ReportingStopped | ObservationChanged | EventRate | EventCount | EventBytes
  | EventInvalid | EventInitial | EventPrefix | SealDiffers | NoFinalEvent

datatype grant_error =
    GrantPolicyInvalid | GrantAdvertisementInvalid | GrantNil | GrantScopeInvalid
  | OperationParams | OperationUnsupported | GrantResource | GrantModel | GrantBackend
  | GrantModelRole | GrantModelClaim | CompoundInvalid

datatype journal_error =
    JournalOwner | JournalVersion | ReceiptMissing | ReceiptDamaged | ReceiptKind
  | TerminalInvalid | ReceiptChanged | SqlConstraint | SchemaChanged | JournalDamaged
  | ProgressInvalid | ProgressChanged

datatype stop_error =
    StopEvidence | StopScope | StopConflict | StopQuota | StopSlot | StopWatcher
  | StopUnconfirmed | StopSchema

datatype workload_error =
    EventState | EventRow | EventPrefixChanged | EventConflict | EventBudget
  | WorkloadStopped | WorkloadChanged | CompletionChanged | CompletionPrefix
  | CompletionDamaged | FinalBusy | FinalFailed

datatype denial =
    GrantStopRecorded | GrantAttemptReplayed | GrantOwnerLimits | GrantReceiptQuota
  | GrantLeaseChanged | GrantIdentityChanged | InvalidGrantScope | PeerAdmissionRequired
  | LocalPolicyDenied

datatype pipeline_error =
    StepIdInvalid | StepParams | StepIdentity | StepModelClaim | StepKeys | StepInputs
  | StepModelSource | StepLiterals | StepMissing | TemplateUnknown | ParameterContract
  | PipelineBindings | PipelineDecode | PipelineBounds | PipelineDuplicate | PipelineForward
  | PipelineBudget | SourceUnavailable | FieldUnavailable | DataBudget | DataType
  | ConditionInvalid | ConditionType | ConditionPrecision | ConditionSource
  | ReferenceMissing | ReferenceUnderflow | RetainedUnderflow | RetainedMissing
  | StagePolicy | StageExpired | StageFailed | NoFinalResult | ResultMismatch

datatype registry_error =
    SchedulingBounds | SchedulingNode | SchedulingSelect | ParamsInvalid

datatype automation_error =
    AutomationPage | AutomationBounds | AutomationDamaged | PolicyBounds | PolicyDamaged | PolicyMissing
  | ScopeBinding | AllowanceOverflow | ScheduleDamaged | ScheduleMissing | TriggerDamaged
  | HistoryDamaged | TriggerQuota | RevisionExhausted | ArmInvalid | ArmRefused | ArmOverlap
  | ClaimUnresolved | ClaimFence | StopReceipt | RefusalReceipt | LaunchRefused | SettleRefused
  | TriggerAuthority | DefinitionMissing | DefinitionReceipt | DefinitionChanged | StoreQuota
  | PolicyReceipt | PolicyChanged | GenerationDamaged | OccurrenceInvalid | OccurrenceDamaged | OccurrenceMissing
  | OccurrenceScope | OccurrenceReceipt | OccurrencePolicy | OccurrenceJob | OccurrenceOverlap | OccurrenceBudget
  | OccurrenceQuota | OccurrenceClock | ArchiveDamaged | ArchiveMissing | ArchiveReceipt | ArchiveUnresolved
  | JobMissing | JobDamaged | JobQuota | PlanInputInvalid | PlanBinding | PlanConstraint | PlanRevision

datatype error =
    IdentE ident_error | LeaseE lease_error | ProofE proof_error | WindowE window_error
  | DefE definition_error | EventE event_error | GrantE grant_error | JournalE journal_error
  | StopE stop_error | WorkloadE workload_error | PipelineE pipeline_error | Denied denial
  | RegistryE registry_error | AutomationE automation_error | IntConversion

type_synonym 'a result = "error + 'a"

text \<open>The \<^verbatim>\<open>?\<close> operator: run the first computation and stop at its error.\<close>

fun rbind :: "'a result \<Rightarrow> ('a \<Rightarrow> 'b result) \<Rightarrow> 'b result" where
  "rbind (Inl e) f = Inl e"
| "rbind (Inr x) f = f x"

text \<open>The \<^verbatim>\<open>ensure!\<close> macro in front of the rest of a function body.\<close>

definition ensure :: "bool \<Rightarrow> error \<Rightarrow> 'a result \<Rightarrow> 'a result" where
  "ensure c e r = (if c then r else Inl e)"

definition is_ok :: "'a result \<Rightarrow> bool" where
  "is_ok r = (case r of Inl _ \<Rightarrow> False | Inr _ \<Rightarrow> True)"

text \<open>\<^verbatim>\<open>Option::context\<close>: a missing value becomes the error.\<close>

definition or_err :: "'a option \<Rightarrow> error \<Rightarrow> 'a result" where
  "or_err v e = (case v of None \<Rightarrow> Inl e | Some x \<Rightarrow> Inr x)"

named_theorems result_simps "equations that open a successful result"

lemma rbind_Inr_iff [simp, result_simps]:
  "rbind r f = Inr y \<longleftrightarrow> (\<exists>x. r = Inr x \<and> f x = Inr y)"
  by (cases r) auto

lemma ensure_Inr_iff [simp, result_simps]: "ensure c e r = Inr y \<longleftrightarrow> c \<and> r = Inr y"
  by (simp add: ensure_def)

lemma ensure_True [simp]: "ensure True e r = r"
  by (simp add: ensure_def)

lemma ensure_False [simp]: "ensure False e r = Inl e"
  by (simp add: ensure_def)

lemma is_ok_iff: "is_ok r \<longleftrightarrow> (\<exists>x. r = Inr x)"
  by (cases r) (auto simp: is_ok_def)

lemma is_ok_simps [simp]: "is_ok (Inr x)" "\<not> is_ok (Inl e)"
  by (simp_all add: is_ok_def)

lemma is_ok_rbind [simp]: "is_ok (rbind r f) \<longleftrightarrow> (\<exists>x. r = Inr x \<and> is_ok (f x))"
  by (cases r) auto

lemma is_ok_ensure [simp]: "is_ok (ensure c e r) \<longleftrightarrow> c \<and> is_ok r"
  by (simp add: ensure_def)

lemma is_ok_unit: "is_ok (r :: unit result) \<longleftrightarrow> r = Inr ()"
  by (cases r) auto

lemma not_Inr_Inl: "(\<forall>y. r \<noteq> Inr y) \<longleftrightarrow> (\<exists>e. r = Inl e)"
  by (cases r) auto

lemma or_err_Inr_iff [simp, result_simps]: "or_err v e = Inr x \<longleftrightarrow> v = Some x"
  by (cases v) (simp_all add: or_err_def)

lemma or_err_simps [simp]: "or_err (Some x) e = Inr x" "or_err None e = Inl e"
  by (simp_all add: or_err_def)

section \<open>Bounded integers\<close>

definition u32_max :: nat where "u32_max = 4294967295"
definition u64_max :: nat where "u64_max = 18446744073709551615"
definition i64_max :: nat where "i64_max = 9223372036854775807"

definition checked_add :: "nat \<Rightarrow> nat \<Rightarrow> nat option" where
  "checked_add a b = (if a + b \<le> u64_max then Some (a + b) else None)"

definition checked_mul :: "nat \<Rightarrow> nat \<Rightarrow> nat option" where
  "checked_mul a b = (if a * b \<le> u64_max then Some (a * b) else None)"

definition checked_sub :: "nat \<Rightarrow> nat \<Rightarrow> nat option" where
  "checked_sub a b = (if b \<le> a then Some (a - b) else None)"

definition saturating_add :: "nat \<Rightarrow> nat \<Rightarrow> nat" where
  "saturating_add a b = min (a + b) u64_max"

definition saturating_mul :: "nat \<Rightarrow> nat \<Rightarrow> nat" where
  "saturating_mul a b = min (a * b) u64_max"

definition saturating_sub :: "nat \<Rightarrow> nat \<Rightarrow> nat" where
  "saturating_sub a b = a - b"

definition abs_diff :: "nat \<Rightarrow> nat \<Rightarrow> nat" where
  "abs_diff a b = (if a \<le> b then b - a else a - b)"

text \<open>\<^verbatim>\<open>usize::div_ceil\<close>; the callers pass a positive divisor.\<close>

definition div_ceil :: "nat \<Rightarrow> nat \<Rightarrow> nat" where
  "div_ceil a b = (if a mod b = 0 then a div b else a div b + 1)"

text \<open>\<^verbatim>\<open>i64::try_from\<close> on an unsigned value, as SQL parameters need it.\<close>

definition to_i64 :: "nat \<Rightarrow> nat result" where
  "to_i64 n = (if n \<le> i64_max then Inr n else Inl IntConversion)"

lemma to_i64_Inr_iff [simp]: "to_i64 n = Inr m \<longleftrightarrow> n \<le> i64_max \<and> m = n"
  by (auto simp: to_i64_def)

lemma checked_add_Some_iff [simp]:
  "checked_add a b = Some c \<longleftrightarrow> c = a + b \<and> a + b \<le> u64_max"
  by (auto simp: checked_add_def)

lemma Some_checked_add_iff [simp]:
  "Some c = checked_add a b \<longleftrightarrow> c = a + b \<and> a + b \<le> u64_max"
  by (auto simp: checked_add_def)

lemma checked_mul_Some_iff [simp]:
  "checked_mul a b = Some c \<longleftrightarrow> c = a * b \<and> a * b \<le> u64_max"
  by (auto simp: checked_mul_def)

lemma checked_sub_Some_iff [simp]: "checked_sub a b = Some c \<longleftrightarrow> b \<le> a \<and> c = a - b"
  by (auto simp: checked_sub_def)

lemma saturating_add_bounds:
  "saturating_add a b \<le> u64_max" "saturating_add a b \<le> a + b"
  by (simp_all add: saturating_add_def)

lemma saturating_add_less: "saturating_add a b \<le> m \<Longrightarrow> m < u64_max \<Longrightarrow> a + b \<le> m"
  by (auto simp: saturating_add_def min_def split: if_splits)

section \<open>Time\<close>

type_synonym instant = nat  \<comment> \<open>nanoseconds of one monotonic clock\<close>
type_synonym millis = nat   \<comment> \<open>wall-clock or duration milliseconds\<close>

definition ns_per_ms :: nat where "ns_per_ms = 1000000"

definition from_millis :: "millis \<Rightarrow> nat" where
  "from_millis ms = ms * ns_per_ms"

definition as_millis :: "nat \<Rightarrow> millis" where
  "as_millis ns = ns div ns_per_ms"

text \<open>\<^verbatim>\<open>Duration::as_millis().min(u64::MAX as u128) as u64\<close>.\<close>

definition as_millis_u64 :: "nat \<Rightarrow> millis" where
  "as_millis_u64 ns = min (as_millis ns) u64_max"

text \<open>\<^verbatim>\<open>Instant::saturating_duration_since\<close>.\<close>

definition since :: "instant \<Rightarrow> instant \<Rightarrow> nat" where
  "since a b = a - b"

lemma from_as_millis_le: "from_millis (as_millis ns) \<le> ns"
  by (simp add: from_millis_def as_millis_def)

lemma as_millis_u64_le: "from_millis (as_millis_u64 ns) \<le> ns"
  by (simp add: as_millis_u64_def from_millis_def as_millis_def min_def)
     (metis div_times_less_eq_dividend le_trans mult_le_mono1 nat_le_linear)

lemma as_millis_add: "as_millis a + as_millis b \<le> as_millis (a + b)"
proof -
  have "(a div ns_per_ms + b div ns_per_ms) * ns_per_ms \<le> a + b"
    by (simp add: add_mult_distrib add_mono)
  then show ?thesis
    by (simp add: as_millis_def ns_per_ms_def less_eq_div_iff_mult_less_eq)
qed

lemma as_millis_mono: "a \<le> b \<Longrightarrow> as_millis a \<le> as_millis b"
  by (simp add: as_millis_def div_le_mono)

section \<open>Byte strings\<close>

definition byte :: "char \<Rightarrow> nat" where
  "byte c = of_char c"

definition is_ascii_digit :: "char \<Rightarrow> bool" where
  "is_ascii_digit c \<longleftrightarrow> 48 \<le> byte c \<and> byte c \<le> 57"

definition is_lower_hex :: "char \<Rightarrow> bool" where
  "is_lower_hex c \<longleftrightarrow> is_ascii_digit c \<or> (97 \<le> byte c \<and> byte c \<le> 102)"

definition is_ascii_alphanumeric :: "char \<Rightarrow> bool" where
  "is_ascii_alphanumeric c \<longleftrightarrow> is_ascii_digit c \<or> (65 \<le> byte c \<and> byte c \<le> 90)
     \<or> (97 \<le> byte c \<and> byte c \<le> 122)"

definition is_name_byte :: "char \<Rightarrow> bool" where
  "is_name_byte c \<longleftrightarrow> is_ascii_alphanumeric c \<or> c \<in> set ''._-''"

text \<open>
  \<^verbatim>\<open>s.chars().any(char::is_control)\<close> on UTF-8 bytes: the C0 controls and DEL are single
  bytes, the C1 controls U+0080 to U+009F are the byte C2 followed by 80 to 9F.
\<close>

fun has_control :: "string \<Rightarrow> bool" where
  "has_control [] = False"
| "has_control [c] = (byte c < 32 \<or> byte c = 127)"
| "has_control (c # d # cs) =
     (byte c < 32 \<or> byte c = 127 \<or> (byte c = 194 \<and> 128 \<le> byte d \<and> byte d \<le> 159)
      \<or> has_control (d # cs))"

text \<open>
  Unicode \<^verbatim>\<open>White_Space\<close> as UTF-8 encodings: ASCII tab to carriage return and space,
  U+0085, U+00A0, U+1680, U+2000 to U+200A, U+2028, U+2029, U+202F, U+205F, U+3000.
\<close>

definition whitespace_codes :: "nat list list" where
  "whitespace_codes =
     [[9], [10], [11], [12], [13], [32], [194, 133], [194, 160], [225, 154, 128]]
     @ map (\<lambda>b. [226, 128, b]) [128, 129, 130, 131, 132, 133, 134, 135, 136, 137, 138]
     @ [[226, 128, 168], [226, 128, 169], [226, 128, 175], [226, 129, 159], [227, 128, 128]]"

text \<open>\<^verbatim>\<open>s.trim() == s\<close>: no white space at either end.\<close>

definition is_trimmed :: "string \<Rightarrow> bool" where
  "is_trimmed s \<longleftrightarrow> list_all (\<lambda>w. take (length w) (map byte s) \<noteq> w
       \<and> take (length w) (rev (map byte s)) \<noteq> rev w) whitespace_codes"

text \<open>\<^verbatim>\<open>s.trim().is_empty()\<close>: remove leading white space until none is left.\<close>

definition strip_ws :: "nat list \<Rightarrow> nat list" where
  "strip_ws bs = (case find (\<lambda>w. take (length w) bs = w) whitespace_codes of
     None \<Rightarrow> bs | Some w \<Rightarrow> drop (length w) bs)"

fun trim_start :: "nat \<Rightarrow> nat list \<Rightarrow> nat list" where
  "trim_start 0 bs = bs"
| "trim_start (Suc n) bs = trim_start n (strip_ws bs)"

definition is_blank :: "string \<Rightarrow> bool" where
  "is_blank s \<longleftrightarrow> trim_start (length s) (map byte s) = []"

text \<open>\<^verbatim>\<open>str::strip_prefix\<close>.\<close>

definition strip_prefix :: "string \<Rightarrow> string \<Rightarrow> string option" where
  "strip_prefix p s = (if take (length p) s = p then Some (drop (length p) s) else None)"

lemma strip_prefix_append [simp]: "strip_prefix p (p @ s) = Some s"
  by (simp add: strip_prefix_def)

lemma strip_prefix_Some_iff: "strip_prefix p s = Some r \<longleftrightarrow> s = p @ r"
  by (auto simp: strip_prefix_def) (metis append_take_drop_id)

section \<open>Lists of rows\<close>

text \<open>
  Journal tables are row lists. \<open>count_if\<close> is \<^verbatim>\<open>SELECT count(*)\<close>, \<open>update_rows\<close> is
  \<^verbatim>\<open>UPDATE ... WHERE\<close>, and \<^const>\<open>find\<close> a lookup by a key that the table keeps unique.
\<close>

definition count_if :: "('a \<Rightarrow> bool) \<Rightarrow> 'a list \<Rightarrow> nat" where
  "count_if P xs = length (filter P xs)"

definition update_rows :: "('a \<Rightarrow> bool) \<Rightarrow> ('a \<Rightarrow> 'a) \<Rightarrow> 'a list \<Rightarrow> 'a list" where
  "update_rows P f xs = map (\<lambda>x. if P x then f x else x) xs"

lemma count_if_0_iff: "count_if P xs = 0 \<longleftrightarrow> (\<forall>x \<in> set xs. \<not> P x)"
  by (simp add: count_if_def filter_empty_conv)

lemma length_update_rows [simp]: "length (update_rows P f xs) = length xs"
  by (simp add: update_rows_def)

lemma set_update_rows: "set (update_rows P f xs) = {if P x then f x else x | x. x \<in> set xs}"
  by (auto simp: update_rows_def)

lemma map_update_rows_eq:
  "(\<And>x. x \<in> set xs \<Longrightarrow> P x \<Longrightarrow> k (f x) = k x) \<Longrightarrow> map k (update_rows P f xs) = map k xs"
  by (auto simp: update_rows_def)

lemma find_Some_mem: "find P xs = Some x \<Longrightarrow> x \<in> set xs \<and> P x"
  by (induction xs) (auto split: if_splits)

lemma find_None_all: "find P xs = None \<longleftrightarrow> (\<forall>x \<in> set xs. \<not> P x)"
  by (induction xs) auto

lemma find_unique:
  assumes "distinct (map k xs)" and "x \<in> set xs"
  shows "find (\<lambda>y. k y = k x) xs = Some x"
  using assms by (induction xs) auto

lemma distinct_key_eq:
  "distinct (map k xs) \<Longrightarrow> x \<in> set xs \<Longrightarrow> y \<in> set xs \<Longrightarrow> k x = k y \<Longrightarrow> x = y"
  by (metis distinct_map inj_onD)

section \<open>Keyed maps with a size\<close>

text \<open>
  A \<^verbatim>\<open>HashMap\<close> whose size matters: an association list without duplicate keys, read by
  \<^const>\<open>map_of\<close>.
\<close>

definition kv_del :: "'k \<Rightarrow> ('k \<times> 'v) list \<Rightarrow> ('k \<times> 'v) list" where
  "kv_del k m = filter (\<lambda>e. fst e \<noteq> k) m"

definition kv_put :: "'k \<Rightarrow> 'v \<Rightarrow> ('k \<times> 'v) list \<Rightarrow> ('k \<times> 'v) list" where
  "kv_put k v m = (k, v) # kv_del k m"

definition kv_retain :: "('v \<Rightarrow> bool) \<Rightarrow> ('k \<times> 'v) list \<Rightarrow> ('k \<times> 'v) list" where
  "kv_retain P m = filter (\<lambda>e. P (snd e)) m"

lemma map_of_kv_del: "map_of (kv_del k m) = (map_of m)(k := None)"
  by (induction m) (auto simp: kv_del_def fun_eq_iff)

lemma map_of_kv_put [simp]: "map_of (kv_put k v m) = (map_of m)(k \<mapsto> v)"
  by (simp add: kv_put_def map_of_kv_del)

lemma distinct_kv_del: "distinct (map fst m) \<Longrightarrow> distinct (map fst (kv_del k m))"
  by (induction m) (auto simp: kv_del_def)

lemma keys_kv_del: "fst ` set (kv_del k m) = fst ` set m - {k}"
  by (auto simp: kv_del_def)

lemma distinct_kv_put: "distinct (map fst m) \<Longrightarrow> distinct (map fst (kv_put k v m))"
  by (simp add: kv_put_def distinct_kv_del keys_kv_del)

lemma distinct_kv_retain: "distinct (map fst m) \<Longrightarrow> distinct (map fst (kv_retain P m))"
  by (induction m) (auto simp: kv_retain_def)

lemma length_kv_del: "length (kv_del k m) \<le> length m"
  by (simp add: kv_del_def)

lemma length_kv_put: "length (kv_put k v m) \<le> Suc (length m)"
  by (simp add: kv_put_def length_kv_del)

lemma length_kv_retain: "length (kv_retain P m) \<le> length m"
  by (simp add: kv_retain_def)

end
