(* ===== verification/Identity.thy ===== *)
theory Identity
  imports Prelude
begin

text \<open>
  Identities and request context: node identifiers (\<^verbatim>\<open>network.rs\<close>), operation and
  draft identifiers (\<^verbatim>\<open>job_commands.rs\<close>, \<^verbatim>\<open>request_drafts.rs\<close>,
  \<^verbatim>\<open>automation_occurrence.rs\<close>), hexadecimal digests (\<^verbatim>\<open>grants.rs\<close>), areas,
  resource identifiers and locality ranking (\<^verbatim>\<open>context.rs\<close>), canonical definition
  digests (\<^verbatim>\<open>grants.rs\<close>) and the job memory ceiling (\<^verbatim>\<open>model_memory.rs\<close>).

  The crates \<^verbatim>\<open>uuid\<close>, \<^verbatim>\<open>sha2\<close> and \<^verbatim>\<open>serde_json\<close> are parameters, fields of the
  record \<open>externals\<close>: parsing and printing a UUID, the hexadecimal SHA-256 of a byte string
  and the JSON text of a value. The field \<open>instant_max\<close> is the last instant the platform
  clock represents, which \<^verbatim>\<open>Instant::checked_add\<close> tests. Later theories extend the record by the serde
  conversions of their own types.
\<close>

section \<open>External code\<close>

text \<open>\<^verbatim>\<open>serde_json::Value\<close>: numbers keep serde's three representations, a float by its bits.\<close>

datatype json_number = PosInt nat | NegInt int | Float "64 word"

datatype json =
    JNull | JBool bool | JNum json_number | JString string | JArray "json list"
  | JObject "(string \<times> json) list"

record externals =
  uuid_parse :: "string \<Rightarrow> nat option"
  uuid_show :: "nat \<Rightarrow> string"
  sha256_hex :: "string \<Rightarrow> string"
  json_text :: "json \<Rightarrow> string"
  instant_max :: nat

definition instant_checked_add :: "'x externals_scheme \<Rightarrow> instant \<Rightarrow> nat \<Rightarrow> instant option" where
  "instant_checked_add ext i d = (if i + d \<le> instant_max ext then Some (i + d) else None)"

section \<open>Identifier checks\<close>

definition validate_node_id :: "string \<Rightarrow> unit result" where
  "validate_node_id i =
     (if i = [] \<or> length i > 128 \<or> \<not> is_trimmed i \<or> has_control i
      then Inl (IdentE NodeIdInvalid) else Inr ())"

definition validate_remote_node_id :: "string \<Rightarrow> unit result" where
  "validate_remote_node_id i =
     rbind (validate_node_id i) (\<lambda>_.
       if i = ''local'' \<or> i = ''*'' then Inl (IdentE NodeIdReserved) else Inr ())"

definition validate_id :: "string \<Rightarrow> unit result" where
  "validate_id i =
     (if length i \<noteq> 32 \<or> \<not> list_all is_lower_hex i then Inl (IdentE DraftIdInvalid) else Inr ())"

definition validate_operation_id :: "'x externals_scheme \<Rightarrow> string \<Rightarrow> unit result" where
  "validate_operation_id ext i =
     (if length i \<noteq> 36 then Inl (IdentE OperationIdInvalid)
      else case uuid_parse ext i of None \<Rightarrow> Inl (IdentE OperationIdInvalid)
        | Some u \<Rightarrow> if uuid_show ext u \<noteq> i then Inl (IdentE OperationIdInvalid) else Inr ())"

definition uuid :: "'x externals_scheme \<Rightarrow> string \<Rightarrow> unit result" where
  "uuid ext v =
     rbind (validate_operation_id ext v) (\<lambda>_.
       case uuid_parse ext v of None \<Rightarrow> Inl (IdentE OperationIdInvalid)
       | Some u \<Rightarrow> if u = 0 then Inl (IdentE NilIdentity) else Inr ())"

definition hex_digest :: "string \<Rightarrow> bool" where
  "hex_digest s \<longleftrightarrow> length s = 64 \<and> list_all is_lower_hex s"

definition is_identifier :: "string \<Rightarrow> bool" where
  "is_identifier s \<longleftrightarrow> s \<noteq> [] \<and> length s \<le> 64 \<and> list_all is_name_byte s"

definition validate_memory :: "nat option \<Rightarrow> unit result" where
  "validate_memory limit =
     (case limit of None \<Rightarrow> Inr ()
      | Some mib \<Rightarrow> if 64 \<le> mib \<and> mib \<le> 1048576 then Inr () else Inl (IdentE JobMemoryInvalid))"

section \<open>Areas, request context and locality\<close>

type_synonym area_path = "string list"

definition area_part_bad :: "string \<Rightarrow> bool" where
  "area_part_bad part \<longleftrightarrow>
     is_blank part \<or> length part > 128 \<or> CHR ''/'' \<in> set part \<or> has_control part"

definition validate_area :: "area_path \<Rightarrow> unit result" where
  "validate_area area =
     (if length area > 16 \<or> list_ex area_part_bad area then Inl (IdentE AreaInvalid) else Inr ())"

record request_context =
  request_id :: string
  origin_node :: string
  origin_area :: area_path

definition request_context_new :: "string \<Rightarrow> string \<Rightarrow> area_path \<Rightarrow> request_context result" where
  "request_context_new rid node area =
     (if rid = [] \<or> length rid > 128 \<or> node = [] \<or> length node > 128
      then Inl (IdentE RequestIdentityInvalid)
      else rbind (validate_area area) (\<lambda>_.
        Inr \<lparr>request_id = rid, origin_node = node, origin_area = area\<rparr>))"

definition resource_id :: "string \<Rightarrow> string \<Rightarrow> string" where
  "resource_id node_id local_id = node_id @ ''::'' @ local_id"

text \<open>\<^verbatim>\<open>zip(...).take_while(|(a, b)| a == b).count()\<close>.\<close>

fun common_prefix :: "area_path \<Rightarrow> area_path \<Rightarrow> nat" where
  "common_prefix (x # xs) (y # ys) = (if x = y then Suc (common_prefix xs ys) else 0)"
| "common_prefix _ _ = 0"

definition locality :: "request_context \<Rightarrow> string \<Rightarrow> area_path \<Rightarrow> nat \<times> nat" where
  "locality origin node area =
     (if origin_node origin = node then (0, 0)
      else if origin_area origin = [] \<or> area = [] then (3, u64_max)
      else let common = common_prefix (origin_area origin) area in
        if common = 0 then (3, u64_max)
        else if origin_area origin = area then (1, 0)
        else (2, length (origin_area origin) + length area - 2 * common))"

section \<open>Canonical definition digests\<close>

text \<open>
  \<^verbatim>\<open>collect::<BTreeMap<_, _>>()\<close>: insertion into a list sorted by key, a later entry
  replacing an earlier one with the same key. Rust orders strings by their bytes.
\<close>

fun bytes_less :: "string \<Rightarrow> string \<Rightarrow> bool" where
  "bytes_less _ [] = False"
| "bytes_less [] (_ # _) = True"
| "bytes_less (x # xs) (y # ys) = (byte x < byte y \<or> (byte x = byte y \<and> bytes_less xs ys))"

fun btree_insert :: "string \<Rightarrow> 'v \<Rightarrow> (string \<times> 'v) list \<Rightarrow> (string \<times> 'v) list" where
  "btree_insert k v [] = [(k, v)]"
| "btree_insert k v ((k', v') # m) =
     (if k = k' then (k, v) # m
      else if bytes_less k k' then (k, v) # (k', v') # m
      else (k', v') # btree_insert k v m)"

definition btree_collect :: "(string \<times> 'v) list \<Rightarrow> (string \<times> 'v) list" where
  "btree_collect kvs = fold (\<lambda>(k, v) m. btree_insert k v m) kvs []"

text \<open>The inner function \<^verbatim>\<open>sorted\<close> of \<^verbatim>\<open>definition_digest\<close>.\<close>

fun sorted_value :: "json \<Rightarrow> json" where
  "sorted_value (JObject kvs) = JObject (btree_collect (map (\<lambda>(k, v). (k, sorted_value v)) kvs))"
| "sorted_value (JArray vs) = JArray (map sorted_value vs)"
| "sorted_value v = v"

definition definition_digest :: "'x externals_scheme \<Rightarrow> json \<Rightarrow> string" where
  "definition_digest ext v = sha256_hex ext (json_text ext (sorted_value v))"

section \<open>Lemmas\<close>

lemma validate_node_id_ok [simp]:
  "validate_node_id i = Inr () \<longleftrightarrow>
     i \<noteq> [] \<and> length i \<le> 128 \<and> is_trimmed i \<and> \<not> has_control i"
  by (auto simp: validate_node_id_def)

lemma validate_remote_node_id_ok [simp]:
  "validate_remote_node_id i = Inr () \<longleftrightarrow>
     validate_node_id i = Inr () \<and> i \<noteq> ''local'' \<and> i \<noteq> ''*''"
  by (auto simp: validate_remote_node_id_def simp del: validate_node_id_ok)

lemma validate_id_ok [simp]:
  "validate_id i = Inr () \<longleftrightarrow> length i = 32 \<and> list_all is_lower_hex i"
  by (auto simp: validate_id_def)

lemma validate_operation_id_ok:
  "validate_operation_id ext i = Inr () \<longleftrightarrow>
     length i = 36 \<and> (\<exists>u. uuid_parse ext i = Some u \<and> uuid_show ext u = i)"
  by (auto simp: validate_operation_id_def split: option.splits)

lemma uuid_ok:
  "uuid ext v = Inr () \<longleftrightarrow>
     length v = 36 \<and> (\<exists>u. uuid_parse ext v = Some u \<and> uuid_show ext u = v \<and> u \<noteq> 0)"
  by (auto simp: uuid_def validate_operation_id_ok split: option.splits if_splits)

text \<open>Two accepted identifiers that parse to the same UUID are the same byte string.\<close>

lemma uuid_canonical:
  "uuid ext v = Inr () \<Longrightarrow> uuid ext w = Inr () \<Longrightarrow> uuid_parse ext v = uuid_parse ext w \<Longrightarrow> v = w"
  by (auto simp: uuid_ok)

lemma validate_memory_ok [simp]:
  "validate_memory (Some m) = Inr () \<longleftrightarrow> 64 \<le> m \<and> m \<le> 1048576"
  by (simp add: validate_memory_def)

lemma common_prefix_le: "common_prefix xs ys \<le> length xs" "common_prefix xs ys \<le> length ys"
  by (induction xs ys rule: common_prefix.induct) auto

lemma common_prefix_take:
  "take (common_prefix xs ys) xs = take (common_prefix xs ys) ys"
  by (induction xs ys rule: common_prefix.induct) auto

lemma common_prefix_full:
  assumes "common_prefix xs ys = length xs" and "common_prefix xs ys = length ys"
  shows "xs = ys"
  using common_prefix_take [of xs ys] assms by simp

lemma strip_resource_id [simp]: "strip_prefix (node @ ''::'') (resource_id node l) = Some l"
proof -
  have "resource_id node l = (node @ ''::'') @ l" by (simp add: resource_id_def)
  then show ?thesis by (simp only: strip_prefix_append)
qed

lemma bytes_less_irrefl [simp]: "\<not> bytes_less s s"
  by (induction s) auto

lemma bytes_less_linear: "s = t \<or> bytes_less s t \<or> bytes_less t s"
proof (induction s t rule: bytes_less.induct)
  case (3 x xs y ys)
  have "byte x = byte y \<Longrightarrow> x = y"
    by (simp add: byte_def)
  with 3 show ?case by (cases "byte x = byte y") auto
next
  case (1 s)
  then show ?case by (cases s) simp_all
qed simp

lemma bytes_less_trans: "bytes_less s t \<Longrightarrow> bytes_less t u \<Longrightarrow> bytes_less s u"
proof (induction s t arbitrary: u rule: bytes_less.induct)
  case (3 x xs y ys)
  then show ?case by (cases u) auto
next
  case (2 y ys)
  then show ?case by (cases u) auto
qed auto

lemma map_of_btree_insert: "map_of (btree_insert k v m) = (map_of m)(k \<mapsto> v)"
  by (induction m) auto

lemma map_of_btree_collect: "map_of (btree_collect kvs) = map_of (rev kvs)"
proof -
  have "map_of (fold (\<lambda>(k, v) m. btree_insert k v m) kvs m0) = map_of m0 ++ map_of (rev kvs)" for m0
    by (induction kvs arbitrary: m0) (auto simp: map_of_btree_insert)
  then show ?thesis by (simp add: btree_collect_def)
qed

lemma set_keys_btree_insert:
  "fst ` set (btree_insert k v m) = insert k (fst ` set m)"
  by (induction k v m rule: btree_insert.induct) (simp_all add: insert_commute)

lemma sorted_btree_insert:
  "sorted_wrt bytes_less (map fst m) \<Longrightarrow> sorted_wrt bytes_less (map fst (btree_insert k v m))"
proof (induction m)
  case (Cons a m)
  obtain k' v' where a: "a = (k', v')" by (cases a)
  show ?case
  proof (cases "k = k' \<or> bytes_less k k'")
    case True
    then show ?thesis using Cons.prems a by (auto intro: bytes_less_trans)
  next
    case False
    then have "bytes_less k' k" using bytes_less_linear [of k k'] by auto
    then show ?thesis using False Cons a
      by (auto simp: set_keys_btree_insert)
  qed
qed simp

lemma sorted_btree_collect: "sorted_wrt bytes_less (map fst (btree_collect kvs))"
proof -
  have "sorted_wrt bytes_less (map fst m0) \<Longrightarrow>
    sorted_wrt bytes_less (map fst (fold (\<lambda>(k, v) m. btree_insert k v m) kvs m0))" for m0
    by (induction kvs arbitrary: m0) (auto simp: sorted_btree_insert)
  then show ?thesis by (simp add: btree_collect_def)
qed

text \<open>Two association lists sorted by key are equal as soon as they are equal as maps.\<close>

lemma sorted_keys_distinct: "sorted_wrt bytes_less ks \<Longrightarrow> distinct ks"
  by (induction ks) auto

lemma sorted_map_of_eq:
  assumes "sorted_wrt bytes_less (map fst m)" and "sorted_wrt bytes_less (map fst m')"
    and "map_of m = map_of m'"
  shows "m = m'"
  using assms
proof (induction m arbitrary: m')
  case Nil
  then show ?case by (cases m') (auto split: if_splits, metis option.distinct(1))
next
  case (Cons a m)
  obtain k v where a: "a = (k, v)" by (cases a)
  from Cons.prems a obtain b m1 where m': "m' = b # m1"
    by (cases m') (auto, metis option.distinct(1))
  obtain k1 v1 where b: "b = (k1, v1)" by (cases b)
  have mk: "k \<in> insert k1 (fst ` set m1)" "k1 \<in> insert k (fst ` set m)"
    using Cons.prems(3) a b m' by (metis domI dom_map_of_conv_image_fst fst_conv image_insert
        list.simps(15) map_of_Cons_code(2))+
  have "k = k1"
  proof (rule ccontr)
    assume ne: "k \<noteq> k1"
    then have "bytes_less k1 k" "bytes_less k k1"
      using mk Cons.prems(1,2) a b m' by auto
    then show False using bytes_less_trans bytes_less_irrefl by blast
  qed
  have vv: "v = v1" using Cons.prems(3) a b m' \<open>k = k1\<close>
    by (metis map_of_Cons_code(2) option.inject)
  have "map_of m = map_of m1"
  proof
    fix x
    have "k \<notin> fst ` set m" "k \<notin> fst ` set m1"
      using Cons.prems(1,2) a b m' \<open>k = k1\<close> by auto
    then have "map_of m k = None" "map_of m1 k = None"
      by (simp_all add: map_of_eq_None_iff)
    moreover have "map_of ((k, v) # m) x = map_of ((k, v) # m1) x"
      using Cons.prems(3) unfolding a b m' \<open>k = k1\<close> vv by (rule fun_cong)
    ultimately show "map_of m x = map_of m1 x"
      by (cases "x = k") simp_all
  qed
  then have "m = m1" using Cons.IH Cons.prems(1,2) a b m' by auto
  then show ?case using a b m' \<open>k = k1\<close> vv by simp
qed

lemma btree_collect_eq_iff:
  "btree_collect kvs = btree_collect kvs' \<longleftrightarrow> map_of (rev kvs) = map_of (rev kvs')"
  by (metis map_of_btree_collect sorted_btree_collect sorted_map_of_eq)

end
