(* ===== verification/Grant_Scope.thy ===== *)
theory Grant_Scope
  imports Identity
begin

text \<open>
  The control identity of one grant attempt (\<^verbatim>\<open>grant_stop.rs\<close>, \<^verbatim>\<open>Scope\<close>): the exact
  grant, its digest, issuer, session, executor and attempt slot. Every lease, stop request,
  event and receipt of the node journal is pinned to one such scope.
\<close>

record scope =
  sc_grant_id :: string
  sc_grant_sha256 :: string
  sc_issuer_id :: string
  sc_session_id :: string
  sc_executor_node :: string
  sc_job_id :: string
  sc_task_id :: string
  sc_attempt :: nat

definition scope_validate :: "'x externals_scheme \<Rightarrow> scope \<Rightarrow> unit result" where
  "scope_validate ext s =
     rbind (uuid ext (sc_grant_id s)) (\<lambda>_.
     rbind (uuid ext (sc_session_id s)) (\<lambda>_.
     rbind (validate_remote_node_id (sc_executor_node s)) (\<lambda>_.
     rbind (validate_id (sc_job_id s)) (\<lambda>_.
     rbind (validate_id (sc_task_id s)) (\<lambda>_.
       if \<not> hex_digest (sc_grant_sha256 s) \<or> \<not> hex_digest (sc_issuer_id s)
          \<or> \<not> (1 \<le> sc_attempt s \<and> sc_attempt s \<le> 11)
       then Inl (DefE ScopeInvalid) else Inr ())))))"

definition scope_matches_session :: "scope \<Rightarrow> string \<Rightarrow> string \<Rightarrow> string \<Rightarrow> bool" where
  "scope_matches_session s issuer session node \<longleftrightarrow>
     sc_issuer_id s = issuer \<and> sc_session_id s = session \<and> sc_executor_node s = node"

record stop_wire_request =
  sw_kind :: string
  sw_id :: string
  sw_scope :: scope

definition stop_wire_validate ::
  "'x externals_scheme \<Rightarrow> stop_wire_request \<Rightarrow> string \<Rightarrow> string \<Rightarrow> string \<Rightarrow> unit result" where
  "stop_wire_validate ext r issuer session node =
     rbind (validate_id (sw_id r)) (\<lambda>_.
     rbind (scope_validate ext (sw_scope r)) (\<lambda>_.
       if sw_kind r \<noteq> ''stop_grant'' \<or> \<not> scope_matches_session (sw_scope r) issuer session node
       then Inl (StopE StopScope) else Inr ()))"

lemma scope_validate_ok:
  "scope_validate ext s = Inr () \<longleftrightarrow>
     uuid ext (sc_grant_id s) = Inr () \<and> uuid ext (sc_session_id s) = Inr ()
     \<and> validate_remote_node_id (sc_executor_node s) = Inr ()
     \<and> validate_id (sc_job_id s) = Inr () \<and> validate_id (sc_task_id s) = Inr ()
     \<and> hex_digest (sc_grant_sha256 s) \<and> hex_digest (sc_issuer_id s)
     \<and> 1 \<le> sc_attempt s \<and> sc_attempt s \<le> 11"
  unfolding scope_validate_def
  by (auto simp del: validate_remote_node_id_ok validate_id_ok split: if_splits)

text \<open>The validity of a scope does not depend on which digest it carries.\<close>

lemma scope_validate_digest:
  "scope_validate ext (s\<lparr>sc_grant_sha256 := d\<rparr>) = Inr () \<Longrightarrow> hex_digest d' \<Longrightarrow>
   scope_validate ext (s\<lparr>sc_grant_sha256 := d'\<rparr>) = Inr ()"
  by (simp add: scope_validate_ok)

end
