(* ===== verification/Workload_Leases.thy ===== *)
theory Workload_Leases
  imports Grant_Scope
begin

text \<open>
  The version-two session lease (\<^verbatim>\<open>workload_leases.rs\<close>): owner policy and contract, the
  issuer's window on the coordinator, the challenge correlator and the lease proofs on the
  node. Every reading of \<^verbatim>\<open>Instant::now()\<close> in a function is an argument of its
  definition, in the order the function reads them; a function that takes
  \<^verbatim>\<open>&mut self\<close> returns the updated state with its result.

  The lemmas give the bounds of an issued reply, of a confirmed proof and of the
  correlator's table.
\<close>

section \<open>Policy and contract\<close>

definition MAX_SESSION_MS :: nat where "MAX_SESSION_MS = 86400000"
definition MAX_LEASE_MS :: nat where "MAX_LEASE_MS = 30000"
definition MAX_PENDING :: nat where "MAX_PENDING = 64"
definition PROBE_TIMEOUT :: nat where "PROBE_TIMEOUT = from_millis 2000"

record lease_policy =
  lp_enabled :: bool
  lp_max_session_ms :: nat
  lp_max_lease_ms :: nat

definition lease_policy_default :: lease_policy where
  "lease_policy_default =
     \<lparr>lp_enabled = False, lp_max_session_ms = 3600000, lp_max_lease_ms = MAX_LEASE_MS\<rparr>"

definition lease_policy_validate :: "lease_policy \<Rightarrow> unit result" where
  "lease_policy_validate p =
     ensure (1 \<le> lp_max_session_ms p \<and> lp_max_session_ms p \<le> MAX_SESSION_MS
         \<and> 1 \<le> lp_max_lease_ms p \<and> lp_max_lease_ms p \<le> MAX_LEASE_MS
         \<and> lp_max_lease_ms p \<le> lp_max_session_ms p)
       (LeaseE LeasePolicyInvalid) (Inr ())"

record contract =
  ct_schema_version :: nat
  ct_scope :: scope
  ct_max_session_ms :: nat
  ct_max_lease_ms :: nat

record lease_externals = externals +
  contract_json :: "contract \<Rightarrow> json"

definition contract_validate :: "'x lease_externals_scheme \<Rightarrow> contract \<Rightarrow> unit result" where
  "contract_validate ext c =
     rbind (scope_validate ext (ct_scope c)) (\<lambda>_.
     ensure (ct_schema_version c = 2
         \<and> 1 \<le> ct_max_session_ms c \<and> ct_max_session_ms c \<le> MAX_SESSION_MS
         \<and> 1 \<le> ct_max_lease_ms c \<and> ct_max_lease_ms c \<le> MAX_LEASE_MS
         \<and> ct_max_lease_ms c \<le> ct_max_session_ms c)
       (LeaseE LeaseContractInvalid) (Inr ()))"

definition contract_digest :: "'x lease_externals_scheme \<Rightarrow> contract \<Rightarrow> string result" where
  "contract_digest ext c =
     rbind (contract_validate ext c) (\<lambda>_. Inr (definition_digest ext (contract_json ext c)))"

definition contract_permitted ::
  "'x lease_externals_scheme \<Rightarrow> contract \<Rightarrow> lease_policy \<Rightarrow> unit result" where
  "contract_permitted ext c p =
     rbind (contract_validate ext c) (\<lambda>_.
     rbind (lease_policy_validate p) (\<lambda>_.
     ensure (lp_enabled p \<and> ct_max_session_ms c \<le> lp_max_session_ms p
         \<and> ct_max_lease_ms c \<le> lp_max_lease_ms p)
       (LeaseE LeaseDisabled) (Inr ())))"

section \<open>Probe and reply\<close>

record lease_query =
  q_kind :: string
  q_schema_version :: nat
  q_id :: string
  q_contract :: contract
  q_sequence :: nat

definition query_validate :: "'x lease_externals_scheme \<Rightarrow> lease_query \<Rightarrow> unit result" where
  "query_validate ext q =
     rbind (contract_validate ext (q_contract q)) (\<lambda>_.
     rbind (uuid ext (q_id q)) (\<lambda>_.
     ensure (q_kind q = ''workload_lease_probe'' \<and> q_schema_version q = 2 \<and> q_sequence q > 0)
       (LeaseE ProbeInvalid) (Inr ())))"

record lease_reply =
  rp_kind :: string
  rp_schema_version :: nat
  rp_id :: string
  rp_contract_sha256 :: string
  rp_sequence :: nat
  rp_lease_remaining_ms :: nat
  rp_session_remaining_ms :: nat

definition reply_matches ::
  "'x lease_externals_scheme \<Rightarrow> lease_reply \<Rightarrow> lease_query \<Rightarrow> bool" where
  "reply_matches ext r q \<longleftrightarrow>
     rp_kind r = ''workload_lease'' \<and> rp_schema_version r = 2 \<and> rp_id r = q_id q
     \<and> rp_sequence r = q_sequence q
     \<and> (case contract_digest ext (q_contract q) of Inl _ \<Rightarrow> False
         | Inr d \<Rightarrow> d = rp_contract_sha256 r)"

section \<open>Issuer window\<close>

record issuer_window =
  iw_contract :: contract
  iw_deadline :: instant
  iw_next_sequence :: nat
  iw_consumed :: bool
  iw_stopped :: bool

definition issuer_new ::
  "'x lease_externals_scheme \<Rightarrow> contract \<Rightarrow> lease_policy \<Rightarrow> instant \<Rightarrow> instant
   \<Rightarrow> issuer_window result" where
  "issuer_new ext c p issued_deadline now =
     rbind (contract_permitted ext c p) (\<lambda>_.
     ensure (issued_deadline > now
         \<and> since issued_deadline now \<le> from_millis (ct_max_session_ms c))
       (LeaseE IssuerBounds)
     (Inr \<lparr>iw_contract = c, iw_deadline = issued_deadline, iw_next_sequence = 1,
           iw_consumed = False, iw_stopped = False\<rparr>))"

definition check_consumed :: "issuer_window \<Rightarrow> scope \<Rightarrow> instant \<Rightarrow> unit result" where
  "check_consumed w s now =
     ensure (\<not> iw_stopped w \<and> \<not> iw_consumed w \<and> iw_next_sequence w = 2
         \<and> now < iw_deadline w \<and> s = ct_scope (iw_contract w))
       (LeaseE ConsumedChanged) (Inr ())"

definition acknowledge_consumed :: "issuer_window \<Rightarrow> scope \<Rightarrow> instant \<Rightarrow> issuer_window result" where
  "acknowledge_consumed w s now =
     rbind (check_consumed w s now) (\<lambda>_. Inr (w\<lparr>iw_consumed := True\<rparr>))"

definition issuer_stop :: "issuer_window \<Rightarrow> issuer_window" where
  "issuer_stop w = w\<lparr>iw_stopped := True\<rparr>"

definition close_after_report ::
  "issuer_window \<Rightarrow> scope \<Rightarrow> nat \<Rightarrow> instant \<Rightarrow> (nat \<times> issuer_window) result" where
  "close_after_report w s sequence now =
     ensure (\<not> iw_stopped w \<and> iw_consumed w \<and> now < iw_deadline w
         \<and> s = ct_scope (iw_contract w) \<and> sequence > 0 \<and> sequence < iw_next_sequence w)
       (LeaseE CompletionDiffers)
     (Inr (iw_next_sequence w - 1, w\<lparr>iw_stopped := True\<rparr>))"

text \<open>
  \<^verbatim>\<open>IssuerWindow::reply\<close>. The condition of the source's \<^verbatim>\<open>ensure!\<close> is evaluated from left
  to right; the two digests in the middle may return their own error.
\<close>

definition issuer_reply ::
  "'x lease_externals_scheme \<Rightarrow> issuer_window \<Rightarrow> lease_query \<Rightarrow> string \<Rightarrow> string \<Rightarrow> string
   \<Rightarrow> instant \<Rightarrow> instant \<Rightarrow> (lease_reply \<times> issuer_window) result" where
  "issuer_reply ext w q issuer session node now1 now2 =
     rbind (query_validate ext q) (\<lambda>_.
     ensure (\<not> iw_stopped w \<and> now1 < iw_deadline w
         \<and> scope_matches_session (ct_scope (iw_contract w)) issuer session node)
       (LeaseE IssuerChanged)
     (rbind (contract_digest ext (q_contract q)) (\<lambda>theirs.
      rbind (contract_digest ext (iw_contract w)) (\<lambda>ours.
      ensure (theirs = ours \<and> q_sequence q = iw_next_sequence w
          \<and> (q_sequence q = 1 \<or> iw_consumed w))
        (LeaseE IssuerChanged)
      (let remaining_ms = as_millis_u64 (since (iw_deadline w) now2);
           window_ms = min remaining_ms (ct_max_lease_ms (iw_contract w)) in
       ensure (window_ms > 5 + window_ms div 100) (LeaseE IssuerNoBudget)
       (rbind (or_err (checked_add (iw_next_sequence w) 1) (LeaseE IssuerExhausted)) (\<lambda>next.
        Inr (\<lparr>rp_kind = ''workload_lease'', rp_schema_version = 2, rp_id = q_id q,
              rp_contract_sha256 = ours, rp_sequence = q_sequence q,
              rp_lease_remaining_ms = window_ms, rp_session_remaining_ms = remaining_ms\<rparr>,
             w\<lparr>iw_next_sequence := next\<rparr>))))))))"

section \<open>Lease proofs\<close>

record lease_proof =
  pf_contract_sha256 :: string
  pf_sequence :: nat
  pf_deadline :: instant
  pf_session_deadline :: instant

text \<open>The closure \<^verbatim>\<open>deadline\<close> of \<^verbatim>\<open>LeaseProof::confirm\<close>.\<close>

definition conservative_deadline ::
  "'x externals_scheme \<Rightarrow> instant \<Rightarrow> nat \<Rightarrow> instant result" where
  "conservative_deadline ext sent ms =
     rbind (case checked_sub ms (5 + ms div 100) of
              None \<Rightarrow> Inl (ProofE NoConservativeBudget)
            | Some v \<Rightarrow> if v > 0 then Inr v else Inl (ProofE NoConservativeBudget)) (\<lambda>budget.
     or_err (instant_checked_add ext sent (from_millis budget)) (ProofE LeaseTimeOverflow))"

definition proof_confirm ::
  "'x lease_externals_scheme \<Rightarrow> lease_query \<Rightarrow> lease_reply \<Rightarrow> instant
   \<Rightarrow> instant \<Rightarrow> instant \<Rightarrow> instant \<Rightarrow> lease_proof result" where
  "proof_confirm ext q r sent now1 now2 now3 =
     rbind (query_validate ext q) (\<lambda>_.
     ensure (reply_matches ext r q \<and> sent \<le> now1 \<and> since now2 sent < PROBE_TIMEOUT)
       (ProofE ChallengeExpired)
     (ensure (rp_lease_remaining_ms r > 0
          \<and> rp_lease_remaining_ms r \<le> ct_max_lease_ms (q_contract q)
          \<and> rp_lease_remaining_ms r \<le> rp_session_remaining_ms r
          \<and> rp_session_remaining_ms r \<le> ct_max_session_ms (q_contract q))
        (ProofE LeaseWidened)
      (rbind (contract_digest ext (q_contract q)) (\<lambda>digest.
       rbind (conservative_deadline ext sent (rp_lease_remaining_ms r)) (\<lambda>deadline.
       rbind (conservative_deadline ext sent (rp_session_remaining_ms r)) (\<lambda>session_deadline.
       ensure (now3 < min deadline session_deadline) (ProofE RoundTripConsumed)
       (Inr \<lparr>pf_contract_sha256 = digest, pf_sequence = q_sequence q, pf_deadline = deadline,
             pf_session_deadline = session_deadline\<rparr>)))))))"

definition initial_deadline ::
  "'x lease_externals_scheme \<Rightarrow> lease_proof \<Rightarrow> contract \<Rightarrow> lease_policy \<Rightarrow> instant
   \<Rightarrow> instant result" where
  "initial_deadline ext pf c p now =
     rbind (contract_permitted ext c p) (\<lambda>_.
     ensure (pf_sequence pf = 1) (ProofE InitialScopeChanged)
     (rbind (contract_digest ext c) (\<lambda>d.
      ensure (pf_contract_sha256 pf = d) (ProofE InitialScopeChanged)
      (ensure (now < min (pf_deadline pf) (pf_session_deadline pf)) (ProofE InitialExpired)
       (Inr (min (pf_deadline pf) (pf_session_deadline pf)))))))"

section \<open>The challenge correlator\<close>

text \<open>
  A pending challenge. \<open>pd_closed\<close> says that the receiving half of the one-shot channel was
  dropped; the environment sets it, \<^verbatim>\<open>Requests::request\<close> reads it.
\<close>

record pending =
  pd_query :: lease_query
  pd_sent :: instant
  pd_sent_wall :: millis
  pd_closed :: bool

type_synonym requests = "(string \<times> pending) list"

text \<open>The locked part of \<^verbatim>\<open>Requests::request\<close>: build the probe and register it.\<close>

definition requests_register ::
  "'x lease_externals_scheme \<Rightarrow> requests \<Rightarrow> contract \<Rightarrow> nat \<Rightarrow> string \<Rightarrow> instant \<Rightarrow> millis
   \<Rightarrow> (lease_query \<times> requests) result" where
  "requests_register ext m c sequence fresh now wall =
     (let q = \<lparr>q_kind = ''workload_lease_probe'', q_schema_version = 2, q_id = fresh,
               q_contract = c, q_sequence = sequence\<rparr> in
      rbind (query_validate ext q) (\<lambda>_.
      let open_entries = kv_retain (\<lambda>p. \<not> pd_closed p) m in
      ensure (length open_entries < MAX_PENDING) (ProofE ChallengeCapacity)
      (Inr (q, kv_put fresh \<lparr>pd_query = q, pd_sent = now, pd_sent_wall = wall,
                             pd_closed = False\<rparr> open_entries))))"

text \<open>\<^verbatim>\<open>Drop for Cleanup\<close>.\<close>

definition requests_cleanup :: "requests \<Rightarrow> string \<Rightarrow> requests" where
  "requests_cleanup m i = kv_del i m"

text \<open>
  \<^verbatim>\<open>Requests::complete\<close> after the reply parsed. The second component is what is sent to the
  waiting challenge, \<^const>\<open>None\<close> when the reply is ignored.
\<close>

definition requests_complete ::
  "'x lease_externals_scheme \<Rightarrow> requests \<Rightarrow> lease_reply \<Rightarrow> instant \<Rightarrow> millis
   \<Rightarrow> instant \<Rightarrow> instant \<Rightarrow> instant \<Rightarrow> requests \<times> (lease_proof result) option" where
  "requests_complete ext m r now0 wall now1 now2 now3 =
     (case map_of m (rp_id r) of
        None \<Rightarrow> (m, None)
      | Some entry \<Rightarrow>
          if \<not> reply_matches ext r (pd_query entry) then (m, None)
          else
            let expected = saturating_add (pd_sent_wall entry)
                             (as_millis_u64 (since now0 (pd_sent entry))) in
            (kv_del (rp_id r) m,
             Some (if abs_diff wall expected > 1000 then Inl (ProofE ChallengeClock)
                   else proof_confirm ext (pd_query entry) r (pd_sent entry) now1 now2 now3)))"

section \<open>Lemmas: contracts and digests\<close>

lemma lease_policy_validate_ok [simp]:
  "lease_policy_validate p = Inr () \<longleftrightarrow>
     1 \<le> lp_max_session_ms p \<and> lp_max_session_ms p \<le> MAX_SESSION_MS
     \<and> 1 \<le> lp_max_lease_ms p \<and> lp_max_lease_ms p \<le> MAX_LEASE_MS
     \<and> lp_max_lease_ms p \<le> lp_max_session_ms p"
  by (simp add: lease_policy_validate_def)

lemma contract_validate_ok:
  "contract_validate ext c = Inr () \<longleftrightarrow>
     scope_validate ext (ct_scope c) = Inr () \<and> ct_schema_version c = 2
     \<and> 1 \<le> ct_max_session_ms c \<and> ct_max_session_ms c \<le> MAX_SESSION_MS
     \<and> 1 \<le> ct_max_lease_ms c \<and> ct_max_lease_ms c \<le> MAX_LEASE_MS
     \<and> ct_max_lease_ms c \<le> ct_max_session_ms c"
  by (simp add: contract_validate_def)

lemma contract_digest_ok:
  "contract_digest ext c = Inr d \<longleftrightarrow>
     contract_validate ext c = Inr () \<and> d = definition_digest ext (contract_json ext c)"
  by (auto simp: contract_digest_def)

lemma contract_permitted_ok:
  "contract_permitted ext c p = Inr () \<longleftrightarrow>
     contract_validate ext c = Inr () \<and> lease_policy_validate p = Inr () \<and> lp_enabled p
     \<and> ct_max_session_ms c \<le> lp_max_session_ms p \<and> ct_max_lease_ms c \<le> lp_max_lease_ms p"
  by (simp add: contract_permitted_def)

lemma query_validate_ok:
  "query_validate ext q = Inr () \<longleftrightarrow>
     contract_validate ext (q_contract q) = Inr () \<and> uuid ext (q_id q) = Inr ()
     \<and> q_kind q = ''workload_lease_probe'' \<and> q_schema_version q = 2 \<and> q_sequence q > 0"
  by (simp add: query_validate_def)

text \<open>
  Two contracts collide when they are different and yet have the same digest; the encoder
  and the hash make that a matter of two byte strings.
\<close>

definition digest_collision ::
  "'x lease_externals_scheme \<Rightarrow> contract \<Rightarrow> contract \<Rightarrow> bool" where
  "digest_collision ext a b \<longleftrightarrow>
     a \<noteq> b \<and> definition_digest ext (contract_json ext a) = definition_digest ext (contract_json ext b)"

lemma contract_digest_inject:
  assumes "contract_digest ext a = Inr d" and "contract_digest ext b = Inr d"
    and "\<not> digest_collision ext a b"
  shows "a = b"
  using assms by (auto simp: contract_digest_ok digest_collision_def)

lemma reply_matches_digest:
  "reply_matches ext r q \<longleftrightarrow>
     rp_kind r = ''workload_lease'' \<and> rp_schema_version r = 2 \<and> rp_id r = q_id q
     \<and> rp_sequence r = q_sequence q
     \<and> contract_digest ext (q_contract q) = Inr (rp_contract_sha256 r)"
  by (auto simp: reply_matches_def split: sum.splits)

section \<open>Lemmas: issuer\<close>

lemma issuer_reply_InrD:
  assumes "issuer_reply ext w q issuer session node now1 now2 = Inr (r, w')"
  shows "query_validate ext q = Inr ()" "\<not> iw_stopped w" "now1 < iw_deadline w"
    and "scope_matches_session (ct_scope (iw_contract w)) issuer session node"
    and "contract_digest ext (q_contract q) = contract_digest ext (iw_contract w)"
    and "q_sequence q = iw_next_sequence w" "q_sequence q = 1 \<or> iw_consumed w"
    and "rp_session_remaining_ms r = as_millis_u64 (since (iw_deadline w) now2)"
    and "rp_lease_remaining_ms r =
           min (rp_session_remaining_ms r) (ct_max_lease_ms (iw_contract w))"
    and "rp_lease_remaining_ms r > 5 + rp_lease_remaining_ms r div 100"
    and "w' = w\<lparr>iw_next_sequence := iw_next_sequence w + 1\<rparr>" "iw_next_sequence w < u64_max"
    and "rp_sequence r = iw_next_sequence w" "rp_id r = q_id q"
    and "contract_digest ext (iw_contract w) = Inr (rp_contract_sha256 r)"
    and "reply_matches ext r q"
  using assms unfolding issuer_reply_def Let_def by (auto simp: reply_matches_digest)

text \<open>The time a reply grants ends at the issuer's deadline or before it.\<close>

lemma issuer_reply_remaining:
  assumes "issuer_reply ext w q issuer session node now1 now2 = Inr (r, w')"
  shows "now2 + from_millis (rp_session_remaining_ms r) \<le> iw_deadline w"
proof -
  have eq: "rp_session_remaining_ms r = as_millis_u64 (since (iw_deadline w) now2)"
    and lim: "rp_lease_remaining_ms r > 5 + rp_lease_remaining_ms r div 100"
    and le: "rp_lease_remaining_ms r \<le> rp_session_remaining_ms r"
    using issuer_reply_InrD [OF assms] by simp_all
  have pos: "0 < from_millis (rp_session_remaining_ms r)"
    using lim le by (simp add: from_millis_def ns_per_ms_def)
  have "from_millis (rp_session_remaining_ms r) \<le> since (iw_deadline w) now2"
    unfolding eq by (rule as_millis_u64_le)
  with pos show ?thesis by (simp add: since_def)
qed

section \<open>Lemmas: proofs\<close>

lemma conservative_deadline_InrD:
  assumes "conservative_deadline ext sent ms = Inr d"
  shows "d = sent + from_millis (ms - (5 + ms div 100))" "5 + ms div 100 < ms"
    and "d \<le> instant_max ext"
  using assms unfolding conservative_deadline_def
  by (auto simp: instant_checked_add_def checked_sub_def split: if_splits option.splits)

lemma conservative_deadline_mono:
  assumes "conservative_deadline ext sent a = Inr d" "conservative_deadline ext sent b = Inr e"
    and "a \<le> b"
  shows "d \<le> e"
proof -
  obtain k where b: "b = a + k" using \<open>a \<le> b\<close> le_Suc_ex by blast
  have "(a + k) div 100 \<le> a div 100 + k" by (induction k) auto
  then have "a - (5 + a div 100) \<le> b - (5 + b div 100)" using b by linarith
  then show ?thesis
    using conservative_deadline_InrD(1) [OF assms(1)] conservative_deadline_InrD(1) [OF assms(2)]
    by (simp add: from_millis_def)
qed

lemma proof_confirm_InrD:
  assumes "proof_confirm ext q r sent now1 now2 now3 = Inr pf"
  shows "query_validate ext q = Inr ()" "reply_matches ext r q" "sent \<le> now1"
    and "since now2 sent < PROBE_TIMEOUT"
    and "rp_lease_remaining_ms r \<le> ct_max_lease_ms (q_contract q)"
    and "rp_lease_remaining_ms r \<le> rp_session_remaining_ms r"
    and "rp_session_remaining_ms r \<le> ct_max_session_ms (q_contract q)"
    and "contract_digest ext (q_contract q) = Inr (pf_contract_sha256 pf)"
    and "pf_sequence pf = q_sequence q"
    and "conservative_deadline ext sent (rp_lease_remaining_ms r) = Inr (pf_deadline pf)"
    and "conservative_deadline ext sent (rp_session_remaining_ms r) = Inr (pf_session_deadline pf)"
    and "now3 < pf_deadline pf" "now3 < pf_session_deadline pf"
  using assms unfolding proof_confirm_def by auto

text \<open>The lease of a confirmed proof never outlasts its own session deadline.\<close>

lemma proof_confirm_deadlines:
  assumes "proof_confirm ext q r sent now1 now2 now3 = Inr pf"
  shows "pf_deadline pf \<le> pf_session_deadline pf"
  using proof_confirm_InrD(6,10,11) [OF assms] conservative_deadline_mono by blast

section \<open>Lemmas: correlator\<close>

definition requests_ok :: "requests \<Rightarrow> bool" where
  "requests_ok m \<longleftrightarrow> distinct (map fst m) \<and> length m \<le> MAX_PENDING
     \<and> (\<forall>(i, p) \<in> set m. q_id (pd_query p) = i)"

lemma requests_ok_register:
  assumes "requests_ok m"
    and "requests_register ext m c sequence fresh now wall = Inr (q, m')"
  shows "requests_ok m'" "map_of m' fresh \<noteq> None" "q_id q = fresh"
proof -
  let ?m = "kv_retain (\<lambda>p. \<not> pd_closed p) m"
  let ?p = "\<lparr>pd_query = q, pd_sent = now, pd_sent_wall = wall, pd_closed = False\<rparr>"
  have m': "m' = kv_put fresh ?p ?m" and q: "q_id q = fresh" and cap: "length ?m < MAX_PENDING"
    using assms(2) by (auto simp: requests_register_def Let_def)
  have "distinct (map fst m')"
    using assms(1) m' by (simp add: requests_ok_def distinct_kv_put distinct_kv_retain)
  moreover have "length m' \<le> MAX_PENDING"
    using length_kv_put [of fresh ?p ?m] cap m' by simp
  moreover have "\<forall>(i, p) \<in> set m'. q_id (pd_query p) = i"
    using assms(1) m' q by (auto simp: requests_ok_def kv_put_def kv_del_def kv_retain_def)
  ultimately show "requests_ok m'" by (simp add: requests_ok_def)
  show "map_of m' fresh \<noteq> None" using m' by simp
  show "q_id q = fresh" by (rule q)
qed

lemma requests_ok_del: "requests_ok m \<Longrightarrow> requests_ok (kv_del i m)"
  using length_kv_del [of i m]
  by (auto simp: requests_ok_def distinct_kv_del) (auto simp: kv_del_def)

lemma requests_ok_cleanup: "requests_ok m \<Longrightarrow> requests_ok (requests_cleanup m i)"
  by (simp add: requests_cleanup_def requests_ok_del)

lemma requests_complete_ok:
  "requests_ok m \<Longrightarrow> requests_ok (fst (requests_complete ext m r now0 wall now1 now2 now3))"
  by (simp add: requests_complete_def Let_def requests_ok_del split: option.splits)

end
