(* ===== verification/Machines.thy ===== *)
theory Machines
  imports Prelude
begin

text \<open>
  Runs of labelled step relations and the two contracts the components' state machines
  meet: an invariant that every step keeps, and a preorder along which every step moves
  (nothing recorded is lost, no deadline grows). The components interpret the locales on
  their own step relations; the run lemmas are proved once, here.
\<close>

inductive run :: "('s \<Rightarrow> 'e \<Rightarrow> 's \<Rightarrow> bool) \<Rightarrow> 's \<Rightarrow> 'e list \<Rightarrow> 's \<Rightarrow> bool"
  for step where
  run_nil: "run step s [] s"
| run_cons: "step s e t \<Longrightarrow> run step t es u \<Longrightarrow> run step s (e # es) u"

inductive_simps run_Nil_iff [simp]: "run step s [] t"
inductive_simps run_Cons_iff [simp]: "run step s (e # es) t"

lemma run_append [simp]:
  "run step s (es @ fs) u \<longleftrightarrow> (\<exists>t. run step s es t \<and> run step t fs u)"
  by (induction es arbitrary: s) auto

lemma run_single: "run step s [e] t \<longleftrightarrow> step s e t"
  by simp

locale invariant_machine =
  fixes step :: "'s \<Rightarrow> 'e \<Rightarrow> 's \<Rightarrow> bool"
    and inv :: "'s \<Rightarrow> bool"
  assumes step_inv: "inv s \<Longrightarrow> step s e t \<Longrightarrow> inv t"
begin

lemma run_inv: "run step s es t \<Longrightarrow> inv s \<Longrightarrow> inv t"
  by (induction rule: run.induct) (auto intro: step_inv)

end

locale monotone_machine = invariant_machine +
  fixes le :: "'s \<Rightarrow> 's \<Rightarrow> bool"
  assumes le_refl: "le s s"
    and le_trans: "le s t \<Longrightarrow> le t u \<Longrightarrow> le s u"
    and step_le: "inv s \<Longrightarrow> step s e t \<Longrightarrow> le s t"
begin

lemma run_le: "run step s es t \<Longrightarrow> inv s \<Longrightarrow> le s t"
proof (induction rule: run.induct)
  case (run_nil s)
  show ?case by (rule le_refl)
next
  case (run_cons s e t es u)
  then show ?case by (blast intro: step_inv step_le le_trans)
qed

text \<open>What a step forbids to its own successors holds for every later step of a run.\<close>

lemma run_blocks:
  assumes "run step s es t" and "inv s" and "Q s"
    and "\<And>a b. Q a \<Longrightarrow> le a b \<Longrightarrow> Q b"
  shows "Q t"
  using assms run_le by blast

end

end
