(* ===== verification/Workload_Window.thy ===== *)
theory Workload_Window
  imports Workload_Leases Machines
begin

text \<open>
  The node side of a session lease: the reporting lifetime (\<^verbatim>\<open>workload_reporting.rs\<close>), the
  renewed window and the supervisor loop (\<^verbatim>\<open>workload_leases.rs\<close>).

  The source shares the reporting state through an \<^verbatim>\<open>Arc<Mutex<State>>\<close> between the
  window's guard, the authority handles and the checkpoints of one runner; here it is one
  explicit value \<open>reporting\<close> that every operation takes and returns. Dropping the guard is
  the explicit call of \<open>reporting_retire\<close>.
\<close>

section \<open>Reporting lifetime\<close>

record reporting =
  rs_contract_sha256 :: string
  rs_started :: bool
  rs_retired :: bool
  rs_sequence :: nat
  rs_deadline :: "instant option"

record lease_window =
  wd_digest :: string
  wd_sequence :: nat
  wd_deadline :: instant
  wd_session_deadline :: instant
  wd_reporting :: bool  \<comment> \<open>whether the window owns a bound reporting guard\<close>

record checkpoint =
  cp_contract_sha256 :: string
  cp_sequence :: nat
  cp_deadline :: instant

definition window_live :: "lease_window \<Rightarrow> instant \<Rightarrow> unit result" where
  "window_live w now =
     ensure (now < min (wd_deadline w) (wd_session_deadline w)) (WindowE LeaseExpired) (Inr ())"

definition reporting_new :: "'x lease_externals_scheme \<Rightarrow> contract \<Rightarrow> reporting result" where
  "reporting_new ext c =
     rbind (contract_digest ext c) (\<lambda>d.
       Inr \<lparr>rs_contract_sha256 = d, rs_started = False, rs_retired = False, rs_sequence = 0,
            rs_deadline = None\<rparr>)"

definition reporting_checkpoint ::
  "'x lease_externals_scheme \<Rightarrow> reporting \<Rightarrow> contract \<Rightarrow> instant \<Rightarrow> checkpoint result" where
  "reporting_checkpoint ext rs c now =
     rbind (contract_digest ext c) (\<lambda>digest.
     ensure (rs_contract_sha256 rs = digest \<and> rs_started rs \<and> \<not> rs_retired rs)
       (WindowE ReportingInactive)
     (rbind (or_err (rs_deadline rs) (WindowE ReportingUnavailable)) (\<lambda>deadline.
      ensure (now < deadline) (WindowE ReportingExpired)
      (Inr \<lparr>cp_contract_sha256 = digest, cp_sequence = rs_sequence rs, cp_deadline = deadline\<rparr>))))"

definition reporting_retire :: "reporting \<Rightarrow> reporting" where
  "reporting_retire rs = rs\<lparr>rs_retired := True, rs_deadline := None\<rparr>"

definition checkpoint_check ::
  "'x lease_externals_scheme \<Rightarrow> checkpoint \<Rightarrow> reporting \<Rightarrow> contract \<Rightarrow> instant \<Rightarrow> unit result" where
  "checkpoint_check ext cp rs c now =
     rbind (contract_digest ext c) (\<lambda>digest.
     ensure (digest = cp_contract_sha256 cp) (WindowE CheckpointScope)
     (ensure (rs_contract_sha256 rs = cp_contract_sha256 cp \<and> rs_started rs \<and> \<not> rs_retired rs
          \<and> cp_sequence cp \<le> rs_sequence rs
          \<and> (case rs_deadline rs of None \<Rightarrow> False
              | Some current \<Rightarrow> now < min current (cp_deadline cp)))
        (WindowE CheckpointRetired) (Inr ())))"

definition guard_bind :: "reporting \<Rightarrow> lease_window \<Rightarrow> instant \<Rightarrow> reporting result" where
  "guard_bind rs w now =
     ensure (rs_contract_sha256 rs = wd_digest w \<and> \<not> rs_started rs \<and> \<not> rs_retired rs)
       (WindowE ReportingBound)
     (rbind (window_live w now) (\<lambda>_.
      Inr (rs\<lparr>rs_started := True, rs_sequence := wd_sequence w,
              rs_deadline := Some (min (wd_deadline w) (wd_session_deadline w))\<rparr>)))"

definition guard_advance :: "reporting \<Rightarrow> lease_window \<Rightarrow> instant \<Rightarrow> reporting result" where
  "guard_advance rs w now =
     ensure (rs_contract_sha256 rs = wd_digest w \<and> rs_started rs \<and> \<not> rs_retired rs
         \<and> checked_add (rs_sequence rs) 1 = Some (wd_sequence w))
       (WindowE ReportingRenewal)
     (rbind (window_live w now) (\<lambda>_.
      Inr (rs\<lparr>rs_sequence := wd_sequence w,
              rs_deadline := Some (min (wd_deadline w) (wd_session_deadline w))\<rparr>)))"

section \<open>Window\<close>

definition window_new ::
  "'x lease_externals_scheme \<Rightarrow> contract \<Rightarrow> lease_policy \<Rightarrow> lease_proof \<Rightarrow> instant
   \<Rightarrow> lease_window result" where
  "window_new ext c p pf now =
     rbind (contract_permitted ext c p) (\<lambda>_.
     rbind (contract_digest ext c) (\<lambda>d.
     ensure (pf_contract_sha256 pf = d \<and> pf_sequence pf = 1) (ProofE InitialScopeChanged)
     (let w = \<lparr>wd_digest = pf_contract_sha256 pf, wd_sequence = 1, wd_deadline = pf_deadline pf,
               wd_session_deadline = pf_session_deadline pf, wd_reporting = False\<rparr> in
      rbind (window_live w now) (\<lambda>_. Inr w))))"

text \<open>
  \<^verbatim>\<open>Window::new_with_reporting\<close>. Every failure drops the guard, which retires the lifetime.
\<close>

definition window_new_with_reporting ::
  "'x lease_externals_scheme \<Rightarrow> contract \<Rightarrow> lease_policy \<Rightarrow> lease_proof \<Rightarrow> reporting option
   \<Rightarrow> instant \<Rightarrow> instant \<Rightarrow> lease_window result \<times> reporting option" where
  "window_new_with_reporting ext c p pf reporting now1 now2 =
     (case window_new ext c p pf now1 of
        Inl e \<Rightarrow> (Inl e, map_option reporting_retire reporting)
      | Inr w \<Rightarrow>
          (case reporting of
             None \<Rightarrow> (Inr w, None)
           | Some rs \<Rightarrow>
               (case guard_bind rs w now2 of
                  Inl e \<Rightarrow> (Inl e, Some (reporting_retire rs))
                | Inr rs' \<Rightarrow> (Inr (w\<lparr>wd_reporting := True\<rparr>), Some rs'))))"

text \<open>
  \<^verbatim>\<open>Window::advance\<close>. The window fields are written before the guard advances, so a
  refusal by the guard leaves the renewed window behind with the error.
\<close>

definition window_advance ::
  "lease_window \<Rightarrow> reporting option \<Rightarrow> lease_proof \<Rightarrow> instant \<Rightarrow> instant \<Rightarrow> instant
   \<Rightarrow> unit result \<times> lease_window \<times> reporting option" where
  "window_advance w reporting pf now1 now2 now3 =
     (let checked =
        rbind (window_live w now1) (\<lambda>_.
        ensure (pf_contract_sha256 pf = wd_digest w
            \<and> Some (pf_sequence pf) = checked_add (wd_sequence w) 1)
          (WindowE RenewalChanged)
        (let session_deadline = min (wd_session_deadline w) (pf_session_deadline pf) in
         ensure (now2 < min (pf_deadline pf) session_deadline) (WindowE RenewalExpired)
         (Inr (w\<lparr>wd_sequence := pf_sequence pf, wd_deadline := pf_deadline pf,
                 wd_session_deadline := session_deadline\<rparr>)))) in
      case checked of
        Inl e \<Rightarrow> (Inl e, w, reporting)
      | Inr w' \<Rightarrow>
          (case reporting of
             Some rs \<Rightarrow>
               if wd_reporting w' then
                 (case guard_advance rs w' now3 of
                    Inl e \<Rightarrow> (Inl e, w', reporting)
                  | Inr rs' \<Rightarrow> (Inr (), w', Some rs'))
               else (Inr (), w', reporting)
           | None \<Rightarrow> (Inr (), w', reporting)))"

section \<open>Supervisor\<close>

record finish_boundary =
  fb_digest :: string
  fb_sequence :: nat
  fb_finished_at :: instant
  fb_deadline :: instant

definition boundary_validate ::
  "'x lease_externals_scheme \<Rightarrow> finish_boundary \<Rightarrow> contract \<Rightarrow> unit result" where
  "boundary_validate ext b c =
     rbind (contract_digest ext c) (\<lambda>d.
     ensure (fb_digest b = d \<and> fb_sequence b > 0 \<and> fb_finished_at b < fb_deadline b)
       (WindowE BoundaryDiffers) (Inr ()))"

text \<open>
  One iteration of the loop in \<^verbatim>\<open>supervise_inner\<close>: the clock readings it makes and which
  branches of \<^verbatim>\<open>tokio::select!\<close> are ready. The renewal branch yields a proof or, when
  every sender is gone, \<^const>\<open>None\<close>. An iteration with no ready branch is still pending.
\<close>

record 'v poll =
  pl_live :: instant
  pl_timer :: bool
  pl_renewal :: "lease_proof option option"
  pl_operation :: "'v result option"
  pl_now1 :: instant
  pl_now2 :: instant
  pl_now3 :: instant
  pl_now4 :: instant

record 'v finished =
  fn_value :: 'v
  fn_boundary :: finish_boundary

text \<open>The branch taken when the operation is ready.\<close>

definition supervise_finish ::
  "'x lease_externals_scheme \<Rightarrow> contract \<Rightarrow> lease_window \<Rightarrow> reporting option \<Rightarrow> 'v result
   \<Rightarrow> 'v poll \<Rightarrow> 'v finished result" where
  "supervise_finish ext c w reporting v i =
     rbind (window_live w (pl_now1 i)) (\<lambda>_.
     rbind (case reporting of None \<Rightarrow> Inr ()
            | Some rs \<Rightarrow> rbind (reporting_checkpoint ext rs c (pl_now2 i)) (\<lambda>cp.
                         checkpoint_check ext cp rs c (pl_now3 i))) (\<lambda>_.
     rbind v (\<lambda>value.
     let b = \<lparr>fb_digest = wd_digest w, fb_sequence = wd_sequence w, fb_finished_at = pl_now4 i,
              fb_deadline = min (wd_deadline w) (wd_session_deadline w)\<rparr> in
     rbind (boundary_validate ext b c) (\<lambda>_. Inr \<lparr>fn_value = value, fn_boundary = b\<rparr>))))"

text \<open>
  One iteration: it goes on with a window, reporting state and renewal channel, or returns
  (every return retires the shared reporting state through the window's guard), or waits.
\<close>

datatype 'v loop_step =
    Continue lease_window "reporting option" bool
  | Return "'v finished result" "reporting option"
  | Waiting

definition supervise_step ::
  "'x lease_externals_scheme \<Rightarrow> contract \<Rightarrow> lease_window \<Rightarrow> reporting option \<Rightarrow> bool
   \<Rightarrow> 'v poll \<Rightarrow> 'v loop_step" where
  "supervise_step ext c w rs closed i =
     (case window_live w (pl_live i) of
        Inl e \<Rightarrow> Return (Inl e) (map_option reporting_retire rs)
      | Inr _ \<Rightarrow>
          if pl_timer i then Return (Inl (WindowE LeaseExpired)) (map_option reporting_retire rs)
          else
            (case (closed, pl_renewal i) of
               (False, Some (Some pf)) \<Rightarrow>
                 (case window_advance w rs pf (pl_now1 i) (pl_now2 i) (pl_now3 i) of
                    (Inl e, w', rs') \<Rightarrow> Return (Inl e) (map_option reporting_retire rs')
                  | (Inr _, w', rs') \<Rightarrow> Continue w' rs' closed)
             | (False, Some None) \<Rightarrow> Continue w rs True
             | _ \<Rightarrow>
                 (case pl_operation i of
                    Some v \<Rightarrow> Return (supervise_finish ext c w rs v i) (map_option reporting_retire rs)
                  | None \<Rightarrow> Waiting)))"

text \<open>
  The loop over the iterations the environment provides; the result is \<^const>\<open>None\<close> while
  the future is pending.
\<close>

primrec supervise_loop ::
  "'x lease_externals_scheme \<Rightarrow> contract \<Rightarrow> 'v poll list \<Rightarrow> lease_window \<Rightarrow> reporting option
   \<Rightarrow> bool \<Rightarrow> 'v finished result option \<times> reporting option" where
  "supervise_loop ext c [] w rs closed = (None, rs)"
| "supervise_loop ext c (i # ps) w rs closed =
     (case supervise_step ext c w rs closed i of
        Continue w' rs' closed' \<Rightarrow> supervise_loop ext c ps w' rs' closed'
      | Return r rs' \<Rightarrow> (Some r, rs')
      | Waiting \<Rightarrow> (None, rs))"

definition supervise_inner ::
  "'x lease_externals_scheme \<Rightarrow> contract \<Rightarrow> lease_policy \<Rightarrow> lease_proof \<Rightarrow> reporting option
   \<Rightarrow> instant \<Rightarrow> instant \<Rightarrow> 'v poll list \<Rightarrow> 'v finished result option \<times> reporting option" where
  "supervise_inner ext c p initial reporting now1 now2 polls =
     (case window_new_with_reporting ext c p initial reporting now1 now2 of
        (Inl e, rs) \<Rightarrow> (Some (Inl e), rs)
      | (Inr w, rs) \<Rightarrow> supervise_loop ext c polls w rs False)"

section \<open>Lemmas: window\<close>

lemma window_live_ok [simp]:
  "window_live w now = Inr () \<longleftrightarrow> now < wd_deadline w \<and> now < wd_session_deadline w"
  by (simp add: window_live_def)

lemma window_new_InrD:
  assumes "window_new ext c p pf now = Inr w"
  shows "contract_permitted ext c p = Inr ()" "contract_digest ext c = Inr (wd_digest w)"
    and "pf_contract_sha256 pf = wd_digest w" "pf_sequence pf = 1" "wd_sequence w = 1"
    and "wd_deadline w = pf_deadline pf" "wd_session_deadline w = pf_session_deadline pf"
    and "\<not> wd_reporting w"
  using assms unfolding window_new_def Let_def by auto

text \<open>What one accepted renewal does to the window.\<close>

lemma window_advance_InrD:
  assumes "window_advance w rs pf now1 now2 now3 = (Inr x, w', rs')"
  shows "pf_contract_sha256 pf = wd_digest w" "pf_sequence pf = wd_sequence w + 1"
    and "wd_digest w' = wd_digest w" "wd_sequence w' = wd_sequence w + 1"
    and "wd_deadline w' = pf_deadline pf"
    and "wd_session_deadline w' = min (wd_session_deadline w) (pf_session_deadline pf)"
    and "wd_reporting w' = wd_reporting w"
    and "now1 < wd_deadline w" "now1 < wd_session_deadline w"
  using assms unfolding window_advance_def Let_def
  by (auto split: sum.splits option.splits if_splits)

section \<open>Lemmas: reporting\<close>

text \<open>A bound lifetime mirrors its window: same scope, sequence and earliest deadline.\<close>

definition reporting_synced :: "lease_window \<Rightarrow> reporting option \<Rightarrow> bool" where
  "reporting_synced w reporting \<longleftrightarrow>
     (case reporting of None \<Rightarrow> \<not> wd_reporting w
      | Some rs \<Rightarrow> wd_reporting w \<and> rs_contract_sha256 rs = wd_digest w \<and> rs_started rs
          \<and> \<not> rs_retired rs \<and> rs_sequence rs = wd_sequence w
          \<and> rs_deadline rs = Some (min (wd_deadline w) (wd_session_deadline w)))"

lemma guard_bind_InrD:
  assumes "guard_bind rs w now = Inr rs'"
  shows "rs_contract_sha256 rs = wd_digest w" "\<not> rs_started rs" "\<not> rs_retired rs"
    and "rs' = rs\<lparr>rs_started := True, rs_sequence := wd_sequence w,
                  rs_deadline := Some (min (wd_deadline w) (wd_session_deadline w))\<rparr>"
  using assms by (auto simp: guard_bind_def)

lemma window_new_with_reporting_synced:
  assumes "window_new_with_reporting ext c p pf rs now1 now2 = (Inr w, rs')"
  shows "reporting_synced w rs'"
  using assms unfolding window_new_with_reporting_def reporting_synced_def
  by (auto simp: guard_bind_def dest: window_new_InrD(8) split: sum.splits option.splits)

lemma window_advance_synced:
  assumes "window_advance w rs pf now1 now2 now3 = (Inr x, w', rs')" and "reporting_synced w rs"
  shows "reporting_synced w' rs'"
  using assms unfolding window_advance_def Let_def reporting_synced_def guard_advance_def
  by (auto split: sum.splits option.splits if_splits)

text \<open>A retired lifetime stays retired and answers no checkpoint.\<close>

lemma reporting_retire_retired [simp]: "rs_retired (reporting_retire rs)"
  by (simp add: reporting_retire_def)

lemma retired_no_checkpoint: "rs_retired rs \<Longrightarrow> reporting_checkpoint ext rs c now \<noteq> Inr cp"
  by (auto simp: reporting_checkpoint_def)

lemma retired_no_check: "rs_retired rs \<Longrightarrow> checkpoint_check ext cp rs c now \<noteq> Inr x"
  by (auto simp: checkpoint_check_def)

lemma checkpoint_check_InrD:
  assumes "checkpoint_check ext cp rs c now = Inr x"
  shows "contract_digest ext c = Inr (cp_contract_sha256 cp)" "now < cp_deadline cp"
    and "rs_started rs" "\<not> rs_retired rs" "cp_sequence cp \<le> rs_sequence rs"
    and "\<exists>d. rs_deadline rs = Some d \<and> now < d"
  using assms by (auto simp: checkpoint_check_def split: option.splits)

section \<open>Lemmas: supervisor\<close>

text \<open>The number of proofs among the renewals that the loop can still receive.\<close>

definition renewals_in :: "'v poll list \<Rightarrow> nat" where
  "renewals_in ps = count_if (\<lambda>i. \<exists>pf. pl_renewal i = Some (Some pf)) ps"

lemma renewals_in_simps [simp]:
  "renewals_in [] = 0"
  "renewals_in (i # ps) =
     (if \<exists>pf. pl_renewal i = Some (Some pf) then 1 else 0) + renewals_in ps"
  by (simp_all add: renewals_in_def count_if_def)

lemma supervise_finish_InrD:
  assumes "supervise_finish ext c w rs v i = Inr f"
  shows "v = Inr (fn_value f)"
    and "fb_digest (fn_boundary f) = wd_digest w" "fb_sequence (fn_boundary f) = wd_sequence w"
    and "fb_finished_at (fn_boundary f) < wd_session_deadline w"
    and "fb_finished_at (fn_boundary f) < wd_deadline w"
    and "contract_digest ext c = Inr (wd_digest w)" "pl_now1 i < wd_deadline w"
  using assms unfolding supervise_finish_def boundary_validate_def Let_def
  by (auto split: option.splits)

lemma supervise_step_Continue:
  assumes "supervise_step ext c w rs closed i = Continue w' rs' closed'"
  shows "wd_digest w' = wd_digest w" "wd_session_deadline w' \<le> wd_session_deadline w"
    and "wd_sequence w \<le> wd_sequence w'"
    and "wd_sequence w' \<le>
           wd_sequence w + (if \<exists>pf. pl_renewal i = Some (Some pf) then 1 else 0)"
    and "reporting_synced w rs \<Longrightarrow> reporting_synced w' rs'"
  using assms unfolding supervise_step_def
  by (auto dest: window_advance_InrD window_advance_synced
      split: sum.splits option.splits if_splits prod.splits bool.splits)

lemma supervise_step_Return:
  assumes "supervise_step ext c w rs closed i = Return r rs'"
  shows "r = Inr f \<Longrightarrow> \<exists>v. pl_operation i = Some v \<and> supervise_finish ext c w rs v i = Inr f"
    and "rs' = Some s \<Longrightarrow> rs_retired s"
  using assms unfolding supervise_step_def
  by (auto split: sum.splits option.splits if_splits prod.splits bool.splits)

text \<open>
  Whatever renewals arrive, a finished operation ended inside the session the loop started
  with, and the lease sequence grew by at most one per received proof.
\<close>

lemma supervise_loop_finished:
  assumes "supervise_loop ext c ps w rs closed = (Some (Inr f), rs')"
  shows "fb_finished_at (fn_boundary f) < wd_session_deadline w
    \<and> fb_digest (fn_boundary f) = wd_digest w
    \<and> wd_sequence w \<le> fb_sequence (fn_boundary f)
    \<and> fb_sequence (fn_boundary f) \<le> wd_sequence w + renewals_in ps"
  using assms
proof (induction ps arbitrary: w rs closed)
  case (Cons i ps)
  show ?case
  proof (cases "supervise_step ext c w rs closed i")
    case (Continue w' rs2 closed')
    then show ?thesis
      using supervise_step_Continue [OF Continue] Cons.IH [of w' rs2 closed'] Cons.prems
      by auto
  next
    case (Return r rs2)
    then obtain v where "supervise_finish ext c w rs v i = Inr f"
      using supervise_step_Return(1) [OF Return] Cons.prems by auto
    then show ?thesis using supervise_finish_InrD by fastforce
  qed (use Cons.prems in simp)
qed simp

lemma supervise_loop_retires:
  assumes "supervise_loop ext c ps w rs closed = (Some r, Some s)"
  shows "rs_retired s"
  using assms
proof (induction ps arbitrary: w rs closed)
  case (Cons i ps)
  then show ?case
    by (cases "supervise_step ext c w rs closed i") (auto dest: supervise_step_Return(2))
qed simp

text \<open>While the loop is pending the reporting lifetime mirrors some live window.\<close>

lemma supervise_loop_synced:
  assumes "supervise_loop ext c ps w rs closed = (None, rs')" and "reporting_synced w rs"
  shows "\<exists>w'. reporting_synced w' rs' \<and> wd_session_deadline w' \<le> wd_session_deadline w"
  using assms
proof (induction ps arbitrary: w rs closed)
  case (Cons i ps)
  show ?case
  proof (cases "supervise_step ext c w rs closed i")
    case (Continue w' rs2 closed')
    then show ?thesis
      using supervise_step_Continue(2,5) [OF Continue] Cons.IH [of w' rs2 closed'] Cons.prems
      by fastforce
  qed (use Cons.prems in auto)
qed auto

end
