(* ===== verification/Samples.thy ===== *)
theory Samples
  imports Grant_Scope
begin

text \<open>
  Concrete inputs on which the witnesses evaluate the model: identifiers, a digest and a
  scope that pass every check, and an instance of the external crates. The instance knows
  three UUIDs, hashes a byte string to a digest that depends on its length and its last
  byte, and prints the JSON values by their shape.
\<close>

definition sample_grant :: string where
  "sample_grant = ''11111111-1111-4111-8111-111111111111''"
definition sample_session :: string where
  "sample_session = ''22222222-2222-4222-8222-222222222222''"
definition sample_probe :: string where
  "sample_probe = ''33333333-3333-4333-8333-333333333333''"
definition sample_grant2 :: string where
  "sample_grant2 = ''44444444-4444-4444-8444-444444444444''"

definition sample_uuids :: "(string \<times> nat) list" where
  "sample_uuids = [(sample_grant, 1), (sample_session, 2), (sample_probe, 3), (sample_grant2, 4)]"

definition sample_digest :: string where "sample_digest = replicate 64 (CHR ''a'')"
definition sample_id :: string where "sample_id = replicate 32 (CHR ''b'')"
definition sample_issuer :: string where "sample_issuer = replicate 64 (CHR ''c'')"
definition sample_node :: string where "sample_node = ''node-1''"

text \<open>A checksum with 64 lower-case hexadecimal digits.\<close>

definition hex_nibble :: "nat \<Rightarrow> char" where
  "hex_nibble n = ''0123456789abcdef'' ! (n mod 16)"

fun sample_sum :: "string \<Rightarrow> nat" where
  "sample_sum [] = 7"
| "sample_sum (c # cs) = (31 * sample_sum cs + byte c) mod 65521"

definition sample_sha :: "string \<Rightarrow> string" where
  "sample_sha s = (let n = sample_sum s in
     [hex_nibble n, hex_nibble (n div 16), hex_nibble (n div 256), hex_nibble (n div 4096)]
     @ replicate 60 (CHR ''0''))"

definition sample_ext :: externals where
  "sample_ext =
     \<lparr>uuid_parse = map_of sample_uuids,
      uuid_show = (\<lambda>u. case find (\<lambda>e. snd e = u) sample_uuids of None \<Rightarrow> [] | Some e \<Rightarrow> fst e),
      sha256_hex = sample_sha,
      json_text = (\<lambda>v. case v of JString s \<Rightarrow> s | _ \<Rightarrow> ''null''),
      instant_max = 10 ^ 30\<rparr>"

definition sample_scope :: scope where
  "sample_scope =
     \<lparr>sc_grant_id = sample_grant, sc_grant_sha256 = sample_digest, sc_issuer_id = sample_issuer,
      sc_session_id = sample_session, sc_executor_node = sample_node, sc_job_id = sample_id,
      sc_task_id = sample_id, sc_attempt = 1\<rparr>"

lemma sample_ids [simp]:
  "hex_digest sample_digest" "hex_digest sample_issuer" "validate_id sample_id = Inr ()"
  by (simp_all add: hex_digest_def sample_digest_def sample_issuer_def sample_id_def list_all_iff
      is_lower_hex_def is_ascii_digit_def byte_def)

lemma sample_node_valid [simp]: "validate_remote_node_id sample_node = Inr ()"
  by (simp add: sample_node_def is_trimmed_def whitespace_codes_def byte_def)

lemma sample_uuid [simp]:
  "uuid (externals.extend sample_ext x) sample_grant = Inr ()"
  "uuid (externals.extend sample_ext x) sample_session = Inr ()"
  "uuid (externals.extend sample_ext x) sample_probe = Inr ()"
  "uuid (externals.extend sample_ext x) sample_grant2 = Inr ()"
  by (simp_all add: uuid_ok externals.defs sample_ext_def sample_uuids_def sample_grant_def
      sample_session_def sample_probe_def sample_grant2_def)

lemma sample_scope_valid [simp]:
  "scope_validate (externals.extend sample_ext x) sample_scope = Inr ()"
  by (simp add: scope_validate_ok sample_scope_def del: validate_remote_node_id_ok validate_id_ok)

lemma is_lower_hex_nibble: "is_lower_hex (hex_nibble n)"
proof -
  have "is_lower_hex (''0123456789abcdef'' ! i)" if "i < 16" for i
    using that by (auto simp: less_Suc_eq numeral_eq_Suc is_lower_hex_def is_ascii_digit_def byte_def)
  then show ?thesis by (simp add: hex_nibble_def)
qed

lemma hex_digest_sample_sha: "hex_digest (sample_sha s)"
  by (simp add: sample_sha_def hex_digest_def Let_def is_lower_hex_nibble list_all_iff)
     (simp add: is_lower_hex_def is_ascii_digit_def byte_def)

end
