(* ===== verification/Lease_Protocol.thy ===== *)
theory Lease_Protocol
  imports Workload_Window Samples
begin

text \<open>
  The lease protocol between the coordinator's issuer window and the node: the issuer as a
  labelled step relation, and what both sides together guarantee. The properties here are
  about the conservative time budget (a node stops before the issuer's deadline, also with
  clocks that drift), the order of issued leases, the supervisor's session bound, the
  binding of a proof to its contract, and the retirement of reporting.
\<close>

section \<open>The issuer as a machine\<close>

datatype issuer_event = Replied lease_reply | Acknowledged scope | StopRequested | Closed nat

inductive issuer_step ::
  "'x lease_externals_scheme \<Rightarrow> issuer_window \<Rightarrow> issuer_event \<Rightarrow> issuer_window \<Rightarrow> bool"
  for ext where
  step_reply: "issuer_reply ext w q issuer session node now1 now2 = Inr (r, w') \<Longrightarrow>
     issuer_step ext w (Replied r) w'"
| step_ack: "acknowledge_consumed w s now = Inr w' \<Longrightarrow> issuer_step ext w (Acknowledged s) w'"
| step_stop: "issuer_step ext w StopRequested (issuer_stop w)"
| step_close: "close_after_report w s sequence now = Inr (n, w') \<Longrightarrow> issuer_step ext w (Closed n) w'"

inductive_cases issuer_replyE: "issuer_step ext w (Replied r) w'"
inductive_cases issuer_ackE: "issuer_step ext w (Acknowledged s) w'"

definition issuer_ok :: "issuer_window \<Rightarrow> bool" where
  "issuer_ok w \<longleftrightarrow> 1 \<le> iw_next_sequence w
     \<and> (iw_consumed w \<longrightarrow> 2 \<le> iw_next_sequence w)
     \<and> (\<not> iw_consumed w \<longrightarrow> iw_next_sequence w \<le> 2)"

definition issuer_le :: "issuer_window \<Rightarrow> issuer_window \<Rightarrow> bool" where
  "issuer_le w w' \<longleftrightarrow>
     iw_contract w' = iw_contract w \<and> iw_deadline w' = iw_deadline w
     \<and> iw_next_sequence w \<le> iw_next_sequence w'
     \<and> (iw_consumed w \<longrightarrow> iw_consumed w') \<and> (iw_stopped w \<longrightarrow> iw_stopped w')"

lemma acknowledge_consumed_ok:
  "acknowledge_consumed w s now = Inr w' \<longleftrightarrow>
     \<not> iw_stopped w \<and> \<not> iw_consumed w \<and> iw_next_sequence w = 2 \<and> now < iw_deadline w
     \<and> s = ct_scope (iw_contract w) \<and> w' = w\<lparr>iw_consumed := True\<rparr>"
  by (auto simp: acknowledge_consumed_def check_consumed_def)

lemma close_after_report_ok:
  "close_after_report w s sequence now = Inr (n, w') \<longleftrightarrow>
     \<not> iw_stopped w \<and> iw_consumed w \<and> now < iw_deadline w \<and> s = ct_scope (iw_contract w)
     \<and> sequence > 0 \<and> sequence < iw_next_sequence w \<and> n = iw_next_sequence w - 1
     \<and> w' = w\<lparr>iw_stopped := True\<rparr>"
  by (auto simp: close_after_report_def)

lemma issuer_step_ok:
  assumes "issuer_ok w" and "issuer_step ext w e w'"
  shows "issuer_ok w'"
  using assms(2)
proof cases
  case (step_reply q issuer session node now1 now2 r)
  then show ?thesis
    using assms(1) issuer_reply_InrD(6,7,11) [OF step_reply(2)] by (auto simp: issuer_ok_def)
qed (use assms(1) in \<open>auto simp: issuer_ok_def acknowledge_consumed_ok close_after_report_ok
       issuer_stop_def\<close>)

lemma issuer_step_le: "issuer_step ext w e w' \<Longrightarrow> issuer_le w w'"
  by (erule issuer_step.cases)
     (auto simp: issuer_le_def acknowledge_consumed_ok close_after_report_ok issuer_stop_def
       dest: issuer_reply_InrD(11))

interpretation issuer: monotone_machine "issuer_step ext" issuer_ok issuer_le for ext
  by unfold_locales
     (auto intro: issuer_step_ok issuer_step_le, auto simp: issuer_le_def)

definition replies :: "issuer_event list \<Rightarrow> lease_reply list" where
  "replies es = List.map_filter (\<lambda>e. case e of Replied r \<Rightarrow> Some r | _ \<Rightarrow> None) es"

lemma replies_simps [simp]:
  "replies [] = []"
  "replies (Replied r # es) = r # replies es"
  "replies (Acknowledged s # es) = replies es"
  "replies (StopRequested # es) = replies es"
  "replies (Closed n # es) = replies es"
  by (simp_all add: replies_def map_filter_simps)

lemma issuer_step_sequence:
  assumes "issuer_step ext w e w'"
  shows "case e of Replied r \<Rightarrow> rp_sequence r = iw_next_sequence w
                     \<and> iw_next_sequence w' = iw_next_sequence w + 1 \<and> \<not> iw_stopped w
                     \<and> (iw_next_sequence w = 1 \<or> iw_consumed w) \<and> iw_consumed w' = iw_consumed w
         | Acknowledged s \<Rightarrow> iw_next_sequence w' = iw_next_sequence w \<and> s = ct_scope (iw_contract w)
         | _ \<Rightarrow> iw_next_sequence w' = iw_next_sequence w \<and> iw_stopped w'
                  \<and> iw_consumed w' = iw_consumed w"
  using assms
proof cases
  case (step_reply q issuer session node now1 now2 r)
  then show ?thesis using issuer_reply_InrD [OF step_reply(2)] by auto
qed (auto simp: acknowledge_consumed_ok close_after_report_ok issuer_stop_def)

lemma issuer_run_le: "run (issuer_step ext) w es w' \<Longrightarrow> issuer_le w w'"
proof (induction rule: run.induct)
  case (run_cons s e t es u)
  then show ?case using issuer_step_le issuer.le_trans by blast
qed (rule issuer.le_refl)

lemma issuer_run_stopped:
  assumes "run (issuer_step ext) w es w'" and "iw_stopped w"
  shows "replies es = [] \<and> (\<forall>s. Acknowledged s \<notin> set es)"
  using assms
proof (induction rule: run.induct)
  case (run_cons s e t es u)
  then have "iw_stopped t" using issuer_step_le [OF run_cons(1)] by (simp add: issuer_le_def)
  with run_cons show ?case using issuer_step_sequence [OF run_cons(1)]
    by (cases e) (auto simp: acknowledge_consumed_ok elim: issuer_ackE)
qed simp

lemma issuer_run_replies:
  "run (issuer_step ext) w es w' \<Longrightarrow>
   map rp_sequence (replies es) = [iw_next_sequence w ..< iw_next_sequence w']"
proof (induction rule: run.induct)
  case (run_nil s)
  show ?case by simp
next
  case (run_cons s e t es u)
  have "issuer_le t u" using run_cons(2) by (rule issuer_run_le)
  then have "iw_next_sequence t \<le> iw_next_sequence u" by (simp add: issuer_le_def)
  then show ?case using run_cons issuer_step_sequence [OF run_cons(1)]
    by (cases e) (auto simp: upt_conv_Cons)
qed

lemma issuer_run_consumed:
  "run (issuer_step ext) w es w' \<Longrightarrow> iw_consumed w' \<Longrightarrow> \<not> iw_consumed w \<Longrightarrow>
   Acknowledged (ct_scope (iw_contract w)) \<in> set es"
proof (induction rule: run.induct)
  case (run_cons s e t es u)
  note seq = issuer_step_sequence [OF run_cons(1)]
  have c: "iw_contract t = iw_contract s"
    using issuer_step_le [OF run_cons(1)] by (simp add: issuer_le_def)
  show ?case
  proof (cases "iw_consumed t")
    case True
    then show ?thesis using seq run_cons.prems by (cases e) auto
  next
    case False
    then show ?thesis using run_cons c by simp
  qed
qed simp

section \<open>Time bounds across the two clocks\<close>

lemma conservative_bound:
  assumes issued: "issuer_reply ext w q issuer session node now1 now2 = Inr (r, w')"
    and confirmed: "proof_confirm ext q r sent n1 n2 n3 = Inr pf"
    and live: "x < max (pf_deadline pf) (pf_session_deadline pf)"
    and drift: "100 * y \<le> 100 * now2 + 101 * (x - sent)"
  shows "y < iw_deadline w"
proof -
  let ?ms = "rp_session_remaining_ms r"
  have "x < pf_session_deadline pf"
    using live proof_confirm_deadlines [OF confirmed] by simp
  then have "x - sent < from_millis (?ms - (5 + ?ms div 100))"
    using conservative_deadline_InrD(1) [OF proof_confirm_InrD(11) [OF confirmed]]
      conservative_deadline_InrD(2) [OF proof_confirm_InrD(11) [OF confirmed]]
    by (simp add: from_millis_def ns_per_ms_def)
  moreover have "101 * (?ms - (5 + ?ms div 100)) \<le> 100 * ?ms" by linarith
  ultimately have "101 * (x - sent) < 100 * from_millis ?ms"
    by (simp add: from_millis_def ns_per_ms_def)
  then show ?thesis using drift issuer_reply_remaining [OF issued] by linarith
qed

lemma supervise_session_bound:
  assumes "supervise_inner ext c p initial rs now1 now2 polls = (Some (Inr f), rs')"
  shows "fb_finished_at (fn_boundary f) < pf_session_deadline initial"
    and "contract_digest ext c = Inr (fb_digest (fn_boundary f))"
    and "1 \<le> fb_sequence (fn_boundary f)"
    and "fb_sequence (fn_boundary f) \<le> 1 + renewals_in polls"
    and "\<forall>s. rs' = Some s \<longrightarrow> rs_retired s"
proof -
  obtain w rs1 where w: "window_new_with_reporting ext c p initial rs now1 now2 = (Inr w, rs1)"
    and loop: "supervise_loop ext c polls w rs1 False = (Some (Inr f), rs')"
    using assms by (auto simp: supervise_inner_def split: prod.splits sum.splits)
  obtain v where v: "window_new ext c p initial now1 = Inr v"
    and wv: "w = v \<or> w = v\<lparr>wd_reporting := True\<rparr>"
    using w by (auto simp: window_new_with_reporting_def split: sum.splits option.splits)
  note new = window_new_InrD [OF v] and fin = supervise_loop_finished [OF loop]
  show "fb_finished_at (fn_boundary f) < pf_session_deadline initial"
    and "contract_digest ext c = Inr (fb_digest (fn_boundary f))"
    and "1 \<le> fb_sequence (fn_boundary f)"
    and "fb_sequence (fn_boundary f) \<le> 1 + renewals_in polls"
    using fin new wv by auto
  show "\<forall>s. rs' = Some s \<longrightarrow> rs_retired s" using supervise_loop_retires loop by blast
qed

section \<open>Concrete inputs\<close>

definition sample_lease_ext :: lease_externals where
  "sample_lease_ext = externals.extend sample_ext
     (lease_externals.fields (\<lambda>c. JString (replicate (ct_max_lease_ms c mod 97) (CHR ''x''))))"

definition sample_contract :: contract where
  "sample_contract =
     \<lparr>ct_schema_version = 2, ct_scope = sample_scope, ct_max_session_ms = 60000,
      ct_max_lease_ms = 10000\<rparr>"

definition sample_policy :: lease_policy where
  "sample_policy = \<lparr>lp_enabled = True, lp_max_session_ms = 60000, lp_max_lease_ms = 20000\<rparr>"

definition sample_query :: lease_query where
  "sample_query =
     \<lparr>q_kind = ''workload_lease_probe'', q_schema_version = 2, q_id = sample_probe,
      q_contract = sample_contract, q_sequence = 1\<rparr>"

definition sample_issuer_window :: issuer_window where
  "sample_issuer_window =
     \<lparr>iw_contract = sample_contract, iw_deadline = 60000000000, iw_next_sequence = 1,
      iw_consumed = False, iw_stopped = False\<rparr>"

definition sample_reply :: lease_reply where
  "sample_reply =
     \<lparr>rp_kind = ''workload_lease'', rp_schema_version = 2, rp_id = sample_probe,
      rp_contract_sha256 =
        definition_digest sample_lease_ext (contract_json sample_lease_ext sample_contract),
      rp_sequence = 1, rp_lease_remaining_ms = 10000, rp_session_remaining_ms = 59000\<rparr>"

definition sample_proof :: lease_proof where
  "sample_proof =
     \<lparr>pf_contract_sha256 =
        definition_digest sample_lease_ext (contract_json sample_lease_ext sample_contract),
      pf_sequence = 1, pf_deadline = 9895000000, pf_session_deadline = 58405000000\<rparr>"

lemma sample_contract_valid [simp]:
  "contract_validate sample_lease_ext sample_contract = Inr ()"
  by (simp add: contract_validate_ok sample_lease_ext_def sample_contract_def MAX_SESSION_MS_def
      MAX_LEASE_MS_def)

lemma sample_query_valid [simp]: "query_validate sample_lease_ext sample_query = Inr ()"
  using sample_contract_valid
  by (simp add: query_validate_ok sample_query_def sample_lease_ext_def)

lemma sample_permitted [simp]:
  "contract_permitted sample_lease_ext sample_contract sample_policy = Inr ()"
  by (simp add: contract_permitted_ok sample_policy_def MAX_SESSION_MS_def MAX_LEASE_MS_def)
     (simp add: sample_contract_def)

lemma sample_contract_digest [simp]:
  "contract_digest sample_lease_ext sample_contract =
     Inr (definition_digest sample_lease_ext (contract_json sample_lease_ext sample_contract))"
  by (simp add: contract_digest_def)

lemma sample_issued:
  "issuer_reply sample_lease_ext sample_issuer_window sample_query sample_issuer sample_session
     sample_node 900000000 1000000000
   = Inr (sample_reply, sample_issuer_window\<lparr>iw_next_sequence := 2\<rparr>)"
  using sample_query_valid
  by (simp add: issuer_reply_def sample_issuer_window_def sample_query_def sample_reply_def
      scope_matches_session_def Let_def as_millis_u64_def as_millis_def ns_per_ms_def since_def
      u64_max_def checked_add_def or_err_def)
     (simp add: sample_contract_def sample_scope_def)

lemma sample_instant_max [simp]: "instant_max sample_lease_ext = 10 ^ 30"
  by (simp add: sample_lease_ext_def sample_ext_def externals.defs)

lemma sample_confirmed:
  "proof_confirm sample_lease_ext sample_query sample_reply 0 1100000000 1100000000 1200000000
   = Inr sample_proof"
  using sample_query_valid
  by (simp add: proof_confirm_def reply_matches_digest sample_query_def sample_reply_def
      sample_proof_def since_def PROBE_TIMEOUT_def from_millis_def ns_per_ms_def
      conservative_deadline_def instant_checked_add_def checked_sub_def)
     (simp add: sample_contract_def)

section \<open>Properties\<close>

text \<open>
  C7. A lease is conservative against clock drift. Let the issuer answer a probe at its own
  clock reading \<open>now2\<close> and let the node confirm the reply against the instant \<open>sent\<close> at
  which it sent the probe. As long as the node's clock \<open>x\<close> is before the deadline of the
  proof, the issuer's clock \<open>y\<close> is before the issuer's recorded deadline, provided the
  issuer's clock advanced since the reply by at most one per cent more than the node's clock
  since the probe. The same holds for the proof's session deadline.
\<close>

theorem lease_ends_before_issuer_deadline:
  assumes issued: "issuer_reply ext w q issuer session node now1 now2 = Inr (r, w')"
    and confirmed: "proof_confirm ext q r sent n1 n2 n3 = Inr pf"
    and live: "x < max (pf_deadline pf) (pf_session_deadline pf)"
    and drift: "100 * y \<le> 100 * now2 + 101 * (x - sent)"
  shows "y < iw_deadline w"
  using assms by (rule conservative_bound)

text \<open>Witness: a ten second lease, the issuer's clock one per cent fast.\<close>

theorem lease_ends_before_issuer_deadline_witness:
  "49000000000 < max (pf_deadline sample_proof) (pf_session_deadline sample_proof)
   \<and> 50490000000 < iw_deadline sample_issuer_window"
proof -
  have "49000000000 < max (pf_deadline sample_proof) (pf_session_deadline sample_proof)"
    by (simp add: sample_proof_def)
  then show ?thesis
    using lease_ends_before_issuer_deadline
      [OF sample_issued sample_confirmed, of 49000000000 50490000000]
    by simp
qed

text \<open>
  C8. Leases are issued in order and renewed only after consumption. From a fresh issuer
  window the replies carry the sequences one, two, three and so on without a gap or a
  repetition, and a second reply exists only if the node's consumption of exactly the
  contract's scope was acknowledged.
\<close>

theorem issued_leases_in_order:
  assumes new: "issuer_new ext c p deadline now = Inr w"
    and steps: "run (issuer_step ext) w es w'"
  shows "map rp_sequence (replies es) = [1 ..< Suc (length (replies es))]
    \<and> (2 \<le> length (replies es) \<longrightarrow> Acknowledged (ct_scope c) \<in> set es)"
proof -
  have w: "iw_next_sequence w = 1" "\<not> iw_consumed w" "iw_contract w = c"
    using new by (auto simp: issuer_new_def)
  have seqs: "map rp_sequence (replies es) = [1 ..< iw_next_sequence w']"
    using issuer_run_replies [OF steps] w by simp
  then have len: "length (replies es) = iw_next_sequence w' - 1"
    by (metis length_map length_upt)
  have ok: "issuer_ok w'" using issuer.run_inv [OF steps] w by (simp add: issuer_ok_def)
  have "Acknowledged (ct_scope c) \<in> set es" if "2 \<le> length (replies es)"
  proof -
    have "iw_consumed w'" using ok len that by (auto simp: issuer_ok_def)
    then show ?thesis using issuer_run_consumed [OF steps] w by simp
  qed
  then show ?thesis using seqs len ok by (simp add: issuer_ok_def)
qed

text \<open>Witness: one reply from a fresh window.\<close>

lemma sample_issuer_new:
  "issuer_new sample_lease_ext sample_contract sample_policy 60000000000 0 = Inr sample_issuer_window"
  by (simp add: issuer_new_def sample_issuer_window_def since_def from_millis_def ns_per_ms_def)
     (simp add: sample_contract_def)

theorem issued_leases_in_order_witness:
  "map rp_sequence (replies [Replied sample_reply]) = [1]"
proof -
  have "run (issuer_step sample_lease_ext) sample_issuer_window [Replied sample_reply]
      (sample_issuer_window\<lparr>iw_next_sequence := 2\<rparr>)"
    using step_reply [OF sample_issued] by simp
  from issued_leases_in_order [OF sample_issuer_new this] show ?thesis by simp
qed

text \<open>
  C9. A stopped or closed issuer window is final: after the stop no further lease is issued
  and no consumption is acknowledged, whatever requests arrive.
\<close>

theorem no_lease_after_stop:
  assumes "run (issuer_step ext) w (es @ e # fs) w'" and "e = StopRequested \<or> e = Closed n"
  shows "replies fs = [] \<and> (\<forall>s. Acknowledged s \<notin> set fs)"
proof -
  obtain v u where "issuer_step ext v e u" "run (issuer_step ext) u fs w'"
    using assms(1) by auto
  moreover from this assms(2) have "iw_stopped u" using issuer_step_sequence by fastforce
  ultimately show ?thesis using issuer_run_stopped by blast
qed

theorem no_lease_after_stop_witness:
  "run (issuer_step sample_lease_ext) sample_issuer_window
     [Replied sample_reply, StopRequested, StopRequested]
     (issuer_stop (issuer_stop (sample_issuer_window\<lparr>iw_next_sequence := 2\<rparr>)))
   \<and> replies [StopRequested] = []"
proof -
  have "run (issuer_step sample_lease_ext) sample_issuer_window
     ([Replied sample_reply] @ StopRequested # [StopRequested])
     (issuer_stop (issuer_stop (sample_issuer_window\<lparr>iw_next_sequence := 2\<rparr>)))"
    using step_reply [OF sample_issued] step_stop by auto
  with no_lease_after_stop [OF this] show ?thesis by simp
qed

text \<open>
  C10. The supervisor never extends a session. Whatever proofs arrive on the renewal channel
  and whatever the clock reads, an operation that finishes under supervision finished before
  the session deadline of the initial proof, in the scope of its contract, at a lease
  sequence of at most one more than the number of renewals, and its reporting is retired.
\<close>

theorem supervised_within_session:
  assumes "supervise_inner ext c p initial rs now1 now2 polls = (Some (Inr f), rs')"
  shows "fb_finished_at (fn_boundary f) < pf_session_deadline initial
    \<and> contract_digest ext c = Inr (fb_digest (fn_boundary f))
    \<and> 1 \<le> fb_sequence (fn_boundary f)
    \<and> fb_sequence (fn_boundary f) \<le> 1 + renewals_in polls
    \<and> (\<forall>s. rs' = Some s \<longrightarrow> rs_retired s)"
  using supervise_session_bound [OF assms] by simp

definition sample_poll :: "nat poll" where
  "sample_poll =
     \<lparr>pl_live = 2000000000, pl_timer = False, pl_renewal = None, pl_operation = Some (Inr 42),
      pl_now1 = 2100000000, pl_now2 = 2100000000, pl_now3 = 2100000000, pl_now4 = 2200000000\<rparr>"

definition sample_finished :: "nat finished" where
  "sample_finished =
     \<lparr>fn_value = 42,
      fn_boundary = \<lparr>fb_digest = pf_contract_sha256 sample_proof, fb_sequence = 1,
        fb_finished_at = 2200000000, fb_deadline = 9895000000\<rparr>\<rparr>"

lemma sample_window:
  "window_new sample_lease_ext sample_contract sample_policy sample_proof 1300000000
   = Inr \<lparr>wd_digest = pf_contract_sha256 sample_proof, wd_sequence = 1, wd_deadline = 9895000000,
          wd_session_deadline = 58405000000, wd_reporting = False\<rparr>"
  by (simp add: window_new_def sample_proof_def Let_def window_live_def)

lemma sample_supervised:
  "supervise_inner sample_lease_ext sample_contract sample_policy sample_proof None 1300000000
     1300000000 [sample_poll] = (Some (Inr sample_finished), None)"
  by (simp add: supervise_inner_def window_new_with_reporting_def sample_window supervise_step_def
      sample_poll_def supervise_finish_def boundary_validate_def window_live_def ensure_def
      sample_finished_def)
     (simp add: sample_proof_def)

theorem supervised_within_session_witness:
  "fb_finished_at (fn_boundary sample_finished) < pf_session_deadline sample_proof"
  using supervised_within_session [OF sample_supervised] by simp

text \<open>
  C11. End to end: an operation supervised under a lease that the issuer granted has finished
  before the issuer's recorded deadline on the issuer's own clock, if that
  clock ran at most one per cent fast since the reply.
\<close>

theorem supervised_before_issuer_deadline:
  assumes "issuer_reply ext w q issuer session node now1 now2 = Inr (r, w')"
    and "proof_confirm ext q r sent n1 n2 n3 = Inr initial"
    and fin: "supervise_inner ext c p initial rs m1 m2 polls = (Some (Inr f), rs')"
    and "100 * y \<le> 100 * now2 + 101 * (fb_finished_at (fn_boundary f) - sent)"
  shows "y < iw_deadline w"
proof -
  have "fb_finished_at (fn_boundary f) < max (pf_deadline initial) (pf_session_deadline initial)"
    using supervise_session_bound [OF fin] by simp
  then show ?thesis using conservative_bound assms(1,2,4) by blast
qed

theorem supervised_before_issuer_deadline_witness:
  "3222000000 < iw_deadline sample_issuer_window"
  by (rule supervised_before_issuer_deadline
      [OF sample_issued sample_confirmed sample_supervised]) (simp add: sample_finished_def)

text \<open>
  A proof is bound to its contract. If the window of contract \<open>c\<close> accepts a proof as its
  initial lease or as a renewal, and that proof was confirmed for the query of contract
  \<open>q_contract q\<close>, then both contracts are the same, unless their digests collide.
\<close>

theorem proof_bound_to_contract:
  assumes confirmed: "proof_confirm ext q r sent n1 n2 n3 = Inr pf"
    and c: "contract_digest ext c = Inr (wd_digest w)"
    and used: "window_new ext c p pf now = Inr w
      \<or> window_advance w rs pf m1 m2 m3 = (Inr (), w', rs')"
    and free: "\<not> digest_collision ext c (q_contract q)"
  shows "q_contract q = c"
proof -
  have "pf_contract_sha256 pf = wd_digest w"
    using used window_new_InrD(3) window_advance_InrD(1) by blast
  then have "contract_digest ext (q_contract q) = Inr (wd_digest w)"
    using proof_confirm_InrD(8) [OF confirmed] by simp
  then show ?thesis using contract_digest_inject [OF c _ free] by simp
qed

theorem proof_bound_to_contract_witness: "q_contract sample_query = sample_contract"
proof -
  have "\<not> digest_collision sample_lease_ext sample_contract (q_contract sample_query)"
    by (simp add: digest_collision_def sample_query_def)
  then show ?thesis
    using proof_bound_to_contract [OF sample_confirmed _ disjI1 [OF sample_window]]
    by (simp add: sample_proof_def)
qed

end
