(* ===== verification/Workload_Definition.thy ===== *)
theory Workload_Definition
  imports Lease_Protocol
begin

text \<open>
  The reviewed definition of a continuous workload (\<^verbatim>\<open>workload_definition.rs\<close>): its
  identity, source, limits and event bounds, the checks they pass before any grant is
  consumed, and the lease contract derived from it. The serde encodings of a template and
  of a definition and the resource digest are parameters (fields of \<open>workload_externals\<close>);
  the device binding of \<^verbatim>\<open>bound_python_parameters\<close> is left to the Python bridge.
\<close>

section \<open>Data\<close>

record energy_parameters =
  en_sample_rate :: nat
  en_channels :: nat
  en_block_frames :: nat
  en_max_blocks :: nat
  en_activation_level :: nat
  en_deactivation_level :: nat

datatype workload_source =
  MicrophoneEnergy (src_resource_id: string) (src_resource_sha256: string)
    (src_adapter_sha256: string) (src_parameters: energy_parameters)

record limits =
  li_max_session_ms :: nat
  li_max_lease_ms :: nat
  li_max_job_memory_mib :: nat
  li_max_source_frames :: nat

datatype event_mode = ActivityTransitions
datatype overflow = OverflowStop

record event_limits =
  ev_mode :: event_mode
  ev_min_interval_ms :: nat
  ev_max_events :: nat
  ev_max_event_bytes :: nat
  ev_max_total_bytes :: nat
  ev_max_pending :: nat
  ev_overflow :: overflow

record template =
  tp_schema_version :: nat
  tp_executor_node :: string
  tp_priority :: int
  tp_source :: workload_source
  tp_limits :: limits
  tp_events :: event_limits

record workload =
  wk_schema_version :: nat
  wk_grant_id :: string
  wk_issuer_id :: string
  wk_session_id :: string
  wk_executor_node :: string
  wk_job_id :: string
  wk_task_id :: string
  wk_attempt :: nat
  wk_plan_sha256 :: string
  wk_request_context :: request_context
  wk_priority :: int
  wk_source :: workload_source
  wk_limits :: limits
  wk_events :: event_limits

record workload_externals = lease_externals +
  template_text :: "template \<Rightarrow> string"
  workload_text :: "workload \<Rightarrow> string"
  workload_json :: "workload \<Rightarrow> json"

section \<open>Validation\<close>

definition energy_validate :: "energy_parameters \<Rightarrow> unit result" where
  "energy_validate e =
     ensure (8000 \<le> en_sample_rate e \<and> en_sample_rate e \<le> 48000
         \<and> 1 \<le> en_channels e \<and> en_channels e \<le> 2
         \<and> 80 \<le> en_block_frames e \<and> en_block_frames e \<le> 4096
         \<and> 1 \<le> en_max_blocks e \<and> en_max_blocks e \<le> 100000
         \<and> 1 \<le> en_activation_level e \<and> en_activation_level e \<le> 32768
         \<and> en_deactivation_level e \<le> en_activation_level e)
       (DefE EnergyInvalid) (Inr ())"

definition validate_components ::
  "string \<Rightarrow> int \<Rightarrow> workload_source \<Rightarrow> limits \<Rightarrow> event_limits \<Rightarrow> unit result" where
  "validate_components node priority source limits events =
     rbind (validate_remote_node_id node) (\<lambda>_.
     ensure (-1000 \<le> priority \<and> priority \<le> 1000) (DefE PriorityInvalid)
     (rbind (validate_memory (Some (li_max_job_memory_mib limits))) (\<lambda>_.
      ensure (1 \<le> li_max_session_ms limits \<and> li_max_session_ms limits \<le> MAX_SESSION_MS
          \<and> 1 \<le> li_max_lease_ms limits \<and> li_max_lease_ms limits \<le> MAX_LEASE_MS
          \<and> li_max_lease_ms limits \<le> li_max_session_ms limits
          \<and> 1 \<le> li_max_source_frames limits \<and> li_max_source_frames limits \<le> 409600000)
        (DefE SessionLimits)
      (ensure (10 \<le> ev_min_interval_ms events \<and> ev_min_interval_ms events \<le> 60000
           \<and> 1 \<le> ev_max_events events \<and> ev_max_events events \<le> 100000
           \<and> 128 \<le> ev_max_event_bytes events \<and> ev_max_event_bytes events \<le> 4096
           \<and> 1024 \<le> ev_max_total_bytes events \<and> ev_max_total_bytes events \<le> 4194304
           \<and> ev_max_event_bytes events \<le> ev_max_total_bytes events
           \<and> 1 \<le> ev_max_pending events \<and> ev_max_pending events \<le> 64)
         (DefE EventBounds)
       (case source of MicrophoneEnergy resource resource_sha adapter_sha parameters \<Rightarrow>
          rbind (energy_validate parameters) (\<lambda>_.
          let local_id = (case strip_prefix (node @ ''::'') resource of
                            None \<Rightarrow> [] | Some l \<Rightarrow> l) in
          ensure (local_id \<noteq> [] \<and> length local_id \<le> 100 \<and> list_all is_name_byte local_id
              \<and> hex_digest resource_sha \<and> hex_digest adapter_sha
              \<and> en_block_frames parameters * en_max_blocks parameters
                  \<le> li_max_source_frames limits)
            (DefE SourceChanged) (Inr ())))))))"

definition template_validate :: "'x workload_externals_scheme \<Rightarrow> template \<Rightarrow> unit result" where
  "template_validate ext t =
     ensure (tp_schema_version t = 2 \<and> length (template_text ext t) \<le> 65536) (DefE TemplateInvalid)
     (validate_components (tp_executor_node t) (tp_priority t) (tp_source t) (tp_limits t)
        (tp_events t))"

definition template_resource_id :: "template \<Rightarrow> string" where
  "template_resource_id t = (case tp_source t of MicrophoneEnergy resource _ _ _ \<Rightarrow> resource)"

definition identity_scope :: "workload \<Rightarrow> string \<Rightarrow> scope" where
  "identity_scope d grant_sha256 =
     \<lparr>sc_grant_id = wk_grant_id d, sc_grant_sha256 = grant_sha256, sc_issuer_id = wk_issuer_id d,
      sc_session_id = wk_session_id d, sc_executor_node = wk_executor_node d,
      sc_job_id = wk_job_id d, sc_task_id = wk_task_id d, sc_attempt = wk_attempt d\<rparr>"

definition workload_validate :: "'x workload_externals_scheme \<Rightarrow> workload \<Rightarrow> unit result" where
  "workload_validate ext d =
     ensure (wk_schema_version d = 2 \<and> hex_digest (wk_plan_sha256 d)
         \<and> -1000 \<le> wk_priority d \<and> wk_priority d \<le> 1000
         \<and> length (workload_text ext d) \<le> 65536)
       (DefE DefinitionInvalid)
     (rbind (scope_validate ext (identity_scope d (replicate 64 (CHR ''0'')))) (\<lambda>_.
      rbind (validate_remote_node_id (origin_node (wk_request_context d))) (\<lambda>_.
      rbind (uuid ext (request_id (wk_request_context d))) (\<lambda>_.
      rbind (validate_area (origin_area (wk_request_context d))) (\<lambda>_.
      validate_components (wk_executor_node d) (wk_priority d) (wk_source d) (wk_limits d)
        (wk_events d))))))"

definition workload_template :: "workload \<Rightarrow> template" where
  "workload_template d =
     \<lparr>tp_schema_version = wk_schema_version d, tp_executor_node = wk_executor_node d,
      tp_priority = wk_priority d, tp_source = wk_source d, tp_limits = wk_limits d,
      tp_events = wk_events d\<rparr>"

definition workload_scope :: "'x workload_externals_scheme \<Rightarrow> workload \<Rightarrow> scope result" where
  "workload_scope ext d =
     rbind (workload_validate ext d) (\<lambda>_.
       Inr (identity_scope d (definition_digest ext (workload_json ext d))))"

definition lease_contract :: "'x workload_externals_scheme \<Rightarrow> workload \<Rightarrow> contract result" where
  "lease_contract ext d =
     rbind (workload_scope ext d) (\<lambda>s.
       Inr \<lparr>ct_schema_version = 2, ct_scope = s, ct_max_session_ms = li_max_session_ms (wk_limits d),
            ct_max_lease_ms = li_max_lease_ms (wk_limits d)\<rparr>)"

section \<open>Lemmas\<close>

lemma energy_validate_ok [simp]:
  "energy_validate e = Inr () \<longleftrightarrow>
     8000 \<le> en_sample_rate e \<and> en_sample_rate e \<le> 48000 \<and> 1 \<le> en_channels e \<and> en_channels e \<le> 2
     \<and> 80 \<le> en_block_frames e \<and> en_block_frames e \<le> 4096
     \<and> 1 \<le> en_max_blocks e \<and> en_max_blocks e \<le> 100000
     \<and> 1 \<le> en_activation_level e \<and> en_activation_level e \<le> 32768
     \<and> en_deactivation_level e \<le> en_activation_level e"
  by (simp add: energy_validate_def)

lemma validate_components_InrD:
  assumes "validate_components node priority source limits events = Inr ()"
  shows "validate_remote_node_id node = Inr ()"
    and "1 \<le> li_max_session_ms limits" "li_max_session_ms limits \<le> MAX_SESSION_MS"
    and "1 \<le> li_max_lease_ms limits" "li_max_lease_ms limits \<le> MAX_LEASE_MS"
    and "li_max_lease_ms limits \<le> li_max_session_ms limits"
    and "li_max_source_frames limits \<le> 409600000"
    and "10 \<le> ev_min_interval_ms events" "ev_min_interval_ms events \<le> 60000"
    and "1 \<le> ev_max_events events" "ev_max_events events \<le> 100000"
    and "128 \<le> ev_max_event_bytes events" "ev_max_event_bytes events \<le> 4096"
    and "1024 \<le> ev_max_total_bytes events" "ev_max_total_bytes events \<le> 4194304"
    and "energy_validate (src_parameters source) = Inr ()"
    and "en_block_frames (src_parameters source) * en_max_blocks (src_parameters source)
           \<le> li_max_source_frames limits"
    and "\<exists>l. src_resource_id source = resource_id node l \<and> l \<noteq> []"
    and "hex_digest (src_adapter_sha256 source)"
  using assms unfolding validate_components_def Let_def
  by (auto simp: resource_id_def strip_prefix_Some_iff simp del: energy_validate_ok
      validate_remote_node_id_ok split: workload_source.splits option.splits)

lemma workload_validate_InrD:
  assumes "workload_validate ext d = Inr ()"
  shows "validate_components (wk_executor_node d) (wk_priority d) (wk_source d) (wk_limits d)
           (wk_events d) = Inr ()"
    and "scope_validate ext (identity_scope d (replicate 64 (CHR ''0''))) = Inr ()"
    and "wk_schema_version d = 2"
  using assms unfolding workload_validate_def
  by (simp_all del: validate_remote_node_id_ok)

lemma workload_scope_InrD:
  assumes "workload_scope ext d = Inr s"
  shows "workload_validate ext d = Inr ()"
    and "s = identity_scope d (definition_digest ext (workload_json ext d))"
  using assms by (auto simp: workload_scope_def)

lemma scope_validate_identity:
  "scope_validate ext (identity_scope d a) = Inr () \<Longrightarrow> hex_digest b \<Longrightarrow>
   scope_validate ext (identity_scope d b) = Inr ()"
  by (simp add: scope_validate_ok identity_scope_def)

lemma lease_contract_InrD:
  assumes "lease_contract ext d = Inr c"
  shows "workload_scope ext d = Inr (ct_scope c)" "ct_schema_version c = 2"
    and "ct_max_session_ms c = li_max_session_ms (wk_limits d)"
    and "ct_max_lease_ms c = li_max_lease_ms (wk_limits d)"
  using assms by (auto simp: lease_contract_def)

text \<open>A contract derived from a valid definition is valid as soon as the hash is hexadecimal.\<close>

lemma lease_contract_valid:
  assumes "lease_contract ext d = Inr c" and "\<And>s. hex_digest (sha256_hex ext s)"
  shows "contract_validate ext c = Inr ()"
proof -
  note lc = lease_contract_InrD [OF assms(1)]
  note ws = workload_scope_InrD [OF lc(1)]
  note wv = workload_validate_InrD [OF ws(1)]
  have "hex_digest (definition_digest ext (workload_json ext d))"
    by (simp add: definition_digest_def assms(2))
  then have "scope_validate ext (ct_scope c) = Inr ()"
    using scope_validate_identity [OF wv(2)] ws(2) by simp
  then show ?thesis
    using lc validate_components_InrD(2,3,4,5,6) [OF wv(1)] by (simp add: contract_validate_ok)
qed

section \<open>Concrete inputs\<close>

definition sample_workload :: workload where
  "sample_workload =
     \<lparr>wk_schema_version = 2, wk_grant_id = sample_grant, wk_issuer_id = sample_issuer,
      wk_session_id = sample_session, wk_executor_node = sample_node, wk_job_id = sample_id,
      wk_task_id = sample_id, wk_attempt = 1, wk_plan_sha256 = sample_digest,
      wk_request_context = \<lparr>request_id = sample_probe, origin_node = sample_node,
                            origin_area = []\<rparr>,
      wk_priority = 0,
      wk_source = MicrophoneEnergy (resource_id sample_node ''mic'') sample_digest sample_digest
        \<lparr>en_sample_rate = 16000, en_channels = 1, en_block_frames = 1600, en_max_blocks = 10,
         en_activation_level = 100, en_deactivation_level = 50\<rparr>,
      wk_limits = \<lparr>li_max_session_ms = 60000, li_max_lease_ms = 10000,
                   li_max_job_memory_mib = 64, li_max_source_frames = 16000\<rparr>,
      wk_events = \<lparr>ev_mode = ActivityTransitions, ev_min_interval_ms = 10, ev_max_events = 5,
                   ev_max_event_bytes = 256, ev_max_total_bytes = 1024, ev_max_pending = 1,
                   ev_overflow = OverflowStop\<rparr>\<rparr>"

definition sample_workload_ext :: workload_externals where
  "sample_workload_ext = externals.extend sample_ext
     \<lparr>contract_json = (\<lambda>c. JString (sc_grant_sha256 (ct_scope c))),
      template_text = (\<lambda>t. ''template''), workload_text = (\<lambda>d. ''workload''),
      workload_json = (\<lambda>d. JString (wk_grant_id d))\<rparr>"

lemma sample_zero_digest: "hex_digest (replicate 64 (CHR ''0''))"
  by (simp add: hex_digest_def list_all_iff is_lower_hex_def is_ascii_digit_def byte_def)

text \<open>The inputs stay valid in every extension of the sample crates.\<close>

lemma sample_sha_hex_ext [simp]:
  "hex_digest (sha256_hex (workload_externals.extend sample_workload_ext x) s)"
  by (simp add: sample_workload_ext_def sample_ext_def externals.defs workload_externals.defs
      hex_digest_sample_sha)

lemma sample_workload_valid_ext [simp]:
  "workload_validate (workload_externals.extend sample_workload_ext x) sample_workload = Inr ()"
proof -
  let ?ext = "workload_externals.extend sample_workload_ext x"
  have ext: "?ext = externals.extend sample_ext \<lparr>contract_json = contract_json ?ext,
      template_text = template_text ?ext, workload_text = workload_text ?ext,
      workload_json = workload_json ?ext, \<dots> = x\<rparr>"
    by (simp add: sample_workload_ext_def externals.defs workload_externals.defs)
  have "scope_validate ?ext (identity_scope sample_workload (replicate 64 (CHR ''0''))) = Inr ()"
    by (subst ext) (simp add: scope_validate_ok identity_scope_def sample_workload_def
        sample_zero_digest del: validate_remote_node_id_ok validate_id_ok)
  moreover have "validate_components (wk_executor_node sample_workload)
      (wk_priority sample_workload) (wk_source sample_workload) (wk_limits sample_workload)
      (wk_events sample_workload) = Inr ()"
    by (simp add: validate_components_def sample_workload_def MAX_SESSION_MS_def MAX_LEASE_MS_def
        is_name_byte_def is_ascii_alphanumeric_def byte_def del: validate_remote_node_id_ok)
  moreover have "uuid ?ext (request_id (wk_request_context sample_workload)) = Inr ()"
    by (subst ext) (simp add: sample_workload_def)
  moreover have "length (workload_text ?ext sample_workload) \<le> 65536"
    by (simp add: sample_workload_ext_def externals.defs workload_externals.defs)
  ultimately show ?thesis
    by (simp add: workload_validate_def del: validate_remote_node_id_ok)
       (simp add: sample_workload_def validate_area_def del: validate_remote_node_id_ok)
qed

lemma extend_unit [simp]: "workload_externals.extend sample_workload_ext () = sample_workload_ext"
  by (simp add: workload_externals.defs)

lemmas sample_sha_hex [simp] = sample_sha_hex_ext [of "()", unfolded extend_unit]
lemmas sample_workload_valid [simp] = sample_workload_valid_ext [of "()", unfolded extend_unit]

definition sample_workload_scope :: scope where
  "sample_workload_scope = identity_scope sample_workload
     (definition_digest sample_workload_ext (workload_json sample_workload_ext sample_workload))"

lemma sample_workload_scope_ok [simp]:
  "workload_scope sample_workload_ext sample_workload = Inr sample_workload_scope"
  by (simp add: workload_scope_def sample_workload_scope_def)

definition sample_workload_contract :: contract where
  "sample_workload_contract =
     \<lparr>ct_schema_version = 2, ct_scope = sample_workload_scope, ct_max_session_ms = 60000,
      ct_max_lease_ms = 10000\<rparr>"

lemma sample_lease_contract [simp]:
  "lease_contract sample_workload_ext sample_workload = Inr sample_workload_contract"
  by (simp add: lease_contract_def sample_workload_contract_def) (simp add: sample_workload_def)

section \<open>Properties\<close>

text \<open>
  C15. A reviewed definition yields a lease contract that passes its own validation: the
  derived scope is well formed, names the reviewed executor and the digest of the whole
  definition, the lease fits the session, the microphone resource belongs to that executor,
  and the source's frame budget fits the declared one (and so every 64-bit product the
  filter computes).
\<close>

theorem definition_yields_valid_contract:
  assumes "lease_contract ext d = Inr c" and "\<And>s. hex_digest (sha256_hex ext s)"
  shows "contract_validate ext c = Inr ()
    \<and> sc_executor_node (ct_scope c) = wk_executor_node d
    \<and> sc_grant_sha256 (ct_scope c) = definition_digest ext (workload_json ext d)
    \<and> ct_max_lease_ms c \<le> ct_max_session_ms c
    \<and> (\<exists>l. src_resource_id (wk_source d) = resource_id (wk_executor_node d) l \<and> l \<noteq> [])
    \<and> en_block_frames (src_parameters (wk_source d)) * en_max_blocks (src_parameters (wk_source d))
        \<le> li_max_source_frames (wk_limits d)
    \<and> li_max_source_frames (wk_limits d) \<le> u64_max"
proof -
  note lc = lease_contract_InrD [OF assms(1)]
  note ws = workload_scope_InrD [OF lc(1)]
  note vc = validate_components_InrD [OF workload_validate_InrD(1) [OF ws(1)]]
  have "li_max_source_frames (wk_limits d) \<le> u64_max" using vc(7) by (simp add: u64_max_def)
  then show ?thesis
    using lease_contract_valid [OF assms] ws(2) lc vc by (simp add: identity_scope_def)
qed

theorem definition_yields_valid_contract_witness:
  "contract_validate sample_workload_ext sample_workload_contract = Inr ()"
  using definition_yields_valid_contract [OF sample_lease_contract] by simp

end
