(* ===== verification/Workload_Events.thy ===== *)
theory Workload_Events
  imports Workload_Definition
begin

text \<open>
  The event filter between a reviewed microphone source and the journal
  (\<^verbatim>\<open>workload_events.rs\<close>): which observations become events, the bounds on their number,
  rate and size, the failure latch and the final seal, and the checks that the journal
  applies to a retained event and its predecessor.

  \<^verbatim>\<open>python::stream::StreamObservation\<close> and \<^verbatim>\<open>StreamSummary\<close> are records; the JSON size of
  an event comes from the parameter \<open>event_text\<close>. The clock reading of \<^verbatim>\<open>observe\<close> is its
  argument, as in the source.
\<close>

section \<open>Data\<close>

record stream_observation =
  ob_sequence :: nat
  ob_source_frames :: nat
  ob_active :: "bool option"
  ob_level :: "nat option"
  ob_discontinuity :: bool

record stream_summary =
  su_stream_id :: string
  su_observations :: nat
  su_source_frames :: nat

datatype event_kind = MicrophoneActivity

record event =
  e_schema_version :: nat
  e_kind :: event_kind
  e_sequence :: nat
  e_source_sequence :: nat
  e_source_frames :: nat
  e_elapsed_ms :: nat
  e_active :: "bool option"
  e_level :: "nat option"
  e_discontinuity :: bool

record event_externals = workload_externals +
  event_text :: "event \<Rightarrow> string"

record event_filter =
  fl_limits :: event_limits
  fl_block_frames :: nat
  fl_max_blocks :: nat
  fl_max_source_frames :: nat
  fl_last_source_sequence :: nat
  fl_last_source_frames :: nat
  fl_last_observed_at :: "instant option"
  fl_first_observed_at :: "instant option"
  fl_last_active :: "bool option option"
  fl_last_event_at :: "instant option"
  fl_events :: nat
  fl_bytes :: nat
  fl_failed :: bool
  fl_last_event :: "event option"

record event_seal =
  sl_count :: nat
  sl_bytes :: nat
  sl_last :: event

definition seal_confirms :: "event_seal \<Rightarrow> nat \<Rightarrow> nat \<Rightarrow> event \<Rightarrow> bool" where
  "seal_confirms s count bytes final \<longleftrightarrow>
     sl_count s = count \<and> sl_bytes s = bytes \<and> sl_last s = final"

section \<open>Filter operations\<close>

definition filter_new :: "'x workload_externals_scheme \<Rightarrow> workload \<Rightarrow> event_filter result" where
  "filter_new ext d =
     rbind (workload_validate ext d) (\<lambda>_.
     case (ev_mode (wk_events d), ev_overflow (wk_events d)) of
       (ActivityTransitions, OverflowStop) \<Rightarrow>
         (case wk_source d of MicrophoneEnergy _ _ _ parameters \<Rightarrow>
            Inr \<lparr>fl_limits = wk_events d, fl_block_frames = en_block_frames parameters,
                 fl_max_blocks = en_max_blocks parameters,
                 fl_max_source_frames = li_max_source_frames (wk_limits d),
                 fl_last_source_sequence = 0, fl_last_source_frames = 0,
                 fl_last_observed_at = None, fl_first_observed_at = None, fl_last_active = None,
                 fl_last_event_at = None, fl_events = 0, fl_bytes = 0, fl_failed = False,
                 fl_last_event = None\<rparr>))"

definition filter_seal ::
  "event_filter \<Rightarrow> stream_summary \<Rightarrow> event_seal result \<times> event_filter" where
  "filter_seal f summary =
     (let valid = (\<not> fl_failed f \<and> su_observations summary = fl_last_source_sequence f
           \<and> su_source_frames summary = fl_last_source_frames f \<and> fl_events f > 0);
          f' = f\<lparr>fl_failed := True\<rparr> in
      if \<not> valid then (Inl (EventE SealDiffers), f')
      else case fl_last_event f of
        None \<Rightarrow> (Inl (EventE NoFinalEvent), f')
      | Some e \<Rightarrow> (Inr \<lparr>sl_count = fl_events f, sl_bytes = fl_bytes f, sl_last = e\<rparr>,
                   f'\<lparr>fl_last_event := None\<rparr>))"

text \<open>The first \<^verbatim>\<open>ensure!\<close> of \<^verbatim>\<open>accept\<close>.\<close>

definition observation_follows :: "event_filter \<Rightarrow> stream_observation \<Rightarrow> instant \<Rightarrow> bool" where
  "observation_follows f ob now \<longleftrightarrow>
     ob_sequence ob = fl_last_source_sequence f + 1 \<and> ob_sequence ob \<le> fl_max_blocks f
     \<and> ob_source_frames ob = fl_last_source_frames f + fl_block_frames f
     \<and> ob_source_frames ob \<le> fl_max_source_frames f
     \<and> (case ob_level ob of None \<Rightarrow> True | Some v \<Rightarrow> v \<le> 32768)
     \<and> (ob_active ob = None \<or> ob_level ob \<noteq> None)
     \<and> (\<not> ob_discontinuity ob \<or> (ob_active ob = None \<and> ob_level ob = None))
     \<and> (case fl_last_observed_at f of None \<Rightarrow> True | Some previous \<Rightarrow> previous \<le> now)"

text \<open>
  \<^verbatim>\<open>accept\<close>. The position fields are written before the rate, count and byte checks, so a
  refused event still leaves the filter at the observation it refused.
\<close>

definition filter_accept ::
  "'x event_externals_scheme \<Rightarrow> event_filter \<Rightarrow> stream_observation \<Rightarrow> instant
   \<Rightarrow> event option result \<times> event_filter" where
  "filter_accept ext f ob now =
     (if \<not> observation_follows f ob now then (Inl (EventE ObservationChanged), f)
      else
        let required = (fl_last_active f \<noteq> Some (ob_active ob) \<or> ob_discontinuity ob);
            first = (case fl_first_observed_at f of None \<Rightarrow> now | Some i \<Rightarrow> i);
            f1 = f\<lparr>fl_last_source_sequence := ob_sequence ob,
                   fl_last_source_frames := ob_source_frames ob,
                   fl_last_observed_at := Some now, fl_first_observed_at := Some first\<rparr> in
        if \<not> required then (Inr None, f1)
        else if \<not> (case fl_last_event_at f of None \<Rightarrow> True
              | Some previous \<Rightarrow> ev_min_interval_ms (fl_limits f) \<le> as_millis (since now previous))
          then (Inl (EventE EventRate), f1)
        else if \<not> fl_events f < ev_max_events (fl_limits f) then (Inl (EventE EventCount), f1)
        else if as_millis (since now first) > u64_max then (Inl IntConversion, f1)
        else
          let e = \<lparr>e_schema_version = 2, e_kind = MicrophoneActivity,
                   e_sequence = fl_events f + 1, e_source_sequence = ob_sequence ob,
                   e_source_frames = ob_source_frames ob,
                   e_elapsed_ms = as_millis (since now first), e_active = ob_active ob,
                   e_level = ob_level ob, e_discontinuity = ob_discontinuity ob\<rparr>;
              bytes = length (event_text ext e) in
          if \<not> (bytes \<le> ev_max_event_bytes (fl_limits f)
                \<and> bytes \<le> saturating_sub (ev_max_total_bytes (fl_limits f)) (fl_bytes f))
          then (Inl (EventE EventBytes), f1)
          else (Inr (Some e),
                f1\<lparr>fl_events := fl_events f + 1, fl_bytes := fl_bytes f + bytes,
                   fl_last_active := Some (e_active e), fl_last_event_at := Some now,
                   fl_last_event := Some e\<rparr>))"

definition filter_observe ::
  "'x event_externals_scheme \<Rightarrow> event_filter \<Rightarrow> stream_observation \<Rightarrow> instant
   \<Rightarrow> event option result \<times> event_filter" where
  "filter_observe ext f ob now =
     (if fl_failed f then (Inl (EventE ReportingStopped), f)
      else case filter_accept ext f ob now of
        (Inl e, f') \<Rightarrow> (Inl e, f'\<lparr>fl_failed := True\<rparr>)
      | (Inr r, f') \<Rightarrow> (Inr r, f'))"

section \<open>Retained events\<close>

definition event_validate :: "workload \<Rightarrow> event \<Rightarrow> unit result" where
  "event_validate d e =
     (case wk_source d of MicrophoneEnergy _ _ _ parameters \<Rightarrow>
        ensure (e_schema_version e = 2 \<and> e_kind e = MicrophoneActivity
            \<and> e_sequence e > 0 \<and> e_sequence e \<le> ev_max_events (wk_events d)
            \<and> e_source_sequence e > 0 \<and> e_source_sequence e \<le> en_max_blocks parameters
            \<and> e_source_frames e = e_source_sequence e * en_block_frames parameters
            \<and> e_source_frames e \<le> li_max_source_frames (wk_limits d)
            \<and> e_elapsed_ms e \<le> li_max_session_ms (wk_limits d)
            \<and> (case e_level e of None \<Rightarrow> True | Some v \<Rightarrow> v \<le> 32768)
            \<and> (e_active e = None \<or> e_level e \<noteq> None)
            \<and> (\<not> e_discontinuity e \<or> (e_active e = None \<and> e_level e = None)))
          (EventE EventInvalid) (Inr ()))"

definition event_follows :: "workload \<Rightarrow> event \<Rightarrow> event option \<Rightarrow> unit result" where
  "event_follows d e previous =
     rbind (event_validate d e) (\<lambda>_.
     case previous of
       None \<Rightarrow> ensure (e_sequence e = 1 \<and> e_source_sequence e = 1 \<and> e_elapsed_ms e = 0)
                 (EventE EventInitial) (Inr ())
     | Some p \<Rightarrow>
         ensure (Some (e_sequence e) = checked_add (e_sequence p) 1
             \<and> e_source_sequence p < e_source_sequence e
             \<and> saturating_add (e_elapsed_ms p) (ev_min_interval_ms (wk_events d)) \<le> e_elapsed_ms e
             \<and> (e_active e \<noteq> e_active p \<or> e_discontinuity e))
           (EventE EventPrefix) (Inr ()))"

section \<open>A run of the filter\<close>

text \<open>The events that a sequence of observations produces, with the final filter.\<close>

primrec filter_run ::
  "'x event_externals_scheme \<Rightarrow> (stream_observation \<times> instant) list \<Rightarrow> event_filter
   \<Rightarrow> event list \<times> event_filter" where
  "filter_run ext [] f = ([], f)"
| "filter_run ext (x # xs) f =
     (case filter_observe ext f (fst x) (snd x) of
        (Inl _, f') \<Rightarrow> filter_run ext xs f'
      | (Inr None, f') \<Rightarrow> filter_run ext xs f'
      | (Inr (Some e), f') \<Rightarrow> (case filter_run ext xs f' of (es, g) \<Rightarrow> (e # es, g)))"

text \<open>The chain that the journal's validator accepts.\<close>

primrec event_chain :: "workload \<Rightarrow> event list \<Rightarrow> event option \<Rightarrow> bool" where
  "event_chain d [] previous = True"
| "event_chain d (e # es) previous =
     (event_follows d e previous = Inr () \<and> event_chain d es (Some e))"

section \<open>Filter invariant\<close>

text \<open>
  The filter of definition \<open>d\<close> after it produced its last event: positions and clock agree,
  counters are within the reviewed bounds, and the last event is the one the journal must
  see next to it.
\<close>

definition filter_inv :: "workload \<Rightarrow> event_filter \<Rightarrow> bool" where
  "filter_inv d f \<longleftrightarrow>
     fl_limits f = wk_events d
     \<and> fl_block_frames f = en_block_frames (src_parameters (wk_source d))
     \<and> fl_max_blocks f = en_max_blocks (src_parameters (wk_source d))
     \<and> fl_max_source_frames f = li_max_source_frames (wk_limits d)
     \<and> fl_last_source_frames f = fl_last_source_sequence f * fl_block_frames f
     \<and> fl_events f \<le> ev_max_events (wk_events d)
     \<and> fl_bytes f \<le> ev_max_total_bytes (wk_events d)
     \<and> (fl_last_event f = None \<longleftrightarrow> fl_events f = 0)
     \<and> (fl_events f = 0 \<longrightarrow> fl_last_active f = None)
     \<and> (fl_last_source_sequence f = 0 \<longleftrightarrow> fl_first_observed_at f = None)
     \<and> (fl_events f = 0 \<longrightarrow> \<not> fl_failed f \<longrightarrow> fl_last_source_sequence f = 0)
     \<and> (\<forall>e. fl_last_event f = Some e \<longrightarrow>
          e_sequence e = fl_events f \<and> e_source_sequence e \<le> fl_last_source_sequence f
          \<and> fl_last_active f = Some (e_active e)
          \<and> (\<exists>first at seen. fl_first_observed_at f = Some first \<and> fl_last_event_at f = Some at
               \<and> fl_last_observed_at f = Some seen \<and> first \<le> at \<and> at \<le> seen
               \<and> e_elapsed_ms e = as_millis (since at first)))"

lemma filter_new_inv:
  "filter_new ext d = Inr f \<Longrightarrow> filter_inv d f \<and> fl_events f = 0 \<and> \<not> fl_failed f"
  by (auto simp: filter_new_def filter_inv_def split: event_mode.splits overflow.splits
      workload_source.splits)

lemma filter_observe_InlD:
  "filter_observe ext f ob now = (Inl e, f') \<Longrightarrow> fl_failed f'"
  by (auto simp: filter_observe_def split: if_splits prod.splits sum.splits)

text \<open>A silent observation keeps the invariant.\<close>

lemma filter_observe_None:
  assumes "filter_observe ext f ob now = (Inr None, f')" and "filter_inv d f"
  shows "filter_inv d f' \<and> \<not> fl_failed f' \<and> fl_last_event f' = fl_last_event f
    \<and> fl_events f' = fl_events f \<and> fl_first_observed_at f' = fl_first_observed_at f"
proof -
  have nf: "\<not> fl_failed f" and acc: "filter_accept ext f ob now = (Inr None, f')"
    using assms(1) by (auto simp: filter_observe_def split: if_splits prod.splits sum.splits)
  have fo: "observation_follows f ob now" and act: "fl_last_active f = Some (ob_active ob)"
    using acc by (auto simp: filter_accept_def Let_def split: if_splits)
  have ev: "fl_events f \<noteq> 0" using act assms(2) by (auto simp: filter_inv_def)
  then obtain e first at seen where e: "fl_last_event f = Some e"
    and first: "fl_first_observed_at f = Some first" "fl_last_event_at f = Some at"
      "fl_last_observed_at f = Some seen" "first \<le> at" "at \<le> seen"
    using assms(2) by (auto simp: filter_inv_def)
  have f': "f' = f\<lparr>fl_last_source_sequence := ob_sequence ob,
                   fl_last_source_frames := ob_source_frames ob,
                   fl_last_observed_at := Some now, fl_first_observed_at := Some first\<rparr>"
    using acc first(1) by (auto simp: filter_accept_def Let_def split: if_splits)
  have "seen \<le> now" using fo first(3) by (simp add: observation_follows_def)
  then show ?thesis
    using assms(2) f' fo ev nf e first unfolding filter_inv_def observation_follows_def
    by (auto simp: algebra_simps)
qed

text \<open>What an emitted event looks like, read off the filter's code.\<close>

lemma filter_observe_SomeD:
  assumes "filter_observe ext f ob now = (Inr (Some e), f')"
  shows "\<not> fl_failed f" "observation_follows f ob now"
    and "fl_last_active f \<noteq> Some (ob_active ob) \<or> ob_discontinuity ob"
    and "\<And>at. fl_last_event_at f = Some at \<Longrightarrow>
           ev_min_interval_ms (fl_limits f) \<le> as_millis (since now at)"
    and "fl_events f < ev_max_events (fl_limits f)"
    and "e = \<lparr>e_schema_version = 2, e_kind = MicrophoneActivity, e_sequence = fl_events f + 1,
             e_source_sequence = ob_sequence ob, e_source_frames = ob_source_frames ob,
             e_elapsed_ms = as_millis (since now (case fl_first_observed_at f of None \<Rightarrow> now
                              | Some i \<Rightarrow> i)),
             e_active = ob_active ob, e_level = ob_level ob,
             e_discontinuity = ob_discontinuity ob\<rparr>"
    and "length (event_text ext e) \<le> ev_max_event_bytes (fl_limits f)"
    and "length (event_text ext e) \<le> ev_max_total_bytes (fl_limits f) - fl_bytes f"
    and "f' = f\<lparr>fl_last_source_sequence := ob_sequence ob,
               fl_last_source_frames := ob_source_frames ob, fl_last_observed_at := Some now,
               fl_first_observed_at := Some (case fl_first_observed_at f of None \<Rightarrow> now
                  | Some i \<Rightarrow> i),
               fl_events := fl_events f + 1, fl_bytes := fl_bytes f + length (event_text ext e),
               fl_last_active := Some (ob_active ob), fl_last_event_at := Some now,
               fl_last_event := Some e\<rparr>"
proof -
  have nf: "\<not> fl_failed f" and acc: "filter_accept ext f ob now = (Inr (Some e), f')"
    using assms by (auto simp: filter_observe_def split: if_splits prod.splits sum.splits)
  show "\<not> fl_failed f" by (rule nf)
  show "observation_follows f ob now"
    "fl_last_active f \<noteq> Some (ob_active ob) \<or> ob_discontinuity ob"
    "\<And>at. fl_last_event_at f = Some at \<Longrightarrow>
           ev_min_interval_ms (fl_limits f) \<le> as_millis (since now at)"
    "fl_events f < ev_max_events (fl_limits f)"
    using acc by (auto simp: filter_accept_def Let_def split: if_splits)
  show "e = \<lparr>e_schema_version = 2, e_kind = MicrophoneActivity, e_sequence = fl_events f + 1,
             e_source_sequence = ob_sequence ob, e_source_frames = ob_source_frames ob,
             e_elapsed_ms = as_millis (since now (case fl_first_observed_at f of None \<Rightarrow> now
                              | Some i \<Rightarrow> i)),
             e_active = ob_active ob, e_level = ob_level ob,
             e_discontinuity = ob_discontinuity ob\<rparr>"
    "length (event_text ext e) \<le> ev_max_event_bytes (fl_limits f)"
    "length (event_text ext e) \<le> ev_max_total_bytes (fl_limits f) - fl_bytes f"
    "f' = f\<lparr>fl_last_source_sequence := ob_sequence ob,
               fl_last_source_frames := ob_source_frames ob, fl_last_observed_at := Some now,
               fl_first_observed_at := Some (case fl_first_observed_at f of None \<Rightarrow> now
                  | Some i \<Rightarrow> i),
               fl_events := fl_events f + 1, fl_bytes := fl_bytes f + length (event_text ext e),
               fl_last_active := Some (ob_active ob), fl_last_event_at := Some now,
               fl_last_event := Some e\<rparr>"
    using acc by (auto simp: filter_accept_def Let_def saturating_sub_def split: if_splits)
qed

lemma observation_event_valid:
  assumes "observation_follows f ob now" and "filter_inv d f"
    and "fl_events f < ev_max_events (wk_events d)"
    and "elapsed \<le> li_max_session_ms (wk_limits d)"
  shows "event_validate d \<lparr>e_schema_version = 2, e_kind = MicrophoneActivity,
      e_sequence = fl_events f + 1, e_source_sequence = ob_sequence ob,
      e_source_frames = ob_source_frames ob, e_elapsed_ms = elapsed, e_active = ob_active ob,
      e_level = ob_level ob, e_discontinuity = ob_discontinuity ob\<rparr> = Inr ()"
  using assms unfolding observation_follows_def filter_inv_def event_validate_def
  by (auto split: workload_source.splits option.splits)

text \<open>An emitted event keeps the invariant and follows its predecessor for the journal.\<close>

lemma filter_observe_Some:
  assumes obs: "filter_observe ext f ob now = (Inr (Some e), f')" and inv: "filter_inv d f"
    and valid: "workload_validate ext d = Inr ()"
    and session: "e_elapsed_ms e \<le> li_max_session_ms (wk_limits d)"
  shows "filter_inv d f' \<and> \<not> fl_failed f' \<and> fl_last_event f' = Some e
    \<and> event_follows d e (fl_last_event f) = Inr ()"
proof -
  note D = filter_observe_SomeD [OF obs]
  define first where "first = (case fl_first_observed_at f of None \<Rightarrow> now | Some i \<Rightarrow> i)"
  have lim: "fl_limits f = wk_events d" using inv by (simp add: filter_inv_def)
  have fo: "ob_sequence ob = fl_last_source_sequence f + 1"
      "ob_source_frames ob = fl_last_source_frames f + fl_block_frames f"
    using D(2) by (simp_all add: observation_follows_def)
  have bytes: "fl_bytes f + length (event_text ext e) \<le> ev_max_total_bytes (wk_events d)"
    using D(8) lim inv by (auto simp: filter_inv_def)
  have ev: "event_validate d e = Inr ()"
    using observation_event_valid [OF D(2) inv D(5) [unfolded lim] session [unfolded D(6)]] D(6)
    by simp
  show ?thesis
  proof (cases "fl_last_event f")
    case None
    then have z: "fl_events f = 0" "fl_last_source_sequence f = 0" "fl_first_observed_at f = None"
      using inv D(1) by (auto simp: filter_inv_def)
    have "event_follows d e None = Inr ()"
      using ev D(6) z fo by (simp add: event_follows_def since_def as_millis_def)
    moreover have "filter_inv d f'"
      using inv D(5,6,9) z fo bytes lim unfolding filter_inv_def by (simp add: algebra_simps)
    ultimately show ?thesis using None D(1,9) by simp
  next
    case (Some p)
    then obtain fst at seen where at: "fl_first_observed_at f = Some fst"
      "fl_last_event_at f = Some at" "fl_last_observed_at f = Some seen" "fst \<le> at" "at \<le> seen"
      and p: "e_elapsed_ms p = as_millis (since at fst)" "e_sequence p = fl_events f"
        "e_source_sequence p \<le> fl_last_source_sequence f" "fl_last_active f = Some (e_active p)"
      using inv by (auto simp: filter_inv_def)
    have now: "seen \<le> now" using D(2) at(3) by (simp add: observation_follows_def)
    have gap: "as_millis (since at fst) + ev_min_interval_ms (wk_events d) \<le> as_millis (since now fst)"
    proof -
      have "since now fst = since at fst + since now at" using at now by (simp add: since_def)
      then have "as_millis (since at fst) + as_millis (since now at) \<le> as_millis (since now fst)"
        using as_millis_add by metis
      then show ?thesis using D(4) [OF at(2)] lim by simp
    qed
    have "event_follows d e (Some p) = Inr ()"
    proof -
      have "fl_events f + 1 \<le> u64_max"
        using D(5) lim validate_components_InrD(11) [OF workload_validate_InrD(1) [OF valid]]
        by (simp add: u64_max_def)
      moreover have "saturating_add (e_elapsed_ms p) (ev_min_interval_ms (wk_events d))
          \<le> e_elapsed_ms e"
        using gap D(6) at(1) p(1) saturating_add_bounds(2) le_trans by fastforce
      ultimately show ?thesis
        using ev D(3,6) p fo by (auto simp: event_follows_def)
    qed
    moreover have "filter_inv d f'"
      using inv D(5,6,9) at now fo bytes lim Some unfolding filter_inv_def
      by (simp add: algebra_simps)
    ultimately show ?thesis using Some D(1,9) by simp
  qed
qed

lemma filter_run_failed: "fl_failed f \<Longrightarrow> filter_run ext xs f = ([], f)"
  by (induction xs) (simp_all add: filter_observe_def)

text \<open>The filter does not know the session length: the journal accepts the events up to its end.\<close>

definition in_session :: "workload \<Rightarrow> event \<Rightarrow> bool" where
  "in_session d e \<longleftrightarrow> e_elapsed_ms e \<le> li_max_session_ms (wk_limits d)"

lemma filter_run_chain:
  assumes "filter_inv d f" and "\<not> fl_failed f" and "workload_validate ext d = Inr ()"
  shows "event_chain d (takeWhile (in_session d) (fst (filter_run ext xs f))) (fl_last_event f)"
  using assms
proof (induction xs arbitrary: f)
  case (Cons x xs)
  obtain r f' where r: "filter_observe ext f (fst x) (snd x) = (r, f')" by fastforce
  consider (err) e where "r = Inl e" | (quiet) "r = Inr None" | (event) e where "r = Inr (Some e)"
    by (cases r) auto
  then show ?case
  proof cases
    case err
    then have "fl_failed f'" using filter_observe_InlD r by blast
    then have "filter_run ext xs f' = ([], f')" by (rule filter_run_failed)
    then show ?thesis using err r by simp
  next
    case quiet
    then show ?thesis
      using filter_observe_None [OF r [unfolded quiet] Cons.prems(1)] Cons.IH [of f'] Cons.prems r
      by simp
  next
    case event
    show ?thesis
    proof (cases "in_session d e")
      case True
      note S = filter_observe_Some [OF r [unfolded event] Cons.prems(1,3) True [unfolded in_session_def]]
      show ?thesis using S Cons.IH [of f'] Cons.prems(3) r event True by (cases "filter_run ext xs f'") simp
    qed (use r event in \<open>simp split: prod.splits\<close>)
  qed
qed simp

text \<open>Every event carries the time of its observation since the first one.\<close>

lemma filter_observe_first:
  "filter_observe ext f ob now = (Inr r, f') \<Longrightarrow>
     fl_first_observed_at f' = Some (case fl_first_observed_at f of None \<Rightarrow> now | Some i \<Rightarrow> i)"
  by (auto simp: filter_observe_def filter_accept_def Let_def split: if_splits prod.splits sum.splits)

lemma filter_run_elapsed:
  assumes "e \<in> set (fst (filter_run ext xs f))"
  shows "\<exists>x \<in> set xs. e_elapsed_ms e
    = as_millis (since (snd x) (case fl_first_observed_at f of None \<Rightarrow> snd (hd xs) | Some i \<Rightarrow> i))"
  using assms
proof (induction xs arbitrary: f)
  case (Cons x xs)
  obtain r f' where r: "filter_observe ext f (fst x) (snd x) = (r, f')" by fastforce
  show ?case
  proof (cases r)
    case (Inl err)
    then have "fl_failed f'" using filter_observe_InlD r by blast
    then show ?thesis using Cons.prems r Inl by (simp add: filter_run_failed)
  next
    case (Inr v)
    note first = filter_observe_first [OF r [unfolded Inr]]
    have later: "?thesis" if "e \<in> set (fst (filter_run ext xs f'))"
      using Cons.IH [OF that] first by (cases "fl_first_observed_at f") auto
    show ?thesis
    proof (cases v)
      case None
      then show ?thesis using later Cons.prems r Inr by simp
    next
      case (Some e')
      then have "e = e' \<or> e \<in> set (fst (filter_run ext xs f'))" using Cons.prems r Inr by (auto split: prod.splits)
      then show ?thesis using later filter_observe_SomeD(6) [OF r [unfolded Inr Some]] by (cases "fl_first_observed_at f") auto
    qed
  qed
qed simp

lemma takeWhile_all: "\<forall>x \<in> set xs. P x \<Longrightarrow> takeWhile P xs = xs"
  by (simp add: takeWhile_eq_all_conv)

section \<open>Budgets\<close>

definition event_bytes :: "'x event_externals_scheme \<Rightarrow> event list \<Rightarrow> nat" where
  "event_bytes ext es = sum_list (map (\<lambda>e. length (event_text ext e)) es)"

lemma event_bytes_simps [simp]:
  "event_bytes ext [] = 0"
  "event_bytes ext (e # es) = length (event_text ext e) + event_bytes ext es"
  by (simp_all add: event_bytes_def)

lemma event_bytes_append [simp]:
  "event_bytes ext (xs @ ys) = event_bytes ext xs + event_bytes ext ys"
  by (simp add: event_bytes_def)

definition within_budget :: "event_filter \<Rightarrow> bool" where
  "within_budget f \<longleftrightarrow> fl_events f \<le> ev_max_events (fl_limits f)
     \<and> fl_bytes f \<le> ev_max_total_bytes (fl_limits f)"

text \<open>An observation without an event leaves the budgets and the last event alone.\<close>

lemma filter_observe_quiet:
  assumes "filter_observe ext f ob now = (r, f')" and "\<And>e. r \<noteq> Inr (Some e)"
  shows "fl_events f' = fl_events f \<and> fl_bytes f' = fl_bytes f \<and> fl_limits f' = fl_limits f
    \<and> fl_last_event f' = fl_last_event f"
  using assms
  by (auto simp: filter_observe_def filter_accept_def Let_def split: if_splits prod.splits sum.splits)

lemma filter_run_budget:
  assumes "within_budget f" and "filter_run ext xs f = (es, g)"
  shows "within_budget g \<and> fl_limits g = fl_limits f \<and> fl_events g = fl_events f + length es
    \<and> fl_bytes g = fl_bytes f + event_bytes ext es
    \<and> fl_last_event g = (if es = [] then fl_last_event f else Some (last es))
    \<and> (\<forall>e \<in> set es. length (event_text ext e) \<le> ev_max_event_bytes (fl_limits f))"
  using assms
proof (induction xs arbitrary: f es)
  case (Cons x xs)
  obtain r f' where r: "filter_observe ext f (fst x) (snd x) = (r, f')" by fastforce
  show ?case
  proof (cases "\<exists>e. r = Inr (Some e)")
    case True
    then obtain e where e: "r = Inr (Some e)" by blast
    note D = filter_observe_SomeD [OF r [unfolded e]]
    obtain es' where es': "filter_run ext xs f' = (es', g)" "es = e # es'"
      using Cons.prems(2) r e by (auto split: prod.splits)
    have f': "fl_limits f' = fl_limits f" "fl_events f' = fl_events f + 1"
        "fl_bytes f' = fl_bytes f + length (event_text ext e)" "fl_last_event f' = Some e"
      using D(9) by simp_all
    have "within_budget f'"
      using Cons.prems(1) D(5,8) f' by (simp add: within_budget_def)
    from Cons.IH [OF this es'(1)] show ?thesis using es'(2) f' D(7) by simp
  next
    case False
    then have q: "\<And>e. r \<noteq> Inr (Some e)" by blast
    have "filter_run ext xs f' = (es, g)"
      using Cons.prems(2) r q by (auto split: sum.splits option.splits)
    then show ?thesis
      using Cons.IH [of f' es] filter_observe_quiet [OF r q] Cons.prems(1)
      by (auto simp: within_budget_def)
  qed
qed simp

lemma filter_new_budget:
  "filter_new ext d = Inr f \<Longrightarrow> within_budget f \<and> fl_events f = 0 \<and> fl_bytes f = 0
    \<and> fl_limits f = wk_events d \<and> fl_last_event f = None"
  by (auto simp: filter_new_def within_budget_def split: event_mode.splits overflow.splits
      workload_source.splits)

lemma filter_new_valid: "filter_new ext d = Inr f \<Longrightarrow> workload_validate ext d = Inr ()"
  by (auto simp: filter_new_def)

section \<open>Concrete inputs\<close>

definition sample_event_ext :: event_externals where
  "sample_event_ext = workload_externals.extend sample_workload_ext
     \<lparr>event_text = (\<lambda>e. replicate 128 (CHR ''e''))\<rparr>"

definition sample_observation :: "nat \<Rightarrow> bool \<Rightarrow> stream_observation" where
  "sample_observation n active =
     \<lparr>ob_sequence = n, ob_source_frames = 1600 * n, ob_active = Some active,
      ob_level = Some (if active then 200 else 20), ob_discontinuity = False\<rparr>"

definition sample_observations :: "(stream_observation \<times> instant) list" where
  "sample_observations =
     [(sample_observation 1 False, 0), (sample_observation 2 False, 100 * ns_per_ms),
      (sample_observation 3 True, 200 * ns_per_ms)]"

definition sample_filter :: event_filter where
  "sample_filter =
     \<lparr>fl_limits = wk_events sample_workload, fl_block_frames = 1600, fl_max_blocks = 10,
      fl_max_source_frames = 16000, fl_last_source_sequence = 0, fl_last_source_frames = 0,
      fl_last_observed_at = None, fl_first_observed_at = None, fl_last_active = None,
      fl_last_event_at = None, fl_events = 0, fl_bytes = 0, fl_failed = False,
      fl_last_event = None\<rparr>"

definition sample_event :: "nat \<Rightarrow> nat \<Rightarrow> nat \<Rightarrow> bool \<Rightarrow> event" where
  "sample_event n source elapsed active =
     \<lparr>e_schema_version = 2, e_kind = MicrophoneActivity, e_sequence = n,
      e_source_sequence = source, e_source_frames = 1600 * source, e_elapsed_ms = elapsed,
      e_active = Some active, e_level = Some (if active then 200 else 20),
      e_discontinuity = False\<rparr>"

definition sample_filter_end :: event_filter where
  "sample_filter_end =
     sample_filter\<lparr>fl_last_source_sequence := 3, fl_last_source_frames := 4800,
       fl_last_observed_at := Some (200 * ns_per_ms), fl_first_observed_at := Some 0,
       fl_last_active := Some (Some True), fl_last_event_at := Some (200 * ns_per_ms),
       fl_events := 2, fl_bytes := 256, fl_last_event := Some (sample_event 2 3 200 True)\<rparr>"

lemma sample_filter_new: "filter_new sample_event_ext sample_workload = Inr sample_filter"
  by (simp add: filter_new_def sample_event_ext_def)
     (simp add: sample_workload_def sample_filter_def)

lemma sample_filter_run:
  "filter_run sample_event_ext sample_observations sample_filter
     = ([sample_event 1 1 0 False, sample_event 2 3 200 True], sample_filter_end)"
  by (simp add: sample_observations_def filter_observe_def filter_accept_def Let_def
      observation_follows_def sample_filter_def sample_observation_def sample_workload_def
      sample_event_ext_def workload_externals.defs sample_event_def sample_filter_end_def
      saturating_sub_def since_def as_millis_def ns_per_ms_def u64_max_def)

section \<open>Properties\<close>

text \<open>
  C16. Whatever the microphone source reports, the events the filter of a reviewed definition
  lets through form a chain that the journal accepts, up to the first that lies beyond the
  reviewed session length: each validates against the definition and follows its predecessor
  (consecutive sequence numbers, increasing source positions, the reviewed minimal interval,
  a real transition or gap). When the observations were all made within the session
  length of the first one, that is every event. The filter itself does not check the session length.
\<close>

theorem filtered_events_accepted:
  assumes "filter_new ext d = Inr f" and "filter_run ext observations f = (es, g)"
  shows "event_chain d (takeWhile (\<lambda>e. e_elapsed_ms e \<le> li_max_session_ms (wk_limits d)) es) None
    \<and> ((\<forall>x \<in> set observations. as_millis (since (snd x) (snd (hd observations))) \<le> li_max_session_ms (wk_limits d))
        \<longrightarrow> event_chain d es None)"
proof -
  have f: "filter_inv d f" "\<not> fl_failed f" "fl_last_event f = None" "fl_first_observed_at f = None"
    using filter_new_inv [OF assms(1)] filter_new_budget [OF assms(1)] by (auto simp: filter_inv_def)
  have chain: "event_chain d (takeWhile (in_session d) es) None"
    using filter_run_chain [OF f(1,2) filter_new_valid [OF assms(1)], of observations] assms(2) f(3) by simp
  have every: "takeWhile (in_session d) es = es"
    if "\<forall>x \<in> set observations. as_millis (since (snd x) (snd (hd observations))) \<le> li_max_session_ms (wk_limits d)"
    using filter_run_elapsed [of _ ext observations f] that assms(2) f(4)
    by (intro takeWhile_all) (fastforce simp: in_session_def)
  show ?thesis
  proof (intro conjI impI)
    show "event_chain d (takeWhile (\<lambda>e. e_elapsed_ms e \<le> li_max_session_ms (wk_limits d)) es) None"
      using chain by (simp add: in_session_def [abs_def])
  qed (metis every chain)
qed

theorem filtered_events_accepted_witness:
  "event_chain sample_workload [sample_event 1 1 0 False, sample_event 2 3 200 True] None"
proof -
  have "\<forall>x \<in> set sample_observations. as_millis (since (snd x) (snd (hd sample_observations)))
      \<le> li_max_session_ms (wk_limits sample_workload)"
    by (simp add: sample_observations_def since_def as_millis_def ns_per_ms_def sample_workload_def)
  then show ?thesis using filtered_events_accepted [OF sample_filter_new sample_filter_run] by blast
qed

text \<open>
  C17. The filter never exceeds the reviewed reporting budget, whatever it observes: at most
  \<open>max_events\<close> events, each at most \<open>max_event_bytes\<close> long, together at most
  \<open>max_total_bytes\<close>. Its seal, if the finished stream is the one observed, attests exactly
  the events that were let through: their number, their bytes and the last of them.
\<close>

theorem filter_budget_and_seal:
  assumes "filter_new ext d = Inr f" and "filter_run ext observations f = (es, g)"
  shows "length es \<le> ev_max_events (wk_events d)
    \<and> event_bytes ext es \<le> ev_max_total_bytes (wk_events d)
    \<and> (\<forall>e \<in> set es. length (event_text ext e) \<le> ev_max_event_bytes (wk_events d))
    \<and> (\<forall>summary seal h. filter_seal g summary = (Inr seal, h) \<longrightarrow>
         es \<noteq> [] \<and> seal_confirms seal (length es) (event_bytes ext es) (last es)
         \<and> su_observations summary = fl_last_source_sequence g
         \<and> (\<forall>later. filter_run ext later h = ([], h)))"
proof -
  note N = filter_new_budget [OF assms(1)]
  have B: "within_budget g" "fl_limits g = wk_events d" "fl_events g = length es"
      "fl_bytes g = event_bytes ext es"
      "fl_last_event g = (if es = [] then None else Some (last es))"
      "\<forall>e \<in> set es. length (event_text ext e) \<le> ev_max_event_bytes (wk_events d)"
    using filter_run_budget [OF _ assms(2)] N by auto
  have "es \<noteq> [] \<and> seal_confirms seal (length es) (event_bytes ext es) (last es)
      \<and> su_observations summary = fl_last_source_sequence g \<and> (\<forall>later. filter_run ext later h = ([], h))"
    if "filter_seal g summary = (Inr seal, h)" for summary seal h
  proof -
    have h: "fl_failed h" using that by (auto simp: filter_seal_def Let_def split: if_splits option.splits)
    show ?thesis
      using that B(3-5) filter_run_failed [OF h]
      by (auto simp: filter_seal_def seal_confirms_def Let_def split: if_splits option.splits)
  qed
  then show ?thesis using B by (auto simp: within_budget_def)
qed

theorem filter_budget_and_seal_witness:
  "event_bytes sample_event_ext [sample_event 1 1 0 False, sample_event 2 3 200 True]
     \<le> ev_max_total_bytes (wk_events sample_workload)
   \<and> seal_confirms \<lparr>sl_count = 2, sl_bytes = 256, sl_last = sample_event 2 3 200 True\<rparr>
       2 (event_bytes sample_event_ext [sample_event 1 1 0 False, sample_event 2 3 200 True])
       (sample_event 2 3 200 True)"
proof -
  let ?summary = "\<lparr>su_stream_id = sample_grant, su_observations = 3, su_source_frames = 4800\<rparr>"
  have seal: "filter_seal sample_filter_end ?summary
      = (Inr \<lparr>sl_count = 2, sl_bytes = 256, sl_last = sample_event 2 3 200 True\<rparr>,
         sample_filter_end\<lparr>fl_failed := True, fl_last_event := None\<rparr>)"
    by (simp add: filter_seal_def sample_filter_end_def sample_filter_def)
  note P = filter_budget_and_seal [OF sample_filter_new sample_filter_run]
  from P have "seal_confirms \<lparr>sl_count = 2, sl_bytes = 256, sl_last = sample_event 2 3 200 True\<rparr>
      (length [sample_event 1 1 0 False, sample_event 2 3 200 True])
      (event_bytes sample_event_ext [sample_event 1 1 0 False, sample_event 2 3 200 True])
      (last [sample_event 1 1 0 False, sample_event 2 3 200 True])"
    using seal by blast
  with P show ?thesis by (simp add: numeral_2_eq_2)
qed

end
