(* ===== verification/Grant_Operation.thy ===== *)
theory Grant_Operation
  imports Workload_Events
begin

text \<open>
  The granted operation (\<^verbatim>\<open>grants.rs\<close>): the execution grant as data, access to the JSON values
  of its parameters, and the shape that every single operation must have
  (\<^verbatim>\<open>OperationShape::validate\<close>), whether it is granted alone or as a step of a pipeline.
\<close>

section \<open>Data\<close>

definition MAX_DURATION_MS :: nat where "MAX_DURATION_MS = 30000"
definition REPORT_HEADROOM :: nat where "REPORT_HEADROOM = 8192"

record grant_limits =
  gl_max_execution_ms :: nat
  gl_max_result_bytes :: nat

record execution_grant =
  g_schema_version :: nat
  g_grant_id :: string
  g_issuer_id :: string
  g_session_id :: string
  g_executor_node :: string
  g_job_id :: string
  g_task_id :: string
  g_attempt :: nat
  g_plan_sha256 :: string
  g_request_context :: request_context
  g_capability :: string
  g_action :: string
  g_params :: json
  g_resource_id :: "string option"
  g_model_id :: "string option"
  g_backend :: "string option"
  g_model_role :: "string option"
  g_priority :: int
  g_limits :: grant_limits
  g_reporting :: string
  g_issued_at_ms :: nat
  g_expires_at_ms :: nat

section \<open>JSON access\<close>

text \<open>\<^verbatim>\<open>Value::get\<close>, \<^verbatim>\<open>value[key]\<close> (null when absent), \<^verbatim>\<open>is_object\<close> and \<^verbatim>\<open>as_bool\<close> of serde.\<close>

fun jget :: "json \<Rightarrow> string \<Rightarrow> json option" where
  "jget (JObject m) k = map_of m k"
| "jget _ _ = None"

definition jindex :: "json \<Rightarrow> string \<Rightarrow> json" where
  "jindex v k = (case jget v k of None \<Rightarrow> JNull | Some w \<Rightarrow> w)"

definition is_object :: "json \<Rightarrow> bool" where
  "is_object v = (case v of JObject _ \<Rightarrow> True | _ \<Rightarrow> False)"

text \<open>\<^verbatim>\<open>str::split_once\<close> at the resource separator.\<close>

fun split_once_colons :: "string \<Rightarrow> (string \<times> string) option" where
  "split_once_colons (c # d # cs) =
     (if c = CHR '':'' \<and> d = CHR '':'' then Some ([], cs)
      else map_option (\<lambda>(a, b). (c # a, b)) (split_once_colons (d # cs)))"
| "split_once_colons _ = None"

section \<open>Operation shape\<close>

definition validate_model_id :: "string \<Rightarrow> unit result" where
  "validate_model_id s =
     ensure (s \<noteq> [] \<and> length s \<le> 256 \<and> is_trimmed s \<and> \<not> has_control s) (GrantE GrantModel)
       (Inr ())"

record operation_shape =
  os_capability :: string
  os_action :: string
  os_params :: json
  os_resource_id :: "string option"
  os_model_id :: "string option"
  os_backend :: "string option"
  os_model_role :: "string option"

definition supported_operation :: "string \<Rightarrow> string \<Rightarrow> bool" where
  "supported_operation cap action \<longleftrightarrow>
     (cap \<in> set [''system.info'', ''system.ping''] \<and> action = ''run'')
     \<or> (cap = ''filesystem'' \<and> action \<in> set [''read'', ''write'', ''list''])
     \<or> (cap = ''process.exec'' \<and> action = ''run'')
     \<or> (cap = ''application.control'' \<and> action = ''launch'')
     \<or> (cap = ''http.request'' \<and> action = ''send'')
     \<or> (cap = ''stt.transcribe'' \<and> action = ''transcribe'')
     \<or> (cap = ''network.wol'' \<and> action = ''wake'')
     \<or> (cap \<in> set [''llm.infer'', ''vlm.analyze''] \<and> action \<in> set [''run'', ''analyze''])
     \<or> (cap \<in> set [''camera.capture'', ''screen.capture''] \<and> action = ''capture'')
     \<or> (cap = ''audio.capture'' \<and> action = ''record'')
     \<or> (cap = ''audio.play'' \<and> action = ''play'')
     \<or> (cap = ''tts.speak'' \<and> action = ''speak'')
     \<or> (cap = ''input.control''
         \<and> action \<in> set [''type'', ''press'', ''move'', ''click'', ''scroll''])"

definition resource_owned :: "string option \<Rightarrow> string \<Rightarrow> bool" where
  "resource_owned executor resource =
     (case executor of
        Some node \<Rightarrow> length (node @ ''::'') < length resource
          \<and> strip_prefix (node @ ''::'') resource \<noteq> None
      | None \<Rightarrow> (case split_once_colons resource of None \<Rightarrow> False
          | Some (node, l) \<Rightarrow> l \<noteq> [] \<and> is_ok (validate_remote_node_id node)))"

definition shape_resource :: "operation_shape \<Rightarrow> string option \<Rightarrow> unit result" where
  "shape_resource sh executor =
     (case os_resource_id sh of
        Some resource \<Rightarrow>
          ensure (length resource \<le> 256 \<and> resource_owned executor resource
              \<and> \<not> has_control resource
              \<and> jindex (os_params sh) ''resource_id'' = JString resource)
            (GrantE GrantResource) (Inr ())
      | None \<Rightarrow> ensure (jget (os_params sh) ''resource_id'' = None) (GrantE GrantResource) (Inr ()))"

definition shape_model :: "operation_shape \<Rightarrow> unit result" where
  "shape_model sh =
     (if os_capability sh \<in> set [''llm.infer'', ''vlm.analyze''] then
        rbind (or_err (os_model_id sh) (GrantE GrantModel)) (\<lambda>model.
        rbind (validate_model_id model) (\<lambda>_.
        rbind (or_err (os_backend sh) (GrantE GrantBackend)) (\<lambda>backend.
        ensure (backend \<in> set [''ollama'', ''llamacpp''] \<and> os_resource_id sh = None
            \<and> jindex (os_params sh) ''model_id'' = JString model
            \<and> (case jget (os_params sh) ''model'' of None \<Rightarrow> True | Some m \<Rightarrow> m = JString model)
            \<and> (case jget (os_params sh) ''backend'' of None \<Rightarrow> True
                | Some b \<Rightarrow> b = JString backend))
          (GrantE GrantBackend)
        (ensure (case os_model_role sh of None \<Rightarrow> True | Some r \<Rightarrow> is_identifier r)
          (GrantE GrantModelRole) (Inr ())))))
      else ensure (os_model_id sh = None \<and> os_backend sh = None \<and> os_model_role sh = None)
             (GrantE GrantModelClaim) (Inr ()))"

definition shape_validate ::
  "'x externals_scheme \<Rightarrow> operation_shape \<Rightarrow> string option \<Rightarrow> unit result" where
  "shape_validate ext sh executor =
     ensure (is_object (os_params sh) \<and> length (json_text ext (os_params sh)) \<le> 64 * 1024)
       (GrantE OperationParams)
     (ensure (supported_operation (os_capability sh) (os_action sh)) (GrantE OperationUnsupported)
     (rbind (shape_resource sh executor) (\<lambda>_. shape_model sh)))"

definition CONDITIONAL :: string where "CONDITIONAL = ''pipeline.when''"

definition is_compound :: "string \<Rightarrow> bool" where
  "is_compound cap \<longleftrightarrow> cap = ''pipeline.run'' \<or> cap = CONDITIONAL"

definition grant_shape :: "execution_grant \<Rightarrow> operation_shape" where
  "grant_shape g =
     \<lparr>os_capability = g_capability g, os_action = g_action g, os_params = g_params g,
      os_resource_id = g_resource_id g, os_model_id = g_model_id g, os_backend = g_backend g,
      os_model_role = g_model_role g\<rparr>"

end
