(* ===== verification/Pipeline_Definition.thy ===== *)
theory Pipeline_Definition
  imports Grant_Operation
begin

text \<open>
  Finite local dataflow (\<^verbatim>\<open>pipeline.rs\<close>): a bounded list of operation steps whose data
  parameters may be bound to fields of earlier results. The definition, its validation, the
  reference counts and the resolution of a step's parameters.

  The serialisation of a definition and of a JSON value and the RFC 6901 lookup of serde_json
  are arguments (\<open>finite_parse\<close>, \<open>finite_text\<close>, \<open>json_text\<close>, \<open>json_pointer\<close>). A
  \<^verbatim>\<open>BTreeMap\<close> or \<^verbatim>\<open>BTreeSet\<close> whose order the code never observes is a map or a list.
\<close>

section \<open>Data\<close>

definition MAX_STEPS :: nat where "MAX_STEPS = 16"
definition PIPELINE_DEFINITION_BYTES :: nat where "PIPELINE_DEFINITION_BYTES = 64 * 1024"
definition MAX_RETAINED_BYTES :: nat where "MAX_RETAINED_BYTES = 1024 * 1024"

record data_input =
  di_parameter :: string
  di_source_step :: string
  di_pointer :: string
  di_wrap_array :: bool

record pipeline_step =
  ps_id :: string
  ps_capability :: string
  ps_action :: string
  ps_params :: json
  ps_resource_id :: "string option"
  ps_model_id :: "string option"
  ps_backend :: "string option"
  ps_model_role :: "string option"
  ps_inputs :: "data_input list"

record pipeline_graph =
  pg_schema_version :: nat
  pg_steps :: "pipeline_step list"
  pg_max_retained_bytes :: nat

record finite_externals = event_externals +
  finite_parse :: "json \<Rightarrow> pipeline_graph option"
  finite_text :: "pipeline_graph \<Rightarrow> string"
  json_pointer :: "json \<Rightarrow> string \<Rightarrow> json option"

definition step_id :: "string \<Rightarrow> bool" where
  "step_id s \<longleftrightarrow> s \<noteq> [] \<and> length s \<le> 32 \<and> list_all is_name_byte s"

section \<open>JSON values\<close>

text \<open>\<^verbatim>\<open>Map::insert\<close> and \<^verbatim>\<open>value[key] = v\<close>; the code uses them on objects only.\<close>

fun jset :: "json \<Rightarrow> string \<Rightarrow> json \<Rightarrow> json" where
  "jset (JObject m) k v = JObject (btree_insert k v m)"
| "jset v _ _ = v"

fun as_str :: "json \<Rightarrow> string option" where
  "as_str (JString s) = Some s"
| "as_str _ = None"

fun as_array :: "json \<Rightarrow> json list option" where
  "as_array (JArray vs) = Some vs"
| "as_array _ = None"

fun as_u64 :: "json \<Rightarrow> nat option" where
  "as_u64 (JNum (PosInt n)) = Some n"
| "as_u64 _ = None"

text \<open>
  A finite \<^verbatim>\<open>f64\<close> is a pair of integers \<open>(m, e)\<close> of value \<open>m * 2 ^ e / 2 ^ 1074\<close>. The
  conversion of an integer rounds to the nearest value with 53 bits, ties to even.
\<close>

type_synonym f64 = "int \<times> nat"

definition f64_bits :: "64 word \<Rightarrow> f64 option" where
  "f64_bits w =
     (let n = unat w; sign = (if n div 2 ^ 63 = 0 then 1 else -1 :: int);
          ex = (n div 2 ^ 52) mod 2 ^ 11; frac = n mod 2 ^ 52 in
      if ex = 2047 then None
      else if ex = 0 then Some (sign * int frac, 0)
      else Some (sign * int (2 ^ 52 + frac), ex - 1))"

fun bit_length :: "nat \<Rightarrow> nat" where
  "bit_length n = (if n = 0 then 0 else Suc (bit_length (n div 2)))"

declare bit_length.simps [simp del]

definition f64_nat :: "nat \<Rightarrow> f64" where
  "f64_nat n =
     (let e = bit_length n - 53; q = n div 2 ^ e; r = n mod 2 ^ e;
          up = (2 * r > 2 ^ e \<or> (2 * r = 2 ^ e \<and> odd q)) in
      (int (if up then q + 1 else q), e + 1074))"

definition f64_int :: "int \<Rightarrow> f64" where
  "f64_int i = (case f64_nat (nat \<bar>i\<bar>) of (m, e) \<Rightarrow> (if i < 0 then - m else m, e))"

definition f64_le :: "f64 \<Rightarrow> f64 \<Rightarrow> bool" where
  "f64_le a b \<longleftrightarrow> fst a * 2 ^ (snd a - min (snd a) (snd b)) \<le> fst b * 2 ^ (snd b - min (snd a) (snd b))"

fun as_f64 :: "json \<Rightarrow> f64 option" where
  "as_f64 (JNum (PosInt n)) = Some (f64_nat n)"
| "as_f64 (JNum (NegInt i)) = Some (f64_int i)"
| "as_f64 (JNum (Float w)) = f64_bits w"
| "as_f64 _ = None"

text \<open>
  \<^verbatim>\<open>encoded_bytes\<close>: the number of bytes of a serialised value, or an error as soon as the
  bounded writer would exceed its limit.
\<close>

definition encoded_bytes :: "string \<Rightarrow> nat \<Rightarrow> nat result" where
  "encoded_bytes text limit =
     ensure (length text \<le> limit) (PipelineE DataBudget) (Inr (length text))"

section \<open>Operations a step may use\<close>

definition METHOD_TEMPLATES :: "string list" where
  "METHOD_TEMPLATES =
     [''system_info'', ''generate_text'', ''analyze_image'', ''launch_application'', ''read_sensor'',
      ''write_file'', ''read_file'', ''list_directory'', ''type_text'', ''press_key'',
      ''capture_screen'', ''capture_camera'', ''record_audio'', ''play_audio'', ''speak_text'',
      ''transcribe_audio'', ''execute_process'', ''http_request'', ''wake_computer'']"

definition template_table :: "(string \<times> (string \<times> string \<times> string list) list) list" where
  "template_table =
     [(''system_info'', [(''system.info'', ''run'', [])]),
      (''continuous_workload'', [(''workload.session'', ''run'', [''workload''])]),
      (''local_pipeline'', [(''pipeline.run'', ''run'', [''pipeline''])]),
      (''conditional_pipeline'', [(CONDITIONAL, ''run'', [''pipeline''])]),
      (''peer_transfer'', [(''peer.transfer'', ''send'', []), (''peer.transfer'', ''receive'', [])]),
      (''generate_text'', [(''llm.infer'', ''run'',
         [''prompt'', ''messages'', ''model_id'', ''tier'', ''max_tokens'', ''temperature''])]),
      (''analyze_image'', [(''vlm.analyze'', ''run'',
         [''prompt'', ''messages'', ''images'', ''model_id'', ''tier'', ''max_tokens'', ''temperature''])]),
      (''launch_application'', [(''application.control'', ''launch'', [''application'', ''args''])]),
      (''read_sensor'', [(''sensor'', ''read'', [''name''])]),
      (''write_file'', [(''filesystem'', ''write'', [''path'', ''content''])]),
      (''read_file'', [(''filesystem'', ''read'', [''path''])]),
      (''list_directory'', [(''filesystem'', ''list'', [''path''])]),
      (''type_text'', [(''input.control'', ''type'', [''text'', ''interval''])]),
      (''press_key'', [(''input.control'', ''press'', [''key''])]),
      (''capture_screen'', [(''screen.capture'', ''capture'', [])]),
      (''capture_camera'', [(''camera.capture'', ''capture'', [''device'', ''width'', ''height'', ''quality''])]),
      (''record_audio'', [(''audio.capture'', ''record'',
         [''device'', ''duration_seconds'', ''sample_rate'', ''channels''])]),
      (''play_audio'', [(''audio.play'', ''play'', [''data_base64''])]),
      (''speak_text'', [(''tts.speak'', ''speak'', [''text'', ''voice'', ''rate'', ''volume''])]),
      (''transcribe_audio'', [(''stt.transcribe'', ''transcribe'', [''audio_base64'', ''audio_path'', ''filename''])]),
      (''execute_process'', [(''process.exec'', ''run'', [''program'', ''args'', ''cwd'', ''timeout_seconds''])]),
      (''http_request'', [(''http.request'', ''send'',
         [''url'', ''method'', ''headers'', ''body'', ''timeout_seconds''])]),
      (''wake_computer'', [(''network.wol'', ''wake'', [''mac'', ''broadcast'', ''port''])]),
      (''observe_room'', [(''camera.capture'', ''capture'', [''device'']),
         (''vlm.analyze'', ''analyze'', [''prompt''])])]"

definition template_steps :: "string \<Rightarrow> (string \<times> string \<times> string list) list result" where
  "template_steps t = or_err (map_of template_table t) (PipelineE TemplateUnknown)"

text \<open>The search of \<^verbatim>\<open>parameter_keys\<close> through the method templates.\<close>

definition keys_match :: "string \<Rightarrow> string \<Rightarrow> string \<times> string \<times> string list \<Rightarrow> bool" where
  "keys_match cap action s \<longleftrightarrow> fst s = cap
     \<and> (fst (snd s) = action \<or> (cap = ''vlm.analyze'' \<and> action = ''analyze''))"

primrec template_keys :: "string \<Rightarrow> string \<Rightarrow> string list \<Rightarrow> string list option result" where
  "template_keys cap action [] = Inr None"
| "template_keys cap action (t # ts) =
     rbind (template_steps t) (\<lambda>steps.
     case find (keys_match cap action) steps of
       Some s \<Rightarrow> Inr (Some (snd (snd s)))
     | None \<Rightarrow> template_keys cap action ts)"

definition parameter_keys :: "string \<Rightarrow> string \<Rightarrow> string list result" where
  "parameter_keys cap action =
     rbind (template_keys cap action METHOD_TEMPLATES) (\<lambda>found.
     case found of
       Some keys \<Rightarrow> Inr keys
     | None \<Rightarrow>
         if cap = ''system.ping'' \<and> action = ''run'' then Inr []
         else if cap = ''input.control'' \<and> action = ''move'' then Inr [''x'', ''y'', ''duration'']
         else if cap = ''input.control'' \<and> action = ''click'' then Inr [''x'', ''y'', ''button'', ''clicks'']
         else if cap = ''input.control'' \<and> action = ''scroll'' then Inr [''amount'']
         else Inl (PipelineE ParameterContract))"

definition data_parameter :: "string \<Rightarrow> string \<Rightarrow> string \<Rightarrow> bool" where
  "data_parameter cap action key \<longleftrightarrow>
     (cap \<in> set [''llm.infer'', ''vlm.analyze''] \<and> action \<in> set [''run'', ''analyze''] \<and> key = ''prompt'')
     \<or> (cap = ''vlm.analyze'' \<and> action \<in> set [''run'', ''analyze''] \<and> key = ''images'')
     \<or> (cap = ''filesystem'' \<and> action = ''write'' \<and> key = ''content'')
     \<or> (cap = ''http.request'' \<and> action = ''send'' \<and> key = ''body'')
     \<or> (cap = ''stt.transcribe'' \<and> action = ''transcribe'' \<and> key = ''audio_base64'')
     \<or> (cap = ''audio.play'' \<and> action = ''play'' \<and> key = ''data_base64'')
     \<or> (cap = ''tts.speak'' \<and> action = ''speak'' \<and> key = ''text'')
     \<or> (cap = ''input.control'' \<and> action = ''type'' \<and> key = ''text'')"

definition validate_data_type :: "string \<Rightarrow> json \<Rightarrow> unit result" where
  "validate_data_type key v =
     (if key = ''body'' then Inr ()
      else if key = ''images'' then
        rbind (or_err (as_array v) (PipelineE DataType)) (\<lambda>vs.
        ensure (vs \<noteq> [] \<and> length vs \<le> 8
            \<and> (\<forall>x \<in> set vs. case as_str x of None \<Rightarrow> False | Some s \<Rightarrow> s \<noteq> []))
          (PipelineE DataType) (Inr ()))
      else rbind (or_err (as_str v) (PipelineE DataType)) (\<lambda>_. Inr ()))"

text \<open>The byte loop of \<^verbatim>\<open>valid_pointer\<close>: every tilde is followed by 0 or 1.\<close>

fun pointer_escapes :: "string \<Rightarrow> bool" where
  "pointer_escapes [] = True"
| "pointer_escapes [c] = (c \<noteq> CHR ''~'')"
| "pointer_escapes (c # d # cs) =
     (if c = CHR ''~'' then d \<in> set ''01'' \<and> pointer_escapes cs else pointer_escapes (d # cs))"

definition valid_pointer :: "string \<Rightarrow> bool" where
  "valid_pointer p \<longleftrightarrow> length p \<le> 256 \<and> \<not> has_control p \<and> (p = [] \<or> hd p = CHR ''/'')
     \<and> pointer_escapes p"

text \<open>\<^verbatim>\<open>text_bound\<close> of \<^verbatim>\<open>interpretation.rs\<close>, the check that \<^verbatim>\<open>messages(text, &[])\<close> makes of its text.\<close>

fun has_text_control :: "string \<Rightarrow> bool" where
  "has_text_control [] = False"
| "has_text_control [c] = ((byte c < 32 \<and> byte c \<notin> {9, 10, 13}) \<or> byte c = 127)"
| "has_text_control (c # d # cs) =
     ((byte c < 32 \<and> byte c \<notin> {9, 10, 13}) \<or> byte c = 127
      \<or> (byte c = 194 \<and> 128 \<le> byte d \<and> byte d \<le> 159) \<or> has_text_control (d # cs))"

definition MAX_INPUT_BYTES :: nat where "MAX_INPUT_BYTES = 32 * 1024"

definition text_bound :: "string \<Rightarrow> nat \<Rightarrow> unit result" where
  "text_bound v maximum =
     ensure (\<not> is_blank v \<and> length v \<le> maximum \<and> \<not> has_text_control v) (PipelineE StepLiterals) (Inr ())"

primrec check_messages :: "json list \<Rightarrow> unit result" where
  "check_messages [] = Inr ()"
| "check_messages (m # ms) =
     (case m of
        JObject kvs \<Rightarrow>
          ensure (set (map fst kvs) \<subseteq> {''role'', ''content''}
              \<and> (case as_str (jindex m ''role'') of None \<Rightarrow> False
                  | Some r \<Rightarrow> r \<in> set [''system'', ''user'', ''assistant'']))
            (PipelineE StepLiterals)
          (rbind (or_err (as_str (jindex m ''content'')) (PipelineE StepLiterals)) (\<lambda>content.
           rbind (text_bound content MAX_INPUT_BYTES) (\<lambda>_. check_messages ms)))
      | _ \<Rightarrow> Inl (PipelineE StepLiterals))"

definition validate_model_literals :: "json \<Rightarrow> bool \<Rightarrow> data_input list \<Rightarrow> unit result" where
  "validate_model_literals params vision inputs =
     rbind (case jget params ''prompt'' of None \<Rightarrow> Inr ()
            | Some prompt \<Rightarrow> rbind (or_err (as_str prompt) (PipelineE StepLiterals)) (\<lambda>s.
                text_bound s MAX_INPUT_BYTES)) (\<lambda>_.
     rbind (case jget params ''messages'' of None \<Rightarrow> Inr ()
            | Some v \<Rightarrow> rbind (or_err (as_array v) (PipelineE StepLiterals)) (\<lambda>ms.
                ensure (ms \<noteq> [] \<and> length ms \<le> 64) (PipelineE StepLiterals) (check_messages ms))) (\<lambda>_.
     rbind (case jget params ''images'' of None \<Rightarrow> Inr ()
            | Some v \<Rightarrow> validate_data_type ''images'' v) (\<lambda>_.
     ensure (\<not> (vision \<and> jget params ''images'' = None
         \<and> \<not> list_ex (\<lambda>i. di_parameter i = ''images'') inputs)) (PipelineE StepLiterals)
     (ensure ((case jget params ''temperature'' of None \<Rightarrow> True
          | Some v \<Rightarrow> (case as_f64 v of None \<Rightarrow> False
              | Some x \<Rightarrow> f64_le (f64_nat 0) x \<and> f64_le x (f64_nat 2)))
         \<and> (case jget params ''max_tokens'' of None \<Rightarrow> True
             | Some v \<Rightarrow> (case as_u64 v of None \<Rightarrow> False | Some n \<Rightarrow> n \<noteq> 0 \<and> n \<le> 32768)))
       (PipelineE StepLiterals) (Inr ())))))"

section \<open>Steps\<close>

text \<open>The loop of \<^verbatim>\<open>bound_params\<close> over the three identity parameters.\<close>

primrec bind_identity :: "(string \<times> string option) list \<Rightarrow> json \<Rightarrow> json result" where
  "bind_identity [] params = Inr params"
| "bind_identity (kv # rest) params =
     (case snd kv of
        None \<Rightarrow> bind_identity rest params
      | Some v \<Rightarrow>
          ensure (case jget params (fst kv) of None \<Rightarrow> True | Some old \<Rightarrow> old = JString v)
            (PipelineE StepIdentity)
          (bind_identity rest (jset params (fst kv) (JString v))))"

definition bound_params :: "'x externals_scheme \<Rightarrow> pipeline_step \<Rightarrow> json result" where
  "bound_params ext s =
     ensure (is_object (ps_params s)
         \<and> is_ok (encoded_bytes (json_text ext (ps_params s)) PIPELINE_DEFINITION_BYTES))
       (PipelineE StepParams)
     (bind_identity [(''resource_id'', ps_resource_id s), (''model_id'', ps_model_id s),
        (''backend'', ps_backend s)] (ps_params s))"

definition step_operation :: "pipeline_step \<Rightarrow> json \<Rightarrow> operation_shape" where
  "step_operation s params =
     \<lparr>os_capability = ps_capability s, os_action = ps_action s, os_params = params,
      os_resource_id = ps_resource_id s, os_model_id = ps_model_id s, os_backend = ps_backend s,
      os_model_role = ps_model_role s\<rparr>"

definition is_model :: "string \<Rightarrow> bool" where
  "is_model cap \<longleftrightarrow> cap \<in> set [''llm.infer'', ''vlm.analyze'']"

text \<open>The loop over the input bindings of a step.\<close>

primrec check_inputs :: "pipeline_step \<Rightarrow> string list \<Rightarrow> data_input list \<Rightarrow> unit result" where
  "check_inputs s targets [] = Inr ()"
| "check_inputs s targets (i # is) =
     ensure (step_id (di_source_step i)) (PipelineE StepIdInvalid)
     (ensure (data_parameter (ps_capability s) (ps_action s) (di_parameter i)
         \<and> di_parameter i \<notin> set targets \<and> jget (ps_params s) (di_parameter i) = None
         \<and> (di_wrap_array i \<longrightarrow> di_parameter i = ''images'') \<and> valid_pointer (di_pointer i))
       (PipelineE StepInputs) (check_inputs s (di_parameter i # targets) is))"

fun object_keys :: "json \<Rightarrow> string list" where
  "object_keys (JObject m) = map fst m"
| "object_keys _ = []"

definition step_validate :: "'x externals_scheme \<Rightarrow> pipeline_step \<Rightarrow> string option \<Rightarrow> unit result" where
  "step_validate ext s executor =
     ensure (step_id (ps_id s)) (PipelineE StepIdInvalid)
     (rbind (bound_params ext s) (\<lambda>params.
      rbind (shape_validate ext (step_operation s params) executor) (\<lambda>_.
      rbind (parameter_keys (ps_capability s) (ps_action s)) (\<lambda>keys.
      ensure (is_model (ps_capability s)
          \<or> (jget (ps_params s) ''model_id'' = None \<and> jget (ps_params s) ''backend'' = None))
        (PipelineE StepModelClaim)
      (ensure (list_all (\<lambda>k. k \<in> set keys \<or> k \<in> set [''resource_id'', ''model_id'', ''backend''])
          (object_keys (ps_params s))) (PipelineE StepKeys)
      (ensure (length (ps_inputs s) \<le> 8) (PipelineE StepInputs)
      (rbind (check_inputs s [] (ps_inputs s)) (\<lambda>_.
       if is_model (ps_capability s) then
         ensure ((jget (ps_params s) ''prompt'' \<noteq> None
              \<or> list_ex (\<lambda>i. di_parameter i = ''prompt'') (ps_inputs s))
            \<noteq> (jget (ps_params s) ''messages'' \<noteq> None)) (PipelineE StepModelSource)
         (validate_model_literals (ps_params s) (ps_capability s = ''vlm.analyze'') (ps_inputs s))
       else Inr ()))))))))"

text \<open>
  The loop of \<^verbatim>\<open>resolve_with_limit\<close>: every binding looks up its earlier result and takes its
  encoded size from the budget that remains.
\<close>

primrec resolve_inputs ::
  "'x finite_externals_scheme \<Rightarrow> (string \<rightharpoonup> json) \<Rightarrow> data_input list \<Rightarrow> nat \<Rightarrow> json \<Rightarrow> json result" where
  "resolve_inputs ext results [] remaining params = Inr params"
| "resolve_inputs ext results (i # is) remaining params =
     rbind (or_err (results (di_source_step i)) (PipelineE SourceUnavailable)) (\<lambda>source.
     rbind (or_err (json_pointer ext source (di_pointer i)) (PipelineE FieldUnavailable)) (\<lambda>value.
     rbind (or_err (checked_sub remaining (length (di_parameter i) + 8)) (PipelineE DataBudget)) (\<lambda>budget.
     rbind (encoded_bytes (json_text ext value) budget) (\<lambda>bytes.
     rbind (or_err (checked_sub budget bytes) (PipelineE DataBudget)) (\<lambda>remaining'.
     let value' = (if di_wrap_array i then JArray [value] else value) in
     rbind (validate_data_type (di_parameter i) value') (\<lambda>_.
     resolve_inputs ext results is remaining' (jset params (di_parameter i) value')))))))"

definition resolve_with_limit ::
  "'x finite_externals_scheme \<Rightarrow> pipeline_step \<Rightarrow> (string \<rightharpoonup> json) \<Rightarrow> nat \<Rightarrow> json result" where
  "resolve_with_limit ext s results limit =
     ensure (1024 \<le> limit \<and> limit \<le> MAX_RETAINED_BYTES) (PipelineE DataBudget)
     (rbind (step_validate ext s None) (\<lambda>_.
      rbind (bound_params ext s) (\<lambda>params.
      rbind (encoded_bytes (json_text ext params) limit) (\<lambda>used.
      rbind (resolve_inputs ext results (ps_inputs s) (limit - used) params) (\<lambda>resolved.
      rbind (if is_model (ps_capability s)
             then validate_model_literals resolved (ps_capability s = ''vlm.analyze'') []
             else Inr ()) (\<lambda>_. Inr resolved))))))"

section \<open>The graph\<close>

primrec validate_steps ::
  "'x externals_scheme \<Rightarrow> string option \<Rightarrow> string list \<Rightarrow> pipeline_step list \<Rightarrow> unit result" where
  "validate_steps ext executor previous [] = Inr ()"
| "validate_steps ext executor previous (s # ss) =
     rbind (step_validate ext s executor) (\<lambda>_.
     ensure (ps_id s \<notin> set previous) (PipelineE PipelineDuplicate)
     (ensure (list_all (\<lambda>i. di_source_step i \<in> set previous) (ps_inputs s)) (PipelineE PipelineForward)
     (validate_steps ext executor (ps_id s # previous) ss)))"

definition validate_for_executor ::
  "'x finite_externals_scheme \<Rightarrow> pipeline_graph \<Rightarrow> string option \<Rightarrow> unit result" where
  "validate_for_executor ext p executor =
     rbind (case executor of None \<Rightarrow> Inr () | Some node \<Rightarrow> validate_remote_node_id node) (\<lambda>_.
     ensure (pg_schema_version p = 1 \<and> pg_steps p \<noteq> [] \<and> length (pg_steps p) \<le> MAX_STEPS
         \<and> 1024 \<le> pg_max_retained_bytes p \<and> pg_max_retained_bytes p \<le> MAX_RETAINED_BYTES
         \<and> is_ok (encoded_bytes (finite_text ext p) PIPELINE_DEFINITION_BYTES))
       (PipelineE PipelineBounds) (validate_steps ext executor [] (pg_steps p)))"

definition compound_bindings :: "execution_grant \<Rightarrow> bool" where
  "compound_bindings g \<longleftrightarrow>
     g_action g = ''run'' \<and> g_resource_id g = None \<and> g_model_id g = None \<and> g_backend g = None
     \<and> g_model_role g = None
     \<and> (case g_params g of JObject m \<Rightarrow> length m = 1 \<and> map_of m ''pipeline'' \<noteq> None | _ \<Rightarrow> False)"

definition finite_from_grant :: "'x finite_externals_scheme \<Rightarrow> execution_grant \<Rightarrow> pipeline_graph result" where
  "finite_from_grant ext g =
     ensure (g_capability g = ''pipeline.run'' \<and> compound_bindings g) (PipelineE PipelineBindings)
     (rbind (or_err (finite_parse ext (jindex (g_params g) ''pipeline'')) (PipelineE PipelineDecode)) (\<lambda>d.
      rbind (validate_for_executor ext d (Some (g_executor_node g))) (\<lambda>_.
      ensure (pg_max_retained_bytes d \<le> gl_max_result_bytes (g_limits g)) (PipelineE PipelineBudget)
        (Inr d))))"

text \<open>\<^verbatim>\<open>reference_counts\<close>: the inner loop counts one use per input binding.\<close>

primrec count_uses :: "string list \<Rightarrow> (string \<rightharpoonup> nat) \<Rightarrow> (string \<rightharpoonup> nat) result" where
  "count_uses [] counts = Inr counts"
| "count_uses (s # ss) counts =
     rbind (or_err (counts s) (PipelineE ReferenceMissing)) (\<lambda>n. count_uses ss (counts(s \<mapsto> n + 1)))"

definition input_sources :: "pipeline_step list \<Rightarrow> string list" where
  "input_sources ss = concat (map (\<lambda>s. map di_source_step (ps_inputs s)) ss)"

definition finite_reference_counts ::
  "'x finite_externals_scheme \<Rightarrow> pipeline_graph \<Rightarrow> (string \<rightharpoonup> nat) result" where
  "finite_reference_counts ext p =
     rbind (validate_for_executor ext p None) (\<lambda>_.
     count_uses (input_sources (pg_steps p)) (map_of (map (\<lambda>s. (ps_id s, 0)) (pg_steps p))))"

definition resolve_step ::
  "'x finite_externals_scheme \<Rightarrow> pipeline_graph \<Rightarrow> nat \<Rightarrow> (string \<rightharpoonup> json) \<Rightarrow> json result" where
  "resolve_step ext p index results =
     rbind (validate_for_executor ext p None) (\<lambda>_.
     if index < length (pg_steps p)
     then resolve_with_limit ext (pg_steps p ! index) results (pg_max_retained_bytes p)
     else Inl (PipelineE StepMissing))"

end
