(* ===== verification/Conditional_Pipeline.thy ===== *)
theory Conditional_Pipeline
  imports Pipeline_Definition
begin

text \<open>
  Conditional stages in a finite graph (\<^verbatim>\<open>conditional_pipeline.rs\<close>) and the completion checks of
  both kinds of pipeline (\<^verbatim>\<open>conditional_pipeline.rs\<close> and \<^verbatim>\<open>pipeline_runtime.rs\<close>): guards on
  earlier scalar results, the decision whether a stage runs, and the reported path that a
  completed pipeline must show.
\<close>

section \<open>Data\<close>

definition RESULT_METADATA_RESERVATION :: nat where "RESULT_METADATA_RESERVATION = 4096"

datatype comparison = OpEqual | OpGreaterThan | OpLessThan

record condition =
  cd_source_step :: string
  cd_pointer :: string
  cd_operator :: comparison
  cd_expected :: json

text \<open>The conditions are a \<^verbatim>\<open>BTreeMap\<close>: a list of entries with distinct keys.\<close>

record conditional_graph =
  cg_schema_version :: nat
  cg_graph :: pipeline_graph
  cg_conditions :: "(string \<times> condition) list"

datatype decision = RunStep "bool option" | SkipCondition | SkipDependency string "bool option"

datatype step_state = StepCompleted | StepSkippedCondition | StepSkippedDependency | StepFailed

record step_outcome =
  so_id :: string
  so_state :: step_state
  so_condition_matched :: "bool option"
  so_skipped_dependency :: "string option"

record conditional_result =
  cs_schema_version :: nat
  cs_report_type :: string
  cs_success :: bool
  cs_outcomes :: "step_outcome list"
  cs_output :: json

record finite_result =
  fr_schema_version :: nat
  fr_report_type :: string
  fr_success :: bool
  fr_completed_steps :: "string list"
  fr_failed_step :: "string option"
  fr_output :: json

record pipeline_externals = finite_externals +
  conditional_parse :: "json \<Rightarrow> conditional_graph option"
  conditional_text :: "conditional_graph \<Rightarrow> string"
  finite_result_json :: "finite_result \<Rightarrow> json"
  finite_result_parse :: "json \<Rightarrow> finite_result option"
  conditional_result_json :: "conditional_result \<Rightarrow> json"
  conditional_result_parse :: "json \<Rightarrow> conditional_result option"

section \<open>Conditions\<close>

fun is_number :: "json \<Rightarrow> bool" where
  "is_number (JNum _) = True"
| "is_number _ = False"

fun is_scalar :: "json \<Rightarrow> bool" where
  "is_scalar (JBool _) = True"
| "is_scalar (JNum _) = True"
| "is_scalar (JString _) = True"
| "is_scalar _ = False"

text \<open>\<^verbatim>\<open>as_i64\<close>: a non-negative number fits only up to \<^verbatim>\<open>i64::MAX\<close>.\<close>

fun as_i64 :: "json \<Rightarrow> int option" where
  "as_i64 (JNum (PosInt n)) = (if n \<le> i64_max then Some (int n) else None)"
| "as_i64 (JNum (NegInt i)) = Some i"
| "as_i64 _ = None"

fun is_integer :: "json \<Rightarrow> bool" where
  "is_integer (JNum (PosInt _)) = True"
| "is_integer (JNum (NegInt _)) = True"
| "is_integer _ = False"

definition condition_validate :: "'x externals_scheme \<Rightarrow> condition \<Rightarrow> unit result" where
  "condition_validate ext c =
     ensure (step_id (cd_source_step c)) (PipelineE StepIdInvalid)
     (ensure (valid_pointer (cd_pointer c) \<and> is_ok (encoded_bytes (json_text ext (cd_expected c)) 512)
         \<and> is_scalar (cd_expected c)
         \<and> (case as_str (cd_expected c) of None \<Rightarrow> True | Some s \<Rightarrow> length s \<le> 256)
         \<and> (cd_operator c \<noteq> OpEqual \<longrightarrow> is_number (cd_expected c)))
       (PipelineE ConditionInvalid)
     (ensure (is_number (cd_expected c) \<longrightarrow> as_f64 (cd_expected c) \<noteq> None)
       (PipelineE ConditionInvalid) (Inr ())))"

datatype ordering = Less | Equal | Greater

definition cmp :: "bool \<Rightarrow> bool \<Rightarrow> ordering" where
  "cmp lt eq = (if lt then Less else if eq then Equal else Greater)"

definition f64_cmp :: "f64 \<Rightarrow> f64 \<Rightarrow> ordering" where
  "f64_cmp a b = (if f64_le a b then if f64_le b a then Equal else Less else Greater)"

definition EXACT_INTEGER_BOUND :: f64 where "EXACT_INTEGER_BOUND = f64_nat 9007199254740992"

text \<open>\<^verbatim>\<open>a.abs() > EXACT_INTEGER_BOUND\<close>.\<close>

definition f64_beyond :: "f64 \<Rightarrow> bool" where
  "f64_beyond a \<longleftrightarrow> \<not> f64_le (\<bar>fst a\<bar>, snd a) EXACT_INTEGER_BOUND"

definition number_ordering :: "json \<Rightarrow> json \<Rightarrow> ordering result" where
  "number_ordering left right =
     (case (as_i64 left, as_i64 right) of
        (Some a, Some b) \<Rightarrow> Inr (cmp (a < b) (a = b))
      | _ \<Rightarrow>
     (case (as_u64 left, as_u64 right) of
        (Some a, Some b) \<Rightarrow> Inr (cmp (a < b) (a = b))
      | _ \<Rightarrow>
        if (case as_i64 left of None \<Rightarrow> False | Some a \<Rightarrow> a < 0) \<and> as_u64 right \<noteq> None then Inr Less
        else if (case as_i64 right of None \<Rightarrow> False | Some b \<Rightarrow> b < 0) \<and> as_u64 left \<noteq> None then Inr Greater
        else
          rbind (or_err (as_f64 left) (PipelineE ConditionInvalid)) (\<lambda>a.
          rbind (or_err (as_f64 right) (PipelineE ConditionInvalid)) (\<lambda>b.
          ensure (\<not> (is_integer left \<and> f64_beyond a) \<and> \<not> (is_integer right \<and> f64_beyond b))
            (PipelineE ConditionPrecision) (Inr (f64_cmp a b))))))"

definition scalar_ordering :: "json \<Rightarrow> json \<Rightarrow> ordering result" where
  "scalar_ordering v expected =
     (if is_number v \<and> is_number expected then number_ordering v expected
      else case (v, expected) of
        (JBool l, JBool r) \<Rightarrow> Inr (cmp (\<not> l \<and> r) (l = r))
      | (JString l, JString r) \<Rightarrow>
          ensure (length l \<le> 256) (PipelineE ConditionType) (Inr (cmp (bytes_less l r) (l = r)))
      | _ \<Rightarrow> Inl (PipelineE ConditionType))"

definition condition_matches :: "'x finite_externals_scheme \<Rightarrow> condition \<Rightarrow> json \<Rightarrow> bool result" where
  "condition_matches ext c source =
     rbind (condition_validate ext c) (\<lambda>_.
     rbind (or_err (json_pointer ext source (cd_pointer c)) (PipelineE FieldUnavailable)) (\<lambda>v.
     rbind (scalar_ordering v (cd_expected c)) (\<lambda>ord.
     Inr (case cd_operator c of OpEqual \<Rightarrow> ord = Equal | OpGreaterThan \<Rightarrow> ord = Greater
          | OpLessThan \<Rightarrow> ord = Less))))"

section \<open>The conditional graph\<close>

fun index_of :: "string \<Rightarrow> pipeline_step list \<Rightarrow> nat option" where
  "index_of i [] = None"
| "index_of i (s # ss) = (case index_of i ss of Some n \<Rightarrow> Some (Suc n)
     | None \<Rightarrow> if ps_id s = i then Some 0 else None)"

primrec check_conditions ::
  "'x externals_scheme \<Rightarrow> pipeline_step list \<Rightarrow> (string \<times> condition) list \<Rightarrow> unit result" where
  "check_conditions ext steps [] = Inr ()"
| "check_conditions ext steps (kc # rest) =
     ensure (step_id (fst kc)) (PipelineE StepIdInvalid)
     (rbind (condition_validate ext (snd kc)) (\<lambda>_.
      rbind (or_err (index_of (fst kc) steps) (PipelineE ConditionSource)) (\<lambda>target.
      rbind (or_err (index_of (cd_source_step (snd kc)) steps) (PipelineE ConditionSource)) (\<lambda>source.
      ensure (source < target) (PipelineE ConditionSource) (check_conditions ext steps rest)))))"

definition conditional_validate ::
  "'x pipeline_externals_scheme \<Rightarrow> conditional_graph \<Rightarrow> string option \<Rightarrow> unit result" where
  "conditional_validate ext p executor =
     rbind (validate_for_executor ext (cg_graph p) executor) (\<lambda>_.
     ensure (cg_schema_version p = 1 \<and> cg_conditions p \<noteq> []
         \<and> length (cg_conditions p) \<le> length (pg_steps (cg_graph p))
         \<and> is_ok (encoded_bytes (conditional_text ext p) PIPELINE_DEFINITION_BYTES))
       (PipelineE PipelineBounds)
     (check_conditions ext (pg_steps (cg_graph p)) (cg_conditions p)))"

definition conditional_from_grant ::
  "'x pipeline_externals_scheme \<Rightarrow> execution_grant \<Rightarrow> conditional_graph result" where
  "conditional_from_grant ext g =
     ensure (g_capability g = CONDITIONAL \<and> compound_bindings g) (PipelineE PipelineBindings)
     (rbind (or_err (conditional_parse ext (jindex (g_params g) ''pipeline'')) (PipelineE PipelineDecode)) (\<lambda>d.
      rbind (conditional_validate ext d (Some (g_executor_node g))) (\<lambda>_.
      ensure (case checked_add (pg_max_retained_bytes (cg_graph d)) RESULT_METADATA_RESERVATION of
            None \<Rightarrow> False | Some n \<Rightarrow> n \<le> gl_max_result_bytes (g_limits g))
        (PipelineE PipelineBudget) (Inr d))))"

definition conditional_reference_counts ::
  "'x pipeline_externals_scheme \<Rightarrow> conditional_graph \<Rightarrow> (string \<rightharpoonup> nat) result" where
  "conditional_reference_counts ext p =
     rbind (conditional_validate ext p None) (\<lambda>_.
     rbind (finite_reference_counts ext (cg_graph p)) (\<lambda>counts.
     count_uses (map (\<lambda>kc. cd_source_step (snd kc)) (cg_conditions p)) counts))"

definition condition_of :: "conditional_graph \<Rightarrow> pipeline_step \<Rightarrow> condition option" where
  "condition_of p s = map_of (cg_conditions p) (ps_id s)"

definition conditional_sources :: "conditional_graph \<Rightarrow> nat \<Rightarrow> string list result" where
  "conditional_sources p index =
     (if index < length (pg_steps (cg_graph p)) then
        let s = pg_steps (cg_graph p) ! index in
        Inr (map di_source_step (ps_inputs s)
             @ (case condition_of p s of None \<Rightarrow> [] | Some c \<Rightarrow> [cd_source_step c]))
      else Inl (PipelineE StepMissing))"

text \<open>The first skipped input of a step, in the order of its bindings.\<close>

definition skipped_input :: "pipeline_step \<Rightarrow> string list \<Rightarrow> string option" where
  "skipped_input s skipped =
     map_option di_source_step (find (\<lambda>i. di_source_step i \<in> set skipped) (ps_inputs s))"

definition conditional_decision ::
  "'x pipeline_externals_scheme \<Rightarrow> conditional_graph \<Rightarrow> nat \<Rightarrow> (string \<rightharpoonup> json) \<Rightarrow> string list
   \<Rightarrow> decision result" where
  "conditional_decision ext p index values skipped =
     (if index < length (pg_steps (cg_graph p)) then
        let s = pg_steps (cg_graph p) ! index;
            inputs = (\<lambda>matched. Inr (case skipped_input s skipped of
               Some source \<Rightarrow> SkipDependency source matched | None \<Rightarrow> RunStep matched)) in
        (case condition_of p s of
           None \<Rightarrow> inputs None
         | Some c \<Rightarrow>
             if cd_source_step c \<in> set skipped then Inr (SkipDependency (cd_source_step c) None)
             else
               rbind (or_err (values (cd_source_step c)) (PipelineE SourceUnavailable)) (\<lambda>v.
               rbind (condition_matches ext c v) (\<lambda>m.
               if m then inputs (Some True) else Inr SkipCondition)))
      else Inl (PipelineE StepMissing))"

section \<open>Completion checks\<close>

text \<open>\<^verbatim>\<open>output.get("success")\<close> is false: the known unsuccessful exit of a process.\<close>

definition unsuccessful_exit :: "json \<Rightarrow> bool" where
  "unsuccessful_exit v \<longleftrightarrow> jget v ''success'' = Some (JBool False)"

definition runs_process :: "pipeline_step \<Rightarrow> bool" where
  "runs_process s \<longleftrightarrow> ps_capability s = ''process.exec'' \<and> ps_action s = ''run''"

definition outcome_ok ::
  "conditional_graph \<Rightarrow> conditional_result \<Rightarrow> nat \<Rightarrow> string list \<Rightarrow> step_outcome \<Rightarrow> bool" where
  "outcome_ok d report index skipped out =
     (let s = pg_steps (cg_graph d) ! index; condition = condition_of d s;
          guard_skipped = (case condition of None \<Rightarrow> False | Some c \<Rightarrow> cd_source_step c \<in> set skipped);
          input_skipped = list_ex (\<lambda>i. di_source_step i \<in> set skipped) (ps_inputs s) in
      so_id out = ps_id s
      \<and> (case so_state out of
           StepSkippedCondition \<Rightarrow> condition \<noteq> None \<and> \<not> guard_skipped
             \<and> so_condition_matched out = Some False \<and> so_skipped_dependency out = None
         | StepSkippedDependency \<Rightarrow>
             (case so_skipped_dependency out of
                None \<Rightarrow> False
              | Some source \<Rightarrow>
                  if guard_skipped then
                    (case condition of None \<Rightarrow> False | Some c \<Rightarrow> cd_source_step c = source)
                    \<and> so_condition_matched out = None
                  else list_ex (\<lambda>i. di_source_step i = source \<and> source \<in> set skipped) (ps_inputs s)
                    \<and> so_condition_matched out = map_option (\<lambda>_. True) condition)
         | state \<Rightarrow>
             \<not> guard_skipped \<and> \<not> input_skipped \<and> so_skipped_dependency out = None
             \<and> so_condition_matched out = map_option (\<lambda>_. True) condition
             \<and> (state = StepFailed \<longrightarrow> \<not> cs_success report \<and> index + 1 = length (cs_outcomes report)
                  \<and> runs_process s \<and> unsuccessful_exit (cs_output report))))"

definition is_skip :: "step_state \<Rightarrow> bool" where
  "is_skip st \<longleftrightarrow> st = StepSkippedCondition \<or> st = StepSkippedDependency"

primrec outcomes_ok ::
  "conditional_graph \<Rightarrow> conditional_result \<Rightarrow> nat \<Rightarrow> string list \<Rightarrow> step_outcome list \<Rightarrow> bool" where
  "outcomes_ok d report index skipped [] = True"
| "outcomes_ok d report index skipped (out # outs) =
     (outcome_ok d report index skipped out
      \<and> outcomes_ok d report (Suc index)
          (if is_skip (so_state out) then ps_id (pg_steps (cg_graph d) ! index) # skipped else skipped) outs)"

definition conditional_confirmed ::
  "'x pipeline_externals_scheme \<Rightarrow> execution_grant \<Rightarrow> json \<Rightarrow> bool result" where
  "conditional_confirmed ext g data =
     rbind (conditional_from_grant ext g) (\<lambda>d.
     rbind (or_err (conditional_result_parse ext data) (PipelineE ResultMismatch)) (\<lambda>report.
     let steps = pg_steps (cg_graph d); outs = cs_outcomes report in
     ensure (cs_schema_version report = 1 \<and> cs_report_type report = ''conditional_pipeline_result''
         \<and> outs \<noteq> [] \<and> length outs \<le> length steps \<and> (cs_success report \<longrightarrow> length outs = length steps))
       (PipelineE ResultMismatch)
     (rbind (encoded_bytes (json_text ext (cs_output report)) (pg_max_retained_bytes (cg_graph d))) (\<lambda>_.
      ensure (outcomes_ok d report 0 [] outs
          \<and> (\<not> cs_success report \<longrightarrow> so_state (last outs) = StepFailed)
          \<and> (is_skip (so_state (last outs)) \<longrightarrow> cs_output report = JNull)
          \<and> \<not> (cs_success report \<and> so_state (last outs) = StepCompleted
               \<and> runs_process (steps ! (length outs - 1)) \<and> unsuccessful_exit (cs_output report)))
        (PipelineE ResultMismatch) (Inr (cs_success report))))))"

definition finite_confirmed ::
  "'x pipeline_externals_scheme \<Rightarrow> execution_grant \<Rightarrow> json \<Rightarrow> bool result" where
  "finite_confirmed ext g data =
     rbind (finite_from_grant ext g) (\<lambda>d.
     rbind (or_err (finite_result_parse ext data) (PipelineE ResultMismatch)) (\<lambda>report.
     let done = fr_completed_steps report in
     ensure (fr_schema_version report = 1 \<and> fr_report_type report = ''local_pipeline_result''
         \<and> length done \<le> length (pg_steps d)
         \<and> list_all (\<lambda>(i, s). i = ps_id s) (zip done (pg_steps d)))
       (PipelineE ResultMismatch)
     (if fr_success report then
        ensure (fr_failed_step report = None \<and> length done = length (pg_steps d))
          (PipelineE ResultMismatch) (Inr True)
      else
        ensure (length done < length (pg_steps d)) (PipelineE ResultMismatch)
        (let s = pg_steps d ! length done in
         ensure (fr_failed_step report = Some (ps_id s) \<and> runs_process s
             \<and> unsuccessful_exit (fr_output report))
           (PipelineE ResultMismatch) (Inr False)))))"

definition confirmed_result ::
  "'x pipeline_externals_scheme \<Rightarrow> execution_grant \<Rightarrow> json \<Rightarrow> bool result" where
  "confirmed_result ext g data =
     (if g_capability g = CONDITIONAL then conditional_confirmed ext g data
      else finite_confirmed ext g data)"

end
