(* ===== verification/Grant_Definition.thy ===== *)
theory Grant_Definition
  imports Conditional_Pipeline
begin

text \<open>
  The one-operation execution grant of \<^verbatim>\<open>grants.rs\<close>: the owner's policy, the grant and its
  validation, the shape of a granted operation, the report of its outcome and the check a
  report must pass against its grant.

  Three compound capabilities carry a definition of their own inside the parameters:
  \<^verbatim>\<open>pipeline.run\<close> and the conditional pipeline, whose definitions and completion checks are those
  of the pipeline theories, and \<^verbatim>\<open>peer.transfer\<close>, whose decoder and result check are arguments
  (\<open>peer_definition\<close>, \<open>peer_result\<close>): every theorem holds for all of them.
\<close>

section \<open>Data\<close>

record grant_policy =
  gp_max_receipts :: nat
  gp_max_journal_bytes :: nat
  gp_max_duration_ms :: nat
  gp_max_result_bytes :: nat

datatype receipt_state = Accepted | Completed | Unknown | Rejected

record grant_report =
  gr_schema_version :: nat
  gr_state :: receipt_state
  gr_grant_id :: string
  gr_grant_sha256 :: string
  gr_issuer_id :: string
  gr_session_id :: string
  gr_executor_node :: string
  gr_job_id :: string
  gr_task_id :: string
  gr_attempt :: nat
  gr_plan_sha256 :: string
  gr_accepted :: bool
  gr_persisted :: bool
  gr_execution_may_have_started :: bool
  gr_success :: bool
  gr_data :: json
  gr_error_code :: "string option"

record grant_advertisement =
  ga_schema_version :: nat
  ga_available :: bool
  ga_limits :: "grant_policy option"
  ga_deadline_guarantee :: string
  ga_timing_mode :: "string option"
  ga_retained_results :: bool

record grant_externals = pipeline_externals +
  grant_json :: "execution_grant \<Rightarrow> json"
  report_json :: "grant_report \<Rightarrow> json"
  report_text :: "grant_report \<Rightarrow> string"
  report_parse :: "string \<Rightarrow> grant_report option"
  peer_definition :: "execution_grant \<Rightarrow> bool"
  peer_result :: "execution_grant \<Rightarrow> json \<Rightarrow> bool"

section \<open>Validation\<close>

definition grant_policy_default :: grant_policy where
  "grant_policy_default =
     \<lparr>gp_max_receipts = 4096, gp_max_journal_bytes = 8 * 1024 * 1024,
      gp_max_duration_ms = MAX_DURATION_MS, gp_max_result_bytes = 64 * 1024\<rparr>"

definition grant_policy_validate :: "grant_policy \<Rightarrow> unit result" where
  "grant_policy_validate p =
     ensure (1 \<le> gp_max_receipts p \<and> gp_max_receipts p \<le> 100000
         \<and> 64 * 1024 \<le> gp_max_journal_bytes p \<and> gp_max_journal_bytes p \<le> 64 * 1024 * 1024
         \<and> 1 \<le> gp_max_duration_ms p \<and> gp_max_duration_ms p \<le> MAX_DURATION_MS
         \<and> 1024 \<le> gp_max_result_bytes p \<and> gp_max_result_bytes p \<le> 1024 * 1024)
       (GrantE GrantPolicyInvalid) (Inr ())"

definition GRANT_TIME_MODE :: string where "GRANT_TIME_MODE = ''issuer_lease_challenge_v1''"

definition advertisement_validate :: "grant_advertisement \<Rightarrow> unit result" where
  "advertisement_validate a =
     ensure (ga_schema_version a = 1 \<and> ga_deadline_guarantee a = ''rpc_future_only''
         \<and> \<not> (ga_available a \<and> ga_limits a = None)
         \<and> \<not> (ga_retained_results a \<and> \<not> ga_available a)
         \<and> (case ga_timing_mode a of None \<Rightarrow> True | Some m \<Rightarrow> m = GRANT_TIME_MODE))
       (GrantE GrantAdvertisementInvalid)
     (case ga_limits a of None \<Rightarrow> Inr () | Some p \<Rightarrow> grant_policy_validate p)"

definition ok_option :: "'a result \<Rightarrow> 'a option" where
  "ok_option r = (case r of Inl _ \<Rightarrow> None | Inr x \<Rightarrow> Some x)"

text \<open>The compound definitions as \<^verbatim>\<open>validate\<close> and the report check consult them: decoded, or refused.\<close>

definition finite_pipeline :: "'x grant_externals_scheme \<Rightarrow> execution_grant \<Rightarrow> pipeline_graph option" where
  "finite_pipeline ext g = ok_option (finite_from_grant ext g)"

definition conditional_pipeline :: "'x grant_externals_scheme \<Rightarrow> execution_grant \<Rightarrow> bool" where
  "conditional_pipeline ext g = is_ok (conditional_from_grant ext g)"

definition pipeline_result :: "'x grant_externals_scheme \<Rightarrow> execution_grant \<Rightarrow> json \<Rightarrow> bool option" where
  "pipeline_result ext g v = ok_option (confirmed_result ext g v)"

definition grant_validate :: "'x grant_externals_scheme \<Rightarrow> execution_grant \<Rightarrow> unit result" where
  "grant_validate ext g =
     rbind (validate_operation_id ext (g_grant_id g)) (\<lambda>_.
     rbind (validate_operation_id ext (g_session_id g)) (\<lambda>_.
     ensure (uuid_parse ext (g_session_id g) \<noteq> Some 0 \<and> uuid_parse ext (g_grant_id g) \<noteq> Some 0)
       (GrantE GrantNil)
     (rbind (validate_id (g_job_id g)) (\<lambda>_.
      rbind (validate_id (g_task_id g)) (\<lambda>_.
      rbind (validate_remote_node_id (g_executor_node g)) (\<lambda>_.
      rbind (validate_remote_node_id (origin_node (g_request_context g))) (\<lambda>_.
      rbind (validate_operation_id ext (request_id (g_request_context g))) (\<lambda>_.
      ensure (g_schema_version g = 1 \<and> hex_digest (g_issuer_id g) \<and> hex_digest (g_plan_sha256 g)
          \<and> 1 \<le> g_attempt g \<and> g_attempt g \<le> 11
          \<and> is_identifier (g_capability g) \<and> is_identifier (g_action g)
          \<and> is_object (g_params g) \<and> length (json_text ext (g_params g)) \<le> 64 * 1024
          \<and> -1000 \<le> g_priority g \<and> g_priority g \<le> 1000
          \<and> g_reporting g = ''acceptance_and_completion''
          \<and> 1 \<le> gl_max_execution_ms (g_limits g)
          \<and> gl_max_execution_ms (g_limits g) \<le> MAX_DURATION_MS
          \<and> 1024 \<le> gl_max_result_bytes (g_limits g)
          \<and> gl_max_result_bytes (g_limits g) \<le> 1024 * 1024
          \<and> g_issued_at_ms g \<noteq> 0 \<and> g_issued_at_ms g < g_expires_at_ms g
          \<and> g_expires_at_ms g - g_issued_at_ms g \<le> MAX_DURATION_MS)
        (GrantE GrantScopeInvalid)
      (if g_capability g = ''pipeline.run'' then
         (if finite_pipeline ext g \<noteq> None then Inr () else Inl (GrantE CompoundInvalid))
       else if g_capability g = CONDITIONAL then
         (if conditional_pipeline ext g then Inr () else Inl (GrantE CompoundInvalid))
       else if g_capability g = ''peer.transfer'' then
         (if peer_definition ext g then Inr () else Inl (GrantE CompoundInvalid))
       else shape_validate ext (grant_shape g) (Some (g_executor_node g)))))))))))"

definition grant_matches_session :: "execution_grant \<Rightarrow> string \<Rightarrow> string \<Rightarrow> string \<Rightarrow> bool" where
  "grant_matches_session g issuer session node \<longleftrightarrow>
     g_issuer_id g = issuer \<and> g_session_id g = session \<and> g_executor_node g = node"

definition grant_digest :: "'x grant_externals_scheme \<Rightarrow> execution_grant \<Rightarrow> string" where
  "grant_digest ext g = definition_digest ext (grant_json ext g)"

definition grant_scope :: "'x grant_externals_scheme \<Rightarrow> execution_grant \<Rightarrow> scope" where
  "grant_scope ext g =
     \<lparr>sc_grant_id = g_grant_id g, sc_grant_sha256 = grant_digest ext g,
      sc_issuer_id = g_issuer_id g, sc_session_id = g_session_id g,
      sc_executor_node = g_executor_node g, sc_job_id = g_job_id g, sc_task_id = g_task_id g,
      sc_attempt = g_attempt g\<rparr>"

definition scope_from_grant :: "'x grant_externals_scheme \<Rightarrow> execution_grant \<Rightarrow> scope result" where
  "scope_from_grant ext g = rbind (grant_validate ext g) (\<lambda>_. Inr (grant_scope ext g))"

section \<open>Reports\<close>

definition may_have_started :: "receipt_state \<Rightarrow> bool" where
  "may_have_started s \<longleftrightarrow> s = Completed \<or> s = Unknown"

definition report_new ::
  "'x grant_externals_scheme \<Rightarrow> execution_grant \<Rightarrow> receipt_state \<Rightarrow> json \<Rightarrow> string option
   \<Rightarrow> grant_report" where
  "report_new ext g state data error_code =
     \<lparr>gr_schema_version = 1, gr_state = state, gr_grant_id = g_grant_id g,
      gr_grant_sha256 = grant_digest ext g, gr_issuer_id = g_issuer_id g,
      gr_session_id = g_session_id g, gr_executor_node = g_executor_node g,
      gr_job_id = g_job_id g, gr_task_id = g_task_id g, gr_attempt = g_attempt g,
      gr_plan_sha256 = g_plan_sha256 g, gr_accepted = (state \<noteq> Rejected),
      gr_persisted = (state \<noteq> Rejected),
      gr_execution_may_have_started = may_have_started state,
      gr_success = (state = Completed \<and> error_code = None), gr_data = data,
      gr_error_code = error_code\<rparr>"

definition compound_outcome_ok :: "'x grant_externals_scheme \<Rightarrow> execution_grant \<Rightarrow> grant_report \<Rightarrow> bool" where
  "compound_outcome_ok ext g r \<longleftrightarrow>
     (\<not> is_compound (g_capability g) \<or> gr_state r \<noteq> Completed
      \<or> (gr_data r = JNull \<and> \<not> gr_success r \<and> gr_error_code r = Some ''result_too_large'')
      \<or> (case pipeline_result ext g (gr_data r) of None \<Rightarrow> False
         | Some success \<Rightarrow> gr_success r = success
             \<and> gr_error_code r = (if success then None else Some ''pipeline_stage_unsuccessful'')))
     \<and> (g_capability g \<noteq> ''peer.transfer'' \<or> gr_state r \<noteq> Completed
      \<or> (gr_data r = JNull \<and> \<not> gr_success r \<and> gr_error_code r = Some ''result_too_large'')
      \<or> (gr_success r \<and> gr_error_code r = None \<and> peer_result ext g (gr_data r)))"

definition report_confirms ::
  "'x grant_externals_scheme \<Rightarrow> grant_report \<Rightarrow> execution_grant \<Rightarrow> bool" where
  "report_confirms ext r g \<longleftrightarrow>
     gr_schema_version r = 1 \<and> gr_grant_id r = g_grant_id g
     \<and> grant_digest ext g = gr_grant_sha256 r \<and> gr_issuer_id r = g_issuer_id g
     \<and> gr_session_id r = g_session_id g \<and> gr_executor_node r = g_executor_node g
     \<and> gr_job_id r = g_job_id g \<and> gr_task_id r = g_task_id g \<and> gr_attempt r = g_attempt g
     \<and> gr_plan_sha256 r = g_plan_sha256 g \<and> gr_accepted r = (gr_state r \<noteq> Rejected)
     \<and> (\<not> gr_persisted r \<or> gr_accepted r)
     \<and> (gr_state r = Unknown \<or> gr_persisted r = gr_accepted r)
     \<and> gr_execution_may_have_started r = may_have_started (gr_state r)
     \<and> (\<not> gr_success r \<or> (gr_state r = Completed \<and> gr_error_code r = None))
     \<and> \<not> (gr_success r \<and> g_capability g = ''process.exec'' \<and> g_action g = ''run''
          \<and> jget (gr_data r) ''success'' = Some (JBool False))
     \<and> compound_outcome_ok ext g r
     \<and> (gr_state r \<noteq> Accepted \<or> (gr_persisted r \<and> gr_data r = JNull \<and> \<not> gr_success r
          \<and> gr_error_code r = None))
     \<and> length (json_text ext (gr_data r)) \<le> gl_max_result_bytes (g_limits g)
     \<and> (case gr_error_code r of None \<Rightarrow> True | Some c \<Rightarrow> is_identifier c)
     \<and> (case gr_state r of
          Rejected \<Rightarrow> \<not> gr_success r \<and> gr_data r = JNull \<and> gr_error_code r \<noteq> None
        | Unknown \<Rightarrow> \<not> gr_success r \<and> gr_data r = JNull \<and> gr_error_code r \<noteq> None
        | Completed \<Rightarrow> gr_success r = (gr_error_code r = None)
        | Accepted \<Rightarrow> True)"

definition completed_outcome ::
  "'x grant_externals_scheme \<Rightarrow> execution_grant \<Rightarrow> json \<Rightarrow> grant_report" where
  "completed_outcome ext g data =
     (if g_capability g = ''peer.transfer'' \<and> \<not> peer_result ext g data then
        report_new ext g Unknown JNull (Some ''peer_result_unconfirmed'')
      else if is_compound (g_capability g) then
        (case pipeline_result ext g data of
           Some success \<Rightarrow> report_new ext g Completed data
             (if \<not> success then Some ''pipeline_stage_unsuccessful'' else None)
         | None \<Rightarrow> report_new ext g Unknown JNull (Some ''pipeline_result_unconfirmed''))
      else report_new ext g Completed data
        (if g_capability g = ''process.exec'' \<and> g_action g = ''run''
            \<and> jget data ''success'' = Some (JBool False)
         then Some ''process_exit_unsuccessful'' else None))"

section \<open>Lemmas\<close>

lemma grant_validate_InrD:
  assumes "grant_validate ext g = Inr ()"
  shows "validate_operation_id ext (g_grant_id g) = Inr ()"
    and "validate_operation_id ext (g_session_id g) = Inr ()"
    and "uuid_parse ext (g_session_id g) \<noteq> Some 0" and "uuid_parse ext (g_grant_id g) \<noteq> Some 0"
    and "validate_id (g_job_id g) = Inr ()" and "validate_id (g_task_id g) = Inr ()"
    and "validate_remote_node_id (g_executor_node g) = Inr ()"
    and "hex_digest (g_issuer_id g)" and "hex_digest (g_plan_sha256 g)"
    and "1 \<le> g_attempt g" and "g_attempt g \<le> 11"
    and "1024 \<le> gl_max_result_bytes (g_limits g)"
    and "gl_max_result_bytes (g_limits g) \<le> 1024 * 1024"
    and "gl_max_execution_ms (g_limits g) \<le> MAX_DURATION_MS"
  using assms by (simp_all add: grant_validate_def del: validate_remote_node_id_ok validate_id_ok)

lemma scope_from_grant_InrD:
  "scope_from_grant ext g = Inr s \<Longrightarrow> grant_validate ext g = Inr () \<and> s = grant_scope ext g"
  by (auto simp: scope_from_grant_def)

lemma scope_from_grant_valid:
  "grant_validate ext g = Inr () \<Longrightarrow> scope_from_grant ext g = Inr (grant_scope ext g)"
  by (simp add: scope_from_grant_def)

lemma grant_scope_simps [simp]:
  "sc_grant_id (grant_scope ext g) = g_grant_id g"
  "sc_grant_sha256 (grant_scope ext g) = grant_digest ext g"
  "sc_issuer_id (grant_scope ext g) = g_issuer_id g"
  "sc_session_id (grant_scope ext g) = g_session_id g"
  "sc_executor_node (grant_scope ext g) = g_executor_node g"
  "sc_job_id (grant_scope ext g) = g_job_id g" "sc_task_id (grant_scope ext g) = g_task_id g"
  "sc_attempt (grant_scope ext g) = g_attempt g"
  by (simp_all add: grant_scope_def)

lemma operation_id_uuid:
  "validate_operation_id ext s = Inr () \<Longrightarrow> uuid_parse ext s \<noteq> Some 0 \<Longrightarrow> uuid ext s = Inr ()"
  by (auto simp: uuid_ok validate_operation_id_ok)

text \<open>A validated grant names a scope that passes the scope's own validation.\<close>

lemma grant_scope_valid:
  assumes "grant_validate ext g = Inr ()" and "\<And>s. hex_digest (sha256_hex ext s)"
  shows "scope_validate ext (grant_scope ext g) = Inr ()"
  using grant_validate_InrD [OF assms(1)] assms(2)
  by (simp add: scope_validate_ok operation_id_uuid grant_digest_def definition_digest_def
      del: validate_remote_node_id_ok validate_id_ok)

lemma report_new_simps [simp]:
  "gr_state (report_new ext g st data c) = st" "gr_data (report_new ext g st data c) = data"
  "gr_error_code (report_new ext g st data c) = c"
  "gr_persisted (report_new ext g st data c) = (st \<noteq> Rejected)"
  "gr_success (report_new ext g st data c) = (st = Completed \<and> c = None)"
  by (simp_all add: report_new_def)

lemma report_new_unknown_confirms:
  assumes "grant_validate ext g = Inr ()" and "json_text ext JNull = ''null''" and "is_identifier c"
  shows "report_confirms ext (report_new ext g Unknown JNull (Some c)) g"
  using grant_validate_InrD(12) [OF assms(1)] assms(2,3)
  by (simp add: report_confirms_def report_new_def compound_outcome_ok_def may_have_started_def)

lemma report_new_completed_confirms:
  assumes "length (json_text ext data) \<le> gl_max_result_bytes (g_limits g)"
    and "case c of None \<Rightarrow> True | Some code \<Rightarrow> is_identifier code"
    and "compound_outcome_ok ext g (report_new ext g Completed data c)"
    and "c = None \<Longrightarrow> g_capability g = ''process.exec'' \<Longrightarrow> g_action g = ''run''
          \<Longrightarrow> jget data ''success'' \<noteq> Some (JBool False)"
  shows "report_confirms ext (report_new ext g Completed data c) g"
  using assms by (auto simp: report_confirms_def report_new_def may_have_started_def)

text \<open>The fixed error codes of the run loop are identifiers.\<close>

definition run_codes :: "string list" where
  "run_codes = [''grant_stop_requested_effects_unknown'', ''grant_deadline_or_clock_changed'',
     ''local_policy_changed'', ''grant_deadline_exceeded'', ''execution_failed_effects_unknown'',
     ''completion_after_deadline'', ''completion_checkpoint_failed'', ''result_too_large'',
     ''peer_result_unconfirmed'', ''pipeline_result_unconfirmed'',
     ''pipeline_stage_unsuccessful'', ''process_exit_unsuccessful'',
     ''grant_runtime_dropped_effects_unknown'']"

lemma run_codes_identifiers: "list_all is_identifier run_codes"
  by (simp add: run_codes_def is_identifier_def is_name_byte_def is_ascii_alphanumeric_def byte_def)

lemma run_code_identifier: "c \<in> set run_codes \<Longrightarrow> is_identifier c"
  using run_codes_identifiers by (simp add: list_all_iff)

lemma run_code_mem [simp]:
  "''grant_stop_requested_effects_unknown'' \<in> set run_codes"
  "''grant_deadline_or_clock_changed'' \<in> set run_codes" "''local_policy_changed'' \<in> set run_codes"
  "''grant_deadline_exceeded'' \<in> set run_codes"
  "''execution_failed_effects_unknown'' \<in> set run_codes"
  "''completion_after_deadline'' \<in> set run_codes"
  "''completion_checkpoint_failed'' \<in> set run_codes" "''result_too_large'' \<in> set run_codes"
  "''peer_result_unconfirmed'' \<in> set run_codes" "''pipeline_result_unconfirmed'' \<in> set run_codes"
  "''pipeline_stage_unsuccessful'' \<in> set run_codes"
  "''process_exit_unsuccessful'' \<in> set run_codes"
  "''grant_runtime_dropped_effects_unknown'' \<in> set run_codes"
  by (simp_all add: run_codes_def)

lemma result_too_large_confirms:
  assumes "grant_validate ext g = Inr ()" and "json_text ext JNull = ''null''"
  shows "report_confirms ext (report_new ext g Completed JNull (Some ''result_too_large'')) g"
  using grant_validate_InrD(12) [OF assms(1)] assms(2) run_code_identifier
  by (intro report_new_completed_confirms) (simp_all add: compound_outcome_ok_def)

lemma completed_outcome_confirms:
  assumes "grant_validate ext g = Inr ()" and "json_text ext JNull = ''null''"
    and "length (json_text ext data) \<le> gl_max_result_bytes (g_limits g)"
  shows "report_confirms ext (completed_outcome ext g data) g"
proof -
  have ids: "is_identifier ''pipeline_stage_unsuccessful''" "is_identifier ''process_exit_unsuccessful''"
      "is_identifier ''peer_result_unconfirmed''" "is_identifier ''pipeline_result_unconfirmed''"
    by (simp_all add: run_code_identifier)
  have nc: "\<not> is_compound ''peer.transfer''" "\<not> is_compound ''process.exec''"
    by (simp_all add: is_compound_def CONDITIONAL_def)
  show ?thesis
    using ids nc assms(3) report_new_unknown_confirms [OF assms(1,2)]
    by (auto simp: completed_outcome_def compound_outcome_ok_def
        split: option.splits intro!: report_new_completed_confirms)
qed

end
