(* ===== verification/Journal_Tables.thy ===== *)
theory Journal_Tables
  imports Grant_Definition
begin

text \<open>
  The node's grant journal as data: the SQLite tables that \<^verbatim>\<open>grants.rs\<close>, \<^verbatim>\<open>grant_stop.rs\<close>,
  \<^verbatim>\<open>pipeline_progress.rs\<close> and \<^verbatim>\<open>workload_event_journal.rs\<close> create, each a list of rows; the
  schema and owner checks; the pipeline observation kept beside a receipt
  (\<^verbatim>\<open>pipeline_progress.rs\<close>); and the consumed receipt read back from a row
  (\<^verbatim>\<open>request_receipt.rs\<close>).

  A table created on demand is a \<open>table\<close>: absent, damaged (only one of its two objects, or a
  metadata version other than 1) or present with its rows. The two column groups that the
  workload migrations add are flags; the row list of a table that does not exist yet is empty,
  and a row of an older schema carries the default values of the columns it lacks, so that
  creating a table or adding a column leaves the lists alone. INTEGER columns hold the non-negative values the code
  writes. SQLite's page count is part of the state, since the quotas read it.
\<close>

section \<open>Tables\<close>

datatype 'r table = TableAbsent | TableDamaged | Table "'r list"

record receipt_row =
  r_issuer_id :: string
  r_job_id :: string
  r_task_id :: string
  r_attempt :: nat
  r_grant_id :: string
  r_grant_digest :: string
  r_state :: string
  r_accepted_ms :: nat
  r_updated_ms :: nat
  r_max_result_bytes :: nat
  r_report :: "string option"
  r_report_sha256 :: "string option"
  r_receipt_kind :: string
  r_workload_definition :: "string option"

record stop_row =
  st_grant_id :: string
  st_grant_digest :: string
  st_issuer_id :: string
  st_session_id :: string
  st_node_id :: string
  st_job_id :: string
  st_task_id :: string
  st_attempt :: nat
  st_recorded_ms :: nat
  st_receipt_preexisted :: bool

record progress_row =
  pr_grant_id :: string
  pr_grant_digest :: string
  pr_payload :: string
  pr_payload_sha256 :: string

record event_state_row =
  es_grant_id :: string
  es_grant_digest :: string
  es_event_count :: nat
  es_event_bytes :: nat
  es_reserved_bytes :: nat
  es_prefix_sha256 :: string

record event_row =
  er_grant_id :: string
  er_sequence :: nat
  er_encoded_bytes :: nat
  er_data :: string
  er_data_sha256 :: string
  er_prefix_sha256 :: string

record journal =
  j_version :: nat
  j_owner :: "string option"
  j_page_size :: nat
  j_page_count :: nat
  j_workload_columns :: bool
  j_event_tables :: bool
  j_receipts :: "receipt_row list"
  j_stops :: "stop_row table"
  j_progress :: "progress_row table"
  j_event_states :: "event_state_row list"
  j_events :: "event_row list"

text \<open>The values of the column \<^verbatim>\<open>state\<close>.\<close>

definition ACCEPTED :: string where "ACCEPTED = ''accepted''"
definition COMPLETED :: string where "COMPLETED = ''completed''"
definition UNKNOWN :: string where "UNKNOWN = ''unknown''"

lemma states_distinct [simp]:
  "ACCEPTED \<noteq> COMPLETED" "COMPLETED \<noteq> ACCEPTED" "ACCEPTED \<noteq> UNKNOWN" "UNKNOWN \<noteq> ACCEPTED"
  "COMPLETED \<noteq> UNKNOWN" "UNKNOWN \<noteq> COMPLETED"
  by (simp_all add: ACCEPTED_def COMPLETED_def UNKNOWN_def)

text \<open>
  \<^verbatim>\<open>PRIMARY KEY(issuer_id,job_id,task_id,attempt)\<close> and \<^verbatim>\<open>grant_id UNIQUE\<close> of
  \<^verbatim>\<open>execution_receipts\<close>: an insertion that breaks one of them is an error.
\<close>

definition row_key :: "receipt_row \<Rightarrow> string \<times> string \<times> string \<times> nat" where
  "row_key r = (r_issuer_id r, r_job_id r, r_task_id r, r_attempt r)"

definition insert_receipt :: "receipt_row \<Rightarrow> journal \<Rightarrow> journal result" where
  "insert_receipt r db =
     ensure (r_grant_id r \<notin> set (map r_grant_id (j_receipts db))
         \<and> row_key r \<notin> set (map row_key (j_receipts db)))
       (JournalE SqlConstraint) (Inr (db\<lparr>j_receipts := j_receipts db @ [r]\<rparr>))"

definition receipt_of :: "journal \<Rightarrow> string \<Rightarrow> receipt_row option" where
  "receipt_of db i = find (\<lambda>r. r_grant_id r = i) (j_receipts db)"

section \<open>Schema and owner\<close>

definition event_schema :: "journal \<Rightarrow> nat \<Rightarrow> unit result" where
  "event_schema db version =
     ensure (if version \<in> {4, 5} then j_event_tables db else \<not> j_event_tables db)
       (JournalE SchemaChanged) (Inr ())"

definition validate_schema :: "journal \<Rightarrow> nat \<Rightarrow> unit result" where
  "validate_schema db version =
     (if version \<in> {3, 4, 5} then
        ensure (j_workload_columns db) (JournalE SchemaChanged) (event_schema db version)
      else ensure (\<not> j_workload_columns db) (JournalE SchemaChanged) (event_schema db version))"

definition validate_owner :: "journal \<Rightarrow> string \<Rightarrow> unit result" where
  "validate_owner db node =
     rbind (or_err (j_owner db) (JournalE JournalOwner)) (\<lambda>owner.
     ensure (j_version db \<in> {1, 2, 3, 4, 5} \<and> owner = node) (JournalE JournalOwner)
       (validate_schema db (j_version db)))"

definition is_workload :: "journal \<Rightarrow> string \<Rightarrow> bool result" where
  "is_workload db i =
     rbind (validate_schema db (j_version db)) (\<lambda>_.
     if j_version db < 3 then Inr False
     else case receipt_of db i of
       None \<Rightarrow> Inr False
     | Some r \<Rightarrow>
         if r_workload_definition r = None \<and> r_receipt_kind r = ''operation'' then Inr False
         else if r_workload_definition r \<noteq> None \<and> r_receipt_kind r = ''workload'' then Inr True
         else Inl (JournalE ReceiptKind))"

section \<open>Reservations\<close>

text \<open>The \<^verbatim>\<open>SELECT coalesce(sum(...),0)\<close> queries of the budget checks.\<close>

definition report_reserved :: "journal \<Rightarrow> nat" where
  "report_reserved db =
     sum_list (map (\<lambda>r. r_max_result_bytes r + REPORT_HEADROOM + 4 * j_page_size db)
       (filter (\<lambda>r. r_state r = ACCEPTED \<and> r_max_result_bytes r > 0) (j_receipts db)))"

definition event_reserved :: "journal \<Rightarrow> nat result" where
  "event_reserved db =
     rbind (event_schema db (j_version db)) (\<lambda>_.
     if j_version db < 4 then Inr 0
     else Inr (sum_list (map es_reserved_bytes
       (filter (\<lambda>s. \<exists>r \<in> set (j_receipts db). r_grant_id r = es_grant_id s
                 \<and> r_state r = ACCEPTED) (j_event_states db)))))"

section \<open>Pipeline observations\<close>

definition MAX_CHECKPOINT_BYTES :: nat where "MAX_CHECKPOINT_BYTES = 2048"
definition JOURNAL_RESERVATION :: nat where "JOURNAL_RESERVATION = 4096"

datatype phase = PhasePending | PhaseStarting | PhaseCompleted | PhaseFailed

record pipeline_progress =
  pp_schema_version :: nat
  pp_sequence :: nat
  pp_phase :: phase
  pp_current_step :: string
  pp_completed_steps :: nat
  pp_total_steps :: nat
  pp_retained_encoded_bytes :: nat
  pp_resolved_encoded_bytes :: nat
  pp_recorded_at_ms :: nat
  pp_durable :: bool
  pp_termination_confirmed :: bool

record journal_externals = grant_externals +
  progress_text :: "pipeline_progress \<Rightarrow> string"
  progress_parse :: "string \<Rightarrow> pipeline_progress option"
  workload_parse :: "string \<Rightarrow> workload option"

definition progress_validate :: "pipeline_progress \<Rightarrow> unit result" where
  "progress_validate p =
     ensure (pp_schema_version p = 1 \<and> pp_durable p \<and> \<not> pp_termination_confirmed p
         \<and> 1 \<le> pp_total_steps p \<and> pp_total_steps p \<le> MAX_STEPS
         \<and> pp_completed_steps p \<le> pp_total_steps p \<and> pp_sequence p \<le> 2 * pp_total_steps p
         \<and> step_id (pp_current_step p)
         \<and> pp_retained_encoded_bytes p \<le> MAX_RETAINED_BYTES
         \<and> pp_resolved_encoded_bytes p \<le> MAX_RETAINED_BYTES
         \<and> pp_recorded_at_ms p \<noteq> 0 \<and> pp_recorded_at_ms p \<le> i64_max)
       (JournalE ProgressInvalid)
     (ensure (case pp_phase p of
         PhasePending \<Rightarrow> pp_sequence p = 0 \<and> pp_completed_steps p = 0
           \<and> pp_retained_encoded_bytes p = 0 \<and> pp_resolved_encoded_bytes p = 0
       | PhaseStarting \<Rightarrow> pp_completed_steps p < pp_total_steps p
           \<and> pp_sequence p = 2 * pp_completed_steps p + 1
       | PhaseCompleted \<Rightarrow> pp_completed_steps p > 0
           \<and> pp_sequence p = 2 * pp_completed_steps p \<and> pp_resolved_encoded_bytes p = 0
       | PhaseFailed \<Rightarrow> pp_completed_steps p < pp_total_steps p
           \<and> pp_sequence p = 2 * (pp_completed_steps p + 1) \<and> pp_resolved_encoded_bytes p = 0)
       (JournalE ProgressInvalid) (Inr ()))"

definition progress_confirms ::
  "'x grant_externals_scheme \<Rightarrow> pipeline_progress \<Rightarrow> execution_grant \<Rightarrow> bool" where
  "progress_confirms ext p g =
     (case finite_pipeline ext g of
        None \<Rightarrow> False
      | Some d \<Rightarrow>
          if \<not> is_ok (progress_validate p) \<or> pp_total_steps p \<noteq> length (pg_steps d)
             \<or> pp_retained_encoded_bytes p > pg_max_retained_bytes d
             \<or> pp_resolved_encoded_bytes p > pg_max_retained_bytes d
          then False
          else
            let index = (case pp_phase p of PhaseCompleted \<Rightarrow> pp_completed_steps p - 1
                         | _ \<Rightarrow> pp_completed_steps p);
                step = pg_steps d ! index in
            pp_current_step p = ps_id step
            \<and> (pp_phase p \<noteq> PhaseFailed
               \<or> (ps_capability step = ''process.exec'' \<and> ps_action step = ''run'')))"

definition progress_checkpoint ::
  "'x grant_externals_scheme \<Rightarrow> execution_grant \<Rightarrow> nat \<Rightarrow> phase \<Rightarrow> nat \<Rightarrow> nat \<Rightarrow> nat
   \<Rightarrow> pipeline_progress result" where
  "progress_checkpoint ext g index phase retained resolved now =
     rbind (or_err (finite_pipeline ext g) (GrantE CompoundInvalid)) (\<lambda>d.
     ensure (index < length (pg_steps d)) (JournalE ProgressInvalid)
     (let p = \<lparr>pp_schema_version = 1,
               pp_sequence = (case phase of PhasePending \<Rightarrow> 0 | PhaseStarting \<Rightarrow> 2 * index + 1
                                | _ \<Rightarrow> 2 * index + 2),
               pp_phase = phase, pp_current_step = ps_id (pg_steps d ! index),
               pp_completed_steps = index + (if phase = PhaseCompleted then 1 else 0),
               pp_total_steps = length (pg_steps d), pp_retained_encoded_bytes = retained,
               pp_resolved_encoded_bytes = resolved, pp_recorded_at_ms = now,
               pp_durable = True, pp_termination_confirmed = False\<rparr> in
      ensure (progress_confirms ext p g) (JournalE ProgressInvalid) (Inr p)))"

definition progress_available :: "journal \<Rightarrow> bool result" where
  "progress_available db =
     (case j_progress db of TableAbsent \<Rightarrow> Inr False | TableDamaged \<Rightarrow> Inl (JournalE ProgressChanged)
      | Table _ \<Rightarrow> Inr True)"

definition progress_rows :: "journal \<Rightarrow> progress_row list" where
  "progress_rows db = (case j_progress db of Table rows \<Rightarrow> rows | _ \<Rightarrow> [])"

text \<open>\<^verbatim>\<open>initialize\<close>; \<open>autocommit\<close> is SQLite's answer whether no transaction is open.\<close>

definition progress_initialize :: "bool \<Rightarrow> journal \<Rightarrow> journal result" where
  "progress_initialize autocommit db =
     rbind (progress_available db) (\<lambda>present.
     if present then
       ensure (distinct (map pr_grant_id (progress_rows db))
           \<and> (\<forall>p \<in> set (progress_rows db). case receipt_of db (pr_grant_id p) of None \<Rightarrow> False
                | Some r \<Rightarrow> pr_grant_digest p = r_grant_digest r))
         (JournalE ProgressChanged) (Inr db)
     else ensure (\<not> autocommit) (JournalE ProgressChanged) (Inr (db\<lparr>j_progress := Table []\<rparr>)))"

definition progress_initial ::
  "'x journal_externals_scheme \<Rightarrow> execution_grant \<Rightarrow> nat \<Rightarrow> nat \<Rightarrow> journal \<Rightarrow> journal result" where
  "progress_initial ext g accepted_at_ms now db =
     (if g_capability g \<noteq> ''pipeline.run'' then Inr db
      else
        rbind (progress_available db) (\<lambda>present.
        ensure present (JournalE ProgressChanged)
        (rbind (progress_checkpoint ext g 0 PhasePending 0 0 now) (\<lambda>p.
         let payload = progress_text ext (p\<lparr>pp_recorded_at_ms := accepted_at_ms\<rparr>) in
         ensure (length payload \<le> MAX_CHECKPOINT_BYTES) (JournalE ProgressInvalid)
         (ensure (g_grant_id g \<notin> set (map pr_grant_id (progress_rows db))) (JournalE SqlConstraint)
         (Inr (db\<lparr>j_progress := Table (progress_rows db @
            [\<lparr>pr_grant_id = g_grant_id g, pr_grant_digest = grant_digest ext g,
              pr_payload = payload, pr_payload_sha256 = sha256_hex ext payload\<rparr>])\<rparr>)))))))"

definition progress_decode ::
  "'x journal_externals_scheme \<Rightarrow> string option \<Rightarrow> string option \<Rightarrow> string option \<Rightarrow> string
   \<Rightarrow> pipeline_progress option result" where
  "progress_decode ext digest payload checksum expected =
     (case (digest, payload, checksum) of
        (None, None, None) \<Rightarrow> Inr None
      | (Some d, Some p, Some c) \<Rightarrow>
          if d = expected \<and> length p \<le> MAX_CHECKPOINT_BYTES \<and> c = sha256_hex ext p then
            rbind (or_err (progress_parse ext p) (JournalE ProgressInvalid)) (\<lambda>v.
            rbind (progress_validate v) (\<lambda>_. Inr (Some v)))
          else Inl (JournalE ProgressInvalid)
      | _ \<Rightarrow> Inl (JournalE ProgressInvalid))"

section \<open>Consumed receipts\<close>

record consumed_receipt =
  cr_schema_version :: nat
  cr_node_id :: string
  cr_issuer_id :: string
  cr_grant_id :: string
  cr_grant_sha256 :: string
  cr_job_id :: string
  cr_task_id :: string
  cr_attempt :: nat
  cr_state :: string
  cr_accepted_at_ms :: nat
  cr_updated_at_ms :: nat
  cr_pipeline_progress :: "pipeline_progress option"

definition consumed_validate :: "'x externals_scheme \<Rightarrow> consumed_receipt \<Rightarrow> unit result" where
  "consumed_validate ext c =
     rbind (validate_remote_node_id (cr_node_id c)) (\<lambda>_.
     rbind (validate_id (cr_job_id c)) (\<lambda>_.
     rbind (validate_id (cr_task_id c)) (\<lambda>_.
     rbind (validate_operation_id ext (cr_grant_id c)) (\<lambda>_.
     ensure (cr_schema_version c = 1 \<and> uuid_parse ext (cr_grant_id c) \<noteq> Some 0
         \<and> hex_digest (cr_issuer_id c) \<and> hex_digest (cr_grant_sha256 c)
         \<and> 1 \<le> cr_attempt c \<and> cr_attempt c \<le> 11
         \<and> cr_state c \<in> set [ACCEPTED, COMPLETED, UNKNOWN]
         \<and> cr_accepted_at_ms c \<noteq> 0 \<and> cr_accepted_at_ms c \<le> cr_updated_at_ms c
         \<and> cr_updated_at_ms c \<le> i64_max
         \<and> (case cr_pipeline_progress c of None \<Rightarrow> True
            | Some p \<Rightarrow> is_ok (progress_validate p) \<and> cr_accepted_at_ms c \<le> pp_recorded_at_ms p
                \<and> pp_recorded_at_ms p \<le> cr_updated_at_ms c))
       (JournalE ReceiptDamaged) (Inr ())))))"

definition consumed_confirms ::
  "'x grant_externals_scheme \<Rightarrow> consumed_receipt \<Rightarrow> execution_grant \<Rightarrow> bool" where
  "consumed_confirms ext c g \<longleftrightarrow>
     is_ok (consumed_validate ext c) \<and> is_ok (grant_validate ext g)
     \<and> cr_node_id c = g_executor_node g \<and> cr_issuer_id c = g_issuer_id g
     \<and> cr_grant_id c = g_grant_id g \<and> cr_job_id c = g_job_id g \<and> cr_task_id c = g_task_id g
     \<and> cr_attempt c = g_attempt g \<and> grant_digest ext g = cr_grant_sha256 c
     \<and> (case cr_pipeline_progress c of None \<Rightarrow> True | Some p \<Rightarrow> progress_confirms ext p g)"

text \<open>
  The \<^verbatim>\<open>LEFT JOIN\<close> of the read. The projection turns a payload of more than 2048 bytes
  into NULL; a receipt without observation has three NULLs.
\<close>

definition progress_columns ::
  "journal \<Rightarrow> string \<Rightarrow> (string option \<times> string option \<times> string option) result" where
  "progress_columns db i =
     rbind (progress_available db) (\<lambda>present.
     Inr (if \<not> present then (None, None, None)
          else case find (\<lambda>p. pr_grant_id p = i) (progress_rows db) of
            None \<Rightarrow> (None, None, None)
          | Some p \<Rightarrow> (Some (pr_grant_digest p),
                       if length (pr_payload p) \<le> 2048 then Some (pr_payload p) else None,
                       Some (pr_payload_sha256 p))))"

definition consumed_of_row :: "string \<Rightarrow> receipt_row \<Rightarrow> consumed_receipt" where
  "consumed_of_row node r =
     \<lparr>cr_schema_version = 1, cr_node_id = node, cr_issuer_id = r_issuer_id r,
      cr_grant_id = r_grant_id r, cr_grant_sha256 = r_grant_digest r, cr_job_id = r_job_id r,
      cr_task_id = r_task_id r, cr_attempt = r_attempt r, cr_state = r_state r,
      cr_accepted_at_ms = r_accepted_ms r, cr_updated_at_ms = r_updated_ms r,
      cr_pipeline_progress = None\<rparr>"

definition read_consumed ::
  "'x journal_externals_scheme \<Rightarrow> journal \<Rightarrow> string \<Rightarrow> string option \<Rightarrow> string
   \<Rightarrow> consumed_receipt result" where
  "read_consumed ext db node issuer i =
     rbind (validate_operation_id ext i) (\<lambda>_.
     ensure (case issuer of None \<Rightarrow> True | Some s \<Rightarrow> hex_digest s) (JournalE ReceiptDamaged)
     (rbind (validate_owner db node) (\<lambda>_.
      rbind (progress_columns db i) (\<lambda>(digest, payload, checksum).
      rbind (or_err (find (\<lambda>r. r_grant_id r = i \<and> (issuer = None \<or> issuer = Some (r_issuer_id r)))
                       (j_receipts db)) (JournalE ReceiptMissing)) (\<lambda>r.
      rbind (progress_decode ext digest payload checksum (r_grant_digest r)) (\<lambda>p.
      let c = (consumed_of_row node r)\<lparr>cr_pipeline_progress := p\<rparr> in
      rbind (consumed_validate ext c) (\<lambda>_. Inr c)))))))"

text \<open>\<^verbatim>\<open>update\<close>: one step of a pipeline's durable observation.\<close>

definition progress_update ::
  "'x journal_externals_scheme \<Rightarrow> string \<Rightarrow> execution_grant \<Rightarrow> pipeline_progress \<Rightarrow> journal
   \<Rightarrow> (pipeline_progress \<times> journal) result" where
  "progress_update ext node g p db =
     ensure (progress_confirms ext p g \<and> pp_phase p \<noteq> PhasePending) (JournalE ProgressInvalid)
     (rbind (read_consumed ext db node (Some (g_issuer_id g)) (g_grant_id g)) (\<lambda>c.
      ensure (consumed_confirms ext c g \<and> cr_state c = ACCEPTED) (JournalE ReceiptChanged)
      (rbind (or_err (cr_pipeline_progress c) (JournalE ProgressChanged)) (\<lambda>previous.
       ensure (pp_phase previous \<noteq> PhaseFailed
           \<and> \<not> (pp_phase previous = PhaseCompleted
                \<and> pp_completed_steps previous = pp_total_steps previous)
           \<and> pp_sequence p = pp_sequence previous + 1
           \<and> cr_updated_at_ms c \<le> pp_recorded_at_ms p)
         (JournalE ProgressChanged)
       (let payload = progress_text ext p;
            mine = (\<lambda>q. pr_grant_id q = g_grant_id g \<and> pr_grant_digest q = cr_grant_sha256 c);
            row = (\<lambda>r. r_grant_id r = g_grant_id g \<and> r_grant_digest r = cr_grant_sha256 c
                       \<and> r_state r = ACCEPTED) in
        ensure (length payload \<le> MAX_CHECKPOINT_BYTES) (JournalE ProgressInvalid)
        (ensure (count_if mine (progress_rows db) = 1) (JournalE ProgressChanged)
        (ensure (count_if row (j_receipts db) = 1) (JournalE ReceiptChanged)
        (rbind (to_i64 (pp_recorded_at_ms p)) (\<lambda>ms.
         Inr (p, db\<lparr>j_progress := Table (update_rows mine
                      (\<lambda>q. q\<lparr>pr_payload := payload, pr_payload_sha256 := sha256_hex ext payload\<rparr>)
                      (progress_rows db)),
                    j_receipts := update_rows row (\<lambda>r. r\<lparr>r_updated_ms := ms\<rparr>)
                      (j_receipts db)\<rparr>))))))))))"

section \<open>Lemmas\<close>

lemma insert_receipt_Inr_iff:
  "insert_receipt r db = Inr db' \<longleftrightarrow>
     r_grant_id r \<notin> r_grant_id ` set (j_receipts db) \<and> row_key r \<notin> row_key ` set (j_receipts db)
     \<and> db' = db\<lparr>j_receipts := j_receipts db @ [r]\<rparr>"
  by (auto simp: insert_receipt_def)

lemma receipt_of_Some: "receipt_of db i = Some r \<Longrightarrow> r \<in> set (j_receipts db) \<and> r_grant_id r = i"
  unfolding receipt_of_def by (drule find_Some_mem) simp

lemma receipt_of_None: "receipt_of db i = None \<longleftrightarrow> i \<notin> r_grant_id ` set (j_receipts db)"
  by (auto simp: receipt_of_def find_None_all)

lemma receipt_of_mem:
  "distinct (map r_grant_id (j_receipts db)) \<Longrightarrow> r \<in> set (j_receipts db)
   \<Longrightarrow> receipt_of db (r_grant_id r) = Some r"
  unfolding receipt_of_def by (rule find_unique)

text \<open>What a successful read says about the row it read.\<close>

lemma read_consumed_InrD:
  assumes "read_consumed ext db node issuer i = Inr c"
  shows "\<exists>r \<in> set (j_receipts db). r_grant_id r = i
      \<and> (issuer = None \<or> issuer = Some (r_issuer_id r))
      \<and> c = (consumed_of_row node r)\<lparr>cr_pipeline_progress := cr_pipeline_progress c\<rparr>
      \<and> cr_state c = r_state r \<and> cr_grant_sha256 c = r_grant_digest r
      \<and> cr_accepted_at_ms c = r_accepted_ms r \<and> cr_updated_at_ms c = r_updated_ms r"
    and "consumed_validate ext c = Inr ()" and "validate_owner db node = Inr ()"
proof -
  obtain r p where r: "find (\<lambda>r. r_grant_id r = i \<and> (issuer = None \<or> issuer = Some (r_issuer_id r)))
      (j_receipts db) = Some r" and c: "c = (consumed_of_row node r)\<lparr>cr_pipeline_progress := p\<rparr>"
    and "consumed_validate ext c = Inr ()" and "validate_owner db node = Inr ()"
    using assms by (auto simp: read_consumed_def Let_def split: prod.splits)
  then show "consumed_validate ext c = Inr ()" "validate_owner db node = Inr ()" by blast+
  have "r \<in> set (j_receipts db)" "r_grant_id r = i" "issuer = None \<or> issuer = Some (r_issuer_id r)"
    using find_Some_mem [OF r] by auto
  then show "\<exists>r \<in> set (j_receipts db). r_grant_id r = i
      \<and> (issuer = None \<or> issuer = Some (r_issuer_id r))
      \<and> c = (consumed_of_row node r)\<lparr>cr_pipeline_progress := cr_pipeline_progress c\<rparr>
      \<and> cr_state c = r_state r \<and> cr_grant_sha256 c = r_grant_digest r
      \<and> cr_accepted_at_ms c = r_accepted_ms r \<and> cr_updated_at_ms c = r_updated_ms r"
    using c by (intro bexI [of _ r]) (simp_all add: consumed_of_row_def)
qed

lemma progress_validate_bounds:
  assumes "progress_validate p = Inr ()"
  shows "pp_sequence p \<le> 2 * pp_total_steps p" and "pp_total_steps p \<le> MAX_STEPS"
    and "pp_completed_steps p = pp_sequence p div 2 - (if pp_phase p = PhaseFailed then 1 else 0)"
  using assms by (auto simp: progress_validate_def split: phase.splits)

end
