(* ===== verification/Grant_Stop.thy ===== *)
theory Grant_Stop
  imports Journal_Tables
begin

text \<open>
  Durable stop intent (\<^verbatim>\<open>grant_stop.rs\<close>): the stop report and what it must confirm, reading a
  recorded stop, and the audit of the stop table against the receipts. Recording a stop is an
  operation of the ledger (theory \<open>Grant_Ledger\<close>).
\<close>

record stop_advertisement =
  sa_schema_version :: nat
  sa_available :: bool
  sa_guarantee :: string

definition stop_advertisement_new :: "bool \<Rightarrow> stop_advertisement" where
  "stop_advertisement_new available =
     \<lparr>sa_schema_version = 1, sa_available = available, sa_guarantee = ''durable_intent_only''\<rparr>"

definition stop_advertisement_validate :: "stop_advertisement \<Rightarrow> unit result" where
  "stop_advertisement_validate a =
     ensure (sa_schema_version a = 1 \<and> sa_guarantee a = ''durable_intent_only'') (StopE StopSchema)
       (Inr ())"

record stop_report =
  sr_schema_version :: nat
  sr_report_type :: string
  sr_grant_id :: string
  sr_grant_sha256 :: string
  sr_issuer_id :: string
  sr_session_id :: string
  sr_executor_node :: string
  sr_job_id :: string
  sr_task_id :: string
  sr_attempt :: nat
  sr_recorded_at_ms :: nat
  sr_receipt_preexisted :: bool
  sr_reused :: bool
  sr_cancellation_signalled :: bool
  sr_persisted :: bool
  sr_stop_requested :: bool
  sr_execution_stopped :: bool
  sr_external_effects_stopped :: bool
  sr_execution_authorized :: bool
  sr_automatically_retried :: bool

definition stop_identity_valid :: "'x externals_scheme \<Rightarrow> stop_report \<Rightarrow> bool" where
  "stop_identity_valid ext r \<longleftrightarrow>
     is_ok (validate_operation_id ext (sr_grant_id r)) \<and> is_ok (uuid ext (sr_session_id r))
     \<and> is_ok (validate_remote_node_id (sr_executor_node r))
     \<and> is_ok (validate_id (sr_job_id r)) \<and> is_ok (validate_id (sr_task_id r))
     \<and> hex_digest (sr_grant_sha256 r) \<and> hex_digest (sr_issuer_id r)
     \<and> 1 \<le> sr_attempt r \<and> sr_attempt r \<le> 11
     \<and> sr_recorded_at_ms r > 0 \<and> sr_recorded_at_ms r \<le> i64_max"

definition stop_confirms_scope :: "'x externals_scheme \<Rightarrow> stop_report \<Rightarrow> scope \<Rightarrow> bool" where
  "stop_confirms_scope ext r s \<longleftrightarrow>
     stop_identity_valid ext r \<and> is_ok (scope_validate ext s)
     \<and> sr_schema_version r = 1 \<and> sr_report_type r = ''grant_stop_receipt''
     \<and> sr_grant_id r = sc_grant_id s \<and> sr_issuer_id r = sc_issuer_id s
     \<and> sr_session_id r = sc_session_id s \<and> sr_executor_node r = sc_executor_node s
     \<and> sr_job_id r = sc_job_id s \<and> sr_task_id r = sc_task_id s
     \<and> sr_attempt r = sc_attempt s \<and> sc_grant_sha256 s = sr_grant_sha256 r
     \<and> sr_persisted r \<and> sr_stop_requested r \<and> \<not> sr_execution_stopped r
     \<and> \<not> sr_external_effects_stopped r \<and> \<not> sr_execution_authorized r
     \<and> \<not> sr_automatically_retried r"

definition stop_confirms ::
  "'x grant_externals_scheme \<Rightarrow> stop_report \<Rightarrow> execution_grant \<Rightarrow> bool" where
  "stop_confirms ext r g =
     (case scope_from_grant ext g of Inl _ \<Rightarrow> False | Inr s \<Rightarrow> stop_confirms_scope ext r s)"

definition stop_available :: "journal \<Rightarrow> bool result" where
  "stop_available db =
     (case j_stops db of TableAbsent \<Rightarrow> Inr False | TableDamaged \<Rightarrow> Inl (StopE StopSchema)
      | Table _ \<Rightarrow> Inr True)"

definition stop_rows :: "journal \<Rightarrow> stop_row list" where
  "stop_rows db = (case j_stops db of Table rows \<Rightarrow> rows | _ \<Rightarrow> [])"

definition stop_initialize :: "journal \<Rightarrow> journal result" where
  "stop_initialize db =
     rbind (stop_available db) (\<lambda>present.
     Inr (if present then db else db\<lparr>j_stops := Table []\<rparr>))"

definition stop_row_bytes :: "stop_row \<Rightarrow> nat" where
  "stop_row_bytes r = length (st_grant_id r) + length (st_grant_digest r) + length (st_issuer_id r)
     + length (st_session_id r) + length (st_node_id r) + length (st_job_id r)
     + length (st_task_id r)"

definition stop_report_of_row :: "stop_row \<Rightarrow> stop_report" where
  "stop_report_of_row r =
     \<lparr>sr_schema_version = 1, sr_report_type = ''grant_stop_receipt'', sr_grant_id = st_grant_id r,
      sr_grant_sha256 = st_grant_digest r, sr_issuer_id = st_issuer_id r,
      sr_session_id = st_session_id r, sr_executor_node = st_node_id r, sr_job_id = st_job_id r,
      sr_task_id = st_task_id r, sr_attempt = st_attempt r, sr_recorded_at_ms = st_recorded_ms r,
      sr_receipt_preexisted = st_receipt_preexisted r, sr_reused = True,
      sr_cancellation_signalled = False, sr_persisted = True, sr_stop_requested = True,
      sr_execution_stopped = False, sr_external_effects_stopped = False,
      sr_execution_authorized = False, sr_automatically_retried = False\<rparr>"

definition stop_read :: "journal \<Rightarrow> string \<Rightarrow> stop_report option result" where
  "stop_read db i =
     rbind (stop_available db) (\<lambda>present.
     if \<not> present then Inr None
     else
       let rows = filter (\<lambda>r. st_grant_id r = i) (stop_rows db) in
       ensure (length rows \<le> 1
           \<and> (\<forall>r \<in> set rows. 1 \<le> stop_row_bytes r \<and> stop_row_bytes r \<le> 4096))
         (StopE StopEvidence)
       (Inr (case rows of [] \<Rightarrow> None | r # _ \<Rightarrow> Some (stop_report_of_row r))))"

definition recorded_scope :: "'x externals_scheme \<Rightarrow> journal \<Rightarrow> scope \<Rightarrow> bool result" where
  "recorded_scope ext db s =
     rbind (stop_read db (sc_grant_id s)) (\<lambda>r.
     case r of None \<Rightarrow> Inr False
     | Some report \<Rightarrow>
         ensure (stop_confirms_scope ext report s) (StopE StopEvidence) (Inr True))"

text \<open>The audit of \<^verbatim>\<open>validate_all\<close>, one stop row at a time.\<close>

definition stop_row_matches ::
  "'x journal_externals_scheme \<Rightarrow> journal \<Rightarrow> string \<Rightarrow> string \<Rightarrow> unit result" where
  "stop_row_matches ext db node i =
     rbind (stop_read db i) (\<lambda>found.
     rbind (or_err found (StopE StopEvidence)) (\<lambda>report.
     rbind (read_consumed ext db node (Some (sr_issuer_id report)) i) (\<lambda>c.
     ensure (stop_identity_valid ext report \<and> sr_executor_node report = node
         \<and> cr_grant_sha256 c = sr_grant_sha256 report \<and> cr_job_id c = sr_job_id report
         \<and> cr_task_id c = sr_task_id report \<and> cr_attempt c = sr_attempt report)
       (StopE StopEvidence) (Inr ()))))"

primrec stop_rows_match ::
  "'x journal_externals_scheme \<Rightarrow> journal \<Rightarrow> string \<Rightarrow> string list \<Rightarrow> string list \<Rightarrow> unit result" where
  "stop_rows_match ext db node seen [] = Inr ()"
| "stop_rows_match ext db node seen (i # is) =
     rbind (stop_row_matches ext db node i) (\<lambda>_.
     ensure (i \<notin> set seen) (StopE StopEvidence) (stop_rows_match ext db node (i # seen) is))"

definition stop_validate_all ::
  "'x journal_externals_scheme \<Rightarrow> journal \<Rightarrow> string \<Rightarrow> unit result" where
  "stop_validate_all ext db node =
     rbind (stop_available db) (\<lambda>present.
     if \<not> present then Inr ()
     else
       ensure (\<forall>r \<in> set (stop_rows db). length (st_grant_id r) = 36
           \<and> length (st_grant_digest r) = 64 \<and> length (st_issuer_id r) = 64
           \<and> length (st_session_id r) = 36 \<and> length (st_node_id r) \<le> 255
           \<and> length (st_job_id r) = 32 \<and> length (st_task_id r) = 32
           \<and> 1 \<le> st_attempt r \<and> st_attempt r \<le> 11 \<and> 1 \<le> st_recorded_ms r)
         (StopE StopEvidence)
       (stop_rows_match ext db node [] (map st_grant_id (stop_rows db))))"

section \<open>Lemmas\<close>

lemma stop_read_Some:
  assumes "stop_read db i = Inr (Some report)"
  shows "\<exists>r \<in> set (stop_rows db). st_grant_id r = i \<and> report = stop_report_of_row r"
proof -
  obtain r rs where "filter (\<lambda>r. st_grant_id r = i) (stop_rows db) = r # rs"
      "report = stop_report_of_row r"
    using assms by (auto simp: stop_read_def Let_def split: if_splits list.splits)
  then show ?thesis by (metis (mono_tags, lifting) filter_eq_ConsD in_set_conv_decomp)
qed

lemma stop_read_None:
  "stop_read db i = Inr None \<Longrightarrow> i \<notin> st_grant_id ` set (stop_rows db)"
  by (auto simp: stop_read_def stop_rows_def stop_available_def Let_def filter_empty_conv
      split: if_splits list.splits table.splits)

lemma recorded_scope_False:
  "recorded_scope ext db s = Inr False \<Longrightarrow> sc_grant_id s \<notin> st_grant_id ` set (stop_rows db)"
  by (auto simp: recorded_scope_def dest: stop_read_None split: option.splits)

text \<open>A recorded stop is always seen, as a stop or as an error, never as its absence.\<close>

lemma recorded_scope_recorded:
  "sc_grant_id s \<in> st_grant_id ` set (stop_rows db) \<Longrightarrow> recorded_scope ext db s \<noteq> Inr False"
  using recorded_scope_False by blast

lemma stop_rows_match_all:
  "stop_rows_match ext db node seen is = Inr () \<Longrightarrow>
     (\<forall>i \<in> set is. stop_row_matches ext db node i = Inr ()) \<and> distinct is \<and> set is \<inter> set seen = {}"
  by (induction "is" arbitrary: seen) fastforce+

end
