(* ===== verification/Grant_Ledger.thy ===== *)
theory Grant_Ledger
  imports Grant_Stop
begin

text \<open>
  The ledger that consumes grants (\<^verbatim>\<open>grants.rs\<close>, \<^verbatim>\<open>GrantLedger\<close>; \<^verbatim>\<open>grant_stop.rs\<close>, its second
  \<^verbatim>\<open>impl\<close>): the attempt slot and the quota that both kinds of receipt share, \<open>claim\<close>,
  \<open>finish\<close>, recording and watching a stop, and the pipeline observation.

  One call of the source holds the connection mutex from its first read to its commit, so an
  operation is one function from a ledger to a ledger. A transaction that ends in an error is
  rolled back: the function returns the error and the caller keeps the old ledger. Only
  \<open>request_stop_scope\<close> can fail after its commit, so it returns its ledger on every path.
  The wall clock of a call is an argument.
\<close>

section \<open>State\<close>

text \<open>
  A registered stop watcher: the digest it was registered for and its current value. A
  \<^verbatim>\<open>Watch\<close> owns a receiver until it is dropped, and dropping it removes the entry.
\<close>

record stop_entry =
  se_digest :: string
  se_receivers :: nat
  se_stopped :: bool

record ledger =
  lg_node_id :: string
  lg_policy :: grant_policy
  lg_db :: journal
  lg_stops :: "(string \<times> stop_entry) list"
  lg_event_workers :: nat
  lg_final_slots :: nat
  lg_final_failed :: bool

section \<open>Attempt slots and quota\<close>

definition same_slot :: "scope \<Rightarrow> receipt_row \<Rightarrow> bool" where
  "same_slot s r \<longleftrightarrow> r_issuer_id r = sc_issuer_id s \<and> r_job_id r = sc_job_id s
     \<and> r_task_id r = sc_task_id s"

text \<open>\<^verbatim>\<open>ORDER BY attempt DESC LIMIT 1\<close>.\<close>

definition latest_row :: "receipt_row list \<Rightarrow> receipt_row option" where
  "latest_row rs = find (\<lambda>r. \<forall>x \<in> set rs. r_attempt x \<le> r_attempt r) rs"

definition check_attempt_slot :: "'x externals_scheme \<Rightarrow> journal \<Rightarrow> scope \<Rightarrow> unit result" where
  "check_attempt_slot ext db s =
     rbind (recorded_scope ext db s) (\<lambda>stopped.
     ensure (\<not> stopped) (Denied GrantStopRecorded)
     (let used = count_if (\<lambda>r. r_grant_id r = sc_grant_id s) (j_receipts db);
          previous = latest_row (filter (same_slot s) (j_receipts db)) in
      ensure (used = 0 \<and> (case previous of None \<Rightarrow> True
                | Some r \<Rightarrow> r_attempt r < sc_attempt s \<and> r_state r = COMPLETED))
        (Denied GrantAttemptReplayed) (Inr ())))"

definition progress_joined :: "journal \<Rightarrow> nat" where
  "progress_joined db =
     count_if (\<lambda>p. \<exists>r \<in> set (j_receipts db). r_grant_id r = pr_grant_id p
         \<and> r_state r = ACCEPTED \<and> r_max_result_bytes r > 0) (progress_rows db)"

definition progress_reserved :: "journal \<Rightarrow> nat result" where
  "progress_reserved db =
     rbind (progress_available db) (\<lambda>present.
     Inr (if present then saturating_mul (progress_joined db) JOURNAL_RESERVATION else 0))"

definition check_receipt_budget ::
  "journal \<Rightarrow> grant_policy \<Rightarrow> nat \<Rightarrow> nat \<Rightarrow> bool \<Rightarrow> unit result" where
  "check_receipt_budget db policy result_bytes definition_bytes pipeline =
     rbind (progress_reserved db) (\<lambda>progress.
     rbind (event_reserved db) (\<lambda>events.
     ensure (length (j_receipts db) < gp_max_receipts policy
         \<and> saturating_add (saturating_add (saturating_add (saturating_add (saturating_add
             (saturating_add (saturating_add (saturating_add
               (saturating_mul (j_page_count db) (j_page_size db)) (report_reserved db))
               progress) events) result_bytes) definition_bytes) REPORT_HEADROOM)
             (if pipeline then JOURNAL_RESERVATION else 0)) (4 * j_page_size db)
           \<le> gp_max_journal_bytes policy)
       (Denied GrantReceiptQuota) (Inr ())))"

section \<open>Claim and finish\<close>

definition claim_row :: "'x grant_externals_scheme \<Rightarrow> execution_grant \<Rightarrow> nat \<Rightarrow> receipt_row" where
  "claim_row ext g now =
     \<lparr>r_issuer_id = g_issuer_id g, r_job_id = g_job_id g, r_task_id = g_task_id g,
      r_attempt = g_attempt g, r_grant_id = g_grant_id g, r_grant_digest = grant_digest ext g,
      r_state = ACCEPTED, r_accepted_ms = now, r_updated_ms = now,
      r_max_result_bytes = gl_max_result_bytes (g_limits g), r_report = None,
      r_report_sha256 = None, r_receipt_kind = ''operation'', r_workload_definition = None\<rparr>"

definition claim_tx ::
  "'x journal_externals_scheme \<Rightarrow> grant_policy \<Rightarrow> execution_grant \<Rightarrow> nat \<Rightarrow> journal
   \<Rightarrow> journal result" where
  "claim_tx ext policy g now db =
     rbind (scope_from_grant ext g) (\<lambda>s.
     rbind (check_attempt_slot ext db s) (\<lambda>_.
     let pipeline = (g_capability g = ''pipeline.run'') in
     rbind (if pipeline then rbind (progress_available db) (\<lambda>present.
              if present then Inr db else progress_initialize False db) else Inr db) (\<lambda>db1.
     rbind (check_receipt_budget db1 policy (gl_max_result_bytes (g_limits g)) 0 pipeline) (\<lambda>_.
     rbind (to_i64 now) (\<lambda>ms.
     rbind (insert_receipt (claim_row ext g ms) db1) (\<lambda>db2.
     progress_initial ext g ms now db2))))))"

definition claim ::
  "'x journal_externals_scheme \<Rightarrow> ledger \<Rightarrow> execution_grant \<Rightarrow> nat \<Rightarrow> ledger result" where
  "claim ext lg g now =
     rbind (grant_validate ext g) (\<lambda>_.
     ensure (gl_max_result_bytes (g_limits g) \<le> gp_max_result_bytes (lg_policy lg)
         \<and> gl_max_execution_ms (g_limits g) \<le> gp_max_duration_ms (lg_policy lg))
       (Denied GrantOwnerLimits)
     (ensure (g_executor_node g = lg_node_id lg) (JournalE JournalOwner)
     (rbind (claim_tx ext (lg_policy lg) g now (lg_db lg)) (\<lambda>db.
      Inr (lg\<lparr>lg_db := db\<rparr>)))))"

text \<open>The \<^verbatim>\<open>WHERE\<close> clause and the assignments of the final \<^verbatim>\<open>UPDATE\<close>.\<close>

definition finish_where :: "'x grant_externals_scheme \<Rightarrow> execution_grant \<Rightarrow> receipt_row \<Rightarrow> bool" where
  "finish_where ext g r \<longleftrightarrow>
     r_grant_id r = g_grant_id g \<and> r_grant_digest r = grant_digest ext g
     \<and> r_state r = ACCEPTED \<and> r_report r = None \<and> r_report_sha256 r = None
     \<and> r_max_result_bytes r = gl_max_result_bytes (g_limits g)"

definition finish_set ::
  "'x grant_externals_scheme \<Rightarrow> grant_report \<Rightarrow> string \<Rightarrow> nat \<Rightarrow> receipt_row \<Rightarrow> receipt_row" where
  "finish_set ext report state ms r =
     r\<lparr>r_state := state, r_updated_ms := max (max (r_updated_ms r) (r_accepted_ms r)) ms,
       r_report := Some (report_text ext report),
       r_report_sha256 := Some (definition_digest ext (report_json ext report))\<rparr>"

definition terminal_state :: "receipt_state \<Rightarrow> string result" where
  "terminal_state st = (case st of Completed \<Rightarrow> Inr COMPLETED | Unknown \<Rightarrow> Inr UNKNOWN
     | _ \<Rightarrow> Inl (JournalE TerminalInvalid))"

definition finish ::
  "'x journal_externals_scheme \<Rightarrow> ledger \<Rightarrow> execution_grant \<Rightarrow> grant_report \<Rightarrow> nat
   \<Rightarrow> ledger result" where
  "finish ext lg g report now =
     ensure (report_confirms ext report g \<and> gr_persisted report) (JournalE TerminalInvalid)
     (rbind (terminal_state (gr_state report)) (\<lambda>state.
      ensure (length (report_text ext report)
          \<le> saturating_add (gl_max_result_bytes (g_limits g)) REPORT_HEADROOM)
        (JournalE TerminalInvalid)
      (rbind (to_i64 now) (\<lambda>ms.
       ensure (count_if (finish_where ext g) (j_receipts (lg_db lg)) = 1) (JournalE ReceiptChanged)
       (Inr (lg\<lparr>lg_db := (lg_db lg)\<lparr>j_receipts := update_rows (finish_where ext g)
          (finish_set ext report state ms) (j_receipts (lg_db lg))\<rparr>\<rparr>))))))"

definition record_pipeline_progress ::
  "'x journal_externals_scheme \<Rightarrow> ledger \<Rightarrow> execution_grant \<Rightarrow> pipeline_progress
   \<Rightarrow> (pipeline_progress \<times> ledger) result" where
  "record_pipeline_progress ext lg g p =
     rbind (progress_update ext (lg_node_id lg) g p (lg_db lg)) (\<lambda>(q, db).
       Inr (q, lg\<lparr>lg_db := db\<rparr>))"

definition ledger_receipt ::
  "'x journal_externals_scheme \<Rightarrow> ledger \<Rightarrow> string \<Rightarrow> string \<Rightarrow> consumed_receipt result" where
  "ledger_receipt ext lg issuer i =
     rbind (validate_operation_id ext i) (\<lambda>_.
     ensure (hex_digest issuer) (JournalE ReceiptDamaged)
       (read_consumed ext (lg_db lg) (lg_node_id lg) (Some issuer) i))"

section \<open>Stop requests\<close>

definition stop_budget_ok :: "journal \<Rightarrow> grant_policy \<Rightarrow> bool \<Rightarrow> bool" where
  "stop_budget_ok db policy preexisted \<longleftrightarrow>
     (preexisted \<or> length (j_receipts db) < gp_max_receipts policy)
     \<and> saturating_add (saturating_add (saturating_add
          (saturating_mul (j_page_count db) (j_page_size db)) (report_reserved db))
          (saturating_mul (progress_joined db) JOURNAL_RESERVATION)) (8 * j_page_size db)
        \<le> gp_max_journal_bytes policy"

definition unknown_row :: "scope \<Rightarrow> nat \<Rightarrow> receipt_row" where
  "unknown_row s ms =
     \<lparr>r_issuer_id = sc_issuer_id s, r_job_id = sc_job_id s, r_task_id = sc_task_id s,
      r_attempt = sc_attempt s, r_grant_id = sc_grant_id s, r_grant_digest = sc_grant_sha256 s,
      r_state = UNKNOWN, r_accepted_ms = ms, r_updated_ms = ms, r_max_result_bytes = 0,
      r_report = None, r_report_sha256 = None, r_receipt_kind = ''operation'',
      r_workload_definition = None\<rparr>"

definition new_stop_row :: "scope \<Rightarrow> nat \<Rightarrow> bool \<Rightarrow> stop_row" where
  "new_stop_row s ms preexisted =
     \<lparr>st_grant_id = sc_grant_id s, st_grant_digest = sc_grant_sha256 s,
      st_issuer_id = sc_issuer_id s, st_session_id = sc_session_id s,
      st_node_id = sc_executor_node s, st_job_id = sc_job_id s, st_task_id = sc_task_id s,
      st_attempt = sc_attempt s, st_recorded_ms = ms, st_receipt_preexisted = preexisted\<rparr>"

text \<open>The branch of the transaction that records a new stop.\<close>

definition record_stop :: "grant_policy \<Rightarrow> scope \<Rightarrow> nat \<Rightarrow> journal \<Rightarrow> (stop_report \<times> journal) result" where
  "record_stop policy s now db =
     (let existing = receipt_of db (sc_grant_id s); preexisted = (existing \<noteq> None) in
      ensure (case existing of None \<Rightarrow> True | Some r \<Rightarrow> r_grant_digest r = sc_grant_sha256 s)
        (StopE StopConflict)
      (rbind (progress_available db) (\<lambda>_.
       ensure (stop_budget_ok db policy preexisted) (StopE StopQuota)
       (rbind (to_i64 (max now 1)) (\<lambda>ms.
        rbind (if preexisted then Inr db
               else ensure (count_if (\<lambda>r. same_slot s r \<and> r_attempt r = sc_attempt s)
                        (j_receipts db) = 0) (StopE StopSlot)
                    (insert_receipt (unknown_row s ms) db)) (\<lambda>db1.
        rbind (stop_initialize db1) (\<lambda>db2.
        ensure (sc_grant_id s \<notin> set (map st_grant_id (stop_rows db2))) (JournalE SqlConstraint)
        (let db3 = db2\<lparr>j_stops := Table (stop_rows db2 @ [new_stop_row s ms preexisted])\<rparr> in
         rbind (stop_read db3 (sc_grant_id s)) (\<lambda>found.
         rbind (or_err found (StopE StopEvidence)) (\<lambda>report.
         Inr (report\<lparr>sr_reused := False\<rparr>, db3)))))))))))"

definition stop_tx ::
  "'x externals_scheme \<Rightarrow> grant_policy \<Rightarrow> scope \<Rightarrow> nat \<Rightarrow> journal
   \<Rightarrow> (stop_report \<times> journal) result" where
  "stop_tx ext policy s now db =
     rbind (stop_read db (sc_grant_id s)) (\<lambda>found.
     case found of
       Some report \<Rightarrow> ensure (stop_confirms_scope ext report s) (StopE StopConflict) (Inr (report, db))
     | None \<Rightarrow> record_stop policy s now db)"

definition request_stop_scope ::
  "'x externals_scheme \<Rightarrow> ledger \<Rightarrow> scope \<Rightarrow> string \<Rightarrow> string \<Rightarrow> string \<Rightarrow> nat
   \<Rightarrow> stop_report result \<times> ledger" where
  "request_stop_scope ext lg s issuer session node now =
     (case rbind (scope_validate ext s) (\<lambda>_.
           ensure (node = lg_node_id lg \<and> scope_matches_session s issuer session node)
             (StopE StopScope) (stop_tx ext (lg_policy lg) s now (lg_db lg))) of
        Inl e \<Rightarrow> (Inl e, lg)
      | Inr (report, db) \<Rightarrow>
          let lg1 = lg\<lparr>lg_db := db\<rparr> in
          (case map_of (lg_stops lg) (sc_grant_id s) of
             None \<Rightarrow>
               (ensure (stop_confirms_scope ext report s) (StopE StopUnconfirmed) (Inr report), lg1)
           | Some entry \<Rightarrow>
               if se_digest entry \<noteq> sc_grant_sha256 s then (Inl (StopE StopConflict), lg1)
               else
                 let report1 = report\<lparr>sr_cancellation_signalled := (se_receivers entry > 0)\<rparr> in
                 (ensure (stop_confirms_scope ext report1 s) (StopE StopUnconfirmed) (Inr report1),
                  lg1\<lparr>lg_stops := kv_put (sc_grant_id s) (entry\<lparr>se_stopped := True\<rparr>)
                       (lg_stops lg)\<rparr>)))"

definition request_stop ::
  "'x grant_externals_scheme \<Rightarrow> ledger \<Rightarrow> execution_grant \<Rightarrow> string \<Rightarrow> string \<Rightarrow> string \<Rightarrow> nat
   \<Rightarrow> stop_report result \<times> ledger" where
  "request_stop ext lg g issuer session node now =
     (case scope_from_grant ext g of Inl e \<Rightarrow> (Inl e, lg)
      | Inr s \<Rightarrow> request_stop_scope ext lg s issuer session node now)"

text \<open>\<^verbatim>\<open>watch_stop_scope\<close>: the watcher starts with the recorded stop, if there is one.\<close>

definition watch_stop_scope ::
  "'x externals_scheme \<Rightarrow> ledger \<Rightarrow> scope \<Rightarrow> ledger result" where
  "watch_stop_scope ext lg s =
     rbind (recorded_scope ext (lg_db lg) s) (\<lambda>stopped.
     ensure (map_of (lg_stops lg) (sc_grant_id s) = None) (StopE StopWatcher)
     (Inr (lg\<lparr>lg_stops := kv_put (sc_grant_id s)
        \<lparr>se_digest = sc_grant_sha256 s, se_receivers = 1, se_stopped = stopped\<rparr> (lg_stops lg)\<rparr>)))"

definition watch_drop :: "ledger \<Rightarrow> string \<Rightarrow> ledger" where
  "watch_drop lg i = lg\<lparr>lg_stops := kv_del i (lg_stops lg)\<rparr>"

definition watch_stopped :: "ledger \<Rightarrow> string \<Rightarrow> bool" where
  "watch_stopped lg i = (case map_of (lg_stops lg) i of None \<Rightarrow> False | Some e \<Rightarrow> se_stopped e)"

end
