(* ===== verification/Grant_Invariant.thy ===== *)
theory Grant_Invariant
  imports Grant_Ledger Machines
begin

text \<open>
  What the ledger's operations keep: the table constraints and the attempt discipline
  (\<open>journal_ok\<close>), and the order along which a journal moves (\<open>journal_le\<close>: no receipt, stop or
  event is lost or rewritten, a receipt leaves \<open>accepted\<close> once and for good).
\<close>

section \<open>Invariant and order\<close>

definition row_states :: "string set" where
  "row_states = {ACCEPTED, COMPLETED, UNKNOWN}"

definition slot_of :: "receipt_row \<Rightarrow> string \<times> string \<times> string" where
  "slot_of r = (r_issuer_id r, r_job_id r, r_task_id r)"

text \<open>
  An attempt that a claim opened is the newest of its slot, apart from attempts that only a
  stop request consumed.
\<close>

definition attempts_ok :: "receipt_row list \<Rightarrow> bool" where
  "attempts_ok rs \<longleftrightarrow>
     (\<forall>r \<in> set rs. \<forall>r' \<in> set rs. slot_of r = slot_of r' \<and> r_attempt r < r_attempt r'
        \<and> r_state r = ACCEPTED \<longrightarrow> r_state r' = UNKNOWN)"

definition journal_ok :: "journal \<Rightarrow> bool" where
  "journal_ok db \<longleftrightarrow>
     distinct (map r_grant_id (j_receipts db)) \<and> distinct (map row_key (j_receipts db))
     \<and> r_state ` set (j_receipts db) \<subseteq> row_states
     \<and> (\<forall>r \<in> set (j_receipts db). r_accepted_ms r \<le> r_updated_ms r)
     \<and> attempts_ok (j_receipts db)
     \<and> distinct (map st_grant_id (stop_rows db))
     \<and> (\<forall>s \<in> set (stop_rows db). \<exists>r \<in> set (j_receipts db).
          r_grant_id r = st_grant_id s \<and> r_grant_digest r = st_grant_digest s)"

definition row_le :: "receipt_row \<Rightarrow> receipt_row \<Rightarrow> bool" where
  "row_le r r' \<longleftrightarrow>
     row_key r' = row_key r \<and> r_grant_id r' = r_grant_id r \<and> r_grant_digest r' = r_grant_digest r
     \<and> r_accepted_ms r' = r_accepted_ms r \<and> r_max_result_bytes r' = r_max_result_bytes r
     \<and> r_receipt_kind r' = r_receipt_kind r \<and> r_workload_definition r' = r_workload_definition r
     \<and> r_updated_ms r \<le> r_updated_ms r' \<and> r_state r' \<in> row_states
     \<and> (r_state r \<noteq> ACCEPTED \<longrightarrow> r' = r)"

definition journal_le :: "journal \<Rightarrow> journal \<Rightarrow> bool" where
  "journal_le a b \<longleftrightarrow>
     (\<forall>r \<in> set (j_receipts a). \<exists>r' \<in> set (j_receipts b). row_le r r')
     \<and> set (stop_rows a) \<subseteq> set (stop_rows b)
     \<and> set (j_events a) \<subseteq> set (j_events b)"

lemma row_le_refl: "r_state r \<in> row_states \<Longrightarrow> row_le r r"
  by (simp add: row_le_def)

lemma row_le_trans: "row_le a b \<Longrightarrow> row_le b c \<Longrightarrow> row_le a c"
  by (auto simp: row_le_def)

lemma journal_le_trans: "journal_le a b \<Longrightarrow> journal_le b c \<Longrightarrow> journal_le a c"
  unfolding journal_le_def by (blast intro: row_le_trans)

lemma journal_okD:
  assumes "journal_ok db"
  shows "distinct (map r_grant_id (j_receipts db))" and "distinct (map row_key (j_receipts db))"
    and "r \<in> set (j_receipts db) \<Longrightarrow> r_state r \<in> row_states"
    and "r \<in> set (j_receipts db) \<Longrightarrow> r_accepted_ms r \<le> r_updated_ms r"
    and "attempts_ok (j_receipts db)" and "distinct (map st_grant_id (stop_rows db))"
  using assms by (auto simp: journal_ok_def)

lemma journal_le_refl: "journal_ok db \<Longrightarrow> journal_le db db"
  using journal_okD(3) row_le_refl unfolding journal_le_def by blast

text \<open>At most one attempt of a task is open.\<close>

lemma one_open_attempt:
  assumes "journal_ok db" and "r \<in> set (j_receipts db)" and "r' \<in> set (j_receipts db)"
    and "slot_of r = slot_of r'" and "r_state r = ACCEPTED" and "r_state r' = ACCEPTED"
  shows "r = r'"
proof -
  have "r_attempt r = r_attempt r'"
    using assms journal_okD(5) [OF assms(1)] unfolding attempts_ok_def
    by (metis linorder_neqE_nat states_distinct(3))
  then have "row_key r = row_key r'" using assms(4) by (simp add: row_key_def slot_of_def)
  then show ?thesis
    using distinct_key_eq [OF journal_okD(2) [OF assms(1)] assms(2,3)] by blast
qed

text \<open>In a later journal the row of a grant is the only candidate, so the order is functional.\<close>

lemma journal_le_receipt:
  assumes "journal_le a b" and "journal_ok b" and "receipt_of a i = Some r"
  shows "\<exists>r'. receipt_of b i = Some r' \<and> row_le r r'"
proof -
  have r: "r \<in> set (j_receipts a)" "r_grant_id r = i" using receipt_of_Some [OF assms(3)] by auto
  then obtain r' where "r' \<in> set (j_receipts b)" "row_le r r'"
    using assms(1) unfolding journal_le_def by blast
  moreover then have "receipt_of b i = Some r'"
    using receipt_of_mem [OF journal_okD(1) [OF assms(2)]] r(2) by (metis row_le_def)
  ultimately show ?thesis by blast
qed

section \<open>Row updates\<close>

text \<open>Every \<^verbatim>\<open>UPDATE execution_receipts\<close> of the program moves accepted rows along the order.\<close>

definition forward :: "(receipt_row \<Rightarrow> bool) \<Rightarrow> (receipt_row \<Rightarrow> receipt_row) \<Rightarrow> journal \<Rightarrow> bool" where
  "forward P f db \<longleftrightarrow> (\<forall>r \<in> set (j_receipts db). P r \<longrightarrow> r_state r = ACCEPTED \<and> row_le r (f r))"

lemma update_rowsE:
  assumes "r' \<in> set (update_rows P f rs)"
  obtains r where "r \<in> set rs" and "r' = (if P r then f r else r)"
  using assms by (auto simp: update_rows_def)

lemma update_rowsI: "r \<in> set rs \<Longrightarrow> (if P r then f r else r) \<in> set (update_rows P f rs)"
  by (auto simp: update_rows_def)

lemma forward_row:
  assumes "forward P f db" and "journal_ok db" and "r \<in> set (j_receipts db)"
  shows "row_le r (if P r then f r else r)"
  using assms journal_okD(3) row_le_refl by (auto simp: forward_def)

lemma update_journal_le:
  assumes "forward P f db" and "journal_ok db"
    and "j_receipts db' = update_rows P f (j_receipts db)"
    and "set (stop_rows db) \<subseteq> set (stop_rows db')" and "set (j_events db) \<subseteq> set (j_events db')"
  shows "journal_le db db'"
  unfolding journal_le_def assms(3)
proof (intro conjI ballI)
  fix r assume "r \<in> set (j_receipts db)"
  then show "\<exists>r' \<in> set (update_rows P f (j_receipts db)). row_le r r'"
    using forward_row [OF assms(1,2)] update_rowsI by (intro bexI)
qed (use assms(4,5) in simp_all)

lemma attempts_ok_update:
  assumes "forward P f db" and "journal_ok db"
  shows "attempts_ok (update_rows P f (j_receipts db))"
  unfolding attempts_ok_def
proof (intro ballI impI)
  fix a b
  assume a: "a \<in> set (update_rows P f (j_receipts db))"
    and b: "b \<in> set (update_rows P f (j_receipts db))"
    and h: "slot_of a = slot_of b \<and> r_attempt a < r_attempt b \<and> r_state a = ACCEPTED"
  obtain r where r: "r \<in> set (j_receipts db)" "a = (if P r then f r else r)"
    using a by (rule update_rowsE)
  obtain r' where r': "r' \<in> set (j_receipts db)" "b = (if P r' then f r' else r')"
    using b by (rule update_rowsE)
  have le: "row_le r a" "row_le r' b"
    unfolding r(2) r'(2) using forward_row [OF assms] r(1) r'(1) by simp_all
  then have eq: "slot_of r = slot_of r'" "r_attempt r < r_attempt r'"
    using h by (auto simp: row_le_def row_key_def slot_of_def)
  have "r_state r = ACCEPTED" using le(1) h by (auto simp: row_le_def)
  then have "r_state r' = UNKNOWN"
    using journal_okD(5) [OF assms(2)] r(1) r'(1) eq unfolding attempts_ok_def by blast
  then show "r_state b = UNKNOWN" using le(2) by (simp add: row_le_def)
qed

lemma update_journal_ok:
  assumes "forward P f db" and "journal_ok db"
    and db': "j_receipts db' = update_rows P f (j_receipts db)" "stop_rows db' = stop_rows db"
  shows "journal_ok db'"
proof -
  have le: "row_le r (if P r then f r else r)" if "r \<in> set (j_receipts db)" for r
    using forward_row [OF assms(1,2) that] .
  have keys: "map r_grant_id (j_receipts db') = map r_grant_id (j_receipts db)"
      "map row_key (j_receipts db') = map row_key (j_receipts db)"
    using assms(1) by (auto simp: db' forward_def row_le_def intro!: map_update_rows_eq)
  have rows: "r_state r' \<in> row_states \<and> r_accepted_ms r' \<le> r_updated_ms r'"
    if mem: "r' \<in> set (j_receipts db')" for r'
  proof -
    obtain r where r: "r \<in> set (j_receipts db)" "r' = (if P r then f r else r)"
      using mem unfolding db' by (rule update_rowsE)
    then have "row_le r r'" using le by simp
    then show ?thesis using journal_okD(4) [OF assms(2) r(1)] by (auto simp: row_le_def)
  qed
  have stops: "\<exists>r' \<in> set (j_receipts db'). r_grant_id r' = st_grant_id s
      \<and> r_grant_digest r' = st_grant_digest s" if s: "s \<in> set (stop_rows db)" for s
  proof -
    obtain r where r: "r \<in> set (j_receipts db)" "r_grant_id r = st_grant_id s"
        "r_grant_digest r = st_grant_digest s"
      using assms(2) s by (auto simp: journal_ok_def)
    then have "row_le r (if P r then f r else r)" by (intro le)
    then show ?thesis
      using update_rowsI [OF r(1), of P f] r(2,3) unfolding db'(1) row_le_def by (intro bexI) simp_all
  qed
  show ?thesis
    using assms(2) keys rows stops attempts_ok_update [OF assms(1,2)] db'
    by (auto simp: journal_ok_def)
qed

lemma update_step:
  assumes "forward P f db" and "journal_ok db"
    and "j_receipts db' = update_rows P f (j_receipts db)" and "stop_rows db' = stop_rows db"
    and "set (j_events db) \<subseteq> set (j_events db')"
  shows "journal_ok db' \<and> journal_le db db'"
  using update_journal_ok [OF assms(1-4)] update_journal_le [OF assms(1-3)] assms(4,5) by simp

section \<open>Row insertions\<close>

text \<open>
  A new row keeps the invariant when its keys are fresh and, if it is accepted, no row of its
  slot with a lower attempt is accepted and none has a higher one.
\<close>

lemma insert_journal_le:
  assumes "journal_ok db" and "j_receipts db' = j_receipts db @ [r]"
    and "set (stop_rows db) \<subseteq> set (stop_rows db')" and "set (j_events db) \<subseteq> set (j_events db')"
  shows "journal_le db db'"
  using journal_le_refl [OF assms(1)] assms(2-4) by (auto simp: journal_le_def)

lemma insert_journal_ok:
  assumes "journal_ok db" and db': "j_receipts db' = j_receipts db @ [r]"
    and "r_grant_id r \<notin> r_grant_id ` set (j_receipts db)"
    and "row_key r \<notin> row_key ` set (j_receipts db)"
    and "r_state r \<in> row_states" and "r_accepted_ms r \<le> r_updated_ms r"
    and slot: "r_state r = UNKNOWN \<or> (\<forall>x \<in> set (j_receipts db). slot_of x = slot_of r \<longrightarrow>
        r_attempt x < r_attempt r \<and> r_state x \<noteq> ACCEPTED)"
    and stops: "distinct (map st_grant_id (stop_rows db'))"
    and "\<forall>s \<in> set (stop_rows db'). \<exists>x \<in> set (j_receipts db').
        r_grant_id x = st_grant_id s \<and> r_grant_digest x = st_grant_digest s"
  shows "journal_ok db'"
proof -
  have "r_state b = UNKNOWN"
    if m: "a \<in> set (j_receipts db @ [r])" "b \<in> set (j_receipts db @ [r])"
      and h: "slot_of a = slot_of b \<and> r_attempt a < r_attempt b \<and> r_state a = ACCEPTED" for a b
  proof -
    consider "a \<in> set (j_receipts db)" "b \<in> set (j_receipts db)"
      | "a \<in> set (j_receipts db)" "b = r" | "a = r" "b \<in> set (j_receipts db)" | "a = r" "b = r"
      using m by auto
    then show ?thesis
    proof cases
      case 1
      then show ?thesis using journal_okD(5) [OF assms(1)] h unfolding attempts_ok_def by blast
    next
      case 2
      then show ?thesis using slot h by auto
    next
      case 3
      then have "r_attempt b < r_attempt r" using slot h by auto
      then show ?thesis using 3 h by simp
    next
      case 4
      then show ?thesis using h by simp
    qed
  qed
  then have "attempts_ok (j_receipts db @ [r])" unfolding attempts_ok_def by blast
  moreover have "distinct (map r_grant_id (j_receipts db'))" "distinct (map row_key (j_receipts db'))"
    using journal_okD(1,2) [OF assms(1)] assms(3,4) by (auto simp: db')
  moreover have "r_state ` set (j_receipts db') \<subseteq> row_states"
    using journal_okD(3) [OF assms(1)] assms(5) by (auto simp: db')
  moreover have "\<forall>r \<in> set (j_receipts db'). r_accepted_ms r \<le> r_updated_ms r"
    using journal_okD(4) [OF assms(1)] assms(6) by (auto simp: db')
  ultimately show ?thesis using assms(8,9) by (simp only: journal_ok_def db')
qed

section \<open>Claims\<close>

lemma latest_row_Some:
  "latest_row rs = Some r \<Longrightarrow> r \<in> set rs \<and> (\<forall>x \<in> set rs. r_attempt x \<le> r_attempt r)"
  unfolding latest_row_def by (drule find_Some_mem) simp

lemma latest_row_None: "latest_row rs = None \<Longrightarrow> rs = []"
proof (rule ccontr)
  assume none: "latest_row rs = None" and ne: "rs \<noteq> []"
  let ?m = "Max (r_attempt ` set rs)"
  have "?m \<in> r_attempt ` set rs" using ne by (intro Max_in) simp_all
  then obtain r where "r \<in> set rs" "r_attempt r = ?m" by auto
  then have "r \<in> set rs" "\<forall>x \<in> set rs. r_attempt x \<le> r_attempt r" by simp_all
  then show False using none by (auto simp: latest_row_def find_None_all)
qed

text \<open>What an admitted attempt knows about its slot.\<close>

lemma check_attempt_slot_InrD:
  assumes "check_attempt_slot ext db s = Inr ()"
  shows "recorded_scope ext db s = Inr False"
    and "sc_grant_id s \<notin> r_grant_id ` set (j_receipts db)"
    and "\<And>x. x \<in> set (j_receipts db) \<Longrightarrow> same_slot s x \<Longrightarrow> r_attempt x < sc_attempt s"
    and "\<And>x. x \<in> set (j_receipts db) \<Longrightarrow> same_slot s x \<Longrightarrow>
           \<exists>m \<in> set (j_receipts db). same_slot s m \<and> r_attempt x \<le> r_attempt m \<and> r_state m = COMPLETED"
proof -
  let ?rs = "filter (same_slot s) (j_receipts db)"
  have chk: "recorded_scope ext db s = Inr False"
      "count_if (\<lambda>r. r_grant_id r = sc_grant_id s) (j_receipts db) = 0"
      "case latest_row ?rs of None \<Rightarrow> True | Some r \<Rightarrow> r_attempt r < sc_attempt s \<and> r_state r = COMPLETED"
    using assms by (auto simp: check_attempt_slot_def Let_def)
  then show "recorded_scope ext db s = Inr False"
    "sc_grant_id s \<notin> r_grant_id ` set (j_receipts db)"
    by (auto simp: count_if_0_iff)
  have ex: "\<exists>m \<in> set (j_receipts db). same_slot s m \<and> r_attempt x \<le> r_attempt m
      \<and> r_attempt m < sc_attempt s \<and> r_state m = COMPLETED"
    if "x \<in> set (j_receipts db)" "same_slot s x" for x
  proof -
    have x: "x \<in> set ?rs" using that by simp
    then obtain m where m: "latest_row ?rs = Some m"
      using latest_row_None by (cases "latest_row ?rs") fastforce+
    have "m \<in> set ?rs" "r_attempt x \<le> r_attempt m" using latest_row_Some [OF m] x by blast+
    then show ?thesis using chk(3) m by (intro bexI [of _ m]) simp_all
  qed
  show "r_attempt x < sc_attempt s" if "x \<in> set (j_receipts db)" "same_slot s x" for x
    using ex [OF that] le_less_trans by blast
  show "\<exists>m \<in> set (j_receipts db). same_slot s m \<and> r_attempt x \<le> r_attempt m \<and> r_state m = COMPLETED"
    if "x \<in> set (j_receipts db)" "same_slot s x" for x
    using ex [OF that] by blast
qed

text \<open>So no attempt of an admitted slot is still open.\<close>

lemma check_attempt_slot_closed:
  assumes "check_attempt_slot ext db s = Inr ()" and "journal_ok db"
    and "x \<in> set (j_receipts db)" and "same_slot s x"
  shows "r_state x \<noteq> ACCEPTED"
proof
  assume acc: "r_state x = ACCEPTED"
  obtain m where m: "m \<in> set (j_receipts db)" "same_slot s m" "r_attempt x \<le> r_attempt m"
      "r_state m = COMPLETED"
    using check_attempt_slot_InrD(4) [OF assms(1,3,4)] by blast
  have slot: "slot_of x = slot_of m" using assms(4) m(2) by (simp add: same_slot_def slot_of_def)
  have "r_attempt x \<noteq> r_attempt m"
    using distinct_key_eq [OF journal_okD(2) [OF assms(2)] assms(3) m(1)] slot acc m(4)
    by (auto simp: slot_of_def row_key_def)
  then have "r_attempt x < r_attempt m" using m(3) by simp
  then show False
    using journal_okD(5) [OF assms(2)] assms(3) m(1,4) slot acc unfolding attempts_ok_def
    by fastforce
qed

lemma progress_initialize_frame:
  "progress_initialize a db = Inr db' \<Longrightarrow> \<exists>t. db' = db\<lparr>j_progress := t\<rparr>"
  by (auto simp: progress_initialize_def split: if_splits) (metis journal.surjective journal.update_convs(9))

lemma progress_initial_frame:
  "progress_initial ext g a now db = Inr db' \<Longrightarrow> \<exists>t. db' = db\<lparr>j_progress := t\<rparr>"
  by (auto simp: progress_initial_def Let_def split: if_splits)
     (metis journal.surjective journal.update_convs(9))

lemma claim_tx_InrD:
  assumes "claim_tx ext policy g now db = Inr db'"
  shows "\<exists>t. db' = db\<lparr>j_receipts := j_receipts db @ [claim_row ext g now], j_progress := t\<rparr>"
    and "check_attempt_slot ext db (grant_scope ext g) = Inr ()"
    and "g_grant_id g \<notin> r_grant_id ` set (j_receipts db)"
    and "row_key (claim_row ext g now) \<notin> row_key ` set (j_receipts db)"
    and "length (j_receipts db) < gp_max_receipts policy"
proof -
  obtain db1 db2 where slot: "check_attempt_slot ext db (grant_scope ext g) = Inr ()"
    and d1: "(if g_capability g = ''pipeline.run'' then rbind (progress_available db) (\<lambda>present.
              if present then Inr db else progress_initialize False db) else Inr db) = Inr db1"
    and budget: "check_receipt_budget db1 policy (gl_max_result_bytes (g_limits g)) 0
                   (g_capability g = ''pipeline.run'') = Inr ()"
    and d2: "insert_receipt (claim_row ext g now) db1 = Inr db2"
    and d3: "progress_initial ext g now now db2 = Inr db'"
    using assms by (auto simp: claim_tx_def Let_def dest!: scope_from_grant_InrD)
  have "\<exists>t. db1 = db\<lparr>j_progress := t\<rparr>"
    using d1 progress_initialize_frame by (auto split: if_splits)
       (metis journal.surjective journal.update_convs(9))+
  then obtain t where t: "db1 = db\<lparr>j_progress := t\<rparr>" by blast
  obtain t' where t': "db' = db2\<lparr>j_progress := t'\<rparr>" using progress_initial_frame [OF d3] by blast
  have ins: "r_grant_id (claim_row ext g now) \<notin> r_grant_id ` set (j_receipts db)"
      "row_key (claim_row ext g now) \<notin> row_key ` set (j_receipts db)"
      "db2 = db1\<lparr>j_receipts := j_receipts db @ [claim_row ext g now]\<rparr>"
    using d2 t by (auto simp: insert_receipt_Inr_iff)
  then show "\<exists>t. db' = db\<lparr>j_receipts := j_receipts db @ [claim_row ext g now], j_progress := t\<rparr>"
    using t t' by auto
  show "check_attempt_slot ext db (grant_scope ext g) = Inr ()" by (rule slot)
  show "g_grant_id g \<notin> r_grant_id ` set (j_receipts db)" using ins(1) by (simp add: claim_row_def)
  show "row_key (claim_row ext g now) \<notin> row_key ` set (j_receipts db)" by (rule ins(2))
  show "length (j_receipts db) < gp_max_receipts policy"
    using budget t by (auto simp: check_receipt_budget_def)
qed

lemma claim_row_simps [simp]:
  "r_state (claim_row ext g now) = ACCEPTED" "r_accepted_ms (claim_row ext g now) = now"
  "r_updated_ms (claim_row ext g now) = now" "r_grant_id (claim_row ext g now) = g_grant_id g"
  "r_attempt (claim_row ext g now) = g_attempt g"
  by (simp_all add: claim_row_def)

lemma stop_rows_update [simp]:
  "stop_rows (db\<lparr>j_receipts := x\<rparr>) = stop_rows db" "stop_rows (db\<lparr>j_progress := y\<rparr>) = stop_rows db"
  "stop_rows (db\<lparr>j_events := z\<rparr>) = stop_rows db" "stop_rows (db\<lparr>j_event_states := w\<rparr>) = stop_rows db"
  "stop_rows (db\<lparr>j_version := v\<rparr>) = stop_rows db"
  "stop_rows (db\<lparr>j_workload_columns := b\<rparr>) = stop_rows db"
  "stop_rows (db\<lparr>j_event_tables := b\<rparr>) = stop_rows db"
  "stop_rows (db\<lparr>j_page_count := n\<rparr>) = stop_rows db"
  "stop_rows (db\<lparr>j_stops := Table rows\<rparr>) = rows"
  by (simp_all add: stop_rows_def)

lemma claim_tx_ok:
  assumes "claim_tx ext policy g now db = Inr db'" and "journal_ok db"
  shows "journal_ok db' \<and> journal_le db db'"
proof -
  note C = claim_tx_InrD [OF assms(1)]
  obtain t where t: "db' = db\<lparr>j_receipts := j_receipts db @ [claim_row ext g now], j_progress := t\<rparr>"
    using C(1) by blast
  have slot: "r_attempt x < r_attempt (claim_row ext g now) \<and> r_state x \<noteq> ACCEPTED"
    if "x \<in> set (j_receipts db)" "slot_of x = slot_of (claim_row ext g now)" for x
  proof -
    have "same_slot (grant_scope ext g) x"
      using that(2) by (simp add: same_slot_def slot_of_def claim_row_def)
    then show ?thesis
      using check_attempt_slot_InrD(3) [OF C(2) that(1)]
        check_attempt_slot_closed [OF C(2) assms(2) that(1)] by simp
  qed
  have "journal_ok db'"
  proof (rule insert_journal_ok [OF assms(2)])
    show "j_receipts db' = j_receipts db @ [claim_row ext g now]" using t by simp
    show "\<forall>s \<in> set (stop_rows db'). \<exists>x \<in> set (j_receipts db').
        r_grant_id x = st_grant_id s \<and> r_grant_digest x = st_grant_digest s"
      using assms(2) by (auto simp: t journal_ok_def)
    show "r_state (claim_row ext g now) = UNKNOWN \<or> (\<forall>x \<in> set (j_receipts db).
        slot_of x = slot_of (claim_row ext g now) \<longrightarrow>
        r_attempt x < r_attempt (claim_row ext g now) \<and> r_state x \<noteq> ACCEPTED)"
      using slot by blast
  qed (use C(3,4) journal_okD(6) [OF assms(2)] in \<open>simp_all add: t row_states_def\<close>)
  moreover have "journal_le db db'" by (rule insert_journal_le [OF assms(2)]) (simp_all add: t)
  ultimately show ?thesis by blast
qed

section \<open>Final reports and observations\<close>

lemma finish_InrD:
  assumes "finish ext lg g report now = Inr lg'"
  obtains st where "terminal_state (gr_state report) = Inr st"
    and "lg' = lg\<lparr>lg_db := (lg_db lg)\<lparr>j_receipts := update_rows (finish_where ext g)
          (finish_set ext report st now) (j_receipts (lg_db lg))\<rparr>\<rparr>"
    and "count_if (finish_where ext g) (j_receipts (lg_db lg)) = 1"
    and "report_confirms ext report g" and "gr_persisted report"
  using assms by (auto simp: finish_def)

lemma terminal_state_iff:
  "terminal_state s = Inr st \<longleftrightarrow> (s = Completed \<and> st = COMPLETED) \<or> (s = Unknown \<and> st = UNKNOWN)"
  by (cases s) (auto simp: terminal_state_def)

lemma finish_forward:
  "terminal_state s = Inr st \<Longrightarrow> forward (finish_where ext g) (finish_set ext report st now) db"
  by (auto simp: forward_def terminal_state_iff finish_where_def finish_set_def row_le_def row_key_def
      row_states_def)

lemma finish_ok:
  assumes "finish ext lg g report now = Inr lg'" and "journal_ok (lg_db lg)"
  shows "journal_ok (lg_db lg') \<and> journal_le (lg_db lg) (lg_db lg')"
  using assms(1)
proof (rule finish_InrD)
  fix st
  assume st: "terminal_state (gr_state report) = Inr st"
    and lg': "lg' = lg\<lparr>lg_db := (lg_db lg)\<lparr>j_receipts := update_rows (finish_where ext g)
          (finish_set ext report st now) (j_receipts (lg_db lg))\<rparr>\<rparr>"
  show ?thesis unfolding lg' by (rule update_step [OF finish_forward [OF st] assms(2)]) simp_all
qed

lemma progress_update_ok:
  assumes "progress_update ext node g p db = Inr (q, db')" and "journal_ok db"
  shows "journal_ok db' \<and> journal_le db db'"
proof -
  obtain c where c: "read_consumed ext db node (Some (g_issuer_id g)) (g_grant_id g) = Inr c"
    and le: "cr_updated_at_ms c \<le> pp_recorded_at_ms p"
    and db': "\<exists>t. db' = db\<lparr>j_progress := t, j_receipts := update_rows
        (\<lambda>r. r_grant_id r = g_grant_id g \<and> r_grant_digest r = cr_grant_sha256 c \<and> r_state r = ACCEPTED)
        (\<lambda>r. r\<lparr>r_updated_ms := pp_recorded_at_ms p\<rparr>) (j_receipts db)\<rparr>"
    using assms(1) by (auto simp: progress_update_def Let_def)
  obtain r where r: "r \<in> set (j_receipts db)" "r_grant_id r = g_grant_id g"
      "cr_updated_at_ms c = r_updated_ms r"
    using read_consumed_InrD(1) [OF c] by blast
  have "r_updated_ms x \<le> pp_recorded_at_ms p"
    if "x \<in> set (j_receipts db)" "r_grant_id x = g_grant_id g" for x
    using distinct_key_eq [OF journal_okD(1) [OF assms(2)] that(1) r(1)] that(2) r(2,3) le by simp
  then have fw: "forward (\<lambda>r. r_grant_id r = g_grant_id g \<and> r_grant_digest r = cr_grant_sha256 c
      \<and> r_state r = ACCEPTED) (\<lambda>r. r\<lparr>r_updated_ms := pp_recorded_at_ms p\<rparr>) db"
    by (auto simp: forward_def row_le_def row_key_def row_states_def)
  obtain t where t: "db' = db\<lparr>j_progress := t, j_receipts := update_rows
        (\<lambda>r. r_grant_id r = g_grant_id g \<and> r_grant_digest r = cr_grant_sha256 c \<and> r_state r = ACCEPTED)
        (\<lambda>r. r\<lparr>r_updated_ms := pp_recorded_at_ms p\<rparr>) (j_receipts db)\<rparr>"
    using db' by blast
  show ?thesis by (rule update_step [OF fw assms(2)]) (simp_all add: t)
qed

section \<open>Stops\<close>

lemma stop_initialize_rows:
  "stop_initialize db = Inr db' \<Longrightarrow> \<exists>t. db' = db\<lparr>j_stops := t\<rparr> \<and> stop_rows db' = stop_rows db"
  by (auto simp: stop_initialize_def stop_available_def stop_rows_def split: table.splits)
     (metis journal.surjective journal.update_convs(8))

lemma record_stop_InrD:
  assumes "record_stop policy s now db = Inr (report, db')"
  shows "set (map st_grant_id (stop_rows db')) = insert (sc_grant_id s) (set (map st_grant_id (stop_rows db)))"
    and "stop_rows db' = stop_rows db @ [new_stop_row s (max now 1) (receipt_of db (sc_grant_id s) \<noteq> None)]"
    and "sc_grant_id s \<notin> st_grant_id ` set (stop_rows db)"
    and "j_events db' = j_events db"
    and "(\<exists>r. receipt_of db (sc_grant_id s) = Some r \<and> r_grant_digest r = sc_grant_sha256 s
           \<and> j_receipts db' = j_receipts db)
      \<or> (receipt_of db (sc_grant_id s) = None
           \<and> j_receipts db' = j_receipts db @ [unknown_row s (max now 1)]
           \<and> row_key (unknown_row s (max now 1)) \<notin> row_key ` set (j_receipts db)
           \<and> length (j_receipts db) < gp_max_receipts policy)"
    and "report = (stop_report_of_row (new_stop_row s (max now 1)
           (receipt_of db (sc_grant_id s) \<noteq> None)))\<lparr>sr_reused := False\<rparr>"
proof -
  let ?pre = "receipt_of db (sc_grant_id s) \<noteq> None" and ?ms = "max now 1"
  obtain db1 db2 where
    dig: "case receipt_of db (sc_grant_id s) of None \<Rightarrow> True | Some r \<Rightarrow> r_grant_digest r = sc_grant_sha256 s"
    and budget: "stop_budget_ok db policy ?pre"
    and d1: "(if ?pre then Inr db
               else ensure (count_if (\<lambda>r. same_slot s r \<and> r_attempt r = sc_attempt s)
                        (j_receipts db) = 0) (StopE StopSlot)
                    (insert_receipt (unknown_row s ?ms) db)) = Inr db1"
    and d2: "stop_initialize db1 = Inr db2"
    and fresh: "sc_grant_id s \<notin> set (map st_grant_id (stop_rows db2))"
    and d3: "db' = db2\<lparr>j_stops := Table (stop_rows db2 @ [new_stop_row s ?ms ?pre])\<rparr>"
    and rep: "\<exists>q. stop_read db' (sc_grant_id s) = Inr (Some q) \<and> report = q\<lparr>sr_reused := False\<rparr>"
    using assms by (auto simp: record_stop_def Let_def simp del: or_err_simps split: if_splits)
  obtain t where t: "db2 = db1\<lparr>j_stops := t\<rparr>" "stop_rows db2 = stop_rows db1"
    using stop_initialize_rows [OF d2] by blast
  have d1': "(?pre \<and> db1 = db) \<or> (\<not> ?pre \<and> db1 = db\<lparr>j_receipts := j_receipts db @ [unknown_row s ?ms]\<rparr>
      \<and> row_key (unknown_row s ?ms) \<notin> row_key ` set (j_receipts db))"
    using d1 by (auto simp: insert_receipt_Inr_iff split: if_splits)
  then have rows1: "stop_rows db1 = stop_rows db" by auto
  then show "stop_rows db' = stop_rows db @ [new_stop_row s ?ms ?pre]" using t d3 by simp
  then show "set (map st_grant_id (stop_rows db')) = insert (sc_grant_id s) (set (map st_grant_id (stop_rows db)))"
    by (auto simp: new_stop_row_def)
  show "sc_grant_id s \<notin> st_grant_id ` set (stop_rows db)" using fresh t rows1 by simp
  show "j_events db' = j_events db" using d1' t d3 by auto
  show "(\<exists>r. receipt_of db (sc_grant_id s) = Some r \<and> r_grant_digest r = sc_grant_sha256 s
           \<and> j_receipts db' = j_receipts db)
      \<or> (receipt_of db (sc_grant_id s) = None
           \<and> j_receipts db' = j_receipts db @ [unknown_row s ?ms]
           \<and> row_key (unknown_row s ?ms) \<notin> row_key ` set (j_receipts db)
           \<and> length (j_receipts db) < gp_max_receipts policy)"
    using d1' t d3 dig budget by (auto simp: stop_budget_ok_def split: option.splits)
  obtain q x where q: "report = q\<lparr>sr_reused := False\<rparr>" "x \<in> set (stop_rows db')"
      "st_grant_id x = sc_grant_id s" "q = stop_report_of_row x"
    using rep stop_read_Some by blast
  have "x = new_stop_row s ?ms ?pre"
  proof -
    have "x \<in> set (stop_rows db) \<or> x = new_stop_row s ?ms ?pre" using q(2) t rows1 d3 by auto
    moreover have "x \<notin> set (stop_rows db)" using q(3) fresh t(2) rows1 by (metis imageI set_map)
    ultimately show ?thesis by blast
  qed
  then show "report = (stop_report_of_row (new_stop_row s ?ms ?pre))\<lparr>sr_reused := False\<rparr>"
    using q by simp
qed

lemma record_stop_ok:
  assumes "record_stop policy s now db = Inr (report, db')" and "journal_ok db"
  shows "journal_ok db' \<and> journal_le db db'"
proof -
  note R = record_stop_InrD [OF assms(1)]
  have dist: "distinct (map st_grant_id (stop_rows db'))"
    using R(2,3) journal_okD(6) [OF assms(2)] by (simp add: new_stop_row_def)
  have new: "st_grant_id x = sc_grant_id s \<and> st_grant_digest x = sc_grant_sha256 s
      \<or> x \<in> set (stop_rows db)" if "x \<in> set (stop_rows db')" for x
    using that R(2) by (auto simp: new_stop_row_def)
  have old: "\<exists>r \<in> set (j_receipts db). r_grant_id r = st_grant_id x \<and> r_grant_digest r = st_grant_digest x"
    if "x \<in> set (stop_rows db)" for x
    using that assms(2) by (auto simp: journal_ok_def)
  show ?thesis
  proof (cases "receipt_of db (sc_grant_id s)")
    case (Some r)
    then have rs: "j_receipts db' = j_receipts db" and r: "r \<in> set (j_receipts db)"
        "r_grant_id r = sc_grant_id s" "r_grant_digest r = sc_grant_sha256 s"
      using R(5) receipt_of_Some [OF Some] by auto
    have "\<exists>y \<in> set (j_receipts db'). r_grant_id y = st_grant_id x \<and> r_grant_digest y = st_grant_digest x"
      if "x \<in> set (stop_rows db')" for x
      using new [OF that] old [of x] r unfolding rs by auto
    then have "journal_ok db'" using assms(2) dist rs by (auto simp: journal_ok_def)
    moreover have "journal_le db db'"
      using journal_le_refl [OF assms(2)] rs R(2,4) by (auto simp: journal_le_def)
    ultimately show ?thesis by blast
  next
    case None
    let ?r = "unknown_row s (max now 1)"
    have rs: "j_receipts db' = j_receipts db @ [?r]" and key: "row_key ?r \<notin> row_key ` set (j_receipts db)"
      using R(5) None by auto
    have "journal_ok db'"
    proof (rule insert_journal_ok [OF assms(2) rs _ key _ _ _ dist])
      show "r_grant_id ?r \<notin> r_grant_id ` set (j_receipts db)"
        using None by (simp add: receipt_of_None unknown_row_def)
      show "\<forall>x \<in> set (stop_rows db'). \<exists>y \<in> set (j_receipts db').
          r_grant_id y = st_grant_id x \<and> r_grant_digest y = st_grant_digest x"
        using new old unfolding rs by (fastforce simp: unknown_row_def)
    qed (simp_all add: unknown_row_def row_states_def)
    moreover have "journal_le db db'"
      by (rule insert_journal_le [OF assms(2) rs]) (use R(2,4) in auto)
    ultimately show ?thesis by blast
  qed
qed

lemma stop_tx_ok:
  assumes "stop_tx ext policy s now db = Inr (report, db')" and "journal_ok db"
  shows "journal_ok db' \<and> journal_le db db'"
  using assms record_stop_ok journal_le_refl
  by (auto simp: stop_tx_def split: option.splits)

text \<open>After the transaction the grant is in the stop table.\<close>

lemma stop_tx_recorded:
  "stop_tx ext policy s now db = Inr (report, db') \<Longrightarrow> sc_grant_id s \<in> st_grant_id ` set (stop_rows db')"
  by (fastforce simp: stop_tx_def new_stop_row_def dest!: stop_read_Some record_stop_InrD(2)
      split: option.splits intro: rev_image_eqI)

lemma request_stop_scope_cases:
  assumes "request_stop_scope ext lg s issuer session node now = (r, lg')"
  obtains "lg' = lg" "\<not> is_ok r"
  | report db w where "stop_tx ext (lg_policy lg) s now (lg_db lg) = Inr (report, db)"
      "lg' = lg\<lparr>lg_db := db, lg_stops := w\<rparr>"
proof (cases "rbind (scope_validate ext s) (\<lambda>_.
           ensure (node = lg_node_id lg \<and> scope_matches_session s issuer session node)
             (StopE StopScope) (stop_tx ext (lg_policy lg) s now (lg_db lg)))")
  case (Inl e)
  then have "r = Inl e" "lg' = lg" using assms by (simp_all add: request_stop_scope_def)
  then show ?thesis using that(1) by simp
next
  case (Inr p)
  obtain report db where p: "p = (report, db)" by (cases p)
  have tx: "stop_tx ext (lg_policy lg) s now (lg_db lg) = Inr (report, db)" using Inr p by auto
  have "\<exists>w. lg' = lg\<lparr>lg_db := db, lg_stops := w\<rparr>"
  proof (cases "map_of (lg_stops lg) (sc_grant_id s)")
    case None
    then have "lg' = lg\<lparr>lg_db := db\<rparr>" using assms Inr p by (simp add: request_stop_scope_def Let_def)
    then have "lg' = lg\<lparr>lg_db := db, lg_stops := lg_stops lg\<rparr>" by simp
    then show ?thesis by blast
  next
    case (Some entry)
    then have "lg' = lg\<lparr>lg_db := db\<rparr> \<or>
        lg' = lg\<lparr>lg_db := db, lg_stops := kv_put (sc_grant_id s) (entry\<lparr>se_stopped := True\<rparr>) (lg_stops lg)\<rparr>"
      using assms Inr p by (auto simp: request_stop_scope_def Let_def split: if_splits)
    moreover have "lg\<lparr>lg_db := db\<rparr> = lg\<lparr>lg_db := db, lg_stops := lg_stops lg\<rparr>" by simp
    ultimately show ?thesis by metis
  qed
  then show ?thesis using that(2) tx by blast
qed

lemma request_stop_scope_ok:
  assumes "request_stop_scope ext lg s issuer session node now = (r, lg')" and "journal_ok (lg_db lg)"
  shows "journal_ok (lg_db lg') \<and> journal_le (lg_db lg) (lg_db lg')"
  using assms(1)
proof (cases rule: request_stop_scope_cases)
  case 1
  then show ?thesis using assms(2) journal_le_refl by simp
next
  case (2 report db w)
  then show ?thesis using stop_tx_ok [OF 2(1) assms(2)] by simp
qed

end
