(* ===== verification/Grant_Run.thy ===== *)
theory Grant_Run
  imports Grant_Invariant
begin

text \<open>
  The life of one admitted grant (\<^verbatim>\<open>grants.rs\<close>, \<^verbatim>\<open>AcceptedGrant\<close>): admission under a lease
  deadline, the supervised run with its deadline, clock, policy and stop checks, the durable
  final report, and the drop of an unfinished grant.

  The run loop reads its environment once per iteration. A \<open>tick\<close> holds what one iteration
  reads: the stop watcher, the wall clock, the time elapsed since acceptance, whether the
  deadline is reached, the answer of \<^verbatim>\<open>check_grant_policy\<close>, and the branch that the biased
  \<^verbatim>\<open>select!\<close> takes. The loop is a recursion over the ticks; \<open>None\<close> means that it is still
  running when they end. \<^verbatim>\<open>NodeEngine::check_grant_admission\<close> is an argument.
\<close>

section \<open>Data\<close>

record accepted_grant =
  ag_grant :: execution_grant
  ag_deadline :: instant
  ag_accepted :: instant
  ag_accepted_wall :: nat
  ag_final_checkpoint_attempted :: bool
  ag_process_stop :: bool

datatype bridge_failure =
    BridgeRequestLimit | BridgeStdoutLimit | BridgeStderrLimit | BridgeDeadline | BridgeProcess
  | BridgeReply | BridgeMetadata

datatype peer_failure =
    PeerListen | PeerConnect | PeerReadiness | PeerChannel | PeerCapture | PeerCaptureFormat
  | PeerTransfer | PeerManifest | PeerPayload | PeerPlayback

datatype operation_error = BridgeError bridge_failure | PeerError peer_failure | OtherError

datatype run_event =
    StopChanged | DeadlineSlept | Ticked | OperationOk json | OperationErr operation_error

record tick =
  tk_stop :: bool
  tk_wall :: nat
  tk_elapsed :: nat
  tk_reached :: bool
  tk_policy :: bool
  tk_event :: run_event

primrec bridge_code :: "bridge_failure \<Rightarrow> string" where
  "bridge_code BridgeRequestLimit = ''python_request_byte_limit''"
| "bridge_code BridgeStdoutLimit = ''python_stdout_byte_limit''"
| "bridge_code BridgeStderrLimit = ''python_stderr_byte_limit''"
| "bridge_code BridgeDeadline = ''python_exchange_deadline''"
| "bridge_code BridgeProcess = ''python_process_failed''"
| "bridge_code BridgeReply = ''python_invalid_reply''"
| "bridge_code BridgeMetadata = ''python_invalid_metadata''"

primrec peer_code :: "peer_failure \<Rightarrow> string" where
  "peer_code PeerListen = ''peer_listener_unavailable''"
| "peer_code PeerConnect = ''peer_connection_unavailable''"
| "peer_code PeerReadiness = ''peer_readiness_unavailable''"
| "peer_code PeerChannel = ''peer_channel_unavailable''"
| "peer_code PeerCapture = ''peer_audio_capture_failed''"
| "peer_code PeerCaptureFormat = ''peer_audio_capture_invalid''"
| "peer_code PeerTransfer = ''peer_transfer_failed''"
| "peer_code PeerManifest = ''peer_audio_manifest_invalid''"
| "peer_code PeerPayload = ''peer_payload_invalid''"
| "peer_code PeerPlayback = ''peer_audio_playback_failed''"

primrec operation_code :: "operation_error \<Rightarrow> string" where
  "operation_code (BridgeError b) = bridge_code b"
| "operation_code (PeerError p) = peer_code p"
| "operation_code OtherError = ''execution_failed_effects_unknown''"

section \<open>Admission\<close>

text \<open>
  \<^verbatim>\<open>prepare_deadline\<close>. \<open>now\<close> is the instant of the expiry check, \<open>accepted\<close> and \<open>wall\<close> the pair
  of clock readings, \<open>claimed\<close> the wall clock inside the claim. The claim is durable, so the
  ledger is returned on every path.
\<close>

definition prepare_deadline ::
  "'x journal_externals_scheme \<Rightarrow> ledger \<Rightarrow> bool \<Rightarrow> execution_grant \<Rightarrow> string \<Rightarrow> string \<Rightarrow> string
   \<Rightarrow> instant \<Rightarrow> bool \<Rightarrow> instant \<Rightarrow> instant \<Rightarrow> nat \<Rightarrow> nat \<Rightarrow> accepted_grant result \<times> ledger" where
  "prepare_deadline ext lg admitted g issuer session node deadline peer now accepted wall claimed =
     (if grant_validate ext g \<noteq> Inr () then (Inl (Denied InvalidGrantScope), lg)
      else if (g_capability g = ''peer.transfer'') \<noteq> peer then
        (Inl (Denied PeerAdmissionRequired), lg)
      else if \<not> grant_matches_session g issuer session node then
        (Inl (Denied GrantIdentityChanged), lg)
      else if deadline \<le> now then (Inl (Denied GrantLeaseChanged), lg)
      else if gp_max_duration_ms (lg_policy lg) < gl_max_execution_ms (g_limits g)
           \<or> gp_max_result_bytes (lg_policy lg) < gl_max_result_bytes (g_limits g) then
        (Inl (Denied GrantOwnerLimits), lg)
      else if \<not> admitted then (Inl (Denied LocalPolicyDenied), lg)
      else
        case claim ext lg g claimed of
          Inl e \<Rightarrow> (Inl e, lg)
        | Inr lg1 \<Rightarrow>
            (case rbind (scope_from_grant ext g) (watch_stop_scope ext lg1) of
               Inl e \<Rightarrow> (Inl e, lg1)
             | Inr lg2 \<Rightarrow>
                 (Inr \<lparr>ag_grant = g,
                       ag_deadline = min deadline
                         (accepted + from_millis (gl_max_execution_ms (g_limits g))),
                       ag_accepted = accepted, ag_accepted_wall = wall,
                       ag_final_checkpoint_attempted = False, ag_process_stop = False\<rparr>, lg2)))"

definition acknowledgement_report :: "'x grant_externals_scheme \<Rightarrow> accepted_grant \<Rightarrow> grant_report" where
  "acknowledgement_report ext ag = report_new ext (ag_grant ag) Accepted JNull None"

text \<open>\<^verbatim>\<open>process_stop::control\<close>: only an owned process on Windows can be asked to stop.\<close>

definition process_control :: "bool \<Rightarrow> execution_grant \<Rightarrow> bool" where
  "process_control windows g \<longleftrightarrow> windows \<and> g_capability g = ''process.exec'' \<and> g_action g = ''run''"

section \<open>Supervised run\<close>

definition operation_outcome ::
  "'x grant_externals_scheme \<Rightarrow> execution_grant \<Rightarrow> json \<Rightarrow> grant_report" where
  "operation_outcome ext g data =
     (if length (json_text ext data) \<le> gl_max_result_bytes (g_limits g)
      then completed_outcome ext g data
      else report_new ext g Completed JNull (Some ''result_too_large''))"

text \<open>
  One iteration: a final report, or the two flags of the next one (a process control is
  still unused; a stop was sent to it).
\<close>

definition run_step ::
  "'x grant_externals_scheme \<Rightarrow> accepted_grant \<Rightarrow> bool \<Rightarrow> bool \<Rightarrow> tick
   \<Rightarrow> grant_report + (bool \<times> bool)" where
  "run_step ext ag control stopping t =
     (let g = ag_grant ag; unknown = (\<lambda>code. Inl (report_new ext g Unknown JNull (Some code)));
          requested = (tk_stop t \<and> \<not> stopping);
          stopping' = (stopping \<or> (requested \<and> control));
          control' = (control \<and> \<not> requested);
          expected = saturating_add (ag_accepted_wall ag) (tk_elapsed t) in
      if requested \<and> \<not> control then unknown ''grant_stop_requested_effects_unknown''
      else if tk_reached t \<or> abs_diff (tk_wall t) expected > 1000 then
        unknown ''grant_deadline_or_clock_changed''
      else if \<not> tk_policy t then unknown ''local_policy_changed''
      else case tk_event t of
        StopChanged \<Rightarrow> Inr (control', stopping')
      | Ticked \<Rightarrow> Inr (control', stopping')
      | DeadlineSlept \<Rightarrow> unknown ''grant_deadline_exceeded''
      | OperationOk data \<Rightarrow> Inl (operation_outcome ext g data)
      | OperationErr e \<Rightarrow> unknown (if stopping' then ''grant_stop_requested_effects_unknown''
                                    else operation_code e))"

primrec run_loop ::
  "'x grant_externals_scheme \<Rightarrow> accepted_grant \<Rightarrow> bool \<Rightarrow> bool \<Rightarrow> tick list
   \<Rightarrow> grant_report option" where
  "run_loop ext ag control stopping [] = None"
| "run_loop ext ag control stopping (t # ts) =
     (case run_step ext ag control stopping t of
        Inl report \<Rightarrow> Some report
      | Inr (control', stopping') \<Rightarrow> run_loop ext ag control' stopping' ts)"

text \<open>
  The end of \<^verbatim>\<open>run_operation_with_clock\<close>: \<open>late\<close> is the deadline check after the loop and \<open>now\<close>
  the wall clock of the final save. The watcher is dropped with the grant.
\<close>

definition run_finish ::
  "'x journal_externals_scheme \<Rightarrow> ledger \<Rightarrow> accepted_grant \<Rightarrow> grant_report \<Rightarrow> bool \<Rightarrow> nat
   \<Rightarrow> grant_report \<times> ledger" where
  "run_finish ext lg ag report late now =
     (let g = ag_grant ag;
          result = (if gr_state report = Completed \<and> late
                    then report_new ext g Unknown JNull (Some ''completion_after_deadline'')
                    else report) in
      case finish ext lg g result now of
        Inr lg' \<Rightarrow> (result, watch_drop lg' (g_grant_id g))
      | Inl _ \<Rightarrow> ((report_new ext g Unknown JNull (Some ''completion_checkpoint_failed''))
                    \<lparr>gr_persisted := False\<rparr>, watch_drop lg (g_grant_id g)))"

definition run_operation ::
  "'x journal_externals_scheme \<Rightarrow> ledger \<Rightarrow> accepted_grant \<Rightarrow> bool \<Rightarrow> tick list \<Rightarrow> bool \<Rightarrow> nat
   \<Rightarrow> (grant_report \<times> ledger) option" where
  "run_operation ext lg ag windows ticks late now =
     (case run_loop ext ag (process_control windows (ag_grant ag)) False ticks of
        None \<Rightarrow> None
      | Some report \<Rightarrow> Some (run_finish ext lg ag report late now))"

text \<open>\<^verbatim>\<open>Drop for AcceptedGrant\<close>.\<close>

definition accepted_drop ::
  "'x journal_externals_scheme \<Rightarrow> ledger \<Rightarrow> accepted_grant \<Rightarrow> nat \<Rightarrow> ledger" where
  "accepted_drop ext lg ag now =
     (let g = ag_grant ag;
          lg' = (if ag_final_checkpoint_attempted ag then lg
                 else case finish ext lg g (report_new ext g Unknown JNull
                          (Some ''grant_runtime_dropped_effects_unknown'')) now of
                   Inl _ \<Rightarrow> lg | Inr l \<Rightarrow> l) in
      watch_drop lg' (g_grant_id g))"

section \<open>Lemmas\<close>

lemma operation_code_identifier: "is_identifier (operation_code e)"
proof (cases e)
  case (BridgeError b)
  then show ?thesis
    by (cases b) (simp_all add: is_identifier_def is_name_byte_def is_ascii_alphanumeric_def byte_def)
next
  case (PeerError p)
  then show ?thesis
    by (cases p) (simp_all add: is_identifier_def is_name_byte_def is_ascii_alphanumeric_def byte_def)
next
  case OtherError
  then show ?thesis by (simp add: run_code_identifier)
qed

text \<open>Every report that ends an iteration confirms its grant.\<close>

definition final_report :: "'x grant_externals_scheme \<Rightarrow> execution_grant \<Rightarrow> grant_report \<Rightarrow> bool" where
  "final_report ext g r \<longleftrightarrow> report_confirms ext r g \<and> gr_persisted r
     \<and> (gr_state r = Completed \<or> gr_state r = Unknown)"

lemma operation_outcome_final:
  assumes "grant_validate ext g = Inr ()" and "json_text ext JNull = ''null''"
  shows "final_report ext g (operation_outcome ext g data)"
proof -
  have "gr_persisted (completed_outcome ext g data)
      \<and> (gr_state (completed_outcome ext g data) = Completed
         \<or> gr_state (completed_outcome ext g data) = Unknown)"
    by (auto simp: completed_outcome_def split: option.splits)
  then show ?thesis
    using completed_outcome_confirms [OF assms] result_too_large_confirms [OF assms]
    by (simp add: final_report_def operation_outcome_def)
qed

lemma unknown_final:
  assumes "grant_validate ext g = Inr ()" and "json_text ext JNull = ''null''" and "is_identifier c"
  shows "final_report ext g (report_new ext g Unknown JNull (Some c))"
  using report_new_unknown_confirms [OF assms] by (simp add: final_report_def)

lemma run_step_confirms:
  assumes "run_step ext ag control stopping t = Inl report"
    and "grant_validate ext (ag_grant ag) = Inr ()" and "json_text ext JNull = ''null''"
  shows "final_report ext (ag_grant ag) report"
proof -
  have codes: "final_report ext (ag_grant ag) (report_new ext (ag_grant ag) Unknown JNull (Some c))"
    if "c \<in> set run_codes" for c
    using unknown_final [OF assms(2,3) run_code_identifier [OF that]] .
  note ops = unknown_final [OF assms(2,3) operation_code_identifier]
  show ?thesis
    using assms(1) operation_outcome_final [OF assms(2,3)]
    by (auto simp: run_step_def Let_def codes ops split: if_splits run_event.splits)
qed

lemma run_loop_confirms:
  "run_loop ext ag control stopping ticks = Some report \<Longrightarrow>
   grant_validate ext (ag_grant ag) = Inr () \<Longrightarrow> json_text ext JNull = ''null'' \<Longrightarrow>
   final_report ext (ag_grant ag) report"
  by (induction ticks arbitrary: control stopping)
     (auto split: sum.splits prod.splits dest: run_step_confirms)

lemma run_step_states:
  "run_step ext ag control stopping t = Inl report \<Longrightarrow> gr_state report = Completed \<or> gr_state report = Unknown"
  by (auto simp: run_step_def Let_def operation_outcome_def completed_outcome_def report_new_def
      split: if_splits run_event.splits option.splits)

lemma run_loop_states:
  "run_loop ext ag control stopping ticks = Some report \<Longrightarrow> gr_state report = Completed \<or> gr_state report = Unknown"
  by (induction ticks arbitrary: control stopping) (auto split: sum.splits prod.splits dest: run_step_states)

text \<open>The report of a run whose final save failed still confirms the grant.\<close>

lemma unsaved_confirms:
  assumes "grant_validate ext g = Inr ()" and "json_text ext JNull = ''null''"
  shows "report_confirms ext ((report_new ext g Unknown JNull
      (Some ''completion_checkpoint_failed''))\<lparr>gr_persisted := False\<rparr>) g"
  using report_new_unknown_confirms [OF assms, of "''completion_checkpoint_failed''"]
    run_code_identifier [of "''completion_checkpoint_failed''"]
  by (simp add: report_confirms_def compound_outcome_ok_def run_codes_def)

text \<open>The checks that an iteration passed before it went on or completed.\<close>

definition tick_clear :: "accepted_grant \<Rightarrow> tick \<Rightarrow> bool" where
  "tick_clear ag t \<longleftrightarrow> \<not> tk_reached t \<and> tk_policy t
     \<and> abs_diff (tk_wall t) (saturating_add (ag_accepted_wall ag) (tk_elapsed t)) \<le> 1000"

lemma run_step_continue:
  "run_step ext ag control stopping t = Inr (control', stopping') \<Longrightarrow>
     tick_clear ag t \<and> (\<not> control \<and> \<not> stopping \<longrightarrow> \<not> tk_stop t \<and> \<not> control' \<and> \<not> stopping')"
  by (auto simp: run_step_def Let_def tick_clear_def split: if_splits run_event.splits)

lemma run_step_completed:
  "run_step ext ag control stopping t = Inl report \<Longrightarrow> gr_state report = Completed \<Longrightarrow>
     tick_clear ag t \<and> (\<not> control \<and> \<not> stopping \<longrightarrow> \<not> tk_stop t)
     \<and> (\<exists>data. tk_event t = OperationOk data
          \<and> report = operation_outcome ext (ag_grant ag) data)"
  by (auto simp: run_step_def Let_def tick_clear_def split: if_splits run_event.splits)

lemma run_loop_completed:
  assumes "run_loop ext ag control stopping ticks = Some report" and "gr_state report = Completed"
  shows "\<exists>before t after data. ticks = before @ t # after \<and> tk_event t = OperationOk data
    \<and> (\<forall>u \<in> set (before @ [t]). tick_clear ag u)
    \<and> (\<not> control \<and> \<not> stopping \<longrightarrow> (\<forall>u \<in> set (before @ [t]). \<not> tk_stop u))
    \<and> report = operation_outcome ext (ag_grant ag) data"
  using assms
proof (induction ticks arbitrary: control stopping)
  case (Cons t ts)
  show ?case
  proof (cases "run_step ext ag control stopping t")
    case (Inl r)
    then have "r = report" using Cons.prems(1) by simp
    then show ?thesis
      using run_step_completed [OF Inl] Cons.prems(2) by (intro exI [of _ "[]"] exI [of _ t] exI [of _ ts]) auto
  next
    case (Inr p)
    obtain control' stopping' where p: "p = (control', stopping')" by (cases p)
    have "run_loop ext ag control' stopping' ts = Some report" using Cons.prems(1) Inr p by simp
    from Cons.IH [OF this Cons.prems(2)] obtain before u after data where
      "ts = before @ u # after" "tk_event u = OperationOk data" "\<forall>v \<in> set (before @ [u]). tick_clear ag v"
      "\<not> control' \<and> \<not> stopping' \<longrightarrow> (\<forall>v \<in> set (before @ [u]). \<not> tk_stop v)"
      "report = operation_outcome ext (ag_grant ag) data"
      by blast
    then show ?thesis
      using run_step_continue [OF Inr [unfolded p]]
      by (intro exI [of _ "t # before"] exI [of _ u] exI [of _ after] exI [of _ data]) auto
  qed
qed simp

text \<open>The loop ends at the latest with the first tick that reaches the deadline or a final event.\<close>

lemma run_loop_ends:
  assumes "t \<in> set ticks" and "tk_reached t \<or> (tk_event t \<noteq> StopChanged \<and> tk_event t \<noteq> Ticked)"
  shows "\<exists>report. run_loop ext ag control stopping ticks = Some report"
  using assms(1)
proof (induction ticks arbitrary: control stopping)
  case (Cons u ts)
  show ?case
  proof (cases "run_step ext ag control stopping u")
    case (Inr p)
    then have "u \<noteq> t" using assms(2)
      by (auto simp: run_step_def Let_def split: if_splits run_event.splits)
    then show ?thesis using Cons Inr by (cases p) auto
  qed simp
qed simp

lemma prepare_deadline_ok:
  assumes "prepare_deadline ext lg admitted g issuer session node deadline peer now accepted wall claimed
      = (r, lg')" and "journal_ok (lg_db lg)"
  shows "journal_ok (lg_db lg') \<and> journal_le (lg_db lg) (lg_db lg')"
proof -
  consider "lg_db lg' = lg_db lg" | lg1 where "claim ext lg g claimed = Inr lg1" "lg_db lg' = lg_db lg1"
    using assms(1) by (auto simp: prepare_deadline_def watch_stop_scope_def
        split: if_splits sum.splits)
  then show ?thesis
  proof cases
    case 1
    then show ?thesis using assms(2) journal_le_refl by simp
  next
    case 2
    then obtain db where "claim_tx ext (lg_policy lg) g claimed (lg_db lg) = Inr db" "lg_db lg1 = db"
      by (auto simp: claim_def)
    then show ?thesis using claim_tx_ok assms(2) 2(2) by simp
  qed
qed

lemma watch_drop_db [simp]: "lg_db (watch_drop lg i) = lg_db lg"
  by (simp add: watch_drop_def)

lemma run_finish_ok:
  assumes "run_finish ext lg ag report late now = (r, lg')" and "journal_ok (lg_db lg)"
  shows "journal_ok (lg_db lg') \<and> journal_le (lg_db lg) (lg_db lg')"
  using assms finish_ok journal_le_refl
  by (fastforce simp: run_finish_def Let_def split: sum.splits)

lemma accepted_drop_ok:
  assumes "journal_ok (lg_db lg)"
  shows "journal_ok (lg_db (accepted_drop ext lg ag now))
    \<and> journal_le (lg_db lg) (lg_db (accepted_drop ext lg ag now))"
  using assms journal_le_refl finish_ok [of ext lg "ag_grant ag" _ now]
  by (auto simp: accepted_drop_def Let_def split: sum.splits)

text \<open>The row that a successful save leaves behind.\<close>

lemma finish_row:
  assumes "finish ext lg g report now = Inr lg'" and "journal_ok (lg_db lg)"
  shows "\<exists>r st. receipt_of (lg_db lg') (g_grant_id g) = Some r
      \<and> terminal_state (gr_state report) = Inr st \<and> r_state r = st
      \<and> r_report r = Some (report_text ext report) \<and> r_grant_digest r = grant_digest ext g
      \<and> r_report_sha256 r = Some (definition_digest ext (report_json ext report))"
  using assms(1)
proof (rule finish_InrD)
  fix st
  assume st: "terminal_state (gr_state report) = Inr st"
    and lg': "lg' = lg\<lparr>lg_db := (lg_db lg)\<lparr>j_receipts := update_rows (finish_where ext g)
          (finish_set ext report st now) (j_receipts (lg_db lg))\<rparr>\<rparr>"
    and one: "count_if (finish_where ext g) (j_receipts (lg_db lg)) = 1"
  have "count_if (finish_where ext g) (j_receipts (lg_db lg)) \<noteq> 0" using one by simp
  then obtain r where r: "r \<in> set (j_receipts (lg_db lg))" "finish_where ext g r"
    unfolding count_if_0_iff by blast
  let ?r = "finish_set ext report st now r"
  have mem: "?r \<in> set (j_receipts (lg_db lg'))"
    using update_rowsI [OF r(1), of "finish_where ext g" "finish_set ext report st now"] r(2)
    by (simp add: lg')
  have "receipt_of (lg_db lg') (r_grant_id ?r) = Some ?r"
    using receipt_of_mem [OF journal_okD(1) mem] finish_ok [OF assms] by blast
  then show ?thesis
    using r(2) st by (intro exI [of _ ?r] exI [of _ st]) (simp add: finish_set_def finish_where_def)
qed

end
