(* ===== verification/Workload_Journal.thy ===== *)
theory Workload_Journal
  imports Grant_Run Workload_Window
begin

text \<open>
  Continuous workloads in the grant journal: the event evidence of
  \<^verbatim>\<open>workload_event_journal.rs\<close> (a hash-chained prefix of bounded rows per grant), the completion
  report of \<^verbatim>\<open>workload_completion.rs\<close>, and the typed receipt of \<^verbatim>\<open>workload_receipts.rs\<close> that
  reads both back.
\<close>

section \<open>Data\<close>

definition MIN_EVENT_BYTES :: nat where "MIN_EVENT_BYTES = 128"
definition ROW_HEADROOM :: nat where "ROW_HEADROOM = 512"
definition MAX_DEFINITION_BYTES :: nat where "MAX_DEFINITION_BYTES = 64 * 1024"

record completion_report =
  co_schema_version :: nat
  co_grant_sha256 :: string
  co_adapter_sha256 :: string
  co_source_observations :: nat
  co_source_frames :: nat
  co_event_count :: nat
  co_event_bytes :: nat
  co_event_prefix_sha256 :: string
  co_lease_sequence :: nat
  co_recorded_at_ms :: nat
  co_owned_process_exit_observed :: bool
  co_physical_effects_stopped :: bool

record workload_receipt =
  wr_schema_version :: nat
  wr_receipt :: consumed_receipt
  wr_definition :: workload
  wr_execution_authorized :: bool
  wr_restart_authorized :: bool
  wr_completion :: "completion_report option"

record event_record =
  rc_schema_version :: nat
  rc_lease_sequence :: nat
  rc_recorded_at_ms :: nat
  rc_event :: event

record event_state =
  sv_count :: nat
  sv_bytes :: nat
  sv_prefix :: string

record decoded_row =
  dr_record :: event_record
  dr_bytes :: nat
  dr_checksum :: string
  dr_prefix :: string

record workload_journal_externals = journal_externals +
  record_text :: "event_record \<Rightarrow> string"
  record_parse :: "string \<Rightarrow> event_record option"
  completion_text :: "completion_report \<Rightarrow> string"
  completion_parse :: "string \<Rightarrow> completion_report option"

section \<open>Hash chain and reservation\<close>

definition event_seed :: "'x workload_externals_scheme \<Rightarrow> workload \<Rightarrow> string result" where
  "event_seed ext d =
     rbind (workload_scope ext d) (\<lambda>s. Inr (sha256_hex ext (sc_grant_sha256 s)))"

definition next_prefix :: "'x externals_scheme \<Rightarrow> string \<Rightarrow> string \<Rightarrow> string" where
  "next_prefix ext previous row_hash = sha256_hex ext (previous @ row_hash)"

fun is_power_of_two :: "nat \<Rightarrow> bool" where
  "is_power_of_two n =
     (if n = 0 then False else if n = 1 then True else even n \<and> is_power_of_two (n div 2))"

declare is_power_of_two.simps [simp del]

definition event_reservation :: "journal \<Rightarrow> workload \<Rightarrow> nat result" where
  "event_reservation db d =
     (let page = j_page_size db;
          rows = min (ev_max_events (wk_events d)) (ev_max_total_bytes (wk_events d) div MIN_EVENT_BYTES) in
      ensure (page > 0 \<and> is_power_of_two page) (WorkloadE EventState)
      (rbind (or_err (checked_add (ev_max_event_bytes (wk_events d)) ROW_HEADROOM) IntConversion) (\<lambda>n.
       rbind (or_err (checked_add (div_ceil n page) 8) IntConversion) (\<lambda>pages.
       rbind (or_err (checked_mul pages page) IntConversion) (\<lambda>row.
       rbind (or_err (checked_mul rows row) IntConversion) (\<lambda>total.
       or_err (checked_add total (8 * page)) IntConversion))))))"

definition event_initialize ::
  "'x workload_externals_scheme \<Rightarrow> workload \<Rightarrow> journal \<Rightarrow> journal result" where
  "event_initialize ext d db =
     rbind (workload_scope ext d) (\<lambda>s.
     rbind (event_reservation db d) (\<lambda>n.
     rbind (to_i64 n) (\<lambda>reserved.
     rbind (event_seed ext d) (\<lambda>prefix.
     ensure (sc_grant_id s \<notin> set (map es_grant_id (j_event_states db))) (JournalE SqlConstraint)
     (Inr (db\<lparr>j_event_states := j_event_states db @
        [\<lparr>es_grant_id = sc_grant_id s, es_grant_digest = sc_grant_sha256 s, es_event_count = 0,
          es_event_bytes = 0, es_reserved_bytes = reserved, es_prefix_sha256 = prefix\<rparr>]\<rparr>))))))"

section \<open>Reading the event evidence\<close>

definition event_state ::
  "'x workload_externals_scheme \<Rightarrow> journal \<Rightarrow> workload \<Rightarrow> event_state result" where
  "event_state ext db d =
     rbind (or_err (find (\<lambda>s. es_grant_id s = wk_grant_id d) (j_event_states db)) (WorkloadE EventState))
       (\<lambda>row.
     rbind (workload_scope ext d) (\<lambda>s.
     rbind (event_reservation db d) (\<lambda>reserved.
     rbind (event_seed ext d) (\<lambda>seed.
     ensure (length (es_grant_digest row) = 64 \<and> length (es_prefix_sha256 row) = 64
         \<and> es_grant_digest row = sc_grant_sha256 s
         \<and> es_event_count row \<le> ev_max_events (wk_events d)
         \<and> es_event_bytes row \<le> ev_max_total_bytes (wk_events d)
         \<and> saturating_mul (es_event_count row) MIN_EVENT_BYTES \<le> es_event_bytes row
         \<and> es_reserved_bytes row = reserved \<and> hex_digest (es_prefix_sha256 row)
         \<and> (es_event_count row \<noteq> 0
            \<or> (es_event_bytes row = 0 \<and> es_prefix_sha256 row = seed)))
       (WorkloadE EventState)
     (Inr \<lparr>sv_count = es_event_count row, sv_bytes = es_event_bytes row,
           sv_prefix = es_prefix_sha256 row\<rparr>)))))"

definition event_row_of :: "journal \<Rightarrow> string \<Rightarrow> nat \<Rightarrow> event_row option" where
  "event_row_of db grant n =
     find (\<lambda>e. er_grant_id e = grant \<and> er_sequence e = n) (j_events db)"

text \<open>The checks of \<^verbatim>\<open>row\<close> on one table row.\<close>

definition decode_row ::
  "'x workload_journal_externals_scheme \<Rightarrow> workload_receipt \<Rightarrow> nat \<Rightarrow> event_row \<Rightarrow> decoded_row result" where
  "decode_row ext receipt n e =
     (let d = wr_definition receipt; bound = ev_max_event_bytes (wk_events d) + ROW_HEADROOM in
      ensure (1 \<le> length (er_data e) \<and> length (er_data e) \<le> bound
          \<and> length (er_data_sha256 e) = 64 \<and> length (er_prefix_sha256 e) = 64) (WorkloadE EventRow)
      (rbind (or_err (record_parse ext (er_data e)) (WorkloadE EventRow)) (\<lambda>record.
       rbind (event_validate d (rc_event record)) (\<lambda>_.
       ensure (rc_schema_version record = 1 \<and> rc_lease_sequence record > 0
           \<and> e_sequence (rc_event record) = n
           \<and> cr_accepted_at_ms (wr_receipt receipt) \<le> rc_recorded_at_ms record
           \<and> rc_recorded_at_ms record \<le> cr_updated_at_ms (wr_receipt receipt)
           \<and> record_text ext record = er_data e \<and> sha256_hex ext (er_data e) = er_data_sha256 e
           \<and> hex_digest (er_prefix_sha256 e)
           \<and> MIN_EVENT_BYTES \<le> er_encoded_bytes e
           \<and> er_encoded_bytes e \<le> ev_max_event_bytes (wk_events d)
           \<and> length (event_text ext (rc_event record)) = er_encoded_bytes e)
         (WorkloadE EventRow)
       (Inr \<lparr>dr_record = record, dr_bytes = er_encoded_bytes e, dr_checksum = er_data_sha256 e,
             dr_prefix = er_prefix_sha256 e\<rparr>)))))"

definition read_row ::
  "'x workload_journal_externals_scheme \<Rightarrow> journal \<Rightarrow> workload_receipt \<Rightarrow> nat \<Rightarrow> decoded_row result" where
  "read_row ext db receipt n =
     rbind (or_err (event_row_of db (wk_grant_id (wr_definition receipt)) n) (WorkloadE EventRow))
       (decode_row ext receipt n)"

definition lease_order :: "event_record option \<Rightarrow> event_record \<Rightarrow> bool" where
  "lease_order previous r = (case previous of None \<Rightarrow> True
     | Some p \<Rightarrow> rc_lease_sequence p \<le> rc_lease_sequence r
         \<and> rc_recorded_at_ms p \<le> rc_recorded_at_ms r)"

text \<open>One iteration of the audit loop: previous record, prefix and bytes so far.\<close>

type_synonym audit_acc = "event_record option \<times> string \<times> nat"

definition audit_step ::
  "'x workload_journal_externals_scheme \<Rightarrow> journal \<Rightarrow> workload_receipt \<Rightarrow> nat \<Rightarrow> audit_acc
   \<Rightarrow> audit_acc result" where
  "audit_step ext db receipt n acc =
     (case acc of (previous, prefix, bytes) \<Rightarrow>
        rbind (read_row ext db receipt n) (\<lambda>row.
        rbind (event_follows (wr_definition receipt) (rc_event (dr_record row))
                 (map_option rc_event previous)) (\<lambda>_.
        ensure (lease_order previous (dr_record row)) (WorkloadE EventPrefixChanged)
        (let prefix' = next_prefix ext prefix (dr_checksum row) in
         ensure (prefix' = dr_prefix row) (WorkloadE EventPrefixChanged)
         (rbind (or_err (checked_add bytes (dr_bytes row)) IntConversion) (\<lambda>total.
          Inr (Some (dr_record row), prefix', total)))))))"

primrec audit_rows ::
  "'x workload_journal_externals_scheme \<Rightarrow> journal \<Rightarrow> workload_receipt \<Rightarrow> nat list \<Rightarrow> audit_acc
   \<Rightarrow> audit_acc result" where
  "audit_rows ext db receipt [] acc = Inr acc"
| "audit_rows ext db receipt (n # ns) acc =
     rbind (audit_step ext db receipt n acc) (audit_rows ext db receipt ns)"

definition completion_prefix ::
  "'x workload_journal_externals_scheme \<Rightarrow> journal \<Rightarrow> workload_receipt
   \<Rightarrow> (nat \<times> nat \<times> string \<times> event \<times> nat) result" where
  "completion_prefix ext db receipt =
     rbind (event_state ext db (wr_definition receipt)) (\<lambda>saved.
     ensure (sv_count saved > 0) (WorkloadE CompletionPrefix)
     (rbind (read_row ext db receipt (sv_count saved)) (\<lambda>final.
      ensure (dr_prefix final = sv_prefix saved) (WorkloadE CompletionPrefix)
      (Inr (sv_count saved, sv_bytes saved, sv_prefix saved, rc_event (dr_record final),
            rc_lease_sequence (dr_record final))))))"

definition audit_prefix ::
  "'x workload_journal_externals_scheme \<Rightarrow> journal \<Rightarrow> workload_receipt \<Rightarrow> unit result" where
  "audit_prefix ext db receipt =
     (case wr_completion receipt of
        None \<Rightarrow> Inr ()
      | Some report \<Rightarrow>
          rbind (completion_prefix ext db receipt) (\<lambda>(count, bytes, prefix, final, sequence).
          ensure (co_event_count report = count \<and> co_event_bytes report = bytes
              \<and> co_event_prefix_sha256 report = prefix
              \<and> e_source_sequence final \<le> co_source_observations report
              \<and> e_source_frames final \<le> co_source_frames report
              \<and> sequence \<le> co_lease_sequence report)
            (WorkloadE CompletionPrefix) (Inr ())))"

definition grant_events :: "journal \<Rightarrow> string \<Rightarrow> event_row list" where
  "grant_events db grant = filter (\<lambda>e. er_grant_id e = grant) (j_events db)"

definition event_audit ::
  "'x workload_journal_externals_scheme \<Rightarrow> journal \<Rightarrow> workload_receipt \<Rightarrow> unit result" where
  "event_audit ext db receipt =
     (if j_version db < 4 then Inr ()
      else
        let d = wr_definition receipt; mine = grant_events db (wk_grant_id d) in
        rbind (event_state ext db d) (\<lambda>saved.
        ensure (length mine = sv_count saved \<and> sum_list (map er_encoded_bytes mine) = sv_bytes saved)
          (WorkloadE EventPrefixChanged)
        (rbind (event_seed ext d) (\<lambda>seed.
         rbind (audit_rows ext db receipt [1..<sv_count saved + 1] (None, seed, 0))
           (\<lambda>(_, prefix, bytes).
         ensure (prefix = sv_prefix saved \<and> bytes = sv_bytes saved) (WorkloadE EventPrefixChanged)
         (audit_prefix ext db receipt))))))"

definition audit_orphans :: "journal \<Rightarrow> unit result" where
  "audit_orphans db =
     (if j_version db < 4 then Inr ()
      else ensure
        ((\<forall>s \<in> set (j_event_states db). case receipt_of db (es_grant_id s) of None \<Rightarrow> False
            | Some r \<Rightarrow> r_receipt_kind r = ''workload'' \<and> r_grant_digest r = es_grant_digest s)
         \<and> (\<forall>e \<in> set (j_events db). er_grant_id e \<in> set (map es_grant_id (j_event_states db))))
        (WorkloadE EventState) (Inr ()))"

section \<open>Typed receipts\<close>

definition completion_validate ::
  "'x workload_externals_scheme \<Rightarrow> completion_report \<Rightarrow> workload_receipt \<Rightarrow> unit result" where
  "completion_validate ext report receipt =
     (let d = wr_definition receipt in
      case wk_source d of MicrophoneEnergy _ _ adapter parameters \<Rightarrow>
        rbind (workload_scope ext d) (\<lambda>s.
        ensure (co_schema_version report = 1 \<and> co_grant_sha256 report = sc_grant_sha256 s
            \<and> co_adapter_sha256 report = adapter
            \<and> co_source_observations report = en_max_blocks parameters
            \<and> co_source_frames report = co_source_observations report * en_block_frames parameters
            \<and> co_source_frames report \<le> li_max_source_frames (wk_limits d)
            \<and> co_event_count report > 0
            \<and> co_event_count report \<le> ev_max_events (wk_events d)
            \<and> co_event_bytes report \<le> ev_max_total_bytes (wk_events d)
            \<and> saturating_mul (co_event_count report) 128 \<le> co_event_bytes report
            \<and> hex_digest (co_event_prefix_sha256 report)
            \<and> co_lease_sequence report > 0 \<and> co_owned_process_exit_observed report
            \<and> \<not> co_physical_effects_stopped report
            \<and> cr_accepted_at_ms (wr_receipt receipt) \<le> co_recorded_at_ms report
            \<and> co_recorded_at_ms report \<le> cr_updated_at_ms (wr_receipt receipt))
          (WorkloadE CompletionDamaged) (Inr ())))"

definition workload_receipt_validate ::
  "'x workload_externals_scheme \<Rightarrow> workload_receipt \<Rightarrow> unit result" where
  "workload_receipt_validate ext w =
     rbind (consumed_validate ext (wr_receipt w)) (\<lambda>_.
     rbind (workload_scope ext (wr_definition w)) (\<lambda>s.
     rbind (case wr_completion w of
              None \<Rightarrow> Inr (cr_state (wr_receipt w) \<in> {ACCEPTED, UNKNOWN} \<and> wr_schema_version w = 2)
            | Some report \<Rightarrow>
                if cr_state (wr_receipt w) = COMPLETED then
                  rbind (completion_validate ext report w) (\<lambda>_. Inr (wr_schema_version w = 3))
                else Inr False) (\<lambda>outcome_valid.
     ensure (outcome_valid \<and> \<not> wr_execution_authorized w \<and> \<not> wr_restart_authorized w
         \<and> cr_node_id (wr_receipt w) = sc_executor_node s
         \<and> cr_issuer_id (wr_receipt w) = sc_issuer_id s
         \<and> cr_grant_id (wr_receipt w) = sc_grant_id s
         \<and> cr_grant_sha256 (wr_receipt w) = sc_grant_sha256 s
         \<and> cr_job_id (wr_receipt w) = sc_job_id s \<and> cr_task_id (wr_receipt w) = sc_task_id s
         \<and> cr_attempt (wr_receipt w) = sc_attempt s
         \<and> cr_pipeline_progress (wr_receipt w) = None)
       (JournalE ReceiptDamaged) (Inr ()))))"

text \<open>\<^verbatim>\<open>completion::decode\<close> on the row of the grant.\<close>

definition completion_decode ::
  "'x workload_journal_externals_scheme \<Rightarrow> journal \<Rightarrow> string \<Rightarrow> string \<Rightarrow> completion_report option result" where
  "completion_decode ext db i state =
     rbind (or_err (receipt_of db i) (JournalE ReceiptMissing)) (\<lambda>r.
     if state \<noteq> COMPLETED then
       ensure (r_report r = None \<and> r_report_sha256 r = None) (WorkloadE CompletionDamaged) (Inr None)
     else
       rbind (or_err (r_report r) (WorkloadE CompletionDamaged)) (\<lambda>raw.
       ensure (j_version db = 5 \<and> 1 \<le> length raw \<and> length raw \<le> REPORT_HEADROOM)
         (WorkloadE CompletionDamaged)
       (rbind (or_err (completion_parse ext raw) (WorkloadE CompletionDamaged)) (\<lambda>report.
        ensure (completion_text ext report = raw \<and> r_report_sha256 r = Some (sha256_hex ext raw)
            \<and> length (sha256_hex ext raw) = 64)
          (WorkloadE CompletionDamaged) (Inr (Some report))))))"

definition read_core ::
  "'x workload_journal_externals_scheme \<Rightarrow> journal \<Rightarrow> string \<Rightarrow> string option \<Rightarrow> string
   \<Rightarrow> workload_receipt result" where
  "read_core ext db node issuer i =
     rbind (validate_owner db node) (\<lambda>_.
     rbind (is_workload db i) (\<lambda>workload.
     ensure workload (JournalE ReceiptMissing)
     (rbind (read_consumed ext db node issuer i) (\<lambda>receipt.
      rbind (or_err (receipt_of db i) (JournalE ReceiptMissing)) (\<lambda>row.
      rbind (or_err (r_workload_definition row) (JournalE ReceiptDamaged)) (\<lambda>raw.
      ensure (1 \<le> length raw \<and> length raw \<le> MAX_DEFINITION_BYTES) (JournalE ReceiptDamaged)
      (rbind (or_err (workload_parse ext raw) (JournalE ReceiptDamaged)) (\<lambda>d.
       ensure (workload_text ext d = raw
           \<and> r_max_result_bytes row = ev_max_total_bytes (wk_events d)) (JournalE ReceiptDamaged)
       (rbind (completion_decode ext db i (cr_state receipt)) (\<lambda>completion.
        let w = \<lparr>wr_schema_version = (if completion \<noteq> None then 3 else 2), wr_receipt = receipt,
                 wr_definition = d, wr_execution_authorized = False, wr_restart_authorized = False,
                 wr_completion = completion\<rparr> in
        rbind (workload_receipt_validate ext w) (\<lambda>_. Inr w)))))))))))"

definition read_workload ::
  "'x workload_journal_externals_scheme \<Rightarrow> journal \<Rightarrow> string \<Rightarrow> string option \<Rightarrow> string
   \<Rightarrow> workload_receipt result" where
  "read_workload ext db node issuer i =
     rbind (read_core ext db node issuer i) (\<lambda>w.
     rbind (event_audit ext db w) (\<lambda>_. Inr w))"

end
