(* ===== verification/Event_Append.thy ===== *)
theory Event_Append
  imports Workload_Journal
begin

text \<open>
  Saving one event (\<^verbatim>\<open>workload_event_journal.rs\<close>, \<^verbatim>\<open>append\<close>) and reading pages of the retained
  prefix (\<^verbatim>\<open>inspect\<close>).

  The lease authority and the stop watcher live in other threads, so each of the repeated
  checks of \<^verbatim>\<open>append\<close> reads them anew: \<open>append_env\<close> gives the reporting state, the instant and
  the stop flag of each reading, in the order the code makes them. Everything before the
  commit is one transaction; the checks after it can refuse the receipt of a saved event.
\<close>

record append_receipt =
  ap_sequence :: nat
  ap_data_sha256 :: string
  ap_reused :: bool

record append_env =
  ae_authority :: "nat \<Rightarrow> reporting \<times> instant"
  ae_stop :: "nat \<Rightarrow> bool"

definition check_at ::
  "'x lease_externals_scheme \<Rightarrow> checkpoint \<Rightarrow> contract \<Rightarrow> append_env \<Rightarrow> nat \<Rightarrow> unit result" where
  "check_at ext cp c env n =
     checkpoint_check ext cp (fst (ae_authority env n)) c (snd (ae_authority env n))"

text \<open>The three statements of the save: the row, the counters, the receipt's time.\<close>

definition save_event ::
  "workload \<Rightarrow> event_row \<Rightarrow> nat \<Rightarrow> nat \<Rightarrow> journal \<Rightarrow> journal" where
  "save_event d row bytes recorded db =
     db\<lparr>j_events := j_events db @ [row],
        j_event_states := update_rows (\<lambda>s. es_grant_id s = wk_grant_id d)
          (\<lambda>s. s\<lparr>es_event_count := er_sequence row, es_event_bytes := bytes,
                 es_prefix_sha256 := er_prefix_sha256 row\<rparr>) (j_event_states db),
        j_receipts := update_rows (\<lambda>r. r_grant_id r = wk_grant_id d \<and> r_state r = ACCEPTED)
          (\<lambda>r. r\<lparr>r_updated_ms := max (max (r_updated_ms r) (r_accepted_ms r)) recorded\<rparr>)
          (j_receipts db)\<rparr>"

definition new_record :: "workload_receipt \<Rightarrow> checkpoint \<Rightarrow> event \<Rightarrow> nat \<Rightarrow> event_record" where
  "new_record receipt cp e now =
     \<lparr>rc_schema_version = 1, rc_lease_sequence = cp_sequence cp,
      rc_recorded_at_ms = max now (cr_updated_at_ms (wr_receipt receipt)), rc_event = e\<rparr>"

definition new_event_row ::
  "'x workload_journal_externals_scheme \<Rightarrow> workload \<Rightarrow> event_record \<Rightarrow> string \<Rightarrow> event_row" where
  "new_event_row ext d record prefix =
     (let raw = record_text ext record; checksum = sha256_hex ext raw in
      \<lparr>er_grant_id = wk_grant_id d, er_sequence = e_sequence (rc_event record),
       er_encoded_bytes = length (event_text ext (rc_event record)), er_data = raw,
       er_data_sha256 = checksum, er_prefix_sha256 = next_prefix ext prefix checksum\<rparr>)"

text \<open>The tail that a new event must extend.\<close>

definition tail_row ::
  "'x workload_journal_externals_scheme \<Rightarrow> journal \<Rightarrow> workload_receipt \<Rightarrow> event_state
   \<Rightarrow> decoded_row option result" where
  "tail_row ext db receipt saved =
     (if sv_count saved = 0 then Inr None
      else rbind (read_row ext db receipt (sv_count saved)) (\<lambda>r. Inr (Some r)))"

definition append_new ::
  "'x workload_journal_externals_scheme \<Rightarrow> journal \<Rightarrow> workload \<Rightarrow> event \<Rightarrow> workload_receipt
   \<Rightarrow> event_state \<Rightarrow> checkpoint \<Rightarrow> contract \<Rightarrow> append_env \<Rightarrow> nat \<Rightarrow> (append_receipt \<times> journal) result" where
  "append_new ext db d e receipt saved cp c env now =
     rbind (tail_row ext db receipt saved) (\<lambda>previous.
     ensure (case previous of None \<Rightarrow> True
         | Some p \<Rightarrow> dr_prefix p = sv_prefix saved \<and> rc_lease_sequence (dr_record p) \<le> cp_sequence cp)
       (WorkloadE EventPrefixChanged)
     (rbind (event_follows d e (map_option (\<lambda>p. rc_event (dr_record p)) previous)) (\<lambda>_.
      let bytes = length (event_text ext e); record = new_record receipt cp e now;
          row = new_event_row ext d record (sv_prefix saved) in
      ensure (MIN_EVENT_BYTES \<le> bytes \<and> bytes \<le> ev_max_event_bytes (wk_events d)
          \<and> bytes \<le> saturating_sub (ev_max_total_bytes (wk_events d)) (sv_bytes saved))
        (WorkloadE EventBudget)
      (ensure (length (er_data row) \<le> ev_max_event_bytes (wk_events d) + ROW_HEADROOM)
        (WorkloadE EventBudget)
      (rbind (check_at ext cp c env 3) (\<lambda>_.
       ensure (\<not> ae_stop env 2) (WorkloadE WorkloadStopped)
       (rbind (to_i64 (e_sequence e)) (\<lambda>_. rbind (to_i64 bytes) (\<lambda>_.
        ensure (event_row_of db (wk_grant_id d) (e_sequence e) = None) (JournalE SqlConstraint)
        (rbind (to_i64 (sv_bytes saved + bytes)) (\<lambda>total.
         rbind (to_i64 (rc_recorded_at_ms record)) (\<lambda>recorded.
         rbind (check_at ext cp c env 4) (\<lambda>_.
         Inr (\<lparr>ap_sequence = e_sequence e, ap_data_sha256 = er_data_sha256 row, ap_reused = False\<rparr>,
              save_event d row total recorded db))))))))))))))"

definition append_tx ::
  "'x workload_journal_externals_scheme \<Rightarrow> string \<Rightarrow> journal \<Rightarrow> workload \<Rightarrow> event \<Rightarrow> checkpoint
   \<Rightarrow> contract \<Rightarrow> append_env \<Rightarrow> nat \<Rightarrow> (append_receipt \<times> journal) result" where
  "append_tx ext node db d e cp c env now =
     rbind (read_core ext db node (Some (wk_issuer_id d)) (wk_grant_id d)) (\<lambda>receipt.
     ensure (wr_definition receipt = d \<and> cr_state (wr_receipt receipt) = ACCEPTED \<and> \<not> ae_stop env 1)
       (WorkloadE WorkloadChanged)
     (rbind (recorded_scope ext db (ct_scope c)) (\<lambda>stopped.
      ensure (\<not> stopped) (WorkloadE WorkloadChanged)
      (rbind (event_state ext db d) (\<lambda>saved.
       if e_sequence e \<le> sv_count saved then
         rbind (event_audit ext db receipt) (\<lambda>_.
         rbind (read_row ext db receipt (e_sequence e)) (\<lambda>old.
         ensure (rc_event (dr_record old) = e) (WorkloadE EventConflict)
         (rbind (check_at ext cp c env 3) (\<lambda>_.
          Inr (\<lparr>ap_sequence = e_sequence e, ap_data_sha256 = dr_checksum old, ap_reused = True\<rparr>, db)))))
       else append_new ext db d e receipt saved cp c env now)))))"

definition event_append ::
  "'x workload_journal_externals_scheme \<Rightarrow> ledger \<Rightarrow> workload \<Rightarrow> event \<Rightarrow> checkpoint \<Rightarrow> append_env
   \<Rightarrow> nat \<Rightarrow> append_receipt result \<times> ledger" where
  "event_append ext lg d e cp env now =
     (case lease_contract ext d of
        Inl err \<Rightarrow> (Inl err, lg)
      | Inr c \<Rightarrow>
          (case rbind (check_at ext cp c env 0) (\<lambda>_.
                ensure (\<not> ae_stop env 0) (WorkloadE WorkloadStopped)
                (rbind (check_at ext cp c env 1) (\<lambda>_.
                 rbind (check_at ext cp c env 2) (\<lambda>_.
                 append_tx ext (lg_node_id lg) (lg_db lg) d e cp c env now)))) of
             Inl err \<Rightarrow> (Inl err, lg)
           | Inr (receipt, db) \<Rightarrow>
               (rbind (check_at ext cp c env 5) (\<lambda>_.
                ensure (\<not> ae_stop env 3) (WorkloadE WorkloadStopped)
                (if ap_reused receipt then Inr receipt
                 else rbind (recorded_scope ext db (ct_scope c)) (\<lambda>stopped.
                      ensure (\<not> stopped) (WorkloadE WorkloadStopped) (Inr receipt)))),
                lg\<lparr>lg_db := db\<rparr>)))"

section \<open>Inspection\<close>

record event_page =
  pg_state :: string
  pg_records :: "event_record list"
  pg_count :: nat
  pg_bytes :: nat
  pg_next_sequence :: nat
  pg_more :: bool

primrec read_rows ::
  "'x workload_journal_externals_scheme \<Rightarrow> journal \<Rightarrow> workload_receipt \<Rightarrow> nat list
   \<Rightarrow> event_record list result" where
  "read_rows ext db receipt [] = Inr []"
| "read_rows ext db receipt (n # ns) =
     rbind (read_row ext db receipt n) (\<lambda>r.
     rbind (read_rows ext db receipt ns) (\<lambda>rs. Inr (dr_record r # rs)))"

definition event_inspect ::
  "'x workload_journal_externals_scheme \<Rightarrow> journal \<Rightarrow> workload_receipt \<Rightarrow> nat \<Rightarrow> nat
   \<Rightarrow> event_page result" where
  "event_inspect ext db receipt after limit =
     ensure (1 \<le> limit \<and> limit \<le> 128) (WorkloadE EventState)
     (rbind (event_audit ext db receipt) (\<lambda>_.
      rbind (if 4 \<le> j_version db
             then rbind (event_state ext db (wr_definition receipt)) (\<lambda>s. Inr (sv_count s, sv_bytes s))
             else Inr (0, 0)) (\<lambda>(count, bytes).
      ensure (after \<le> count) (WorkloadE EventState)
      (let final = min count (saturating_add after limit) in
       rbind (read_rows ext db receipt [after + 1..<final + 1]) (\<lambda>rs.
       Inr \<lparr>pg_state = cr_state (wr_receipt receipt), pg_records = rs, pg_count = count,
            pg_bytes = bytes, pg_next_sequence = final, pg_more = (final < count)\<rparr>)))))"

section \<open>Reading the audited prefix\<close>

lemma audit_rows_append:
  "audit_rows ext db receipt (ms @ ns) acc
     = rbind (audit_rows ext db receipt ms acc) (audit_rows ext db receipt ns)"
proof (induction ms arbitrary: acc)
  case (Cons m ms)
  then show ?case by (cases "audit_step ext db receipt m acc") simp_all
qed simp

text \<open>What the audit knows after a range of rows.\<close>

definition prefix_of :: "'x externals_scheme \<Rightarrow> string \<Rightarrow> event_row list \<Rightarrow> string" where
  "prefix_of ext p rows = foldl (\<lambda>q r. next_prefix ext q (sha256_hex ext (er_data r))) p rows"

lemma decode_row_InrD:
  assumes "decode_row ext receipt n e = Inr x"
  shows "dr_checksum x = sha256_hex ext (er_data e)" and "dr_bytes x = er_encoded_bytes e"
    and "dr_prefix x = er_prefix_sha256 e" and "e_sequence (rc_event (dr_record x)) = n"
    and "record_text ext (dr_record x) = er_data e"
    and "rc_recorded_at_ms (dr_record x) \<le> cr_updated_at_ms (wr_receipt receipt)"
    and "rc_lease_sequence (dr_record x) > 0" and "er_encoded_bytes e \<le> ev_max_event_bytes (wk_events (wr_definition receipt))"
  using assms by (auto simp: decode_row_def Let_def)

lemma audit_rows_InrD:
  assumes "audit_rows ext db receipt ns (prev, p, b) = Inr (prev', p', b')"
  shows "\<exists>rows recs. map (event_row_of db (wk_grant_id (wr_definition receipt))) ns = map Some rows
      \<and> map (record_text ext) recs = map er_data rows
      \<and> p' = prefix_of ext p rows \<and> b' = b + sum_list (map er_encoded_bytes rows)
      \<and> event_chain (wr_definition receipt) (map rc_event recs) (map_option rc_event prev)
      \<and> prev' = (if recs = [] then prev else Some (last recs))"
  using assms
proof (induction ns arbitrary: prev p b)
  case Nil
  then show ?case by (intro exI [of _ "[]"]) (simp add: prefix_of_def)
next
  case (Cons n ns)
  obtain x q t where step: "read_row ext db receipt n = Inr x"
      "event_follows (wr_definition receipt) (rc_event (dr_record x)) (map_option rc_event prev) = Inr ()"
      "q = next_prefix ext p (dr_checksum x)" "t = b + dr_bytes x"
    and rest: "audit_rows ext db receipt ns (Some (dr_record x), q, t) = Inr (prev', p', b')"
    using Cons.prems by (auto simp: audit_step_def Let_def)
  obtain e where e: "event_row_of db (wk_grant_id (wr_definition receipt)) n = Some e"
      "decode_row ext receipt n e = Inr x"
    using step(1) by (auto simp: read_row_def)
  from Cons.IH [OF rest] obtain rows recs where
    "map (event_row_of db (wk_grant_id (wr_definition receipt))) ns = map Some rows"
    "map (record_text ext) recs = map er_data rows"
    "p' = prefix_of ext q rows" "b' = t + sum_list (map er_encoded_bytes rows)"
    "event_chain (wr_definition receipt) (map rc_event recs) (Some (rc_event (dr_record x)))"
    "prev' = (if recs = [] then Some (dr_record x) else Some (last recs))"
    by auto
  then show ?case
    using step e decode_row_InrD [OF e(2)]
    by (intro exI [of _ "e # rows"] exI [of _ "dr_record x # recs"]) (simp add: prefix_of_def)
qed

lemma event_audit_InrD:
  assumes "event_audit ext db w = Inr ()" and "4 \<le> j_version db"
  obtains saved seed prev where "event_state ext db (wr_definition w) = Inr saved"
    and "event_seed ext (wr_definition w) = Inr seed"
    and "audit_rows ext db w [1..<sv_count saved + 1] (None, seed, 0)
           = Inr (prev, sv_prefix saved, sv_bytes saved)"
    and "length (grant_events db (wk_grant_id (wr_definition w))) = sv_count saved"
    and "sum_list (map er_encoded_bytes (grant_events db (wk_grant_id (wr_definition w))))
           = sv_bytes saved"
    and "audit_prefix ext db w = Inr ()"
  using assms by (auto simp: event_audit_def Let_def)

section \<open>Tamper evidence\<close>

definition retained_rows :: "journal \<Rightarrow> string \<Rightarrow> nat \<Rightarrow> event_row list" where
  "retained_rows db grant n = map (\<lambda>i. the (event_row_of db grant i)) [1..<n + 1]"

text \<open>Every text that the chain hashes on its way over the rows.\<close>

primrec hashed_texts :: "'x externals_scheme \<Rightarrow> string \<Rightarrow> event_row list \<Rightarrow> string list" where
  "hashed_texts ext p [] = []"
| "hashed_texts ext p (r # rows) =
     er_data r # (p @ sha256_hex ext (er_data r))
     # hashed_texts ext (next_prefix ext p (sha256_hex ext (er_data r))) rows"

lemma prefix_of_Cons [simp]:
  "prefix_of ext p (r # rows) = prefix_of ext (next_prefix ext p (sha256_hex ext (er_data r))) rows"
  "prefix_of ext p [] = p"
  by (simp_all add: prefix_of_def)

lemma prefix_of_determines:
  assumes "prefix_of ext p xs = prefix_of ext q ys" and "length xs = length ys"
    and "\<And>s. length (sha256_hex ext s) = 64" and "length p = 64" and "length q = 64"
    and "inj_on (sha256_hex ext) (set (hashed_texts ext p xs) \<union> set (hashed_texts ext q ys))"
  shows "p = q \<and> map er_data xs = map er_data ys"
  using assms
proof (induction xs arbitrary: ys p q)
  case (Cons x xs)
  obtain y ys' where ys: "ys = y # ys'" using Cons.prems(2) by (cases ys) auto
  let ?p = "next_prefix ext p (sha256_hex ext (er_data x))"
  let ?q = "next_prefix ext q (sha256_hex ext (er_data y))"
  have inj: "inj_on (sha256_hex ext) (set (hashed_texts ext ?p xs) \<union> set (hashed_texts ext ?q ys'))"
    by (rule inj_on_subset [OF Cons.prems(6)]) (auto simp: ys)
  have "?p = ?q \<and> map er_data xs = map er_data ys'"
    using Cons.prems(1,2) ys by (intro Cons.IH [OF _ _ Cons.prems(3) _ _ inj])
      (simp_all add: next_prefix_def Cons.prems(3))
  moreover have "p @ sha256_hex ext (er_data x) = q @ sha256_hex ext (er_data y)"
    by (rule inj_onD [OF Cons.prems(6)]) (use calculation in \<open>simp_all add: next_prefix_def ys\<close>)
  then have "p = q \<and> sha256_hex ext (er_data x) = sha256_hex ext (er_data y)"
    by (rule iffD1 [OF append_eq_append_conv, rotated]) (simp only: Cons.prems(4,5) simp_thms)
  then have pq: "p = q" and h: "sha256_hex ext (er_data x) = sha256_hex ext (er_data y)" by blast+
  have "er_data x = er_data y"
    by (rule inj_onD [OF Cons.prems(6) h]) (simp_all add: ys)
  ultimately show ?case using ys pq by simp
qed simp

lemma audit_retained:
  assumes "event_audit ext db w = Inr ()" and "4 \<le> j_version db"
    and "event_state ext db (wr_definition w) = Inr saved" and "event_seed ext (wr_definition w) = Inr seed"
  shows "sv_prefix saved = prefix_of ext seed
      (retained_rows db (wk_grant_id (wr_definition w)) (sv_count saved))"
    and "\<exists>es. length es = sv_count saved \<and> event_chain (wr_definition w) es None"
proof -
  obtain prev where "audit_rows ext db w [1..<sv_count saved + 1] (None, seed, 0)
      = Inr (prev, sv_prefix saved, sv_bytes saved)"
    using assms by (auto elim: event_audit_InrD)
  from audit_rows_InrD [OF this] obtain rows recs where
    r: "map (event_row_of db (wk_grant_id (wr_definition w))) [1..<sv_count saved + 1] = map Some rows"
      "map (record_text ext) recs = map er_data rows" "sv_prefix saved = prefix_of ext seed rows"
      "event_chain (wr_definition w) (map rc_event recs) None"
    by auto
  have "retained_rows db (wk_grant_id (wr_definition w)) (sv_count saved)
      = map the (map (event_row_of db (wk_grant_id (wr_definition w))) [1..<sv_count saved + 1])"
    by (simp add: retained_rows_def)
  also have "\<dots> = rows" unfolding r(1) by (simp add: comp_def)
  finally show "sv_prefix saved = prefix_of ext seed
      (retained_rows db (wk_grant_id (wr_definition w)) (sv_count saved))" using r(3) by simp
  have "length recs = sv_count saved"
    using arg_cong [OF r(1), of length] arg_cong [OF r(2), of length] by (simp del: upt_Suc)
  then show "\<exists>es. length es = sv_count saved \<and> event_chain (wr_definition w) es None"
    using r(4) by (intro exI [of _ "map rc_event recs"]) simp
qed

section \<open>Appending\<close>

lemma find_append: "find P (xs @ ys) = (case find P xs of None \<Rightarrow> find P ys | Some x \<Rightarrow> Some x)"
  by (induction xs) auto

lemma find_update_rows:
  "(\<And>x. P x \<Longrightarrow> P (f x)) \<Longrightarrow> find P (update_rows P f xs) = map_option f (find P xs)"
  by (induction xs) (auto simp: update_rows_def)

text \<open>The later receipt of the same workload.\<close>

definition touched :: "nat \<Rightarrow> workload_receipt \<Rightarrow> workload_receipt" where
  "touched ms w = w\<lparr>wr_receipt := (wr_receipt w)\<lparr>cr_updated_at_ms := ms\<rparr>\<rparr>"

lemma touched_simps [simp]:
  "wr_definition (touched ms w) = wr_definition w" "wr_completion (touched ms w) = wr_completion w"
  "cr_updated_at_ms (wr_receipt (touched ms w)) = ms"
  "cr_accepted_at_ms (wr_receipt (touched ms w)) = cr_accepted_at_ms (wr_receipt w)"
  by (simp_all add: touched_def)

lemma decode_row_touched:
  "decode_row ext w n e = Inr x \<Longrightarrow> cr_updated_at_ms (wr_receipt w) \<le> ms
   \<Longrightarrow> decode_row ext (touched ms w) n e = Inr x"
  by (auto simp: decode_row_def Let_def)

lemma event_row_of_append:
  "event_row_of (db\<lparr>j_events := j_events db @ [row]\<rparr>) grant n =
     (case event_row_of db grant n of Some e \<Rightarrow> Some e
      | None \<Rightarrow> if er_grant_id row = grant \<and> er_sequence row = n then Some row else None)"
  by (simp add: event_row_of_def find_append split: option.splits)

lemma event_row_of_save [simp]:
  "event_row_of (save_event d row b m db) grant n =
     event_row_of (db\<lparr>j_events := j_events db @ [row]\<rparr>) grant n"
  by (simp add: event_row_of_def save_event_def)

lemma read_row_save:
  assumes "read_row ext db w n = Inr x" and "cr_updated_at_ms (wr_receipt w) \<le> ms"
  shows "read_row ext (save_event d row b m db) (touched ms w) n = Inr x"
  using assms decode_row_touched by (auto simp: read_row_def event_row_of_append)

lemma audit_rows_save:
  assumes "cr_updated_at_ms (wr_receipt w) \<le> ms"
  shows "audit_rows ext db w ns acc = Inr r \<Longrightarrow>
     audit_rows ext (save_event d row b m db) (touched ms w) ns acc = Inr r"
proof (induction ns arbitrary: acc)
  case (Cons n ns)
  obtain acc' where step: "audit_step ext db w n acc = Inr acc'"
    and rest: "audit_rows ext db w ns acc' = Inr r"
    using Cons.prems by auto
  obtain x where x: "read_row ext db w n = Inr x"
    using step by (auto simp: audit_step_def Let_def split: prod.splits)
  have "audit_step ext (save_event d row b m db) (touched ms w) n acc = audit_step ext db w n acc"
    by (simp add: audit_step_def x read_row_save [OF x assms])
  then have "audit_step ext (save_event d row b m db) (touched ms w) n acc = Inr acc'" using step by simp
  then show ?case using Cons.IH [OF rest] by simp
qed simp

lemma append_new_InrD:
  assumes "append_new ext db d e w saved cp c env now = Inr (a, db')"
  obtains prev where "tail_row ext db w saved = Inr prev"
    and "\<forall>p. prev = Some p \<longrightarrow> dr_prefix p = sv_prefix saved \<and> rc_lease_sequence (dr_record p) \<le> cp_sequence cp"
    and "event_follows d e (map_option (\<lambda>p. rc_event (dr_record p)) prev) = Inr ()"
    and "MIN_EVENT_BYTES \<le> length (event_text ext e)"
    and "length (event_text ext e) \<le> ev_max_event_bytes (wk_events d)"
    and "length (event_text ext e) \<le> ev_max_total_bytes (wk_events d) - sv_bytes saved"
    and "length (er_data (new_event_row ext d (new_record w cp e now) (sv_prefix saved)))
           \<le> ev_max_event_bytes (wk_events d) + ROW_HEADROOM"
    and "event_row_of db (wk_grant_id d) (e_sequence e) = None"
    and "rc_recorded_at_ms (new_record w cp e now) \<le> i64_max"
    and "db' = save_event d (new_event_row ext d (new_record w cp e now) (sv_prefix saved))
           (sv_bytes saved + length (event_text ext e)) (rc_recorded_at_ms (new_record w cp e now)) db"
    and "ap_reused a = False" and "ap_sequence a = e_sequence e"
  using assms by (auto simp: append_new_def Let_def saturating_sub_def split: option.splits)

lemma event_reservation_page: "j_page_size a = j_page_size b \<Longrightarrow> event_reservation a d = event_reservation b d"
  by (simp add: event_reservation_def)

lemma save_event_page [simp]: "j_page_size (save_event d row b m db) = j_page_size db"
  "j_version (save_event d row b m db) = j_version db"
  by (simp_all add: save_event_def)

lemma event_stateE:
  assumes "event_state ext db d = Inr saved"
  obtains r s reserved seed
    where "find (\<lambda>s. es_grant_id s = wk_grant_id d) (j_event_states db) = Some r"
    and "workload_scope ext d = Inr s" and "event_reservation db d = Inr reserved"
    and "event_seed ext d = Inr seed"
    and "length (es_grant_digest r) = 64" "es_grant_digest r = sc_grant_sha256 s"
    and "es_reserved_bytes r = reserved"
    and "saved = \<lparr>sv_count = es_event_count r, sv_bytes = es_event_bytes r,
                   sv_prefix = es_prefix_sha256 r\<rparr>"
proof -
  obtain r where r: "find (\<lambda>s. es_grant_id s = wk_grant_id d) (j_event_states db) = Some r"
    using assms by (auto simp: event_state_def)
  obtain s where s: "workload_scope ext d = Inr s"
    using assms by (auto simp: event_state_def simp del: or_err_simps)
  obtain reserved where res: "event_reservation db d = Inr reserved"
    using assms r s by (auto simp: event_state_def)
  obtain seed where seed: "event_seed ext d = Inr seed" by (simp add: event_seed_def s)
  have "length (es_grant_digest r) = 64" "es_grant_digest r = sc_grant_sha256 s"
      "es_reserved_bytes r = reserved"
      "saved = \<lparr>sv_count = es_event_count r, sv_bytes = es_event_bytes r,
                 sv_prefix = es_prefix_sha256 r\<rparr>"
    using assms by (auto simp: event_state_def r s res seed)
  then show thesis by (rule that [OF r s res seed])
qed

lemma event_state_InrD:
  assumes "event_state ext db d = Inr saved"
  shows "sv_count saved \<le> ev_max_events (wk_events d)" and "sv_bytes saved \<le> ev_max_total_bytes (wk_events d)"
    and "saturating_mul (sv_count saved) MIN_EVENT_BYTES \<le> sv_bytes saved"
    and "workload_validate ext d = Inr ()"
    and "sv_count saved = 0 \<Longrightarrow> sv_bytes saved = 0 \<and> event_seed ext d = Inr (sv_prefix saved)"
  using assms by (auto simp: event_state_def workload_scope_def)

text \<open>The counters after a save.\<close>

lemma event_state_save:
  assumes "event_state ext db d = Inr saved" and "er_sequence row = sv_count saved + 1"
    and "er_sequence row \<le> ev_max_events (wk_events d)"
    and "MIN_EVENT_BYTES \<le> n" and "n \<le> ev_max_total_bytes (wk_events d) - sv_bytes saved"
    and "hex_digest (er_prefix_sha256 row)"
  shows "event_state ext (save_event d row (sv_bytes saved + n) m db) d
     = Inr \<lparr>sv_count = sv_count saved + 1, sv_bytes = sv_bytes saved + n,
            sv_prefix = er_prefix_sha256 row\<rparr>"
proof -
  note S = event_state_InrD [OF assms(1)]
  obtain r s reserved seed where r: "find (\<lambda>s. es_grant_id s = wk_grant_id d) (j_event_states db) = Some r"
    and s: "workload_scope ext d = Inr s" and res: "event_reservation db d = Inr reserved"
    and seed: "event_seed ext d = Inr seed"
    and eq: "length (es_grant_digest r) = 64" "es_grant_digest r = sc_grant_sha256 s"
      "es_reserved_bytes r = reserved"
    and saved: "saved = \<lparr>sv_count = es_event_count r, sv_bytes = es_event_bytes r,
                   sv_prefix = es_prefix_sha256 r\<rparr>"
    using assms(1) by (rule event_stateE)
  have total: "ev_max_total_bytes (wk_events d) < u64_max"
    using validate_components_InrD(15) [OF workload_validate_InrD(1) [OF S(4)]] by (simp add: u64_max_def)
  have bytes: "sv_bytes saved + n \<le> ev_max_total_bytes (wk_events d)" using S(2) assms(5) by simp
  have "sv_count saved * MIN_EVENT_BYTES \<le> sv_bytes saved"
    using S(2,3) total by (auto simp: saturating_mul_def min_def split: if_splits)
  then have min: "saturating_mul (sv_count saved + 1) MIN_EVENT_BYTES \<le> sv_bytes saved + n"
    using assms(4) by (simp add: saturating_mul_def min_def algebra_simps)
  let ?f = "\<lambda>s. s\<lparr>es_event_count := er_sequence row, es_event_bytes := sv_bytes saved + n,
                 es_prefix_sha256 := er_prefix_sha256 row\<rparr>"
  have fd: "find (\<lambda>s. es_grant_id s = wk_grant_id d)
      (j_event_states (save_event d row (sv_bytes saved + n) m db)) = Some (?f r)"
    using find_update_rows [of "\<lambda>s. es_grant_id s = wk_grant_id d" ?f "j_event_states db"] r
    by (simp add: save_event_def)
  have rv: "event_reservation (save_event d row (sv_bytes saved + n) m db) d = Inr reserved"
    using res event_reservation_page [OF save_event_page(1)] by metis
  have len: "length (er_prefix_sha256 row) = 64" using assms(6) by (simp add: hex_digest_def)
  have cond: "length (es_grant_digest (?f r)) = 64 \<and> length (es_prefix_sha256 (?f r)) = 64
      \<and> es_grant_digest (?f r) = sc_grant_sha256 s
      \<and> es_event_count (?f r) \<le> ev_max_events (wk_events d)
      \<and> es_event_bytes (?f r) \<le> ev_max_total_bytes (wk_events d)
      \<and> saturating_mul (es_event_count (?f r)) MIN_EVENT_BYTES \<le> es_event_bytes (?f r)
      \<and> es_reserved_bytes (?f r) = reserved \<and> hex_digest (es_prefix_sha256 (?f r))
      \<and> (es_event_count (?f r) \<noteq> 0
         \<or> (es_event_bytes (?f r) = 0 \<and> es_prefix_sha256 (?f r) = seed))"
    using eq assms(3,6) bytes min len unfolding assms(2) by (intro conjI) simp_all
  show ?thesis
    unfolding event_state_def fd rv s seed or_err_simps rbind.simps ensure_def if_P [OF cond]
    by (simp add: assms(2))
qed

text \<open>The documented round trip of serde on the event envelope.\<close>

definition record_codec :: "'x workload_journal_externals_scheme \<Rightarrow> event_record \<Rightarrow> bool" where
  "record_codec ext r \<longleftrightarrow> record_parse ext (record_text ext r) = Some r \<and> record_text ext r \<noteq> []"

lemma audit_tail:
  assumes "audit_rows ext db w [1..<sv_count saved + 1] (None, seed, 0) = Inr (prev, p, b)"
    and "tail_row ext db w saved = Inr t"
  shows "prev = map_option dr_record t"
proof (cases "sv_count saved")
  case 0
  then show ?thesis using assms by (simp add: tail_row_def)
next
  case (Suc k)
  obtain x where x: "read_row ext db w (sv_count saved) = Inr x" "t = Some x"
    using assms(2) Suc by (auto simp: tail_row_def)
  obtain q where q: "audit_rows ext db w [1..<Suc k] (None, seed, 0) = Inr q"
      "audit_step ext db w (sv_count saved) q = Inr (prev, p, b)"
    using assms(1) Suc by (auto simp: audit_rows_append)
  then show ?thesis using x by (cases q) (auto simp: audit_step_def Let_def)
qed

lemma new_row_decodes:
  assumes "record_codec ext (new_record w cp e now)" and "\<And>s. hex_digest (sha256_hex ext s)"
    and "event_validate (wr_definition w) e = Inr ()"
    and "cp_sequence cp > 0" and "cr_accepted_at_ms (wr_receipt w) \<le> cr_updated_at_ms (wr_receipt w)"
    and "MIN_EVENT_BYTES \<le> length (event_text ext e)"
    and "length (event_text ext e) \<le> ev_max_event_bytes (wk_events (wr_definition w))"
    and len: "length (er_data (new_event_row ext d (new_record w cp e now) p))
           \<le> ev_max_event_bytes (wk_events (wr_definition w)) + ROW_HEADROOM"
  shows "decode_row ext (touched (rc_recorded_at_ms (new_record w cp e now)) w) (e_sequence e)
      (new_event_row ext d (new_record w cp e now) p)
    = Inr \<lparr>dr_record = new_record w cp e now, dr_bytes = length (event_text ext e),
           dr_checksum = sha256_hex ext (record_text ext (new_record w cp e now)),
           dr_prefix = next_prefix ext p (sha256_hex ext (record_text ext (new_record w cp e now)))\<rparr>"
proof -
  let ?r = "new_record w cp e now"
  have c: "record_parse ext (record_text ext ?r) = Some ?r" "record_text ext ?r \<noteq> []"
    using assms(1) by (auto simp: record_codec_def)
  have l: "length (record_text ext ?r) \<le> ev_max_event_bytes (wk_events (wr_definition w)) + ROW_HEADROOM"
    using len by (simp add: new_event_row_def Let_def)
  have h: "length (sha256_hex ext s) = 64" for s using assms(2) by (simp add: hex_digest_def)
  have f: "rc_event ?r = e" "rc_schema_version ?r = 1" "rc_lease_sequence ?r = cp_sequence cp"
      "cr_accepted_at_ms (wr_receipt w) \<le> rc_recorded_at_ms ?r"
    using assms(5) by (simp_all add: new_record_def)
  show ?thesis
    using c l h f assms(2,3,4,6,7)
    by (simp add: decode_row_def new_event_row_def next_prefix_def Let_def Suc_le_eq)
qed

lemma grant_events_save [simp]:
  "er_grant_id row = wk_grant_id d \<Longrightarrow>
   grant_events (save_event d row b m db) (wk_grant_id d) = grant_events db (wk_grant_id d) @ [row]"
  by (simp add: grant_events_def save_event_def)

text \<open>A saved event leaves an evidence that the full audit accepts again.\<close>

lemma append_audit:
  assumes codec: "record_codec ext (new_record w cp e now)" and hex: "\<And>s. hex_digest (sha256_hex ext s)"
    and audit: "event_audit ext db w = Inr ()" and version: "4 \<le> j_version db"
    and open': "wr_completion w = None" and state: "event_state ext db (wr_definition w) = Inr saved"
    and new: "append_new ext db (wr_definition w) e w saved cp c env now = Inr (a, db')"
    and cp: "cp_sequence cp > 0"
    and times: "cr_accepted_at_ms (wr_receipt w) \<le> cr_updated_at_ms (wr_receipt w)"
  shows "event_audit ext db' (touched (rc_recorded_at_ms (new_record w cp e now)) w) = Inr ()"
    and "event_state ext db' (wr_definition w) = Inr \<lparr>sv_count = sv_count saved + 1,
           sv_bytes = sv_bytes saved + length (event_text ext e),
           sv_prefix = next_prefix ext (sv_prefix saved)
             (sha256_hex ext (record_text ext (new_record w cp e now)))\<rparr>"
    and "e_sequence e = sv_count saved + 1"
proof -
  let ?d = "wr_definition w" and ?r = "new_record w cp e now"
  let ?row = "new_event_row ext ?d ?r (sv_prefix saved)" and ?w = "touched (rc_recorded_at_ms ?r) w"
  obtain t where t: "tail_row ext db w saved = Inr t"
    and tp: "\<forall>p. t = Some p \<longrightarrow> dr_prefix p = sv_prefix saved \<and> rc_lease_sequence (dr_record p) \<le> cp_sequence cp"
    and fo: "event_follows ?d e (map_option (\<lambda>p. rc_event (dr_record p)) t) = Inr ()"
    and by1: "MIN_EVENT_BYTES \<le> length (event_text ext e)"
    and by2: "length (event_text ext e) \<le> ev_max_event_bytes (wk_events ?d)"
    and by3: "length (event_text ext e) \<le> ev_max_total_bytes (wk_events ?d) - sv_bytes saved"
    and len: "length (er_data ?row) \<le> ev_max_event_bytes (wk_events ?d) + ROW_HEADROOM"
    and fresh: "event_row_of db (wk_grant_id ?d) (e_sequence e) = None"
    and "rc_recorded_at_ms ?r \<le> i64_max"
    and db': "db' = save_event ?d ?row (sv_bytes saved + length (event_text ext e)) (rc_recorded_at_ms ?r) db"
    and "ap_reused a = False" "ap_sequence a = e_sequence e"
    using new by (rule append_new_InrD)
  obtain saved' seed prev where sv: "event_state ext db ?d = Inr saved'"
    and seed: "event_seed ext ?d = Inr seed"
    and rows': "audit_rows ext db w [1..<sv_count saved' + 1] (None, seed, 0)
           = Inr (prev, sv_prefix saved', sv_bytes saved')"
    and card': "length (grant_events db (wk_grant_id ?d)) = sv_count saved'"
      "sum_list (map er_encoded_bytes (grant_events db (wk_grant_id ?d))) = sv_bytes saved'"
    and "audit_prefix ext db w = Inr ()"
    by (rule event_audit_InrD [OF audit version])
  have "saved' = saved" using sv state by simp
  note rows = rows' [unfolded this] and card = card' [unfolded this]
  have prev: "prev = map_option dr_record t" by (rule audit_tail [OF rows t])
  have val: "event_validate ?d e = Inr ()" using fo by (auto simp: event_follows_def)
  show seq: "e_sequence e = sv_count saved + 1"
  proof (cases t)
    case None
    then have "sv_count saved = 0" using t by (auto simp: tail_row_def split: if_splits)
    then show ?thesis using fo None by (auto simp: event_follows_def)
  next
    case (Some p)
    then have "e_sequence (rc_event (dr_record p)) = sv_count saved"
      using t by (auto simp: tail_row_def read_row_def decode_row_InrD split: if_splits)
    then show ?thesis using fo Some by (auto simp: event_follows_def)
  qed
  have rowf: "er_sequence ?row = sv_count saved + 1" "er_grant_id ?row = wk_grant_id ?d"
      "er_encoded_bytes ?row = length (event_text ext e)"
      "er_prefix_sha256 ?row = next_prefix ext (sv_prefix saved) (sha256_hex ext (record_text ext ?r))"
    by (simp_all add: new_event_row_def Let_def seq) (simp_all add: new_record_def seq)
  show state': "event_state ext db' ?d = Inr \<lparr>sv_count = sv_count saved + 1,
           sv_bytes = sv_bytes saved + length (event_text ext e),
           sv_prefix = next_prefix ext (sv_prefix saved) (sha256_hex ext (record_text ext ?r))\<rparr>"
    unfolding db' rowf(4) [symmetric]
    by (rule event_state_save [OF state rowf(1) _ by1 by3])
       (use val seq rowf hex in \<open>auto simp: event_validate_def next_prefix_def split: workload_source.splits\<close>)
  have upd: "cr_updated_at_ms (wr_receipt w) \<le> rc_recorded_at_ms ?r" by (simp add: new_record_def)
  have rows': "audit_rows ext db' ?w [1..<sv_count saved + 1] (None, seed, 0)
      = Inr (prev, sv_prefix saved, sv_bytes saved)"
    unfolding db' by (rule audit_rows_save [OF upd rows])
  have read: "read_row ext db' ?w (sv_count saved + 1)
    = Inr \<lparr>dr_record = ?r, dr_bytes = length (event_text ext e),
           dr_checksum = sha256_hex ext (record_text ext ?r),
           dr_prefix = next_prefix ext (sv_prefix saved) (sha256_hex ext (record_text ext ?r))\<rparr>"
    using new_row_decodes [OF codec hex val cp times by1 by2 len] fresh rowf
    by (simp add: read_row_def db' event_row_of_append seq)
  have order: "lease_order prev ?r"
  proof (cases t)
    case (Some p)
    then have "rc_recorded_at_ms (dr_record p) \<le> cr_updated_at_ms (wr_receipt w)"
      using t by (auto simp: tail_row_def read_row_def decode_row_InrD split: if_splits)
    then show ?thesis using tp Some prev by (simp add: lease_order_def new_record_def)
  qed (simp add: prev lease_order_def)
  have fo': "event_follows ?d (rc_event ?r) (map_option rc_event prev) = Inr ()"
    using fo by (simp add: prev new_record_def option.map_comp comp_def)
  have small: "sv_bytes saved + length (event_text ext e) \<le> u64_max"
    using event_state_InrD(2,4) [OF state] by3
      validate_components_InrD(15) [OF workload_validate_InrD(1)] by (fastforce simp: u64_max_def)
  have step: "audit_step ext db' ?w (sv_count saved + 1) (prev, sv_prefix saved, sv_bytes saved)
      = Inr (Some ?r, next_prefix ext (sv_prefix saved) (sha256_hex ext (record_text ext ?r)),
             sv_bytes saved + length (event_text ext e))"
    using order fo' small by (simp add: audit_step_def read [unfolded Suc_eq_plus1 [symmetric]])
  have all: "audit_rows ext db' ?w [1..<sv_count saved + 1 + 1] (None, seed, 0)
      = Inr (Some ?r, next_prefix ext (sv_prefix saved) (sha256_hex ext (record_text ext ?r)),
             sv_bytes saved + length (event_text ext e))"
    using rows' step by (simp add: audit_rows_append)
  have card': "length (grant_events db' (wk_grant_id ?d)) = sv_count saved + 1"
      "sum_list (map er_encoded_bytes (grant_events db' (wk_grant_id ?d)))
         = sv_bytes saved + length (event_text ext e)"
    using card rowf by (simp_all add: db')
  have "j_version db' = j_version db" by (simp add: db')
  then show "event_audit ext db' ?w = Inr ()"
    using version state' seed all card' open'
    by (simp add: event_audit_def audit_prefix_def Let_def)
qed

end
