(* ===== verification/Event_Evidence.thy ===== *)
theory Event_Evidence
  imports Event_Append
begin

text \<open>
  The event journal as evidence: appending keeps the journal's invariant and order, a saved
  event is read back with the whole receipt, and the retained prefix is tamper evident.
\<close>

section \<open>Invariant and order\<close>

lemma append_new_ok:
  assumes "append_new ext db d e w saved cp c env now = Inr (a, db')" and "journal_ok db"
  shows "journal_ok db' \<and> journal_le db db'"
  using assms(1)
proof (rule append_new_InrD)
  let ?row = "new_event_row ext d (new_record w cp e now) (sv_prefix saved)"
  let ?m = "rc_recorded_at_ms (new_record w cp e now)"
  assume db': "db' = save_event d ?row (sv_bytes saved + length (event_text ext e)) ?m db"
  have fw: "forward (\<lambda>r. r_grant_id r = wk_grant_id d \<and> r_state r = ACCEPTED)
      (\<lambda>r. r\<lparr>r_updated_ms := max (max (r_updated_ms r) (r_accepted_ms r)) ?m\<rparr>) db"
    by (auto simp: forward_def row_le_def row_key_def row_states_def)
  show ?thesis
    by (rule update_step [OF fw assms(2)]) (auto simp: db' save_event_def stop_rows_def)
qed

lemma append_txE:
  assumes "append_tx ext node db d e cp c env now = Inr (a, db')"
  obtains w saved where "read_core ext db node (Some (wk_issuer_id d)) (wk_grant_id d) = Inr w"
    and "wr_definition w = d" and "cr_state (wr_receipt w) = ACCEPTED"
    and "recorded_scope ext db (ct_scope c) = Inr False" and "event_state ext db d = Inr saved"
    and "(e_sequence e \<le> sv_count saved \<and> db' = db \<and> ap_reused a \<and> event_audit ext db w = Inr ()
          \<and> (\<exists>old. read_row ext db w (e_sequence e) = Inr old \<and> rc_event (dr_record old) = e
               \<and> ap_data_sha256 a = dr_checksum old))
       \<or> (sv_count saved < e_sequence e \<and> append_new ext db d e w saved cp c env now = Inr (a, db'))"
proof -
  obtain w where w: "read_core ext db node (Some (wk_issuer_id d)) (wk_grant_id d) = Inr w"
      "wr_definition w = d" "cr_state (wr_receipt w) = ACCEPTED"
      "recorded_scope ext db (ct_scope c) = Inr False"
    using assms by (auto simp: append_tx_def)
  obtain saved where "event_state ext db d = Inr saved"
    using assms w by (auto simp: append_tx_def)
  then show thesis
    using assms w by (intro that) (auto simp: append_tx_def split: if_splits)
qed

lemma append_tx_ok:
  assumes "append_tx ext node db d e cp c env now = Inr (a, db')" and "journal_ok db"
  shows "journal_ok db' \<and> journal_le db db'"
  using assms(1)
proof (rule append_txE)
  fix w saved
  assume "(e_sequence e \<le> sv_count saved \<and> db' = db \<and> ap_reused a \<and> event_audit ext db w = Inr ()
          \<and> (\<exists>old. read_row ext db w (e_sequence e) = Inr old \<and> rc_event (dr_record old) = e
               \<and> ap_data_sha256 a = dr_checksum old))
       \<or> (sv_count saved < e_sequence e \<and> append_new ext db d e w saved cp c env now = Inr (a, db'))"
  then show ?thesis
  proof (elim disjE conjE)
    assume "db' = db"
    then show ?thesis using assms(2) journal_le_refl by simp
  next
    assume "append_new ext db d e w saved cp c env now = Inr (a, db')"
    then show ?thesis using assms(2) by (rule append_new_ok)
  qed
qed

lemma event_append_cases:
  assumes "event_append ext lg d e cp env now = (r, lg')"
  obtains "lg' = lg" "\<not> is_ok r"
  | c a db where "lease_contract ext d = Inr c"
      "append_tx ext (lg_node_id lg) (lg_db lg) d e cp c env now = Inr (a, db)"
      "lg' = lg\<lparr>lg_db := db\<rparr>" "r = Inr a \<or> \<not> is_ok r"
proof (cases "lease_contract ext d")
  case (Inl err)
  then show ?thesis using assms that(1) by (auto simp: event_append_def)
next
  case (Inr c)
  let ?tx = "rbind (check_at ext cp c env 0) (\<lambda>_.
                ensure (\<not> ae_stop env 0) (WorkloadE WorkloadStopped)
                (rbind (check_at ext cp c env 1) (\<lambda>_.
                 rbind (check_at ext cp c env 2) (\<lambda>_.
                 append_tx ext (lg_node_id lg) (lg_db lg) d e cp c env now))))"
  show ?thesis
  proof (cases ?tx)
    case (Inl err)
    then show ?thesis using assms that(1) Inr by (auto simp: event_append_def)
  next
    case tx: (Inr p)
    obtain a db where p: "p = (a, db)" by (cases p)
    have "lg' = lg\<lparr>lg_db := db\<rparr>" using assms Inr tx p by (simp add: event_append_def)
    moreover have "r = Inr a \<or> \<not> is_ok r"
    proof (cases r)
      case (Inr x)
      then have "x = a"
        using assms \<open>lease_contract ext d = Inr c\<close> tx p by (auto simp: event_append_def split: if_splits)
      then show ?thesis using Inr by simp
    qed simp
    ultimately show ?thesis using that(2) Inr tx p by auto
  qed
qed

lemma event_append_ok:
  assumes "event_append ext lg d e cp env now = (r, lg')" and "journal_ok (lg_db lg)"
  shows "journal_ok (lg_db lg') \<and> journal_le (lg_db lg) (lg_db lg')"
  using assms(1)
proof (cases rule: event_append_cases)
  case 1
  then show ?thesis using assms(2) journal_le_refl by simp
next
  case (2 c a db)
  then show ?thesis using append_tx_ok [OF 2(2) assms(2)] by simp
qed

section \<open>Reading back after a touch\<close>

lemma find_receipt:
  assumes "distinct (map r_grant_id (j_receipts db))" and "receipt_of db i = Some r"
  shows "find (\<lambda>r. r_grant_id r = i \<and> Q r) (j_receipts db) = (if Q r then Some r else None)"
proof (cases "Q r")
  case True
  have r: "r \<in> set (j_receipts db)" "r_grant_id r = i" using receipt_of_Some [OF assms(2)] by auto
  obtain x where x: "find (\<lambda>r. r_grant_id r = i \<and> Q r) (j_receipts db) = Some x"
    using r True find_None_all [of "\<lambda>r. r_grant_id r = i \<and> Q r" "j_receipts db"]
    by (cases "find (\<lambda>r. r_grant_id r = i \<and> Q r) (j_receipts db)") auto
  then have "x = r"
    using find_Some_mem [OF x] distinct_key_eq [OF assms(1), of x r] r by simp
  then show ?thesis using x True by simp
next
  case False
  have "find (\<lambda>r. r_grant_id r = i \<and> Q r) (j_receipts db) = None"
    unfolding find_None_all
  proof
    fix x assume "x \<in> set (j_receipts db)"
    then show "\<not> (r_grant_id x = i \<and> Q x)"
      using distinct_key_eq [OF assms(1), of x r] receipt_of_Some [OF assms(2)] False by auto
  qed
  then show ?thesis using False by simp
qed

lemma read_consumed_row:
  assumes "read_consumed ext db node issuer i = Inr c"
    and "distinct (map r_grant_id (j_receipts db))" and "receipt_of db i = Some r"
  shows "cr_state c = r_state r" and "cr_updated_at_ms c = r_updated_ms r"
    and "cr_accepted_at_ms c = r_accepted_ms r" and "cr_grant_sha256 c = r_grant_digest r"
proof -
  obtain x where x: "x \<in> set (j_receipts db)" "r_grant_id x = i" "cr_state c = r_state x"
      "cr_updated_at_ms c = r_updated_ms x" "cr_accepted_at_ms c = r_accepted_ms x"
      "cr_grant_sha256 c = r_grant_digest x"
    using read_consumed_InrD(1) [OF assms(1)] by blast
  have "x = r"
    by (rule distinct_key_eq [OF assms(2) x(1)]) (use x(2) receipt_of_Some [OF assms(3)] in simp_all)
  then show "cr_state c = r_state r" "cr_updated_at_ms c = r_updated_ms r"
    "cr_accepted_at_ms c = r_accepted_ms r" "cr_grant_sha256 c = r_grant_digest r"
    using x by simp_all
qed

text \<open>
  Two journals that differ only in their rows, or in the last two schema versions, look alike to
  the header checks.
\<close>

definition same_header :: "journal \<Rightarrow> journal \<Rightarrow> bool" where
  "same_header a b \<longleftrightarrow> (j_version b = j_version a \<or> j_version a \<in> {4, 5} \<and> j_version b \<in> {4, 5})
     \<and> j_owner b = j_owner a
     \<and> j_workload_columns b = j_workload_columns a \<and> j_event_tables b = j_event_tables a
     \<and> j_progress b = j_progress a"

lemma same_header_owner: "same_header a b \<Longrightarrow> validate_owner b node = validate_owner a node"
  by (auto simp: same_header_def validate_owner_def validate_schema_def event_schema_def)

lemma same_header_schema:
  assumes "same_header a b"
  shows "validate_schema b (j_version b) = validate_schema a (j_version a)"
    and "j_version b < 3 \<longleftrightarrow> j_version a < 3" and "j_version b < 4 \<longleftrightarrow> j_version a < 4"
    and "j_version b < 2 \<longleftrightarrow> j_version a < 2"
  using assms by (auto simp: same_header_def validate_schema_def event_schema_def)

lemma same_header_is_workload:
  assumes "same_header a b" and "receipt_of a i = Some r" and "receipt_of b i = Some r'"
    and "r_receipt_kind r' = r_receipt_kind r" and "r_workload_definition r' = r_workload_definition r"
  shows "is_workload b i = is_workload a i"
  using same_header_schema [OF assms(1)] assms(2-) by (simp add: is_workload_def)

lemma same_header_progress:
  assumes "same_header a b"
  shows "progress_columns b i = progress_columns a i"
proof -
  have "progress_rows b = progress_rows a" "progress_available b = progress_available a"
    using assms by (simp_all add: same_header_def progress_available_def progress_rows_def)
  then show ?thesis by (simp only: progress_columns_def)
qed

text \<open>
  A row that moved along the order reads as the same receipt with its new state and time.
\<close>

lemma read_consumed_replace:
  assumes "read_consumed ext a node issuer i = Inr c" and "same_header a b"
    and "distinct (map r_grant_id (j_receipts a))" and "distinct (map r_grant_id (j_receipts b))"
    and "receipt_of a i = Some r" and "receipt_of b i = Some r'" and "row_le r r'"
    and "r_updated_ms r' \<le> i64_max"
  shows "read_consumed ext b node issuer i
    = Inr (c\<lparr>cr_state := r_state r', cr_updated_at_ms := r_updated_ms r'\<rparr>)"
proof -
  let ?Q = "\<lambda>r. issuer = None \<or> issuer = Some (r_issuer_id r)"
  obtain dg pl ck p where a: "validate_operation_id ext i = Inr ()"
      "case issuer of None \<Rightarrow> True | Some s \<Rightarrow> hex_digest s" "validate_owner a node = Inr ()"
      "progress_columns a i = Inr (dg, pl, ck)" "?Q r"
      "progress_decode ext dg pl ck (r_grant_digest r) = Inr p"
      "c = (consumed_of_row node r)\<lparr>cr_pipeline_progress := p\<rparr>" "consumed_validate ext c = Inr ()"
    using assms(1) find_receipt [OF assms(3,5), of ?Q]
    by (auto simp: read_consumed_def Let_def split: if_splits)
  have ids: "r_issuer_id r' = r_issuer_id r" "r_job_id r' = r_job_id r" "r_task_id r' = r_task_id r"
      "r_attempt r' = r_attempt r" "r_grant_id r' = r_grant_id r" "r_grant_digest r' = r_grant_digest r"
      "r_accepted_ms r' = r_accepted_ms r" "r_updated_ms r \<le> r_updated_ms r'" "r_state r' \<in> row_states"
    using assms(7) by (simp_all add: row_le_def row_key_def)
  let ?c = "c\<lparr>cr_state := r_state r', cr_updated_at_ms := r_updated_ms r'\<rparr>"
  have c': "(consumed_of_row node r')\<lparr>cr_pipeline_progress := p\<rparr> = ?c"
    using a(7) ids by (simp add: consumed_of_row_def)
  have v: "consumed_validate ext ?c = Inr ()"
    using a(7,8) ids(8,9) assms(8)
    by (auto simp: consumed_validate_def consumed_of_row_def row_states_def
        simp del: validate_remote_node_id_ok validate_id_ok split: option.splits)
  show ?thesis
    using a c' v ids find_receipt [OF assms(4,6), of ?Q] same_header_owner [OF assms(2)]
      same_header_progress [OF assms(2)]
    by (simp add: read_consumed_def)
qed

lemma read_consumed_touch:
  assumes "read_consumed ext a node issuer i = Inr c" and "same_header a b"
    and "distinct (map r_grant_id (j_receipts a))" and "distinct (map r_grant_id (j_receipts b))"
    and "receipt_of a i = Some r" and "receipt_of b i = Some (r\<lparr>r_updated_ms := m\<rparr>)"
    and "r_updated_ms r \<le> m" and "m \<le> i64_max" and "r_state r = ACCEPTED"
  shows "read_consumed ext b node issuer i = Inr (c\<lparr>cr_updated_at_ms := m\<rparr>)"
proof -
  have le: "row_le r (r\<lparr>r_updated_ms := m\<rparr>)"
    using assms(7,9) by (simp add: row_le_def row_key_def row_states_def)
  have "cr_state c = ACCEPTED" using read_consumed_row(1) [OF assms(1,3,5)] assms(9) by simp
  then have "c\<lparr>cr_state := ACCEPTED, cr_updated_at_ms := m\<rparr> = c\<lparr>cr_updated_at_ms := m\<rparr>" by simp
  then show ?thesis using read_consumed_replace [OF assms(1-6) le] assms(8,9) by simp
qed

lemma read_coreE:
  assumes "read_core ext db node issuer i = Inr w"
  obtains r raw where "validate_owner db node = Inr ()" and "is_workload db i = Inr True"
    and "read_consumed ext db node issuer i = Inr (wr_receipt w)" and "receipt_of db i = Some r"
    and "r_workload_definition r = Some raw" and "1 \<le> length raw" and "length raw \<le> MAX_DEFINITION_BYTES"
    and "workload_parse ext raw = Some (wr_definition w)" and "workload_text ext (wr_definition w) = raw"
    and "r_max_result_bytes r = ev_max_total_bytes (wk_events (wr_definition w))"
    and "completion_decode ext db i (cr_state (wr_receipt w)) = Inr (wr_completion w)"
    and "workload_receipt_validate ext w = Inr ()"
    and "wr_schema_version w = (if wr_completion w \<noteq> None then 3 else 2)"
    and "wr_execution_authorized w = False" and "wr_restart_authorized w = False"
  using assms by (auto simp: read_core_def Let_def)

lemma workload_receipt_valid_facts:
  assumes "workload_receipt_validate ext w = Inr ()"
  shows "consumed_validate ext (wr_receipt w) = Inr ()" and "cr_pipeline_progress (wr_receipt w) = None"
    and "cr_state (wr_receipt w) = ACCEPTED \<Longrightarrow> wr_completion w = None"
    and "workload_scope ext (wr_definition w) = Inr \<lparr>sc_grant_id = cr_grant_id (wr_receipt w),
       sc_grant_sha256 = cr_grant_sha256 (wr_receipt w), sc_issuer_id = cr_issuer_id (wr_receipt w),
       sc_session_id = wk_session_id (wr_definition w), sc_executor_node = cr_node_id (wr_receipt w),
       sc_job_id = cr_job_id (wr_receipt w), sc_task_id = cr_task_id (wr_receipt w),
       sc_attempt = cr_attempt (wr_receipt w)\<rparr>"
  using assms
  by (auto simp: workload_receipt_validate_def workload_scope_def identity_scope_def split: option.splits if_splits)

lemma workload_receipt_touched:
  assumes "workload_receipt_validate ext w = Inr ()" and "cr_state (wr_receipt w) = ACCEPTED"
    and "cr_updated_at_ms (wr_receipt w) \<le> m" and "m \<le> i64_max"
  shows "workload_receipt_validate ext (touched m w) = Inr ()"
proof -
  note V = workload_receipt_valid_facts [OF assms(1)]
  have "consumed_validate ext (wr_receipt (touched m w)) = Inr ()"
    using V(1,2) assms(3,4) by (auto simp: consumed_validate_def touched_def
        simp del: validate_remote_node_id_ok validate_id_ok)
  then show ?thesis
    using assms(1,2) V(3) by (auto simp: workload_receipt_validate_def touched_def)
qed

lemma read_core_touch:
  assumes "read_core ext a node issuer i = Inr w" and "same_header a b"
    and "distinct (map r_grant_id (j_receipts a))" and "distinct (map r_grant_id (j_receipts b))"
    and "receipt_of a i = Some r" and "receipt_of b i = Some (r\<lparr>r_updated_ms := m\<rparr>)"
    and "r_updated_ms r \<le> m" and "m \<le> i64_max" and "cr_state (wr_receipt w) = ACCEPTED"
  shows "read_core ext b node issuer i = Inr (touched m w)"
  using assms(1)
proof (rule read_coreE)
  fix r' raw
  assume o: "validate_owner a node = Inr ()" and iw: "is_workload a i = Inr True"
    and rc: "read_consumed ext a node issuer i = Inr (wr_receipt w)"
    and r': "receipt_of a i = Some r'" and raw: "r_workload_definition r' = Some raw"
    "1 \<le> length raw" "length raw \<le> MAX_DEFINITION_BYTES"
    "workload_parse ext raw = Some (wr_definition w)" "workload_text ext (wr_definition w) = raw"
    "r_max_result_bytes r' = ev_max_total_bytes (wk_events (wr_definition w))"
    and cd: "completion_decode ext a i (cr_state (wr_receipt w)) = Inr (wr_completion w)"
    and v: "workload_receipt_validate ext w = Inr ()"
    and w: "wr_schema_version w = (if wr_completion w \<noteq> None then 3 else 2)"
      "wr_execution_authorized w = False" "wr_restart_authorized w = False"
  have rr: "r' = r" using r' assms(5) by simp
  note V = workload_receipt_valid_facts [OF v]
  have open_row: "r_state r = ACCEPTED" using read_consumed_row(1) [OF rc assms(3,5)] assms(9) by simp
  have rc': "read_consumed ext b node issuer i = Inr (wr_receipt (touched m w))"
    using read_consumed_touch [OF rc assms(2-8) open_row] by (simp add: touched_def)
  have iw': "is_workload b i = Inr True"
    using iw same_header_is_workload [OF assms(2,5,6)] by simp
  have cd': "completion_decode ext b i (cr_state (wr_receipt (touched m w))) = Inr (wr_completion (touched m w))"
    using cd assms(5,6,9) by (auto simp: completion_decode_def touched_def)
  have upd: "cr_updated_at_ms (wr_receipt w) = r_updated_ms r"
    by (rule read_consumed_row(2) [OF rc assms(3,5)])
  have v': "workload_receipt_validate ext (touched m w) = Inr ()"
    by (rule workload_receipt_touched [OF v assms(9)]) (use assms(7,8) upd in simp_all)
  have w': "\<lparr>wr_schema_version = (if wr_completion w \<noteq> None then 3 else 2), wr_receipt = wr_receipt (touched m w),
              wr_definition = wr_definition w, wr_execution_authorized = False,
              wr_restart_authorized = False, wr_completion = wr_completion w\<rparr> = touched m w"
    by (rule workload_receipt.equality) (simp_all add: touched_def w)
  show ?thesis
    using same_header_owner [OF assms(2)] o iw' rc' cd' v' raw rr assms(6) w'
    by (simp add: read_core_def Let_def)
qed

section \<open>Receipt after an append\<close>

lemma receipt_of_update:
  assumes "receipt_of db i = Some r" and "j_receipts db' = update_rows P f (j_receipts db)"
    and "\<And>x. r_grant_id (f x) = r_grant_id x"
  shows "receipt_of db' i = Some (if P r then f r else r)"
proof -
  have "find (\<lambda>r. r_grant_id r = i) (update_rows P f rs)
      = map_option (\<lambda>x. if P x then f x else x) (find (\<lambda>r. r_grant_id r = i) rs)" for rs
    using assms(3) by (induction rs) (auto simp: update_rows_def)
  then show ?thesis using assms(1,2) by (simp add: receipt_of_def)
qed

lemma read_core_row:
  assumes "read_core ext db node issuer i = Inr w" and "journal_ok db"
  obtains r where "receipt_of db i = Some r" and "r_state r = cr_state (wr_receipt w)"
    and "r_updated_ms r = cr_updated_at_ms (wr_receipt w)" and "r_accepted_ms r = cr_accepted_at_ms (wr_receipt w)"
    and "r_grant_digest r = cr_grant_sha256 (wr_receipt w)"
proof -
  obtain r where rc: "read_consumed ext db node issuer i = Inr (wr_receipt w)"
    and r: "receipt_of db i = Some r"
    using assms(1) by (rule read_coreE) blast
  show thesis by (rule that [OF r]) (simp_all add: read_consumed_row [OF rc journal_okD(1) [OF assms(2)] r])
qed

lemma wk_ids_of_scope:
  "workload_receipt_validate ext w = Inr () \<Longrightarrow> wk_grant_id (wr_definition w) = cr_grant_id (wr_receipt w)"
  by (drule workload_receipt_valid_facts(4)) (auto simp: workload_scope_def identity_scope_def)

text \<open>
  The receipt that was read before a new event was saved is read again afterwards, with the
  same definition, a later time, and an event evidence one longer that passes the audit.
\<close>

lemma append_read_back:
  assumes codec: "record_codec ext (new_record w cp e now)" and hex: "\<And>s. hex_digest (sha256_hex ext s)"
    and ok: "journal_ok db" and version: "4 \<le> j_version db"
    and read: "read_workload ext db node (Some (wk_issuer_id d)) (wk_grant_id d) = Inr w"
    and tx: "append_tx ext node db d e cp c env now = Inr (a, db')" and new: "\<not> ap_reused a"
    and cp: "cp_sequence cp > 0"
  shows "\<exists>m saved. read_workload ext db' node (Some (wk_issuer_id d)) (wk_grant_id d) = Inr (touched m w)
      \<and> event_state ext db d = Inr saved \<and> e_sequence e = sv_count saved + 1
      \<and> event_state ext db' d = Inr \<lparr>sv_count = sv_count saved + 1,
           sv_bytes = sv_bytes saved + length (event_text ext e),
           sv_prefix = next_prefix ext (sv_prefix saved)
             (sha256_hex ext (record_text ext (new_record w cp e now)))\<rparr>"
  using tx
proof (rule append_txE)
  fix w' saved
  assume core': "read_core ext db node (Some (wk_issuer_id d)) (wk_grant_id d) = Inr w'"
    and d': "wr_definition w' = d" and acc': "cr_state (wr_receipt w') = ACCEPTED"
    and st: "event_state ext db d = Inr saved"
    and alt: "(e_sequence e \<le> sv_count saved \<and> db' = db \<and> ap_reused a \<and> event_audit ext db w' = Inr ()
          \<and> (\<exists>old. read_row ext db w' (e_sequence e) = Inr old \<and> rc_event (dr_record old) = e
               \<and> ap_data_sha256 a = dr_checksum old))
       \<or> (sv_count saved < e_sequence e \<and> append_new ext db d e w' saved cp c env now = Inr (a, db'))"
  have core: "read_core ext db node (Some (wk_issuer_id d)) (wk_grant_id d) = Inr w"
    and audit: "event_audit ext db w = Inr ()" using read by (auto simp: read_workload_def)
  have "w' = w" using core core' by simp
  note d = d' [unfolded this] and acc = acc' [unfolded this]
  have an: "append_new ext db (wr_definition w) e w saved cp c env now = Inr (a, db')"
    using alt new \<open>w' = w\<close> d by auto
  have valid: "workload_receipt_validate ext w = Inr ()" using core by (rule read_coreE)
  note V = workload_receipt_valid_facts [OF valid]
  have times: "cr_accepted_at_ms (wr_receipt w) \<le> cr_updated_at_ms (wr_receipt w)"
    using V(1) by (simp add: consumed_validate_def)
  let ?m = "rc_recorded_at_ms (new_record w cp e now)"
  note A = append_audit [OF codec hex audit version V(3) [OF acc] _ an cp times]
  have A': "event_audit ext db' (touched ?m w) = Inr ()"
    "event_state ext db' d = Inr \<lparr>sv_count = sv_count saved + 1,
           sv_bytes = sv_bytes saved + length (event_text ext e),
           sv_prefix = next_prefix ext (sv_prefix saved)
             (sha256_hex ext (record_text ext (new_record w cp e now)))\<rparr>"
    "e_sequence e = sv_count saved + 1"
    using A st d by simp_all
  obtain r where r: "receipt_of db (wk_grant_id d) = Some r" "r_state r = ACCEPTED"
      "r_updated_ms r = cr_updated_at_ms (wr_receipt w)" "r_accepted_ms r = cr_accepted_at_ms (wr_receipt w)"
    using read_core_row [OF core ok] acc by metis
  obtain row b where db': "db' = save_event d row b ?m db" and i64: "?m \<le> i64_max"
    using an d by (auto elim!: append_new_InrD)
  have le: "r_updated_ms r \<le> ?m" "r_accepted_ms r \<le> ?m"
    using r times by (simp_all add: new_record_def)
  have r': "receipt_of db' (wk_grant_id d) = Some (r\<lparr>r_updated_ms := ?m\<rparr>)"
    using receipt_of_update [OF r(1), of db'] r(1,2) le receipt_of_Some [OF r(1)]
    by (simp add: db' save_event_def max_def)
  have "read_core ext db' node (Some (wk_issuer_id d)) (wk_grant_id d) = Inr (touched ?m w)"
  proof (rule read_core_touch [OF core _ journal_okD(1) [OF ok] _ r(1) r' le(1) i64 acc])
    show "same_header db db'" by (simp add: same_header_def db' save_event_def)
    show "distinct (map r_grant_id (j_receipts db'))" using append_tx_ok [OF tx ok] journal_okD(1) by blast
  qed
  then have "read_workload ext db' node (Some (wk_issuer_id d)) (wk_grant_id d) = Inr (touched ?m w)"
    using A'(1) by (simp add: read_workload_def)
  then show ?thesis using A'(2,3) st by blast
qed

end
