(* ===== verification/Retained_Result.thy ===== *)
theory Retained_Result
  imports Event_Evidence
begin

text \<open>
  Read-only terminal evidence of an ordinary grant (\<^verbatim>\<open>request_result.rs\<close>): the retained final
  report, its validation against the consumed receipt, and the reads of the ledger.
\<close>

record retained_result =
  rt_schema_version :: nat
  rt_receipt :: consumed_receipt
  rt_max_result_bytes :: nat
  rt_availability :: string
  rt_report :: "grant_report option"
  rt_report_sha256 :: "string option"

text \<open>The last condition of \<^verbatim>\<open>RetainedResult::validate\<close>, on a report that must be there.\<close>

definition final_report_ok ::
  "'x grant_externals_scheme \<Rightarrow> retained_result \<Rightarrow> grant_report \<Rightarrow> bool" where
  "final_report_ok ext x r \<longleftrightarrow>
     rt_availability x = ''retained_final_report''
     \<and> (case rt_report_sha256 x of None \<Rightarrow> False
         | Some s \<Rightarrow> hex_digest s \<and> definition_digest ext (report_json ext r) = s)
     \<and> gr_schema_version r = 1 \<and> gr_grant_id r = cr_grant_id (rt_receipt x)
     \<and> gr_grant_sha256 r = cr_grant_sha256 (rt_receipt x)
     \<and> gr_issuer_id r = cr_issuer_id (rt_receipt x)
     \<and> gr_executor_node r = cr_node_id (rt_receipt x) \<and> gr_job_id r = cr_job_id (rt_receipt x)
     \<and> gr_task_id r = cr_task_id (rt_receipt x) \<and> gr_attempt r = cr_attempt (rt_receipt x)
     \<and> uuid_parse ext (gr_session_id r) \<noteq> Some 0 \<and> hex_digest (gr_plan_sha256 r)
     \<and> gr_accepted r \<and> gr_persisted r \<and> gr_execution_may_have_started r
     \<and> (gr_state r = Completed \<or> gr_state r = Unknown)
     \<and> cr_state (rt_receipt x) = (if gr_state r = Completed then COMPLETED else UNKNOWN)
     \<and> gr_success r = (gr_state r = Completed \<and> gr_error_code r = None)
     \<and> (case gr_error_code r of None \<Rightarrow> True | Some c \<Rightarrow> is_identifier c)
     \<and> \<not> (gr_state r = Unknown \<and> (gr_data r \<noteq> JNull \<or> gr_error_code r = None))
     \<and> length (json_text ext (gr_data r)) \<le> rt_max_result_bytes x
     \<and> length (report_text ext r) \<le> rt_max_result_bytes x + REPORT_HEADROOM"

definition retained_validate ::
  "'x grant_externals_scheme \<Rightarrow> retained_result \<Rightarrow> unit result" where
  "retained_validate ext x =
     rbind (consumed_validate ext (rt_receipt x)) (\<lambda>_.
     ensure (rt_schema_version x = 1) (JournalE ReceiptDamaged)
     (if rt_max_result_bytes x = 0 then
        ensure (rt_availability x = ''legacy_metadata_only'' \<and> rt_report x = None
            \<and> rt_report_sha256 x = None) (JournalE ReceiptDamaged) (Inr ())
      else
        ensure (1024 \<le> rt_max_result_bytes x \<and> rt_max_result_bytes x \<le> 1024 * 1024)
          (JournalE ReceiptDamaged)
        (if cr_state (rt_receipt x) = ACCEPTED then
           ensure (rt_availability x = ''no_final_checkpoint'' \<and> rt_report x = None
               \<and> rt_report_sha256 x = None) (JournalE ReceiptDamaged) (Inr ())
         else
           rbind (or_err (rt_report x) (JournalE ReceiptDamaged)) (\<lambda>r.
           rbind (validate_operation_id ext (gr_session_id r)) (\<lambda>_.
           ensure (final_report_ok ext x r) (JournalE ReceiptDamaged) (Inr ()))))))"

definition retained_confirms ::
  "'x grant_externals_scheme \<Rightarrow> retained_result \<Rightarrow> execution_grant \<Rightarrow> bool" where
  "retained_confirms ext x g \<longleftrightarrow>
     is_ok (retained_validate ext x) \<and> consumed_confirms ext (rt_receipt x) g
     \<and> (rt_max_result_bytes x = 0 \<or> rt_max_result_bytes x = gl_max_result_bytes (g_limits g))
     \<and> (case rt_report x of None \<Rightarrow> True | Some r \<Rightarrow> report_confirms ext r g)"

text \<open>Version 1 has no report columns, so the row's defaults are never looked at.\<close>

definition read_in_snapshot ::
  "'x journal_externals_scheme \<Rightarrow> journal \<Rightarrow> string \<Rightarrow> string option \<Rightarrow> string
   \<Rightarrow> retained_result result" where
  "read_in_snapshot ext db node issuer i =
     rbind (is_workload db i) (\<lambda>workload.
     ensure (\<not> workload) (JournalE ReceiptKind)
     (rbind (read_consumed ext db node issuer i) (\<lambda>receipt.
      let base = \<lparr>rt_schema_version = 1, rt_receipt = receipt, rt_max_result_bytes = 0,
                  rt_availability = ''legacy_metadata_only'', rt_report = None,
                  rt_report_sha256 = None\<rparr> in
      rbind (if j_version db < 2 then Inr base
             else
               rbind (or_err (receipt_of db i) (JournalE ReceiptMissing)) (\<lambda>row.
               ensure (case r_report row of None \<Rightarrow> True
                   | Some raw \<Rightarrow> length raw \<le> r_max_result_bytes row + REPORT_HEADROOM)
                 (JournalE ReceiptDamaged)
               (rbind (case r_report row of
                         None \<Rightarrow> Inr None
                       | Some raw \<Rightarrow>
                           if length raw \<le> 1024 * 1024 + REPORT_HEADROOM then
                             rbind (or_err (report_parse ext raw) (JournalE ReceiptDamaged)) (\<lambda>r. Inr (Some r))
                           else Inr None) (\<lambda>report.
                Inr (base\<lparr>rt_max_result_bytes := r_max_result_bytes row, rt_report := report,
                          rt_report_sha256 := r_report_sha256 row,
                          rt_availability :=
                            (if r_max_result_bytes row > 0 then
                               (if cr_state receipt = ACCEPTED then ''no_final_checkpoint''
                                else ''retained_final_report'')
                             else ''legacy_metadata_only'')\<rparr>)))))
        (\<lambda>x. rbind (retained_validate ext x) (\<lambda>_. Inr x)))))"

definition ledger_result ::
  "'x journal_externals_scheme \<Rightarrow> ledger \<Rightarrow> string \<Rightarrow> string \<Rightarrow> string \<Rightarrow> retained_result result" where
  "ledger_result ext lg issuer i expected =
     rbind (read_in_snapshot ext (lg_db lg) (lg_node_id lg) (Some issuer) i) (\<lambda>x.
     ensure (cr_grant_sha256 (rt_receipt x) = expected) (JournalE ReceiptChanged) (Inr x))"

section \<open>Read back after a final report\<close>

text \<open>The documented round trip of serde on a report.\<close>

definition report_codec :: "'x grant_externals_scheme \<Rightarrow> grant_report \<Rightarrow> bool" where
  "report_codec ext r \<longleftrightarrow> report_parse ext (report_text ext r) = Some r"

lemma terminal_report_ok:
  assumes "report_confirms ext r g" and "gr_persisted r" and "terminal_state (gr_state r) = Inr st"
    and "grant_validate ext g = Inr ()" and "\<And>s. hex_digest (sha256_hex ext s)"
    and "length (report_text ext r) \<le> gl_max_result_bytes (g_limits g) + REPORT_HEADROOM"
    and "rt_availability x = ''retained_final_report''"
    and "rt_report_sha256 x = Some (definition_digest ext (report_json ext r))"
    and "rt_max_result_bytes x = gl_max_result_bytes (g_limits g)"
    and "cr_grant_id (rt_receipt x) = g_grant_id g" and "cr_grant_sha256 (rt_receipt x) = grant_digest ext g"
    and "cr_issuer_id (rt_receipt x) = g_issuer_id g" and "cr_node_id (rt_receipt x) = g_executor_node g"
    and "cr_job_id (rt_receipt x) = g_job_id g" and "cr_task_id (rt_receipt x) = g_task_id g"
    and "cr_attempt (rt_receipt x) = g_attempt g" and "cr_state (rt_receipt x) = st"
  shows "final_report_ok ext x r"
proof -
  have st: "(gr_state r = Completed \<and> st = COMPLETED) \<or> (gr_state r = Unknown \<and> st = UNKNOWN)"
    using assms(3) by (simp add: terminal_state_iff)
  have ids: "gr_schema_version r = 1" "gr_grant_id r = g_grant_id g" "grant_digest ext g = gr_grant_sha256 r"
      "gr_issuer_id r = g_issuer_id g" "gr_session_id r = g_session_id g"
      "gr_executor_node r = g_executor_node g" "gr_job_id r = g_job_id g" "gr_task_id r = g_task_id g"
      "gr_attempt r = g_attempt g" "gr_plan_sha256 r = g_plan_sha256 g"
    using assms(1) by (simp_all add: report_confirms_def)
  have conf: "gr_accepted r = (gr_state r \<noteq> Rejected)"
      "gr_execution_may_have_started r = may_have_started (gr_state r)"
      "case gr_error_code r of None \<Rightarrow> True | Some c \<Rightarrow> is_identifier c"
      "length (json_text ext (gr_data r)) \<le> gl_max_result_bytes (g_limits g)"
      "case gr_state r of
          Rejected \<Rightarrow> \<not> gr_success r \<and> gr_data r = JNull \<and> gr_error_code r \<noteq> None
        | Unknown \<Rightarrow> \<not> gr_success r \<and> gr_data r = JNull \<and> gr_error_code r \<noteq> None
        | Completed \<Rightarrow> gr_success r = (gr_error_code r = None)
        | Accepted \<Rightarrow> True"
    using assms(1) unfolding report_confirms_def by blast+
  have flags: "gr_accepted r" "gr_execution_may_have_started r"
      "gr_success r = (gr_state r = Completed \<and> gr_error_code r = None)"
      "\<not> (gr_state r = Unknown \<and> (gr_data r \<noteq> JNull \<or> gr_error_code r = None))"
    using st conf(1,2,5) by (auto simp: may_have_started_def)
  have st': "gr_state r = Completed \<or> gr_state r = Unknown"
      "cr_state (rt_receipt x) = (if gr_state r = Completed then COMPLETED else UNKNOWN)"
    using st assms(17) by auto
  have hex: "hex_digest (definition_digest ext (report_json ext r))"
    by (simp add: definition_digest_def assms(5))
  show ?thesis
    unfolding final_report_ok_def assms(7-16) ids [symmetric]
    using assms(2,6) st' flags conf(3,4) hex grant_validate_InrD(3,9) [OF assms(4)]
    by (intro conjI) (simp_all add: ids)
qed

lemma finish_where_row:
  assumes "finish ext lg g report now = Inr lg'" and "journal_ok (lg_db lg)"
  obtains r st where "receipt_of (lg_db lg) (g_grant_id g) = Some r" and "finish_where ext g r"
    and "terminal_state (gr_state report) = Inr st"
    and "receipt_of (lg_db lg') (g_grant_id g) = Some (finish_set ext report st now r)"
    and "row_le r (finish_set ext report st now r)" and "report_confirms ext report g"
    and "gr_persisted report"
  using assms(1)
proof (rule finish_InrD)
  fix st
  assume st: "terminal_state (gr_state report) = Inr st"
    and lg': "lg' = lg\<lparr>lg_db := (lg_db lg)\<lparr>j_receipts := update_rows (finish_where ext g)
          (finish_set ext report st now) (j_receipts (lg_db lg))\<rparr>\<rparr>"
    and one: "count_if (finish_where ext g) (j_receipts (lg_db lg)) = 1"
    and conf: "report_confirms ext report g" "gr_persisted report"
  have "count_if (finish_where ext g) (j_receipts (lg_db lg)) \<noteq> 0" using one by simp
  then obtain r where r: "r \<in> set (j_receipts (lg_db lg))" "finish_where ext g r"
    unfolding count_if_0_iff by blast
  then have rc: "receipt_of (lg_db lg) (g_grant_id g) = Some r"
    using receipt_of_mem [OF journal_okD(1) [OF assms(2)] r(1)] by (simp add: finish_where_def)
  have "receipt_of (lg_db lg') (g_grant_id g) = Some (finish_set ext report st now r)"
    using receipt_of_update [OF rc, of "lg_db lg'" "finish_where ext g" "finish_set ext report st now"] r(2)
    by (simp add: lg' finish_set_def)
  moreover have "row_le r (finish_set ext report st now r)"
    using finish_forward [OF st, of ext g report now "lg_db lg"] r by (simp add: forward_def)
  ultimately show thesis using that [OF rc r(2) st] conf by blast
qed

lemma finish_fields:
  "finish ext lg g report now = Inr lg' \<Longrightarrow> lg_node_id lg' = lg_node_id lg
     \<and> same_header (lg_db lg) (lg_db lg') \<and> now \<le> i64_max
     \<and> length (report_text ext report) \<le> gl_max_result_bytes (g_limits g) + REPORT_HEADROOM"
  using saturating_add_bounds(2) order_trans
  by (fastforce simp: finish_def same_header_def)

lemma finish_read_back:
  assumes codec: "report_codec ext report" and hex: "\<And>s. hex_digest (sha256_hex ext s)"
    and ok: "journal_ok (lg_db lg)" and fin: "finish ext lg g report now = Inr lg'"
    and version: "2 \<le> j_version (lg_db lg)"
    and read: "read_in_snapshot ext (lg_db lg) (lg_node_id lg) (Some (g_issuer_id g)) (g_grant_id g) = Inr x"
    and conf: "consumed_confirms ext (rt_receipt x) g"
  shows "\<exists>y. ledger_result ext lg' (g_issuer_id g) (g_grant_id g) (grant_digest ext g) = Inr y
      \<and> rt_report y = Some report \<and> retained_confirms ext y g"
proof -
  obtain r st where r: "receipt_of (lg_db lg) (g_grant_id g) = Some r" and fw: "finish_where ext g r"
    and st: "terminal_state (gr_state report) = Inr st"
    and r': "receipt_of (lg_db lg') (g_grant_id g) = Some (finish_set ext report st now r)"
    and le: "row_le r (finish_set ext report st now r)"
    and rep: "report_confirms ext report g" "gr_persisted report"
    using fin ok by (rule finish_where_row)
  note F = finish_fields [OF fin]
  have gv: "grant_validate ext g = Inr ()" using conf by (auto simp: consumed_confirms_def is_ok_unit)
  have wl: "is_workload (lg_db lg) (g_grant_id g) = Inr False"
    and rc: "read_consumed ext (lg_db lg) (lg_node_id lg) (Some (g_issuer_id g)) (g_grant_id g) = Inr (rt_receipt x)"
    using read by (auto simp: read_in_snapshot_def Let_def split: if_splits option.splits)
  note row = read_consumed_row [OF rc journal_okD(1) [OF ok] r]
  have valid: "consumed_validate ext (rt_receipt x) = Inr ()" by (rule read_consumed_InrD(2) [OF rc])
  let ?r = "finish_set ext report st now r"
  let ?c = "(rt_receipt x)\<lparr>cr_state := st, cr_updated_at_ms := r_updated_ms ?r\<rparr>"
  have i64: "r_updated_ms ?r \<le> i64_max"
    using valid row F by (auto simp: consumed_validate_def finish_set_def)
  have rc': "read_consumed ext (lg_db lg') (lg_node_id lg') (Some (g_issuer_id g)) (g_grant_id g) = Inr ?c"
    using read_consumed_replace [OF rc _ journal_okD(1) [OF ok] _ r r' le i64] F
      journal_okD(1) [OF conjunct1 [OF finish_ok [OF fin ok]]] by (simp add: finish_set_def)
  have wl': "is_workload (lg_db lg') (g_grant_id g) = Inr False"
    using wl same_header_is_workload [OF conjunct1 [OF conjunct2 [OF F]] r r'] by (simp add: finish_set_def)
  let ?y = "\<lparr>rt_schema_version = 1, rt_receipt = ?c, rt_max_result_bytes = gl_max_result_bytes (g_limits g),
             rt_availability = ''retained_final_report'', rt_report = Some report,
             rt_report_sha256 = Some (definition_digest ext (report_json ext report))\<rparr>"
  have st': "st = COMPLETED \<or> st = UNKNOWN" using st by (auto simp: terminal_state_iff)
  have fro: "final_report_ok ext ?y report"
    by (rule terminal_report_ok [OF rep st gv hex])
       (use conf F in \<open>simp_all add: consumed_confirms_def\<close>)
  have sess: "validate_operation_id ext (gr_session_id report) = Inr ()"
    using rep(1) grant_validate_InrD(2) [OF gv] by (simp add: report_confirms_def)
  have cv: "consumed_validate ext ?c = Inr ()" by (rule read_consumed_InrD(2) [OF rc'])
  have val: "retained_validate ext ?y = Inr ()"
    using cv fro sess st' grant_validate_InrD(12,13) [OF gv]
    by (auto simp: retained_validate_def)
  have bounds: "length (report_text ext report) \<le> 1024 * 1024 + REPORT_HEADROOM"
    using F grant_validate_InrD(13) [OF gv] by simp
  have "read_in_snapshot ext (lg_db lg') (lg_node_id lg') (Some (g_issuer_id g)) (g_grant_id g) = Inr ?y"
    using wl' rc' version F r' fw codec val bounds st' grant_validate_InrD(12) [OF gv]
      same_header_schema(4) [OF conjunct1 [OF conjunct2 [OF F]]]
    by (auto simp: read_in_snapshot_def Let_def finish_set_def finish_where_def report_codec_def)
  moreover have "cr_grant_sha256 ?c = grant_digest ext g" using conf by (simp add: consumed_confirms_def)
  moreover have "retained_confirms ext ?y g"
    using val conf rep cv by (auto simp: retained_confirms_def consumed_confirms_def is_ok_unit)
  ultimately show ?thesis by (intro exI [of _ ?y]) (simp add: ledger_result_def)
qed

end
