(* ===== verification/Workload_Receipts.thy ===== *)
theory Workload_Receipts
  imports Retained_Result
begin

text \<open>
  Consumption and completion of a continuous workload (\<^verbatim>\<open>workload_receipts.rs\<close>,
  \<^verbatim>\<open>workload_completion.rs\<close>, \<^verbatim>\<open>workload_finalization.rs\<close>, \<^verbatim>\<open>workload_inspection.rs\<close>): the schema
  upgrades inside the consuming transaction, admission, acknowledgement, the two final saves
  (uncertainty and completion) and the read-only inspection.

  A final save runs on the journal worker after the source is retired; here it is the
  operation \<open>run_final\<close>. Concurrent readings of the stop watcher and of the clocks are
  arguments. Rows written by an older schema carry the default values of the columns that
  the migration adds.
\<close>

section \<open>Upgrades\<close>

primrec check_each :: "(string \<Rightarrow> unit result) \<Rightarrow> string list \<Rightarrow> unit result" where
  "check_each f [] = Inr ()"
| "check_each f (i # is) = rbind (f i) (\<lambda>_. check_each f is)"

primrec initialize_each ::
  "'x workload_journal_externals_scheme \<Rightarrow> string \<Rightarrow> string list \<Rightarrow> journal \<Rightarrow> journal result" where
  "initialize_each ext node [] db = Inr db"
| "initialize_each ext node (i # is) db =
     rbind (read_core ext db node None i) (\<lambda>w.
     rbind (event_initialize ext (wr_definition w) db) (initialize_each ext node is))"

definition workload_ids :: "journal \<Rightarrow> string list" where
  "workload_ids db = map r_grant_id (filter (\<lambda>r. r_receipt_kind r = ''workload'') (j_receipts db))"

definition event_upgrade ::
  "'x workload_journal_externals_scheme \<Rightarrow> string \<Rightarrow> journal \<Rightarrow> journal result" where
  "event_upgrade ext node db =
     rbind (event_schema db (j_version db)) (\<lambda>_.
     if j_version db \<in> {4, 5} then Inr db
     else
       ensure (j_version db = 3) (JournalE JournalVersion)
       (rbind (check_each (\<lambda>i. rbind (read_workload ext db node None i) (\<lambda>_. Inr ())) (workload_ids db)) (\<lambda>_.
        rbind (initialize_each ext node (workload_ids db)
                 (db\<lparr>j_event_tables := True, j_version := 4\<rparr>)) (\<lambda>db1.
        rbind (event_schema db1 4) (\<lambda>_. Inr db1)))))"

definition workload_upgrade ::
  "'x workload_journal_externals_scheme \<Rightarrow> string \<Rightarrow> journal \<Rightarrow> journal result" where
  "workload_upgrade ext node db =
     rbind (validate_owner db node) (\<lambda>_.
     if j_version db \<in> {3, 4, 5} then event_upgrade ext node db
     else
       ensure (j_version db = 2) (JournalE JournalVersion)
       (rbind (check_each (\<lambda>i. rbind (read_in_snapshot ext db node None i) (\<lambda>_. Inr ()))
                 (map r_grant_id (j_receipts db))) (\<lambda>_.
        rbind (stop_validate_all ext db node) (\<lambda>_.
        let db1 = db\<lparr>j_workload_columns := True, j_version := 3\<rparr> in
        rbind (validate_schema db1 3) (\<lambda>_. event_upgrade ext node db1)))))"

definition completion_upgrade ::
  "'x workload_journal_externals_scheme \<Rightarrow> string \<Rightarrow> journal \<Rightarrow> journal result" where
  "completion_upgrade ext node db =
     ensure (j_version db \<in> {4, 5}) (JournalE JournalVersion)
     (if j_version db = 5 then Inr db
      else
        rbind (check_each (\<lambda>i. rbind (is_workload db i) (\<lambda>workload.
            if workload then rbind (read_workload ext db node None i) (\<lambda>_. Inr ())
            else rbind (read_in_snapshot ext db node None i) (\<lambda>_. Inr ())))
          (map r_grant_id (j_receipts db))) (\<lambda>_.
        rbind (stop_validate_all ext db node) (\<lambda>_.
        let db1 = db\<lparr>j_version := 5\<rparr> in
        rbind (validate_schema db1 5) (\<lambda>_. Inr db1))))"

section \<open>Consumption\<close>

record consumption =
  cn_contract :: contract
  cn_policy :: lease_policy
  cn_initial :: "lease_proof option"
  cn_reporting :: reporting
  cn_final_slot :: bool

record consume_env =
  ce_now1 :: instant   \<comment> \<open>first deadline check\<close>
  ce_now2 :: instant   \<comment> \<open>deadline check inside the transaction\<close>
  ce_now3 :: instant   \<comment> \<open>the two checks of the acknowledgement\<close>
  ce_now4 :: instant
  ce_late_failed :: bool   \<comment> \<open>the second reading of the failure latch\<close>
  ce_stop :: bool   \<comment> \<open>a stop signalled during the acknowledgement\<close>
  ce_wall :: nat

definition workload_row :: "'x workload_journal_externals_scheme \<Rightarrow> workload \<Rightarrow> scope \<Rightarrow> nat \<Rightarrow> receipt_row" where
  "workload_row ext d s now =
     \<lparr>r_issuer_id = wk_issuer_id d, r_job_id = wk_job_id d, r_task_id = wk_task_id d,
      r_attempt = wk_attempt d, r_grant_id = wk_grant_id d, r_grant_digest = sc_grant_sha256 s,
      r_state = ACCEPTED, r_accepted_ms = now, r_updated_ms = now,
      r_max_result_bytes = ev_max_total_bytes (wk_events d), r_report = None,
      r_report_sha256 = None, r_receipt_kind = ''workload'',
      r_workload_definition = Some (workload_text ext d)\<rparr>"

definition consume_tx ::
  "'x workload_journal_externals_scheme \<Rightarrow> ledger \<Rightarrow> workload \<Rightarrow> contract \<Rightarrow> lease_policy \<Rightarrow> lease_proof
   \<Rightarrow> consume_env \<Rightarrow> journal result" where
  "consume_tx ext lg d c policy pf env =
     rbind (check_attempt_slot ext (lg_db lg) (ct_scope c)) (\<lambda>_.
     rbind (workload_upgrade ext (lg_node_id lg) (lg_db lg)) (\<lambda>db1.
     rbind (event_reservation db1 d) (\<lambda>reserved.
     rbind (or_err (checked_add (length (workload_text ext d)) reserved) IntConversion) (\<lambda>bytes.
     rbind (check_receipt_budget db1 (lg_policy lg) (ev_max_total_bytes (wk_events d)) bytes False) (\<lambda>_.
     ensure (lg_final_slots lg > 0) (WorkloadE FinalBusy)
     (ensure (\<not> ce_late_failed env) (WorkloadE FinalFailed)
     (rbind (initial_deadline ext pf c policy (ce_now2 env)) (\<lambda>_.
      rbind (to_i64 (max (ce_wall env) 1)) (\<lambda>now.
      rbind (insert_receipt (workload_row ext d (ct_scope c) now) db1) (\<lambda>db2.
      event_initialize ext d db2))))))))))"

definition acknowledgement ::
  "'x workload_journal_externals_scheme \<Rightarrow> ledger \<Rightarrow> consumption \<Rightarrow> instant \<Rightarrow> instant \<Rightarrow> bool
   \<Rightarrow> workload_receipt result" where
  "acknowledgement ext lg cn now1 now2 stopped_late =
     (let s = ct_scope (cn_contract cn) in
      rbind (or_err (cn_initial cn) (WorkloadE WorkloadChanged)) (\<lambda>pf.
      rbind (initial_deadline ext pf (cn_contract cn) (cn_policy cn) now1) (\<lambda>_.
      ensure (\<not> watch_stopped lg (sc_grant_id s)) (WorkloadE WorkloadStopped)
      (rbind (read_workload ext (lg_db lg) (lg_node_id lg) (Some (sc_issuer_id s)) (sc_grant_id s)) (\<lambda>w.
       rbind (workload_scope ext (wr_definition w)) (\<lambda>found.
       ensure (cr_state (wr_receipt w) = ACCEPTED \<and> found = s) (WorkloadE WorkloadChanged)
       (rbind (initial_deadline ext pf (cn_contract cn) (cn_policy cn) now2) (\<lambda>_.
        ensure (\<not> (watch_stopped lg (sc_grant_id s) \<or> stopped_late)) (WorkloadE WorkloadStopped)
          (Inr w)))))))))"

text \<open>The checks of \<^verbatim>\<open>consume_workload\<close> up to and including its transaction.\<close>

definition consume_admit ::
  "'x workload_journal_externals_scheme \<Rightarrow> ledger \<Rightarrow> workload \<Rightarrow> lease_policy \<Rightarrow> lease_proof
   \<Rightarrow> string \<Rightarrow> string \<Rightarrow> string \<Rightarrow> consume_env \<Rightarrow> (contract \<times> reporting \<times> journal) result" where
  "consume_admit ext lg d policy pf issuer session node env =
     rbind (lease_contract ext d) (\<lambda>c.
     rbind (reporting_new ext c) (\<lambda>reporting.
     ensure (\<not> lg_final_failed lg) (WorkloadE FinalFailed)
     (ensure (node = lg_node_id lg \<and> scope_matches_session (ct_scope c) issuer session node)
       (WorkloadE WorkloadChanged)
     (rbind (initial_deadline ext pf c policy (ce_now1 env)) (\<lambda>_.
      ensure (ev_max_total_bytes (wk_events d) \<le> gp_max_result_bytes (lg_policy lg))
        (Denied GrantOwnerLimits)
      (ensure (lg_final_slots lg \<noteq> 0) (WorkloadE FinalBusy)
      (rbind (consume_tx ext lg d c policy pf env) (\<lambda>db. Inr (c, reporting, db)))))))))"

text \<open>
  \<^verbatim>\<open>consume_workload\<close>. The third component is the scope of a final uncertainty save that the
  call started because its watcher or its acknowledgement failed after the commit (dropping
  the unacknowledged consumption also retires its reporting and starts the save).
\<close>

definition consume_workload ::
  "'x workload_journal_externals_scheme \<Rightarrow> ledger \<Rightarrow> workload \<Rightarrow> lease_policy \<Rightarrow> lease_proof
   \<Rightarrow> string \<Rightarrow> string \<Rightarrow> string \<Rightarrow> consume_env \<Rightarrow> consumption result \<times> ledger \<times> scope option" where
  "consume_workload ext lg d policy pf issuer session node env =
     (case consume_admit ext lg d policy pf issuer session node env of
        Inl e \<Rightarrow> (Inl e, lg, None)
      | Inr (c, reporting, db) \<Rightarrow>
          let lg1 = lg\<lparr>lg_db := db, lg_final_slots := lg_final_slots lg - 1\<rparr> in
          (case watch_stop_scope ext lg1 (ct_scope c) of
             Inl e \<Rightarrow> (Inl e, lg1, Some (ct_scope c))
           | Inr lg2 \<Rightarrow>
               let cn = \<lparr>cn_contract = c, cn_policy = policy, cn_initial = Some pf,
                         cn_reporting = reporting, cn_final_slot = True\<rparr> in
               (case acknowledgement ext lg2 cn (ce_now3 env) (ce_now4 env) (ce_stop env) of
                  Inl e \<Rightarrow> (Inl e, watch_drop lg2 (wk_grant_id d), Some (ct_scope c))
                | Inr _ \<Rightarrow> (Inr cn, lg2, None))))"

section \<open>Final saves\<close>

definition uncertain :: "scope \<Rightarrow> nat \<Rightarrow> journal \<Rightarrow> journal" where
  "uncertain s now db =
     db\<lparr>j_receipts := update_rows
          (\<lambda>r. r_grant_id r = sc_grant_id s \<and> r_grant_digest r = sc_grant_sha256 s
             \<and> r_state r = ACCEPTED \<and> r_receipt_kind r = ''workload'')
          (\<lambda>r. r\<lparr>r_state := UNKNOWN, r_updated_ms := max (max (r_updated_ms r) (r_accepted_ms r)) now\<rparr>)
          (j_receipts db)\<rparr>"

definition mark_workload_unknown ::
  "'x workload_journal_externals_scheme \<Rightarrow> ledger \<Rightarrow> scope \<Rightarrow> nat \<Rightarrow> ledger result" where
  "mark_workload_unknown ext lg s now =
     rbind (read_workload ext (lg_db lg) (lg_node_id lg) (Some (sc_issuer_id s)) (sc_grant_id s)) (\<lambda>w.
     rbind (workload_scope ext (wr_definition w)) (\<lambda>found.
     ensure (found = s) (WorkloadE WorkloadChanged)
     (rbind (to_i64 (max now 1)) (\<lambda>ms. Inr (lg\<lparr>lg_db := uncertain s ms (lg_db lg)\<rparr>)))))"

record evidence =
  cv_contract :: contract
  cv_boundary :: finish_boundary
  cv_adapter_sha256 :: string
  cv_observations :: nat
  cv_frames :: nat
  cv_events :: event_seal

text \<open>\<^verbatim>\<open>Evidence::from_observed\<close>: the observed source is its adapter digest and summary.\<close>

definition evidence_from_observed ::
  "'x lease_externals_scheme \<Rightarrow> contract \<Rightarrow> finish_boundary \<Rightarrow> string \<Rightarrow> stream_summary \<Rightarrow> event_seal
   \<Rightarrow> evidence result" where
  "evidence_from_observed ext c boundary digest summary seal =
     rbind (boundary_validate ext boundary c) (\<lambda>_.
     ensure (su_stream_id summary = sc_grant_id (ct_scope c)) (WorkloadE CompletionChanged)
     (Inr \<lparr>cv_contract = c, cv_boundary = boundary, cv_adapter_sha256 = digest,
           cv_observations = su_observations summary, cv_frames = su_source_frames summary,
           cv_events = seal\<rparr>))"

definition completed_receipt ::
  "scope \<Rightarrow> evidence \<Rightarrow> workload_receipt \<Rightarrow> nat \<times> nat \<times> string \<Rightarrow> nat \<Rightarrow> workload_receipt" where
  "completed_receipt s ev w p recorded =
     (case p of (count, bytes, prefix) \<Rightarrow>
        w\<lparr>wr_schema_version := 3,
          wr_receipt := (wr_receipt w)\<lparr>cr_state := COMPLETED, cr_updated_at_ms := recorded\<rparr>,
          wr_completion := Some
            \<lparr>co_schema_version = 1, co_grant_sha256 = sc_grant_sha256 s,
             co_adapter_sha256 = cv_adapter_sha256 ev, co_source_observations = cv_observations ev,
             co_source_frames = cv_frames ev, co_event_count = count, co_event_bytes = bytes,
             co_event_prefix_sha256 = prefix, co_lease_sequence = fb_sequence (cv_boundary ev),
             co_recorded_at_ms = recorded, co_owned_process_exit_observed = True,
             co_physical_effects_stopped = False\<rparr>\<rparr>)"

definition completed_where :: "scope \<Rightarrow> receipt_row \<Rightarrow> bool" where
  "completed_where s r \<longleftrightarrow> r_grant_id r = sc_grant_id s \<and> r_grant_digest r = sc_grant_sha256 s
     \<and> r_state r = ACCEPTED \<and> r_receipt_kind r = ''workload'' \<and> r_report r = None
     \<and> r_report_sha256 r = None"

definition completed_set :: "string \<Rightarrow> string \<Rightarrow> nat \<Rightarrow> receipt_row \<Rightarrow> receipt_row" where
  "completed_set raw checksum recorded r =
     r\<lparr>r_state := COMPLETED, r_updated_ms := recorded, r_report := Some raw,
       r_report_sha256 := Some checksum\<rparr>"

text \<open>A completion that found a stop: the refusal is the confirmed outcome of the save.\<close>

datatype save_outcome = Refused error | Saved workload_receipt

text \<open>The commit of a completion that found its receipt open and no stop.\<close>

definition completion_write ::
  "'x workload_journal_externals_scheme \<Rightarrow> scope \<Rightarrow> workload_receipt \<Rightarrow> nat \<Rightarrow> bool \<Rightarrow> nat \<Rightarrow> journal
   \<Rightarrow> (save_outcome \<times> journal) result" where
  "completion_write ext s w' recorded stop2 now db1 =
     rbind (workload_receipt_validate ext w') (\<lambda>_.
     rbind (or_err (wr_completion w') (WorkloadE CompletionDamaged)) (\<lambda>report.
     let raw = completion_text ext report in
     ensure (length raw \<le> REPORT_HEADROOM) (WorkloadE CompletionDamaged)
     (rbind (if stop2 then Inr True else recorded_scope ext db1 s) (\<lambda>stopped.
      if stopped then
        rbind (to_i64 (max now 1)) (\<lambda>ms.
          Inr (Refused (WorkloadE WorkloadStopped), uncertain s ms db1))
      else
        rbind (to_i64 recorded) (\<lambda>ms.
        ensure (count_if (completed_where s) (j_receipts db1) = 1) (WorkloadE CompletionChanged)
        (Inr (Saved w', db1\<lparr>j_receipts := update_rows (completed_where s)
           (completed_set raw (sha256_hex ext raw) ms) (j_receipts db1)\<rparr>)))))))"

definition completion_commit ::
  "'x workload_journal_externals_scheme \<Rightarrow> string \<Rightarrow> evidence \<Rightarrow> bool \<Rightarrow> nat \<Rightarrow> journal
   \<Rightarrow> workload_receipt \<Rightarrow> (save_outcome \<times> journal) result" where
  "completion_commit ext node ev stop2 now db w =
     (case wk_source (wr_definition w) of MicrophoneEnergy _ _ adapter parameters \<Rightarrow>
      ensure (cv_adapter_sha256 ev = adapter \<and> cv_observations ev = en_max_blocks parameters
          \<and> cv_frames ev = cv_observations ev * en_block_frames parameters)
        (WorkloadE CompletionChanged)
      (rbind (completion_prefix ext db w) (\<lambda>(count, bytes, prefix, final, sequence).
       ensure (seal_confirms (cv_events ev) count bytes final
           \<and> sequence \<le> fb_sequence (cv_boundary ev)) (WorkloadE CompletionPrefix)
       (rbind (completion_upgrade ext node db) (\<lambda>db1.
        let recorded = max now (cr_updated_at_ms (wr_receipt w)); s = ct_scope (cv_contract ev) in
        completion_write ext s (completed_receipt s ev w (count, bytes, prefix) recorded)
          recorded stop2 now db1)))))"

definition completion_tx ::
  "'x workload_journal_externals_scheme \<Rightarrow> string \<Rightarrow> evidence \<Rightarrow> bool \<Rightarrow> bool \<Rightarrow> nat \<Rightarrow> journal
   \<Rightarrow> (save_outcome \<times> journal) result" where
  "completion_tx ext node ev stop1 stop2 now db =
     (let s = ct_scope (cv_contract ev) in
      rbind (boundary_validate ext (cv_boundary ev) (cv_contract ev)) (\<lambda>_.
      rbind (read_workload ext db node (Some (sc_issuer_id s)) (sc_grant_id s)) (\<lambda>w.
      rbind (workload_scope ext (wr_definition w)) (\<lambda>found.
      ensure (found = s) (WorkloadE CompletionChanged)
      (rbind (if cr_state (wr_receipt w) \<noteq> ACCEPTED \<or> stop1 then Inr True
              else recorded_scope ext db s) (\<lambda>refused.
       if refused then
         rbind (to_i64 (max now 1)) (\<lambda>ms. Inr (Refused (WorkloadE CompletionChanged), uncertain s ms db))
       else completion_commit ext node ev stop2 now db w))))))"

text \<open>
  \<^verbatim>\<open>save\<close>: the outer error is a storage or corruption error, the inner one a confirmed refusal.
\<close>

definition completion_save ::
  "'x workload_journal_externals_scheme \<Rightarrow> ledger \<Rightarrow> evidence \<Rightarrow> bool \<Rightarrow> bool \<Rightarrow> bool \<Rightarrow> nat
   \<Rightarrow> workload_receipt result result \<times> ledger" where
  "completion_save ext lg ev stop1 stop2 stop3 now =
     (case completion_tx ext (lg_node_id lg) ev stop1 stop2 now (lg_db lg) of
        Inl e \<Rightarrow> (Inl e, lg)
      | Inr (Refused e, db) \<Rightarrow> (Inr (Inl e), lg\<lparr>lg_db := db\<rparr>)
      | Inr (Saved w, db) \<Rightarrow>
          (rbind (if stop3 then Inr True else recorded_scope ext db (ct_scope (cv_contract ev)))
             (\<lambda>raced. Inr (if raced then Inl (WorkloadE WorkloadStopped) else Inr w)),
           lg\<lparr>lg_db := db\<rparr>))"

text \<open>
  The worker's part of \<^verbatim>\<open>finalization::start_with\<close>: run the save, latch a failure, and release
  the slot that admission reserved.
\<close>

definition run_final :: "'a result \<times> ledger \<Rightarrow> 'a result \<times> ledger" where
  "run_final p =
     (case p of (r, lg) \<Rightarrow>
        (r, lg\<lparr>lg_final_failed := (lg_final_failed lg \<or> \<not> is_ok r),
               lg_final_slots := lg_final_slots lg + 1\<rparr>))"

definition final_unknown ::
  "'x workload_journal_externals_scheme \<Rightarrow> ledger \<Rightarrow> scope \<Rightarrow> nat \<Rightarrow> unit result \<times> ledger" where
  "final_unknown ext lg s now =
     run_final (case mark_workload_unknown ext lg s now of
       Inl e \<Rightarrow> (Inl e, lg) | Inr lg' \<Rightarrow> (Inr (), lg'))"

definition final_completion ::
  "'x workload_journal_externals_scheme \<Rightarrow> ledger \<Rightarrow> evidence \<Rightarrow> bool \<Rightarrow> bool \<Rightarrow> bool \<Rightarrow> nat
   \<Rightarrow> workload_receipt result result \<times> ledger" where
  "final_completion ext lg ev stop1 stop2 stop3 now =
     run_final (completion_save ext lg ev stop1 stop2 stop3 now)"

text \<open>
  The branch of \<^verbatim>\<open>finalization::start_with\<close> in which no worker takes the save: it never runs,
  the slot goes back with the dropped closure, and the failure is latched.
\<close>

definition final_unstarted :: "ledger \<Rightarrow> ledger" where
  "final_unstarted lg = lg\<lparr>lg_final_failed := True, lg_final_slots := lg_final_slots lg + 1\<rparr>"

section \<open>Inspection\<close>

record inspection_advertisement =
  ia_schema_version :: nat
  ia_available :: bool
  ia_receipt_versions :: "nat list"
  ia_read_only :: bool

definition inspection_advertisement_new :: "bool \<Rightarrow> inspection_advertisement" where
  "inspection_advertisement_new available =
     \<lparr>ia_schema_version = 2, ia_available = available, ia_receipt_versions = [2, 3],
      ia_read_only = True\<rparr>"

definition inspection_advertisement_validate :: "inspection_advertisement \<Rightarrow> unit result" where
  "inspection_advertisement_validate a =
     ensure (ia_schema_version a = 2 \<and> ia_receipt_versions a = [2, 3] \<and> ia_read_only a)
       (JournalE SchemaChanged) (Inr ())"

record inspection_request =
  ir_kind :: string
  ir_id :: string
  ir_scope :: scope

definition inspection_validate ::
  "'x externals_scheme \<Rightarrow> inspection_request \<Rightarrow> string \<Rightarrow> string \<Rightarrow> unit result" where
  "inspection_validate ext q issuer node =
     rbind (validate_id (ir_id q)) (\<lambda>_.
     rbind (scope_validate ext (ir_scope q)) (\<lambda>_.
     ensure (ir_kind q = ''workload_receipt'' \<and> sc_issuer_id (ir_scope q) = issuer
         \<and> sc_executor_node (ir_scope q) = node) (StopE StopScope) (Inr ())))"

definition inspection_read ::
  "'x workload_journal_externals_scheme \<Rightarrow> ledger \<Rightarrow> inspection_request \<Rightarrow> string \<Rightarrow> string
   \<Rightarrow> workload_receipt result" where
  "inspection_read ext lg q issuer node =
     rbind (inspection_validate ext q issuer node) (\<lambda>_.
     rbind (read_workload ext (lg_db lg) (lg_node_id lg) (Some issuer) (sc_grant_id (ir_scope q))) (\<lambda>w.
     rbind (workload_scope ext (wr_definition w)) (\<lambda>found.
     ensure (found = ir_scope q) (WorkloadE WorkloadChanged) (Inr w))))"

definition workload_events_page ::
  "'x workload_journal_externals_scheme \<Rightarrow> ledger \<Rightarrow> string \<Rightarrow> string \<Rightarrow> nat \<Rightarrow> nat \<Rightarrow> event_page result" where
  "workload_events_page ext lg issuer i after limit =
     rbind (read_core ext (lg_db lg) (lg_node_id lg) (Some issuer) i) (\<lambda>w.
       event_inspect ext (lg_db lg) w after limit)"

end
