(* ===== verification/Workload_Invariant.thy ===== *)
theory Workload_Invariant
  imports Workload_Receipts
begin

text \<open>
  The workload operations keep the journal's invariant and move it along its order; a saved
  completion is read back as the receipt that was reported.
\<close>

section \<open>Frames\<close>

text \<open>What an upgrade may change: the version, the schema flags and the event counters.\<close>

definition same_rows :: "journal \<Rightarrow> journal \<Rightarrow> bool" where
  "same_rows a b \<longleftrightarrow> j_receipts b = j_receipts a \<and> j_stops b = j_stops a \<and> j_events b = j_events a
     \<and> j_owner b = j_owner a \<and> j_page_size b = j_page_size a \<and> j_page_count b = j_page_count a
     \<and> j_progress b = j_progress a"

lemma same_rows_refl [simp]: "same_rows db db"
  by (simp add: same_rows_def)

lemma same_rows_trans: "same_rows a b \<Longrightarrow> same_rows b c \<Longrightarrow> same_rows a c"
  by (simp add: same_rows_def)

lemma same_rows_step:
  "same_rows a b \<Longrightarrow> journal_ok a \<Longrightarrow> journal_ok b \<and> journal_le a b"
proof -
  assume s: "same_rows a b" and ok: "journal_ok a"
  have "stop_rows b = stop_rows a" using s by (simp add: same_rows_def stop_rows_def)
  then show ?thesis
    using s ok journal_le_refl [OF ok] by (simp add: same_rows_def journal_ok_def journal_le_def)
qed

lemma event_initialize_rows: "event_initialize ext d db = Inr db' \<Longrightarrow> same_rows db db'"
  by (auto simp: event_initialize_def same_rows_def)

lemma initialize_each_rows: "initialize_each ext node is db = Inr db' \<Longrightarrow> same_rows db db'"
proof (induction "is" arbitrary: db)
  case (Cons i "is")
  then show ?case using event_initialize_rows same_rows_trans by fastforce
qed simp

lemma event_upgrade_rows: "event_upgrade ext node db = Inr db' \<Longrightarrow> same_rows db db'"
  by (auto simp: event_upgrade_def dest!: initialize_each_rows split: if_splits)
     (auto simp: same_rows_def)

lemma workload_upgrade_rows: "workload_upgrade ext node db = Inr db' \<Longrightarrow> same_rows db db'"
  by (auto simp: workload_upgrade_def Let_def dest!: event_upgrade_rows split: if_splits)
     (auto simp: same_rows_def)

lemma completion_upgrade_eq: "completion_upgrade ext node db = Inr db' \<Longrightarrow> db' = db\<lparr>j_version := 5\<rparr>"
  by (auto simp: completion_upgrade_def Let_def split: if_splits)

section \<open>Consumption\<close>

lemma consume_tx_InrD:
  assumes "consume_tx ext lg d c policy pf env = Inr db'"
  obtains db1 reserved where "check_attempt_slot ext (lg_db lg) (ct_scope c) = Inr ()"
    and "same_rows (lg_db lg) db1" and "event_reservation db1 d = Inr reserved"
    and "check_receipt_budget db1 (lg_policy lg) (ev_max_total_bytes (wk_events d))
           (length (workload_text ext d) + reserved) False = Inr ()"
    and "lg_final_slots lg > 0" and "\<not> ce_late_failed env"
    and "\<exists>dl. initial_deadline ext pf c policy (ce_now2 env) = Inr dl"
    and "insert_receipt (workload_row ext d (ct_scope c) (max (ce_wall env) 1)) db1
           = Inr (db1\<lparr>j_receipts := j_receipts db1 @ [workload_row ext d (ct_scope c) (max (ce_wall env) 1)]\<rparr>)"
    and "same_rows (db1\<lparr>j_receipts := j_receipts db1 @ [workload_row ext d (ct_scope c) (max (ce_wall env) 1)]\<rparr>) db'"
proof -
  let ?row = "workload_row ext d (ct_scope c) (max (ce_wall env) 1)"
  obtain db1 reserved db2 where slot: "check_attempt_slot ext (lg_db lg) (ct_scope c) = Inr ()"
    and up: "workload_upgrade ext (lg_node_id lg) (lg_db lg) = Inr db1"
    and rest: "event_reservation db1 d = Inr reserved"
      "check_receipt_budget db1 (lg_policy lg) (ev_max_total_bytes (wk_events d))
           (length (workload_text ext d) + reserved) False = Inr ()"
      "lg_final_slots lg > 0" "\<not> ce_late_failed env"
      "\<exists>dl. initial_deadline ext pf c policy (ce_now2 env) = Inr dl"
    and ins: "insert_receipt ?row db1 = Inr db2" and ini: "event_initialize ext d db2 = Inr db'"
    using assms by (auto simp: consume_tx_def)
  have db2: "db2 = db1\<lparr>j_receipts := j_receipts db1 @ [?row]\<rparr>"
    using ins by (simp add: insert_receipt_Inr_iff)
  show thesis
    using that [OF slot workload_upgrade_rows [OF up] rest] ins event_initialize_rows [OF ini]
    unfolding db2 by blast
qed

lemma workload_row_simps [simp]:
  "r_state (workload_row ext d s now) = ACCEPTED" "r_accepted_ms (workload_row ext d s now) = now"
  "r_updated_ms (workload_row ext d s now) = now" "r_grant_id (workload_row ext d s now) = wk_grant_id d"
  "r_attempt (workload_row ext d s now) = wk_attempt d"
  by (simp_all add: workload_row_def)

lemma workload_scope_ids:
  assumes "workload_scope ext d = Inr s"
  shows "sc_grant_id s = wk_grant_id d" and "sc_issuer_id s = wk_issuer_id d"
    and "sc_job_id s = wk_job_id d" and "sc_task_id s = wk_task_id d" and "sc_attempt s = wk_attempt d"
  using assms by (auto simp: workload_scope_def identity_scope_def)

lemma consume_tx_ok:
  assumes tx: "consume_tx ext lg d c policy pf env = Inr db'" and ok: "journal_ok (lg_db lg)"
    and contract: "lease_contract ext d = Inr c"
  shows "journal_ok db' \<and> journal_le (lg_db lg) db'"
    and "length (j_receipts (lg_db lg)) < gp_max_receipts (lg_policy lg)"
    and "j_receipts db' = j_receipts (lg_db lg) @ [workload_row ext d (ct_scope c) (max (ce_wall env) 1)]"
  using tx
proof (atomize (full), rule consume_tx_InrD)
  let ?row = "workload_row ext d (ct_scope c) (max (ce_wall env) 1)"
  fix db1 reserved
  assume slot: "check_attempt_slot ext (lg_db lg) (ct_scope c) = Inr ()"
    and s1: "same_rows (lg_db lg) db1"
    and budget: "check_receipt_budget db1 (lg_policy lg) (ev_max_total_bytes (wk_events d))
           (length (workload_text ext d) + reserved) False = Inr ()"
    and ins: "insert_receipt ?row db1 = Inr (db1\<lparr>j_receipts := j_receipts db1 @ [?row]\<rparr>)"
    and s2: "same_rows (db1\<lparr>j_receipts := j_receipts db1 @ [?row]\<rparr>) db'"
  note S = workload_scope_ids [OF lease_contract_InrD(1) [OF contract]]
  have rs: "j_receipts db1 = j_receipts (lg_db lg)" using s1 by (simp add: same_rows_def)
  have rs': "j_receipts db' = j_receipts (lg_db lg) @ [?row]" using s2 rs by (simp add: same_rows_def)
  have stops: "stop_rows db' = stop_rows (lg_db lg)" and events: "j_events db' = j_events (lg_db lg)"
    using s1 s2 by (simp_all add: same_rows_def stop_rows_def)
  have fresh: "r_grant_id ?row \<notin> r_grant_id ` set (j_receipts (lg_db lg))"
      "row_key ?row \<notin> row_key ` set (j_receipts (lg_db lg))"
    using ins rs unfolding insert_receipt_Inr_iff by simp_all
  have free: "r_attempt x < r_attempt ?row \<and> r_state x \<noteq> ACCEPTED"
    if "x \<in> set (j_receipts (lg_db lg))" "slot_of x = slot_of ?row" for x
  proof -
    have "same_slot (ct_scope c) x"
      using that(2) S by (simp add: same_slot_def slot_of_def workload_row_def)
    then show ?thesis
      using check_attempt_slot_InrD(3) [OF slot that(1)]
        check_attempt_slot_closed [OF slot ok that(1)] S by simp
  qed
  have "journal_ok db'"
  proof (rule insert_journal_ok [OF ok rs' fresh])
    show "\<forall>s \<in> set (stop_rows db'). \<exists>x \<in> set (j_receipts db').
        r_grant_id x = st_grant_id s \<and> r_grant_digest x = st_grant_digest s"
      using ok by (auto simp: stops rs' journal_ok_def)
  qed (use free journal_okD(6) [OF ok] in \<open>simp_all add: stops row_states_def\<close>)
  moreover have "journal_le (lg_db lg) db'"
    by (rule insert_journal_le [OF ok rs']) (simp_all add: stops events)
  moreover have "length (j_receipts (lg_db lg)) < gp_max_receipts (lg_policy lg)"
    using budget rs by (auto simp: check_receipt_budget_def)
  ultimately show "(journal_ok db' \<and> journal_le (lg_db lg) db')
      \<and> length (j_receipts (lg_db lg)) < gp_max_receipts (lg_policy lg)
      \<and> j_receipts db' = j_receipts (lg_db lg) @ [?row]"
    using rs' by blast
qed

lemma watch_stop_scope_InrD:
  "watch_stop_scope ext lg s = Inr lg' \<Longrightarrow> \<exists>w. lg' = lg\<lparr>lg_stops := w\<rparr>"
  by (auto simp: watch_stop_scope_def)

lemma consume_tx_slot: "consume_tx ext lg d c policy pf env = Inr db' \<Longrightarrow> lg_final_slots lg > 0"
  by (rule consume_tx_InrD)

lemma consume_tx_row:
  assumes "consume_tx ext lg d c policy pf env = Inr db'"
  shows "\<exists>r \<in> set (j_receipts db'). r_grant_id r = wk_grant_id d
    \<and> r_grant_digest r = sc_grant_sha256 (ct_scope c) \<and> r_receipt_kind r = ''workload'' \<and> r_state r = ACCEPTED"
  using assms
proof (rule consume_tx_InrD)
  fix db1
  assume "same_rows (db1\<lparr>j_receipts := j_receipts db1 @ [workload_row ext d (ct_scope c) (max (ce_wall env) 1)]\<rparr>) db'"
  then show ?thesis by (auto simp: same_rows_def workload_row_def)
qed

text \<open>An uncertainty save leaves the open receipt of its scope unknown.\<close>

lemma uncertain_row:
  assumes "journal_ok db" and "r \<in> set (j_receipts db)" and "r_grant_id r = sc_grant_id s"
    and "r_grant_digest r = sc_grant_sha256 s" and "r_state r = ACCEPTED" and "r_receipt_kind r = ''workload''"
  shows "\<exists>r'. receipt_of (uncertain s ms db) (sc_grant_id s) = Some r' \<and> r_state r' = UNKNOWN"
proof -
  have "receipt_of db (sc_grant_id s) = Some r"
    using receipt_of_mem [OF journal_okD(1) [OF assms(1)] assms(2)] assms(3) by simp
  from receipt_of_update [OF this, of "uncertain s ms db"] show ?thesis
    using assms(3-6) by (simp add: uncertain_def)
qed

lemma consume_workload_cases:
  assumes "consume_workload ext lg d policy pf issuer session node env = (r, lg', final)"
  obtains e where "r = Inl e" and "lg' = lg" and "final = None"
  | c db w where "lease_contract ext d = Inr c" and "\<not> lg_final_failed lg"
      and "consume_tx ext lg d c policy pf env = Inr db"
      and "lg' = lg\<lparr>lg_db := db, lg_final_slots := lg_final_slots lg - 1, lg_stops := w\<rparr>"
      and "(\<exists>cn. r = Inr cn \<and> cn_contract cn = c) \<and> final = None \<or> \<not> is_ok r \<and> final = Some (ct_scope c)"
proof (cases "consume_admit ext lg d policy pf issuer session node env")
  case (Inl e)
  then show thesis using assms that(1) [of e] by (auto simp: consume_workload_def)
next
  case (Inr p)
  obtain c reporting db where p: "p = (c, reporting, db)" by (cases p)
  have tx: "lease_contract ext d = Inr c" "\<not> lg_final_failed lg"
      "consume_tx ext lg d c policy pf env = Inr db"
    using Inr p by (auto simp: consume_admit_def)
  let ?lg1 = "lg\<lparr>lg_db := db, lg_final_slots := lg_final_slots lg - 1\<rparr>"
  show thesis
  proof (cases "watch_stop_scope ext ?lg1 (ct_scope c)")
    case Inl': (Inl e)
    then have f: "r = Inl e" "lg' = ?lg1" "final = Some (ct_scope c)"
      using assms Inr p by (simp_all add: consume_workload_def Let_def)
    have "lg' = ?lg1\<lparr>lg_stops := lg_stops lg\<rparr>" unfolding f(2) by simp
    then show thesis by (rule that(2) [OF tx]) (simp add: f(1,3))
  next
    case Inr': (Inr lg2)
    obtain w where w: "lg2 = ?lg1\<lparr>lg_stops := w\<rparr>" using watch_stop_scope_InrD [OF Inr'] by blast
    let ?cn = "\<lparr>cn_contract = c, cn_policy = policy, cn_initial = Some pf,
                cn_reporting = reporting, cn_final_slot = True\<rparr>"
    show thesis
    proof (cases "acknowledgement ext lg2 ?cn (ce_now3 env) (ce_now4 env) (ce_stop env)")
      case (Inl e)
      then have "r = Inl e" "lg' = ?lg1\<lparr>lg_stops := kv_del (wk_grant_id d) w\<rparr>" "final = Some (ct_scope c)"
        using assms Inr p Inr' w by (simp_all add: consume_workload_def Let_def watch_drop_def)
      then show thesis using that(2) [OF tx] by simp
    next
      case ack: (Inr y)
      then have "r = Inr ?cn" "lg' = ?lg1\<lparr>lg_stops := w\<rparr>" "final = None"
        using assms Inr p Inr' w by (simp_all add: consume_workload_def Let_def)
      then show thesis using that(2) [OF tx] by simp
    qed
  qed
qed

lemma consume_workload_ok:
  assumes "consume_workload ext lg d policy pf issuer session node env = (r, lg', final)"
    and "journal_ok (lg_db lg)"
  shows "journal_ok (lg_db lg') \<and> journal_le (lg_db lg) (lg_db lg')"
  using assms(1)
proof (cases rule: consume_workload_cases)
  case (1 e)
  then show ?thesis using assms(2) journal_le_refl by simp
next
  case (2 c db w)
  then show ?thesis using consume_tx_ok(1) [OF 2(3) assms(2) 2(1)] by simp
qed

section \<open>Final saves\<close>

lemma uncertain_ok:
  assumes "journal_ok db"
  shows "journal_ok (uncertain s now db) \<and> journal_le db (uncertain s now db)"
proof -
  have fw: "forward (\<lambda>r. r_grant_id r = sc_grant_id s \<and> r_grant_digest r = sc_grant_sha256 s
             \<and> r_state r = ACCEPTED \<and> r_receipt_kind r = ''workload'')
      (\<lambda>r. r\<lparr>r_state := UNKNOWN, r_updated_ms := max (max (r_updated_ms r) (r_accepted_ms r)) now\<rparr>) db"
    by (auto simp: forward_def row_le_def row_key_def row_states_def)
  show ?thesis by (rule update_step [OF fw assms]) (simp_all add: uncertain_def)
qed

lemma mark_workload_unknown_InrD:
  "mark_workload_unknown ext lg s now = Inr lg'
   \<Longrightarrow> lg' = lg\<lparr>lg_db := uncertain s (max now 1) (lg_db lg)\<rparr> \<and> max now 1 \<le> i64_max"
  by (auto simp: mark_workload_unknown_def)

lemma completion_writeE:
  assumes "completion_write ext s w' recorded stop2 now db1 = Inr (out, db')"
  obtains (refused) "out = Refused (WorkloadE WorkloadStopped)"
      and "db' = uncertain s (max now 1) db1" and "max now 1 \<le> i64_max"
  | (saved) report where "\<not> stop2" and "recorded_scope ext db1 s = Inr False"
      and "workload_receipt_validate ext w' = Inr ()" and "wr_completion w' = Some report"
      and "length (completion_text ext report) \<le> REPORT_HEADROOM" and "recorded \<le> i64_max"
      and "count_if (completed_where s) (j_receipts db1) = 1" and "out = Saved w'"
      and "db' = db1\<lparr>j_receipts := update_rows (completed_where s)
             (completed_set (completion_text ext report) (sha256_hex ext (completion_text ext report)) recorded)
             (j_receipts db1)\<rparr>"
  using assms by (auto simp: completion_write_def Let_def split: if_splits)

lemma completion_commitE:
  assumes "completion_commit ext node ev stop2 now db w = Inr (out, db')"
  obtains count bytes prefix final_event sequence db1 where
      "completion_prefix ext db w = Inr (count, bytes, prefix, final_event, sequence)"
      and "seal_confirms (cv_events ev) count bytes final_event"
      and "sequence \<le> fb_sequence (cv_boundary ev)" and "completion_upgrade ext node db = Inr db1"
      and "completion_write ext (ct_scope (cv_contract ev))
             (completed_receipt (ct_scope (cv_contract ev)) ev w (count, bytes, prefix)
               (max now (cr_updated_at_ms (wr_receipt w))))
             (max now (cr_updated_at_ms (wr_receipt w))) stop2 now db1 = Inr (out, db')"
  using assms by (auto simp: completion_commit_def Let_def split: workload_source.splits)

lemma completion_txE:
  assumes "completion_tx ext node ev stop1 stop2 now db = Inr (out, db')"
  obtains (refused) "out = Refused (WorkloadE CompletionChanged)"
      and "db' = uncertain (ct_scope (cv_contract ev)) (max now 1) db" and "max now 1 \<le> i64_max"
  | (commit) w where
      "read_workload ext db node (Some (sc_issuer_id (ct_scope (cv_contract ev))))
         (sc_grant_id (ct_scope (cv_contract ev))) = Inr w"
      and "workload_scope ext (wr_definition w) = Inr (ct_scope (cv_contract ev))"
      and "cr_state (wr_receipt w) = ACCEPTED" and "\<not> stop1"
      and "recorded_scope ext db (ct_scope (cv_contract ev)) = Inr False"
      and "completion_commit ext node ev stop2 now db w = Inr (out, db')"
  using assms by (auto simp: completion_tx_def Let_def split: if_splits)

lemma completed_forward:
  assumes "\<And>r. r \<in> set (j_receipts db) \<Longrightarrow> completed_where s r \<Longrightarrow> r_updated_ms r \<le> recorded"
  shows "forward (completed_where s) (completed_set raw checksum recorded) db"
  using assms
  by (auto simp: forward_def completed_where_def completed_set_def row_le_def row_key_def row_states_def)

lemma completion_tx_ok:
  assumes "completion_tx ext node ev stop1 stop2 now db = Inr (out, db')" and ok: "journal_ok db"
  shows "journal_ok db' \<and> journal_le db db'"
  using assms(1)
proof (cases rule: completion_txE)
  case refused
  then show ?thesis using uncertain_ok [OF ok] by simp
next
  case (commit w)
  let ?s = "ct_scope (cv_contract ev)" and ?rec = "max now (cr_updated_at_ms (wr_receipt w))"
  from commit(6) obtain count bytes prefix final_event sequence db1 where
    up: "completion_upgrade ext node db = Inr db1"
    and wr: "completion_write ext ?s (completed_receipt ?s ev w (count, bytes, prefix) ?rec) ?rec stop2 now db1
      = Inr (out, db')"
    by (rule completion_commitE)
  have db1: "db1 = db\<lparr>j_version := 5\<rparr>" by (rule completion_upgrade_eq [OF up])
  have step1: "journal_ok db1 \<and> journal_le db db1"
    by (rule same_rows_step [OF _ ok]) (simp add: db1 same_rows_def)
  have "journal_ok db' \<and> journal_le db1 db'"
    using wr
  proof (cases rule: completion_writeE)
    case refused
    then show ?thesis using uncertain_ok step1 by simp
  next
    case (saved report)
    obtain r where r: "receipt_of db (sc_grant_id ?s) = Some r"
        "r_updated_ms r = cr_updated_at_ms (wr_receipt w)"
      using commit(1) ok by (auto simp: read_workload_def elim: read_core_row)
    have "r_updated_ms x \<le> ?rec" if x: "x \<in> set (j_receipts db1)" "completed_where ?s x" for x
    proof -
      have "x = r"
        by (rule distinct_key_eq [OF journal_okD(1) [OF ok]])
           (use x receipt_of_Some [OF r(1)] in \<open>simp_all add: db1 completed_where_def\<close>)
      then show ?thesis using r(2) by simp
    qed
    then show ?thesis
      by (intro update_step [OF completed_forward]) (use step1 in \<open>simp_all add: saved(9)\<close>)
  qed
  then show ?thesis using step1 journal_le_trans by blast
qed

lemma run_final_simps [simp]:
  "fst (run_final p) = fst p" "lg_db (snd (run_final p)) = lg_db (snd p)"
  "lg_policy (snd (run_final p)) = lg_policy (snd p)" "lg_node_id (snd (run_final p)) = lg_node_id (snd p)"
  by (simp_all add: run_final_def split: prod.splits)

lemma final_unknown_ok:
  assumes "journal_ok (lg_db lg)"
  shows "journal_ok (lg_db (snd (final_unknown ext lg s now)))
    \<and> journal_le (lg_db lg) (lg_db (snd (final_unknown ext lg s now)))"
proof (cases "mark_workload_unknown ext lg s now")
  case (Inl e)
  then show ?thesis using assms journal_le_refl by (simp add: final_unknown_def)
next
  case (Inr lg')
  then show ?thesis
    using uncertain_ok [OF assms] mark_workload_unknown_InrD [OF Inr] by (simp add: final_unknown_def)
qed

lemma completion_save_ok:
  assumes "journal_ok (lg_db lg)"
  shows "journal_ok (lg_db (snd (completion_save ext lg ev stop1 stop2 stop3 now)))
    \<and> journal_le (lg_db lg) (lg_db (snd (completion_save ext lg ev stop1 stop2 stop3 now)))"
proof (cases "completion_tx ext (lg_node_id lg) ev stop1 stop2 now (lg_db lg)")
  case (Inl e)
  then show ?thesis using assms journal_le_refl by (simp add: completion_save_def)
next
  case (Inr p)
  obtain out db where p: "p = (out, db)" by (cases p)
  have "lg_db (snd (completion_save ext lg ev stop1 stop2 stop3 now)) = db"
    using Inr p by (cases out) (simp_all add: completion_save_def)
  then show ?thesis using completion_tx_ok [OF Inr [unfolded p] assms] by simp
qed

lemma final_completion_ok:
  assumes "journal_ok (lg_db lg)"
  shows "journal_ok (lg_db (snd (final_completion ext lg ev stop1 stop2 stop3 now)))
    \<and> journal_le (lg_db lg) (lg_db (snd (final_completion ext lg ev stop1 stop2 stop3 now)))"
  using completion_save_ok [OF assms] by (simp add: final_completion_def)

end
