(* ===== verification/Completion_Evidence.thy ===== *)
theory Completion_Evidence
  imports Workload_Invariant
begin

text \<open>
  A completion as evidence: the receipt that a save reports is the receipt that every later
  read returns, with the event prefix it sealed.
\<close>

section \<open>The event evidence under a row update\<close>

definition same_events :: "journal \<Rightarrow> journal \<Rightarrow> bool" where
  "same_events a b \<longleftrightarrow> j_events b = j_events a \<and> j_event_states b = j_event_states a
     \<and> j_page_size b = j_page_size a"

text \<open>The same grant, read again at a later time.\<close>

definition later :: "workload_receipt \<Rightarrow> workload_receipt \<Rightarrow> bool" where
  "later w w' \<longleftrightarrow> wr_definition w' = wr_definition w
     \<and> cr_accepted_at_ms (wr_receipt w') = cr_accepted_at_ms (wr_receipt w)
     \<and> cr_updated_at_ms (wr_receipt w) \<le> cr_updated_at_ms (wr_receipt w')"

lemma read_row_later:
  assumes "read_row ext a w n = Inr x" and "same_events a b" and "later w w'"
  shows "read_row ext b w' n = Inr x"
  using assms by (auto simp: read_row_def event_row_of_def same_events_def later_def decode_row_def Let_def)

lemma audit_rows_later:
  assumes "same_events a b" and "later w w'"
  shows "audit_rows ext a w ns acc = Inr r \<Longrightarrow> audit_rows ext b w' ns acc = Inr r"
proof (induction ns arbitrary: acc)
  case (Cons n ns)
  obtain acc' where step: "audit_step ext a w n acc = Inr acc'"
    and rest: "audit_rows ext a w ns acc' = Inr r"
    using Cons.prems by auto
  obtain x where x: "read_row ext a w n = Inr x"
    using step by (auto simp: audit_step_def Let_def split: prod.splits)
  have "audit_step ext b w' n acc = Inr acc'"
    using step assms(2) by (simp add: audit_step_def x read_row_later [OF x assms] later_def)
  then show ?case using Cons.IH [OF rest] by simp
qed simp

lemma event_state_same:
  assumes "same_events a b"
  shows "event_state ext b d = event_state ext a d"
proof -
  have "event_reservation b d = event_reservation a d"
    by (rule event_reservation_page) (use assms in \<open>simp add: same_events_def\<close>)
  then show ?thesis using assms by (simp add: event_state_def same_events_def)
qed

lemma completion_prefix_later:
  assumes "completion_prefix ext a w = Inr x" and "same_events a b" and "later w w'"
  shows "completion_prefix ext b w' = Inr x"
proof -
  have d: "wr_definition w' = wr_definition w" using assms(3) by (simp add: later_def)
  obtain saved final where "event_state ext a (wr_definition w) = Inr saved" "sv_count saved > 0"
      "read_row ext a w (sv_count saved) = Inr final" "dr_prefix final = sv_prefix saved"
      "x = (sv_count saved, sv_bytes saved, sv_prefix saved, rc_event (dr_record final),
            rc_lease_sequence (dr_record final))"
    using assms(1) by (auto simp: completion_prefix_def)
  moreover then have "read_row ext b w' (sv_count saved) = Inr final"
    using read_row_later [OF _ assms(2,3)] by blast
  ultimately show ?thesis by (simp add: completion_prefix_def d event_state_same [OF assms(2)])
qed

lemma event_audit_later:
  assumes "event_audit ext a w = Inr ()" and "4 \<le> j_version a" and "4 \<le> j_version b"
    and "same_events a b" and "later w w'" and "audit_prefix ext b w' = Inr ()"
  shows "event_audit ext b w' = Inr ()"
  using assms(1,2)
proof (rule event_audit_InrD)
  fix saved seed prev
  assume st: "event_state ext a (wr_definition w) = Inr saved" "event_seed ext (wr_definition w) = Inr seed"
    and rows: "audit_rows ext a w [1..<sv_count saved + 1] (None, seed, 0)
           = Inr (prev, sv_prefix saved, sv_bytes saved)"
    and card: "length (grant_events a (wk_grant_id (wr_definition w))) = sv_count saved"
      "sum_list (map er_encoded_bytes (grant_events a (wk_grant_id (wr_definition w)))) = sv_bytes saved"
  have d: "wr_definition w' = wr_definition w" using assms(5) by (simp add: later_def)
  have ge: "grant_events b i = grant_events a i" for i
    using assms(4) by (simp add: grant_events_def same_events_def)
  show ?thesis
    using st card audit_rows_later [OF assms(4,5) rows] assms(3,6)
    by (simp add: event_audit_def Let_def d ge event_state_same [OF assms(4)] del: upt_Suc)
qed

section \<open>Read back\<close>

text \<open>The documented round trip of serde on a completion report.\<close>

definition completion_codec :: "'x workload_journal_externals_scheme \<Rightarrow> completion_report \<Rightarrow> bool" where
  "completion_codec ext r \<longleftrightarrow>
     completion_parse ext (completion_text ext r) = Some r \<and> completion_text ext r \<noteq> []"

lemma completed_receipt_simps [simp]:
  "wr_definition (completed_receipt s ev w p m) = wr_definition w"
  "wr_schema_version (completed_receipt s ev w p m) = 3"
  "cr_state (wr_receipt (completed_receipt s ev w p m)) = COMPLETED"
  "cr_updated_at_ms (wr_receipt (completed_receipt s ev w p m)) = m"
  "cr_accepted_at_ms (wr_receipt (completed_receipt s ev w p m)) = cr_accepted_at_ms (wr_receipt w)"
  "wr_receipt (completed_receipt s ev w p m)
     = (wr_receipt w)\<lparr>cr_state := COMPLETED, cr_updated_at_ms := m\<rparr>"
  "wr_execution_authorized (completed_receipt s ev w p m) = wr_execution_authorized w"
  "wr_restart_authorized (completed_receipt s ev w p m) = wr_restart_authorized w"
  "wr_completion (completed_receipt s ev w (n, b, q) m) = Some
            \<lparr>co_schema_version = 1, co_grant_sha256 = sc_grant_sha256 s,
             co_adapter_sha256 = cv_adapter_sha256 ev, co_source_observations = cv_observations ev,
             co_source_frames = cv_frames ev, co_event_count = n, co_event_bytes = b,
             co_event_prefix_sha256 = q, co_lease_sequence = fb_sequence (cv_boundary ev),
             co_recorded_at_ms = m, co_owned_process_exit_observed = True,
             co_physical_effects_stopped = False\<rparr>"
  by (simp_all add: completed_receipt_def split: prod.splits)

lemma completion_prefix_event:
  assumes "completion_prefix ext db w = Inr (n, b, q, final, l)"
  shows "event_validate (wr_definition w) final = Inr ()"
  using assms by (auto simp: completion_prefix_def read_row_def decode_row_def Let_def)

text \<open>The completion report that the save writes agrees with the sealed prefix.\<close>

lemma completed_audit_prefix:
  assumes "completion_prefix ext a w = Inr (n, b, q, final, l)" and "same_events a db'"
    and "later w (completed_receipt s ev w (n, b, q) m)" and "l \<le> fb_sequence (cv_boundary ev)"
    and "workload_receipt_validate ext (completed_receipt s ev w (n, b, q) m) = Inr ()"
  shows "audit_prefix ext db' (completed_receipt s ev w (n, b, q) m) = Inr ()"
proof -
  let ?w = "completed_receipt s ev w (n, b, q) m"
  obtain kind dev adapter parameters where
    src: "wk_source (wr_definition w) = MicrophoneEnergy kind dev adapter parameters"
    by (cases "wk_source (wr_definition w)")
  have "cv_observations ev = en_max_blocks parameters"
      "cv_frames ev = cv_observations ev * en_block_frames parameters"
    using assms(5) src by (auto simp: workload_receipt_validate_def completion_validate_def Let_def)
  moreover have "e_source_sequence final \<le> en_max_blocks parameters"
      "e_source_frames final = e_source_sequence final * en_block_frames parameters"
    using completion_prefix_event [OF assms(1)] src by (auto simp: event_validate_def)
  ultimately have "e_source_sequence final \<le> cv_observations ev" "e_source_frames final \<le> cv_frames ev"
    by simp_all
  then show ?thesis
    using completion_prefix_later [OF assms(1-3)] assms(4) by (simp add: audit_prefix_def)
qed

lemma completed_row:
  assumes "journal_ok db" and "count_if (completed_where s) (j_receipts db) = 1"
    and "receipt_of db (sc_grant_id s) = Some r"
  shows "completed_where s r"
proof -
  obtain x where x: "x \<in> set (j_receipts db)" "completed_where s x"
    using assms(2) count_if_0_iff [of "completed_where s" "j_receipts db"] by auto
  have "x = r"
    by (rule distinct_key_eq [OF journal_okD(1) [OF assms(1)] x(1)])
       (use x(2) receipt_of_Some [OF assms(3)] in \<open>simp_all add: completed_where_def\<close>)
  then show ?thesis using x(2) by simp
qed

lemma completed_core:
  assumes codec: "completion_codec ext report" and hex: "\<And>s. hex_digest (sha256_hex ext s)"
    and ok: "journal_ok db" and ok': "journal_ok db'"
    and core: "read_core ext db node issuer (sc_grant_id s) = Inr w"
    and acc: "cr_state (wr_receipt w) = ACCEPTED"
    and db': "db' = db\<lparr>j_version := 5, j_receipts := update_rows (completed_where s)
             (completed_set (completion_text ext report) (sha256_hex ext (completion_text ext report)) m)
             (j_receipts db)\<rparr>"
    and version: "j_version db \<in> {4, 5}" and one: "count_if (completed_where s) (j_receipts db) = 1"
    and w': "w' = completed_receipt s ev w p m" and rep: "wr_completion w' = Some report"
    and val: "workload_receipt_validate ext w' = Inr ()"
    and len: "length (completion_text ext report) \<le> REPORT_HEADROOM"
    and m: "cr_updated_at_ms (wr_receipt w) \<le> m" "m \<le> i64_max"
  shows "read_core ext db' node issuer (sc_grant_id s) = Inr w'"
  using core
proof (rule read_coreE)
  let ?i = "sc_grant_id s"
  fix r raw
  assume owner: "validate_owner db node = Inr ()" and iw: "is_workload db ?i = Inr True"
    and rc: "read_consumed ext db node issuer ?i = Inr (wr_receipt w)"
    and r: "receipt_of db ?i = Some r"
    and raw: "r_workload_definition r = Some raw" "1 \<le> length raw" "length raw \<le> MAX_DEFINITION_BYTES"
      "workload_parse ext raw = Some (wr_definition w)" "workload_text ext (wr_definition w) = raw"
      "r_max_result_bytes r = ev_max_total_bytes (wk_events (wr_definition w))"
    and w: "wr_execution_authorized w = False" "wr_restart_authorized w = False"
  let ?f = "completed_set (completion_text ext report) (sha256_hex ext (completion_text ext report)) m"
  have head: "same_header db db'" using version by (auto simp: same_header_def db')
  have cw: "completed_where s r" by (rule completed_row [OF ok one r])
  have r': "receipt_of db' ?i = Some (?f r)"
    using receipt_of_update [OF r, of db' "completed_where s" ?f] cw by (simp add: db' completed_set_def)
  have upd: "r_updated_ms r = cr_updated_at_ms (wr_receipt w)"
    using read_consumed_row(2) [OF rc journal_okD(1) [OF ok] r] by simp
  have le: "row_le r (?f r)"
    using cw m(1) upd
    by (simp add: completed_set_def completed_where_def row_le_def row_key_def row_states_def)
  have rc': "read_consumed ext db' node issuer ?i = Inr (wr_receipt w')"
    using read_consumed_replace [OF rc head journal_okD(1) [OF ok] journal_okD(1) [OF ok'] r r' le] m(2)
    by (simp add: completed_set_def w')
  have iw': "is_workload db' ?i = Inr True"
    using iw same_header_is_workload [OF head r r'] by (simp add: completed_set_def)
  have h64: "length (sha256_hex ext t) = 64" for t using hex by (simp add: hex_digest_def)
  have cd: "completion_decode ext db' ?i COMPLETED = Inr (Some report)"
    using codec len h64 r' by (simp add: completion_decode_def completion_codec_def completed_set_def db' Suc_le_eq)
  have eq: "\<lparr>wr_schema_version = 3, wr_receipt = wr_receipt w', wr_definition = wr_definition w,
              wr_execution_authorized = False, wr_restart_authorized = False,
              wr_completion = Some report\<rparr> = w'"
    using rep w by (intro workload_receipt.equality) (simp_all add: w')
  have fields: "r_workload_definition (?f r) = Some raw" "r_max_result_bytes (?f r) = r_max_result_bytes r"
    using raw(1) by (simp_all add: completed_set_def)
  have st: "cr_state (wr_receipt w') = COMPLETED" by (simp add: w')
  show ?thesis
    unfolding read_core_def Let_def same_header_owner [OF head] owner rbind.simps iw' rc' r' st cd
      or_err_simps fields raw(4)
    using raw eq val by simp
qed

lemma completion_read_back:
  assumes codec: "\<forall>report. wr_completion w' = Some report \<longrightarrow> completion_codec ext report"
    and hex: "\<And>s. hex_digest (sha256_hex ext s)" and ok: "journal_ok db"
    and tx: "completion_tx ext node ev stop1 stop2 now db = Inr (Saved w', db')"
  shows "read_workload ext db' node (Some (sc_issuer_id (ct_scope (cv_contract ev))))
           (sc_grant_id (ct_scope (cv_contract ev))) = Inr w'"
  using tx
proof (cases rule: completion_txE)
  case refused
  then show ?thesis by simp
next
  case (commit w)
  let ?s = "ct_scope (cv_contract ev)" and ?m = "max now (cr_updated_at_ms (wr_receipt w))"
  from commit(6) obtain n b q final l db1 where
    prefix: "completion_prefix ext db w = Inr (n, b, q, final, l)" and l: "l \<le> fb_sequence (cv_boundary ev)"
    and up: "completion_upgrade ext node db = Inr db1"
    and wr: "completion_write ext ?s (completed_receipt ?s ev w (n, b, q) ?m) ?m stop2 now db1
      = Inr (Saved w', db')"
    by (rule completion_commitE)
  have db1: "db1 = db\<lparr>j_version := 5\<rparr>" by (rule completion_upgrade_eq [OF up])
  have version: "j_version db \<in> {4, 5}" using up by (simp add: completion_upgrade_def)
  show ?thesis
    using wr
  proof (cases rule: completion_writeE)
    case refused
    then show ?thesis by simp
  next
    case (saved report)
    have w': "w' = completed_receipt ?s ev w (n, b, q) ?m" using saved(8) by simp
    have core: "read_core ext db node (Some (sc_issuer_id ?s)) (sc_grant_id ?s) = Inr w"
      and audit: "event_audit ext db w = Inr ()"
      using commit(1) by (auto simp: read_workload_def)
    have ok': "journal_ok db'" using completion_tx_ok [OF tx ok] by blast
    have core': "read_core ext db' node (Some (sc_issuer_id ?s)) (sc_grant_id ?s) = Inr w'"
      by (rule completed_core [OF _ hex ok ok' core commit(3) _ version _ w' _ _ saved(5) _ saved(6)])
         (use saved w' codec in \<open>simp_all add: db1\<close>)
    have same: "same_events db db'" by (simp add: same_events_def saved(9) db1)
    have later: "later w w'" by (simp add: later_def w')
    have "event_audit ext db' w' = Inr ()"
    proof (rule event_audit_later [OF audit _ _ same later])
      show "audit_prefix ext db' w' = Inr ()"
        using completed_audit_prefix [OF prefix same later [unfolded w'] l] saved(3) by (simp add: w')
    qed (use version in \<open>auto simp: saved(9) db1\<close>)
    then show ?thesis using core' by (simp add: read_workload_def)
  qed
qed

end
