(* ===== verification/Ledger_Open.thy ===== *)
theory Ledger_Open
  imports Completion_Evidence
begin

text \<open>
  Opening the journal (\<^verbatim>\<open>GrantLedger::open\<close>): owner, version and schema checks, the audit of
  every retained receipt before any migration, and the two additive migrations. SQLite's
  answer to \<^verbatim>\<open>PRAGMA quick_check\<close> and the presence of an unversioned receipt table are
  arguments. The handle starts with no watcher, one event permit, one final slot and a clear
  failure latch; nothing of an earlier process but the journal survives.
\<close>

section \<open>Definitions\<close>

definition receipt_columns_ok :: "receipt_row \<Rightarrow> bool" where
  "receipt_columns_ok r \<longleftrightarrow> length (r_issuer_id r) = 64 \<and> length (r_job_id r) = 32
     \<and> length (r_task_id r) = 32 \<and> 1 \<le> r_attempt r \<and> r_attempt r \<le> 11
     \<and> length (r_grant_id r) = 36 \<and> length (r_grant_digest r) = 64
     \<and> r_state r \<in> set [ACCEPTED, COMPLETED, UNKNOWN]"

definition read_retained ::
  "'x workload_journal_externals_scheme \<Rightarrow> journal \<Rightarrow> string \<Rightarrow> string \<Rightarrow> unit result" where
  "read_retained ext db node i =
     rbind (is_workload db i) (\<lambda>workload.
     if workload then rbind (read_workload ext db node None i) (\<lambda>_. Inr ())
     else rbind (read_in_snapshot ext db node None i) (\<lambda>_. Inr ()))"

text \<open>The first transaction: the tables of version 1 for a file without a version.\<close>

definition create_tables :: "bool \<Rightarrow> string \<Rightarrow> journal \<Rightarrow> journal result" where
  "create_tables unversioned node db =
     (if j_version db \<noteq> 0 then Inr db
      else
        ensure (\<not> unversioned) (JournalE JournalVersion)
        (let owner = (case j_owner db of None \<Rightarrow> node | Some s \<Rightarrow> s) in
         ensure (owner = node) (JournalE JournalOwner)
         (Inr (db\<lparr>j_owner := Some owner, j_version := 1\<rparr>))))"

text \<open>
  The checks on the retained rows and the second migration; \<open>version\<close> is the version that was
  read before the first transaction.
\<close>

definition migrate_journal ::
  "'x workload_journal_externals_scheme \<Rightarrow> string \<Rightarrow> nat \<Rightarrow> journal \<Rightarrow> journal result" where
  "migrate_journal ext node version db =
     rbind (or_err (j_owner db) (JournalE JournalDamaged)) (\<lambda>owner.
     ensure (owner = node) (JournalE JournalOwner)
     (ensure (list_all receipt_columns_ok (j_receipts db)) (JournalE JournalDamaged)
     (rbind (check_each (read_retained ext db node) (map r_grant_id (j_receipts db))) (\<lambda>_.
      rbind (stop_validate_all ext db node) (\<lambda>_.
      let db2 = (if version < 2 then db\<lparr>j_version := 2\<rparr> else db) in
      rbind (progress_available db2) (\<lambda>present.
      if present then progress_initialize True db2 else Inr db2))))))"

definition open_journal ::
  "'x workload_journal_externals_scheme \<Rightarrow> bool \<Rightarrow> bool \<Rightarrow> string \<Rightarrow> journal \<Rightarrow> journal result" where
  "open_journal ext quick unversioned node db =
     ensure quick (JournalE JournalDamaged)
     (ensure (j_version db \<in> {0, 1, 2, 3, 4, 5}) (JournalE JournalVersion)
     (rbind (validate_schema db (j_version db)) (\<lambda>_.
      rbind (audit_orphans db) (\<lambda>_.
      rbind (progress_available db) (\<lambda>progress.
      ensure (\<not> (progress \<and> j_version db = 0)) (JournalE JournalVersion)
      (rbind (stop_available db) (\<lambda>stops.
       ensure (\<not> (stops \<and> j_version db = 0)) (JournalE JournalVersion)
       (rbind (create_tables unversioned node db) (migrate_journal ext node (j_version db))))))))))"

definition ledger_open ::
  "'x workload_journal_externals_scheme \<Rightarrow> bool \<Rightarrow> bool \<Rightarrow> grant_policy \<Rightarrow> string \<Rightarrow> journal
   \<Rightarrow> ledger result" where
  "ledger_open ext quick unversioned policy node db =
     rbind (grant_policy_validate policy) (\<lambda>_.
     rbind (validate_remote_node_id node) (\<lambda>_.
     rbind (open_journal ext quick unversioned node db) (\<lambda>db'.
     Inr \<lparr>lg_node_id = node, lg_policy = policy, lg_db = db', lg_stops = [],
          lg_event_workers = 1, lg_final_slots = 1, lg_final_failed = False\<rparr>)))"

text \<open>A file that SQLite has just created.\<close>

definition empty_journal :: "nat \<Rightarrow> journal" where
  "empty_journal page =
     \<lparr>j_version = 0, j_owner = None, j_page_size = page, j_page_count = 0,
      j_workload_columns = False, j_event_tables = False, j_receipts = [], j_stops = TableAbsent,
      j_progress = TableAbsent, j_event_states = [], j_events = []\<rparr>"

section \<open>Lemmas\<close>

lemma journal_ok_empty: "journal_ok (empty_journal page)"
  by (simp add: journal_ok_def empty_journal_def attempts_ok_def stop_rows_def)

lemma create_tables_InrD:
  "create_tables unversioned node db = Inr db' \<Longrightarrow>
   j_receipts db' = j_receipts db \<and> j_events db' = j_events db \<and> stop_rows db' = stop_rows db"
  by (auto simp: create_tables_def Let_def stop_rows_def split: if_splits)

lemma progress_initialize_present:
  "progress_initialize True db = Inr db' \<Longrightarrow> db' = db"
  by (auto simp: progress_initialize_def split: if_splits)

text \<open>Every retained receipt was readable when the ledger was opened.\<close>

lemma check_each_all: "check_each f is = Inr () \<longleftrightarrow> (\<forall>i \<in> set is. f i = Inr ())"
  by (induction "is") auto

lemma migrate_journal_InrD:
  assumes "migrate_journal ext node version db = Inr db'"
  shows "db' = (if version < 2 then db\<lparr>j_version := 2\<rparr> else db)" and "j_owner db = Some node"
    and "list_all receipt_columns_ok (j_receipts db)"
    and "\<forall>r \<in> set (j_receipts db). read_retained ext db node (r_grant_id r) = Inr ()"
    and "stop_validate_all ext db node = Inr ()"
proof -
  show "db' = (if version < 2 then db\<lparr>j_version := 2\<rparr> else db)"
    using assms progress_initialize_present unfolding migrate_journal_def Let_def
    by (auto simp del: or_err_simps split: if_split_asm)
  show "j_owner db = Some node" "list_all receipt_columns_ok (j_receipts db)"
    "\<forall>r \<in> set (j_receipts db). read_retained ext db node (r_grant_id r) = Inr ()"
    "stop_validate_all ext db node = Inr ()"
    using assms unfolding migrate_journal_def Let_def by (simp_all add: check_each_all)
qed

lemma open_journal_InrD:
  assumes "open_journal ext quick unversioned node db = Inr db'"
  obtains db1 where "create_tables unversioned node db = Inr db1"
    and "migrate_journal ext node (j_version db) db1 = Inr db'"
  using assms unfolding open_journal_def by (simp only: ensure_Inr_iff rbind_Inr_iff) blast

lemma open_journal_rows:
  assumes "open_journal ext quick unversioned node db = Inr db'"
  shows "j_receipts db' = j_receipts db \<and> j_events db' = j_events db \<and> stop_rows db' = stop_rows db"
proof -
  obtain db1 where one: "create_tables unversioned node db = Inr db1"
    and two: "migrate_journal ext node (j_version db) db1 = Inr db'"
    using assms by (rule open_journal_InrD)
  show ?thesis using create_tables_InrD [OF one] by (simp add: migrate_journal_InrD(1) [OF two])
qed

lemma open_journal_ok:
  assumes "open_journal ext quick unversioned node db = Inr db'" and "journal_ok db"
  shows "journal_ok db' \<and> journal_le db db'"
  using open_journal_rows [OF assms(1)] assms(2) journal_le_refl [OF assms(2)]
  by (simp add: journal_ok_def journal_le_def)

lemma ledger_open_InrD:
  assumes "ledger_open ext quick unversioned policy node db = Inr lg"
  shows "open_journal ext quick unversioned node db = Inr (lg_db lg)" and "lg_policy lg = policy"
    and "lg_node_id lg = node" and "lg_final_slots lg = 1" and "lg_stops lg = []"
    and "\<not> lg_final_failed lg" and "lg_event_workers lg = 1"
  using assms by (auto simp: ledger_open_def)

end
