(* ===== verification/Journal_Machine.thy ===== *)
theory Journal_Machine
  imports Ledger_Open
begin

text \<open>
  The node's grant runtime as a state machine over its journal. A step is one call of the
  program that may write: admission, the end of a run, a dropped grant, a pipeline
  observation, a stop request, the consumption of a workload, an appended event, the two
  final saves, a final save that no worker takes, a dropped watcher, the growth of the SQLite
  file, and a restart, which may happen at any point and keeps nothing but the journal. The arguments of the calls are
  arbitrary, so a run is any interleaving of any callers.
\<close>

section \<open>How a call changes the receipts\<close>

text \<open>A row that passed the slot check of its scope.\<close>

definition admitted_row :: "'x externals_scheme \<Rightarrow> journal \<Rightarrow> scope \<Rightarrow> receipt_row \<Rightarrow> bool" where
  "admitted_row ext db s r \<longleftrightarrow> check_attempt_slot ext db s = Inr ()
     \<and> row_key r = (sc_issuer_id s, sc_job_id s, sc_task_id s, sc_attempt s)
     \<and> r_grant_id r = sc_grant_id s \<and> r_grant_digest r = sc_grant_sha256 s \<and> r_state r = ACCEPTED"

definition row_ids :: "journal \<Rightarrow> string list" where
  "row_ids db = map r_grant_id (j_receipts db)"

text \<open>At most one new row, within the quota, for an admitted scope or for a recorded stop.\<close>

definition one_row_more :: "'x externals_scheme \<Rightarrow> grant_policy \<Rightarrow> journal \<Rightarrow> journal \<Rightarrow> bool" where
  "one_row_more ext policy a b \<longleftrightarrow> row_ids b = row_ids a
     \<or> (\<exists>r. j_receipts b = j_receipts a @ [r] \<and> length (j_receipts a) < gp_max_receipts policy
          \<and> ((\<exists>s. admitted_row ext a s r) \<or> r_state r = UNKNOWN))"

lemma one_row_more_refl [simp]: "one_row_more ext policy db db"
  by (simp add: one_row_more_def)

lemma row_ids_update:
  "(\<And>r. r_grant_id (f r) = r_grant_id r) \<Longrightarrow> map r_grant_id (update_rows P f rs) = map r_grant_id rs"
  by (rule map_update_rows_eq) simp

lemma claim_rows:
  assumes "claim ext lg g now = Inr lg'"
  shows "lg' = lg\<lparr>lg_db := lg_db lg'\<rparr>" and "admitted_row ext (lg_db lg) (grant_scope ext g) (claim_row ext g now)"
    and "j_receipts (lg_db lg') = j_receipts (lg_db lg) @ [claim_row ext g now]"
    and "one_row_more ext (lg_policy lg) (lg_db lg) (lg_db lg')"
proof -
  obtain db where tx: "claim_tx ext (lg_policy lg) g now (lg_db lg) = Inr db" "lg' = lg\<lparr>lg_db := db\<rparr>"
    using assms by (auto simp: claim_def)
  note C = claim_tx_InrD [OF tx(1)]
  show "lg' = lg\<lparr>lg_db := lg_db lg'\<rparr>" using tx(2) by simp
  show adm: "admitted_row ext (lg_db lg) (grant_scope ext g) (claim_row ext g now)"
    using C(2) by (simp add: admitted_row_def grant_scope_def row_key_def claim_row_def)
  show rows: "j_receipts (lg_db lg') = j_receipts (lg_db lg) @ [claim_row ext g now]"
    using C(1) tx(2) by auto
  show "one_row_more ext (lg_policy lg) (lg_db lg) (lg_db lg')"
    using adm rows C(5) by (auto simp: one_row_more_def)
qed

lemma finish_rows:
  assumes "finish ext lg g report now = Inr lg'"
  shows "row_ids (lg_db lg') = row_ids (lg_db lg)" and "lg' = lg\<lparr>lg_db := lg_db lg'\<rparr>"
  using assms by (auto elim!: finish_InrD simp: row_ids_def finish_set_def intro!: row_ids_update)

lemma progress_rows_same:
  assumes "progress_update ext node g p db = Inr (q, db')"
  shows "row_ids db' = row_ids db"
  using assms by (auto simp: progress_update_def Let_def row_ids_def intro!: row_ids_update)

lemma stop_tx_rows:
  assumes "stop_tx ext policy s now db = Inr (report, db')"
  shows "one_row_more ext policy db db'"
  using assms record_stop_InrD(5) [of policy s now db report db']
  by (auto simp: stop_tx_def one_row_more_def row_ids_def unknown_row_def split: option.splits)

lemma append_tx_rows:
  assumes "append_tx ext node db d e cp c env now = Inr (a, db')"
  shows "row_ids db' = row_ids db"
  using assms
proof (rule append_txE)
  fix w saved
  assume "(e_sequence e \<le> sv_count saved \<and> db' = db \<and> ap_reused a \<and> event_audit ext db w = Inr ()
          \<and> (\<exists>old. read_row ext db w (e_sequence e) = Inr old \<and> rc_event (dr_record old) = e
               \<and> ap_data_sha256 a = dr_checksum old))
       \<or> (sv_count saved < e_sequence e \<and> append_new ext db d e w saved cp c env now = Inr (a, db'))"
  then show ?thesis
    by (auto elim!: append_new_InrD simp: row_ids_def save_event_def intro!: row_ids_update)
qed

lemma consume_tx_rows:
  assumes tx: "consume_tx ext lg d c policy pf env = Inr db'" and ok: "journal_ok (lg_db lg)"
    and contract: "lease_contract ext d = Inr c"
  shows "admitted_row ext (lg_db lg) (ct_scope c) (workload_row ext d (ct_scope c) (max (ce_wall env) 1))"
    and "one_row_more ext (lg_policy lg) (lg_db lg) db'"
proof -
  note S = workload_scope_ids [OF lease_contract_InrD(1) [OF contract]]
  have slot: "check_attempt_slot ext (lg_db lg) (ct_scope c) = Inr ()"
    using tx by (rule consume_tx_InrD)
  then show adm: "admitted_row ext (lg_db lg) (ct_scope c) (workload_row ext d (ct_scope c) (max (ce_wall env) 1))"
    using S by (simp add: admitted_row_def row_key_def workload_row_def)
  then show "one_row_more ext (lg_policy lg) (lg_db lg) db'"
    using consume_tx_ok(2,3) [OF tx ok contract] by (auto simp: one_row_more_def)
qed

lemma uncertain_rows [simp]: "row_ids (uncertain s now db) = row_ids db"
  by (simp add: row_ids_def uncertain_def row_ids_update)

lemma completion_tx_rows:
  assumes "completion_tx ext node ev stop1 stop2 now db = Inr (out, db')"
  shows "row_ids db' = row_ids db"
  using assms
proof (cases rule: completion_txE)
  case (commit w)
  from commit(6) show ?thesis
  proof (rule completion_commitE)
    fix n b q f l db1
    assume up: "completion_upgrade ext node db = Inr db1"
      and wr: "completion_write ext (ct_scope (cv_contract ev))
             (completed_receipt (ct_scope (cv_contract ev)) ev w (n, b, q)
               (max now (cr_updated_at_ms (wr_receipt w))))
             (max now (cr_updated_at_ms (wr_receipt w))) stop2 now db1 = Inr (out, db')"
    have "row_ids db1 = row_ids db" by (simp add: completion_upgrade_eq [OF up] row_ids_def)
    with wr show ?thesis
      by (cases rule: completion_writeE) (simp_all add: row_ids_def row_ids_update completed_set_def uncertain_def)
  qed
qed simp

section \<open>The machine\<close>

text \<open>
  The handle and the scopes whose consumption owns a final slot or whose final save is queued.
\<close>

record site =
  si_ledger :: ledger
  si_held :: "scope list"

abbreviation si_db :: "site \<Rightarrow> journal" where
  "si_db s \<equiv> lg_db (si_ledger s)"

datatype site_event =
    Prepared execution_grant "accepted_grant result"
  | Ran accepted_grant grant_report
  | Dropped accepted_grant
  | Progressed execution_grant pipeline_progress
  | StopAsked scope "stop_report result"
  | Consumed workload "consumption result"
  | Appended workload event "append_receipt result"
  | FinalUnknown scope "unit result"
  | FinalCompletion evidence "workload_receipt result result"
  | FinalUnstarted scope
  | Unwatched string
  | Grown nat
  | Reopened

definition held_after :: "consumption result \<Rightarrow> scope option \<Rightarrow> scope list \<Rightarrow> scope list" where
  "held_after r final held =
     (case r of Inr cn \<Rightarrow> ct_scope (cn_contract cn) # held
      | Inl _ \<Rightarrow> (case final of None \<Rightarrow> held | Some s \<Rightarrow> s # held))"

inductive site_step ::
  "'x workload_journal_externals_scheme \<Rightarrow> site \<Rightarrow> site_event \<Rightarrow> site \<Rightarrow> bool" for ext where
  site_prepare: "prepare_deadline ext lg admitted g issuer session node deadline peer now accepted wall claimed
      = (r, lg') \<Longrightarrow> site_step ext \<lparr>si_ledger = lg, si_held = h\<rparr> (Prepared g r) \<lparr>si_ledger = lg', si_held = h\<rparr>"
| site_run: "run_operation ext lg ag windows ticks late now = Some (report, lg') \<Longrightarrow>
    site_step ext \<lparr>si_ledger = lg, si_held = h\<rparr> (Ran ag report) \<lparr>si_ledger = lg', si_held = h\<rparr>"
| site_drop: "site_step ext \<lparr>si_ledger = lg, si_held = h\<rparr> (Dropped ag)
      \<lparr>si_ledger = accepted_drop ext lg ag now, si_held = h\<rparr>"
| site_progress: "record_pipeline_progress ext lg g p = Inr (q, lg') \<Longrightarrow>
    site_step ext \<lparr>si_ledger = lg, si_held = h\<rparr> (Progressed g p) \<lparr>si_ledger = lg', si_held = h\<rparr>"
| site_stop: "request_stop_scope ext lg s issuer session node now = (r, lg') \<Longrightarrow>
    site_step ext \<lparr>si_ledger = lg, si_held = h\<rparr> (StopAsked s r) \<lparr>si_ledger = lg', si_held = h\<rparr>"
| site_consume: "consume_workload ext lg d policy pf issuer session node env = (r, lg', final) \<Longrightarrow>
    site_step ext \<lparr>si_ledger = lg, si_held = h\<rparr> (Consumed d r)
      \<lparr>si_ledger = lg', si_held = held_after r final h\<rparr>"
| site_append: "event_append ext lg d e cp env now = (r, lg') \<Longrightarrow>
    site_step ext \<lparr>si_ledger = lg, si_held = h\<rparr> (Appended d e r) \<lparr>si_ledger = lg', si_held = h\<rparr>"
| site_final_unknown: "s \<in> set h \<Longrightarrow> final_unknown ext lg s now = (r, lg') \<Longrightarrow>
    site_step ext \<lparr>si_ledger = lg, si_held = h\<rparr> (FinalUnknown s r)
      \<lparr>si_ledger = lg', si_held = remove1 s h\<rparr>"
| site_final_completion: "ct_scope (cv_contract ev) \<in> set h \<Longrightarrow>
    final_completion ext lg ev stop1 stop2 stop3 now = (r, lg') \<Longrightarrow>
    site_step ext \<lparr>si_ledger = lg, si_held = h\<rparr> (FinalCompletion ev r)
      \<lparr>si_ledger = lg', si_held = remove1 (ct_scope (cv_contract ev)) h\<rparr>"
| site_final_unstarted: "s \<in> set h \<Longrightarrow> site_step ext \<lparr>si_ledger = lg, si_held = h\<rparr> (FinalUnstarted s)
      \<lparr>si_ledger = final_unstarted lg, si_held = remove1 s h\<rparr>"
| site_unwatch: "site_step ext \<lparr>si_ledger = lg, si_held = h\<rparr> (Unwatched i)
      \<lparr>si_ledger = watch_drop lg i, si_held = h\<rparr>"
| site_grow: "site_step ext \<lparr>si_ledger = lg, si_held = h\<rparr> (Grown n)
      \<lparr>si_ledger = lg\<lparr>lg_db := (lg_db lg)\<lparr>j_page_count := n\<rparr>\<rparr>, si_held = h\<rparr>"
| site_reopen: "ledger_open ext quick unversioned policy (lg_node_id lg) (lg_db lg) = Inr lg' \<Longrightarrow>
    site_step ext \<lparr>si_ledger = lg, si_held = h\<rparr> Reopened \<lparr>si_ledger = lg', si_held = []\<rparr>"

inductive_cases prepared_stepE: "site_step ext s (Prepared g r) t"
inductive_cases ran_stepE: "site_step ext s (Ran ag report) t"
inductive_cases stop_stepE: "site_step ext s (StopAsked sc r) t"
inductive_cases consumed_stepE: "site_step ext s (Consumed d r) t"
inductive_cases appended_stepE: "site_step ext s (Appended d e r) t"
inductive_cases final_completion_stepE: "site_step ext s (FinalCompletion ev r) t"

definition site_ok :: "site \<Rightarrow> bool" where
  "site_ok s \<longleftrightarrow> journal_ok (si_db s) \<and> lg_final_slots (si_ledger s) + length (si_held s) = 1"

section \<open>One step\<close>

lemma prepare_cases:
  assumes "prepare_deadline ext lg admitted g issuer session node deadline peer now accepted wall claimed
      = (r, lg')"
  obtains "lg' = lg" and "\<not> is_ok r"
  | lg1 w where "claim ext lg g claimed = Inr lg1" and "lg' = lg1\<lparr>lg_stops := w\<rparr>"
      and "grant_validate ext g = Inr ()" and "admitted"
      and "\<And>ag. r = Inr ag \<Longrightarrow> ag_grant ag = g"
proof -
  have "(lg' = lg \<and> \<not> is_ok r) \<or> (\<exists>lg1 w. claim ext lg g claimed = Inr lg1 \<and> lg' = lg1\<lparr>lg_stops := w\<rparr>
      \<and> grant_validate ext g = Inr () \<and> admitted \<and> (\<forall>ag. r = Inr ag \<longrightarrow> ag_grant ag = g))"
  proof (cases "claim ext lg g claimed")
    case (Inl e)
    then show ?thesis using assms by (auto simp: prepare_deadline_def split: if_splits)
  next
    case (Inr lg1)
    have self: "\<exists>w. lg1 = lg1\<lparr>lg_stops := w\<rparr>" by (rule exI [of _ "lg_stops lg1"]) simp
    show ?thesis
    proof (cases "rbind (scope_from_grant ext g) (watch_stop_scope ext lg1)")
      case (Inl e)
      then show ?thesis using assms \<open>claim ext lg g claimed = Inr lg1\<close> self
        unfolding prepare_deadline_def by (auto split: if_split_asm)
    next
      case w: (Inr lg2)
      then obtain w where "lg2 = lg1\<lparr>lg_stops := w\<rparr>" by (auto dest: watch_stop_scope_InrD)
      then show ?thesis using assms \<open>claim ext lg g claimed = Inr lg1\<close> w
        unfolding prepare_deadline_def by (auto split: if_split_asm)
    qed
  qed
  then show thesis using that by blast
qed

text \<open>What every call leaves alone, and how it moves the journal.\<close>

definition ledger_moves :: "'x externals_scheme \<Rightarrow> ledger \<Rightarrow> ledger \<Rightarrow> bool" where
  "ledger_moves ext a b \<longleftrightarrow> lg_node_id b = lg_node_id a \<and> lg_policy b = lg_policy a
     \<and> journal_ok (lg_db b) \<and> journal_le (lg_db a) (lg_db b)
     \<and> one_row_more ext (lg_policy a) (lg_db a) (lg_db b)"

lemma ledger_moves_db:
  assumes "journal_ok db' \<and> journal_le (lg_db lg) db'" and "row_ids db' = row_ids (lg_db lg)"
    and "lg_node_id b = lg_node_id lg" and "lg_policy b = lg_policy lg" and "lg_db b = db'"
  shows "ledger_moves ext lg b"
  using assms by (simp add: ledger_moves_def one_row_more_def)

lemma ledger_moves_refl:
  "journal_ok (lg_db lg) \<Longrightarrow> lg_db b = lg_db lg \<Longrightarrow> lg_node_id b = lg_node_id lg
   \<Longrightarrow> lg_policy b = lg_policy lg \<Longrightarrow> ledger_moves ext lg b"
  by (simp add: ledger_moves_def journal_le_refl)

lemma claim_moves:
  assumes "claim ext lg g now = Inr lg'" and "journal_ok (lg_db lg)"
  shows "ledger_moves ext lg (lg'\<lparr>lg_stops := w\<rparr>)" and "lg_final_slots lg' = lg_final_slots lg"
proof -
  obtain db where tx: "claim_tx ext (lg_policy lg) g now (lg_db lg) = Inr db" "lg' = lg\<lparr>lg_db := db\<rparr>"
    using assms(1) by (auto simp: claim_def)
  then show "ledger_moves ext lg (lg'\<lparr>lg_stops := w\<rparr>)"
    using claim_tx_ok [OF tx(1) assms(2)] claim_rows(4) [OF assms(1)] by (simp add: ledger_moves_def)
  show "lg_final_slots lg' = lg_final_slots lg" using tx(2) by simp
qed

lemma finish_moves:
  assumes "finish ext lg g report now = Inr lg'" and "journal_ok (lg_db lg)"
  shows "ledger_moves ext lg lg'" and "lg_final_slots lg' = lg_final_slots lg"
proof -
  have "lg_node_id lg' = lg_node_id lg" "lg_policy lg' = lg_policy lg" "lg_final_slots lg' = lg_final_slots lg"
    using arg_cong [OF finish_rows(2) [OF assms(1)], of lg_node_id]
      arg_cong [OF finish_rows(2) [OF assms(1)], of lg_policy]
      arg_cong [OF finish_rows(2) [OF assms(1)], of lg_final_slots] by simp_all
  then show "ledger_moves ext lg lg'" "lg_final_slots lg' = lg_final_slots lg"
    using ledger_moves_db [OF finish_ok [OF assms] finish_rows(1) [OF assms(1)], where ext = ext] by simp_all
qed

lemma watch_drop_moves [simp]:
  "ledger_moves ext lg (watch_drop b i) = ledger_moves ext lg b"
  "lg_final_slots (watch_drop b i) = lg_final_slots b"
  by (simp_all add: ledger_moves_def watch_drop_def)

lemma run_operation_moves:
  assumes "run_operation ext lg ag windows ticks late now = Some (report, lg')" and "journal_ok (lg_db lg)"
  shows "ledger_moves ext lg lg'" and "lg_final_slots lg' = lg_final_slots lg"
proof -
  obtain rep where "run_finish ext lg ag rep late now = (report, lg')"
    using assms(1) by (auto simp: run_operation_def split: option.splits)
  then have "(\<exists>b. lg' = watch_drop b (g_grant_id (ag_grant ag))
      \<and> (b = lg \<or> (\<exists>r. finish ext lg (ag_grant ag) r now = Inr b)))"
    by (auto simp: run_finish_def Let_def split: sum.splits)
  then show "ledger_moves ext lg lg'" "lg_final_slots lg' = lg_final_slots lg"
    using finish_moves [OF _ assms(2)] ledger_moves_refl [OF assms(2), where ext = ext] by auto
qed

lemma accepted_drop_moves:
  assumes "journal_ok (lg_db lg)"
  shows "ledger_moves ext lg (accepted_drop ext lg ag now)"
    and "lg_final_slots (accepted_drop ext lg ag now) = lg_final_slots lg"
proof -
  have "\<exists>b. accepted_drop ext lg ag now = watch_drop b (g_grant_id (ag_grant ag))
      \<and> (b = lg \<or> (\<exists>r. finish ext lg (ag_grant ag) r now = Inr b))"
    by (auto simp: accepted_drop_def Let_def split: sum.splits)
  then show "ledger_moves ext lg (accepted_drop ext lg ag now)"
    "lg_final_slots (accepted_drop ext lg ag now) = lg_final_slots lg"
    using finish_moves [OF _ assms] ledger_moves_refl [OF assms, where ext = ext] by auto
qed

lemma progress_moves:
  assumes "record_pipeline_progress ext lg g p = Inr (q, lg')" and "journal_ok (lg_db lg)"
  shows "ledger_moves ext lg lg'" and "lg_final_slots lg' = lg_final_slots lg"
proof -
  obtain db where db: "progress_update ext (lg_node_id lg) g p (lg_db lg) = Inr (q, db)" "lg' = lg\<lparr>lg_db := db\<rparr>"
    using assms(1) by (auto simp: record_pipeline_progress_def)
  show "ledger_moves ext lg lg'" "lg_final_slots lg' = lg_final_slots lg"
    using ledger_moves_db [OF progress_update_ok [OF db(1) assms(2)] progress_rows_same [OF db(1)], where ext = ext] db(2)
    by simp_all
qed

lemma stop_moves:
  assumes "request_stop_scope ext lg s issuer session node now = (r, lg')" and "journal_ok (lg_db lg)"
  shows "ledger_moves ext lg lg'" and "lg_final_slots lg' = lg_final_slots lg"
    and "is_ok r \<Longrightarrow> sc_grant_id s \<in> st_grant_id ` set (stop_rows (lg_db lg'))"
  using assms(1)
proof (atomize (full), cases rule: request_stop_scope_cases)
  case 1
  then show "ledger_moves ext lg lg' \<and> lg_final_slots lg' = lg_final_slots lg
      \<and> (is_ok r \<longrightarrow> sc_grant_id s \<in> st_grant_id ` set (stop_rows (lg_db lg')))"
    using ledger_moves_refl [OF assms(2), where ext = ext] by simp
next
  case (2 report db w)
  then show "ledger_moves ext lg lg' \<and> lg_final_slots lg' = lg_final_slots lg
      \<and> (is_ok r \<longrightarrow> sc_grant_id s \<in> st_grant_id ` set (stop_rows (lg_db lg')))"
    using stop_tx_ok [OF 2(1) assms(2)] stop_tx_rows [OF 2(1)] stop_tx_recorded [OF 2(1)]
    by (simp add: ledger_moves_def)
qed

lemma append_moves:
  assumes "event_append ext lg d e cp env now = (r, lg')" and "journal_ok (lg_db lg)"
  shows "ledger_moves ext lg lg'" and "lg_final_slots lg' = lg_final_slots lg"
  using assms(1)
proof (atomize (full), cases rule: event_append_cases)
  case 1
  then show "ledger_moves ext lg lg' \<and> lg_final_slots lg' = lg_final_slots lg"
    using ledger_moves_refl [OF assms(2), where ext = ext] by simp
next
  case (2 c a db)
  then show "ledger_moves ext lg lg' \<and> lg_final_slots lg' = lg_final_slots lg"
    using ledger_moves_db [OF append_tx_ok [OF 2(2) assms(2)] append_tx_rows [OF 2(2)], where ext = ext] by simp
qed

lemma consume_moves:
  assumes "consume_workload ext lg d policy pf issuer session node env = (r, lg', final)"
    and "journal_ok (lg_db lg)"
  shows "ledger_moves ext lg lg'"
    and "lg_final_slots lg' + length (held_after r final h) = lg_final_slots lg + length h"
  using assms(1)
proof (atomize (full), cases rule: consume_workload_cases)
  case (1 e)
  then show "ledger_moves ext lg lg'
      \<and> lg_final_slots lg' + length (held_after r final h) = lg_final_slots lg + length h"
    using ledger_moves_refl [OF assms(2), where ext = ext] by (simp add: held_after_def)
next
  case (2 c db w)
  have slots: "lg_final_slots lg > 0" using 2(3) by (rule consume_tx_InrD)
  have "length (held_after r final h) = Suc (length h)"
    using 2(5) by (cases r) (auto simp: held_after_def)
  then show "ledger_moves ext lg lg'
      \<and> lg_final_slots lg' + length (held_after r final h) = lg_final_slots lg + length h"
    using 2(4) slots consume_tx_ok(1) [OF 2(3) assms(2) 2(1)] consume_tx_rows(2) [OF 2(3) assms(2) 2(1)]
    by (simp add: ledger_moves_def)
qed

lemma run_final_slots: "lg_final_slots (snd (run_final p)) = Suc (lg_final_slots (snd p))"
  by (simp add: run_final_def split: prod.splits)

lemma run_final_moves: "ledger_moves ext lg (snd (run_final p)) = ledger_moves ext lg (snd p)"
  by (simp add: ledger_moves_def)

lemma final_unknown_moves:
  assumes "final_unknown ext lg s now = (r, lg')" and "journal_ok (lg_db lg)"
  shows "ledger_moves ext lg lg'" and "lg_final_slots lg' = Suc (lg_final_slots lg)"
proof -
  let ?p = "case mark_workload_unknown ext lg s now of Inl e \<Rightarrow> (Inl e, lg) | Inr l \<Rightarrow> (Inr (), l)"
  have lg': "lg' = snd (run_final ?p)" using assms(1) by (simp add: final_unknown_def flip: snd_conv)
  have "ledger_moves ext lg (snd ?p) \<and> lg_final_slots (snd ?p) = lg_final_slots lg"
  proof (cases "mark_workload_unknown ext lg s now")
    case (Inl e)
    then show ?thesis using ledger_moves_refl [OF assms(2), where ext = ext] by simp
  next
    case (Inr l)
    then show ?thesis
      using mark_workload_unknown_InrD [OF Inr]
        ledger_moves_db [OF uncertain_ok [OF assms(2)] uncertain_rows, where ext = ext] by simp
  qed
  then show "ledger_moves ext lg lg'" "lg_final_slots lg' = Suc (lg_final_slots lg)"
    unfolding lg' run_final_slots run_final_moves by simp_all
qed

lemma final_completion_moves:
  assumes "final_completion ext lg ev stop1 stop2 stop3 now = (r, lg')" and "journal_ok (lg_db lg)"
  shows "ledger_moves ext lg lg'" and "lg_final_slots lg' = Suc (lg_final_slots lg)"
proof -
  let ?p = "completion_save ext lg ev stop1 stop2 stop3 now"
  have lg': "lg' = snd (run_final ?p)" using assms(1) by (simp add: final_completion_def flip: snd_conv)
  have "ledger_moves ext lg (snd ?p) \<and> lg_final_slots (snd ?p) = lg_final_slots lg"
  proof (cases "completion_tx ext (lg_node_id lg) ev stop1 stop2 now (lg_db lg)")
    case (Inl e)
    then show ?thesis
      using ledger_moves_refl [OF assms(2), where ext = ext] by (simp add: completion_save_def)
  next
    case (Inr q)
    obtain out db where q: "q = (out, db)" by (cases q)
    have "snd ?p = lg\<lparr>lg_db := db\<rparr>" using Inr q by (cases out) (simp_all add: completion_save_def)
    then show ?thesis
      using ledger_moves_db [OF completion_tx_ok [OF Inr [unfolded q] assms(2)]
          completion_tx_rows [OF Inr [unfolded q]], where ext = ext] by simp
  qed
  then show "ledger_moves ext lg lg'" "lg_final_slots lg' = Suc (lg_final_slots lg)"
    unfolding lg' run_final_slots run_final_moves by simp_all
qed

lemma prepare_moves:
  assumes "prepare_deadline ext lg admitted g issuer session node deadline peer now accepted wall claimed
      = (r, lg')" and "journal_ok (lg_db lg)"
  shows "ledger_moves ext lg lg'" and "lg_final_slots lg' = lg_final_slots lg"
  using assms(1)
proof (atomize (full), cases rule: prepare_cases)
  case 1
  then show "ledger_moves ext lg lg' \<and> lg_final_slots lg' = lg_final_slots lg"
    using ledger_moves_refl [OF assms(2), where ext = ext] by simp
next
  case (2 lg1 w)
  then show "ledger_moves ext lg lg' \<and> lg_final_slots lg' = lg_final_slots lg"
    using claim_moves [OF 2(1) assms(2)] by simp
qed

lemma slot_released: "x \<in> set h \<Longrightarrow> n + length h = 1 \<Longrightarrow> n = 0 \<and> remove1 x h = []"
  by (cases h) auto

text \<open>Every step but a restart is one of these calls.\<close>

lemma site_step_cases:
  assumes "site_step ext s e t" and "site_ok s"
  obtains (moved) "ledger_moves ext (si_ledger s) (si_ledger t)"
      and "lg_final_slots (si_ledger t) + length (si_held t) = 1"
  | (reopened) q u p where "e = Reopened" and "si_held t = []"
      and "ledger_open ext q u p (lg_node_id (si_ledger s)) (si_db s) = Inr (si_ledger t)"
proof -
  have ok: "journal_ok (si_db s)" and slot: "lg_final_slots (si_ledger s) + length (si_held s) = 1"
    using assms(2) by (simp_all add: site_ok_def)
  have "(ledger_moves ext (si_ledger s) (si_ledger t)
      \<and> lg_final_slots (si_ledger t) + length (si_held t) = 1)
    \<or> (\<exists>q u p. e = Reopened \<and> si_held t = []
      \<and> ledger_open ext q u p (lg_node_id (si_ledger s)) (si_db s) = Inr (si_ledger t))"
    using assms(1)
  proof cases
    case (site_prepare lg admitted g issuer session node deadline peer now accepted wall claimed r lg' h)
    then show ?thesis using prepare_moves [OF site_prepare(4)] ok slot by simp
  next
    case (site_run lg ag windows ticks late now report lg' h)
    then show ?thesis using run_operation_moves [OF site_run(4)] ok slot by simp
  next
    case (site_drop lg h ag now)
    then show ?thesis using accepted_drop_moves [where ext = ext and lg = lg] ok slot by simp
  next
    case (site_progress lg g p q lg' h)
    then show ?thesis using progress_moves [OF site_progress(4)] ok slot by simp
  next
    case (site_stop lg sc issuer session node now r lg' h)
    then show ?thesis using stop_moves(1,2) [OF site_stop(4)] ok slot by simp
  next
    case (site_consume lg d policy pf issuer session node env r lg' final h)
    then show ?thesis using consume_moves [OF site_consume(4)] ok slot by simp
  next
    case (site_append lg d e cp env now r lg' h)
    then show ?thesis using append_moves [OF site_append(4)] ok slot by simp
  next
    case (site_final_unknown sc h lg now r lg')
    then show ?thesis
      using final_unknown_moves [OF site_final_unknown(5)] ok slot slot_released [of sc h "lg_final_slots lg"] by simp
  next
    case (site_final_completion ev h lg stop1 stop2 stop3 now r lg')
    then show ?thesis
      using final_completion_moves [OF site_final_completion(5)] ok slot
        slot_released [of "ct_scope (cv_contract ev)" h "lg_final_slots lg"] by simp
  next
    case (site_final_unstarted sc h lg)
    then show ?thesis
      using ledger_moves_refl [OF ok, where ext = ext] slot slot_released [of sc h "lg_final_slots lg"]
      by (simp add: final_unstarted_def)
  next
    case (site_unwatch lg h i)
    then show ?thesis using ledger_moves_refl [OF ok, where ext = ext] slot by simp
  next
    case (site_grow lg h n)
    have "journal_ok (si_db t) \<and> journal_le (si_db s) (si_db t)"
      using ok journal_le_refl [OF ok] site_grow by (simp add: journal_ok_def journal_le_def)
    then show ?thesis using site_grow slot by (simp add: ledger_moves_def one_row_more_def row_ids_def)
  next
    case (site_reopen quick unversioned policy lg lg' h)
    then show ?thesis by auto
  qed
  then show thesis using moved reopened by blast
qed

lemma site_step_moves:
  assumes "site_step ext s e t" and "site_ok s"
  shows "site_ok t" and "journal_le (si_db s) (si_db t)"
    and "one_row_more ext (lg_policy (si_ledger s)) (si_db s) (si_db t)"
    and "lg_node_id (si_ledger t) = lg_node_id (si_ledger s)"
proof -
  have ok: "journal_ok (si_db s)" using assms(2) by (simp add: site_ok_def)
  have "site_ok t \<and> journal_le (si_db s) (si_db t)
      \<and> one_row_more ext (lg_policy (si_ledger s)) (si_db s) (si_db t)
      \<and> lg_node_id (si_ledger t) = lg_node_id (si_ledger s)"
    using assms
  proof (cases rule: site_step_cases)
    case moved
    then show ?thesis by (simp add: ledger_moves_def site_ok_def)
  next
    case (reopened q u p)
    show ?thesis
      using ledger_open_InrD(3,4) [OF reopened(3)] open_journal_ok [OF ledger_open_InrD(1) [OF reopened(3)] ok]
        open_journal_rows [OF ledger_open_InrD(1) [OF reopened(3)]] reopened(2)
      by (simp add: site_ok_def one_row_more_def row_ids_def)
  qed
  then show "site_ok t" "journal_le (si_db s) (si_db t)"
    "one_row_more ext (lg_policy (si_ledger s)) (si_db s) (si_db t)"
    "lg_node_id (si_ledger t) = lg_node_id (si_ledger s)" by blast+
qed

text \<open>The policy changes only with a restart, which validates the new one.\<close>

lemma site_step_policy:
  assumes "site_step ext s e t" and "site_ok s"
  obtains "lg_policy (si_ledger t) = lg_policy (si_ledger s)"
  | "e = Reopened" and "grant_policy_validate (lg_policy (si_ledger t)) = Inr ()"
  using assms
proof (cases rule: site_step_cases)
  case (reopened q u p)
  then have "grant_policy_validate p = Inr ()" "lg_policy (si_ledger t) = p"
    unfolding ledger_open_def by (auto dest: sym)
  then show thesis using that(2) reopened(1) by simp
qed (use that(1) in \<open>simp add: ledger_moves_def\<close>)

section \<open>Runs\<close>

text \<open>The order on sites: what was recorded stays recorded.\<close>

definition site_le :: "site \<Rightarrow> site \<Rightarrow> bool" where
  "site_le s t \<longleftrightarrow> (site_ok s \<longrightarrow> site_ok t \<and> journal_le (si_db s) (si_db t)
     \<and> lg_node_id (si_ledger t) = lg_node_id (si_ledger s))"

interpretation site: monotone_machine "site_step ext" site_ok site_le
proof unfold_locales
  show "site_le s s" for s using journal_le_refl by (simp add: site_le_def site_ok_def)
  show "site_le s u" if "site_le s t" and "site_le t u" for s t u
    using that journal_le_trans unfolding site_le_def by metis
  show "site_ok t" if "site_ok s" and "site_step ext s e t" for s e t
    using site_step_moves(1) that by blast
  show "site_le s t" if "site_ok s" and "site_step ext s e t" for s e t
    using site_step_moves [OF that(2,1)] by (simp add: site_le_def)
qed

lemma site_run_le:
  assumes "run (site_step ext) s es t" and "site_ok s"
  shows "site_ok t" and "journal_le (si_db s) (si_db t)"
  using site.run_le [OF assms(1,2)] assms(2) by (simp_all add: site_le_def)

text \<open>A run that starts with a newly created journal.\<close>

lemma opened_site_ok:
  assumes "ledger_open ext quick unversioned policy node (empty_journal page) = Inr lg"
  shows "site_ok \<lparr>si_ledger = lg, si_held = []\<rparr>"
  using open_journal_ok [OF ledger_open_InrD(1) [OF assms] journal_ok_empty] ledger_open_InrD(4) [OF assms]
  by (simp add: site_ok_def)

end
