(* ===== verification/Journal_History.thy ===== *)
theory Journal_History
  imports Journal_Machine
begin

text \<open>
  What a run of the grant runtime can never do again: admit a grant twice, act on a stopped
  grant, retry a task whose outcome is unknown, or change a final report. Each is a predicate
  on the journal that the order of the machine keeps, with a lemma that it excludes a step.
\<close>

section \<open>Admissions\<close>

fun admission :: "'x grant_externals_scheme \<Rightarrow> site_event \<Rightarrow> scope list" where
  "admission ext (Prepared g (Inr _)) = [grant_scope ext g]"
| "admission ext (Consumed d (Inr cn)) = [ct_scope (cn_contract cn)]"
| "admission ext _ = []"

definition admissions :: "'x grant_externals_scheme \<Rightarrow> site_event list \<Rightarrow> scope list" where
  "admissions ext es = concat (map (admission ext) es)"

lemma admissions_simps [simp]:
  "admissions ext [] = []" "admissions ext (e # es) = admission ext e @ admissions ext es"
  by (simp_all add: admissions_def)

lemma admission_step:
  assumes "site_step ext s e t" and "site_ok s" and "sc \<in> set (admission ext e)"
  shows "\<exists>r. admitted_row ext (si_db s) sc r \<and> j_receipts (si_db t) = j_receipts (si_db s) @ [r]"
    and "admission ext e = [sc]"
proof -
  have ok: "journal_ok (si_db s)" using assms(2) by (simp add: site_ok_def)
  consider (prepared) g ag where "e = Prepared g (Inr ag)" "sc = grant_scope ext g"
    | (consumed) d cn where "e = Consumed d (Inr cn)" "sc = ct_scope (cn_contract cn)"
    using assms(3) by (cases "(ext, e)" rule: admission.cases) auto
  then have "(\<exists>r. admitted_row ext (si_db s) sc r \<and> j_receipts (si_db t) = j_receipts (si_db s) @ [r])
      \<and> admission ext e = [sc]"
  proof cases
    case prepared
    from assms(1)[unfolded prepared(1)] show ?thesis
    proof (rule prepared_stepE)
      fix lg admitted issuer session node deadline peer now accepted wall claimed lg' h
      assume s: "s = \<lparr>si_ledger = lg, si_held = h\<rparr>" "t = \<lparr>si_ledger = lg', si_held = h\<rparr>"
        and p: "prepare_deadline ext lg admitted g issuer session node deadline peer now accepted wall claimed
          = (Inr ag, lg')"
      from p show ?thesis
      proof (cases rule: prepare_cases)
        case (2 lg1 w)
        then show ?thesis using claim_rows(2,3) [OF 2(1)] prepared s by auto
      qed simp
    qed
  next
    case consumed
    from assms(1)[unfolded consumed(1)] show ?thesis
    proof (rule consumed_stepE)
      fix lg policy pf issuer session node env lg' final h
      assume s: "s = \<lparr>si_ledger = lg, si_held = h\<rparr>"
          "t = \<lparr>si_ledger = lg', si_held = held_after (Inr cn) final h\<rparr>"
        and c: "consume_workload ext lg d policy pf issuer session node env = (Inr cn, lg', final)"
      have lg: "journal_ok (lg_db lg)" using ok s by simp
      from c show ?thesis
      proof (cases rule: consume_workload_cases)
        case (2 c db w)
        then have "cn_contract cn = c" by auto
        then show ?thesis
          using consume_tx_rows(1) [OF 2(3) lg 2(1)] consume_tx_ok(3) [OF 2(3) lg 2(1)] 2(4) s consumed by auto
      qed simp
    qed
  qed
  then show "\<exists>r. admitted_row ext (si_db s) sc r \<and> j_receipts (si_db t) = j_receipts (si_db s) @ [r]"
    "admission ext e = [sc]" by blast+
qed

definition scope_slot :: "scope \<Rightarrow> string \<times> string \<times> string" where
  "scope_slot s = (sc_issuer_id s, sc_job_id s, sc_task_id s)"

lemma scope_slot_eq: "scope_slot s = slot_of r \<longleftrightarrow> same_slot s r"
  by (auto simp: scope_slot_def slot_of_def same_slot_def)

text \<open>A scope is new to a journal: an unused grant, and an attempt above all of its task.\<close>

definition new_scope :: "journal \<Rightarrow> scope \<Rightarrow> bool" where
  "new_scope db sc \<longleftrightarrow> sc_grant_id sc \<notin> r_grant_id ` set (j_receipts db)
     \<and> (\<forall>x \<in> set (j_receipts db). scope_slot sc = slot_of x \<longrightarrow> r_attempt x < sc_attempt sc)"

lemma admitted_row_new: "admitted_row ext db sc r \<Longrightarrow> new_scope db sc"
  using check_attempt_slot_InrD(2,3)
  by (fastforce simp: admitted_row_def new_scope_def scope_slot_eq)

lemma new_scope_mono:
  assumes "journal_le a b" and "new_scope b sc"
  shows "new_scope a sc"
  unfolding new_scope_def
proof (intro conjI ballI impI notI)
  assume "sc_grant_id sc \<in> r_grant_id ` set (j_receipts a)"
  then obtain x where x: "x \<in> set (j_receipts a)" "r_grant_id x = sc_grant_id sc" by auto
  then obtain y where "y \<in> set (j_receipts b)" "row_le x y" using assms(1) unfolding journal_le_def by blast
  then show False using assms(2) x(2) unfolding new_scope_def row_le_def by (metis imageI)
next
  fix x assume x: "x \<in> set (j_receipts a)" "scope_slot sc = slot_of x"
  then obtain y where y: "y \<in> set (j_receipts b)" "row_le x y" using assms(1) unfolding journal_le_def by blast
  then have "slot_of y = slot_of x" "r_attempt y = r_attempt x"
    by (auto simp: row_le_def row_key_def slot_of_def)
  then show "r_attempt x < sc_attempt sc" using assms(2) x(2) y(1) unfolding new_scope_def by metis
qed

definition later_admission :: "scope \<Rightarrow> scope \<Rightarrow> bool" where
  "later_admission a b \<longleftrightarrow> sc_grant_id a \<noteq> sc_grant_id b
     \<and> (scope_slot a = scope_slot b \<longrightarrow> sc_attempt a < sc_attempt b)"

lemma run_admissions:
  "run (site_step ext) s es t \<Longrightarrow> site_ok s \<Longrightarrow>
   (\<forall>a \<in> set (admissions ext es). new_scope (si_db s) a) \<and> sorted_wrt later_admission (admissions ext es)"
proof (induction rule: run.induct)
  case (run_cons s e t es u)
  note M = site_step_moves [OF run_cons.hyps(1) run_cons.prems]
  have IH: "\<forall>a \<in> set (admissions ext es). new_scope (si_db t) a"
      "sorted_wrt later_admission (admissions ext es)"
    using run_cons.IH [OF M(1)] by blast+
  have tail: "\<forall>a \<in> set (admissions ext es). new_scope (si_db s) a"
    using IH(1) new_scope_mono [OF M(2)] by blast
  show ?case
  proof (cases "admission ext e")
    case Nil
    then show ?thesis using IH tail by simp
  next
    case (Cons a rest)
    then have a: "a \<in> set (admission ext e)" by simp
    obtain r where r: "admitted_row ext (si_db s) a r" "j_receipts (si_db t) = j_receipts (si_db s) @ [r]"
      and one: "admission ext e = [a]"
      using admission_step [OF run_cons.hyps(1) run_cons.prems a] by blast
    have "later_admission a b" if "new_scope (si_db t) b" for b
    proof -
      have "r \<in> set (j_receipts (si_db t))" using r(2) by simp
      then have "r_grant_id r \<noteq> sc_grant_id b" "scope_slot b = slot_of r \<Longrightarrow> r_attempt r < sc_attempt b"
        using that unfolding new_scope_def by force+
      then show ?thesis
        using r(1) by (simp add: later_admission_def admitted_row_def row_key_def scope_slot_def slot_of_def)
    qed
    then show ?thesis using one IH tail admitted_row_new [OF r(1)] by auto
  qed
qed simp

section \<open>Stops\<close>

definition stop_recorded :: "string \<Rightarrow> site \<Rightarrow> bool" where
  "stop_recorded i s \<longleftrightarrow> i \<in> st_grant_id ` set (stop_rows (si_db s))"

text \<open>
  The successful calls that admit a grant, or that save an event or the completion of a workload
  under it. The report of a one-operation run is not among them: \<^verbatim>\<open>finish\<close> does not read the
  stops, the loop of the run reads the stop watcher before.
\<close>

fun effect :: "string \<Rightarrow> site_event \<Rightarrow> bool" where
  "effect i (Prepared g (Inr _)) = (g_grant_id g = i)"
| "effect i (Consumed d (Inr _)) = (wk_grant_id d = i)"
| "effect i (Appended d e (Inr _)) = (wk_grant_id d = i)"
| "effect i (FinalCompletion ev (Inr (Inr _))) = (sc_grant_id (ct_scope (cv_contract ev)) = i)"
| "effect i _ = False"

lemma append_not_stopped:
  assumes "event_append ext lg d e cp env now = (Inr a, lg')"
  shows "wk_grant_id d \<notin> st_grant_id ` set (stop_rows (lg_db lg))"
  using assms
proof (cases rule: event_append_cases)
  case (2 c b db)
  have "recorded_scope ext (lg_db lg) (ct_scope c) = Inr False" using 2(2) by (rule append_txE)
  then show ?thesis
    using recorded_scope_False workload_scope_ids(1) [OF lease_contract_InrD(1) [OF 2(1)]] by fastforce
qed simp

lemma final_completion_saved:
  assumes "final_completion ext lg ev stop1 stop2 stop3 now = (Inr (Inr w), lg')"
  obtains db where "completion_tx ext (lg_node_id lg) ev stop1 stop2 now (lg_db lg) = Inr (Saved w, db)"
    and "lg_db lg' = db" and "lg_node_id lg' = lg_node_id lg"
proof -
  have f: "fst (completion_save ext lg ev stop1 stop2 stop3 now) = Inr (Inr w)"
      "lg_db lg' = lg_db (snd (completion_save ext lg ev stop1 stop2 stop3 now))"
      "lg_node_id lg' = lg_node_id (snd (completion_save ext lg ev stop1 stop2 stop3 now))"
    using arg_cong [OF assms, of fst] arg_cong [OF assms, of snd] by (auto simp: final_completion_def)
  obtain w' db where tx: "completion_tx ext (lg_node_id lg) ev stop1 stop2 now (lg_db lg) = Inr (Saved w', db)"
      "w' = w"
    using f(1) by (auto simp: completion_save_def split: sum.splits prod.splits save_outcome.splits if_splits)
  then show thesis using that f(2,3) by (simp add: completion_save_def)
qed

lemma completion_not_stopped:
  assumes "final_completion ext lg ev stop1 stop2 stop3 now = (Inr (Inr w), lg')"
  shows "sc_grant_id (ct_scope (cv_contract ev)) \<notin> st_grant_id ` set (stop_rows (lg_db lg))"
  using assms
proof (rule final_completion_saved)
  fix db
  assume "completion_tx ext (lg_node_id lg) ev stop1 stop2 now (lg_db lg) = Inr (Saved w, db)"
  then show ?thesis by (cases rule: completion_txE) (auto dest: recorded_scope_False)
qed

lemma effect_excluded:
  assumes "site_step ext s e t" and "site_ok s" and "effect i e"
  shows "\<not> stop_recorded i s"
proof (cases "admission ext e")
  case (Cons sc rest)
  then have sc: "sc \<in> set (admission ext e)" by simp
  obtain r where "admitted_row ext (si_db s) sc r" using admission_step [OF assms(1,2) sc] by blast
  then have "sc_grant_id sc \<notin> st_grant_id ` set (stop_rows (si_db s))"
    using check_attempt_slot_InrD(1) recorded_scope_False unfolding admitted_row_def by blast
  moreover have "sc_grant_id sc = i"
  proof -
    consider (prepared) g ag where "e = Prepared g (Inr ag)" | (consumed) d cn where "e = Consumed d (Inr cn)"
      using sc by (cases "(ext, e)" rule: admission.cases) auto
    then show ?thesis
    proof cases
      case prepared
      then show ?thesis using assms(3) sc by (simp add: grant_scope_def)
    next
      case consumed
      from assms(1)[unfolded consumed] show ?thesis
      proof (rule consumed_stepE)
        fix lg policy pf issuer session node env lg' final h
        assume "consume_workload ext lg d policy pf issuer session node env = (Inr cn, lg', final)"
        then show ?thesis
        proof (cases rule: consume_workload_cases)
          case (2 c db w)
          then have "cn_contract cn = c" by auto
          then show ?thesis
            using workload_scope_ids(1) [OF lease_contract_InrD(1) [OF 2(1)]] consumed sc assms(3) by simp
        qed simp
      qed
    qed
  qed
  ultimately show ?thesis by (simp add: stop_recorded_def)
next
  case Nil
  then consider (appended) d v a where "e = Appended d v (Inr a)" "wk_grant_id d = i"
    | (final) ev w where "e = FinalCompletion ev (Inr (Inr w))" "sc_grant_id (ct_scope (cv_contract ev)) = i"
    using assms(3) by (cases "(i, e)" rule: effect.cases) auto
  then show ?thesis
  proof cases
    case appended
    from assms(1)[unfolded appended(1)] show ?thesis
      by (rule appended_stepE) (metis append_not_stopped appended(2) stop_recorded_def site.select_convs(1))
  next
    case final
    from assms(1)[unfolded final(1)] show ?thesis
      by (rule final_completion_stepE) (metis completion_not_stopped final(2) stop_recorded_def site.select_convs(1))
  qed
qed

lemma stop_recorded_mono: "site_le s t \<Longrightarrow> site_ok s \<Longrightarrow> stop_recorded i s \<Longrightarrow> stop_recorded i t"
  by (auto simp: site_le_def stop_recorded_def journal_le_def)

lemma run_stopped:
  "run (site_step ext) s es t \<Longrightarrow> site_ok s \<Longrightarrow> stop_recorded i s \<Longrightarrow> \<forall>e \<in> set es. \<not> effect i e"
proof (induction rule: run.induct)
  case (run_cons s e t es u)
  have "\<not> effect i e" using effect_excluded [OF run_cons.hyps(1) run_cons.prems(1)] run_cons.prems(2) by blast
  moreover have "site_ok t" "stop_recorded i t"
    using site_step_moves(1) [OF run_cons.hyps(1) run_cons.prems(1)]
      stop_recorded_mono [OF site.step_le [OF run_cons.prems(1) run_cons.hyps(1)] run_cons.prems] by blast+
  ultimately show ?case using run_cons.IH by simp
qed simp

lemma stop_confirms_flags [simp]:
  "stop_confirms_scope ext (r\<lparr>sr_reused := a\<rparr>) s = stop_confirms_scope ext r s"
  "stop_confirms_scope ext (r\<lparr>sr_cancellation_signalled := a\<rparr>) s = stop_confirms_scope ext r s"
  by (simp_all add: stop_confirms_scope_def stop_identity_valid_def)

lemma stop_tx_read:
  assumes "stop_tx ext policy s now db = Inr (report, db')"
  shows "\<exists>a. stop_read db' (sc_grant_id s) = Inr (Some (report\<lparr>sr_reused := a\<rparr>))"
proof (cases "stop_read db (sc_grant_id s)")
  case (Inr found)
  show ?thesis
  proof (cases found)
    case None
    then have "record_stop policy s now db = Inr (report, db')" using assms Inr by (simp add: stop_tx_def)
    then obtain r where "stop_read db' (sc_grant_id s) = Inr (Some r)" "report = r\<lparr>sr_reused := False\<rparr>"
      by (auto simp: record_stop_def Let_def)
    then show ?thesis by (intro exI [of _ "sr_reused r"]) simp
  next
    case (Some r)
    then have "r = report" "db' = db" using assms Inr by (auto simp: stop_tx_def)
    then show ?thesis using Inr Some by (intro exI [of _ "sr_reused r"]) simp
  qed
qed (use assms in \<open>simp add: stop_tx_def\<close>)

lemma request_stop_InrD:
  assumes "request_stop_scope ext lg s issuer session node now = (Inr report, lg')"
  shows "scope_validate ext s = Inr ()" and "scope_matches_session s issuer session node"
    and "node = lg_node_id lg'" and "stop_confirms_scope ext report s"
    and "\<exists>a b. stop_read (lg_db lg') (sc_grant_id s)
           = Inr (Some (report\<lparr>sr_reused := a, sr_cancellation_signalled := b\<rparr>))"
    and "\<And>entry. map_of (lg_stops lg') (sc_grant_id s) = Some entry \<Longrightarrow> se_digest entry = sc_grant_sha256 s"
proof -
  obtain r db where tx: "stop_tx ext (lg_policy lg) s now (lg_db lg) = Inr (r, db)"
    and v: "scope_validate ext s = Inr ()" "scope_matches_session s issuer session node" "node = lg_node_id lg"
    using assms by (auto simp: request_stop_scope_def split: sum.splits prod.splits)
  consider (unwatched) "lg' = lg\<lparr>lg_db := db\<rparr>" "map_of (lg_stops lg) (sc_grant_id s) = None" "report = r"
    | (watched) entry b where "se_digest entry = sc_grant_sha256 s" "report = r\<lparr>sr_cancellation_signalled := b\<rparr>"
        "lg' = lg\<lparr>lg_db := db, lg_stops := kv_put (sc_grant_id s) (entry\<lparr>se_stopped := True\<rparr>) (lg_stops lg)\<rparr>"
    using assms tx v by (auto simp: request_stop_scope_def Let_def split: option.splits if_splits)
  then have lg': "lg_db lg' = db" "lg_node_id lg' = lg_node_id lg"
      "\<exists>b. r = report\<lparr>sr_cancellation_signalled := b\<rparr>"
    and entry: "\<And>entry. map_of (lg_stops lg') (sc_grant_id s) = Some entry \<Longrightarrow> se_digest entry = sc_grant_sha256 s"
    by (atomize (full), cases) (auto simp: kv_put_def intro: exI [of _ "sr_cancellation_signalled r"])
  have conf: "stop_confirms_scope ext report s"
    using assms tx v by (auto simp: request_stop_scope_def Let_def split: option.splits if_splits)
  obtain a where "stop_read db (sc_grant_id s) = Inr (Some (r\<lparr>sr_reused := a\<rparr>))"
    using stop_tx_read [OF tx] by blast
  moreover obtain b where "r = report\<lparr>sr_cancellation_signalled := b\<rparr>" using lg'(3) by blast
  ultimately show "\<exists>a b. stop_read (lg_db lg') (sc_grant_id s)
           = Inr (Some (report\<lparr>sr_reused := a, sr_cancellation_signalled := b\<rparr>))"
    using lg'(1) by (intro exI [of _ a] exI [of _ b]) simp
  show "scope_validate ext s = Inr ()" "scope_matches_session s issuer session node"
    "node = lg_node_id lg'" "stop_confirms_scope ext report s"
    using v lg'(2) conf by simp_all
  show "se_digest entry = sc_grant_sha256 s" if "map_of (lg_stops lg') (sc_grant_id s) = Some entry" for entry
    by (rule entry [OF that])
qed

lemma recorded_stop_unchanged:
  assumes "stop_read (lg_db lg) (sc_grant_id s) = Inr (Some recorded)"
  shows "lg_db (snd (request_stop_scope ext lg s issuer session node now)) = lg_db lg"
  using assms
  by (auto simp: request_stop_scope_def stop_tx_def Let_def ensure_def split: sum.splits prod.splits option.splits)

section \<open>Unknown outcomes\<close>

text \<open>The newest resolved attempt of the task ended without a known outcome.\<close>

definition unresolved :: "string \<times> string \<times> string \<Rightarrow> journal \<Rightarrow> bool" where
  "unresolved sl db \<longleftrightarrow> (\<exists>r \<in> set (j_receipts db). slot_of r = sl \<and> r_state r = UNKNOWN
     \<and> (\<forall>x \<in> set (j_receipts db). slot_of x = sl \<and> r_attempt r < r_attempt x \<longrightarrow> r_state x = UNKNOWN))"

lemma unresolved_refused:
  assumes "unresolved sl db" and "journal_ok db" and "check_attempt_slot ext db sc = Inr ()"
  shows "scope_slot sc \<noteq> sl"
proof
  assume sl: "scope_slot sc = sl"
  obtain r where r: "r \<in> set (j_receipts db)" "slot_of r = sl" "r_state r = UNKNOWN"
    and newer: "\<forall>x \<in> set (j_receipts db). slot_of x = sl \<and> r_attempt r < r_attempt x \<longrightarrow> r_state x = UNKNOWN"
    using assms(1) unfolding unresolved_def by blast
  have "same_slot sc r" using sl r(2) by (simp flip: scope_slot_eq)
  then obtain m where m: "m \<in> set (j_receipts db)" "same_slot sc m" "r_attempt r \<le> r_attempt m"
      "r_state m = COMPLETED"
    using check_attempt_slot_InrD(4) [OF assms(3) r(1)] by blast
  have slot: "slot_of m = sl" using sl m(2) by (simp flip: scope_slot_eq)
  show False
  proof (cases "r_attempt r < r_attempt m")
    case True
    then show False using newer m(1,4) slot by (metis states_distinct(5))
  next
    case False
    then have "row_key r = row_key m" using m(3) r(2) slot by (auto simp: row_key_def slot_of_def)
    then have "r = m" using distinct_key_eq [OF journal_okD(2) [OF assms(2)] r(1) m(1)] by blast
    then show False using r(3) m(4) by simp
  qed
qed

text \<open>A row of a later journal either continues a row of the earlier one or is the new one.\<close>

lemma row_origin:
  assumes "journal_ok b" and "journal_le a b" and "one_row_more ext policy a b"
    and x: "x \<in> set (j_receipts b)"
  obtains (old) y where "y \<in> set (j_receipts a)" and "row_le y x"
  | (new) sc where "admitted_row ext a sc x"
  | (stopped) "r_state x = UNKNOWN"
proof (cases "row_ids b = row_ids a")
  case True
  then have "r_grant_id x \<in> r_grant_id ` set (j_receipts a)"
    using x unfolding row_ids_def by (metis image_eqI set_map)
  then obtain y where y: "y \<in> set (j_receipts a)" "r_grant_id y = r_grant_id x" by auto
  then obtain z where z: "z \<in> set (j_receipts b)" "row_le y z"
    using assms(2) unfolding journal_le_def by blast
  have "z = x"
    by (rule distinct_key_eq [OF journal_okD(1) [OF assms(1)] z(1) x])
       (use z(2) y(2) in \<open>simp add: row_le_def\<close>)
  then show thesis using old y(1) z(2) by blast
next
  case False
  then obtain r where r: "j_receipts b = j_receipts a @ [r]" "(\<exists>s. admitted_row ext a s r) \<or> r_state r = UNKNOWN"
    using assms(3) unfolding one_row_more_def by blast
  show thesis
  proof (cases "x \<in> set (j_receipts a)")
    case True
    then show thesis using old [OF True] row_le_refl journal_okD(3) [OF assms(1) x] by blast
  next
    case False
    then have "x = r" using x r(1) by simp
    then show thesis using r(2) new stopped by blast
  qed
qed

lemma unresolved_step:
  assumes "site_step ext s e t" and "site_ok s" and "unresolved sl (si_db s)"
  shows "unresolved sl (si_db t)"
proof -
  note M = site_step_moves [OF assms(1,2)]
  have ok: "journal_ok (si_db s)" "journal_ok (si_db t)" using assms(2) M(1) by (simp_all add: site_ok_def)
  obtain r where r: "r \<in> set (j_receipts (si_db s))" "slot_of r = sl" "r_state r = UNKNOWN"
    and newer: "\<forall>x \<in> set (j_receipts (si_db s)). slot_of x = sl \<and> r_attempt r < r_attempt x \<longrightarrow> r_state x = UNKNOWN"
    using assms(3) unfolding unresolved_def by blast
  obtain r' where r': "r' \<in> set (j_receipts (si_db t))" "row_le r r'"
    using M(2) r(1) unfolding journal_le_def by blast
  have "r' = r" using r'(2) r(3) by (simp add: row_le_def)
  have "r_state x = UNKNOWN"
    if x: "x \<in> set (j_receipts (si_db t))" and sl: "slot_of x = sl" and gt: "r_attempt r < r_attempt x" for x
    using ok(2) M(2,3) x
  proof (cases rule: row_origin)
    case (old y)
    then have "slot_of y = sl" "r_attempt y = r_attempt x"
      using sl by (auto simp: row_le_def row_key_def slot_of_def)
    then have "r_state y = UNKNOWN" using newer old(1) gt by auto
    then show ?thesis using old(2) by (auto simp: row_le_def)
  next
    case (new sc)
    then have "scope_slot sc = sl"
      using sl by (simp add: admitted_row_def row_key_def scope_slot_def slot_of_def)
    moreover have "scope_slot sc \<noteq> sl"
      using unresolved_refused [OF assms(3) ok(1)] new by (auto simp: admitted_row_def)
    ultimately show ?thesis by blast
  next
    case stopped
    then show ?thesis .
  qed
  then show ?thesis using r r'(1) \<open>r' = r\<close> unfolding unresolved_def by blast
qed

lemma run_unresolved:
  "run (site_step ext) s es t \<Longrightarrow> site_ok s \<Longrightarrow> unresolved sl (si_db s) \<Longrightarrow>
   \<forall>a \<in> set (admissions ext es). scope_slot a \<noteq> sl"
proof (induction rule: run.induct)
  case (run_cons s e t es u)
  have "scope_slot a \<noteq> sl" if a: "a \<in> set (admission ext e)" for a
  proof -
    obtain r where "admitted_row ext (si_db s) a r"
      using admission_step [OF run_cons.hyps(1) run_cons.prems(1) a] by blast
    then show ?thesis
      using unresolved_refused [OF run_cons.prems(2)] run_cons.prems(1)
      by (auto simp: admitted_row_def site_ok_def)
  qed
  then show ?case
    using run_cons.IH site_step_moves(1) [OF run_cons.hyps(1) run_cons.prems(1)]
      unresolved_step [OF run_cons.hyps(1) run_cons.prems] by auto
qed simp

section \<open>Final reports\<close>

lemma run_operation_saved:
  assumes "run_operation ext lg ag windows ticks late now = Some (report, lg')"
    and "journal_ok (lg_db lg)" and "gr_persisted report"
  shows "\<exists>r st. receipt_of (lg_db lg') (g_grant_id (ag_grant ag)) = Some r
      \<and> terminal_state (gr_state report) = Inr st \<and> r_state r = st
      \<and> r_report r = Some (report_text ext report)
      \<and> r_report_sha256 r = Some (definition_digest ext (report_json ext report))"
    and "report_confirms ext report (ag_grant ag)"
proof -
  obtain rep where fin: "run_finish ext lg ag rep late now = (report, lg')"
    using assms(1) by (auto simp: run_operation_def split: option.splits)
  obtain lg1 where f: "finish ext lg (ag_grant ag) report now = Inr lg1"
      "lg' = watch_drop lg1 (g_grant_id (ag_grant ag))"
    using fin assms(3) by (auto simp: run_finish_def Let_def split: sum.splits)
  show "\<exists>r st. receipt_of (lg_db lg') (g_grant_id (ag_grant ag)) = Some r
      \<and> terminal_state (gr_state report) = Inr st \<and> r_state r = st
      \<and> r_report r = Some (report_text ext report)
      \<and> r_report_sha256 r = Some (definition_digest ext (report_json ext report))"
    using finish_row [OF f(1) assms(2)] by (auto simp: f(2))
  show "report_confirms ext report (ag_grant ag)" using f(1) by (rule finish_InrD)
qed

text \<open>A receipt that left \<open>accepted\<close> is the same in every later journal.\<close>

lemma run_receipt_frozen:
  assumes "run (site_step ext) s es t" and "site_ok s" and "receipt_of (si_db s) i = Some r"
    and "r_state r \<noteq> ACCEPTED"
  shows "receipt_of (si_db t) i = Some r"
proof -
  have "journal_ok (si_db t)" "journal_le (si_db s) (si_db t)"
    using site_run_le [OF assms(1,2)] by (simp_all add: site_ok_def)
  then obtain r' where "receipt_of (si_db t) i = Some r'" "row_le r r'"
    using journal_le_receipt assms(3) by blast
  then show ?thesis using assms(4) by (simp add: row_le_def)
qed

section \<open>Failure latch\<close>

lemma consume_refused_after_failure:
  assumes "lg_final_failed lg"
  shows "\<exists>e. consume_workload ext lg d policy pf issuer session node env = (Inl e, lg, None)"
proof -
  have "\<not> is_ok (consume_admit ext lg d policy pf issuer session node env)"
    using assms by (auto simp: consume_admit_def is_ok_iff)
  then obtain e where "consume_admit ext lg d policy pf issuer session node env = Inl e"
    by (cases "consume_admit ext lg d policy pf issuer session node env") auto
  then show ?thesis by (simp add: consume_workload_def)
qed

lemma claim_latch: "claim ext lg g now = Inr lg' \<Longrightarrow> lg_final_failed lg' = lg_final_failed lg"
  by (auto simp: claim_def)

lemma finish_latch: "finish ext lg g report now = Inr lg' \<Longrightarrow> lg_final_failed lg' = lg_final_failed lg"
  by (erule finish_InrD) simp

lemma watch_drop_latch [simp]: "lg_final_failed (watch_drop lg i) = lg_final_failed lg"
  by (simp add: watch_drop_def)

lemma run_finish_latch:
  "run_finish ext lg ag rep late now = (r, lg') \<Longrightarrow> lg_final_failed lg' = lg_final_failed lg"
  by (auto simp: run_finish_def Let_def dest: finish_latch split: sum.splits)

lemma accepted_drop_latch: "lg_final_failed (accepted_drop ext lg ag now) = lg_final_failed lg"
  by (auto simp: accepted_drop_def Let_def dest: finish_latch split: sum.splits)

lemma run_final_latch:
  "lg_final_failed (snd (run_final p)) = (lg_final_failed (snd p) \<or> \<not> is_ok (fst p))"
  by (simp add: run_final_def split: prod.splits)

lemma final_unknown_latch:
  assumes "final_unknown ext lg s now = (r, lg')"
  shows "lg_final_failed lg' = (lg_final_failed lg \<or> \<not> is_ok r)"
proof -
  let ?p = "case mark_workload_unknown ext lg s now of Inl e \<Rightarrow> (Inl e, lg) | Inr l \<Rightarrow> (Inr (), l)"
  have "r = fst ?p" "lg' = snd (run_final ?p)"
    using arg_cong [OF assms, of fst] arg_cong [OF assms, of snd] by (simp_all add: final_unknown_def)
  moreover have "lg_final_failed (snd ?p) = lg_final_failed lg"
    by (cases "mark_workload_unknown ext lg s now") (auto dest: mark_workload_unknown_InrD)
  ultimately show ?thesis by (simp add: run_final_latch)
qed

lemma final_completion_latch:
  assumes "final_completion ext lg ev stop1 stop2 stop3 now = (r, lg')"
  shows "lg_final_failed lg' = (lg_final_failed lg \<or> \<not> is_ok r)"
proof -
  let ?p = "completion_save ext lg ev stop1 stop2 stop3 now"
  have "r = fst ?p" "lg' = snd (run_final ?p)"
    using arg_cong [OF assms, of fst] arg_cong [OF assms, of snd] by (simp_all add: final_completion_def)
  moreover have "lg_final_failed (snd ?p) = lg_final_failed lg"
    by (auto simp: completion_save_def split: sum.splits prod.splits save_outcome.splits)
  ultimately show ?thesis by (simp add: run_final_latch)
qed

text \<open>Nothing but a restart clears the latch.\<close>

lemma latch_step:
  assumes "site_step ext s e t" and "e \<noteq> Reopened" and "lg_final_failed (si_ledger s)"
  shows "lg_final_failed (si_ledger t)"
  using assms(1)
proof cases
  case (site_prepare lg admitted g issuer session node deadline peer now accepted wall claimed r lg' h)
  from site_prepare(4) show ?thesis
    by (cases rule: prepare_cases) (use site_prepare assms(3) in \<open>auto dest: claim_latch\<close>)
next
  case (site_run lg ag windows ticks late now report lg' h)
  then show ?thesis using assms(3) run_finish_latch
    by (fastforce simp: run_operation_def split: option.splits)
next
  case (site_stop lg sc issuer session node now r lg' h)
  from site_stop(4) show ?thesis
    by (cases rule: request_stop_scope_cases) (use site_stop assms(3) in auto)
next
  case (site_consume lg d policy pf issuer session node env r lg' final h)
  then show ?thesis
    using consume_refused_after_failure [of lg ext d policy pf issuer session node env] assms(3) by auto
next
  case (site_append lg d e cp env now r lg' h)
  from site_append(4) show ?thesis
    by (cases rule: event_append_cases) (use site_append assms(3) in auto)
next
  case (site_final_unknown sc h lg now r lg')
  then show ?thesis using assms(3) final_unknown_latch [OF site_final_unknown(5)] by simp
next
  case (site_final_completion ev h lg stop1 stop2 stop3 now r lg')
  then show ?thesis using assms(3) final_completion_latch [OF site_final_completion(5)] by simp
next
  case site_progress
  then show ?thesis using assms(3) by (auto simp: record_pipeline_progress_def)
qed (use assms in \<open>simp_all add: accepted_drop_latch final_unstarted_def\<close>)

text \<open>The final saves that failed, or that no worker took.\<close>

fun failed_save :: "site_event \<Rightarrow> bool" where
  "failed_save (FinalUnknown s r) = (\<not> is_ok r)"
| "failed_save (FinalCompletion ev r) = (\<not> is_ok r)"
| "failed_save (FinalUnstarted s) = True"
| "failed_save _ = False"

lemma failed_save_latches:
  assumes "site_step ext s e t" and "failed_save e"
  shows "lg_final_failed (si_ledger t)"
  using assms(1)
proof cases
  case (site_final_unknown sc h lg now r lg')
  then show ?thesis using assms(2) final_unknown_latch [OF site_final_unknown(5)] by simp
next
  case (site_final_completion ev h lg stop1 stop2 stop3 now r lg')
  then show ?thesis using assms(2) final_completion_latch [OF site_final_completion(5)] by simp
qed (use assms(2) in \<open>simp_all add: final_unstarted_def\<close>)

lemma run_latched:
  "run (site_step ext) s es t \<Longrightarrow> lg_final_failed (si_ledger s) \<Longrightarrow> Reopened \<notin> set es \<Longrightarrow>
   \<forall>d cn. Consumed d (Inr cn) \<notin> set es"
proof (induction rule: run.induct)
  case (run_cons s e t es u)
  have "e \<noteq> Consumed d (Inr cn)" for d cn
  proof
    assume e: "e = Consumed d (Inr cn)"
    from run_cons.hyps(1)[unfolded e] show False
    proof (rule consumed_stepE)
      fix lg policy pf issuer session node env lg' final h
      assume "s = \<lparr>si_ledger = lg, si_held = h\<rparr>"
        and "consume_workload ext lg d policy pf issuer session node env = (Inr cn, lg', final)"
      then show False
        using consume_refused_after_failure [of lg ext d policy pf issuer session node env] run_cons.prems(1)
        by simp
    qed
  qed
  moreover have "lg_final_failed (si_ledger t)"
    using latch_step [OF run_cons.hyps(1)] run_cons.prems by fastforce
  ultimately show ?case using run_cons.IH run_cons.prems(2) by auto
qed simp

lemma run_latch:
  "run (site_step ext) s es t \<Longrightarrow> lg_final_failed (si_ledger s) \<Longrightarrow> Reopened \<notin> set es \<Longrightarrow>
   lg_final_failed (si_ledger t)"
  by (induction rule: run.induct) (auto dest: latch_step)

section \<open>The final slot\<close>

text \<open>
  The steps after which the slot of a consumption may be used again. A save that no worker takes
  gives the slot back too, but latches the failure, so that nothing is consumed.
\<close>

fun releases_slot :: "site_event \<Rightarrow> bool" where
  "releases_slot (FinalUnknown s r) = True"
| "releases_slot (FinalCompletion ev r) = True"
| "releases_slot Reopened = True"
| "releases_slot _ = False"

definition consumption_blocked :: "site \<Rightarrow> bool" where
  "consumption_blocked s \<longleftrightarrow> si_held s \<noteq> [] \<or> lg_final_failed (si_ledger s)"

lemma blocked_refuses:
  assumes "site_step ext s e t" and "site_ok s" and "consumption_blocked s"
  shows "e \<noteq> Consumed d (Inr cn)"
proof
  assume e: "e = Consumed d (Inr cn)"
  have free: "si_held s = [] \<or> lg_final_slots (si_ledger s) = 0"
    using assms(2) by (cases "si_held s") (simp_all add: site_ok_def)
  from assms(1)[unfolded e] show False
  proof (rule consumed_stepE)
    fix lg policy pf issuer session node env lg' final h
    assume s: "s = \<lparr>si_ledger = lg, si_held = h\<rparr>"
      and c: "consume_workload ext lg d policy pf issuer session node env = (Inr cn, lg', final)"
    have "\<not> lg_final_failed lg" using consume_refused_after_failure [of lg ext d policy pf issuer session node env] c by auto
    then have "lg_final_slots lg = 0" using assms(3) free s by (auto simp: consumption_blocked_def)
    then show False using c by (auto elim!: consume_workload_cases dest!: consume_tx_slot)
  qed
qed

lemma blocked_step:
  assumes "site_step ext s e t" and "consumption_blocked s" and "\<not> releases_slot e"
  shows "consumption_blocked t"
proof (cases "lg_final_failed (si_ledger s)")
  case True
  moreover have "e \<noteq> Reopened" using assms(3) by auto
  ultimately show ?thesis using latch_step [OF assms(1)] by (simp add: consumption_blocked_def)
next
  case False
  then have "si_held s \<noteq> []" using assms(2) by (simp add: consumption_blocked_def)
  with assms(1,3) show ?thesis
    by cases (auto simp: consumption_blocked_def held_after_def final_unstarted_def split: sum.splits option.splits)
qed

lemma run_slot_taken:
  "run (site_step ext) s es t \<Longrightarrow> site_ok s \<Longrightarrow> consumption_blocked s \<Longrightarrow> (\<And>e. e \<in> set es \<Longrightarrow> \<not> releases_slot e) \<Longrightarrow>
   \<forall>d cn. Consumed d (Inr cn) \<notin> set es"
proof (induction rule: run.induct)
  case (run_cons s e t es u)
  have rel: "\<not> releases_slot e" using run_cons.prems(3) by simp
  have "\<forall>d cn. Consumed d (Inr cn) \<notin> set es"
    using run_cons.IH site_step_moves(1) [OF run_cons.hyps(1) run_cons.prems(1)]
      blocked_step [OF run_cons.hyps(1) run_cons.prems(2) rel] run_cons.prems(3) by simp
  then show ?case using blocked_refuses [OF run_cons.hyps(1) run_cons.prems(1,2)] by auto
qed simp

section \<open>Receipt quota\<close>

lemma one_row_more_length:
  assumes "one_row_more ext policy a b"
  shows "length (j_receipts b) \<le> max (length (j_receipts a)) (gp_max_receipts policy)"
  using assms by (auto simp: one_row_more_def row_ids_def dest: map_eq_imp_length_eq)

lemma run_quota:
  "run (site_step ext) s es t \<Longrightarrow> site_ok s \<Longrightarrow> gp_max_receipts (lg_policy (si_ledger s)) \<le> m \<Longrightarrow>
   length (j_receipts (si_db s)) \<le> m \<Longrightarrow> Reopened \<notin> set es \<or> 100000 \<le> m \<Longrightarrow>
   length (j_receipts (si_db t)) \<le> m"
proof (induction rule: run.induct)
  case (run_cons s e t es u)
  have "length (j_receipts (si_db t)) \<le> m"
    using one_row_more_length [OF site_step_moves(3) [OF run_cons.hyps(1) run_cons.prems(1)]] run_cons.prems(2,3)
    by simp
  moreover have "gp_max_receipts (lg_policy (si_ledger t)) \<le> m"
    by (rule site_step_policy [OF run_cons.hyps(1) run_cons.prems(1)])
       (use run_cons.prems in \<open>auto simp: grant_policy_validate_def\<close>)
  ultimately show ?case
    using run_cons.IH site_step_moves(1) [OF run_cons.hyps(1) run_cons.prems(1)] run_cons.prems(4) by auto
qed simp

end
