(* ===== verification/Pipeline_Samples.thy ===== *)
theory Pipeline_Samples
  imports Conditional_Pipeline
begin

text \<open>
  Concrete pipelines for the witnesses: a probe whose result feeds a file write, the same
  graph with a guard on the write, and an instance of the codecs. The instance knows the two
  definitions by name, follows JSON pointers of one reference token and prints a completion
  report as the array of its fields.
\<close>

definition probe_step :: pipeline_step where
  "probe_step =
     \<lparr>ps_id = ''sample'', ps_capability = ''system.ping'', ps_action = ''run'', ps_params = JObject [],
      ps_resource_id = None, ps_model_id = None, ps_backend = None, ps_model_role = None,
      ps_inputs = []\<rparr>"

definition sink_step :: pipeline_step where
  "sink_step =
     \<lparr>ps_id = ''sink'', ps_capability = ''filesystem'', ps_action = ''write'',
      ps_params = JObject [(''path'', JString ''out'')],
      ps_resource_id = None, ps_model_id = None, ps_backend = None, ps_model_role = None,
      ps_inputs = [\<lparr>di_parameter = ''content'', di_source_step = ''sample'', di_pointer = ''/pong'',
        di_wrap_array = False\<rparr>]\<rparr>"

definition copy_graph :: pipeline_graph where
  "copy_graph = \<lparr>pg_schema_version = 1, pg_steps = [probe_step, sink_step],
     pg_max_retained_bytes = 1024\<rparr>"

definition pong_guard :: condition where
  "pong_guard = \<lparr>cd_source_step = ''sample'', cd_pointer = ''/pong'', cd_operator = OpEqual,
     cd_expected = JString ''yes''\<rparr>"

definition guarded_graph :: conditional_graph where
  "guarded_graph = \<lparr>cg_schema_version = 1, cg_graph = copy_graph,
     cg_conditions = [(''sink'', pong_guard)]\<rparr>"

fun sample_pointer :: "json \<Rightarrow> string \<Rightarrow> json option" where
  "sample_pointer v [] = Some v"
| "sample_pointer v (c # key) = jget v key"

definition outcome_json :: "step_outcome \<Rightarrow> json" where
  "outcome_json o1 = JArray [JString (so_id o1),
     JString (case so_state o1 of StepCompleted \<Rightarrow> ''completed''
       | StepSkippedCondition \<Rightarrow> ''skipped_condition''
       | StepSkippedDependency \<Rightarrow> ''skipped_dependency'' | StepFailed \<Rightarrow> ''failed''),
     (case so_condition_matched o1 of None \<Rightarrow> JNull | Some b \<Rightarrow> JBool b),
     (case so_skipped_dependency o1 of None \<Rightarrow> JNull | Some s \<Rightarrow> JString s)]"

definition state_parse :: "string \<Rightarrow> step_state option" where
  "state_parse s = (if s = ''completed'' then Some StepCompleted
     else if s = ''skipped_condition'' then Some StepSkippedCondition
     else if s = ''skipped_dependency'' then Some StepSkippedDependency
     else if s = ''failed'' then Some StepFailed else None)"

fun flag_parse :: "json \<Rightarrow> bool option option" where
  "flag_parse JNull = Some None"
| "flag_parse (JBool b) = Some (Some b)"
| "flag_parse _ = None"

fun name_parse :: "json \<Rightarrow> string option option" where
  "name_parse JNull = Some None"
| "name_parse (JString s) = Some (Some s)"
| "name_parse _ = None"

fun outcome_parse :: "json \<Rightarrow> step_outcome option" where
  "outcome_parse (JArray [JString i, JString st, m, d]) =
     (case (state_parse st, flag_parse m, name_parse d) of
        (Some s, Some f, Some n) \<Rightarrow> Some \<lparr>so_id = i, so_state = s, so_condition_matched = f,
          so_skipped_dependency = n\<rparr>
      | _ \<Rightarrow> None)"
| "outcome_parse _ = None"

fun all_some :: "'a option list \<Rightarrow> 'a list option" where
  "all_some [] = Some []"
| "all_some (x # xs) = (case (x, all_some xs) of (Some y, Some ys) \<Rightarrow> Some (y # ys) | _ \<Rightarrow> None)"

definition finite_report_json :: "finite_result \<Rightarrow> json" where
  "finite_report_json r = JArray [JNum (PosInt (fr_schema_version r)), JString (fr_report_type r),
     JBool (fr_success r), JArray (map JString (fr_completed_steps r)),
     (case fr_failed_step r of None \<Rightarrow> JNull | Some s \<Rightarrow> JString s), fr_output r]"

fun finite_report_parse :: "json \<Rightarrow> finite_result option" where
  "finite_report_parse (JArray [JNum (PosInt v), JString t, JBool ok, JArray ids, failed, out]) =
     (case (all_some (map as_str ids), name_parse failed) of
        (Some xs, Some f) \<Rightarrow> Some \<lparr>fr_schema_version = v, fr_report_type = t, fr_success = ok,
          fr_completed_steps = xs, fr_failed_step = f, fr_output = out\<rparr>
      | _ \<Rightarrow> None)"
| "finite_report_parse _ = None"

definition conditional_report_json :: "conditional_result \<Rightarrow> json" where
  "conditional_report_json r = JArray [JNum (PosInt (cs_schema_version r)), JString (cs_report_type r),
     JBool (cs_success r), JArray (map outcome_json (cs_outcomes r)), cs_output r]"

fun conditional_report_parse :: "json \<Rightarrow> conditional_result option" where
  "conditional_report_parse (JArray [JNum (PosInt v), JString t, JBool ok, JArray outs, out]) =
     map_option (\<lambda>xs. \<lparr>cs_schema_version = v, cs_report_type = t, cs_success = ok,
       cs_outcomes = xs, cs_output = out\<rparr>) (all_some (map outcome_parse outs))"
| "conditional_report_parse _ = None"

definition sample_pipeline_ext :: pipeline_externals where
  "sample_pipeline_ext = event_externals.extend sample_event_ext
     \<lparr>finite_parse = (\<lambda>v. if v = JString ''copy'' then Some copy_graph else None),
      finite_text = (\<lambda>p. ''pipeline''), json_pointer = sample_pointer,
      conditional_parse = (\<lambda>v. if v = JString ''guarded'' then Some guarded_graph else None),
      conditional_text = (\<lambda>p. ''conditional''),
      finite_result_json = finite_report_json, finite_result_parse = finite_report_parse,
      conditional_result_json = conditional_report_json,
      conditional_result_parse = conditional_report_parse\<rparr>"

lemma name_parse_inv [simp]: "name_parse (case n of None \<Rightarrow> JNull | Some s \<Rightarrow> JString s) = Some n"
  by (cases n) simp_all

lemma flag_parse_inv [simp]: "flag_parse (case m of None \<Rightarrow> JNull | Some b \<Rightarrow> JBool b) = Some m"
  by (cases m) simp_all

lemma outcome_parse_inv [simp]: "outcome_parse (outcome_json o1) = Some o1"
  by (cases "so_state o1") (simp_all add: outcome_json_def state_parse_def)

lemma all_some_map [simp]: "(\<And>x. f (g x) = Some x) \<Longrightarrow> all_some (map (f \<circ> g) xs) = Some xs"
  by (induction xs) simp_all

lemma finite_report_inv [simp]: "finite_report_parse (finite_report_json r) = Some r"
  by (simp add: finite_report_json_def)

lemma conditional_report_inv [simp]: "conditional_report_parse (conditional_report_json r) = Some r"
  by (simp add: conditional_report_json_def)

end
