(* ===== verification/Journal_Samples.thy ===== *)
theory Journal_Samples
  imports Journal_History Pipeline_Samples
begin

text \<open>
  Concrete inputs for the journal's properties: an instance of the external crates on top of
  the earlier samples, a ping grant, and the states of a short life of a node (a fresh
  journal, an admitted grant, a finished one, a stopped one).
\<close>

section \<open>Crates\<close>

definition ping_grant :: execution_grant where
  "ping_grant =
     \<lparr>g_schema_version = 1, g_grant_id = sample_grant, g_issuer_id = sample_issuer,
      g_session_id = sample_session, g_executor_node = sample_node, g_job_id = sample_id,
      g_task_id = sample_id, g_attempt = 1, g_plan_sha256 = sample_digest,
      g_request_context = \<lparr>request_id = sample_probe, origin_node = sample_node, origin_area = []\<rparr>,
      g_capability = ''system.ping'', g_action = ''run'', g_params = JObject [],
      g_resource_id = None, g_model_id = None, g_backend = None, g_model_role = None,
      g_priority = 0, g_limits = \<lparr>gl_max_execution_ms = 1000, gl_max_result_bytes = 1024\<rparr>,
      g_reporting = ''acceptance_and_completion'', g_issued_at_ms = 1, g_expires_at_ms = 2000\<rparr>"

definition pong_report :: grant_report where
  "pong_report =
     \<lparr>gr_schema_version = 1, gr_state = Completed, gr_grant_id = sample_grant,
      gr_grant_sha256 = definition_digest sample_event_ext (JString sample_grant),
      gr_issuer_id = sample_issuer, gr_session_id = sample_session, gr_executor_node = sample_node,
      gr_job_id = sample_id, gr_task_id = sample_id, gr_attempt = 1, gr_plan_sha256 = sample_digest,
      gr_accepted = True, gr_persisted = True, gr_execution_may_have_started = True,
      gr_success = True, gr_data = JString ''pong'', gr_error_code = None\<rparr>"

definition sample_grant_ext :: grant_externals where
  "sample_grant_ext = pipeline_externals.extend sample_pipeline_ext
     \<lparr>grant_json = (\<lambda>g. JString (g_grant_id g)), report_json = (\<lambda>r. JString (gr_grant_id r)),
      report_text = (\<lambda>r. ''report''), report_parse = (\<lambda>s. Some pong_report),
      peer_definition = (\<lambda>g. False), peer_result = (\<lambda>g v. False)\<rparr>"

text \<open>One recorded event of the sample workload, and the completion that seals it.\<close>

definition mic_record :: event_record where
  "mic_record = \<lparr>rc_schema_version = 1, rc_lease_sequence = 1, rc_recorded_at_ms = 30,
     rc_event = sample_event 1 1 0 False\<rparr>"

definition mic_prefix :: string where
  "mic_prefix = next_prefix sample_grant_ext
     (sha256_hex sample_grant_ext (definition_digest sample_grant_ext (JString sample_grant)))
     (sha256_hex sample_grant_ext ''record'')"

definition mic_completion :: completion_report where
  "mic_completion =
     \<lparr>co_schema_version = 1, co_grant_sha256 = definition_digest sample_grant_ext (JString sample_grant),
      co_adapter_sha256 = sample_digest, co_source_observations = 10, co_source_frames = 16000,
      co_event_count = 1, co_event_bytes = 128, co_event_prefix_sha256 = mic_prefix,
      co_lease_sequence = 1, co_recorded_at_ms = 40, co_owned_process_exit_observed = True,
      co_physical_effects_stopped = False\<rparr>"

definition sample_site_ext :: workload_journal_externals where
  "sample_site_ext = grant_externals.extend sample_grant_ext
     \<lparr>progress_text = (\<lambda>p. ''progress''), progress_parse = (\<lambda>s. None),
      workload_parse = (\<lambda>s. Some sample_workload),
      record_text = (\<lambda>r. ''record''), record_parse = (\<lambda>s. Some mic_record),
      completion_text = (\<lambda>r. ''completion''), completion_parse = (\<lambda>s. Some mic_completion)\<rparr>"

lemma sample_site_ext_base:
  "\<exists>x. sample_site_ext = externals.extend sample_ext x"
  "\<exists>x. sample_site_ext = workload_externals.extend sample_workload_ext x"
  by (intro exI; simp add: sample_site_ext_def sample_grant_ext_def sample_event_ext_def sample_pipeline_ext_def
      sample_workload_ext_def externals.defs workload_externals.defs event_externals.defs pipeline_externals.defs
      grant_externals.defs)+

lemma sample_site_uuid [simp]:
  "uuid sample_site_ext sample_grant = Inr ()" "uuid sample_site_ext sample_session = Inr ()"
  "uuid sample_site_ext sample_probe = Inr ()" "uuid sample_site_ext sample_grant2 = Inr ()"
proof -
  obtain x where x: "sample_site_ext = externals.extend sample_ext x" using sample_site_ext_base(1) by blast
  show "uuid sample_site_ext sample_grant = Inr ()" "uuid sample_site_ext sample_session = Inr ()"
    "uuid sample_site_ext sample_probe = Inr ()" "uuid sample_site_ext sample_grant2 = Inr ()"
    unfolding x by (rule sample_uuid)+
qed

lemma sample_site_id [simp]:
  "validate_operation_id sample_site_ext sample_grant = Inr ()"
  "validate_operation_id sample_site_ext sample_session = Inr ()"
  "validate_operation_id sample_site_ext sample_probe = Inr ()"
  "validate_operation_id sample_site_ext sample_grant2 = Inr ()"
  "uuid_parse sample_site_ext sample_grant \<noteq> Some 0" "uuid_parse sample_site_ext sample_session \<noteq> Some 0"
  using sample_site_uuid unfolding uuid_ok validate_operation_id_ok by auto

lemma sample_site_hex [simp]: "hex_digest (sha256_hex sample_site_ext s)"
proof -
  obtain x where x: "sample_site_ext = workload_externals.extend sample_workload_ext x"
    using sample_site_ext_base(2) by blast
  show ?thesis unfolding x by (rule sample_sha_hex_ext)
qed

lemma sample_site_simps [simp]:
  "json_text sample_site_ext JNull = ''null''" "json_text sample_site_ext (JObject m) = ''null''"
  "json_text sample_site_ext (JString t) = t"
  "grant_json sample_site_ext g = JString (g_grant_id g)"
  "report_json sample_site_ext r = JString (gr_grant_id r)"
  "report_text sample_site_ext r = ''report''" "report_parse sample_site_ext t = Some pong_report"
  "workload_text sample_site_ext d = ''workload''" "workload_parse sample_site_ext t = Some sample_workload"
  "workload_json sample_site_ext d = JString (wk_grant_id d)"
  "contract_json sample_site_ext c = JString (sc_grant_sha256 (ct_scope c))"
  "event_text sample_site_ext e = replicate 128 (CHR ''e'')"
  "record_text sample_site_ext er = ''record''" "record_parse sample_site_ext t = Some mic_record"
  "completion_text sample_site_ext q = ''completion''" "completion_parse sample_site_ext t = Some mic_completion"
  by (simp_all add: sample_site_ext_def sample_grant_ext_def sample_event_ext_def sample_pipeline_ext_def
      sample_workload_ext_def sample_ext_def externals.defs workload_externals.defs
      event_externals.defs pipeline_externals.defs grant_externals.defs)

lemma sample_node_other [simp]: "sample_node \<noteq> ''local''" "sample_node \<noteq> ''*''"
  by (simp_all add: sample_node_def)

lemma ping_identifiers: "is_identifier ''system.ping''" "is_identifier ''run''"
  by (simp_all add: is_identifier_def is_name_byte_def is_ascii_alphanumeric_def byte_def)

lemma ping_grant_valid [simp]: "grant_validate sample_site_ext ping_grant = Inr ()"
  using ping_identifiers
  by (simp add: grant_validate_def ping_grant_def is_object_def MAX_DURATION_MS_def CONDITIONAL_def
      shape_validate_def grant_shape_def supported_operation_def shape_resource_def shape_model_def
      del: validate_remote_node_id_ok validate_id_ok)

lemma sample_digest_ext:
  "definition_digest sample_event_ext v = definition_digest sample_site_ext v"
  "definition_digest sample_grant_ext v = definition_digest sample_site_ext v"
  "sha256_hex sample_grant_ext t = sha256_hex sample_site_ext t"
  "next_prefix sample_grant_ext t u = next_prefix sample_site_ext t u"
  by (simp_all add: definition_digest_def next_prefix_def sample_site_ext_def sample_grant_ext_def sample_event_ext_def sample_pipeline_ext_def
      sample_workload_ext_def externals.defs workload_externals.defs event_externals.defs pipeline_externals.defs grant_externals.defs)

definition ping_digest :: string where
  "ping_digest = definition_digest sample_site_ext (JString sample_grant)"

lemma ping_grant_digest [simp]: "grant_digest sample_site_ext ping_grant = ping_digest"
  by (simp add: grant_digest_def ping_digest_def ping_grant_def)

lemma ping_digest_hex [simp]: "hex_digest ping_digest"
  by (simp add: ping_digest_def definition_digest_def)

section \<open>States\<close>

definition fresh_ledger :: ledger where
  "fresh_ledger =
     \<lparr>lg_node_id = sample_node, lg_policy = grant_policy_default,
      lg_db = (empty_journal 4096)\<lparr>j_owner := Some sample_node, j_version := 2\<rparr>, lg_stops = [],
      lg_event_workers = 1, lg_final_slots = 1, lg_final_failed = False\<rparr>"

definition fresh_site :: site where
  "fresh_site = \<lparr>si_ledger = fresh_ledger, si_held = []\<rparr>"

lemma fresh_opened:
  "ledger_open sample_site_ext True False grant_policy_default sample_node (empty_journal 4096)
     = Inr fresh_ledger"
  by (simp add: ledger_open_def open_journal_def create_tables_def migrate_journal_def
      grant_policy_validate_def grant_policy_default_def MAX_DURATION_MS_def validate_schema_def
      event_schema_def audit_orphans_def progress_available_def stop_available_def stop_validate_all_def
      empty_journal_def fresh_ledger_def Let_def del: validate_remote_node_id_ok)

lemma fresh_site_ok [simp]: "site_ok fresh_site"
proof -
  have "journal_ok (lg_db fresh_ledger)"
    using open_journal_ok [OF ledger_open_InrD(1) [OF fresh_opened] journal_ok_empty] by simp
  then show ?thesis by (simp add: site_ok_def fresh_site_def fresh_ledger_def)
qed

definition ping_row :: receipt_row where
  "ping_row = claim_row sample_site_ext ping_grant 5"

definition claimed_ledger :: ledger where
  "claimed_ledger = fresh_ledger
     \<lparr>lg_db := (lg_db fresh_ledger)\<lparr>j_receipts := [ping_row]\<rparr>,
      lg_stops := [(sample_grant, \<lparr>se_digest = ping_digest, se_receivers = 1, se_stopped = False\<rparr>)]\<rparr>"

definition ping_accepted :: accepted_grant where
  "ping_accepted =
     \<lparr>ag_grant = ping_grant, ag_deadline = 1000000100, ag_accepted = 100, ag_accepted_wall = 5,
      ag_final_checkpoint_attempted = False, ag_process_stop = False\<rparr>"

lemma ping_fields [simp]:
  "g_grant_id ping_grant = sample_grant" "g_capability ping_grant = ''system.ping''"
  "g_action ping_grant = ''run''" "gl_max_result_bytes (g_limits ping_grant) = 1024"
  "gl_max_execution_ms (g_limits ping_grant) = 1000" "g_executor_node ping_grant = sample_node"
  "g_issuer_id ping_grant = sample_issuer" "g_session_id ping_grant = sample_session"
  "g_job_id ping_grant = sample_id" "g_task_id ping_grant = sample_id" "g_attempt ping_grant = 1"
  "g_plan_sha256 ping_grant = sample_digest"
  by (simp_all add: ping_grant_def)

lemma fresh_fields [simp]:
  "lg_policy fresh_ledger = grant_policy_default" "lg_node_id fresh_ledger = sample_node"
  "j_receipts (lg_db fresh_ledger) = []" "lg_stops fresh_ledger = []" "lg_final_slots fresh_ledger = 1"
  "\<not> lg_final_failed fresh_ledger" "j_stops (lg_db fresh_ledger) = TableAbsent"
  "j_version (lg_db fresh_ledger) = 2" "j_progress (lg_db fresh_ledger) = TableAbsent"
  "gp_max_result_bytes grant_policy_default = 65536" "gp_max_duration_ms grant_policy_default = 30000"
  "gp_max_receipts grant_policy_default = 4096" "gp_max_journal_bytes grant_policy_default = 8388608"
  "j_page_size (lg_db fresh_ledger) = 4096" "j_page_count (lg_db fresh_ledger) = 0"
  "\<not> j_event_tables (lg_db fresh_ledger)" "\<not> j_workload_columns (lg_db fresh_ledger)"
  "j_events (lg_db fresh_ledger) = []"
  by (simp_all add: fresh_ledger_def empty_journal_def grant_policy_default_def MAX_DURATION_MS_def)

lemma fresh_owner: "j_owner (lg_db fresh_ledger) = Some sample_node"
  by (simp add: fresh_ledger_def)

lemma fresh_slot [simp]: "check_attempt_slot ext (lg_db fresh_ledger) s = Inr ()"
  by (simp add: check_attempt_slot_def recorded_scope_def stop_read_def stop_available_def
      count_if_def latest_row_def)

lemma fresh_reserved:
  "progress_reserved (lg_db fresh_ledger) = Inr 0" "event_reserved (lg_db fresh_ledger) = Inr 0"
  "report_reserved (lg_db fresh_ledger) = 0"
  by (simp_all add: progress_reserved_def progress_available_def event_reserved_def event_schema_def
      report_reserved_def)

lemma saturating_small:
  "a + b \<le> 8388608 \<Longrightarrow> saturating_add a b = a + b" "saturating_mul 0 b = 0"
  by (simp_all add: saturating_add_def saturating_mul_def u64_max_def)

lemma fresh_budget [simp]:
  "check_receipt_budget (lg_db fresh_ledger) grant_policy_default 1024 0 False = Inr ()"
  by (simp add: check_receipt_budget_def fresh_reserved saturating_small REPORT_HEADROOM_def)

lemma ping_claimed:
  "claim sample_site_ext fresh_ledger ping_grant 5
     = Inr (fresh_ledger\<lparr>lg_db := (lg_db fresh_ledger)\<lparr>j_receipts := [ping_row]\<rparr>\<rparr>)"
  by (simp add: claim_def claim_tx_def scope_from_grant_def insert_receipt_def progress_initial_def
      to_i64_def i64_max_def ping_row_def)

lemma claimed_fields [simp]:
  "lg_db claimed_ledger = (lg_db fresh_ledger)\<lparr>j_receipts := [ping_row]\<rparr>"
  "lg_policy claimed_ledger = grant_policy_default" "lg_node_id claimed_ledger = sample_node"
  "lg_stops claimed_ledger = [(sample_grant, \<lparr>se_digest = ping_digest, se_receivers = 1, se_stopped = False\<rparr>)]"
  by (simp_all add: claimed_ledger_def)

lemma ping_prepared:
  "prepare_deadline sample_site_ext fresh_ledger True ping_grant sample_issuer sample_session sample_node
     5000000000 False 100 100 5 5 = (Inr ping_accepted, claimed_ledger)"
  by (simp add: prepare_deadline_def ping_claimed grant_matches_session_def scope_from_grant_def
      watch_stop_scope_def recorded_scope_def stop_read_def stop_available_def grant_scope_def kv_put_def
      ping_accepted_def claimed_ledger_def from_millis_def ns_per_ms_def kv_del_def)

definition ping_scope :: scope where
  "ping_scope = grant_scope sample_site_ext ping_grant"

lemma ping_scope_fields [simp]:
  "sc_grant_id ping_scope = sample_grant" "sc_grant_sha256 ping_scope = ping_digest"
  "sc_issuer_id ping_scope = sample_issuer" "sc_session_id ping_scope = sample_session"
  "sc_executor_node ping_scope = sample_node" "sc_job_id ping_scope = sample_id"
  "sc_task_id ping_scope = sample_id" "sc_attempt ping_scope = 1"
  by (simp_all add: ping_scope_def grant_scope_def)

lemma ping_scope_valid [simp]: "scope_validate sample_site_ext ping_scope = Inr ()"
  by (simp add: scope_validate_ok del: validate_remote_node_id_ok validate_id_ok)

lemma ping_row_fields [simp]:
  "r_grant_id ping_row = sample_grant" "r_grant_digest ping_row = ping_digest"
  "r_state ping_row = ACCEPTED" "r_max_result_bytes ping_row = 1024" "r_report ping_row = None"
  "r_report_sha256 ping_row = None" "r_issuer_id ping_row = sample_issuer"
  "r_job_id ping_row = sample_id" "r_task_id ping_row = sample_id" "r_attempt ping_row = 1"
  by (simp_all add: ping_row_def claim_row_def)

text \<open>The run of the ping answers at the first tick.\<close>

definition pong_tick :: tick where
  "pong_tick = \<lparr>tk_stop = False, tk_wall = 6, tk_elapsed = 1, tk_reached = False, tk_policy = True,
     tk_event = OperationOk (JString ''pong'')\<rparr>"

definition pong_row :: receipt_row where
  "pong_row = finish_set sample_site_ext pong_report COMPLETED 9 ping_row"

definition ponged_ledger :: ledger where
  "ponged_ledger = claimed_ledger
     \<lparr>lg_db := (lg_db fresh_ledger)\<lparr>j_receipts := [pong_row]\<rparr>, lg_stops := []\<rparr>"

lemma pong_loop: "run_loop sample_site_ext ping_accepted control False [pong_tick] = Some pong_report"
  by (simp add: run_step_def pong_tick_def ping_accepted_def saturating_add_def u64_max_def abs_diff_def
      operation_outcome_def completed_outcome_def is_compound_def CONDITIONAL_def report_new_def Let_def
      pong_report_def ping_digest_def sample_digest_ext may_have_started_def)

lemma pong_fields [simp]:
  "gr_state pong_report = Completed" "gr_persisted pong_report" "gr_data pong_report = JString ''pong''"
  by (simp_all add: pong_report_def)

lemma pong_confirms [simp]: "report_confirms sample_site_ext pong_report ping_grant"
  by (simp add: report_confirms_def pong_report_def compound_outcome_ok_def is_compound_def CONDITIONAL_def
      may_have_started_def sample_digest_ext ping_digest_def)

lemma ping_only: "finish_where sample_site_ext ping_grant ping_row"
  by (simp add: finish_where_def)

lemma pong_finished:
  "finish sample_site_ext claimed_ledger ping_grant pong_report 9
     = Inr (claimed_ledger\<lparr>lg_db := (lg_db fresh_ledger)\<lparr>j_receipts := [pong_row]\<rparr>\<rparr>)"
  by (simp add: finish_def terminal_state_def saturating_small REPORT_HEADROOM_def to_i64_def i64_max_def
      count_if_def update_rows_def ping_only pong_row_def)

lemma pong_ran:
  "run_operation sample_site_ext claimed_ledger ping_accepted False [pong_tick] False 9
     = Some (pong_report, ponged_ledger)"
proof -
  have "ag_grant ping_accepted = ping_grant" by (simp add: ping_accepted_def)
  then show ?thesis
    by (simp add: run_operation_def pong_loop run_finish_def pong_finished watch_drop_def kv_del_def
        ponged_ledger_def del: run_loop.simps)
qed

text \<open>The same grant stopped before it ran, and an attempt stopped before it arrived.\<close>

definition ping_stop_row :: "bool \<Rightarrow> stop_row" where
  "ping_stop_row preexisted = new_stop_row ping_scope 7 preexisted"

definition stopped_ledger :: ledger where
  "stopped_ledger = claimed_ledger
     \<lparr>lg_db := (lg_db fresh_ledger)\<lparr>j_receipts := [ping_row], j_stops := Table [ping_stop_row True]\<rparr>,
      lg_stops := [(sample_grant, \<lparr>se_digest = ping_digest, se_receivers = 1, se_stopped = True\<rparr>)]\<rparr>"

definition ping_stop_report :: stop_report where
  "ping_stop_report = (stop_report_of_row (ping_stop_row True))
     \<lparr>sr_reused := False, sr_cancellation_signalled := True\<rparr>"

lemma ping_stop_confirms [simp]: "stop_confirms_scope sample_site_ext ping_stop_report ping_scope"
  by (simp add: stop_confirms_scope_def ping_stop_report_def stop_report_of_row_def ping_stop_row_def
      new_stop_row_def stop_identity_valid_def i64_max_def)

lemma ping_digest_length: "length ping_digest = 64"
  using ping_digest_hex by (simp only: hex_digest_def)

lemma ping_digest_other: "ping_digest \<noteq> sample_digest"
proof
  assume "ping_digest = sample_digest"
  then have "ping_digest ! 63 = sample_digest ! 63" by simp
  then show False
    by (simp add: ping_digest_def definition_digest_def sample_digest_def sample_site_ext_def sample_grant_ext_def
        sample_event_ext_def sample_pipeline_ext_def sample_workload_ext_def externals.defs workload_externals.defs event_externals.defs pipeline_externals.defs
        grant_externals.defs sample_ext_def sample_sha_def Let_def nth_append)
qed

lemma ping_stop_row_fields:
  "st_grant_id (ping_stop_row p) = sample_grant" "stop_row_bytes (ping_stop_row p) \<le> 4096"
  "1 \<le> stop_row_bytes (ping_stop_row p)"
  by (simp_all add: ping_stop_row_def new_stop_row_def stop_row_bytes_def sample_grant_def sample_session_def
      sample_node_def sample_id_def sample_issuer_def ping_digest_length)

lemma claimed_quota: "stop_budget_ok (lg_db claimed_ledger) grant_policy_default True"
  by (simp add: stop_budget_ok_def report_reserved_def progress_joined_def progress_rows_def count_if_def saturating_small JOURNAL_RESERVATION_def
      REPORT_HEADROOM_def)

lemma ping_stop_tx:
  "stop_tx sample_site_ext grant_policy_default ping_scope 7 (lg_db claimed_ledger)
    = Inr (ping_stop_report\<lparr>sr_cancellation_signalled := False\<rparr>, lg_db stopped_ledger)"
  using claimed_quota ping_stop_row_fields
  by (simp add: stop_tx_def stop_read_def stop_available_def record_stop_def receipt_of_def
      progress_available_def stop_initialize_def stop_rows_def to_i64_def i64_max_def
      ping_stop_row_def [symmetric] ping_stop_report_def stopped_ledger_def stop_report_of_row_def)

lemma ping_stopped:
  "request_stop_scope sample_site_ext claimed_ledger ping_scope sample_issuer sample_session
     sample_node 7 = (Inr ping_stop_report, stopped_ledger)"
  using ping_stop_tx ping_stop_confirms
  by (simp add: request_stop_scope_def scope_matches_session_def kv_put_def kv_del_def stopped_ledger_def
      ping_stop_report_def)

lemma stopped_fields [simp]:
  "lg_db stopped_ledger = (lg_db fresh_ledger)\<lparr>j_receipts := [ping_row], j_stops := Table [ping_stop_row True]\<rparr>"
  "lg_policy stopped_ledger = grant_policy_default" "lg_node_id stopped_ledger = sample_node"
  by (simp_all add: stopped_ledger_def)

lemma stopped_read:
  "stop_read (lg_db stopped_ledger) sample_grant = Inr (Some (stop_report_of_row (ping_stop_row True)))"
  using ping_stop_row_fields by (simp add: stop_read_def stop_available_def stop_rows_def)

lemma stopped_confirms: "stop_confirms_scope sample_site_ext (stop_report_of_row (ping_stop_row True)) ping_scope"
  using ping_stop_confirms by (simp add: stop_confirms_scope_def stop_identity_valid_def ping_stop_report_def)

lemma ping_refused:
  "prepare_deadline sample_site_ext stopped_ledger True ping_grant sample_issuer sample_session sample_node
     5000000000 False 200 200 8 8 = (Inl (Denied GrantStopRecorded), stopped_ledger)"
proof -
  have "claim sample_site_ext stopped_ledger ping_grant 8 = Inl (Denied GrantStopRecorded)"
    using stopped_read stopped_confirms
    by (simp add: claim_def claim_tx_def scope_from_grant_def ping_scope_def [symmetric] check_attempt_slot_def
        recorded_scope_def)
  then show ?thesis by (simp add: prepare_deadline_def grant_matches_session_def)
qed

text \<open>The grant dropped before it ran: its outcome is unknown.\<close>

definition dropped_ledger :: ledger where
  "dropped_ledger = accepted_drop sample_site_ext claimed_ledger ping_accepted 9"

definition lost_report :: grant_report where
  "lost_report = report_new sample_site_ext ping_grant Unknown JNull (Some ''grant_runtime_dropped_effects_unknown'')"

lemma lost_confirms: "report_confirms sample_site_ext lost_report ping_grant" "gr_persisted lost_report"
  using report_new_unknown_confirms [OF ping_grant_valid] run_code_identifier
  by (simp_all add: lost_report_def report_new_def run_codes_def)

lemma dropped_rows:
  "j_receipts (lg_db dropped_ledger) = [finish_set sample_site_ext lost_report UNKNOWN 9 ping_row]"
  using lost_confirms
  by (simp add: dropped_ledger_def accepted_drop_def ping_accepted_def lost_report_def [symmetric] finish_def
      terminal_state_def saturating_small REPORT_HEADROOM_def to_i64_def i64_max_def count_if_def
      update_rows_def ping_only watch_drop_def)

text \<open>The accepted receipt of the ping as the ledger reads it.\<close>

definition ping_retained :: retained_result where
  "ping_retained =
     \<lparr>rt_schema_version = 1, rt_receipt = consumed_of_row sample_node ping_row, rt_max_result_bytes = 1024,
      rt_availability = ''no_final_checkpoint'', rt_report = None, rt_report_sha256 = None\<rparr>"

lemma ping_consumed_valid [simp]:
  "consumed_validate sample_site_ext (consumed_of_row sample_node ping_row) = Inr ()"
  by (simp add: consumed_validate_def consumed_of_row_def ping_row_def claim_row_def i64_max_def
      del: validate_remote_node_id_ok validate_id_ok)

lemma consumed_no_progress: "(consumed_of_row node r)\<lparr>cr_pipeline_progress := None\<rparr> = consumed_of_row node r"
  by (simp add: consumed_of_row_def)

lemma ping_read:
  "read_in_snapshot sample_site_ext (lg_db claimed_ledger) sample_node (Some sample_issuer) sample_grant
     = Inr ping_retained"
proof -
  have "read_consumed sample_site_ext (lg_db claimed_ledger) sample_node (Some sample_issuer) sample_grant
      = Inr (consumed_of_row sample_node ping_row)"
    by (simp add: read_consumed_def validate_owner_def validate_schema_def event_schema_def progress_columns_def
        progress_available_def progress_decode_def fresh_owner consumed_no_progress Let_def)
  then show ?thesis
    by (simp add: read_in_snapshot_def is_workload_def validate_schema_def event_schema_def receipt_of_def
        retained_validate_def ping_retained_def) (simp add: consumed_of_row_def)
qed

lemma ping_consumed_confirms: "consumed_confirms sample_site_ext (rt_receipt ping_retained) ping_grant"
  by (simp add: consumed_confirms_def ping_retained_def) (simp add: consumed_of_row_def)

end
