(* ===== verification/Journal_Properties.thy ===== *)
theory Journal_Properties
  imports Journal_Samples
begin

text \<open>
  What the journal of a node guarantees over every interleaving of its callers, restarts
  included: the properties of admission, stop, unknown outcome, final report, quota and
  failure latch, each with a witness on the sample node.
\<close>

section \<open>Sample runs\<close>

abbreviation node_of :: "ledger \<Rightarrow> site" where
  "node_of lg \<equiv> \<lparr>si_ledger = lg, si_held = []\<rparr>"

lemma fresh_node: "fresh_site = node_of fresh_ledger"
  by (simp add: fresh_site_def)

lemma ping_step: "site_step sample_site_ext fresh_site (Prepared ping_grant (Inr ping_accepted)) (node_of claimed_ledger)"
  unfolding fresh_node by (rule site_prepare [OF ping_prepared])

lemma pong_step: "site_step sample_site_ext (node_of claimed_ledger) (Ran ping_accepted pong_report) (node_of ponged_ledger)"
  by (rule site_run [OF pong_ran])



lemma drop_step: "site_step sample_site_ext (node_of claimed_ledger) (Dropped ping_accepted) (node_of dropped_ledger)"
  unfolding dropped_ledger_def by (rule site_drop)

lemma claimed_site_ok [simp]: "site_ok (node_of claimed_ledger)"
  by (rule site_step_moves(1) [OF ping_step fresh_site_ok])

lemma unwatch_step: "site_step ext (node_of lg) (Unwatched i) (node_of (watch_drop lg i))"
  by (rule site_unwatch)

section \<open>Admission\<close>

text \<open>
  C1. At most one attempt of a task is open. Whatever calls, stops and restarts a node has
  seen since its journal was created, two receipts of the same task (issuer, job, task) that
  are both still \<open>accepted\<close> are the same receipt.
\<close>

theorem one_open_attempt_per_task:
  assumes opened: "ledger_open ext quick unversioned policy node (empty_journal page) = Inr lg"
    and steps: "run (site_step ext) (node_of lg) es t"
    and rows: "r \<in> set (j_receipts (si_db t))" "r' \<in> set (j_receipts (si_db t))"
    and task: "slot_of r = slot_of r'" and "r_state r = ACCEPTED" "r_state r' = ACCEPTED"
  shows "r = r'"
proof -
  have "site_ok t" using site_run_le(1) [OF steps] opened_site_ok [OF opened] by simp
  then have "journal_ok (si_db t)" by (simp add: site_ok_def)
  then show ?thesis by (rule one_open_attempt [OF _ rows task assms(6,7)])
qed

theorem one_open_attempt_per_task_witness:
  "{r \<in> set (j_receipts (lg_db claimed_ledger)). slot_of r = slot_of ping_row \<and> r_state r = ACCEPTED}
     = {ping_row}"
proof -
  have "run (site_step sample_site_ext) (node_of fresh_ledger)
      [Prepared ping_grant (Inr ping_accepted)] (node_of claimed_ledger)"
    using ping_step by (simp add: fresh_node)
  from one_open_attempt_per_task [OF fresh_opened this, of _ ping_row] show ?thesis by auto
qed

text \<open>
  C2. Every grant is admitted at most once, and the attempts of a task are admitted in
  increasing order. Along every run from a new journal the successful admissions
  (\<^verbatim>\<open>AcceptedGrant::prepare_deadline\<close> and \<^verbatim>\<open>consume_workload\<close>) have pairwise different
  grant ids, and for one task the attempt numbers strictly increase.
\<close>

theorem grants_admitted_once:
  assumes "ledger_open ext quick unversioned policy node (empty_journal page) = Inr lg"
    and "run (site_step ext) (node_of lg) es t"
  shows "sorted_wrt (\<lambda>a b. sc_grant_id a \<noteq> sc_grant_id b
      \<and> (scope_slot a = scope_slot b \<longrightarrow> sc_attempt a < sc_attempt b)) (admissions ext es)"
  using run_admissions [OF assms(2) opened_site_ok [OF assms(1)]]
  by (simp add: later_admission_def [abs_def])

theorem grants_admitted_once_witness:
  "sorted_wrt (\<lambda>a b. sc_grant_id a \<noteq> sc_grant_id b)
     (admissions sample_site_ext [Prepared ping_grant (Inr ping_accepted), Ran ping_accepted pong_report])
   \<and> admissions sample_site_ext [Prepared ping_grant (Inr ping_accepted), Ran ping_accepted pong_report]
     = [ping_scope]"
proof -
  have "run (site_step sample_site_ext) (node_of fresh_ledger)
      [Prepared ping_grant (Inr ping_accepted), Ran ping_accepted pong_report] (node_of ponged_ledger)"
    using ping_step pong_step by (auto simp: fresh_node)
  from grants_admitted_once [OF fresh_opened this] show ?thesis by (simp add: ping_scope_def)
qed

section \<open>Stop\<close>



text \<open>
  C21. Asking again for a recorded stop is idempotent: the same request gets a confirmed report
  of the recorded stop with its original time, and the journal does not change. A scope that
  differs in its digest under the same grant id is refused, again without a change.
\<close>

theorem stop_idempotent:
  assumes "request_stop_scope ext lg s issuer session node now = (Inr report, lg')"
    and "sc_grant_id s' = sc_grant_id s" and "sc_grant_sha256 s' \<noteq> sc_grant_sha256 s"
  shows "(\<exists>again lg2. request_stop_scope ext lg' s issuer session node now2 = (Inr again, lg2)
      \<and> lg_db lg2 = lg_db lg' \<and> stop_confirms_scope ext again s \<and> sr_reused again
      \<and> sr_recorded_at_ms again = sr_recorded_at_ms report)
    \<and> (\<exists>e lg2. request_stop_scope ext lg' s' issuer' session' node' now2 = (Inl e, lg2)
      \<and> lg_db lg2 = lg_db lg')"
proof -
  note F = request_stop_InrD [OF assms(1)]
  obtain a b where read: "stop_read (lg_db lg') (sc_grant_id s)
      = Inr (Some (report\<lparr>sr_reused := a, sr_cancellation_signalled := b\<rparr>))"
    using F(5) by blast
  then have "a" using stop_read_Some [OF read] by (auto simp: stop_report_of_row_def dest: arg_cong [of _ _ sr_reused])
  have again: "\<exists>again lg2. request_stop_scope ext lg' s issuer session node now2 = (Inr again, lg2)
      \<and> stop_confirms_scope ext again s \<and> sr_reused again \<and> sr_recorded_at_ms again = sr_recorded_at_ms report"
    using read \<open>a\<close> F(1-4,6)
    by (cases "map_of (lg_stops lg') (sc_grant_id s)") (auto simp: request_stop_scope_def stop_tx_def Let_def)
  have other: "\<exists>e. fst (request_stop_scope ext lg' s' issuer' session' node' now2) = Inl e"
    using read assms(2,3) F(4)
    by (cases "scope_validate ext s'")
       (auto simp: request_stop_scope_def stop_tx_def stop_confirms_scope_def ensure_def)
  show ?thesis
    using again other recorded_stop_unchanged [OF read, where ext = ext]
      recorded_stop_unchanged [OF read [folded assms(2)], where ext = ext]
    by (metis prod.collapse snd_conv)
qed

theorem stop_idempotent_witness:
  "\<exists>again lg2. request_stop_scope sample_site_ext stopped_ledger ping_scope sample_issuer sample_session
      sample_node 99 = (Inr again, lg2)
     \<and> lg_db lg2 = lg_db stopped_ledger \<and> sr_recorded_at_ms again = 7"
  using stop_idempotent [OF ping_stopped, of "ping_scope\<lparr>sc_grant_sha256 := sample_digest\<rparr>" 99]
    ping_digest_other
  by (simp add: ping_stop_report_def stop_report_of_row_def ping_stop_row_def new_stop_row_def) blast

section \<open>Unknown outcomes\<close>

text \<open>
  C4. An unknown outcome blocks its task. Once the newest resolved attempt of a task ended
  with an unknown outcome (a drop, a deadline, a stop, an unconfirmed completion), no later
  attempt of that task is admitted: nothing is retried while its effects are unknown.
\<close>

theorem unknown_outcome_blocks_task:
  assumes "run (site_step ext) s es t" and "site_ok s" and "r \<in> set (j_receipts (si_db s))"
    and "r_state r = UNKNOWN"
    and "\<And>x. x \<in> set (j_receipts (si_db s)) \<Longrightarrow> slot_of x = slot_of r \<Longrightarrow> r_attempt r < r_attempt x
           \<Longrightarrow> r_state x = UNKNOWN"
  shows "\<forall>a \<in> set (admissions ext es). scope_slot a \<noteq> slot_of r"
proof -
  have "unresolved (slot_of r) (si_db s)" using assms(3-5) unfolding unresolved_def by blast
  then show ?thesis using run_unresolved [OF assms(1,2)] by blast
qed

theorem unknown_outcome_blocks_task_witness:
  "slot_of (finish_set sample_site_ext lost_report UNKNOWN 9 ping_row)
     \<notin> scope_slot ` set (admissions sample_site_ext [Unwatched sample_grant])"
proof -
  have ok: "site_ok (node_of dropped_ledger)"
    by (rule site_step_moves(1) [OF drop_step claimed_site_ok])
  have "run (site_step sample_site_ext) (node_of dropped_ledger) [Unwatched sample_grant]
      (node_of (watch_drop dropped_ledger sample_grant))"
    unfolding run_Cons_iff run_Nil_iff using unwatch_step by blast
  from unknown_outcome_blocks_task [OF this ok, of "finish_set sample_site_ext lost_report UNKNOWN 9 ping_row"]
  show ?thesis by (simp add: dropped_rows finish_set_def)
qed

section \<open>Final reports\<close>

text \<open>
  C5. A final report is durable. If a run ends with a persisted report, that report confirms
  its grant, and in every later state of the node, restarts included, the receipt of the grant
  carries its terminal state, exactly its text and its digest.
\<close>

theorem final_report_durable:
  assumes "run_operation ext lg ag windows ticks late now = Some (report, lg')" and "gr_persisted report"
    and "site_ok \<lparr>si_ledger = lg, si_held = h\<rparr>"
    and "run (site_step ext) \<lparr>si_ledger = lg', si_held = h\<rparr> es t"
  shows "report_confirms ext report (ag_grant ag)
    \<and> (\<exists>r. receipt_of (si_db t) (g_grant_id (ag_grant ag)) = Some r
        \<and> terminal_state (gr_state report) = Inr (r_state r) \<and> r_report r = Some (report_text ext report)
        \<and> r_report_sha256 r = Some (definition_digest ext (report_json ext report)))"
proof -
  have ok: "journal_ok (lg_db lg)" using assms(3) by (simp add: site_ok_def)
  have ok': "site_ok \<lparr>si_ledger = lg', si_held = h\<rparr>"
    by (rule site_step_moves(1) [OF site_run [OF assms(1)] assms(3)])
  obtain r where r: "receipt_of (lg_db lg') (g_grant_id (ag_grant ag)) = Some r"
      "terminal_state (gr_state report) = Inr (r_state r)" "r_report r = Some (report_text ext report)"
      "r_report_sha256 r = Some (definition_digest ext (report_json ext report))"
    using run_operation_saved(1) [OF assms(1) ok assms(2)] by blast
  have "receipt_of (si_db t) (g_grant_id (ag_grant ag)) = Some r"
    by (rule run_receipt_frozen [OF assms(4) ok'])
       (use r in \<open>auto simp: terminal_state_def split: receipt_state.splits\<close>)
  then show ?thesis using r run_operation_saved(2) [OF assms(1) ok assms(2)] by blast
qed

theorem final_report_durable_witness:
  "report_confirms sample_site_ext pong_report ping_grant
    \<and> (\<exists>r. receipt_of (lg_db (watch_drop ponged_ledger sample_grant)) sample_grant = Some r
        \<and> terminal_state Completed = Inr (r_state r)
        \<and> r_report r = Some (report_text sample_site_ext pong_report)
        \<and> r_report_sha256 r = Some (definition_digest sample_site_ext (report_json sample_site_ext pong_report)))"
proof -
  have "run (site_step sample_site_ext) (node_of ponged_ledger) [Unwatched sample_grant]
      (node_of (watch_drop ponged_ledger sample_grant))"
    unfolding run_Cons_iff run_Nil_iff using unwatch_step by blast
  from final_report_durable [OF pong_ran _ claimed_site_ok this] show ?thesis
    by (simp add: ping_accepted_def)
qed

text \<open>
  C20. What was saved is what is read. After a final report was saved for an accepted receipt
  that reads as consumed for its grant, the ledger's own read of the result returns exactly
  that report, validated and confirming the grant (\<open>report_codec\<close>: the report survives its
  serialisation).
\<close>

theorem saved_report_read_back:
  assumes "report_codec ext report" and "\<And>s. hex_digest (sha256_hex ext s)"
    and "journal_ok (lg_db lg)" and "finish ext lg g report now = Inr lg'" and "2 \<le> j_version (lg_db lg)"
    and "read_in_snapshot ext (lg_db lg) (lg_node_id lg) (Some (g_issuer_id g)) (g_grant_id g) = Inr x"
    and "consumed_confirms ext (rt_receipt x) g"
  shows "\<exists>y. ledger_result ext lg' (g_issuer_id g) (g_grant_id g) (grant_digest ext g) = Inr y
      \<and> rt_report y = Some report \<and> retained_confirms ext y g"
  by (rule finish_read_back [OF assms])

theorem saved_report_read_back_witness:
  "\<exists>lg y. finish sample_site_ext claimed_ledger ping_grant pong_report 9 = Inr lg
      \<and> ledger_result sample_site_ext lg sample_issuer sample_grant ping_digest = Inr y
      \<and> rt_report y = Some pong_report"
proof -
  have "report_codec sample_site_ext pong_report" by (simp add: report_codec_def)
  from saved_report_read_back [OF this _ _ pong_finished, where x = ping_retained]
  show ?thesis
    using pong_finished ping_read ping_consumed_confirms claimed_site_ok by (auto simp: site_ok_def)
qed

text \<open>
  C18. Every report that a run returns, also one that could not be saved, confirms its grant
  and is \<open>completed\<close> or \<open>unknown\<close>; an unsaved one is \<open>unknown\<close> and says that it is not persisted.
\<close>

theorem run_report_confirms:
  assumes "run_operation ext lg ag windows ticks late now = Some (report, lg')"
    and "grant_validate ext (ag_grant ag) = Inr ()" and "json_text ext JNull = ''null''"
  shows "report_confirms ext report (ag_grant ag)
    \<and> (gr_state report = Completed \<and> gr_persisted report \<or> gr_state report = Unknown)"
proof -
  obtain rep where loop: "run_loop ext ag (process_control windows (ag_grant ag)) False ticks = Some rep"
    and fin: "run_finish ext lg ag rep late now = (report, lg')"
    using assms(1) by (auto simp: run_operation_def split: option.splits)
  have rep: "final_report ext (ag_grant ag) rep" by (rule run_loop_confirms [OF loop assms(2,3)])
  have late: "final_report ext (ag_grant ag) (report_new ext (ag_grant ag) Unknown JNull (Some c))"
    if "c \<in> set run_codes" for c
    by (rule unknown_final [OF assms(2,3) run_code_identifier [OF that]])
  have unsaved: "report_confirms ext ((report_new ext (ag_grant ag) Unknown JNull
      (Some ''completion_checkpoint_failed''))\<lparr>gr_persisted := False\<rparr>) (ag_grant ag)"
    by (rule unsaved_confirms [OF assms(2,3)])
  show ?thesis
    using fin rep unsaved late [of "''completion_after_deadline''"]
    by (auto simp: run_finish_def Let_def final_report_def run_codes_def split: sum.splits if_splits)
qed

theorem run_report_confirms_witness:
  "report_confirms sample_site_ext pong_report ping_grant \<and> gr_state pong_report = Completed"
  using run_report_confirms [OF pong_ran] by (simp add: ping_accepted_def)

text \<open>
  C6. A run reports success only for work that finished inside its grant. A completed report
  was produced by the operation's own result, after iterations in which the deadline was not
  reached, the clock had not drifted by more than a second and the local policy still allowed
  the grant; unless the operation is an owned process that can be asked to stop, no stop had
  been requested; and the deadline had not passed when it was saved.
\<close>

theorem completed_within_grant:
  assumes "run_operation ext lg ag windows ticks late now = Some (report, lg')"
    and "gr_state report = Completed"
  shows "\<not> late \<and> (\<exists>before t after data. ticks = before @ t # after \<and> tk_event t = OperationOk data
      \<and> report = operation_outcome ext (ag_grant ag) data
      \<and> (\<forall>u \<in> set (before @ [t]). \<not> tk_reached u \<and> tk_policy u
          \<and> abs_diff (tk_wall u) (saturating_add (ag_accepted_wall ag) (tk_elapsed u)) \<le> 1000)
      \<and> (\<not> process_control windows (ag_grant ag) \<longrightarrow> (\<forall>u \<in> set (before @ [t]). \<not> tk_stop u)))"
proof -
  obtain rep where loop: "run_loop ext ag (process_control windows (ag_grant ag)) False ticks = Some rep"
    and fin: "run_finish ext lg ag rep late now = (report, lg')"
    using assms(1) by (auto simp: run_operation_def split: option.splits)
  have "rep = report" "\<not> late"
    using fin assms(2) by (auto simp: run_finish_def Let_def report_new_def split: sum.splits if_splits)
  then show ?thesis
    using run_loop_completed [OF loop] assms(2) unfolding tick_clear_def by (simp; blast)
qed

theorem completed_within_grant_witness:
  "\<exists>before t after data. [pong_tick] = before @ t # after \<and> tk_event t = OperationOk data
      \<and> pong_report = operation_outcome sample_site_ext ping_grant data"
  using completed_within_grant [OF pong_ran] by (fastforce simp: ping_accepted_def)

text \<open>
  C19. A run ends. The loop returns a report at the latest with the first iteration that finds
  the deadline reached or whose event is not a mere wake-up, so a run whose clock reaches the
  deadline always produces a final report, whatever the operation does.
\<close>

theorem run_ends_by_deadline:
  assumes "t \<in> set ticks" and "tk_reached t \<or> tk_event t \<notin> {StopChanged, Ticked}"
  shows "\<exists>report lg'. run_operation ext lg ag windows ticks late now = Some (report, lg')
    \<and> (gr_state report = Completed \<or> gr_state report = Unknown)"
proof -
  obtain rep where rep: "run_loop ext ag (process_control windows (ag_grant ag)) False ticks = Some rep"
    using run_loop_ends [OF assms(1)] assms(2) by blast
  obtain report lg' where fin: "run_finish ext lg ag rep late now = (report, lg')" by fastforce
  have "gr_state report = Completed \<or> gr_state report = Unknown"
    using fin run_loop_states [OF rep]
    by (auto simp: run_finish_def Let_def report_new_def split: sum.splits if_splits)
  then show ?thesis using rep fin by (simp add: run_operation_def)
qed

theorem run_ends_by_deadline_witness:
  "\<exists>report lg'. run_operation sample_site_ext claimed_ledger ping_accepted False
      [pong_tick\<lparr>tk_event := Ticked\<rparr>, pong_tick\<lparr>tk_reached := True, tk_event := Ticked\<rparr>] False 9
      = Some (report, lg')"
proof -
  let ?t = "pong_tick\<lparr>tk_reached := True, tk_event := Ticked\<rparr>"
  have "?t \<in> set [pong_tick\<lparr>tk_event := Ticked\<rparr>, ?t]" "tk_reached ?t \<or> tk_event ?t \<notin> {StopChanged, Ticked}"
    by simp_all
  from run_ends_by_deadline [OF this] show ?thesis by blast
qed

section \<open>Quota and failure latch\<close>

text \<open>
  C22. The journal never holds more receipts than its policy allows. From a new journal, as
  long as the node is not restarted with another policy, the number of receipts stays within
  \<open>max_receipts\<close>; with restarts under any policies that pass validation it stays within 100000.
\<close>

theorem receipts_within_quota:
  assumes "ledger_open ext quick unversioned policy node (empty_journal page) = Inr lg"
    and "run (site_step ext) (node_of lg) es t"
  shows "length (j_receipts (si_db t)) \<le> 100000
    \<and> (Reopened \<notin> set es \<longrightarrow> length (j_receipts (si_db t)) \<le> gp_max_receipts policy)"
proof -
  have "j_receipts (lg_db lg) = []"
    using open_journal_rows [OF ledger_open_InrD(1) [OF assms(1)]] by (simp add: empty_journal_def)
  moreover have "gp_max_receipts policy \<le> 100000"
    using assms(1) by (auto simp: ledger_open_def grant_policy_validate_def)
  ultimately show ?thesis
    using run_quota [OF assms(2) opened_site_ok [OF assms(1)]] ledger_open_InrD(2) [OF assms(1)] by simp
qed

theorem receipts_within_quota_witness:
  "length (j_receipts (lg_db claimed_ledger)) \<le> gp_max_receipts grant_policy_default"
proof -
  have "run (site_step sample_site_ext) (node_of fresh_ledger)
      [Prepared ping_grant (Inr ping_accepted)] (node_of claimed_ledger)"
    using ping_step by (simp add: fresh_node)
  from receipts_within_quota [OF fresh_opened this] show ?thesis by simp
qed

end
