(* ===== verification/Workload_Samples.thy ===== *)
theory Workload_Samples
  imports Journal_Samples
begin

text \<open>
  The sample workload on the sample node: consumed from a fresh journal, one event saved, and
  completed. The states are computed with the model's own operations.
\<close>

section \<open>Consumption\<close>

definition mic_scope :: scope where
  "mic_scope = identity_scope sample_workload ping_digest"

definition mic_contract :: contract where
  "mic_contract = \<lparr>ct_schema_version = 2, ct_scope = mic_scope, ct_max_session_ms = 60000, ct_max_lease_ms = 10000\<rparr>"

definition mic_lease_digest :: string where
  "mic_lease_digest = definition_digest sample_site_ext (JString ping_digest)"

lemma mic_workload_fields [simp]:
  "wk_grant_id sample_workload = sample_grant" "wk_issuer_id sample_workload = sample_issuer"
  "wk_session_id sample_workload = sample_session" "wk_executor_node sample_workload = sample_node"
  "wk_job_id sample_workload = sample_id" "wk_task_id sample_workload = sample_id"
  "wk_attempt sample_workload = 1" "ev_max_total_bytes (wk_events sample_workload) = 1024"
  "ev_max_events (wk_events sample_workload) = 5" "ev_max_event_bytes (wk_events sample_workload) = 256"
  "li_max_session_ms (wk_limits sample_workload) = 60000" "li_max_lease_ms (wk_limits sample_workload) = 10000"
  "li_max_source_frames (wk_limits sample_workload) = 16000"
  by (simp_all add: sample_workload_def)

lemma mic_source:
  "wk_source sample_workload = MicrophoneEnergy (resource_id sample_node ''mic'') sample_digest sample_digest
     \<lparr>en_sample_rate = 16000, en_channels = 1, en_block_frames = 1600, en_max_blocks = 10,
      en_activation_level = 100, en_deactivation_level = 50\<rparr>"
  by (simp add: sample_workload_def)

lemma mic_scope_fields [simp]:
  "sc_grant_id mic_scope = sample_grant" "sc_grant_sha256 mic_scope = ping_digest"
  "sc_issuer_id mic_scope = sample_issuer" "sc_session_id mic_scope = sample_session"
  "sc_executor_node mic_scope = sample_node" "sc_job_id mic_scope = sample_id"
  "sc_task_id mic_scope = sample_id" "sc_attempt mic_scope = 1"
  by (simp_all add: mic_scope_def identity_scope_def)

lemma mic_valid [simp]: "workload_validate sample_site_ext sample_workload = Inr ()"
proof -
  obtain x where x: "sample_site_ext = workload_externals.extend sample_workload_ext x"
    using sample_site_ext_base(2) by blast
  show ?thesis unfolding x by (rule sample_workload_valid_ext)
qed

lemma mic_scope_ok [simp]: "workload_scope sample_site_ext sample_workload = Inr mic_scope"
  by (simp add: workload_scope_def mic_scope_def ping_digest_def)

lemma mic_contract_ok [simp]: "lease_contract sample_site_ext sample_workload = Inr mic_contract"
  by (simp add: lease_contract_def mic_contract_def)

lemma mic_contract_scope [simp]: "ct_scope mic_contract = mic_scope"
  by (simp add: mic_contract_def)

lemma mic_contract_valid [simp]: "contract_validate sample_site_ext mic_contract = Inr ()"
  by (rule lease_contract_valid [OF mic_contract_ok]) simp

lemma mic_contract_digest [simp]: "contract_digest sample_site_ext mic_contract = Inr mic_lease_digest"
  by (simp add: contract_digest_def mic_lease_digest_def)

definition mic_policy :: lease_policy where
  "mic_policy = lease_policy_default\<lparr>lp_enabled := True\<rparr>"

definition mic_proof :: lease_proof where
  "mic_proof = \<lparr>pf_contract_sha256 = mic_lease_digest, pf_sequence = 1, pf_deadline = 9000,
     pf_session_deadline = 50000\<rparr>"

lemma mic_initial [simp]: "now < 9000 \<Longrightarrow> initial_deadline sample_site_ext mic_proof mic_contract mic_policy now = Inr 9000"
  by (simp add: initial_deadline_def contract_permitted_def lease_policy_validate_def mic_policy_def
      lease_policy_default_def mic_proof_def MAX_SESSION_MS_def MAX_LEASE_MS_def)
     (simp add: mic_contract_def)

definition mic_row :: receipt_row where
  "mic_row = workload_row sample_site_ext sample_workload mic_scope 20"

definition mic_state_row :: "nat \<Rightarrow> nat \<Rightarrow> string \<Rightarrow> event_state_row" where
  "mic_state_row n b p =
     \<lparr>es_grant_id = sample_grant, es_grant_digest = ping_digest, es_event_count = n, es_event_bytes = b,
      es_reserved_bytes = 217088, es_prefix_sha256 = p\<rparr>"

definition mic_seed :: string where
  "mic_seed = sha256_hex sample_site_ext ping_digest"

definition upgraded_db :: journal where
  "upgraded_db = (lg_db fresh_ledger)\<lparr>j_workload_columns := True, j_event_tables := True, j_version := 4\<rparr>"

definition mic_db :: journal where
  "mic_db = upgraded_db\<lparr>j_receipts := [mic_row], j_event_states := [mic_state_row 0 0 mic_seed]\<rparr>"

lemma mic_upgraded: "workload_upgrade sample_site_ext sample_node (lg_db fresh_ledger) = Inr upgraded_db"
  by (simp add: workload_upgrade_def validate_owner_def fresh_owner validate_schema_def event_schema_def
      stop_validate_all_def stop_available_def event_upgrade_def workload_ids_def upgraded_db_def Let_def)

lemma upgraded_fields [simp]:
  "j_page_size upgraded_db = 4096" "j_page_count upgraded_db = 0" "j_version upgraded_db = 4"
  "j_receipts upgraded_db = []" "j_event_states upgraded_db = []" "j_events upgraded_db = []"
  "j_event_tables upgraded_db" "j_workload_columns upgraded_db" "j_stops upgraded_db = TableAbsent"
  "j_progress upgraded_db = TableAbsent" "j_owner upgraded_db = Some sample_node"
  by (simp_all add: upgraded_db_def fresh_owner fresh_ledger_def empty_journal_def)

lemma mic_fields [simp]:
  "j_page_size mic_db = 4096" "j_page_count mic_db = 0" "j_version mic_db = 4"
  "j_receipts mic_db = [mic_row]" "j_event_states mic_db = [mic_state_row 0 0 mic_seed]" "j_events mic_db = []"
  "j_event_tables mic_db" "j_workload_columns mic_db" "j_stops mic_db = TableAbsent"
  "j_progress mic_db = TableAbsent" "j_owner mic_db = Some sample_node"
  by (simp_all add: mic_db_def)

lemma page_4096: "is_power_of_two 4096"
  by (simp add: is_power_of_two.simps)

lemma mic_reservation [simp]: "j_page_size db = 4096 \<Longrightarrow> event_reservation db sample_workload = Inr 217088"
  by (simp add: event_reservation_def Let_def page_4096 checked_add_def checked_mul_def u64_max_def div_ceil_def
      ROW_HEADROOM_def MIN_EVENT_BYTES_def)

lemma mic_seed_ok [simp]: "event_seed sample_site_ext sample_workload = Inr mic_seed"
  by (simp add: event_seed_def mic_seed_def)

lemma mic_budget: "check_receipt_budget upgraded_db grant_policy_default 1024 217096 False = Inr ()"
  by (simp add: check_receipt_budget_def progress_reserved_def progress_available_def event_reserved_def
      event_schema_def report_reserved_def saturating_small REPORT_HEADROOM_def)

lemma mic_initialized:
  "event_initialize sample_site_ext sample_workload (upgraded_db\<lparr>j_receipts := [mic_row]\<rparr>) = Inr mic_db"
  by (simp add: event_initialize_def to_i64_def i64_max_def mic_db_def mic_state_row_def)

definition mic_env :: consume_env where
  "mic_env = \<lparr>ce_now1 = 100, ce_now2 = 110, ce_now3 = 120, ce_now4 = 130, ce_late_failed = False,
     ce_stop = False, ce_wall = 20\<rparr>"

lemma mic_tx:
  "consume_tx sample_site_ext fresh_ledger sample_workload mic_contract mic_policy mic_proof
     (mic_env\<lparr>ce_stop := b\<rparr>) = Inr mic_db"
  by (simp add: consume_tx_def mic_upgraded mic_budget mic_initialized checked_add_def u64_max_def mic_env_def
      to_i64_def i64_max_def insert_receipt_def mic_row_def [symmetric])

lemma mic_row_fields [simp]:
  "r_grant_id mic_row = sample_grant" "r_grant_digest mic_row = ping_digest" "r_state mic_row = ACCEPTED"
  "r_accepted_ms mic_row = 20" "r_updated_ms mic_row = 20" "r_max_result_bytes mic_row = 1024"
  "r_report mic_row = None" "r_report_sha256 mic_row = None" "r_receipt_kind mic_row = ''workload''"
  "r_workload_definition mic_row = Some ''workload''" "r_issuer_id mic_row = sample_issuer"
  "r_job_id mic_row = sample_id" "r_task_id mic_row = sample_id" "r_attempt mic_row = 1"
  by (simp_all add: mic_row_def workload_row_def)

text \<open>The journal at \<open>m\<close> milliseconds with \<open>n\<close> saved events reads as the same receipt.\<close>

definition mic_receipt :: "nat \<Rightarrow> workload_receipt" where
  "mic_receipt m =
     \<lparr>wr_schema_version = 2,
      wr_receipt = \<lparr>cr_schema_version = 1, cr_node_id = sample_node, cr_issuer_id = sample_issuer,
        cr_grant_id = sample_grant, cr_grant_sha256 = ping_digest, cr_job_id = sample_id,
        cr_task_id = sample_id, cr_attempt = 1, cr_state = ACCEPTED, cr_accepted_at_ms = 20,
        cr_updated_at_ms = m, cr_pipeline_progress = None\<rparr>,
      wr_definition = sample_workload, wr_execution_authorized = False, wr_restart_authorized = False,
      wr_completion = None\<rparr>"

lemma mic_receipt_fields [simp]:
  "wr_definition (mic_receipt m) = sample_workload" "wr_completion (mic_receipt m) = None"
  "cr_state (wr_receipt (mic_receipt m)) = ACCEPTED" "cr_updated_at_ms (wr_receipt (mic_receipt m)) = m"
  "cr_accepted_at_ms (wr_receipt (mic_receipt m)) = 20"
  by (simp_all add: mic_receipt_def)

lemma mic_consumed_valid: "20 \<le> m \<Longrightarrow> m \<le> i64_max \<Longrightarrow> consumed_validate sample_site_ext (wr_receipt (mic_receipt m)) = Inr ()"
  by (simp add: consumed_validate_def mic_receipt_def del: validate_remote_node_id_ok validate_id_ok)

lemma mic_receipt_valid:
  "20 \<le> m \<Longrightarrow> m \<le> i64_max \<Longrightarrow> workload_receipt_validate sample_site_ext (mic_receipt m) = Inr ()"
  using mic_consumed_valid [of m] by (simp add: workload_receipt_validate_def) (simp add: mic_receipt_def)

lemma mic_core:
  assumes "j_receipts db = [mic_row\<lparr>r_updated_ms := m\<rparr>]" and "j_version db = 4" and "j_event_tables db"
    and "j_workload_columns db" and "j_progress db = TableAbsent" and "j_owner db = Some sample_node"
    and "20 \<le> m" "m \<le> i64_max" and "issuer = None \<or> issuer = Some sample_issuer"
  shows "read_core sample_site_ext db sample_node issuer sample_grant = Inr (mic_receipt m)"
proof -
  have owner: "validate_owner db sample_node = Inr ()" "is_workload db sample_grant = Inr True"
    using assms by (simp_all add: validate_owner_def validate_schema_def event_schema_def is_workload_def receipt_of_def)
  have "read_consumed sample_site_ext db sample_node issuer sample_grant = Inr (wr_receipt (mic_receipt m))"
    using assms mic_consumed_valid [of m] owner
    by (auto simp: read_consumed_def progress_columns_def progress_available_def progress_decode_def Let_def
        consumed_of_row_def mic_receipt_def)
  then show ?thesis
    using assms owner mic_receipt_valid [of m]
    by (simp add: read_core_def receipt_of_def completion_decode_def MAX_DEFINITION_BYTES_def Let_def)
       (simp add: mic_receipt_def)
qed

lemma mic_state:
  assumes "j_event_states db = [mic_state_row n b p]" and "j_page_size db = 4096" and "hex_digest p"
    and "n = 0 \<and> b = 0 \<and> p = mic_seed \<or> n = 1 \<and> b = 128"
  shows "event_state sample_site_ext db sample_workload = Inr \<lparr>sv_count = n, sv_bytes = b, sv_prefix = p\<rparr>"
proof -
  have "length p = 64" "length ping_digest = 64"
    using assms(3) ping_digest_length by (simp_all add: hex_digest_def)
  then show ?thesis
    using assms by (auto simp: event_state_def mic_state_row_def saturating_mul_def MIN_EVENT_BYTES_def u64_max_def)
qed

lemma mic_seed_hex [simp]: "hex_digest mic_seed"
  by (simp add: mic_seed_def)

lemma mic_read: "read_workload sample_site_ext mic_db sample_node (Some sample_issuer) sample_grant = Inr (mic_receipt 20)"
proof -
  have "read_core sample_site_ext mic_db sample_node (Some sample_issuer) sample_grant = Inr (mic_receipt 20)"
    by (rule mic_core) (simp_all add: i64_max_def)
  moreover have "event_audit sample_site_ext mic_db (mic_receipt 20) = Inr ()"
    using mic_state [of mic_db 0 0 mic_seed]
    by (simp add: event_audit_def grant_events_def Let_def audit_prefix_def)
  ultimately show ?thesis by (simp add: read_workload_def)
qed

section \<open>The consuming call\<close>

definition mic_reporting :: reporting where
  "mic_reporting = \<lparr>rs_contract_sha256 = mic_lease_digest, rs_started = False, rs_retired = False,
     rs_sequence = 0, rs_deadline = None\<rparr>"

definition mic_consumption :: consumption where
  "mic_consumption = \<lparr>cn_contract = mic_contract, cn_policy = mic_policy, cn_initial = Some mic_proof,
     cn_reporting = mic_reporting, cn_final_slot = True\<rparr>"

definition mic_ledger :: ledger where
  "mic_ledger = fresh_ledger\<lparr>lg_db := mic_db, lg_final_slots := 0,
     lg_stops := [(sample_grant, \<lparr>se_digest = ping_digest, se_receivers = 1, se_stopped = False\<rparr>)]\<rparr>"

lemma mic_admit:
  "consume_admit sample_site_ext fresh_ledger sample_workload mic_policy mic_proof sample_issuer
     sample_session sample_node (mic_env\<lparr>ce_stop := b\<rparr>) = Inr (mic_contract, mic_reporting, mic_db)"
  by (simp add: consume_admit_def reporting_new_def mic_tx scope_matches_session_def mic_reporting_def)
     (simp add: mic_env_def)

lemma mic_watch:
  "watch_stop_scope sample_site_ext (fresh_ledger\<lparr>lg_db := mic_db, lg_final_slots := 0\<rparr>) mic_scope = Inr mic_ledger"
  by (simp add: watch_stop_scope_def recorded_scope_def stop_read_def stop_available_def kv_put_def kv_del_def
      mic_ledger_def)

lemma mic_acknowledged:
  "acknowledgement sample_site_ext mic_ledger mic_consumption 120 130 late
     = (if late then Inl (WorkloadE WorkloadStopped) else Inr (mic_receipt 20))"
  using mic_read by (simp add: acknowledgement_def Let_def mic_consumption_def watch_stopped_def mic_ledger_def)

lemma mic_consumed:
  "consume_workload sample_site_ext fresh_ledger sample_workload mic_policy mic_proof sample_issuer
     sample_session sample_node (mic_env\<lparr>ce_stop := False\<rparr>) = (Inr mic_consumption, mic_ledger, None)"
  using mic_admit [of False] mic_watch mic_acknowledged [of False]
  by (simp add: consume_workload_def Let_def mic_consumption_def) (simp add: mic_env_def)

text \<open>A stop that is signalled during the acknowledgement.\<close>

lemma mic_raced:
  "consume_workload sample_site_ext fresh_ledger sample_workload mic_policy mic_proof sample_issuer
     sample_session sample_node (mic_env\<lparr>ce_stop := True\<rparr>)
     = (Inl (WorkloadE WorkloadStopped), watch_drop mic_ledger sample_grant, Some mic_scope)"
  using mic_admit [of True] mic_watch mic_acknowledged [of True]
  by (simp add: consume_workload_def Let_def mic_consumption_def) (simp add: mic_env_def)

lemma mic_raced_final:
  "final_unknown sample_site_ext (watch_drop mic_ledger sample_grant) mic_scope 25
     = (Inr (), (watch_drop mic_ledger sample_grant)\<lparr>lg_db := uncertain mic_scope 25 mic_db, lg_final_slots := 1\<rparr>)"
  using mic_read
  by (simp add: final_unknown_def run_final_def mark_workload_unknown_def watch_drop_def mic_ledger_def to_i64_def
      i64_max_def)

section \<open>One event\<close>

definition mic_event :: event where
  "mic_event = sample_event 1 1 0 False"

lemma mic_event_fields [simp]:
  "e_sequence mic_event = 1" "e_source_sequence mic_event = 1" "e_source_frames mic_event = 1600"
  by (simp_all add: mic_event_def sample_event_def)

lemma mic_record_fields [simp]:
  "rc_event mic_record = mic_event" "rc_recorded_at_ms mic_record = 30" "rc_lease_sequence mic_record = 1"
  "rc_schema_version mic_record = 1"
  by (simp_all add: mic_record_def mic_event_def)

definition mic_checkpoint :: checkpoint where
  "mic_checkpoint = \<lparr>cp_contract_sha256 = mic_lease_digest, cp_sequence = 1, cp_deadline = 9000\<rparr>"

text \<open>The lease is live and no stop is signalled at any of the readings.\<close>

definition mic_append_env :: append_env where
  "mic_append_env =
     \<lparr>ae_authority = (\<lambda>n. (\<lparr>rs_contract_sha256 = mic_lease_digest, rs_started = True, rs_retired = False,
        rs_sequence = 1, rs_deadline = Some 9000\<rparr>, 200)), ae_stop = (\<lambda>n. False)\<rparr>"

lemma mic_check [simp]: "check_at sample_site_ext mic_checkpoint mic_contract mic_append_env n = Inr ()"
  by (simp add: check_at_def checkpoint_check_def mic_append_env_def mic_checkpoint_def)

lemma mic_no_stop [simp]: "ae_stop mic_append_env n = False"
  by (simp add: mic_append_env_def)

lemma mic_new_record: "new_record (mic_receipt 20) mic_checkpoint mic_event 30 = mic_record"
  by (simp add: new_record_def mic_record_def mic_checkpoint_def mic_event_def)

definition mic_event_row :: event_row where
  "mic_event_row = new_event_row sample_site_ext sample_workload mic_record mic_seed"

definition mic_db1 :: journal where
  "mic_db1 = save_event sample_workload mic_event_row 128 30 mic_db"

lemma mic_event_row_fields [simp]:
  "er_grant_id mic_event_row = sample_grant" "er_sequence mic_event_row = 1" "er_encoded_bytes mic_event_row = 128"
  "er_data mic_event_row = ''record''" "er_data_sha256 mic_event_row = sha256_hex sample_site_ext ''record''"
  "er_prefix_sha256 mic_event_row = mic_prefix"
  by (simp_all add: mic_event_row_def new_event_row_def Let_def mic_prefix_def
      sample_digest_ext mic_seed_def ping_digest_def)

lemma mic_event_follows [simp]: "event_follows sample_workload mic_event None = Inr ()"
  by (simp add: event_follows_def event_validate_def) (simp add: sample_workload_def mic_event_def sample_event_def)

lemma mic_appended_tx:
  "append_tx sample_site_ext sample_node mic_db sample_workload mic_event mic_checkpoint mic_contract
     mic_append_env 30
   = Inr (\<lparr>ap_sequence = 1, ap_data_sha256 = sha256_hex sample_site_ext ''record'', ap_reused = False\<rparr>, mic_db1)"
proof -
  have core: "read_core sample_site_ext mic_db sample_node (Some sample_issuer) sample_grant = Inr (mic_receipt 20)"
    by (rule mic_core) (simp_all add: i64_max_def)
  have state: "event_state sample_site_ext mic_db sample_workload = Inr \<lparr>sv_count = 0, sv_bytes = 0, sv_prefix = mic_seed\<rparr>"
    by (rule mic_state) simp_all
  have fresh: "recorded_scope sample_site_ext mic_db mic_scope = Inr False"
    by (simp add: recorded_scope_def stop_read_def stop_available_def)
  have "append_new sample_site_ext mic_db sample_workload mic_event (mic_receipt 20)
      \<lparr>sv_count = 0, sv_bytes = 0, sv_prefix = mic_seed\<rparr> mic_checkpoint mic_contract mic_append_env 30
    = Inr (\<lparr>ap_sequence = 1, ap_data_sha256 = sha256_hex sample_site_ext ''record'', ap_reused = False\<rparr>, mic_db1)"
    by (simp add: append_new_def tail_row_def mic_new_record mic_event_row_def [symmetric] Let_def MIN_EVENT_BYTES_def
        ROW_HEADROOM_def saturating_sub_def to_i64_def i64_max_def event_row_of_def mic_db1_def)
  then show ?thesis using core state fresh by (simp add: append_tx_def)
qed

section \<open>Completion\<close>

lemma mic_db1_fields [simp]:
  "j_page_size mic_db1 = 4096" "j_version mic_db1 = 4" "j_receipts mic_db1 = [mic_row\<lparr>r_updated_ms := 30\<rparr>]"
  "j_event_states mic_db1 = [mic_state_row 1 128 mic_prefix]" "j_events mic_db1 = [mic_event_row]"
  "j_event_tables mic_db1" "j_workload_columns mic_db1" "j_stops mic_db1 = TableAbsent"
  "j_progress mic_db1 = TableAbsent" "j_owner mic_db1 = Some sample_node"
  by (simp_all add: mic_db1_def save_event_def update_rows_def) (simp add: mic_state_row_def)

lemma mic_prefix_hex [simp]: "hex_digest mic_prefix"
  by (simp add: mic_prefix_def sample_digest_ext next_prefix_def)

lemma mic_prefix_length [simp]: "length mic_prefix = 64"
  using mic_prefix_hex by (simp only: hex_digest_def)

lemma sample_sha_length [simp]: "length (sha256_hex sample_site_ext t) = 64"
  using sample_site_hex by (simp add: hex_digest_def)

lemma mic_state1:
  "event_state sample_site_ext mic_db1 sample_workload = Inr \<lparr>sv_count = 1, sv_bytes = 128, sv_prefix = mic_prefix\<rparr>"
  by (rule mic_state) simp_all

lemma mic_event_valid: "event_validate sample_workload mic_event = Inr ()"
  using mic_event_follows by (simp add: event_follows_def)

lemma mic_row_decoded:
  "read_row sample_site_ext mic_db1 (mic_receipt 30) 1
     = Inr \<lparr>dr_record = mic_record, dr_bytes = 128, dr_checksum = sha256_hex sample_site_ext ''record'',
            dr_prefix = mic_prefix\<rparr>"
  using mic_event_valid
  by (simp add: read_row_def event_row_of_def decode_row_def Let_def ROW_HEADROOM_def MIN_EVENT_BYTES_def)

lemma mic_core1:
  "issuer = None \<or> issuer = Some sample_issuer \<Longrightarrow>
   read_core sample_site_ext mic_db1 sample_node issuer sample_grant = Inr (mic_receipt 30)"
  by (rule mic_core) (simp_all add: i64_max_def)

lemma mic_read1:
  assumes "issuer = None \<or> issuer = Some sample_issuer"
  shows "read_workload sample_site_ext mic_db1 sample_node issuer sample_grant = Inr (mic_receipt 30)"
proof -
  have "event_audit sample_site_ext mic_db1 (mic_receipt 30) = Inr ()"
    using mic_state1 mic_row_decoded
    by (simp add: event_audit_def grant_events_def Let_def audit_prefix_def audit_step_def lease_order_def
        mic_prefix_def sample_digest_ext mic_seed_def ping_digest_def checked_add_def u64_max_def)
  then show ?thesis using mic_core1 [OF assms] by (simp add: read_workload_def)
qed

definition mic_evidence :: evidence where
  "mic_evidence =
     \<lparr>cv_contract = mic_contract,
      cv_boundary = \<lparr>fb_digest = mic_lease_digest, fb_sequence = 1, fb_finished_at = 300, fb_deadline = 9000\<rparr>,
      cv_adapter_sha256 = sample_digest, cv_observations = 10, cv_frames = 16000,
      cv_events = \<lparr>sl_count = 1, sl_bytes = 128, sl_last = mic_event\<rparr>\<rparr>"

definition mic_completed :: workload_receipt where
  "mic_completed = completed_receipt mic_scope mic_evidence (mic_receipt 30) (1, 128, mic_prefix) 40"

definition mic_db2 :: journal where
  "mic_db2 = mic_db1\<lparr>j_version := 5, j_receipts := [completed_set ''completion''
     (sha256_hex sample_site_ext ''completion'') 40 (mic_row\<lparr>r_updated_ms := 30\<rparr>)]\<rparr>"

lemma mic_completed_report: "wr_completion mic_completed = Some mic_completion"
  by (simp add: mic_completed_def completed_receipt_def mic_evidence_def mic_completion_def sample_digest_ext
      ping_digest_def)

lemma mic_completed_valid: "workload_receipt_validate sample_site_ext mic_completed = Inr ()"
proof -
  have cons: "consumed_validate sample_site_ext (wr_receipt mic_completed) = Inr ()"
    by (simp add: mic_completed_def consumed_validate_def completed_receipt_def mic_receipt_def i64_max_def
        del: validate_remote_node_id_ok validate_id_ok)
  have comp: "completion_validate sample_site_ext mic_completion mic_completed = Inr ()"
    by (simp add: completion_validate_def Let_def mic_completed_def completed_receipt_def mic_source
        mic_completion_def sample_digest_ext ping_digest_def saturating_mul_def u64_max_def)
  show ?thesis
    using cons comp mic_completed_report
    by (simp add: workload_receipt_validate_def mic_completed_def completed_receipt_def) (simp add: mic_receipt_def)
qed

lemma mic_completion_upgraded:
  "completion_upgrade sample_site_ext sample_node mic_db1 = Inr (mic_db1\<lparr>j_version := 5\<rparr>)"
  using mic_read1
  by (simp add: completion_upgrade_def is_workload_def validate_schema_def event_schema_def receipt_of_def
      stop_validate_all_def stop_available_def Let_def)

lemma mic_completion_tx:
  "completion_tx sample_site_ext sample_node mic_evidence False False 40 mic_db1 = Inr (Saved mic_completed, mic_db2)"
proof -
  have prefix: "completion_prefix sample_site_ext mic_db1 (mic_receipt 30) = Inr (1, 128, mic_prefix, mic_event, 1)"
    using mic_state1 mic_row_decoded by (simp add: completion_prefix_def)
  have free: "recorded_scope sample_site_ext mic_db1 mic_scope = Inr False"
      "recorded_scope sample_site_ext (mic_db1\<lparr>j_version := 5\<rparr>) mic_scope = Inr False"
    by (simp_all add: recorded_scope_def stop_read_def stop_available_def)
  have saved: "completion_write sample_site_ext mic_scope mic_completed 40 False 40 (mic_db1\<lparr>j_version := 5\<rparr>)
      = Inr (Saved mic_completed, mic_db2)"
    using mic_completed_valid mic_completed_report free(2)
    by (simp add: completion_write_def Let_def REPORT_HEADROOM_def to_i64_def i64_max_def count_if_def
        update_rows_def completed_where_def mic_db2_def)
  have "completion_commit sample_site_ext sample_node mic_evidence False 40 mic_db1 (mic_receipt 30)
      = Inr (Saved mic_completed, mic_db2)"
    using prefix mic_completion_upgraded saved
    by (simp add: completion_commit_def Let_def mic_evidence_def seal_confirms_def mic_completed_def mic_source)
  then show ?thesis
    using mic_read1 [of "Some sample_issuer"] free(1)
    by (simp add: completion_tx_def Let_def mic_evidence_def boundary_validate_def)
qed

lemma mic_db2_free: "recorded_scope sample_site_ext mic_db2 mic_scope = Inr False"
  by (simp add: recorded_scope_def stop_read_def stop_available_def mic_db2_def)

lemma mic_final:
  "\<exists>lg'. final_completion sample_site_ext (mic_ledger\<lparr>lg_db := mic_db1\<rparr>) mic_evidence False False False 40
     = (Inr (Inr mic_completed), lg')"
proof -
  have "lg_node_id mic_ledger = sample_node" "ct_scope (cv_contract mic_evidence) = mic_scope"
    by (simp_all add: mic_ledger_def mic_evidence_def)
  then show ?thesis
    using mic_completion_tx mic_db2_free by (simp add: final_completion_def completion_save_def run_final_def)
qed

lemma mic_db_ok: "journal_ok mic_db"
  using consume_tx_ok(1) [OF mic_tx _ mic_contract_ok] fresh_site_ok by (simp add: site_ok_def fresh_site_def)

lemma mic_db1_ok: "journal_ok mic_db1"
  using append_tx_ok [OF mic_appended_tx mic_db_ok] by blast

text \<open>The checksums of the texts that the chain of the sample hashes.\<close>

lemma zeros_60: "replicate 60 (CHR ''0'') = ''000000000000000000000000000000000000000000000000000000000000''"
  by (simp add: numeral_eq_Suc)

lemma sample_sums:
  "sample_sum sample_grant = 55806" "sample_sum ''record'' = 48876" "sample_sum ''ef9d000000000000000000000000000000000000000000000000000000000000'' = 22114"
  "sample_sum (''2665000000000000000000000000000000000000000000000000000000000000'' @ ''ceeb000000000000000000000000000000000000000000000000000000000000'') = 28334"
  by (simp_all add: sample_grant_def byte_def)

lemma sample_shas:
  "sample_sha sample_grant = ''ef9d000000000000000000000000000000000000000000000000000000000000''" "sample_sha ''record'' = ''ceeb000000000000000000000000000000000000000000000000000000000000''"
  "sample_sha ''ef9d000000000000000000000000000000000000000000000000000000000000'' = ''2665000000000000000000000000000000000000000000000000000000000000''"
  unfolding sample_sha_def sample_sums hex_nibble_def zeros_60 Let_def by simp_all

lemma sample_texts_distinct:
  "sample_sha ''record'' \<noteq> sample_sha (sample_sha (sample_sha sample_grant) @ sample_sha ''record'')"
  unfolding sample_shas(1,3) unfolding sample_shas(2) unfolding sample_sha_def sample_sums Let_def
  by (simp add: hex_nibble_def)

lemma mic_texts_distinct:
  "sha256_hex sample_site_ext ''record'' \<noteq> sha256_hex sample_site_ext (mic_seed @ sha256_hex sample_site_ext ''record'')"
proof -
  have sha: "sha256_hex sample_site_ext = sample_sha"
    by (simp add: sample_site_ext_def sample_grant_ext_def sample_event_ext_def sample_pipeline_ext_def sample_workload_ext_def
        externals.defs workload_externals.defs event_externals.defs pipeline_externals.defs grant_externals.defs sample_ext_def)
  have "definition_digest sample_site_ext (JString sample_grant) = sample_sha sample_grant"
    by (simp add: definition_digest_def sha)
  then show ?thesis using sample_texts_distinct unfolding sha mic_seed_def ping_digest_def by (simp only: not_False_eq_True)
qed

end
