(* ===== verification/Workload_Properties.thy ===== *)
theory Workload_Properties
  imports Workload_Samples
begin

text \<open>
  What the journal guarantees for continuous workloads: durable consumption before
  acknowledgement, one final slot, the failure latch, event evidence that reads back and
  cannot be exchanged, and completion evidence that reads back.
\<close>

section \<open>Consumption\<close>

text \<open>What holds when the acknowledgement of a consumption succeeded.\<close>

lemma acknowledged_receipt:
  assumes "acknowledgement ext lg cn now1 now2 late = Inr w"
  shows "read_workload ext (lg_db lg) (lg_node_id lg) (Some (sc_issuer_id (ct_scope (cn_contract cn))))
           (sc_grant_id (ct_scope (cn_contract cn))) = Inr w"
    and "cr_state (wr_receipt w) = ACCEPTED" and "workload_scope ext (wr_definition w) = Inr (ct_scope (cn_contract cn))"
    and "\<not> watch_stopped lg (sc_grant_id (ct_scope (cn_contract cn)))" and "\<not> late"
    and "\<exists>pf. cn_initial cn = Some pf \<and> now2 < min (pf_deadline pf) (pf_session_deadline pf)"
  using assms by (auto simp: acknowledgement_def Let_def initial_deadline_def)

text \<open>
  C23. A workload is started only under a durable receipt. If a consumption succeeds, the
  journal holds an accepted workload receipt of exactly the derived scope that passes every
  check of a read, no stop is known for it, the initial lease was still live at the last
  check, the owner's limit on the result bytes holds, and the call took the final slot.
\<close>

theorem consumption_durable_before_start:
  assumes "consume_workload ext lg d policy pf issuer session node env = (Inr cn, lg', final)"
  shows "final = None \<and> lease_contract ext d = Inr (cn_contract cn)
    \<and> (\<exists>w. read_workload ext (lg_db lg') (lg_node_id lg') (Some (wk_issuer_id d)) (wk_grant_id d) = Inr w
         \<and> cr_state (wr_receipt w) = ACCEPTED
         \<and> workload_scope ext (wr_definition w) = Inr (ct_scope (cn_contract cn)))
    \<and> \<not> watch_stopped lg' (wk_grant_id d) \<and> ce_now4 env < min (pf_deadline pf) (pf_session_deadline pf)
    \<and> ev_max_total_bytes (wk_events d) \<le> gp_max_result_bytes (lg_policy lg)
    \<and> lg_final_slots lg = Suc (lg_final_slots lg')"
proof -
  obtain c reporting db where ad: "consume_admit ext lg d policy pf issuer session node env = Inr (c, reporting, db)"
    using assms by (cases "consume_admit ext lg d policy pf issuer session node env")
      (auto simp: consume_workload_def)
  have tx: "lease_contract ext d = Inr c" "consume_tx ext lg d c policy pf env = Inr db"
      "ev_max_total_bytes (wk_events d) \<le> gp_max_result_bytes (lg_policy lg)" "lg_final_slots lg \<noteq> 0"
    using ad by (auto simp: consume_admit_def)
  let ?lg1 = "lg\<lparr>lg_db := db, lg_final_slots := lg_final_slots lg - 1\<rparr>"
  obtain lg2 where lg2: "watch_stop_scope ext ?lg1 (ct_scope c) = Inr lg2"
    using assms ad by (cases "watch_stop_scope ext ?lg1 (ct_scope c)") (auto simp: consume_workload_def Let_def)
  let ?cn = "\<lparr>cn_contract = c, cn_policy = policy, cn_initial = Some pf, cn_reporting = reporting,
              cn_final_slot = True\<rparr>"
  obtain w where w: "acknowledgement ext lg2 ?cn (ce_now3 env) (ce_now4 env) (ce_stop env) = Inr w"
    and out: "cn = ?cn" "lg' = lg2" "final = None"
    using assms ad lg2
    by (cases "acknowledgement ext lg2 ?cn (ce_now3 env) (ce_now4 env) (ce_stop env)")
       (auto simp: consume_workload_def Let_def)
  obtain stops where "lg2 = ?lg1\<lparr>lg_stops := stops\<rparr>" using watch_stop_scope_InrD [OF lg2] by blast
  then have slots: "lg_final_slots lg = Suc (lg_final_slots lg2)" using tx(4) by simp
  have ids: "sc_grant_id (ct_scope c) = wk_grant_id d" "sc_issuer_id (ct_scope c) = wk_issuer_id d"
    using workload_scope_ids [OF lease_contract_InrD(1) [OF tx(1)]] by simp_all
  show ?thesis
    using acknowledged_receipt [OF w] ids slots tx(1,3) by (simp add: out)
qed

theorem consumption_durable_before_start_witness:
  "\<exists>w. read_workload sample_site_ext (lg_db mic_ledger) (lg_node_id mic_ledger) (Some sample_issuer) sample_grant
     = Inr w \<and> cr_state (wr_receipt w) = ACCEPTED"
  using consumption_durable_before_start [OF mic_consumed] by auto

text \<open>
  C24. A consumption that fails leaves nothing open. Either the journal is unchanged, or the
  call itself started the final save of its scope (it still owns the slot); and when that
  save runs and succeeds, the receipt of the workload is \<open>unknown\<close>, never \<open>accepted\<close>.
\<close>

theorem failed_consumption_settled:
  assumes "consume_workload ext lg d policy pf issuer session node env = (Inl e, lg', final)"
    and "journal_ok (lg_db lg)"
  shows "(final = None \<and> lg' = lg)
    \<or> (\<exists>c. lease_contract ext d = Inr c \<and> final = Some (ct_scope c)
        \<and> (\<forall>now lg2. final_unknown ext lg' (ct_scope c) now = (Inr (), lg2) \<longrightarrow>
             (\<exists>r. receipt_of (lg_db lg2) (wk_grant_id d) = Some r \<and> r_state r = UNKNOWN)
             \<and> lg_final_slots lg2 = lg_final_slots lg))"
  using assms(1)
proof (cases rule: consume_workload_cases)
  case (2 c db w)
  have final: "final = Some (ct_scope c)" using 2(5) by auto
  have ids: "sc_grant_id (ct_scope c) = wk_grant_id d"
    using workload_scope_ids [OF lease_contract_InrD(1) [OF 2(1)]] by simp
  have slot: "lg_final_slots lg > 0" using 2(3) by (rule consume_tx_InrD)
  have ok: "journal_ok (lg_db lg')" using consume_tx_ok(1) [OF 2(3) assms(2) 2(1)] 2(4) by simp
  obtain r where r: "r \<in> set (j_receipts (lg_db lg'))" "r_grant_id r = wk_grant_id d"
      "r_grant_digest r = sc_grant_sha256 (ct_scope c)" "r_receipt_kind r = ''workload''" "r_state r = ACCEPTED"
    using consume_tx_row [OF 2(3)] 2(4) by auto
  have "(\<exists>r. receipt_of (lg_db lg2) (wk_grant_id d) = Some r \<and> r_state r = UNKNOWN)
      \<and> lg_final_slots lg2 = lg_final_slots lg"
    if fu: "final_unknown ext lg' (ct_scope c) now = (Inr (), lg2)" for now lg2
  proof -
    obtain lg3 where m: "mark_workload_unknown ext lg' (ct_scope c) now = Inr lg3"
      using arg_cong [OF fu, of fst] by (cases "mark_workload_unknown ext lg' (ct_scope c) now")
        (auto simp: final_unknown_def run_final_def)
    then obtain ms where lg3: "lg3 = lg'\<lparr>lg_db := uncertain (ct_scope c) ms (lg_db lg')\<rparr>"
      by (auto simp: mark_workload_unknown_def)
    have lg2: "lg_db lg2 = lg_db lg3" "lg_final_slots lg2 = Suc (lg_final_slots lg3)"
      using fu m by (auto simp: final_unknown_def run_final_def)
    have "\<exists>r. receipt_of (lg_db lg3) (wk_grant_id d) = Some r \<and> r_state r = UNKNOWN"
      using uncertain_row [OF ok r(1), of "ct_scope c" ms] r ids lg3 by simp
    then show ?thesis using lg2 lg3 2(4) slot by simp
  qed
  then show ?thesis using 2(1) final by blast
qed simp

theorem failed_consumption_settled_witness:
  "\<exists>r. receipt_of (uncertain mic_scope 25 mic_db) sample_grant = Some r \<and> r_state r = UNKNOWN"
proof -
  have "journal_ok (lg_db fresh_ledger)" using fresh_site_ok by (simp add: site_ok_def fresh_site_def)
  from failed_consumption_settled [OF mic_raced this] show ?thesis
    using mic_raced_final by fastforce
qed

section \<open>The final slot\<close>

text \<open>
  C25. One workload at a time. After a consumption took the final slot, no further consumption
  succeeds until a final save ran or the node restarted, whatever calls are interleaved.
\<close>

theorem one_workload_at_a_time:
  assumes "run (site_step ext) s (es @ Consumed d (Inr cn) # fs) t" and "site_ok s"
    and "\<And>e. e \<in> set fs \<Longrightarrow> \<not> releases_slot e"
  shows "\<forall>d' cn'. Consumed d' (Inr cn') \<notin> set fs"
proof -
  obtain u v where u: "run (site_step ext) s es u" and step: "site_step ext u (Consumed d (Inr cn)) v"
    and fs: "run (site_step ext) v fs t"
    using assms(1) by auto
  have ok: "site_ok u" using site_run_le(1) [OF u assms(2)] .
  have "consumption_blocked v" using step by (rule consumed_stepE) (simp add: consumption_blocked_def held_after_def)
  then show ?thesis
    using run_slot_taken [OF fs site_step_moves(1) [OF step ok]] assms(3) by blast
qed

theorem one_workload_at_a_time_witness:
  "\<forall>d' cn'. Consumed d' (Inr cn') \<notin> set [Unwatched sample_grant, Grown 7]"
proof -
  have "site_step sample_site_ext fresh_site (Consumed sample_workload (Inr mic_consumption))
      \<lparr>si_ledger = mic_ledger, si_held = [mic_scope]\<rparr>"
    using site_consume [OF mic_consumed, of "[]"] by (simp add: fresh_site_def held_after_def mic_consumption_def)
  moreover have "\<exists>t. run (site_step sample_site_ext) \<lparr>si_ledger = mic_ledger, si_held = [mic_scope]\<rparr>
      [Unwatched sample_grant, Grown 7] t"
    unfolding run_Cons_iff run_Nil_iff using site_unwatch site_grow by blast
  ultimately obtain t where "run (site_step sample_site_ext) fresh_site
      ([] @ Consumed sample_workload (Inr mic_consumption) # [Unwatched sample_grant, Grown 7]) t"
    by auto
  from one_workload_at_a_time [OF this fresh_site_ok] show ?thesis by auto
qed

text \<open>
  C26. A failed final save is latched. Once a final save of a run failed, or no worker took it, no
  consumption succeeds in the same process, whatever calls are interleaved; only a restart,
  which audits the whole journal, clears the latch.
\<close>

theorem failed_save_latched:
  assumes "run (site_step ext) s (es @ e # fs) t" and "failed_save e" and "Reopened \<notin> set fs"
  shows "lg_final_failed (si_ledger t) \<and> (\<forall>d cn. Consumed d (Inr cn) \<notin> set fs)"
proof -
  obtain u v where step: "site_step ext u e v" and fs: "run (site_step ext) v fs t" using assms(1) by auto
  note run_latched [OF fs _ assms(3)] run_latch [OF fs _ assms(3)]
  then show ?thesis using failed_save_latches [OF step assms(2)] by blast
qed

text \<open>A consumed workload, a final save at a time past the clock's range, and another consumption.\<close>

definition mic_unsaved :: ledger where
  "mic_unsaved = mic_ledger\<lparr>lg_final_failed := True, lg_final_slots := 1\<rparr>"

lemma mic_save_fails: "final_unknown sample_site_ext mic_ledger mic_scope (i64_max + 1) = (Inl IntConversion, mic_unsaved)"
  using mic_read
  by (simp add: final_unknown_def run_final_def mark_workload_unknown_def mic_ledger_def mic_unsaved_def to_i64_def i64_max_def)

theorem failed_save_latched_witness:
  "\<forall>d cn. Consumed d (Inr cn) \<notin> set [Consumed sample_workload (Inl (WorkloadE FinalFailed))]"
proof -
  have "site_step sample_site_ext fresh_site (Consumed sample_workload (Inr mic_consumption))
      \<lparr>si_ledger = mic_ledger, si_held = [mic_scope]\<rparr>"
    using site_consume [OF mic_consumed, of "[]"] by (simp add: fresh_site_def held_after_def mic_consumption_def)
  moreover have "site_step sample_site_ext \<lparr>si_ledger = mic_ledger, si_held = [mic_scope]\<rparr>
      (FinalUnknown mic_scope (Inl IntConversion)) \<lparr>si_ledger = mic_unsaved, si_held = []\<rparr>"
    using site_final_unknown [OF _ mic_save_fails, of "[mic_scope]"] by simp
  moreover have "consume_workload sample_site_ext mic_unsaved sample_workload mic_policy mic_proof sample_issuer sample_session
      sample_node mic_env = (Inl (WorkloadE FinalFailed), mic_unsaved, None)"
    by (simp add: consume_workload_def consume_admit_def reporting_new_def mic_unsaved_def)
  from site_consume [OF this, of "[]"] have "site_step sample_site_ext \<lparr>si_ledger = mic_unsaved, si_held = []\<rparr>
      (Consumed sample_workload (Inl (WorkloadE FinalFailed))) \<lparr>si_ledger = mic_unsaved, si_held = []\<rparr>"
    by (simp add: held_after_def)
  ultimately have "run (site_step sample_site_ext) fresh_site ([Consumed sample_workload (Inr mic_consumption)]
      @ FinalUnknown mic_scope (Inl IntConversion) # [Consumed sample_workload (Inl (WorkloadE FinalFailed))])
      \<lparr>si_ledger = mic_unsaved, si_held = []\<rparr>"
    by auto
  from failed_save_latched [OF this] show ?thesis by simp
qed

section \<open>Event evidence\<close>

text \<open>
  C27. A saved event is evidence. If the receipt of a workload reads and a new event is saved
  for it, the receipt reads again afterwards, only with a later time, its event evidence has
  exactly one more event with the bytes of that event, and the hash chain is extended by
  the saved record (\<open>record_codec\<close>: the record survives its serialisation).
\<close>

theorem saved_event_read_back:
  assumes "record_codec ext (new_record w cp e now)" and "\<And>s. hex_digest (sha256_hex ext s)"
    and "journal_ok db" and "4 \<le> j_version db"
    and "read_workload ext db node (Some (wk_issuer_id d)) (wk_grant_id d) = Inr w"
    and "append_tx ext node db d e cp c env now = Inr (a, db')" and "\<not> ap_reused a"
    and "cp_sequence cp > 0"
  shows "\<exists>m saved. read_workload ext db' node (Some (wk_issuer_id d)) (wk_grant_id d) = Inr (touched m w)
      \<and> event_state ext db d = Inr saved \<and> e_sequence e = sv_count saved + 1
      \<and> event_state ext db' d = Inr \<lparr>sv_count = sv_count saved + 1,
           sv_bytes = sv_bytes saved + length (event_text ext e),
           sv_prefix = next_prefix ext (sv_prefix saved)
             (sha256_hex ext (record_text ext (new_record w cp e now)))\<rparr>"
  by (rule append_read_back [OF assms])

theorem saved_event_read_back_witness:
  "\<exists>m. read_workload sample_site_ext mic_db1 sample_node (Some sample_issuer) sample_grant
      = Inr (touched m (mic_receipt 20))"
proof -
  have "record_codec sample_site_ext (new_record (mic_receipt 20) mic_checkpoint mic_event 30)"
    by (simp add: record_codec_def mic_new_record)
  from saved_event_read_back [OF this _ mic_db_ok, where node = sample_node and d = sample_workload, OF _ _ _ mic_appended_tx]
  show ?thesis using mic_read by (auto simp: mic_checkpoint_def)
qed

text \<open>
  C28. The chain is tamper evident. Two journals whose event evidence of the same definition
  passes the audit with the same number of events and the same prefix digest hold byte for
  byte the same event records, unless two of the texts the chain hashes collide. A completion
  report names that number and that digest, so it determines the events it seals.
\<close>

theorem prefix_determines_events:
  assumes "event_audit ext a w = Inr ()" and "event_audit ext b w' = Inr ()"
    and "wr_definition w = d" and "wr_definition w' = d" and "4 \<le> j_version a" and "4 \<le> j_version b"
    and "event_state ext a d = Inr sa" and "event_state ext b d = Inr sb"
    and "sv_count sa = sv_count sb" and "sv_prefix sa = sv_prefix sb" and "event_seed ext d = Inr seed"
    and "\<And>s. hex_digest (sha256_hex ext s)"
    and "inj_on (sha256_hex ext)
      (set (hashed_texts ext seed (retained_rows a (wk_grant_id d) (sv_count sa)))
       \<union> set (hashed_texts ext seed (retained_rows b (wk_grant_id d) (sv_count sb))))"
  shows "map er_data (retained_rows a (wk_grant_id d) (sv_count sa))
       = map er_data (retained_rows b (wk_grant_id d) (sv_count sb))"
proof -
  have hex: "length (sha256_hex ext s) = 64" for s using assms(12) by (simp add: hex_digest_def)
  have seed: "length seed = 64" using assms(11) hex by (auto simp: event_seed_def)
  note A = audit_retained(1) [OF assms(1,5), unfolded assms(3), OF assms(7,11)]
  note B = audit_retained(1) [OF assms(2,6), unfolded assms(4), OF assms(8,11)]
  show ?thesis
    using prefix_of_determines [OF _ _ hex seed seed assms(13)] A B assms(9,10) by (simp add: retained_rows_def)
qed

theorem prefix_determines_events_witness:
  "map er_data (retained_rows mic_db1 sample_grant 1) = map er_data (retained_rows mic_db1 sample_grant 1)
   \<and> inj_on (sha256_hex sample_site_ext) (set (hashed_texts sample_site_ext mic_seed (retained_rows mic_db1 sample_grant 1)))"
proof -
  have rows: "retained_rows mic_db1 sample_grant 1 = [mic_event_row]"
    by (simp add: retained_rows_def event_row_of_def)
  have inj: "inj_on (sha256_hex sample_site_ext) (set (hashed_texts sample_site_ext mic_seed [mic_event_row]))"
    using mic_texts_distinct by (simp add: inj_on_def)
  have audit: "event_audit sample_site_ext mic_db1 (mic_receipt 30) = Inr ()"
    using mic_read1 [of None] mic_core1 [of None] by (auto simp: read_workload_def)
  from prefix_determines_events [OF audit audit _ _ _ _ mic_state1 mic_state1 _ _ mic_seed_ok] show ?thesis
    using inj by (simp add: rows [simplified])
qed

section \<open>Completion\<close>

text \<open>
  C29. A saved completion reads back. If the final save of a completion reports success with a
  receipt, then reading the workload again, with every check of the receipt, of the
  completion report and of the event chain, returns exactly that receipt
  (\<open>completion_codec\<close>: the report survives its serialisation).
\<close>

theorem saved_completion_read_back:
  assumes "final_completion ext lg ev stop1 stop2 stop3 now = (Inr (Inr w), lg')"
    and "\<forall>report. wr_completion w = Some report \<longrightarrow> completion_codec ext report"
    and "\<And>s. hex_digest (sha256_hex ext s)" and "journal_ok (lg_db lg)"
  shows "read_workload ext (lg_db lg') (lg_node_id lg') (Some (sc_issuer_id (ct_scope (cv_contract ev))))
           (sc_grant_id (ct_scope (cv_contract ev))) = Inr w"
proof -
  obtain db where tx: "completion_tx ext (lg_node_id lg) ev stop1 stop2 now (lg_db lg) = Inr (Saved w, db)"
    and lg': "lg_db lg' = db" "lg_node_id lg' = lg_node_id lg"
    using assms(1) by (rule final_completion_saved)
  show ?thesis unfolding lg' by (rule completion_read_back [OF assms(2,3,4) tx])
qed

theorem saved_completion_read_back_witness:
  "\<exists>lg'. final_completion sample_site_ext (mic_ledger\<lparr>lg_db := mic_db1\<rparr>) mic_evidence False False False 40
      = (Inr (Inr mic_completed), lg')
    \<and> read_workload sample_site_ext (lg_db lg') (lg_node_id lg') (Some sample_issuer) sample_grant = Inr mic_completed"
proof -
  obtain lg' where f: "final_completion sample_site_ext (mic_ledger\<lparr>lg_db := mic_db1\<rparr>) mic_evidence False False
      False 40 = (Inr (Inr mic_completed), lg')"
    using mic_final by blast
  have "completion_codec sample_site_ext mic_completion" by (simp add: completion_codec_def)
  then have "read_workload sample_site_ext (lg_db lg') (lg_node_id lg') (Some sample_issuer) sample_grant
      = Inr mic_completed"
    using saved_completion_read_back [OF f] mic_db1_ok mic_completed_report by (simp add: mic_evidence_def)
  with f show ?thesis by blast
qed

end
