(* ===== verification/Pipeline_Runtime.thy ===== *)
theory Pipeline_Runtime
  imports Grant_Ledger
begin

text \<open>
  The execution of a pipeline inside one accepted grant (\<^verbatim>\<open>pipeline_runtime.rs\<close>): stages run in
  order, a result is kept while a later stage still refers to it, and every start and end of
  a finite stage is recorded in the journal before the next effect.

  The engine that checks the owner's policy and runs an operation, the clocks and whatever
  other tasks do to the shared ledger are the environment of a stage (\<open>stage\<close>); every theorem
  holds for all of them. Beside its result and the ledger, the model of \<^verbatim>\<open>execute\<close> returns the
  operations the engine was asked to run.
\<close>

section \<open>Data\<close>

datatype pipeline_definition = Finite pipeline_graph | Conditional conditional_graph

record run_state =
  rs_references :: "string \<rightharpoonup> nat"
  rs_values :: "string \<rightharpoonup> json"
  rs_sizes :: "string \<rightharpoonup> nat"
  rs_retained :: nat
  rs_skipped :: "string list"
  rs_outcomes :: "step_outcome list"

text \<open>
  \<open>st_policy\<close> and \<open>st_operation\<close> are the answers of \<^verbatim>\<open>check_grant_policy\<close> and
  \<^verbatim>\<open>check_operation_policy\<close>; \<open>st_before\<close> and \<open>st_after\<close> the changes other tasks make to the
  ledger before the two observations of the stage, \<open>st_start_ms\<close> and \<open>st_end_ms\<close> the wall clock
  of those observations; \<open>st_now\<close> the instant of the deadline check; \<open>st_run\<close> the engine.
\<close>

record stage =
  st_policy :: bool
  st_operation :: bool
  st_before :: "ledger \<Rightarrow> ledger"
  st_after :: "ledger \<Rightarrow> ledger"
  st_start_ms :: nat
  st_end_ms :: nat
  st_now :: instant
  st_run :: "string \<Rightarrow> string \<Rightarrow> json \<Rightarrow> json result"

record engine_call =
  ec_step :: string
  ec_capability :: string
  ec_action :: string
  ec_params :: json

datatype stage_result = Finished json | Continue run_state

section \<open>The definition\<close>

definition definition_from_grant ::
  "'x pipeline_externals_scheme \<Rightarrow> execution_grant \<Rightarrow> pipeline_definition result" where
  "definition_from_grant ext g =
     (if g_capability g = CONDITIONAL
      then rbind (conditional_from_grant ext g) (\<lambda>d. Inr (Conditional d))
      else rbind (finite_from_grant ext g) (\<lambda>d. Inr (Finite d)))"

primrec definition_graph :: "pipeline_definition \<Rightarrow> pipeline_graph" where
  "definition_graph (Finite p) = p"
| "definition_graph (Conditional p) = cg_graph p"

primrec definition_counts ::
  "'x pipeline_externals_scheme \<Rightarrow> pipeline_definition \<Rightarrow> (string \<rightharpoonup> nat) result" where
  "definition_counts ext (Finite p) = finite_reference_counts ext p"
| "definition_counts ext (Conditional p) = conditional_reference_counts ext p"

primrec definition_sources :: "pipeline_definition \<Rightarrow> nat \<Rightarrow> string list result" where
  "definition_sources (Finite p) index = Inr (map di_source_step (ps_inputs (pg_steps p ! index)))"
| "definition_sources (Conditional p) index = conditional_sources p index"

primrec definition_decision ::
  "'x pipeline_externals_scheme \<Rightarrow> pipeline_definition \<Rightarrow> nat \<Rightarrow> (string \<rightharpoonup> json) \<Rightarrow> string list
   \<Rightarrow> decision result" where
  "definition_decision ext (Finite p) index values skipped = Inr (RunStep None)"
| "definition_decision ext (Conditional p) index values skipped =
     conditional_decision ext p index values skipped"

definition finite_result_of ::
  "'x pipeline_externals_scheme \<Rightarrow> pipeline_graph \<Rightarrow> nat \<Rightarrow> bool \<Rightarrow> json \<Rightarrow> json" where
  "finite_result_of ext p completed failed output = finite_result_json ext
     \<lparr>fr_schema_version = 1, fr_report_type = ''local_pipeline_result'', fr_success = (\<not> failed),
      fr_completed_steps = map ps_id (take completed (pg_steps p)),
      fr_failed_step = (if failed then Some (ps_id (pg_steps p ! completed)) else None),
      fr_output = output\<rparr>"

definition conditional_result_of ::
  "'x pipeline_externals_scheme \<Rightarrow> step_outcome list \<Rightarrow> json \<Rightarrow> bool \<Rightarrow> json" where
  "conditional_result_of ext outcomes output success = conditional_result_json ext
     \<lparr>cs_schema_version = 1, cs_report_type = ''conditional_pipeline_result'', cs_success = success,
      cs_outcomes = outcomes, cs_output = output\<rparr>"

primrec definition_result ::
  "'x pipeline_externals_scheme \<Rightarrow> pipeline_definition \<Rightarrow> nat \<Rightarrow> bool \<Rightarrow> json \<Rightarrow> step_outcome list
   \<Rightarrow> json" where
  "definition_result ext (Finite p) completed failed output outcomes =
     finite_result_of ext p completed failed output"
| "definition_result ext (Conditional p) completed failed output outcomes =
     conditional_result_of ext outcomes output (\<not> failed)"

primrec is_conditional :: "pipeline_definition \<Rightarrow> bool" where
  "is_conditional (Finite p) = False"
| "is_conditional (Conditional p) = True"

section \<open>References\<close>

text \<open>
  \<^verbatim>\<open>consume_references\<close>: one use of every source of the stage; with its last use a result is
  dropped and its bytes are released.
\<close>

definition consume_source :: "string \<Rightarrow> run_state \<Rightarrow> run_state result" where
  "consume_source source rs =
     rbind (or_err (rs_references rs source) (PipelineE ReferenceMissing)) (\<lambda>uses.
     rbind (or_err (checked_sub uses 1) (PipelineE ReferenceUnderflow)) (\<lambda>left.
     let rs' = rs\<lparr>rs_references := (rs_references rs)(source \<mapsto> left)\<rparr> in
     if left = 0 then
       (case rs_sizes rs source of
          Some bytes \<Rightarrow>
            rbind (or_err (checked_sub (rs_retained rs) bytes) (PipelineE RetainedUnderflow)) (\<lambda>kept.
            Inr (rs'\<lparr>rs_values := (rs_values rs)(source := None),
                     rs_sizes := (rs_sizes rs)(source := None), rs_retained := kept\<rparr>))
        | None \<Rightarrow>
            ensure (source \<in> set (rs_skipped rs)) (PipelineE RetainedMissing)
              (Inr (rs'\<lparr>rs_values := (rs_values rs)(source := None)\<rparr>)))
     else Inr rs'))"

primrec consume_sources :: "string list \<Rightarrow> run_state \<Rightarrow> run_state result" where
  "consume_sources [] rs = Inr rs"
| "consume_sources (s # ss) rs = rbind (consume_source s rs) (consume_sources ss)"

definition consume_references :: "pipeline_definition \<Rightarrow> nat \<Rightarrow> run_state \<Rightarrow> run_state result" where
  "consume_references d index rs =
     rbind (definition_sources d index) (\<lambda>sources. consume_sources sources rs)"

section \<open>Observations\<close>

definition progress_record ::
  "'x journal_externals_scheme \<Rightarrow> ledger \<Rightarrow> execution_grant \<Rightarrow> nat \<Rightarrow> phase \<Rightarrow> nat \<Rightarrow> nat \<Rightarrow> nat
   \<Rightarrow> ledger result" where
  "progress_record ext lg g index phase retained resolved now =
     rbind (progress_checkpoint ext g index phase retained resolved now) (\<lambda>p.
     rbind (record_pipeline_progress ext lg g p) (\<lambda>(_, lg'). Inr lg'))"

definition observe_stage ::
  "'x journal_externals_scheme \<Rightarrow> pipeline_definition \<Rightarrow> ledger \<Rightarrow> execution_grant \<Rightarrow> nat \<Rightarrow> phase
   \<Rightarrow> nat \<Rightarrow> nat \<Rightarrow> nat \<Rightarrow> ledger result" where
  "observe_stage ext d lg g index phase retained resolved now =
     (if is_conditional d then Inr lg
      else progress_record ext lg g index phase retained resolved now)"

section \<open>One stage\<close>

definition step_at :: "pipeline_definition \<Rightarrow> nat \<Rightarrow> pipeline_step" where
  "step_at d index = pg_steps (definition_graph d) ! index"

definition push_outcome ::
  "pipeline_step \<Rightarrow> step_state \<Rightarrow> bool option \<Rightarrow> string option \<Rightarrow> run_state \<Rightarrow> run_state" where
  "push_outcome s state matched dependency rs = rs\<lparr>rs_outcomes := rs_outcomes rs @
     [\<lparr>so_id = ps_id s, so_state = state, so_condition_matched = matched,
       so_skipped_dependency = dependency\<rparr>]\<rparr>"

definition skip_step ::
  "pipeline_definition \<Rightarrow> nat \<Rightarrow> step_state \<Rightarrow> bool option \<Rightarrow> string option \<Rightarrow> run_state
   \<Rightarrow> run_state result" where
  "skip_step d index state matched dependency rs =
     consume_references d index
       (push_outcome (step_at d index) state matched dependency
         (rs\<lparr>rs_skipped := ps_id (step_at d index) # rs_skipped rs\<rparr>))"

definition model_alias :: "pipeline_step \<Rightarrow> json \<Rightarrow> json" where
  "model_alias s params =
     (case ps_model_id s of
        None \<Rightarrow> params
      | Some model \<Rightarrow> jset (jset params ''model'' (JString model)) ''backend''
          (case ps_backend s of None \<Rightarrow> JNull | Some b \<Rightarrow> JString b))"

text \<open>The stage up to the point where its first observation is recorded.\<close>

definition prepare_step ::
  "'x pipeline_externals_scheme \<Rightarrow> pipeline_definition \<Rightarrow> nat \<Rightarrow> stage \<Rightarrow> run_state
   \<Rightarrow> (json \<times> nat \<times> run_state) result" where
  "prepare_step ext d index st rs =
     (let s = step_at d index; limit = pg_max_retained_bytes (definition_graph d) in
      rbind (bound_params ext s) (\<lambda>_.
      ensure (st_operation st) (PipelineE StagePolicy)
      (rbind (resolve_with_limit ext s (rs_values rs) limit) (\<lambda>resolved.
       let params = model_alias s resolved in
       rbind (encoded_bytes (json_text ext params) limit) (\<lambda>bytes.
       rbind (consume_references d index rs) (\<lambda>rs'. Inr (params, bytes, rs')))))))"

text \<open>A result that a later stage still refers to is retained within the budget.\<close>

definition retain_output ::
  "pipeline_definition \<Rightarrow> nat \<Rightarrow> json \<Rightarrow> nat \<Rightarrow> run_state \<Rightarrow> run_state result" where
  "retain_output d index output bytes rs =
     (let i = ps_id (step_at d index) in
      rbind (or_err (rs_references rs i) (PipelineE ReferenceMissing)) (\<lambda>uses.
      if uses > 0 then
        rbind (or_err (checked_add (rs_retained rs) bytes) (PipelineE DataBudget)) (\<lambda>total.
        ensure (total \<le> pg_max_retained_bytes (definition_graph d)) (PipelineE DataBudget)
          (Inr (rs\<lparr>rs_retained := total, rs_sizes := (rs_sizes rs)(i \<mapsto> bytes),
                   rs_values := (rs_values rs)(i \<mapsto> output)\<rparr>)))
      else Inr rs))"

text \<open>The stage after the engine has returned.\<close>

definition settle_step ::
  "'x journal_externals_scheme \<Rightarrow> execution_grant \<Rightarrow> pipeline_definition \<Rightarrow> nat \<Rightarrow> stage \<Rightarrow> bool option
   \<Rightarrow> run_state \<Rightarrow> ledger \<Rightarrow> json \<Rightarrow> (stage_result \<times> ledger) result" where
  "settle_step ext g d index st matched rs lg output =
     (let s = step_at d index; n = length (pg_steps (definition_graph d));
          outcome = (\<lambda>state. if is_conditional d then push_outcome s state matched None rs else rs) in
      rbind (encoded_bytes (json_text ext output) (pg_max_retained_bytes (definition_graph d))) (\<lambda>bytes.
      if runs_process s \<and> unsuccessful_exit output then
        rbind (observe_stage ext d lg g index PhaseFailed (rs_retained rs) 0 (st_end_ms st)) (\<lambda>lg'.
        Inr (Finished (definition_result ext d index True output (rs_outcomes (outcome StepFailed))), lg'))
      else if index + 1 = n then
        rbind (observe_stage ext d lg g index PhaseCompleted 0 0 (st_end_ms st)) (\<lambda>lg'.
        Inr (Finished (definition_result ext d (index + 1) False output
               (rs_outcomes (outcome StepCompleted))), lg'))
      else
        rbind (retain_output d index output bytes (outcome StepCompleted)) (\<lambda>rs'.
        rbind (observe_stage ext d lg g index PhaseCompleted (rs_retained rs') 0 (st_end_ms st)) (\<lambda>lg'.
        Inr (Continue rs', lg')))))"

text \<open>
  A stage that runs. The ledger keeps the first observation also when the stage fails later,
  and the call is listed as soon as the engine is asked.
\<close>

definition run_prepared ::
  "'x journal_externals_scheme \<Rightarrow> execution_grant \<Rightarrow> instant \<Rightarrow> pipeline_definition \<Rightarrow> nat \<Rightarrow> stage
   \<Rightarrow> bool option \<Rightarrow> json \<Rightarrow> run_state \<Rightarrow> ledger
   \<Rightarrow> stage_result result \<times> ledger \<times> engine_call list" where
  "run_prepared ext g deadline d index st matched params rs lg =
     (if st_now st \<ge> deadline then (Inl (PipelineE StageExpired), lg, [])
      else
        let s = step_at d index;
            call = \<lparr>ec_step = ps_id s, ec_capability = ps_capability s, ec_action = ps_action s,
                    ec_params = params\<rparr> in
        case st_run st (ps_capability s) (ps_action s) params of
          Inl e \<Rightarrow> (Inl e, lg, [call])
        | Inr output \<Rightarrow>
            (case settle_step ext g d index st matched rs (st_after st lg) output of
               Inl e \<Rightarrow> (Inl e, st_after st lg, [call])
             | Inr (r, lg') \<Rightarrow> (Inr r, lg', [call])))"

definition run_step_stage ::
  "'x journal_externals_scheme \<Rightarrow> execution_grant \<Rightarrow> instant \<Rightarrow> pipeline_definition \<Rightarrow> nat \<Rightarrow> stage
   \<Rightarrow> bool option \<Rightarrow> run_state \<Rightarrow> ledger \<Rightarrow> stage_result result \<times> ledger \<times> engine_call list" where
  "run_step_stage ext g deadline d index st matched rs lg =
     (case prepare_step ext d index st rs of
        Inl e \<Rightarrow> (Inl e, lg, [])
      | Inr (params, bytes, rs') \<Rightarrow>
          (case observe_stage ext d (st_before st lg) g index PhaseStarting (rs_retained rs') bytes
                  (st_start_ms st) of
             Inl e \<Rightarrow> (Inl e, st_before st lg, [])
           | Inr lg' \<Rightarrow> run_prepared ext g deadline d index st matched params rs' lg'))"

definition run_stage ::
  "'x journal_externals_scheme \<Rightarrow> execution_grant \<Rightarrow> instant \<Rightarrow> pipeline_definition \<Rightarrow> nat \<Rightarrow> stage
   \<Rightarrow> run_state \<Rightarrow> ledger \<Rightarrow> stage_result result \<times> ledger \<times> engine_call list" where
  "run_stage ext g deadline d index st rs lg =
     (if \<not> st_policy st then (Inl (PipelineE StagePolicy), lg, [])
      else
        case definition_decision ext d index (rs_values rs) (rs_skipped rs) of
          Inl e \<Rightarrow> (Inl e, lg, [])
        | Inr (RunStep matched) \<Rightarrow> run_step_stage ext g deadline d index st matched rs lg
        | Inr SkipCondition \<Rightarrow>
            (rbind (skip_step d index StepSkippedCondition (Some False) None rs)
               (\<lambda>rs'. Inr (Continue rs')), lg, [])
        | Inr (SkipDependency source matched) \<Rightarrow>
            (rbind (skip_step d index StepSkippedDependency matched (Some source) rs)
               (\<lambda>rs'. Inr (Continue rs')), lg, []))"

section \<open>The loop\<close>

text \<open>The steps from \<open>index\<close> on; \<open>env\<close> gives the environment of each.\<close>

primrec run_stages ::
  "'x journal_externals_scheme \<Rightarrow> execution_grant \<Rightarrow> instant \<Rightarrow> pipeline_definition \<Rightarrow> (nat \<Rightarrow> stage)
   \<Rightarrow> pipeline_step list \<Rightarrow> nat \<Rightarrow> run_state \<Rightarrow> ledger \<Rightarrow> json result \<times> ledger \<times> engine_call list" where
  "run_stages ext g deadline d env [] index rs lg =
     (if is_conditional d \<and> length (rs_outcomes rs) = length (pg_steps (definition_graph d))
      then (Inr (definition_result ext d index False JNull (rs_outcomes rs)), lg, [])
      else (Inl (PipelineE NoFinalResult), lg, []))"
| "run_stages ext g deadline d env (s # ss) index rs lg =
     (case run_stage ext g deadline d index (env index) rs lg of
        (Inl e, lg', calls) \<Rightarrow> (Inl e, lg', calls)
      | (Inr (Finished v), lg', calls) \<Rightarrow> (Inr v, lg', calls)
      | (Inr (Continue rs'), lg', calls) \<Rightarrow>
          (case run_stages ext g deadline d env ss (Suc index) rs' lg' of
             (r, lg'', calls') \<Rightarrow> (r, lg'', calls @ calls')))"

definition initial_state :: "(string \<rightharpoonup> nat) \<Rightarrow> run_state" where
  "initial_state counts =
     \<lparr>rs_references = counts, rs_values = Map.empty, rs_sizes = Map.empty, rs_retained = 0,
      rs_skipped = [], rs_outcomes = []\<rparr>"

text \<open>\<^verbatim>\<open>execute\<close>; \<open>admitted\<close> is the answer of \<^verbatim>\<open>check_grant_admission\<close>.\<close>

definition pipeline_execute ::
  "'x journal_externals_scheme \<Rightarrow> bool \<Rightarrow> execution_grant \<Rightarrow> instant \<Rightarrow> (nat \<Rightarrow> stage) \<Rightarrow> ledger
   \<Rightarrow> json result \<times> ledger \<times> engine_call list" where
  "pipeline_execute ext admitted g deadline env lg =
     (case rbind (grant_validate ext g) (\<lambda>_.
           ensure admitted (PipelineE StagePolicy)
           (rbind (definition_from_grant ext g) (\<lambda>d.
            rbind (definition_counts ext d) (\<lambda>counts. Inr (d, counts))))) of
        Inl e \<Rightarrow> (Inl e, lg, [])
      | Inr (d, counts) \<Rightarrow> run_stages ext g deadline d env (pg_steps (definition_graph d)) 0
          (initial_state counts) lg)"

end
