(* ===== verification/Pipeline_Accounting.thy ===== *)
theory Pipeline_Accounting
  imports Pipeline_Runtime "HOL-Library.Multiset"
begin

text \<open>
  What validation guarantees of a pipeline graph, and the bookkeeping of the runtime: the
  references that remain, the results that are kept for them and their bytes.
\<close>

section \<open>Errors that a function cannot produce\<close>

text \<open>The failures of the runtime's own bookkeeping, which validated input never reaches.\<close>

definition accounting_errors :: "error set" where
  "accounting_errors = PipelineE ` {ReferenceMissing, ReferenceUnderflow, RetainedUnderflow,
     RetainedMissing, SourceUnavailable, StepMissing, NoFinalResult}"

definition accounted :: "'a result \<Rightarrow> bool" where
  "accounted r \<longleftrightarrow> (\<forall>e. r = Inl e \<longrightarrow> e \<notin> accounting_errors)"

named_theorems accounted_intros "a result that is no accounting error"

lemma accounted_Inr [simp, accounted_intros]: "accounted (Inr x)"
  by (simp add: accounted_def)

lemma accounted_Inl [simp]: "accounted (Inl e) \<longleftrightarrow> e \<notin> accounting_errors"
  by (simp add: accounted_def)

lemma accounted_rbind [accounted_intros]:
  "accounted r \<Longrightarrow> (\<And>x. r = Inr x \<Longrightarrow> accounted (f x)) \<Longrightarrow> accounted (rbind r f)"
  by (cases r) simp_all

lemma accounted_ensure [accounted_intros]:
  "(\<not> c \<Longrightarrow> e \<notin> accounting_errors) \<Longrightarrow> (c \<Longrightarrow> accounted r) \<Longrightarrow> accounted (ensure c e r)"
  by (cases c) simp_all

lemma accounted_or_err [accounted_intros]:
  "(v = None \<Longrightarrow> e \<notin> accounting_errors) \<Longrightarrow> accounted (or_err v e)"
  by (cases v) simp_all

lemma accounting_errors_iff [simp]:
  "PipelineE p \<in> accounting_errors \<longleftrightarrow> p \<in> {ReferenceMissing, ReferenceUnderflow, RetainedUnderflow,
     RetainedMissing, SourceUnavailable, StepMissing, NoFinalResult}"
  "IdentE i \<notin> accounting_errors" "GrantE ge \<notin> accounting_errors" "JournalE je \<notin> accounting_errors"
  by (auto simp: accounting_errors_def)

lemma accounted_checks [accounted_intros]:
  "accounted (validate_remote_node_id n)" "accounted (encoded_bytes t limit)"
  "accounted (validate_data_type key v)" "accounted (text_bound t m)"
  by (auto simp: validate_remote_node_id_def validate_node_id_def encoded_bytes_def validate_data_type_def text_bound_def
      intro!: accounted_intros)


lemma accounted_case_option [accounted_intros]:
  "(v = None \<Longrightarrow> accounted r) \<Longrightarrow> (\<And>x. v = Some x \<Longrightarrow> accounted (f x))
   \<Longrightarrow> accounted (case v of None \<Rightarrow> r | Some x \<Rightarrow> f x)"
  by (cases v) simp_all

lemma accounted_if [accounted_intros]:
  "(c \<Longrightarrow> accounted r) \<Longrightarrow> (\<not> c \<Longrightarrow> accounted q) \<Longrightarrow> accounted (if c then r else q)"
  by simp

lemma accounted_shape [accounted_intros]: "accounted (shape_validate ext sh executor)"
  unfolding shape_validate_def shape_resource_def shape_model_def validate_model_id_def
  by (intro accounted_intros) simp_all

lemma accounted_bind_identity [accounted_intros]: "accounted (bind_identity kvs params)"
  by (induction kvs arbitrary: params) (auto split: option.splits intro!: accounted_intros)

lemma accounted_bound_params [accounted_intros]: "accounted (bound_params ext s)"
  unfolding bound_params_def by (intro accounted_intros) simp_all

lemma accounted_parameter_keys [accounted_intros]: "accounted (parameter_keys cap action)"
proof -
  have "accounted (template_keys cap action ts)" for ts
    by (induction ts) (auto simp: template_steps_def split: option.splits intro!: accounted_intros)
  then show ?thesis
    unfolding parameter_keys_def by (intro accounted_intros) simp_all
qed

lemma accounted_check_messages [accounted_intros]: "accounted (check_messages ms)"
  by (induction ms) (auto split: json.splits intro!: accounted_intros)

lemma accounted_literals [accounted_intros]: "accounted (validate_model_literals params vision inputs)"
  unfolding validate_model_literals_def by (intro accounted_intros) simp_all

lemma accounted_check_inputs [accounted_intros]: "accounted (check_inputs s targets is)"
  by (induction "is" arbitrary: targets) (auto intro!: accounted_intros)

lemma accounted_step_validate [accounted_intros]: "accounted (step_validate ext s executor)"
  unfolding step_validate_def by (intro accounted_intros) simp_all

lemma accounted_validate_steps [accounted_intros]: "accounted (validate_steps ext executor previous ss)"
  by (induction ss arbitrary: previous) (auto intro!: accounted_intros)

lemma accounted_validate [accounted_intros]: "accounted (validate_for_executor ext p executor)"
  unfolding validate_for_executor_def by (intro accounted_intros) simp_all

lemma accounted_condition_validate [accounted_intros]: "accounted (condition_validate ext c)"
  unfolding condition_validate_def by (intro accounted_intros) simp_all

lemma accounted_check_conditions [accounted_intros]: "accounted (check_conditions ext steps kcs)"
  by (induction kcs) (auto intro!: accounted_intros)

lemma accounted_conditional_validate [accounted_intros]: "accounted (conditional_validate ext p executor)"
  unfolding conditional_validate_def by (intro accounted_intros) simp_all

lemma accounted_from_grant [accounted_intros]: "accounted (definition_from_grant ext g)"
  unfolding definition_from_grant_def conditional_from_grant_def finite_from_grant_def
  by (intro accounted_intros) simp_all

lemma accounted_scalar_ordering [accounted_intros]: "accounted (scalar_ordering v w)"
  unfolding scalar_ordering_def number_ordering_def
  by (auto split: option.splits json.splits intro!: accounted_intros)

lemma accounted_condition_matches [accounted_intros]: "accounted (condition_matches ext c v)"
  unfolding condition_matches_def by (intro accounted_intros) simp_all


section \<open>Validated graphs\<close>

definition step_ids :: "pipeline_definition \<Rightarrow> string list" where
  "step_ids d = map ps_id (pg_steps (definition_graph d))"

text \<open>The results a step refers to: its inputs, then the source of its guard.\<close>

definition step_sources :: "pipeline_definition \<Rightarrow> pipeline_step \<Rightarrow> string list" where
  "step_sources d s = map di_source_step (ps_inputs s)
     @ (case d of Finite _ \<Rightarrow> [] | Conditional p \<Rightarrow>
          (case condition_of p s of None \<Rightarrow> [] | Some c \<Rightarrow> [cd_source_step c]))"

text \<open>A graph whose step names are distinct and whose references point backwards.\<close>

definition graph_ordered :: "pipeline_definition \<Rightarrow> bool" where
  "graph_ordered d \<longleftrightarrow> distinct (step_ids d)
     \<and> (\<forall>k < length (step_ids d). set (step_sources d (step_at d k)) \<subseteq> set (take k (step_ids d)))"

lemma validate_steps_Cons:
  assumes "validate_steps ext executor previous (s # ss) = Inr ()"
  shows "step_validate ext s executor = Inr ()" and "ps_id s \<notin> set previous"
    and "di_source_step ` set (ps_inputs s) \<subseteq> set previous"
    and "validate_steps ext executor (ps_id s # previous) ss = Inr ()"
  using assms by (auto simp: list_all_iff)

lemma validate_steps_valid:
  "validate_steps ext executor previous ss = Inr () \<Longrightarrow> s \<in> set ss \<Longrightarrow> step_validate ext s executor = Inr ()"
  by (induction ss arbitrary: previous) auto

lemma validate_steps_distinct:
  "validate_steps ext executor previous ss = Inr () \<Longrightarrow>
   distinct (map ps_id ss) \<and> set (map ps_id ss) \<inter> set previous = {}"
proof (induction ss arbitrary: previous)
  case (Cons s ss)
  show ?case
    using Cons.IH [OF validate_steps_Cons(4) [OF Cons.prems]] validate_steps_Cons(2) [OF Cons.prems] by auto
qed simp

lemma validate_steps_backward:
  "validate_steps ext executor previous ss = Inr () \<Longrightarrow> k < length ss \<Longrightarrow>
   di_source_step ` set (ps_inputs (ss ! k)) \<subseteq> set previous \<union> set (map ps_id (take k ss))"
proof (induction ss arbitrary: previous k)
  case (Cons s ss)
  show ?case
  proof (cases k)
    case 0
    then show ?thesis using validate_steps_Cons(3) [OF Cons.prems(1)] by simp
  next
    case (Suc j)
    then show ?thesis
      using Cons.IH [OF validate_steps_Cons(4) [OF Cons.prems(1)], of j] Cons.prems(2) by simp
  qed
qed simp

lemma index_of_bounds:
  "index_of i ss = Some n \<Longrightarrow> n < length ss \<and> ps_id (ss ! n) = i"
  by (induction ss arbitrary: n) (auto split: option.splits if_splits)

lemma check_conditions_backward:
  "check_conditions ext steps kcs = Inr () \<Longrightarrow> kc \<in> set kcs \<Longrightarrow>
   \<exists>t s. t < length steps \<and> ps_id (steps ! t) = fst kc \<and> s < t \<and> ps_id (steps ! s) = cd_source_step (snd kc)"
  by (induction kcs) (auto dest: index_of_bounds)

lemma definition_sources_eq:
  "k < length (step_ids d) \<Longrightarrow> definition_sources d k = Inr (step_sources d (step_at d k))"
  by (cases d) (simp_all add: step_ids_def step_sources_def step_at_def conditional_sources_def Let_def)

lemma finite_ordered:
  "validate_for_executor ext p executor = Inr () \<Longrightarrow> graph_ordered (Finite p)"
  using validate_steps_distinct [of ext executor "[]" "pg_steps p"]
    validate_steps_backward [of ext executor "[]" "pg_steps p"]
  by (simp add: validate_for_executor_def graph_ordered_def step_ids_def step_sources_def step_at_def take_map)

lemma conditional_ordered:
  assumes "conditional_validate ext p executor = Inr ()"
  shows "graph_ordered (Conditional p)"
proof -
  let ?ss = "pg_steps (cg_graph p)"
  have v: "validate_for_executor ext (cg_graph p) executor = Inr ()"
    and c: "check_conditions ext ?ss (cg_conditions p) = Inr ()"
    using assms by (auto simp: conditional_validate_def)
  have fin: "graph_ordered (Finite (cg_graph p))" using finite_ordered [OF v] .
  then have d: "distinct (map ps_id ?ss)" by (simp add: graph_ordered_def step_ids_def)
  have "cd_source_step cond \<in> set (map ps_id (take k ?ss))"
    if k: "k < length ?ss" and cond: "condition_of p (?ss ! k) = Some cond" for k cond
  proof -
    have "(ps_id (?ss ! k), cond) \<in> set (cg_conditions p)"
      using cond by (auto simp: condition_of_def dest: map_of_SomeD)
    from check_conditions_backward [OF c this] obtain t s where
      ts: "t < length ?ss" "ps_id (?ss ! t) = ps_id (?ss ! k)" "s < t" "ps_id (?ss ! s) = cd_source_step cond"
      by auto
    have "t = k" using d k ts by (simp add: distinct_conv_nth) metis
    then have "take k ?ss ! s = ?ss ! s" "s < length (take k ?ss)" using ts k by simp_all
    then show ?thesis using ts(4) by (metis in_set_conv_nth list.set_map image_eqI)
  qed
  then show ?thesis
    using fin by (auto simp: graph_ordered_def step_ids_def step_sources_def step_at_def take_map
        split: option.splits)
qed

lemma definition_ordered:
  assumes "definition_from_grant ext g = Inr d"
  shows "graph_ordered d"
  using assms finite_ordered conditional_ordered
  by (fastforce simp: definition_from_grant_def conditional_from_grant_def finite_from_grant_def split: if_splits)


section \<open>Reference counts\<close>

text \<open>The uses of results from step \<open>k\<close> on.\<close>

definition remaining :: "pipeline_definition \<Rightarrow> nat \<Rightarrow> string list" where
  "remaining d k = concat (map (step_sources d) (drop k (pg_steps (definition_graph d))))"

text \<open>The conditions are a map: the decoder never returns a key twice.\<close>

primrec conditions_distinct :: "pipeline_definition \<Rightarrow> bool" where
  "conditions_distinct (Finite p) = True"
| "conditions_distinct (Conditional p) = distinct (map fst (cg_conditions p))"

lemma count_uses_eq:
  "set ss \<subseteq> dom counts \<Longrightarrow>
   count_uses ss counts = Inr (\<lambda>i. map_option (\<lambda>n. n + count_list ss i) (counts i))"
proof (induction ss arbitrary: counts)
  case (Cons s ss)
  then obtain n where n: "counts s = Some n" by auto
  with Cons.prems have "set ss \<subseteq> dom (counts(s \<mapsto> n + 1))" by auto
  then have "count_uses ss (counts(s \<mapsto> n + 1))
      = Inr (\<lambda>i. map_option (\<lambda>n. n + count_list ss i) ((counts(s \<mapsto> n + 1)) i))"
    by (rule Cons.IH)
  also have "(\<lambda>i. map_option (\<lambda>n. n + count_list ss i) ((counts(s \<mapsto> n + 1)) i))
      = (\<lambda>i. map_option (\<lambda>n. n + count_list (s # ss) i) (counts i))"
    using n by (simp add: fun_eq_iff)
  finally show ?case by (simp only: count_uses.simps n or_err_simps rbind.simps)
qed (simp add: option.map_ident)

lemma guard_sources:
  assumes "distinct (map fst conds)" and "distinct (map ps_id steps)"
    and "fst ` set conds \<subseteq> ps_id ` set steps"
  shows "mset (concat (map (\<lambda>s. case map_of conds (ps_id s) of None \<Rightarrow> [] | Some c \<Rightarrow> [f c]) steps))
    = mset (map (\<lambda>kc. f (snd kc)) conds)"
  using assms
proof (induction conds)
  case Nil
  then show ?case by simp
next
  case (Cons kc conds)
  obtain k c where kc: "kc = (k, c)" by (cases kc)
  let ?g = "\<lambda>m s. case map_of m (ps_id s) of None \<Rightarrow> [] | Some c \<Rightarrow> [f c]"
  obtain s where s: "s \<in> set steps" "ps_id s = k" using Cons.prems(3) kc by auto
  then obtain xs ys where split: "steps = xs @ s # ys" by (meson split_list)
  then have out: "ps_id t \<noteq> k" if "t \<in> set xs \<union> set ys" for t
    using Cons.prems(2) s(2) that by (auto simp: image_iff)
  have fresh: "map_of conds k = None" using Cons.prems(1) kc by (simp add: map_of_eq_None_iff)
  have "map (?g (kc # conds)) xs = map (?g conds) xs" "map (?g (kc # conds)) ys = map (?g conds) ys"
    "?g (kc # conds) s = [f c]" "?g conds s = []"
    using out s(2) kc fresh by auto
  then have "concat (map (?g (kc # conds)) steps) = concat (map (?g conds) xs) @ f c # concat (map (?g conds) ys)"
    and "concat (map (?g conds) steps) = concat (map (?g conds) xs) @ concat (map (?g conds) ys)"
    by (simp_all only: split map_append list.map concat_append concat.simps append.simps)
  moreover have "mset (concat (map (?g conds) steps)) = mset (map (\<lambda>kc. f (snd kc)) conds)"
    using Cons.IH Cons.prems by auto
  ultimately show ?case using kc by simp
qed

lemma remaining_conditional:
  assumes "conditional_validate ext p executor = Inr ()" and "distinct (map fst (cg_conditions p))"
  shows "mset (remaining (Conditional p) 0) = mset (input_sources (pg_steps (cg_graph p)))
    + mset (map (\<lambda>kc. cd_source_step (snd kc)) (cg_conditions p))"
proof -
  let ?ss = "pg_steps (cg_graph p)"
  have split: "mset (concat (map (\<lambda>s. f s @ g s) xs)) = mset (concat (map f xs)) + mset (concat (map g xs))"
    for f g :: "pipeline_step \<Rightarrow> string list" and xs by (induction xs) auto
  have "graph_ordered (Conditional p)" using conditional_ordered [OF assms(1)] .
  then have ids: "distinct (map ps_id ?ss)" by (simp add: graph_ordered_def step_ids_def)
  have "fst ` set (cg_conditions p) \<subseteq> ps_id ` set ?ss"
    using assms(1) check_conditions_backward by (fastforce simp: conditional_validate_def in_set_conv_nth)
  from guard_sources [OF assms(2) ids this, of cd_source_step] show ?thesis
    by (simp add: remaining_def step_sources_def [abs_def] split input_sources_def condition_of_def)
qed

lemma remaining_finite: "remaining (Finite p) 0 = input_sources (pg_steps p)"
  by (simp add: remaining_def step_sources_def [abs_def] input_sources_def)

lemma remaining_ids:
  assumes "graph_ordered d"
  shows "set (remaining d k) \<subseteq> set (step_ids d)"
proof
  fix i assume "i \<in> set (remaining d k)"
  then obtain s where s: "s \<in> set (drop k (pg_steps (definition_graph d)))" "i \<in> set (step_sources d s)"
    by (auto simp: remaining_def)
  then obtain j where "j < length (step_ids d)" "step_at d j = s"
    by (metis in_set_dropD in_set_conv_nth length_map step_at_def step_ids_def)
  with assms s(2) have "i \<in> set (take j (step_ids d))" by (auto simp: graph_ordered_def)
  then show "i \<in> set (step_ids d)" by (rule in_set_takeD)
qed


lemma mset_split_sub:
  assumes "mset xs = mset ys + mset zs"
  shows "set ys \<subseteq> set xs" and "set zs \<subseteq> set xs"
proof -
  have "set_mset (mset xs) = set_mset (mset ys + mset zs)" using assms by simp
  then show "set ys \<subseteq> set xs" "set zs \<subseteq> set xs" by simp_all
qed

lemma map_of_zero:
  "map_of (map (\<lambda>s. (f s, 0 :: nat)) ss) i = (if i \<in> f ` set ss then Some 0 else None)"
  by (induction ss) auto

lemma definition_counts_eq:
  assumes "graph_ordered d" and "conditions_distinct d" and "definition_counts ext d = Inr counts"
  shows "counts = (\<lambda>i. if i \<in> set (step_ids d) then Some (count_list (remaining d 0) i) else None)"
proof -
  let ?zero = "map_of (map (\<lambda>s. (ps_id s, 0 :: nat)) (pg_steps (definition_graph d)))"
  have zero: "?zero i = (if i \<in> set (step_ids d) then Some 0 else None)" for i
    by (simp add: step_ids_def map_of_zero)
  have sub: "set (remaining d 0) \<subseteq> dom ?zero"
    using remaining_ids [OF assms(1), of 0] zero by (auto simp: dom_def)
  show ?thesis
  proof (cases d)
    case (Finite p)
    then have "count_uses (remaining d 0) ?zero = Inr counts"
      using assms(3) by (auto simp: finite_reference_counts_def remaining_finite)
    with count_uses_eq [OF sub] show ?thesis using zero by (auto simp: fun_eq_iff)
  next
    case (Conditional p)
    let ?ins = "input_sources (pg_steps (cg_graph p))"
    let ?conds = "map (\<lambda>kc. cd_source_step (snd kc)) (cg_conditions p)"
    have v: "conditional_validate ext p None = Inr ()"
      and c: "\<exists>mid. count_uses ?ins ?zero = Inr mid \<and> count_uses ?conds mid = Inr counts"
      using assms(3) Conditional
      by (auto simp: conditional_reference_counts_def finite_reference_counts_def)
    have m: "mset (remaining d 0) = mset ?ins + mset ?conds"
      using remaining_conditional [OF v] assms(2) Conditional by simp
    then have s: "set ?ins \<subseteq> dom ?zero" "set ?conds \<subseteq> dom ?zero"
      using sub mset_split_sub [OF m] by (simp_all only: subset_trans)
    have cnt: "count_list (remaining d 0) i = count_list ?ins i + count_list ?conds i" for i
      using m by (metis count_mset plus_multiset.rep_eq)
    have "set ?conds \<subseteq> dom (\<lambda>i. map_option (\<lambda>n. n + count_list ?ins i) (?zero i))"
      using s(2) by (auto simp: dom_def)
    from count_uses_eq [OF this] count_uses_eq [OF s(1)] c
    have "counts = (\<lambda>i. map_option (\<lambda>n. n + count_list ?conds i)
        (map_option (\<lambda>n. n + count_list ?ins i) (?zero i)))" by auto
    then show ?thesis using zero cnt by (auto simp: fun_eq_iff)
  qed
qed

lemma accounted_counts [accounted_intros]:
  assumes "graph_ordered d" and "conditions_distinct d"
  shows "accounted (definition_counts ext d)"
proof -
  have ok: "accounted (count_uses ss m)" if "set ss \<subseteq> dom m" for ss and m :: "string \<rightharpoonup> nat"
    using count_uses_eq [OF that] by simp
  let ?zero = "map_of (map (\<lambda>s. (ps_id s, 0 :: nat)) (pg_steps (definition_graph d)))"
  have dom: "dom ?zero = set (step_ids d)" by (simp add: dom_map_of_conv_image_fst step_ids_def image_image)
  have rem: "set (remaining d 0) \<subseteq> set (step_ids d)" using remaining_ids [OF assms(1)] .
  show ?thesis
  proof (cases d)
    case (Finite p)
    then show ?thesis using rem dom
      by (auto simp: finite_reference_counts_def remaining_finite intro!: accounted_intros ok)
  next
    case (Conditional p)
    let ?ins = "input_sources (pg_steps (cg_graph p))"
    let ?conds = "map (\<lambda>kc. cd_source_step (snd kc)) (cg_conditions p)"
    have "accounted (conditional_reference_counts ext p)"
    proof (cases "conditional_validate ext p None")
      case (Inl e)
      then show ?thesis
        using accounted_conditional_validate [of ext p None] by (simp add: conditional_reference_counts_def)
    next
      case (Inr u)
      then have m: "mset (remaining d 0) = mset ?ins + mset ?conds"
        using remaining_conditional [of ext p None] assms(2) Conditional by simp
      then have s: "set ?ins \<subseteq> dom ?zero" "set ?conds \<subseteq> dom ?zero"
        using rem dom mset_split_sub [OF m] by (simp_all only: subset_trans)
      then have "set ?conds \<subseteq> dom (\<lambda>i. map_option (\<lambda>n. n + count_list ?ins i) (?zero i))"
        by (auto simp: dom_def)
      from count_uses_eq [OF this] count_uses_eq [OF s(1)] Inr Conditional show ?thesis
        by (auto simp: conditional_reference_counts_def finite_reference_counts_def conditional_validate_def)
    qed
    then show ?thesis using Conditional by simp
  qed
qed

section \<open>The bookkeeping invariant\<close>

definition size_of :: "nat option \<Rightarrow> nat" where
  "size_of b = (case b of None \<Rightarrow> 0 | Some n \<Rightarrow> n)"

text \<open>
  With \<open>todo\<close> the uses that are still to come and \<open>done\<close> the steps already passed: the counters
  are exact, a result is kept exactly while a use of it remains, its recorded size is that of
  its encoding, and the bytes add up within the budget.
\<close>

definition bookkeeping ::
  "'x externals_scheme \<Rightarrow> pipeline_definition \<Rightarrow> string list \<Rightarrow> string list \<Rightarrow> run_state \<Rightarrow> bool" where
  "bookkeeping ext d todo past rs \<longleftrightarrow>
     rs_references rs = (\<lambda>i. if i \<in> set (step_ids d) then Some (count_list todo i) else None)
     \<and> set todo \<subseteq> set (step_ids d) \<and> set past \<subseteq> set (step_ids d) \<and> set (rs_skipped rs) \<subseteq> set past
     \<and> dom (rs_values rs) = {i \<in> set past. i \<notin> set (rs_skipped rs) \<and> i \<in> set todo}
     \<and> rs_sizes rs = (\<lambda>i. map_option (\<lambda>v. length (json_text ext v)) (rs_values rs i))
     \<and> rs_retained rs = (\<Sum>i \<in> set (step_ids d). size_of (rs_sizes rs i))
     \<and> rs_retained rs \<le> pg_max_retained_bytes (definition_graph d)"

lemma size_of_simps [simp]: "size_of None = 0" "size_of (Some n) = n"
  by (simp_all add: size_of_def)

lemma sum_drop:
  assumes "finite A" and "s \<in> A"
  shows "(\<Sum>i\<in>A. size_of ((m(s := None)) i)) = (\<Sum>i\<in>A. size_of (m i)) - size_of (m s)"
  using assms by (simp add: sum.remove [OF assms] )

lemma sum_put:
  assumes "finite A" and "s \<in> A" and "m s = None"
  shows "(\<Sum>i\<in>A. size_of ((m(s \<mapsto> b)) i)) = (\<Sum>i\<in>A. size_of (m i)) + b"
  using assms by (simp add: sum.remove [OF assms(1,2)])


lemma bookkeeping_value:
  assumes "bookkeeping ext d todo past rs" and "i \<in> set past" and "i \<in> set todo" and "i \<notin> set (rs_skipped rs)"
  obtains v where "rs_values rs i = Some v" and "rs_sizes rs i = Some (length (json_text ext v))"
proof -
  have "i \<in> dom (rs_values rs)" using assms by (simp add: bookkeeping_def)
  then obtain v where "rs_values rs i = Some v" by auto
  then show ?thesis using that assms(1) by (simp add: bookkeeping_def)
qed

text \<open>One use of a result: the bookkeeping never fails, and a last use releases the bytes.\<close>

lemma consume_source_ok:
  assumes b: "bookkeeping ext d (s # todo) past rs" and s: "s \<in> set past"
  obtains rs' where "consume_source s rs = Inr rs'" and "bookkeeping ext d todo past rs'"
    and "rs_skipped rs' = rs_skipped rs" and "rs_outcomes rs' = rs_outcomes rs"
proof -
  let ?refs = "\<lambda>i. if i \<in> set (step_ids d) then Some (count_list todo i) else None"
  have ids: "s \<in> set (step_ids d)" using b by (simp add: bookkeeping_def)
  have refs: "rs_references rs s = Some (Suc (count_list todo s))"
    "(rs_references rs)(s \<mapsto> count_list todo s) = ?refs"
    using b ids by (auto simp: bookkeeping_def fun_eq_iff)
  show ?thesis
  proof (cases "s \<in> set todo")
    case True
    then have "count_list todo s \<noteq> 0" by (simp add: count_list_0_iff)
    with refs have "consume_source s rs = Inr (rs\<lparr>rs_references := ?refs\<rparr>)"
      by (simp add: consume_source_def checked_sub_def Let_def)
    moreover have "bookkeeping ext d todo past (rs\<lparr>rs_references := ?refs\<rparr>)"
      using b True by (auto simp: bookkeeping_def)
    ultimately show ?thesis using that by simp
  next
    case False
    then have last: "count_list todo s = 0" by (simp add: count_list_0_iff)
    show ?thesis
    proof (cases "s \<in> set (rs_skipped rs)")
      case True
      then have none: "rs_values rs s = None" "rs_sizes rs s = None"
        using b by (auto simp: bookkeeping_def dom_def)
      let ?rs = "rs\<lparr>rs_references := ?refs, rs_values := (rs_values rs)(s := None)\<rparr>"
      have "consume_source s rs = Inr ?rs"
        using refs last none True by (simp add: consume_source_def checked_sub_def Let_def)
      moreover have "bookkeeping ext d todo past ?rs"
        using b True none False by (auto simp: bookkeeping_def fun_upd_idem)
      ultimately show ?thesis using that by simp
    next
      case kept: False
      obtain v where v: "rs_values rs s = Some v" "rs_sizes rs s = Some (length (json_text ext v))"
        using bookkeeping_value [OF b s _ kept] by auto
      let ?n = "length (json_text ext v)"
      have le: "?n \<le> rs_retained rs"
        using b v ids member_le_sum [of s "set (step_ids d)" "\<lambda>i. size_of (rs_sizes rs i)"]
        by (simp add: bookkeeping_def)
      let ?rs = "rs\<lparr>rs_references := ?refs, rs_values := (rs_values rs)(s := None),
        rs_sizes := (rs_sizes rs)(s := None), rs_retained := rs_retained rs - ?n\<rparr>"
      have "consume_source s rs = Inr ?rs"
        using refs last v le by (simp add: consume_source_def checked_sub_def Let_def)
      moreover have "bookkeeping ext d todo past ?rs"
        using b False v sum_drop [of "set (step_ids d)" s "rs_sizes rs"] ids
        by (auto simp: bookkeeping_def)
      ultimately show ?thesis using that by simp
    qed
  qed
qed

lemma consume_sources_ok:
  assumes "bookkeeping ext d (ss @ todo) past rs" and "set ss \<subseteq> set past"
  obtains rs' where "consume_sources ss rs = Inr rs'" and "bookkeeping ext d todo past rs'"
    and "rs_skipped rs' = rs_skipped rs" and "rs_outcomes rs' = rs_outcomes rs"
  using assms
proof (induction ss arbitrary: rs thesis)
  case Nil
  then show ?case by simp
next
  case (Cons s ss)
  from Cons.prems have b: "bookkeeping ext d (s # (ss @ todo)) past rs" and s: "s \<in> set past" by simp_all
  obtain mid where mid: "consume_source s rs = Inr mid" "bookkeeping ext d (ss @ todo) past mid"
    "rs_skipped mid = rs_skipped rs" "rs_outcomes mid = rs_outcomes rs"
    using consume_source_ok [OF b s] .
  show ?case
  proof (rule Cons.IH [OF _ mid(2)])
    show "set ss \<subseteq> set past" using Cons.prems by simp
    fix rs' assume "consume_sources ss mid = Inr rs'" "bookkeeping ext d todo past rs'"
      "rs_skipped rs' = rs_skipped mid" "rs_outcomes rs' = rs_outcomes mid"
    then show thesis using Cons.prems(1) mid by simp
  qed
qed


text \<open>The invariant before step \<open>k\<close>.\<close>

definition stage_invariant :: "'x externals_scheme \<Rightarrow> pipeline_definition \<Rightarrow> nat \<Rightarrow> run_state \<Rightarrow> bool" where
  "stage_invariant ext d k rs \<longleftrightarrow> bookkeeping ext d (remaining d k) (take k (step_ids d)) rs
     \<and> (rs_skipped rs = [] \<or> is_conditional d)"

lemma remaining_Suc:
  "k < length (step_ids d) \<Longrightarrow> remaining d k = step_sources d (step_at d k) @ remaining d (Suc k)"
  by (simp add: remaining_def step_at_def step_ids_def flip: Cons_nth_drop_Suc)

lemma consume_references_ok:
  assumes "graph_ordered d" and "k < length (step_ids d)"
    and "bookkeeping ext d (remaining d k) past rs" and "set (take k (step_ids d)) \<subseteq> set past"
  obtains rs' where "consume_references d k rs = Inr rs'"
    and "bookkeeping ext d (remaining d (Suc k)) past rs'"
    and "rs_skipped rs' = rs_skipped rs" and "rs_outcomes rs' = rs_outcomes rs"
proof -
  have b: "bookkeeping ext d (step_sources d (step_at d k) @ remaining d (Suc k)) past rs"
    using assms(2,3) by (simp flip: remaining_Suc)
  have "set (step_sources d (step_at d k)) \<subseteq> set past"
    using assms(1,2,4) by (auto simp: graph_ordered_def)
  from consume_sources_ok [OF b this] that show thesis
    using assms(2) by (auto simp: consume_references_def definition_sources_eq)
qed

lemma take_Suc_ids:
  "k < length (step_ids d) \<Longrightarrow> take (Suc k) (step_ids d) = take k (step_ids d) @ [ps_id (step_at d k)]"
  by (simp add: step_ids_def step_at_def take_Suc_conv_app_nth)

lemma new_id:
  assumes "graph_ordered d" and "k < length (step_ids d)"
  shows "ps_id (step_at d k) \<in> set (step_ids d)" and "ps_id (step_at d k) \<notin> set (take k (step_ids d))"
proof -
  have i: "ps_id (step_at d k) = step_ids d ! k" using assms(2) by (simp add: step_at_def step_ids_def)
  then show "ps_id (step_at d k) \<in> set (step_ids d)" using assms(2) by simp
  have "distinct (take (Suc k) (step_ids d))" using assms(1) by (simp add: graph_ordered_def)
  then show "ps_id (step_at d k) \<notin> set (take k (step_ids d))"
    using i assms(2) by (simp add: take_Suc_conv_app_nth)
qed

text \<open>Passing a step whose result is not kept: it was skipped, or nothing refers to it.\<close>

lemma bookkeeping_pass:
  assumes "bookkeeping ext d todo past rs" and "i \<notin> set past" and "i \<in> set (step_ids d)"
    and "skip \<or> i \<notin> set todo"
  shows "bookkeeping ext d todo (past @ [i]) (rs\<lparr>rs_skipped := (if skip then [i] else []) @ rs_skipped rs\<rparr>)"
proof -
  have "i \<notin> set (rs_skipped rs)" using assms(1,2) by (auto simp: bookkeeping_def)
  then show ?thesis using assms by (auto simp: bookkeeping_def)
qed

lemma bookkeeping_outcomes [simp]:
  "bookkeeping ext d todo past (rs\<lparr>rs_outcomes := os\<rparr>) \<longleftrightarrow> bookkeeping ext d todo past rs"
  by (simp add: bookkeeping_def)

lemma skip_step_ok:
  assumes g: "graph_ordered d" and k: "k < length (step_ids d)" and b: "stage_invariant ext d k rs"
    and c: "is_conditional d"
  obtains rs' where "skip_step d k state matched dep rs = Inr rs'" and "stage_invariant ext d (Suc k) rs'"
    and "rs_skipped rs' = ps_id (step_at d k) # rs_skipped rs"
    and "rs_outcomes rs' = rs_outcomes rs @ [\<lparr>so_id = ps_id (step_at d k), so_state = state,
           so_condition_matched = matched, so_skipped_dependency = dep\<rparr>]"
proof -
  let ?i = "ps_id (step_at d k)" let ?rs = "rs\<lparr>rs_skipped := ?i # rs_skipped rs\<rparr>"
  have "bookkeeping ext d (remaining d k) (take (Suc k) (step_ids d)) ?rs"
    using bookkeeping_pass [of ext d "remaining d k" "take k (step_ids d)" rs ?i True] b new_id [OF g k]
    by (simp add: stage_invariant_def take_Suc_ids [OF k])
  then have p: "bookkeeping ext d (remaining d k) (take (Suc k) (step_ids d))
      (push_outcome (step_at d k) state matched dep ?rs)" by (simp add: push_outcome_def)
  have sub: "set (take k (step_ids d)) \<subseteq> set (take (Suc k) (step_ids d))"
    by (rule set_take_subset_set_take) simp
  from consume_references_ok [OF g k p sub] that c show thesis
    by (auto simp: skip_step_def push_outcome_def stage_invariant_def)
qed


section \<open>Stages keep the invariant\<close>

lemma retain_output_ok:
  assumes g: "graph_ordered d" and k: "k < length (step_ids d)"
    and b: "bookkeeping ext d (remaining d (Suc k)) (take k (step_ids d)) rs"
  shows "accounted (retain_output d k output (length (json_text ext output)) rs)"
    and "retain_output d k output (length (json_text ext output)) rs = Inr rs' \<Longrightarrow>
      bookkeeping ext d (remaining d (Suc k)) (take (Suc k) (step_ids d)) rs'
      \<and> rs_skipped rs' = rs_skipped rs \<and> rs_outcomes rs' = rs_outcomes rs"
proof -
  let ?i = "ps_id (step_at d k)" and ?n = "length (json_text ext output)"
  let ?todo = "remaining d (Suc k)" and ?past = "take k (step_ids d)"
  note i = new_id [OF g k]
  have refs: "rs_references rs ?i = Some (count_list ?todo ?i)"
    using b i(1) by (simp add: bookkeeping_def)
  show "accounted (retain_output d k output ?n rs)"
    using refs by (auto simp: retain_output_def Let_def intro!: accounted_intros)
  assume r: "retain_output d k output ?n rs = Inr rs'"
  show "bookkeeping ext d ?todo (take (Suc k) (step_ids d)) rs'
      \<and> rs_skipped rs' = rs_skipped rs \<and> rs_outcomes rs' = rs_outcomes rs"
  proof (cases "?i \<in> set ?todo")
    case False
    then have "rs' = rs" using r refs by (simp add: retain_output_def Let_def)
    moreover have "bookkeeping ext d ?todo (take (Suc k) (step_ids d)) rs"
      using bookkeeping_pass [OF b i(2,1), of False] False by (simp add: take_Suc_ids [OF k])
    ultimately show ?thesis by simp
  next
    case True
    then have pos: "count_list ?todo ?i \<noteq> 0" by (simp add: count_list_0_iff)
    then have rs': "rs' = rs\<lparr>rs_retained := rs_retained rs + ?n, rs_sizes := (rs_sizes rs)(?i \<mapsto> ?n),
          rs_values := (rs_values rs)(?i \<mapsto> output)\<rparr>"
      and le: "rs_retained rs + ?n \<le> pg_max_retained_bytes (definition_graph d)"
      using r refs by (auto simp: retain_output_def Let_def)
    have fresh: "?i \<notin> set (rs_skipped rs)" "rs_sizes rs ?i = None"
      using b i(2) by (auto simp: bookkeeping_def dom_def)
    have "bookkeeping ext d ?todo (?past @ [?i]) rs'"
      using b True i fresh le sum_put [of "set (step_ids d)" ?i "rs_sizes rs" ?n]
      by (auto simp: bookkeeping_def rs' fun_eq_iff)
    then show ?thesis by (simp add: rs' take_Suc_ids [OF k])
  qed
qed

lemma accounted_resolve_inputs:
  "(\<And>i. i \<in> set is \<Longrightarrow> results (di_source_step i) \<noteq> None) \<Longrightarrow>
   accounted (resolve_inputs ext results is budget params)"
proof (induction "is" arbitrary: budget params)
  case (Cons i "is")
  have "accounted (resolve_inputs ext results is r p)" for r p
    using Cons by simp
  then show ?case
    using Cons.prems [of i] by (auto simp: Let_def intro!: accounted_intros)
qed simp

lemma accounted_resolve:
  assumes "\<And>i. i \<in> set (ps_inputs s) \<Longrightarrow> results (di_source_step i) \<noteq> None"
  shows "accounted (resolve_with_limit ext s results limit)"
  unfolding resolve_with_limit_def
  by (intro accounted_rbind accounted_ensure accounted_resolve_inputs accounted_intros) (use assms in simp_all)

text \<open>A result that step \<open>k\<close> refers to is there unless its step was skipped.\<close>

lemma source_available:
  assumes "graph_ordered d" and "k < length (step_ids d)" and "stage_invariant ext d k rs"
    and "i \<in> set (step_sources d (step_at d k))" and "i \<notin> set (rs_skipped rs)"
  shows "rs_values rs i \<noteq> None"
proof -
  have "i \<in> set (take k (step_ids d))" using assms(1,2,4) by (auto simp: graph_ordered_def)
  moreover have "i \<in> set (remaining d k)" using assms(2,4) by (simp add: remaining_Suc)
  ultimately obtain v where "rs_values rs i = Some v"
    using bookkeeping_value [of ext d "remaining d k" "take k (step_ids d)" rs i] assms(3,5)
    by (auto simp: stage_invariant_def)
  then show ?thesis by simp
qed

lemma accounted_decision:
  assumes "graph_ordered d" and k: "k < length (step_ids d)" and "stage_invariant ext d k rs"
  shows "accounted (definition_decision ext d k (rs_values rs) (rs_skipped rs))"
proof (cases d)
  case (Conditional p)
  let ?s = "pg_steps (cg_graph p) ! k"
  have n: "k < length (pg_steps (cg_graph p))" using k Conditional by (simp add: step_ids_def)
  have "rs_values rs (cd_source_step c) \<noteq> None"
    if "condition_of p ?s = Some c" "cd_source_step c \<notin> set (rs_skipped rs)" for c
    by (rule source_available [OF assms])
       (use that Conditional in \<open>simp_all add: step_sources_def step_at_def\<close>)
  then show ?thesis using Conditional n
    by (auto simp: conditional_decision_def Let_def split: option.splits intro!: accounted_intros)
qed simp

lemma decision_runs:
  assumes "k < length (step_ids d)" and "rs_skipped rs = [] \<or> is_conditional d"
    and "definition_decision ext d k (rs_values rs) (rs_skipped rs) = Inr (RunStep m)"
    and "i \<in> set (ps_inputs (step_at d k))"
  shows "di_source_step i \<notin> set (rs_skipped rs)"
proof (cases d)
  case (Finite p)
  then show ?thesis using assms(2) by auto
next
  case (Conditional p)
  then have "skipped_input (step_at d k) (rs_skipped rs) = None"
    using assms(1,3)
    by (auto simp: conditional_decision_def Let_def step_ids_def step_at_def split: option.splits if_splits)
  then show ?thesis using assms(4) by (auto simp: skipped_input_def find_None_iff)
qed

end
