(* ===== verification/Pipeline_Resolution.thy ===== *)
theory Pipeline_Resolution
  imports Pipeline_Definition
begin

text \<open>
  The parameters a step is run with: earlier results reach the data parameters that the
  definition binds, and nothing else. Literals and the identities of the resource, the model
  and the backend stay as written.
\<close>

section \<open>JSON objects\<close>

lemma jset_object [simp]: "is_object v \<Longrightarrow> is_object (jset v k w)"
  by (cases v) (simp_all add: is_object_def)

lemma jget_jset: "is_object v \<Longrightarrow> jget (jset v k w) k' = (if k' = k then Some w else jget v k')"
  by (cases v) (simp_all add: is_object_def map_of_btree_insert)

lemma object_keys_jget: "is_object v \<Longrightarrow> k \<in> set (object_keys v) \<longleftrightarrow> jget v k \<noteq> None"
  by (cases v) (simp_all add: is_object_def map_of_eq_None_iff)

section \<open>Identities\<close>

definition identity_keys :: "string list" where
  "identity_keys = [''resource_id'', ''model_id'', ''backend'']"

definition step_identity :: "pipeline_step \<Rightarrow> (string \<times> string option) list" where
  "step_identity s =
     [(''resource_id'', ps_resource_id s), (''model_id'', ps_model_id s), (''backend'', ps_backend s)]"

text \<open>What every set of parameters of a step keeps.\<close>

definition keeps_literals :: "pipeline_step \<Rightarrow> json \<Rightarrow> bool" where
  "keeps_literals s params \<longleftrightarrow>
     (\<forall>k v. jget (ps_params s) k = Some v \<longrightarrow> jget params k = Some v)
     \<and> (\<forall>k x. (k, Some x) \<in> set (step_identity s) \<longrightarrow> jget params k = Some (JString x))"

lemma bind_identity_object: "bind_identity kvs p = Inr q \<Longrightarrow> is_object p \<Longrightarrow> is_object q"
  by (induction kvs arbitrary: p) (auto split: option.splits)

lemma bind_identity_kept:
  "bind_identity kvs p = Inr q \<Longrightarrow> is_object p \<Longrightarrow> jget p k = Some v \<Longrightarrow> jget q k = Some v"
proof (induction kvs arbitrary: p)
  case (Cons kv kvs)
  show ?case
  proof (cases "snd kv")
    case None
    then show ?thesis using Cons by simp
  next
    case (Some x)
    let ?p = "jset p (fst kv) (JString x)"
    have q: "bind_identity kvs ?p = Inr q" and old: "jget p (fst kv) \<in> {None, Some (JString x)}"
      using Cons.prems(1) Some by (auto split: option.splits)
    have "jget ?p k = Some v" using old Cons.prems(2,3) by (auto simp: jget_jset)
    then show ?thesis using Cons.IH [OF q] Cons.prems(2) by simp
  qed
qed simp

lemma bind_identity_bound:
  "bind_identity kvs p = Inr q \<Longrightarrow> is_object p \<Longrightarrow> (k, Some x) \<in> set kvs \<Longrightarrow> jget q k = Some (JString x)"
proof (induction kvs arbitrary: p)
  case (Cons kv kvs)
  show ?case
  proof (cases "kv = (k, Some x)")
    case True
    then have "bind_identity kvs (jset p k (JString x)) = Inr q" using Cons.prems(1) by simp
    then show ?thesis
      using bind_identity_kept [of kvs "jset p k (JString x)" q k] Cons.prems(2) by (simp add: jget_jset)
  next
    case False
    then have "(k, Some x) \<in> set kvs" using Cons.prems(3) by auto
    then show ?thesis
      using Cons.IH [of p] Cons.IH [of "jset p (fst kv) v" for v] Cons.prems(1,2)
      by (auto split: option.splits)
  qed
qed simp

lemma bound_params_keeps:
  assumes "bound_params ext s = Inr params"
  shows "keeps_literals s params" and "is_object params"
  using assms bind_identity_kept [of "step_identity s" "ps_params s" params]
    bind_identity_bound [of "step_identity s" "ps_params s" params]
    bind_identity_object [of "step_identity s" "ps_params s" params]
  by (auto simp: bound_params_def keeps_literals_def simp flip: step_identity_def)

section \<open>Bindings\<close>

lemma data_parameter_keys:
  "data_parameter cap action k \<Longrightarrow>
   k \<in> {''prompt'', ''images'', ''content'', ''body'', ''audio_base64'', ''data_base64'', ''text''}"
  by (auto simp: data_parameter_def)

lemma check_inputs_licensed:
  "check_inputs s targets is = Inr () \<Longrightarrow> i \<in> set is \<Longrightarrow>
   data_parameter (ps_capability s) (ps_action s) (di_parameter i) \<and> jget (ps_params s) (di_parameter i) = None"
  by (induction "is" arbitrary: targets) auto

lemma step_validate_inputs:
  assumes "step_validate ext s executor = Inr ()" and "i \<in> set (ps_inputs s)"
  shows "data_parameter (ps_capability s) (ps_action s) (di_parameter i)"
    and "jget (ps_params s) (di_parameter i) = None" and "di_parameter i \<notin> set identity_keys"
proof -
  have "check_inputs s [] (ps_inputs s) = Inr ()" using assms(1) by (auto simp: step_validate_def)
  from check_inputs_licensed [OF this assms(2)]
  show d: "data_parameter (ps_capability s) (ps_action s) (di_parameter i)"
    and "jget (ps_params s) (di_parameter i) = None" by simp_all
  from data_parameter_keys [OF d] show "di_parameter i \<notin> set identity_keys"
    by (auto simp: identity_keys_def)
qed

lemma resolve_inputs_object:
  "resolve_inputs ext results is budget p = Inr q \<Longrightarrow> is_object p \<Longrightarrow> is_object q"
  by (induction "is" arbitrary: budget p) (auto simp: Let_def)

lemma resolve_inputs_frame:
  "resolve_inputs ext results is budget p = Inr q \<Longrightarrow> is_object p \<Longrightarrow> k \<notin> di_parameter ` set is
   \<Longrightarrow> jget q k = jget p k"
  by (induction "is" arbitrary: budget p) (auto simp: Let_def jget_jset)

text \<open>The value of a binding: the field it points to, wrapped when it is asked to be.\<close>

definition bound_value :: "'x finite_externals_scheme \<Rightarrow> (string \<rightharpoonup> json) \<Rightarrow> data_input \<Rightarrow> json option" where
  "bound_value ext results i =
     (case results (di_source_step i) of
        None \<Rightarrow> None
      | Some v \<Rightarrow> map_option (\<lambda>w. if di_wrap_array i then JArray [w] else w) (json_pointer ext v (di_pointer i)))"

lemma resolve_inputs_bound:
  "resolve_inputs ext results is budget p = Inr q \<Longrightarrow> is_object p \<Longrightarrow> distinct (map di_parameter is)
   \<Longrightarrow> i \<in> set is \<Longrightarrow> jget q (di_parameter i) = bound_value ext results i \<and> bound_value ext results i \<noteq> None"
proof (induction "is" arbitrary: budget p)
  case (Cons j "is")
  obtain v w rest where v: "results (di_source_step j) = Some v" "json_pointer ext v (di_pointer j) = Some w"
    and rest: "resolve_inputs ext results is rest
      (jset p (di_parameter j) (if di_wrap_array j then JArray [w] else w)) = Inr q"
    using Cons.prems(1) by (auto simp: Let_def)
  let ?p = "jset p (di_parameter j) (if di_wrap_array j then JArray [w] else w)"
  show ?case
  proof (cases "i \<in> set is")
    case True
    then show ?thesis using Cons.IH [OF rest] Cons.prems by simp
  next
    case False
    then have i: "i = j" using Cons.prems(4) by simp
    have "jget q (di_parameter j) = jget ?p (di_parameter j)"
      using resolve_inputs_frame [OF rest] Cons.prems(2,3) by auto
    then show ?thesis using Cons.prems(2) v by (simp add: i bound_value_def jget_jset)
  qed
qed simp

lemma check_inputs_distinct:
  "check_inputs s targets is = Inr () \<Longrightarrow>
   distinct (map di_parameter is) \<and> set (map di_parameter is) \<inter> set targets = {}"
proof (induction "is" arbitrary: targets)
  case (Cons i "is")
  then have "di_parameter i \<notin> set targets" "check_inputs s (di_parameter i # targets) is = Inr ()" by auto
  then show ?case using Cons.IH [of "di_parameter i # targets"] by auto
qed simp

text \<open>
  The parameters \<^verbatim>\<open>resolve_with_limit\<close> returns: literals and identities kept, each binding
  holding the field it points to, every other key as in the bound parameters.
\<close>

lemma resolve_keeps:
  assumes "resolve_with_limit ext s results limit = Inr q"
  shows "keeps_literals s q" and "is_object q"
    and "i \<in> set (ps_inputs s) \<Longrightarrow> jget q (di_parameter i) = bound_value ext results i \<and> bound_value ext results i \<noteq> None"
    and "k \<notin> set (object_keys (ps_params s)) \<Longrightarrow> k \<notin> set identity_keys
      \<Longrightarrow> k \<notin> di_parameter ` set (ps_inputs s) \<Longrightarrow> jget q k = None"
proof -
  obtain p used where v: "step_validate ext s None = Inr ()" and p: "bound_params ext s = Inr p"
    and q: "resolve_inputs ext results (ps_inputs s) (limit - used) p = Inr q"
    using assms by (auto simp: resolve_with_limit_def)
  note keeps = bound_params_keeps [OF p]
  have frame: "jget q k = jget p k" if "k \<notin> di_parameter ` set (ps_inputs s)" for k
    using resolve_inputs_frame [OF q keeps(2) that] .
  have lit: "k \<notin> di_parameter ` set (ps_inputs s)" if "jget (ps_params s) k \<noteq> None \<or> k \<in> set identity_keys" for k
    using step_validate_inputs [OF v] that by auto
  have "k \<in> set identity_keys" if "(k, x) \<in> set (step_identity s)" for k x
    using that by (auto simp: step_identity_def identity_keys_def)
  then show "keeps_literals s q" using keeps(1) frame lit by (auto simp: keeps_literals_def)
  show "is_object q" using resolve_inputs_object [OF q keeps(2)] .
  have "distinct (map di_parameter (ps_inputs s))"
    using v check_inputs_distinct [of s "[]"] by (auto simp: step_validate_def)
  then show "i \<in> set (ps_inputs s) \<Longrightarrow> jget q (di_parameter i) = bound_value ext results i \<and> bound_value ext results i \<noteq> None"
    using resolve_inputs_bound [OF q keeps(2)] by blast
  assume k: "k \<notin> set (object_keys (ps_params s))" "k \<notin> set identity_keys" "k \<notin> di_parameter ` set (ps_inputs s)"
  have obj: "is_object (ps_params s)" using p by (auto simp: bound_params_def)
  have other: "bind_identity kvs r = Inr r' \<Longrightarrow> is_object r \<Longrightarrow> k \<notin> fst ` set kvs \<Longrightarrow> jget r' k = jget r k" for kvs r r'
    by (induction kvs arbitrary: r) (auto simp: jget_jset split: option.splits)
  have "jget p k = jget (ps_params s) k"
    using p obj other [of "step_identity s" "ps_params s" p] k(2)
    by (auto simp: bound_params_def step_identity_def identity_keys_def)
  then show "jget q k = None" using frame [OF k(3)] k(1) object_keys_jget [OF obj] by simp
qed


text \<open>No operation has a parameter called \<^verbatim>\<open>model\<close>: the runtime's alias overwrites no literal.\<close>

lemma template_table_model:
  "(t, steps) \<in> set template_table \<Longrightarrow> s \<in> set steps \<Longrightarrow> ''model'' \<notin> set (snd (snd s))"
  unfolding template_table_def by (elim set_ConsD [THEN disjE] | auto)+

lemma parameter_keys_model:
  assumes "parameter_keys cap action = Inr keys"
  shows "''model'' \<notin> set keys"
proof -
  have "''model'' \<notin> set ks" if "template_keys cap action ts = Inr (Some ks)" for ts ks
    using that
  proof (induction ts)
    case (Cons t ts)
    then obtain steps where steps: "map_of template_table t = Some steps"
      by (auto simp: template_steps_def)
    show ?case
    proof (cases "find (keys_match cap action) steps")
      case None
      then show ?thesis using Cons steps by (simp add: template_steps_def)
    next
      case (Some s)
      then have "s \<in> set steps" by (auto simp: find_Some_iff)
      then show ?thesis
        using Cons.prems Some steps template_table_model [OF map_of_SomeD [OF steps], of s]
        by (simp add: template_steps_def)
    qed
  qed simp
  then show ?thesis using assms by (auto simp: parameter_keys_def split: option.splits if_splits)
qed

lemma step_validate_model:
  assumes "step_validate ext s executor = Inr ()"
  shows "jget (ps_params s) ''model'' = None" and "ps_model_id s = Some m \<Longrightarrow> ps_backend s \<noteq> None"
proof -
  obtain params keys where p: "bound_params ext s = Inr params"
    and sh: "shape_validate ext (step_operation s params) executor = Inr ()"
    and keys: "parameter_keys (ps_capability s) (ps_action s) = Inr keys"
    and ok: "list_all (\<lambda>k. k \<in> set keys \<or> k \<in> set [''resource_id'', ''model_id'', ''backend'']) (object_keys (ps_params s))"
    using assms by (auto simp: step_validate_def)
  have "is_object (ps_params s)" using p by (auto simp: bound_params_def)
  then show "jget (ps_params s) ''model'' = None"
    using ok parameter_keys_model [OF keys] object_keys_jget [of "ps_params s" "''model''"]
    by (auto simp: list_all_iff)
  show "ps_backend s \<noteq> None" if "ps_model_id s = Some m"
    using sh that by (auto simp: shape_validate_def shape_model_def step_operation_def split: if_splits)
qed

lemma alias_keeps:
  assumes "resolve_with_limit ext s results limit = Inr q" and m: "ps_model_id s = Some m" and b: "ps_backend s = Some b"
  shows "keeps_literals s (jset (jset q ''model'' (JString m)) ''backend'' (JString b))"
proof -
  have v: "step_validate ext s None = Inr ()" using assms(1) by (auto simp: resolve_with_limit_def)
  note keeps = resolve_keeps(1,2) [OF assms(1)]
  have "jget q ''backend'' = Some (JString b)"
    using keeps(1) b by (simp add: keeps_literals_def step_identity_def)
  then show ?thesis
    using keeps step_validate_model(1) [OF v]
    by (auto simp: keeps_literals_def jget_jset step_identity_def)
qed

end
