(* ===== verification/Pipeline_Stages.thy ===== *)
theory Pipeline_Stages
  imports Pipeline_Accounting Pipeline_Resolution "HOL-Library.Sublist"
begin

text \<open>
  One stage of a pipeline and the whole loop: the bookkeeping invariant is kept, no
  accounting failure is reachable, and the operations the engine is asked to run are those
  of the definition, in its order.
\<close>

section \<open>Observations\<close>

lemma accounting_errors_other [simp]:
  "IntConversion \<notin> accounting_errors" "StopE e \<notin> accounting_errors" "WorkloadE w \<notin> accounting_errors"
  by (auto simp: accounting_errors_def)

lemma accounted_case_pair [accounted_intros]:
  "(\<And>a b. p = (a, b) \<Longrightarrow> accounted (f a b)) \<Longrightarrow> accounted (case p of (a, b) \<Rightarrow> f a b)"
  by (cases p) simp

lemma accounted_progress_reads [accounted_intros]:
  "accounted (progress_columns db i)" "accounted (progress_validate p)"
  "accounted (progress_decode ext digest payload checksum expected)" "accounted (to_i64 n)"
  by (auto simp: progress_columns_def progress_available_def progress_validate_def progress_decode_def
      to_i64_def split: option.splits if_splits table.splits phase.splits intro!: accounted_intros)

lemma accounted_journal_checks [accounted_intros]:
  "accounted (validate_schema db v)" "accounted (validate_id i)" "accounted (validate_operation_id ext i)"
  by (auto simp: validate_schema_def event_schema_def validate_id_def validate_operation_id_def
      split: option.splits if_splits table.splits intro!: accounted_intros)

lemma accounted_read_consumed [accounted_intros]: "accounted (read_consumed ext db node issuer i)"
  unfolding read_consumed_def validate_owner_def consumed_validate_def Let_def
  by (intro accounted_intros) simp_all

lemma accounted_observe [accounted_intros]:
  "accounted (observe_stage ext d lg g k phase retained resolved now)"
  unfolding observe_stage_def progress_record_def progress_checkpoint_def record_pipeline_progress_def
    progress_update_def Let_def
  by (intro accounted_intros) simp_all


section \<open>The reported path\<close>

text \<open>The skipped steps that a list of outcomes reports.\<close>

primrec skips :: "conditional_graph \<Rightarrow> nat \<Rightarrow> string list \<Rightarrow> step_outcome list \<Rightarrow> string list" where
  "skips d index skipped [] = skipped"
| "skips d index skipped (out # outs) = skips d (Suc index)
     (if is_skip (so_state out) then ps_id (pg_steps (cg_graph d) ! index) # skipped else skipped) outs"

lemma skips_snoc:
  "skips d index skipped (outs @ [out]) =
     (if is_skip (so_state out) then [ps_id (pg_steps (cg_graph d) ! (index + length outs))] else [])
     @ skips d index skipped outs"
  by (induction outs arbitrary: index skipped) simp_all

lemma outcomes_ok_snoc:
  "outcomes_ok d report index skipped (outs @ [out]) \<longleftrightarrow> outcomes_ok d report index skipped outs
     \<and> outcome_ok d report (index + length outs) (skips d index skipped outs) out"
  by (induction outs arbitrary: index skipped) simp_all

text \<open>The outcomes before step \<open>k\<close>: a path that the completion check accepts.\<close>

definition path_ok :: "conditional_graph \<Rightarrow> nat \<Rightarrow> run_state \<Rightarrow> bool" where
  "path_ok p k rs \<longleftrightarrow> length (rs_outcomes rs) = k \<and> rs_skipped rs = skips p 0 [] (rs_outcomes rs)
     \<and> (\<forall>report. outcomes_ok p report 0 [] (rs_outcomes rs))
     \<and> (k = length (pg_steps (cg_graph p)) \<longrightarrow> rs_outcomes rs \<noteq> [] \<and> is_skip (so_state (last (rs_outcomes rs))))"

primrec reported_path :: "pipeline_definition \<Rightarrow> nat \<Rightarrow> run_state \<Rightarrow> bool" where
  "reported_path (Finite p) k rs \<longleftrightarrow> k < length (pg_steps p)"
| "reported_path (Conditional p) k rs \<longleftrightarrow> path_ok p k rs"

abbreviation outcome_of :: "pipeline_step \<Rightarrow> step_state \<Rightarrow> bool option \<Rightarrow> string option \<Rightarrow> step_outcome" where
  "outcome_of s state m dep \<equiv> \<lparr>so_id = ps_id s, so_state = state, so_condition_matched = m,
     so_skipped_dependency = dep\<rparr>"

lemma decision_run:
  assumes "k < length (pg_steps (cg_graph p))"
    and "conditional_decision ext p k values skipped = Inr (RunStep m)"
  shows "(case condition_of p (pg_steps (cg_graph p) ! k) of None \<Rightarrow> True | Some c \<Rightarrow> cd_source_step c \<notin> set skipped)"
    and "\<not> list_ex (\<lambda>i. di_source_step i \<in> set skipped) (ps_inputs (pg_steps (cg_graph p) ! k))"
    and "m = map_option (\<lambda>_. True) (condition_of p (pg_steps (cg_graph p) ! k))"
  using assms by (auto simp: conditional_decision_def Let_def skipped_input_def list_ex_iff find_None_iff
      split: option.splits if_splits)

lemma outcome_run:
  assumes "k < length (pg_steps (cg_graph p))"
    and "conditional_decision ext p k values skipped = Inr (RunStep m)"
  shows "outcome_ok p report k skipped (outcome_of (pg_steps (cg_graph p) ! k) StepCompleted m None)"
    and "\<not> cs_success report \<Longrightarrow> Suc k = length (cs_outcomes report)
      \<Longrightarrow> runs_process (pg_steps (cg_graph p) ! k) \<Longrightarrow> unsuccessful_exit (cs_output report)
      \<Longrightarrow> outcome_ok p report k skipped (outcome_of (pg_steps (cg_graph p) ! k) StepFailed m None)"
  using decision_run [OF assms] by (auto simp: outcome_ok_def Let_def split: option.splits)

lemma outcome_skip_condition:
  assumes "k < length (pg_steps (cg_graph p))"
    and "conditional_decision ext p k values skipped = Inr SkipCondition"
  shows "outcome_ok p report k skipped
    (outcome_of (pg_steps (cg_graph p) ! k) StepSkippedCondition (Some False) None)"
  using assms by (auto simp: conditional_decision_def outcome_ok_def Let_def split: option.splits if_splits)

lemma skipped_input_Some:
  "skipped_input s skipped = Some source \<Longrightarrow>
   list_ex (\<lambda>i. di_source_step i = source \<and> source \<in> set skipped) (ps_inputs s)"
  by (auto simp: skipped_input_def list_ex_iff find_Some_iff)

lemma outcome_skip_dependency:
  assumes "k < length (pg_steps (cg_graph p))"
    and "conditional_decision ext p k values skipped = Inr (SkipDependency source m)"
  shows "outcome_ok p report k skipped
    (outcome_of (pg_steps (cg_graph p) ! k) StepSkippedDependency m (Some source))"
  using assms skipped_input_Some [of "pg_steps (cg_graph p) ! k" skipped source]
  by (auto simp: conditional_decision_def outcome_ok_def Let_def split: option.splits if_splits)


lemma path_ok_push:
  assumes "path_ok p k rs" and "\<And>report. outcome_ok p report k (rs_skipped rs) out"
    and "rs_outcomes rs' = rs_outcomes rs @ [out]"
    and "rs_skipped rs' = (if is_skip (so_state out) then [ps_id (pg_steps (cg_graph p) ! k)] else []) @ rs_skipped rs"
    and "Suc k = length (pg_steps (cg_graph p)) \<Longrightarrow> is_skip (so_state out)"
  shows "path_ok p (Suc k) rs'"
  using assms by (auto simp: path_ok_def skips_snoc outcomes_ok_snoc)

section \<open>One stage\<close>

text \<open>The call that step \<open>k\<close> makes: its own operation, with its literals, within the budget.\<close>

definition stage_call :: "'x externals_scheme \<Rightarrow> pipeline_definition \<Rightarrow> nat \<Rightarrow> engine_call \<Rightarrow> bool" where
  "stage_call ext d k c \<longleftrightarrow> ec_step c = ps_id (step_at d k) \<and> ec_capability c = ps_capability (step_at d k)
     \<and> ec_action c = ps_action (step_at d k) \<and> keeps_literals (step_at d k) (ec_params c)
     \<and> length (json_text ext (ec_params c)) \<le> pg_max_retained_bytes (definition_graph d)"

lemma model_alias_keeps:
  assumes "resolve_with_limit ext s results limit = Inr q"
  shows "keeps_literals s (model_alias s q)"
proof (cases "ps_model_id s")
  case None
  then show ?thesis using resolve_keeps(1) [OF assms] by (simp add: model_alias_def)
next
  case (Some m)
  have v: "step_validate ext s None = Inr ()" using assms by (auto simp: resolve_with_limit_def)
  obtain b where b: "ps_backend s = Some b" using step_validate_model(2) [OF v Some] by auto
  show ?thesis using alias_keeps [OF assms Some b] Some b by (simp add: model_alias_def)
qed

lemma prepare_step_ok:
  assumes g: "graph_ordered d" and k: "k < length (step_ids d)" and inv: "stage_invariant ext d k rs"
    and run: "definition_decision ext d k (rs_values rs) (rs_skipped rs) = Inr (RunStep m)"
  shows "accounted (prepare_step ext d k st rs)"
    and "prepare_step ext d k st rs = Inr (params, bytes, rs') \<Longrightarrow>
      bookkeeping ext d (remaining d (Suc k)) (take k (step_ids d)) rs'
      \<and> rs_skipped rs' = rs_skipped rs \<and> rs_outcomes rs' = rs_outcomes rs
      \<and> keeps_literals (step_at d k) params
      \<and> length (json_text ext params) \<le> pg_max_retained_bytes (definition_graph d)"
proof -
  have skip: "rs_skipped rs = [] \<or> is_conditional d" using inv by (simp add: stage_invariant_def)
  have avail: "rs_values rs (di_source_step i) \<noteq> None" if "i \<in> set (ps_inputs (step_at d k))" for i
    using source_available [OF g k inv] decision_runs [OF k skip run that] that
    by (auto simp: step_sources_def)
  obtain rs1 where rs1: "consume_references d k rs = Inr rs1"
    "bookkeeping ext d (remaining d (Suc k)) (take k (step_ids d)) rs1"
    "rs_skipped rs1 = rs_skipped rs" "rs_outcomes rs1 = rs_outcomes rs"
    using consume_references_ok [OF g k, of ext "take k (step_ids d)" rs] inv
    by (auto simp: stage_invariant_def)
  show "accounted (prepare_step ext d k st rs)"
    unfolding prepare_step_def Let_def rs1(1)
    by (intro accounted_rbind accounted_ensure accounted_resolve accounted_intros) (use avail in simp_all)
  assume p: "prepare_step ext d k st rs = Inr (params, bytes, rs')"
  then obtain q where q: "resolve_with_limit ext (step_at d k) (rs_values rs)
      (pg_max_retained_bytes (definition_graph d)) = Inr q" and params: "params = model_alias (step_at d k) q"
    and len: "length (json_text ext params) \<le> pg_max_retained_bytes (definition_graph d)" and "rs' = rs1"
    using rs1(1) by (auto simp: prepare_step_def Let_def encoded_bytes_def)
  then show "bookkeeping ext d (remaining d (Suc k)) (take k (step_ids d)) rs'
      \<and> rs_skipped rs' = rs_skipped rs \<and> rs_outcomes rs' = rs_outcomes rs
      \<and> keeps_literals (step_at d k) params
      \<and> length (json_text ext params) \<le> pg_max_retained_bytes (definition_graph d)"
    using rs1 model_alias_keeps [OF q] by simp
qed


section \<open>Final results\<close>

definition finite_final :: "'x pipeline_externals_scheme \<Rightarrow> pipeline_graph \<Rightarrow> json \<Rightarrow> bool" where
  "finite_final ext p v \<longleftrightarrow> (\<exists>completed failed output.
     v = finite_result_of ext p completed failed output
     \<and> (if failed then completed < length (pg_steps p) \<and> runs_process (pg_steps p ! completed)
          \<and> unsuccessful_exit output
        else completed = length (pg_steps p)))"

definition conditional_final :: "'x pipeline_externals_scheme \<Rightarrow> conditional_graph \<Rightarrow> json \<Rightarrow> bool" where
  "conditional_final ext p v \<longleftrightarrow> (\<exists>outs output success.
     v = conditional_result_of ext outs output success
     \<and> outs \<noteq> [] \<and> length outs \<le> length (pg_steps (cg_graph p))
     \<and> (success \<longrightarrow> length outs = length (pg_steps (cg_graph p)))
     \<and> length (json_text ext output) \<le> pg_max_retained_bytes (cg_graph p)
     \<and> (\<forall>report. cs_success report = success \<and> cs_outcomes report = outs \<and> cs_output report = output
          \<longrightarrow> outcomes_ok p report 0 [] outs)
     \<and> (\<not> success \<longrightarrow> so_state (last outs) = StepFailed)
     \<and> (is_skip (so_state (last outs)) \<longrightarrow> output = JNull)
     \<and> \<not> (success \<and> so_state (last outs) = StepCompleted
          \<and> runs_process (pg_steps (cg_graph p) ! (length outs - 1)) \<and> unsuccessful_exit output))"

primrec final_ok :: "'x pipeline_externals_scheme \<Rightarrow> pipeline_definition \<Rightarrow> json \<Rightarrow> bool" where
  "final_ok ext (Finite p) v = finite_final ext p v"
| "final_ok ext (Conditional p) v = conditional_final ext p v"

lemma finite_failed:
  "k < length (pg_steps p) \<Longrightarrow> runs_process (pg_steps p ! k) \<Longrightarrow> unsuccessful_exit output
   \<Longrightarrow> finite_final ext p (finite_result_of ext p k True output)"
  unfolding finite_final_def by (intro exI [of _ k] exI [of _ True] exI [of _ "output"]) simp

lemma finite_completed:
  "finite_final ext p (finite_result_of ext p (length (pg_steps p)) False output)"
  unfolding finite_final_def by (intro exI [of _ "length (pg_steps p)"] exI [of _ False]) auto

lemma conditional_failed:
  assumes "path_ok p k rs" and "k < length (pg_steps (cg_graph p))"
    and "conditional_decision ext p k values (rs_skipped rs) = Inr (RunStep m)"
    and "runs_process (pg_steps (cg_graph p) ! k)" and "unsuccessful_exit output"
    and "length (json_text ext output) \<le> pg_max_retained_bytes (cg_graph p)"
  shows "conditional_final ext p (conditional_result_of ext
    (rs_outcomes rs @ [outcome_of (pg_steps (cg_graph p) ! k) StepFailed m None]) output False)"
  unfolding conditional_final_def
  using assms outcome_run(2) [OF assms(2,3)]
  by (intro exI [of _ "rs_outcomes rs @ [outcome_of (pg_steps (cg_graph p) ! k) StepFailed m None]"]
      exI [of _ "output"] exI [of _ False])
     (auto simp: path_ok_def outcomes_ok_snoc is_skip_def)

lemma conditional_completed:
  assumes "path_ok p k rs" and "Suc k = length (pg_steps (cg_graph p))"
    and "conditional_decision ext p k values (rs_skipped rs) = Inr (RunStep m)"
    and "\<not> (runs_process (pg_steps (cg_graph p) ! k) \<and> unsuccessful_exit output)"
    and "length (json_text ext output) \<le> pg_max_retained_bytes (cg_graph p)"
  shows "conditional_final ext p (conditional_result_of ext
    (rs_outcomes rs @ [outcome_of (pg_steps (cg_graph p) ! k) StepCompleted m None]) output True)"
proof -
  have "length (rs_outcomes rs) = k" and "length (pg_steps (cg_graph p)) - Suc 0 = k"
    using assms(1,2) by (simp_all add: path_ok_def)
  then show ?thesis
    unfolding conditional_final_def
    using assms outcome_run(1) [OF _ assms(3)]
    by (intro exI [of _ "rs_outcomes rs @ [outcome_of (pg_steps (cg_graph p) ! k) StepCompleted m None]"]
        exI [of _ "output"] exI [of _ True])
       (simp add: path_ok_def outcomes_ok_snoc is_skip_def)
qed

lemma conditional_all_skipped:
  assumes "path_ok p (length (pg_steps (cg_graph p))) rs"
    and "length (json_text ext JNull) \<le> pg_max_retained_bytes (cg_graph p)"
  shows "conditional_final ext p (conditional_result_of ext (rs_outcomes rs) JNull True)"
  unfolding conditional_final_def
  using assms by (intro exI [of _ "rs_outcomes rs"] exI [of _ JNull] exI [of _ True])
    (auto simp: path_ok_def is_skip_def)

section \<open>After the engine\<close>

lemma bookkeeping_push [simp]:
  "bookkeeping ext d todo past (push_outcome s st m dep rs) \<longleftrightarrow> bookkeeping ext d todo past rs"
  by (simp add: push_outcome_def)

lemma push_outcome_simps [simp]:
  "rs_skipped (push_outcome s st m dep rs) = rs_skipped rs"
  "rs_outcomes (push_outcome s st m dep rs) = rs_outcomes rs @ [outcome_of s st m dep]"
  "rs_references (push_outcome s st m dep rs) = rs_references rs"
  "rs_retained (push_outcome s st m dep rs) = rs_retained rs"
  by (simp_all add: push_outcome_def)

lemma settle_finished:
  assumes "settle_step ext g d k st m rs lg output = Inr (Finished v, lg')"
    and k: "k < length (step_ids d)" and path: "reported_path d k rs"
    and run: "definition_decision ext d k values (rs_skipped rs) = Inr (RunStep m)"
  shows "final_ok ext d v"
proof (cases d)
  case (Finite p)
  then show ?thesis
    using assms(1) k
    by (auto simp: settle_step_def Let_def step_at_def step_ids_def intro: finite_failed finite_completed
        split: if_splits)
next
  case (Conditional p)
  then have n: "k < length (pg_steps (cg_graph p))" using k by (simp add: step_ids_def)
  have len: "length (json_text ext output) \<le> pg_max_retained_bytes (cg_graph p)"
    using assms(1) Conditional by (auto simp: settle_step_def Let_def encoded_bytes_def)
  have path: "path_ok p k rs" and dec: "conditional_decision ext p k values (rs_skipped rs) = Inr (RunStep m)"
    using path run Conditional by simp_all
  show ?thesis
    using assms(1) Conditional conditional_failed [OF path n dec _ _ len]
      conditional_completed [OF path _ dec _ len]
    by (auto simp: settle_step_def Let_def step_at_def split: if_splits)
qed


lemma settle_accounted:
  assumes "graph_ordered d" and "k < length (step_ids d)"
    and "bookkeeping ext d (remaining d (Suc k)) (take k (step_ids d)) rs"
  shows "accounted (settle_step ext g d k st m rs lg output)"
proof -
  have "accounted (retain_output d k output (length (json_text ext output)) (push_outcome s state m dep rs))"
    "accounted (retain_output d k output (length (json_text ext output)) rs)" for s state dep
    by (intro retain_output_ok(1) [OF assms(1,2)]; simp add: assms(3))+
  then show ?thesis
    by (auto simp: settle_step_def Let_def encoded_bytes_def intro!: accounted_intros)
qed

lemma settle_continues:
  assumes "settle_step ext g d k st m rs lg output = Inr (Continue rs', lg')"
    and g: "graph_ordered d" and k: "k < length (step_ids d)" and path: "reported_path d k rs"
    and run: "definition_decision ext d k values (rs_skipped rs) = Inr (RunStep m)"
    and b: "bookkeeping ext d (remaining d (Suc k)) (take k (step_ids d)) rs"
    and skip: "rs_skipped rs = [] \<or> is_conditional d"
  shows "stage_invariant ext d (Suc k) rs' \<and> reported_path d (Suc k) rs'"
proof -
  define rs1 where "rs1 = (if is_conditional d then push_outcome (step_at d k) StepCompleted m None rs else rs)"
  have r: "retain_output d k output (length (json_text ext output)) rs1 = Inr rs'"
    and last: "Suc k \<noteq> length (step_ids d)"
    using assms(1) by (auto simp: settle_step_def Let_def encoded_bytes_def rs1_def step_ids_def split: if_splits)
  have b1: "bookkeeping ext d (remaining d (Suc k)) (take k (step_ids d)) rs1" using b by (simp add: rs1_def)
  note kept = retain_output_ok(2) [OF g k b1 r]
  have "stage_invariant ext d (Suc k) rs'"
    using kept skip by (auto simp: stage_invariant_def rs1_def)
  moreover have "reported_path d (Suc k) rs'"
  proof (cases d)
    case (Finite p)
    then show ?thesis using last k by (simp add: step_ids_def)
  next
    case (Conditional p)
    then have "path_ok p (Suc k) rs'"
      using path kept last k outcome_run(1) [of k p ext "values" "rs_skipped rs" m] run
      by (intro path_ok_push [of p k rs _ rs'])
         (auto simp: rs1_def step_ids_def step_at_def is_skip_def)
    then show ?thesis using Conditional by simp
  qed
  ultimately show ?thesis ..
qed


section \<open>The whole stage\<close>

text \<open>An engine never reports a failure of the runtime's own bookkeeping.\<close>

definition engine_accounted :: "stage \<Rightarrow> bool" where
  "engine_accounted st \<longleftrightarrow> (\<forall>cap action params. accounted (st_run st cap action params))"

definition stage_ready :: "'x externals_scheme \<Rightarrow> pipeline_definition \<Rightarrow> nat \<Rightarrow> run_state \<Rightarrow> bool" where
  "stage_ready ext d k rs \<longleftrightarrow> stage_invariant ext d k rs \<and> reported_path d k rs"

text \<open>What a stage promises of its result and of the calls it makes.\<close>

definition stage_promise ::
  "'x journal_externals_scheme \<Rightarrow> pipeline_definition \<Rightarrow> nat \<Rightarrow> stage_result result \<Rightarrow> engine_call list \<Rightarrow> bool" where
  "stage_promise ext d k r calls \<longleftrightarrow>
     (case r of Inl e \<Rightarrow> True
      | Inr (Finished v) \<Rightarrow> final_ok ext d v
      | Inr (Continue rs') \<Rightarrow> stage_ready ext d (Suc k) rs')
     \<and> (calls = [] \<or> (\<exists>c. calls = [c] \<and> stage_call ext d k c))
     \<and> (\<not> is_conditional d \<and> is_ok r \<longrightarrow> calls \<noteq> [])"

lemma skip_promise:
  assumes g: "graph_ordered d" and k: "k < length (step_ids d)" and ready: "stage_ready ext d k rs"
    and d: "d = Conditional p" and st: "is_skip state"
    and out: "\<And>report. outcome_ok p report k (rs_skipped rs)
      (outcome_of (pg_steps (cg_graph p) ! k) state matched dep)"
  obtains rs' where "skip_step d k state matched dep rs = Inr rs'" and "stage_ready ext d (Suc k) rs'"
proof -
  have inv: "stage_invariant ext d k rs" and path: "path_ok p k rs"
    using ready d by (simp_all add: stage_ready_def)
  have c: "is_conditional d" using d by simp
  obtain rs' where r: "skip_step d k state matched dep rs = Inr rs'" "stage_invariant ext d (Suc k) rs'"
    "rs_skipped rs' = ps_id (step_at d k) # rs_skipped rs"
    "rs_outcomes rs' = rs_outcomes rs @ [outcome_of (step_at d k) state matched dep]"
    using skip_step_ok [OF g k inv c] .
  have "path_ok p (Suc k) rs'"
    using path_ok_push [OF path out r(4) [unfolded d step_at_def definition_graph.simps]] r(3) st d
    by (simp add: step_at_def)
  then show ?thesis using that r(1,2) d by (simp add: stage_ready_def)
qed

lemma run_prepared_ok:
  assumes "run_prepared ext g deadline d k st m params rs lg = (r, lg', calls)"
    and g: "graph_ordered d" and k: "k < length (step_ids d)" and path: "reported_path d k rs"
    and run: "definition_decision ext d k values (rs_skipped rs) = Inr (RunStep m)"
    and b: "bookkeeping ext d (remaining d (Suc k)) (take k (step_ids d)) rs"
    and skip: "rs_skipped rs = [] \<or> is_conditional d"
    and lit: "keeps_literals (step_at d k) params"
    and len: "length (json_text ext params) \<le> pg_max_retained_bytes (definition_graph d)"
  shows "stage_promise ext d k r calls" and "engine_accounted st \<Longrightarrow> accounted r"
proof -
  note settle = settle_finished [OF _ k path run] settle_continues [OF _ g k path run b skip]
  show "stage_promise ext d k r calls"
    using assms(1) lit len settle
    by (auto simp: run_prepared_def Let_def stage_promise_def stage_call_def stage_ready_def
        split: if_splits sum.splits stage_result.splits)
  show "accounted r" if "engine_accounted st"
    using assms(1) that settle_accounted [OF g k b, of g st m]
    by (auto simp: run_prepared_def Let_def engine_accounted_def accounted_def
        split: if_splits sum.splits)
qed


lemma run_step_stage_ok:
  assumes "run_step_stage ext g deadline d k st m rs lg = (r, lg', calls)"
    and g: "graph_ordered d" and k: "k < length (step_ids d)" and ready: "stage_ready ext d k rs"
    and run: "definition_decision ext d k (rs_values rs) (rs_skipped rs) = Inr (RunStep m)"
  shows "stage_promise ext d k r calls \<and> (engine_accounted st \<longrightarrow> accounted r)"
proof -
  have inv: "stage_invariant ext d k rs" and path: "reported_path d k rs"
    using ready by (simp_all add: stage_ready_def)
  have skip: "rs_skipped rs = [] \<or> is_conditional d" using inv by (simp add: stage_invariant_def)
  note prep = prepare_step_ok [OF g k inv run, of st]
  show ?thesis
  proof (cases "prepare_step ext d k st rs")
    case (Inl e)
    then show ?thesis using assms(1) prep(1) by (auto simp: run_step_stage_def stage_promise_def)
  next
    case (Inr y)
    obtain params bytes rs1 where y: "y = (params, bytes, rs1)" by (cases y)
    note kept = prep(2) [OF Inr [unfolded y]]
    have path1: "reported_path d k rs1" using path kept by (cases d) (simp_all add: path_ok_def)
    have run1: "definition_decision ext d k (rs_values rs) (rs_skipped rs1) = Inr (RunStep m)"
      and skip1: "rs_skipped rs1 = [] \<or> is_conditional d" using kept run skip by simp_all
    show ?thesis
    proof (cases "observe_stage ext d (st_before st lg) g k PhaseStarting (rs_retained rs1) bytes (st_start_ms st)")
      case (Inl e)
      then show ?thesis
        using assms(1) Inr y accounted_observe [of ext d "st_before st lg" g k PhaseStarting "rs_retained rs1" bytes]
        by (auto simp: run_step_stage_def stage_promise_def accounted_def)
    next
      case obs: (Inr lg1)
      have "run_prepared ext g deadline d k st m params rs1 lg1 = (r, lg', calls)"
        using assms(1) Inr y obs by (simp add: run_step_stage_def)
      from run_prepared_ok [OF this \<open>graph_ordered d\<close> k path1 run1 _ skip1] kept show ?thesis by simp
    qed
  qed
qed

lemma run_stage_ok:
  assumes "run_stage ext g deadline d k st rs lg = (r, lg', calls)"
    and g: "graph_ordered d" and k: "k < length (step_ids d)" and ready: "stage_ready ext d k rs"
  shows "stage_promise ext d k r calls \<and> (engine_accounted st \<longrightarrow> accounted r)"
proof (cases "st_policy st")
  case False
  then show ?thesis using assms(1) by (auto simp: run_stage_def stage_promise_def)
next
  case policy: True
  have inv: "stage_invariant ext d k rs" using ready by (simp add: stage_ready_def)
  show ?thesis
  proof (cases "definition_decision ext d k (rs_values rs) (rs_skipped rs)")
    case (Inl e)
    then show ?thesis
      using assms(1) policy accounted_decision [OF g k inv] by (auto simp: run_stage_def stage_promise_def)
  next
    case (Inr dec)
    show ?thesis
    proof (cases "\<exists>m. dec = RunStep m")
      case True
      then obtain m where m: "dec = RunStep m" ..
      then have "run_step_stage ext g deadline d k st m rs lg = (r, lg', calls)"
        using assms(1) policy Inr by (simp add: run_stage_def)
      from run_step_stage_ok [OF this \<open>graph_ordered d\<close> k ready] Inr m show ?thesis by simp
    next
      case False
      then obtain p where p: "d = Conditional p" using Inr by (cases d) auto
      then have n: "k < length (pg_steps (cg_graph p))" using k by (simp add: step_ids_def)
      have cd: "conditional_decision ext p k (rs_values rs) (rs_skipped rs) = Inr dec" using Inr p by simp
      show ?thesis
      proof (cases dec)
        case (RunStep m)
        then show ?thesis using False by simp
      next
        case SkipCondition
        obtain rs' where "skip_step d k StepSkippedCondition (Some False) None rs = Inr rs'" "stage_ready ext d (Suc k) rs'"
          by (rule skip_promise [OF g k ready p _ outcome_skip_condition [OF n cd [unfolded SkipCondition]]])
             (simp_all add: is_skip_def)
        then show ?thesis
          using assms(1) policy Inr SkipCondition p by (auto simp: run_stage_def stage_promise_def)
      next
        case (SkipDependency source m)
        obtain rs' where "skip_step d k StepSkippedDependency m (Some source) rs = Inr rs'" "stage_ready ext d (Suc k) rs'"
          by (rule skip_promise [OF g k ready p _ outcome_skip_dependency [OF n cd [unfolded SkipDependency]]])
             (simp_all add: is_skip_def)
        then show ?thesis
          using assms(1) policy Inr SkipDependency p by (auto simp: run_stage_def stage_promise_def)
      qed
    qed
  qed
qed


section \<open>The loop\<close>

text \<open>
  The calls of the stages from \<open>k\<close> on: each belongs to one step, in increasing order; a finite
  pipeline leaves none out before it stops.
\<close>

definition ordered_calls :: "'x externals_scheme \<Rightarrow> pipeline_definition \<Rightarrow> nat \<Rightarrow> nat list \<Rightarrow> engine_call list \<Rightarrow> bool" where
  "ordered_calls ext d k js calls \<longleftrightarrow> sorted_wrt (<) js \<and> set js \<subseteq> {k..<length (step_ids d)}
     \<and> list_all2 (stage_call ext d) js calls
     \<and> (\<not> is_conditional d \<longrightarrow> js = [k..<k + length calls])"

lemma ordered_calls_Nil [simp]: "ordered_calls ext d k [] []"
  by (simp add: ordered_calls_def)

lemma ordered_calls_one:
  "stage_call ext d k c \<Longrightarrow> k < length (step_ids d) \<Longrightarrow> ordered_calls ext d k [k] [c]"
  by (simp add: ordered_calls_def)

lemma ordered_calls_Cons:
  assumes "stage_call ext d k c" and "k < length (step_ids d)" and "ordered_calls ext d (Suc k) js calls"
  shows "ordered_calls ext d k (k # js) (c # calls)"
proof -
  have "js = [Suc k..<Suc k + length calls]" if "\<not> is_conditional d"
    using assms(3) that by (simp add: ordered_calls_def)
  then have "k # js = [k..<k + length (c # calls)]" if "\<not> is_conditional d"
    using that upt_conv_Cons [of k "k + length (c # calls)"] by (simp del: upt_Suc)
  then show ?thesis using assms by (auto simp: ordered_calls_def)
qed

lemma ordered_calls_skip:
  "ordered_calls ext d (Suc k) js calls \<Longrightarrow> is_conditional d \<Longrightarrow> ordered_calls ext d k js calls"
  by (auto simp: ordered_calls_def)

lemma run_stages_ok:
  assumes "graph_ordered d" and "length (json_text ext JNull) \<le> pg_max_retained_bytes (definition_graph d)"
    and "ss = drop k (pg_steps (definition_graph d))" and "k \<le> length (step_ids d)" and "stage_ready ext d k rs"
    and "run_stages ext g deadline d env ss k rs lg = (r, lg', calls)"
  shows "(\<forall>v. r = Inr v \<longrightarrow> final_ok ext d v) \<and> (\<exists>js. ordered_calls ext d k js calls)
    \<and> ((\<forall>i. engine_accounted (env i)) \<longrightarrow> accounted r)"
  using assms(3-)
proof (induction ss arbitrary: k rs lg r lg' calls)
  case Nil
  then have k: "k = length (step_ids d)" by (simp add: step_ids_def)
  show ?case
  proof (cases d)
    case (Finite p)
    then show ?thesis using Nil.prems k by (simp add: stage_ready_def step_ids_def)
  next
    case (Conditional p)
    then have path: "path_ok p (length (pg_steps (cg_graph p))) rs"
      using Nil.prems(3) k by (simp add: stage_ready_def step_ids_def)
    then show ?thesis
      using Nil.prems(4) Conditional conditional_all_skipped [OF path, of ext] assms(2)
      by (auto simp: path_ok_def intro: exI [of _ "[]"])
  qed
next
  case (Cons s ss)
  have k: "k < length (step_ids d)"
    using Cons.prems(1) by (simp add: step_ids_def) (metis drop_all linorder_not_less list.distinct(1))
  have "ss = tl (drop k (pg_steps (definition_graph d)))" using Cons.prems(1) by (metis list.sel(3))
  then have ss: "ss = drop (Suc k) (pg_steps (definition_graph d))" by (simp add: drop_Suc tl_drop)
  obtain r1 lg1 c1 where st: "run_stage ext g deadline d k (env k) rs lg = (r1, lg1, c1)" by (metis prod_cases3)
  note ok = run_stage_ok [OF st assms(1) k Cons.prems(3)]
  show ?case
  proof (cases "\<exists>rs'. r1 = Inr (Continue rs')")
    case False
    then have r: "calls = c1" "is_ok r = is_ok r1" "(\<forall>e. r = Inl e \<longleftrightarrow> r1 = Inl e)" "(\<forall>v. r = Inr v \<longrightarrow> r1 = Inr (Finished v))"
      using Cons.prems(4) st by (auto split: sum.splits stage_result.splits)
    then show ?thesis
      using ok k ordered_calls_one [of ext d k]
      by (auto simp: stage_promise_def accounted_def intro: exI [of _ "[]"])
  next
    case True
    then obtain rs' where c: "r1 = Inr (Continue rs')" ..
    obtain r2 lg2 c2 where rest: "run_stages ext g deadline d env ss (Suc k) rs' lg1 = (r2, lg2, c2)"
      by (metis prod_cases3)
    have r: "r = r2" "calls = c1 @ c2" using Cons.prems(4) st c rest by auto
    have ready: "stage_ready ext d (Suc k) rs'" using ok c by (simp add: stage_promise_def)
    from Cons.IH [OF ss _ ready rest] k obtain js where js: "ordered_calls ext d (Suc k) js c2"
      and IH: "\<forall>v. r2 = Inr v \<longrightarrow> final_ok ext d v" "(\<forall>i. engine_accounted (env i)) \<longrightarrow> accounted r2"
      by auto
    have "\<exists>js. ordered_calls ext d k js (c1 @ c2)"
    proof (cases c1)
      case Nil
      then have "is_conditional d" using ok c by (simp add: stage_promise_def)
      then show ?thesis using Nil ordered_calls_skip [OF js] by auto
    next
      case (Cons a as)
      then have "c1 = [a]" "stage_call ext d k a" using ok c by (auto simp: stage_promise_def)
      then show ?thesis using ordered_calls_Cons [OF _ k js] by auto
    qed
    then show ?thesis using IH r by simp
  qed
qed


section \<open>The execution\<close>

lemma definition_bounds:
  assumes "definition_from_grant ext g = Inr d"
  shows "step_ids d \<noteq> []" and "1024 \<le> pg_max_retained_bytes (definition_graph d)"
  using assms
  by (auto simp: definition_from_grant_def conditional_from_grant_def finite_from_grant_def
      conditional_validate_def validate_for_executor_def step_ids_def split: if_splits)

lemma definition_kind:
  assumes "definition_from_grant ext g = Inr d"
  shows "d = Finite p \<Longrightarrow> g_capability g \<noteq> CONDITIONAL \<and> finite_from_grant ext g = Inr p"
    and "d = Conditional q \<Longrightarrow> g_capability g = CONDITIONAL \<and> conditional_from_grant ext g = Inr q"
  using assms by (auto simp: definition_from_grant_def split: if_splits)

text \<open>The decoder of a conditional definition returns a map: no key twice.\<close>

definition decodes_maps :: "'x pipeline_externals_scheme \<Rightarrow> bool" where
  "decodes_maps ext \<longleftrightarrow> (\<forall>v p. conditional_parse ext v = Some p \<longrightarrow> distinct (map fst (cg_conditions p)))"

lemma definition_distinct:
  assumes "definition_from_grant ext g = Inr d" and "decodes_maps ext"
  shows "conditions_distinct d"
  using assms
  by (auto simp: definition_from_grant_def conditional_from_grant_def decodes_maps_def split: if_splits)

lemma initial_ready:
  assumes "graph_ordered d" and "conditions_distinct d" and "definition_counts ext d = Inr counts"
    and "step_ids d \<noteq> []"
  shows "stage_ready ext d 0 (initial_state counts)"
proof -
  have "bookkeeping ext d (remaining d 0) [] (initial_state counts)"
    using definition_counts_eq [OF assms(1-3)] remaining_ids [OF assms(1)]
    by (simp add: bookkeeping_def initial_state_def)
  then show ?thesis
    using assms(4)
    by (cases d) (auto simp: stage_ready_def stage_invariant_def initial_state_def path_ok_def step_ids_def)
qed

lemma accounted_grant_validate [accounted_intros]: "accounted (grant_validate ext g)"
  unfolding grant_validate_def by (intro accounted_intros) simp_all

lemma execute_ok:
  assumes maps: "decodes_maps ext" and null: "json_text ext JNull = ''null''"
    and run: "pipeline_execute ext admitted g deadline env lg = (r, lg', calls)"
  shows "r = Inr v \<Longrightarrow> \<exists>d. definition_from_grant ext g = Inr d \<and> final_ok ext d v"
    and "calls \<noteq> [] \<Longrightarrow> \<exists>d js. definition_from_grant ext g = Inr d \<and> ordered_calls ext d 0 js calls"
    and "\<forall>i. engine_accounted (env i) \<Longrightarrow> accounted r"
proof -
  let ?start = "rbind (grant_validate ext g) (\<lambda>_. ensure admitted (PipelineE StagePolicy)
    (rbind (definition_from_grant ext g) (\<lambda>d. rbind (definition_counts ext d) (\<lambda>counts. Inr (d, counts)))))"
  have start: "accounted ?start"
    by (intro accounted_rbind accounted_ensure accounted_intros)
       (simp_all add: definition_ordered definition_distinct maps)
  have "(r = Inr v \<longrightarrow> (\<exists>d. definition_from_grant ext g = Inr d \<and> final_ok ext d v))
    \<and> (calls \<noteq> [] \<longrightarrow> (\<exists>d js. definition_from_grant ext g = Inr d \<and> ordered_calls ext d 0 js calls))
    \<and> ((\<forall>i. engine_accounted (env i)) \<longrightarrow> accounted r)"
  proof (cases ?start)
    case (Inl e)
    then show ?thesis using run start by (auto simp: pipeline_execute_def)
  next
    case (Inr y)
    obtain d counts where y: "y = (d, counts)" by (cases y)
    then have d: "definition_from_grant ext g = Inr d" and counts: "definition_counts ext d = Inr counts"
      using Inr by auto
    note ordered = definition_ordered [OF d]
    have ready: "stage_ready ext d 0 (initial_state counts)"
      using initial_ready [OF ordered definition_distinct [OF d maps] counts definition_bounds(1) [OF d]] .
    have "run_stages ext g deadline d env (pg_steps (definition_graph d)) 0 (initial_state counts) lg = (r, lg', calls)"
      using run Inr y by (simp add: pipeline_execute_def)
    from run_stages_ok [OF ordered _ _ _ ready this] null definition_bounds(2) [OF d] d
    show ?thesis by auto
  qed
  then show "r = Inr v \<Longrightarrow> \<exists>d. definition_from_grant ext g = Inr d \<and> final_ok ext d v"
    "calls \<noteq> [] \<Longrightarrow> \<exists>d js. definition_from_grant ext g = Inr d \<and> ordered_calls ext d 0 js calls"
    "\<forall>i. engine_accounted (env i) \<Longrightarrow> accounted r" by simp_all
qed

section \<open>Producer and checker\<close>

definition result_codec :: "'x pipeline_externals_scheme \<Rightarrow> bool" where
  "result_codec ext \<longleftrightarrow> (\<forall>r. finite_result_parse ext (finite_result_json ext r) = Some r)
     \<and> (\<forall>r. conditional_result_parse ext (conditional_result_json ext r) = Some r)"

lemma zip_take_all: "list_all (\<lambda>(i, s). i = f s) (zip (map f (take k ss)) ss)"
  by (induction ss arbitrary: k) (auto simp: take_Cons split: nat.splits)

lemma finite_final_confirmed:
  assumes "finite_from_grant ext g = Inr p" and "result_codec ext" and "finite_final ext p v"
  obtains b where "finite_confirmed ext g v = Inr b"
proof -
  obtain completed failed out where v: "v = finite_result_of ext p completed failed out"
    and ok: "if failed then completed < length (pg_steps p) \<and> runs_process (pg_steps p ! completed)
      \<and> unsuccessful_exit out else completed = length (pg_steps p)"
    using assms(3) by (auto simp: finite_final_def)
  have "finite_confirmed ext g v = Inr (\<not> failed)"
    using assms(1,2) ok zip_take_all [of ps_id completed "pg_steps p"]
    by (auto simp: v finite_confirmed_def finite_result_of_def result_codec_def Let_def min_def split: if_splits)
  then show thesis by (rule that)
qed

lemma conditional_final_confirmed:
  assumes "conditional_from_grant ext g = Inr p" and "result_codec ext" and "conditional_final ext p v"
  obtains b where "conditional_confirmed ext g v = Inr b"
proof -
  obtain outs out success where v: "v = conditional_result_of ext outs out success"
    and ok: "outs \<noteq> []" "length outs \<le> length (pg_steps (cg_graph p))"
      "success \<longrightarrow> length outs = length (pg_steps (cg_graph p))"
      "length (json_text ext out) \<le> pg_max_retained_bytes (cg_graph p)"
      "\<forall>report. cs_success report = success \<and> cs_outcomes report = outs \<and> cs_output report = out
        \<longrightarrow> outcomes_ok p report 0 [] outs"
      "\<not> success \<longrightarrow> so_state (last outs) = StepFailed" "is_skip (so_state (last outs)) \<longrightarrow> out = JNull"
      "\<not> (success \<and> so_state (last outs) = StepCompleted
        \<and> runs_process (pg_steps (cg_graph p) ! (length outs - 1)) \<and> unsuccessful_exit out)"
    using assms(3) by (auto simp: conditional_final_def)
  have "conditional_confirmed ext g v = Inr success"
    using assms(1,2) ok
    by (auto simp: v conditional_confirmed_def conditional_result_of_def result_codec_def Let_def encoded_bytes_def)
  then show thesis by (rule that)
qed


section \<open>Reachable states\<close>

text \<open>The states of the loop before step \<open>k\<close>, under any environment of the stages before it.\<close>

inductive stage_reached ::
  "'x journal_externals_scheme \<Rightarrow> execution_grant \<Rightarrow> instant \<Rightarrow> pipeline_definition \<Rightarrow> nat \<Rightarrow> run_state \<Rightarrow> bool"
  for ext g deadline d where
  first: "definition_counts ext d = Inr counts \<Longrightarrow> stage_reached ext g deadline d 0 (initial_state counts)"
| step: "stage_reached ext g deadline d k rs \<Longrightarrow> k < length (pg_steps (definition_graph d)) \<Longrightarrow>
    run_stage ext g deadline d k st rs lg = (Inr (Continue rs'), lg', calls) \<Longrightarrow>
    stage_reached ext g deadline d (Suc k) rs'"

lemma stage_reached_ready:
  assumes "stage_reached ext g deadline d k rs" and "graph_ordered d" and "conditions_distinct d"
    and "step_ids d \<noteq> []"
  shows "stage_ready ext d k rs"
  using assms
proof (induction rule: stage_reached.induct)
  case (first counts)
  then show ?case by (intro initial_ready)
next
  case (step k rs st lg rs' lg' calls)
  then show ?case using run_stage_ok [OF step.hyps(3)] by (simp add: stage_promise_def step_ids_def)
qed

lemma remaining_iff:
  "i \<in> set (remaining d k) \<longleftrightarrow> (\<exists>j \<ge> k. j < length (step_ids d) \<and> i \<in> set (step_sources d (step_at d j)))"
proof -
  let ?ss = "pg_steps (definition_graph d)"
  have "set (drop k ?ss) = {?ss ! j |j. k \<le> j \<and> j < length ?ss}"
    by (auto simp: in_set_conv_nth set_conv_nth) (metis le_add1 less_diff_conv2 linorder_le_cases add.commute le_add_diff_inverse less_diff_conv not_less zero_less_diff)+
  then show ?thesis by (auto simp: remaining_def step_ids_def step_at_def)
qed

end
