(* ===== verification/Pipeline_Runs.thy ===== *)
theory Pipeline_Runs
  imports Pipeline_Stages Journal_Samples
begin

text \<open>
  A concrete run for the witnesses: a conditional grant whose guard holds, an engine that
  answers the probe and the write, and the report that results.
\<close>

definition guarded_grant :: execution_grant where
  "guarded_grant = ping_grant\<lparr>g_capability := CONDITIONAL,
     g_params := JObject [(''pipeline'', JString ''guarded'')],
     g_limits := \<lparr>gl_max_execution_ms = 1000, gl_max_result_bytes = 8192\<rparr>\<rparr>"

definition sample_engine :: "string \<Rightarrow> string \<Rightarrow> json \<Rightarrow> json result" where
  "sample_engine cap action params =
     (if cap = ''system.ping'' then Inr (JObject [(''pong'', JString ''yes'')])
      else Inr (JObject [(''written'', JBool True)]))"

definition sample_stage :: stage where
  "sample_stage = \<lparr>st_policy = True, st_operation = True, st_before = (\<lambda>lg. lg), st_after = (\<lambda>lg. lg),
     st_start_ms = 5, st_end_ms = 6, st_now = 7, st_run = sample_engine\<rparr>"

lemma sample_pipeline_simps [simp]:
  "json_text sample_site_ext (JBool b) = ''null''" "json_text sample_site_ext (JArray vs) = ''null''"
  "finite_text sample_site_ext p = ''pipeline''" "json_pointer sample_site_ext = sample_pointer"
  "conditional_parse sample_site_ext v = (if v = JString ''guarded'' then Some guarded_graph else None)"
  "conditional_text sample_site_ext q = ''conditional''"
  "conditional_result_json sample_site_ext = conditional_report_json"
  "conditional_result_parse sample_site_ext = conditional_report_parse"
  "finite_result_json sample_site_ext = finite_report_json"
  "finite_result_parse sample_site_ext = finite_report_parse"
  by (simp_all add: sample_site_ext_def sample_grant_ext_def sample_event_ext_def sample_pipeline_ext_def
      sample_workload_ext_def sample_ext_def externals.defs workload_externals.defs
      event_externals.defs pipeline_externals.defs grant_externals.defs)

lemma sample_codecs: "decodes_maps sample_site_ext" "result_codec sample_site_ext"
  by (simp_all add: decodes_maps_def result_codec_def guarded_graph_def)

lemma sample_ids_ok [simp]: "step_id ''sample''" "step_id ''sink''"
  by (simp_all add: step_id_def is_name_byte_def is_ascii_alphanumeric_def byte_def)

lemma sample_pointer_ok [simp]: "valid_pointer ''/pong''"
  by (simp add: valid_pointer_def byte_def)

lemma ping_keys: "parameter_keys ''system.ping'' ''run'' = Inr []"
  by (simp add: parameter_keys_def METHOD_TEMPLATES_def template_steps_def template_table_def keys_match_def)

lemma write_keys: "parameter_keys ''filesystem'' ''write'' = Inr [''path'', ''content'']"
  by (simp add: parameter_keys_def METHOD_TEMPLATES_def template_steps_def template_table_def keys_match_def)

lemma sample_steps_valid [simp]:
  "step_validate sample_site_ext probe_step executor = Inr ()"
  "step_validate sample_site_ext sink_step executor = Inr ()"
  by (simp_all add: step_validate_def probe_step_def sink_step_def bound_params_def is_object_def
      encoded_bytes_def PIPELINE_DEFINITION_BYTES_def shape_validate_def step_operation_def
      supported_operation_def shape_resource_def shape_model_def is_model_def ping_keys write_keys
      data_parameter_def)


lemma sample_graph_fields [simp]:
  "pg_steps copy_graph = [probe_step, sink_step]" "pg_max_retained_bytes copy_graph = 1024"
  "cg_graph guarded_graph = copy_graph" "cg_conditions guarded_graph = [(''sink'', pong_guard)]"
  "ps_id probe_step = ''sample''" "ps_id sink_step = ''sink''" "ps_inputs probe_step = []"
  "cd_source_step pong_guard = ''sample''"
  "ps_inputs sink_step = [\<lparr>di_parameter = ''content'', di_source_step = ''sample'', di_pointer = ''/pong'',
     di_wrap_array = False\<rparr>]"
  by (simp_all add: copy_graph_def guarded_graph_def probe_step_def sink_step_def pong_guard_def)

lemma copy_graph_valid [simp]:
  "executor = None \<or> executor = Some sample_node \<Longrightarrow> validate_for_executor sample_site_ext copy_graph executor = Inr ()"
  by (auto simp: validate_for_executor_def MAX_STEPS_def MAX_RETAINED_BYTES_def encoded_bytes_def
      PIPELINE_DEFINITION_BYTES_def simp del: validate_remote_node_id_ok)
     (simp_all add: copy_graph_def)

lemma guarded_graph_valid [simp]:
  "executor = None \<or> executor = Some sample_node \<Longrightarrow> conditional_validate sample_site_ext guarded_graph executor = Inr ()"
  by (simp add: conditional_validate_def encoded_bytes_def PIPELINE_DEFINITION_BYTES_def)
     (simp add: guarded_graph_def pong_guard_def condition_validate_def encoded_bytes_def)

lemma conditional_not_finite [simp]: "CONDITIONAL \<noteq> ''pipeline.run''" "CONDITIONAL \<noteq> ''peer.transfer''"
  by (simp_all add: CONDITIONAL_def)

lemma guarded_fields [simp]:
  "g_schema_version guarded_grant = 1" "g_grant_id guarded_grant = sample_grant"
  "g_issuer_id guarded_grant = sample_issuer" "g_session_id guarded_grant = sample_session"
  "g_executor_node guarded_grant = sample_node" "g_job_id guarded_grant = sample_id"
  "g_task_id guarded_grant = sample_id" "g_attempt guarded_grant = 1"
  "g_plan_sha256 guarded_grant = sample_digest"
  "g_request_context guarded_grant = \<lparr>request_id = sample_probe, origin_node = sample_node, origin_area = []\<rparr>"
  "g_capability guarded_grant = CONDITIONAL" "g_action guarded_grant = ''run''"
  "g_params guarded_grant = JObject [(''pipeline'', JString ''guarded'')]" "g_priority guarded_grant = 0"
  "g_limits guarded_grant = \<lparr>gl_max_execution_ms = 1000, gl_max_result_bytes = 8192\<rparr>"
  "g_reporting guarded_grant = ''acceptance_and_completion''" "g_issued_at_ms guarded_grant = 1"
  "g_expires_at_ms guarded_grant = 2000" "compound_bindings guarded_grant"
  by (simp_all add: guarded_grant_def ping_grant_def compound_bindings_def)

lemma guarded_from_grant [simp]: "conditional_from_grant sample_site_ext guarded_grant = Inr guarded_graph"
  by (simp add: conditional_from_grant_def jindex_def checked_add_def u64_max_def RESULT_METADATA_RESERVATION_def)

lemma guarded_identifiers: "is_identifier CONDITIONAL"
  by (simp add: CONDITIONAL_def is_identifier_def is_name_byte_def is_ascii_alphanumeric_def byte_def)

lemma guarded_grant_valid [simp]: "grant_validate sample_site_ext guarded_grant = Inr ()"
  using ping_identifiers guarded_identifiers
  by (simp add: grant_validate_def conditional_pipeline_def is_object_def MAX_DURATION_MS_def
      del: validate_remote_node_id_ok validate_id_ok)

lemma guarded_definition [simp]: "definition_from_grant sample_site_ext guarded_grant = Inr (Conditional guarded_graph)"
  by (simp add: definition_from_grant_def)

lemma guarded_counts [simp]:
  "conditional_reference_counts sample_site_ext guarded_graph = Inr [''sample'' \<mapsto> 2, ''sink'' \<mapsto> 0]"
  by (simp add: conditional_reference_counts_def finite_reference_counts_def input_sources_def)
     (simp add: fun_eq_iff)


section \<open>The run\<close>

definition probe_call :: engine_call where
  "probe_call = \<lparr>ec_step = ''sample'', ec_capability = ''system.ping'', ec_action = ''run'', ec_params = JObject []\<rparr>"

definition sink_call :: engine_call where
  "sink_call = \<lparr>ec_step = ''sink'', ec_capability = ''filesystem'', ec_action = ''write'',
     ec_params = JObject [(''content'', JString ''yes''), (''path'', JString ''out'')]\<rparr>"

definition guarded_result :: json where
  "guarded_result = conditional_report_json
     \<lparr>cs_schema_version = 1, cs_report_type = ''conditional_pipeline_result'', cs_success = True,
      cs_outcomes = [outcome_of probe_step StepCompleted None None, outcome_of sink_step StepCompleted (Some True) None],
      cs_output = JObject [(''written'', JBool True)]\<rparr>"

definition guarded_state :: run_state where
  "guarded_state = \<lparr>rs_references = [''sample'' \<mapsto> 2, ''sink'' \<mapsto> 0],
     rs_values = [''sample'' \<mapsto> JObject [(''pong'', JString ''yes'')]], rs_sizes = [''sample'' \<mapsto> length ''null''],
     rs_retained = length ''null'', rs_skipped = [], rs_outcomes = [outcome_of probe_step StepCompleted None None]\<rparr>"

lemma sample_params [simp]:
  "bound_params sample_site_ext probe_step = Inr (JObject [])"
  "bound_params sample_site_ext sink_step = Inr (JObject [(''path'', JString ''out'')])"
  by (simp_all add: bound_params_def probe_step_def sink_step_def is_object_def encoded_bytes_def
      PIPELINE_DEFINITION_BYTES_def)

lemma sample_operations [simp]:
  "ps_capability probe_step = ''system.ping''" "ps_action probe_step = ''run''" "ps_model_id probe_step = None"
  "ps_capability sink_step = ''filesystem''" "ps_action sink_step = ''write''" "ps_model_id sink_step = None"
  by (simp_all add: probe_step_def sink_step_def)

lemma sample_stage_fields [simp]:
  "st_policy sample_stage" "st_operation sample_stage" "st_before sample_stage lg = lg"
  "st_after sample_stage lg = lg" "st_now sample_stage = 7" "st_run sample_stage = sample_engine"
  by (simp_all add: sample_stage_def)

lemma guard_holds [simp]:
  "condition_matches sample_site_ext pong_guard (JObject [(''pong'', JString ''yes'')]) = Inr True"
  by (simp add: condition_matches_def condition_validate_def pong_guard_def encoded_bytes_def scalar_ordering_def
      cmp_def)

lemma probe_stage:
  "run_stage sample_site_ext guarded_grant 100 (Conditional guarded_graph) 0 sample_stage
     (initial_state [''sample'' \<mapsto> 2, ''sink'' \<mapsto> 0]) lg = (Inr (Continue guarded_state), lg, [probe_call])"
  by (simp add: run_stage_def conditional_decision_def condition_of_def skipped_input_def run_step_stage_def
      prepare_step_def step_at_def resolve_with_limit_def encoded_bytes_def MAX_RETAINED_BYTES_def model_alias_def
      consume_references_def conditional_sources_def observe_stage_def run_prepared_def settle_step_def
      sample_engine_def runs_process_def retain_output_def initial_state_def checked_add_def u64_max_def
      push_outcome_def guarded_state_def probe_call_def is_model_def Let_def)

lemma sink_stage:
  "run_stage sample_site_ext guarded_grant 100 (Conditional guarded_graph) 1 sample_stage guarded_state lg
     = (Inr (Finished guarded_result), lg, [sink_call])"
  by (simp add: run_stage_def conditional_decision_def condition_of_def skipped_input_def run_step_stage_def
      prepare_step_def step_at_def resolve_with_limit_def encoded_bytes_def MAX_RETAINED_BYTES_def model_alias_def
      consume_references_def conditional_sources_def observe_stage_def run_prepared_def settle_step_def
      sample_engine_def runs_process_def checked_sub_def validate_data_type_def byte_def
      push_outcome_def guarded_state_def sink_call_def is_model_def Let_def consume_source_def
      guarded_result_def conditional_result_of_def byte_def)

lemma guarded_run:
  "pipeline_execute sample_site_ext True guarded_grant 100 (\<lambda>_. sample_stage) fresh_ledger
     = (Inr guarded_result, fresh_ledger, [probe_call, sink_call])"
  using probe_stage [of fresh_ledger] sink_stage [of fresh_ledger]
  by (simp add: pipeline_execute_def)

end
