(* ===== verification/Pipeline_Properties.thy ===== *)
theory Pipeline_Properties
  imports Pipeline_Runs
begin

text \<open>
  The properties of pipelines: whatever the engine, the owner's policy, the clocks and the
  other tasks of the node do, an execution calls the operations of its definition in order and
  with their own parameters, its bookkeeping never fails, and its report passes the check the
  coordinator makes of it.
\<close>

text \<open>
  C30. The engine is only asked to run operations of the reviewed definition, each at most once
  and in the order of the steps; every call names the capability and the action of its step,
  carries all literal parameters and the resource, model and backend identities of that step
  unchanged whatever data earlier steps returned, and its encoded parameters fit the budget
  of the definition. A pipeline without conditions leaves no step out before it stops.
\<close>

theorem calls_follow_definition:
  assumes "decodes_maps ext" and "json_text ext JNull = ''null''"
    and "pipeline_execute ext admitted g deadline env lg = (r, lg', calls)" and "calls \<noteq> []"
  shows "\<exists>d js. definition_from_grant ext g = Inr d
    \<and> sorted_wrt (<) js \<and> set js \<subseteq> {..<length (pg_steps (definition_graph d))}
    \<and> list_all2 (stage_call ext d) js calls
    \<and> (\<not> is_conditional d \<longrightarrow> js = [0..<length calls])"
proof -
  obtain d js where d: "definition_from_grant ext g = Inr d" and o: "ordered_calls ext d 0 js calls"
    using execute_ok(2) [OF assms] by blast
  then show ?thesis by (intro exI [of _ d] exI [of _ js]) (auto simp: ordered_calls_def step_ids_def)
qed

theorem calls_follow_definition_witness:
  "pipeline_execute sample_site_ext True guarded_grant 100 (\<lambda>_. sample_stage) fresh_ledger
     = (Inr guarded_result, fresh_ledger, [probe_call, sink_call])
   \<and> (\<exists>d js. definition_from_grant sample_site_ext guarded_grant = Inr d \<and> sorted_wrt (<) js
        \<and> list_all2 (stage_call sample_site_ext d) js [probe_call, sink_call])"
  using calls_follow_definition [OF sample_codecs(1) sample_site_simps(1) guarded_run list.distinct(2)] guarded_run
  by blast

text \<open>
  C31. The bookkeeping of the runtime never fails. For a definition that passed validation no
  execution ends with a missing or negative reference count, with missing or negative
  retained bytes, with the result of an earlier step unavailable, or without a final result:
  these branches of the code are unreachable, unless the engine itself reports such an error.
\<close>

theorem execution_accounted:
  assumes "decodes_maps ext" and "json_text ext JNull = ''null''"
    and "\<And>i cap action params e. st_run (env i) cap action params = Inl e \<Longrightarrow> e \<notin> accounting_errors"
    and "pipeline_execute ext admitted g deadline env lg = (Inl e, lg', calls)"
  shows "e \<notin> accounting_errors"
proof -
  have "\<forall>i. engine_accounted (env i)"
    using assms(3) by (simp add: engine_accounted_def accounted_def)
  then have "accounted (Inl e :: json result)"
    using execute_ok(3) [OF assms(1,2,4)] by blast
  then show ?thesis by simp
qed

definition late_stage :: stage where
  "late_stage = sample_stage\<lparr>st_now := 100\<rparr>"

theorem execution_accounted_witness:
  "pipeline_execute sample_site_ext True guarded_grant 100 (\<lambda>_. late_stage) fresh_ledger
     = (Inl (PipelineE StageExpired), fresh_ledger, [])
   \<and> PipelineE StageExpired \<notin> accounting_errors"
proof -
  have run: "pipeline_execute sample_site_ext True guarded_grant 100 (\<lambda>_. late_stage) fresh_ledger
     = (Inl (PipelineE StageExpired), fresh_ledger, [])"
    by (simp add: pipeline_execute_def late_stage_def run_stage_def conditional_decision_def condition_of_def
        skipped_input_def run_step_stage_def prepare_step_def step_at_def resolve_with_limit_def encoded_bytes_def
        MAX_RETAINED_BYTES_def model_alias_def consume_references_def conditional_sources_def observe_stage_def
        run_prepared_def is_model_def Let_def initial_state_def)
  have "PipelineE StageExpired \<notin> accounting_errors"
    by (rule execution_accounted [OF sample_codecs(1) _ _ run])
       (auto simp: late_stage_def sample_engine_def split: if_splits)
  then show ?thesis using run by blast
qed

text \<open>
  C32. Every report an execution returns passes the completion check of the same grant. The
  checker and the producer are different code (one replays the reported path against the
  definition, the other produces it stage by stage); together they never turn a completed
  execution into an unknown outcome.
\<close>

theorem result_confirmed:
  assumes "decodes_maps ext" and "result_codec ext" and "json_text ext JNull = ''null''"
    and "pipeline_execute ext admitted g deadline env lg = (Inr v, lg', calls)"
  shows "\<exists>success. confirmed_result ext g v = Inr success"
proof -
  obtain d where d: "definition_from_grant ext g = Inr d" and f: "final_ok ext d v"
    using execute_ok(1) [OF assms(1,3,4)] by blast
  show ?thesis
  proof (cases d)
    case (Finite p)
    then show ?thesis
      using definition_kind(1) [OF d Finite] f finite_final_confirmed [OF _ assms(2), of g p v]
      by (auto simp: confirmed_result_def)
  next
    case (Conditional p)
    then show ?thesis
      using definition_kind(2) [OF d Conditional] f conditional_final_confirmed [OF _ assms(2), of g p v]
      by (auto simp: confirmed_result_def)
  qed
qed

theorem result_confirmed_witness: "\<exists>success. confirmed_result sample_site_ext guarded_grant guarded_result = Inr success"
  by (rule result_confirmed [OF sample_codecs _ guarded_run]) simp


text \<open>
  C33. Between two stages the runtime keeps exactly the results that a later step still refers
  to (and whose own step was not skipped), and the bytes it has accounted for are the sum of
  the encoded sizes of those results, never more than the definition allows.
\<close>

theorem retained_exact:
  assumes "decodes_maps ext" and "definition_from_grant ext g = Inr d"
    and "stage_reached ext g deadline d k rs"
  shows "dom (rs_values rs) = {i. i \<in> ps_id ` set (take k (pg_steps (definition_graph d)))
      \<and> i \<notin> set (rs_skipped rs)
      \<and> (\<exists>j \<ge> k. j < length (pg_steps (definition_graph d)) \<and> i \<in> set (step_sources d (step_at d j)))}
    \<and> rs_retained rs = (\<Sum>i \<in> dom (rs_values rs). length (json_text ext (the (rs_values rs i))))
    \<and> rs_retained rs \<le> pg_max_retained_bytes (definition_graph d)"
proof -
  have "stage_ready ext d k rs"
    using stage_reached_ready [OF assms(3)] definition_ordered [OF assms(2)] definition_distinct [OF assms(2,1)]
      definition_bounds(1) [OF assms(2)] by blast
  then have b: "bookkeeping ext d (remaining d k) (take k (step_ids d)) rs"
    by (simp add: stage_ready_def stage_invariant_def)
  then have dom: "dom (rs_values rs) = {i \<in> set (take k (step_ids d)). i \<notin> set (rs_skipped rs) \<and> i \<in> set (remaining d k)}"
    by (simp add: bookkeeping_def)
  have sub: "dom (rs_values rs) \<subseteq> set (step_ids d)" using dom set_take_subset by fastforce
  have "rs_retained rs = (\<Sum>i \<in> set (step_ids d). size_of (rs_sizes rs i))" using b by (simp add: bookkeeping_def)
  also have "\<dots> = (\<Sum>i \<in> dom (rs_values rs). size_of (rs_sizes rs i))"
    using sub b by (intro sum.mono_neutral_right) (auto simp: bookkeeping_def domIff)
  also have "\<dots> = (\<Sum>i \<in> dom (rs_values rs). length (json_text ext (the (rs_values rs i))))"
  proof (intro sum.cong)
    fix i assume "i \<in> dom (rs_values rs)"
    then obtain v where "rs_values rs i = Some v" by blast
    then show "size_of (rs_sizes rs i) = length (json_text ext (the (rs_values rs i)))"
      using b by (simp add: bookkeeping_def)
  qed simp
  finally have "rs_retained rs = (\<Sum>i \<in> dom (rs_values rs). length (json_text ext (the (rs_values rs i))))" .
  moreover have "rs_retained rs \<le> pg_max_retained_bytes (definition_graph d)"
    using b unfolding bookkeeping_def by (elim conjE)
  ultimately show ?thesis by (simp add: dom remaining_iff step_ids_def take_map)
qed

lemma guarded_reached: "stage_reached sample_site_ext guarded_grant 100 (Conditional guarded_graph) 1 guarded_state"
  using stage_reached.step [OF stage_reached.first _ probe_stage [of fresh_ledger]] by simp

theorem retained_exact_witness:
  "dom (rs_values guarded_state) = {''sample''} \<and> rs_retained guarded_state \<le> 1024"
  using retained_exact [OF sample_codecs(1) guarded_definition guarded_reached] by (simp add: guarded_state_def)

text \<open>
  Resolving the parameters of a step adds the fields its bindings point to and nothing
  else: a literal or an identity of the step keeps its value, every bound parameter holds the
  field of the earlier result (wrapped in an array when the binding says so), and a key that
  is neither literal, identity nor bound does not appear.
\<close>

theorem resolution_licensed:
  assumes "resolve_with_limit ext s results limit = Inr q"
  shows "keeps_literals s q
    \<and> (\<forall>i \<in> set (ps_inputs s). jget q (di_parameter i) = bound_value ext results i \<and> bound_value ext results i \<noteq> None)
    \<and> (\<forall>k. k \<notin> set (object_keys (ps_params s)) \<and> k \<notin> set identity_keys
        \<and> k \<notin> di_parameter ` set (ps_inputs s) \<longrightarrow> jget q k = None)"
  using resolve_keeps [OF assms] by blast

theorem resolution_licensed_witness:
  "jget (JObject [(''content'', JString ''yes''), (''path'', JString ''out'')]) ''content''
     = bound_value sample_site_ext [''sample'' \<mapsto> JObject [(''pong'', JString ''yes'')]]
         \<lparr>di_parameter = ''content'', di_source_step = ''sample'', di_pointer = ''/pong'', di_wrap_array = False\<rparr>"
proof -
  have "resolve_with_limit sample_site_ext sink_step [''sample'' \<mapsto> JObject [(''pong'', JString ''yes'')]] 1024
      = Inr (JObject [(''content'', JString ''yes''), (''path'', JString ''out'')])"
    by (simp add: resolve_with_limit_def encoded_bytes_def MAX_RETAINED_BYTES_def is_model_def checked_sub_def
        validate_data_type_def Let_def byte_def)
  from resolution_licensed [OF this] show ?thesis by simp
qed

end
