(* ===== verification/Scheduling_Policy.thy ===== *)
theory Scheduling_Policy
  imports Conditional_Pipeline
begin

text \<open>
  The owner's scheduling policy of the coordinator (\<^verbatim>\<open>eef/scheduling.rs\<close>): its bounds, the
  commands that change the saved policy, the report of a command and the check the command
  line makes of it. Serialisation is left out: a report is its fields, and the two
  comparisons of a policy with its own JSON text always hold for a decoded report.
\<close>

section \<open>Policy\<close>

record scheduling_policy =
  sp_freshness_seconds :: nat
  sp_max_in_flight :: nat
  sp_per_provider_concurrency :: nat
  sp_node_limits :: "(string \<times> nat) list"

definition scheduling_default :: scheduling_policy where
  "scheduling_default = \<lparr>sp_freshness_seconds = 10, sp_max_in_flight = 0,
     sp_per_provider_concurrency = 0, sp_node_limits = []\<rparr>"

primrec check_node_limits :: "(string \<times> nat) list \<Rightarrow> unit result" where
  "check_node_limits [] = Inr ()"
| "check_node_limits (nl # rest) =
     rbind (validate_node_id (fst nl)) (\<lambda>_.
     ensure (fst nl \<noteq> ''*'' \<and> snd nl \<le> 4096) (RegistryE SchedulingNode) (check_node_limits rest))"

definition scheduling_validate :: "scheduling_policy \<Rightarrow> unit result" where
  "scheduling_validate p =
     ensure (1 \<le> sp_freshness_seconds p \<and> sp_freshness_seconds p \<le> 300 \<and> sp_max_in_flight p \<le> 4096
         \<and> sp_per_provider_concurrency p \<le> 4096 \<and> length (sp_node_limits p) \<le> 256)
       (RegistryE SchedulingBounds) (check_node_limits (sp_node_limits p))"

text \<open>The policy of the saved configuration, decoded; none is the default one.\<close>

definition scheduling_parse :: "scheduling_policy option \<Rightarrow> scheduling_policy result" where
  "scheduling_parse stored =
     (let policy = (case stored of None \<Rightarrow> scheduling_default | Some p \<Rightarrow> p) in
      rbind (scheduling_validate policy) (\<lambda>_. Inr policy))"

section \<open>Commands\<close>

datatype scheduling_command =
    ShowPolicy
  | SetLimits "nat option" "nat option" "nat option"
  | SetNode string nat
  | RemoveNode string

definition or_old :: "'a option \<Rightarrow> 'a \<Rightarrow> 'a" where
  "or_old v old = (case v of None \<Rightarrow> old | Some x \<Rightarrow> x)"

fun scheduling_edit :: "scheduling_command \<Rightarrow> scheduling_policy \<Rightarrow> scheduling_policy result" where
  "scheduling_edit ShowPolicy p = Inr p"
| "scheduling_edit (SetLimits fresh acc each) p =
     ensure (\<not> (fresh = None \<and> acc = None \<and> each = None)) (RegistryE SchedulingSelect)
       (Inr (p\<lparr>sp_freshness_seconds := or_old fresh (sp_freshness_seconds p),
               sp_max_in_flight := or_old acc (sp_max_in_flight p),
               sp_per_provider_concurrency := or_old each (sp_per_provider_concurrency p)\<rparr>))"
| "scheduling_edit (SetNode node limit) p =
     Inr (p\<lparr>sp_node_limits := btree_insert node limit (sp_node_limits p)\<rparr>)"
| "scheduling_edit (RemoveNode node) p =
     rbind (validate_node_id node) (\<lambda>_.
     ensure (node \<noteq> ''*'') (RegistryE SchedulingNode)
       (Inr (p\<lparr>sp_node_limits := kv_del node (sp_node_limits p)\<rparr>)))"

section \<open>Reports\<close>

record node_count =
  nc_node_id :: string
  nc_in_flight :: nat

record provider_count =
  pc_node_id :: string
  pc_capability :: string
  pc_action :: string
  pc_in_flight :: nat
  pc_effective :: nat

record registry_admission =
  ad_total_in_flight :: nat
  ad_retired_in_flight :: nat
  ad_node_counts :: "node_count list"
  ad_nodes_truncated :: bool
  ad_providers :: "provider_count list"
  ad_providers_truncated :: bool

record scheduling_report =
  rp_schema_version :: nat
  rp_report_type :: string
  rp_success :: bool
  rp_changed :: bool
  rp_saved_policy :: scheduling_policy
  rp_applied_policy :: scheduling_policy
  rp_restart_required :: bool
  rp_execution_authorized :: bool
  rp_dispatched :: bool
  rp_scope :: string
  rp_note :: string
  rp_runtime_id :: string
  rp_admission :: registry_admission

definition SCHEDULING_SCOPE :: string where
  "SCHEDULING_SCOPE = ''coordinator_local_non_model_reservations''"

definition SCHEDULING_NOTE :: string where
  "SCHEDULING_NOTE = ''Saved limits apply after explicit eef restart. Zero removes an additional ceiling, ''
     @ ''not executor limits or permissions. Reservations track local futures, not remote cancellation or ''
     @ ''physical resources. Model routing and direct owner recovery commands are separate.''"

text \<open>
  \<^verbatim>\<open>command\<close> and the two fields the runtime adds: the edit of the saved policy (returned
  beside the report, and stored when it changed), with the runtime's identity and the registry's
  snapshot.
\<close>

definition scheduling_run ::
  "scheduling_policy \<Rightarrow> string \<Rightarrow> registry_admission \<Rightarrow> scheduling_command \<Rightarrow> scheduling_policy option
   \<Rightarrow> (scheduling_report \<times> scheduling_policy option) result" where
  "scheduling_run applied runtime_id adm request stored =
     rbind (scheduling_parse stored) (\<lambda>before.
     rbind (scheduling_edit request before) (\<lambda>saved.
     rbind (scheduling_validate saved) (\<lambda>_.
     Inr (\<lparr>rp_schema_version = 1, rp_report_type = ''coordinator_scheduling'', rp_success = True,
           rp_changed = (saved \<noteq> before), rp_saved_policy = saved, rp_applied_policy = applied,
           rp_restart_required = (saved \<noteq> applied), rp_execution_authorized = False,
           rp_dispatched = False, rp_scope = SCHEDULING_SCOPE, rp_note = SCHEDULING_NOTE,
           rp_runtime_id = runtime_id, rp_admission = adm\<rparr>,
          if saved \<noteq> before then Some saved else stored))))"

text \<open>The loop over the node counts of \<^verbatim>\<open>confirmed_report\<close>: the total, or a refusal.\<close>

primrec sum_nodes :: "string list \<Rightarrow> nat \<Rightarrow> node_count list \<Rightarrow> nat option" where
  "sum_nodes seen acc [] = Some acc"
| "sum_nodes seen acc (n # ns) =
     (if is_ok (validate_node_id (nc_node_id n)) \<and> nc_node_id n \<noteq> ''*'' \<and> nc_node_id n \<notin> set seen then
        (case checked_add acc (nc_in_flight n) of
           None \<Rightarrow> None
         | Some next \<Rightarrow> sum_nodes (nc_node_id n # seen) next ns)
      else None)"

primrec providers_named :: "(string \<times> string \<times> string) list \<Rightarrow> provider_count list \<Rightarrow> bool" where
  "providers_named seen [] = True"
| "providers_named seen (p # ps) =
     (let key = (pc_node_id p, pc_capability p, pc_action p) in
      is_ok (validate_node_id (pc_node_id p)) \<and> pc_node_id p \<noteq> ''*''
      \<and> pc_capability p \<noteq> [] \<and> length (pc_capability p) \<le> 64
      \<and> pc_action p \<noteq> [] \<and> length (pc_action p) \<le> 64
      \<and> pc_capability p \<notin> set [''llm.infer'', ''vlm.analyze''] \<and> key \<notin> set seen
      \<and> providers_named (key # seen) ps)"

definition admission_consistent :: "registry_admission \<Rightarrow> bool" where
  "admission_consistent a \<longleftrightarrow>
     length (ad_node_counts a) \<le> 256 \<and> length (ad_providers a) \<le> 512
     \<and> ad_retired_in_flight a \<le> ad_total_in_flight a
     \<and> (case sum_nodes [] 0 (ad_node_counts a) of
          None \<Rightarrow> False
        | Some acc \<Rightarrow> acc \<le> ad_total_in_flight a
            \<and> (ad_nodes_truncated a \<or> acc = ad_total_in_flight a))
     \<and> providers_named [] (ad_providers a)"

definition is_none_or :: "'a option \<Rightarrow> ('a \<Rightarrow> bool) \<Rightarrow> bool" where
  "is_none_or v P = (case v of None \<Rightarrow> True | Some x \<Rightarrow> P x)"

fun request_answered :: "scheduling_command \<Rightarrow> scheduling_report \<Rightarrow> bool" where
  "request_answered ShowPolicy r = (\<not> rp_changed r)"
| "request_answered (SetLimits fresh acc each) r =
     (is_none_or fresh (\<lambda>v. v = sp_freshness_seconds (rp_saved_policy r))
      \<and> is_none_or acc (\<lambda>v. v = sp_max_in_flight (rp_saved_policy r))
      \<and> is_none_or each (\<lambda>v. v = sp_per_provider_concurrency (rp_saved_policy r)))"
| "request_answered (SetNode node limit) r = (map_of (sp_node_limits (rp_saved_policy r)) node = Some limit)"
| "request_answered (RemoveNode node) r = (map_of (sp_node_limits (rp_saved_policy r)) node = None)"

definition confirmed_report :: "scheduling_report \<Rightarrow> string option \<Rightarrow> scheduling_command \<Rightarrow> bool" where
  "confirmed_report r runtime_id request \<longleftrightarrow>
     rp_schema_version r = 1 \<and> rp_report_type r = ''coordinator_scheduling'' \<and> rp_success r
     \<and> \<not> rp_execution_authorized r \<and> \<not> rp_dispatched r \<and> rp_scope r = SCHEDULING_SCOPE
     \<and> length (rp_note r) \<le> 2048 \<and> rp_runtime_id r \<noteq> [] \<and> length (rp_runtime_id r) \<le> 128
     \<and> is_none_or runtime_id (\<lambda>i. i = rp_runtime_id r)
     \<and> is_ok (scheduling_validate (rp_saved_policy r)) \<and> is_ok (scheduling_validate (rp_applied_policy r))
     \<and> rp_restart_required r = (rp_saved_policy r \<noteq> rp_applied_policy r)
     \<and> admission_consistent (rp_admission r) \<and> request_answered request r"

section \<open>Lemmas\<close>

lemma map_of_kv_del_same [simp]: "map_of (kv_del k m) k = None"
  by (simp add: map_of_kv_del)

lemma is_none_or_or_old [simp]: "is_none_or v (\<lambda>x. x = or_old v old)"
  by (cases v) (simp_all add: is_none_or_def or_old_def)

lemma edit_answered:
  assumes "scheduling_edit request before = Inr saved" and "rp_saved_policy r = saved"
    and "rp_changed r = (saved \<noteq> before)"
  shows "request_answered request r"
proof (cases request)
  case (SetLimits fresh acc each)
  have "saved = before\<lparr>sp_freshness_seconds := or_old fresh (sp_freshness_seconds before),
      sp_max_in_flight := or_old acc (sp_max_in_flight before),
      sp_per_provider_concurrency := or_old each (sp_per_provider_concurrency before)\<rparr>"
    using assms(1) SetLimits by simp
  then show ?thesis using SetLimits assms(2) by simp
next
  case (SetNode node limit)
  then have "saved = before\<lparr>sp_node_limits := btree_insert node limit (sp_node_limits before)\<rparr>"
    using assms(1) by simp
  then show ?thesis using SetNode assms(2) by (simp add: map_of_btree_insert)
next
  case (RemoveNode node)
  then have "saved = before\<lparr>sp_node_limits := kv_del node (sp_node_limits before)\<rparr>"
    using assms(1) by simp
  then show ?thesis using RemoveNode assms(2) by simp
qed (use assms in simp)

end
