(* ===== verification/Capability_Registry.thy ===== *)
theory Capability_Registry
  imports Scheduling_Policy
begin

text \<open>
  The coordinator's registry of capability providers (\<^verbatim>\<open>eef/capability.rs\<close>): registration and
  refresh of a node's providers, the choice of a provider for an operation, and the
  reservations that count operations in flight against the owner's ceilings.

  Every method takes the registry's lock once, so it is one atomic function of the state. The
  floating point score of a provider is an argument of the selection, as the integer by
  which \<^verbatim>\<open>total_cmp\<close> orders it; floats are kept by their bits.
\<close>

section \<open>Data\<close>

record node_specs =
  ns_cpu_cores :: nat
  ns_cpu_freq_mhz :: nat
  ns_ram_mb :: nat
  ns_gpu_model :: string
  ns_gpu_vram_mb :: nat
  ns_gpu_family :: string
  ns_storage_gb :: nat
  ns_network_mbps :: "64 word"

record capability_provider =
  cp_capability :: string
  cp_action :: string
  cp_node_id :: string
  cp_node_name :: string
  cp_version :: string
  cp_properties :: json
  cp_node_specs :: node_specs
  cp_load :: "64 word"
  cp_latency_ms :: "64 word"
  cp_priority :: int
  cp_healthy :: bool
  cp_in_flight :: nat
  cp_max_concurrent :: nat
  cp_last_heartbeat_ms :: nat

definition node_specs_default :: node_specs where
  "node_specs_default = \<lparr>ns_cpu_cores = 0, ns_cpu_freq_mhz = 0, ns_ram_mb = 0, ns_gpu_model = [],
     ns_gpu_vram_mb = 0, ns_gpu_family = [], ns_storage_gb = 0, ns_network_mbps = 0\<rparr>"

definition provider_local :: "nat \<Rightarrow> string \<Rightarrow> string \<Rightarrow> json \<Rightarrow> capability_provider" where
  "provider_local now cap action properties =
     \<lparr>cp_capability = cap, cp_action = action, cp_node_id = ''local'', cp_node_name = ''main'',
      cp_version = ''1.0'', cp_properties = properties, cp_node_specs = node_specs_default,
      cp_load = 0, cp_latency_ms = 0, cp_priority = 0, cp_healthy = True, cp_in_flight = 0,
      cp_max_concurrent = 0, cp_last_heartbeat_ms = now\<rparr>"

definition provider_accepts :: "capability_provider \<Rightarrow> string \<Rightarrow> bool" where
  "provider_accepts p action \<longleftrightarrow> cp_action p = ''*'' \<or> action = ''*'' \<or> cp_action p = action"

type_synonym registry_key = "string \<times> string \<times> string"

definition provider_key :: "capability_provider \<Rightarrow> registry_key" where
  "provider_key p = (cp_node_id p, cp_capability p, cp_action p)"

record reservation_member =
  rm_key :: registry_key
  rm_current :: bool

record registry =
  rg_entries :: "(string \<times> capability_provider list) list"
  rg_reservations :: "(string \<times> reservation_member list) list"

definition registry_empty :: registry where
  "registry_empty = \<lparr>rg_entries = [], rg_reservations = []\<rparr>"

definition entry :: "registry \<Rightarrow> string \<Rightarrow> capability_provider list" where
  "entry rg cap = (case map_of (rg_entries rg) cap of None \<Rightarrow> [] | Some ps \<Rightarrow> ps)"

definition providers :: "registry \<Rightarrow> capability_provider list" where
  "providers rg = concat (map snd (rg_entries rg))"

section \<open>Registration\<close>

text \<open>Members whose registration a change replaces no longer count against the new one.\<close>

definition retire_members :: "(registry_key \<Rightarrow> bool) \<Rightarrow> registry \<Rightarrow> registry" where
  "retire_members gone rg = rg\<lparr>rg_reservations := map (\<lambda>(i, ms).
     (i, map (\<lambda>m. if gone (rm_key m) then m\<lparr>rm_current := False\<rparr> else m) ms)) (rg_reservations rg)\<rparr>"

definition put_provider :: "capability_provider \<Rightarrow> registry \<Rightarrow> registry" where
  "put_provider p rg = rg\<lparr>rg_entries := btree_insert (cp_capability p)
     (filter (\<lambda>q. \<not> (cp_node_id q = cp_node_id p \<and> cp_action q = cp_action p)) (entry rg (cp_capability p)) @ [p])
     (rg_entries rg)\<rparr>"

definition register_provider :: "capability_provider \<Rightarrow> registry \<Rightarrow> registry" where
  "register_provider p rg = put_provider p (retire_members (\<lambda>k. k = provider_key p) rg)"

definition drop_node :: "string \<Rightarrow> registry \<Rightarrow> registry" where
  "drop_node node rg = rg\<lparr>rg_entries := filter (\<lambda>e. snd e \<noteq> [])
     (map (\<lambda>(c, ps). (c, filter (\<lambda>p. cp_node_id p \<noteq> node) ps)) (rg_entries rg))\<rparr>"

definition unregister_node :: "string \<Rightarrow> registry \<Rightarrow> registry" where
  "unregister_node node rg = drop_node node (retire_members (\<lambda>k. fst k = node) rg)"

text \<open>A refreshed provider keeps the counters and limits the scheduler owns.\<close>

definition carry_over :: "capability_provider option \<Rightarrow> capability_provider \<Rightarrow> capability_provider" where
  "carry_over old p =
     (case old of
        None \<Rightarrow> p
      | Some q \<Rightarrow> p\<lparr>cp_load := cp_load q, cp_latency_ms := cp_latency_ms q, cp_priority := cp_priority q,
                  cp_in_flight := cp_in_flight q, cp_max_concurrent := cp_max_concurrent q\<rparr>)"

text \<open>\<open>previous\<close> is the map of the node's providers by capability and action; a later one wins.\<close>

definition previous_provider :: "registry \<Rightarrow> string \<Rightarrow> capability_provider \<Rightarrow> capability_provider option" where
  "previous_provider rg node p = map_of (rev (map (\<lambda>q. ((cp_capability q, cp_action q), q))
     (filter (\<lambda>q. cp_node_id q = node) (providers rg)))) (cp_capability p, cp_action p)"

definition refresh_node :: "string \<Rightarrow> capability_provider list \<Rightarrow> registry \<Rightarrow> registry" where
  "refresh_node node replacements rg =
     (let mine = filter (\<lambda>p. cp_node_id p = node) replacements;
          retained = map provider_key mine in
      fold (\<lambda>p. put_provider (carry_over (previous_provider rg node p) p)) mine
        (retire_members (\<lambda>k. fst k = node \<and> k \<notin> set retained) (drop_node node rg)))"

section \<open>Metrics\<close>

text \<open>
  The IEEE order of two numbers that are not NaN is the order of these integers. The maximum
  of two zeros may be either of them in Rust; the model keeps the first.
\<close>

definition f64_key :: "64 word \<Rightarrow> int" where
  "f64_key w = (let n = unat w in if n < 2 ^ 63 then int n else - int (n - 2 ^ 63))"

definition f64_nan :: "64 word \<Rightarrow> bool" where
  "f64_nan w \<longleftrightarrow> \<bar>f64_key w\<bar> > 2047 * 2 ^ 52"

definition F64_ONE :: "64 word" where "F64_ONE = 0x3FF0000000000000"

definition clamp_unit :: "64 word \<Rightarrow> 64 word" where
  "clamp_unit w =
     (if f64_nan w then w else if f64_key w < 0 then 0 else if f64_key w > f64_key F64_ONE then F64_ONE else w)"

definition max_zero :: "64 word \<Rightarrow> 64 word" where
  "max_zero w = (if f64_nan w \<or> f64_key w < 0 then 0 else w)"

definition measured ::
  "string \<Rightarrow> 64 word \<Rightarrow> 64 word \<Rightarrow> node_specs option \<Rightarrow> nat \<Rightarrow> capability_provider \<Rightarrow> capability_provider" where
  "measured node load latency specs received p =
     (if cp_node_id p = node then
        (let q = p\<lparr>cp_load := clamp_unit load, cp_latency_ms := max_zero latency, cp_last_heartbeat_ms := received\<rparr>
         in case specs of None \<Rightarrow> q | Some s \<Rightarrow> q\<lparr>cp_node_specs := s\<rparr>)
      else p)"

definition update_metrics_at ::
  "string \<Rightarrow> 64 word \<Rightarrow> 64 word \<Rightarrow> node_specs option \<Rightarrow> nat \<Rightarrow> registry \<Rightarrow> registry" where
  "update_metrics_at node load latency specs received rg = rg\<lparr>rg_entries :=
     map (\<lambda>(c, ps). (c, map (measured node load latency specs received) ps)) (rg_entries rg)\<rparr>"

section \<open>Eligibility\<close>

definition provider_ceiling :: "capability_provider \<Rightarrow> scheduling_policy \<Rightarrow> nat" where
  "provider_ceiling p policy =
     (if cp_max_concurrent p = 0 then sp_per_provider_concurrency policy
      else if sp_per_provider_concurrency policy = 0 then cp_max_concurrent p
      else min (cp_max_concurrent p) (sp_per_provider_concurrency policy))"

definition stale :: "capability_provider \<Rightarrow> nat \<Rightarrow> nat \<Rightarrow> bool" where
  "stale p now freshness_ms \<longleftrightarrow> cp_node_id p \<noteq> ''local''
     \<and> saturating_sub now (cp_last_heartbeat_ms p) > freshness_ms"

text \<open>The node of a reservation is that of its first member, the root.\<close>

definition reservation_node :: "reservation_member list \<Rightarrow> string" where
  "reservation_node ms = fst (rm_key (hd ms))"

definition reservation_counts :: "registry \<Rightarrow> (string \<times> nat) list" where
  "reservation_counts rg = fold (\<lambda>r m. let node = reservation_node (snd r) in
     btree_insert node (Suc (case map_of m node of None \<Rightarrow> 0 | Some n \<Rightarrow> n)) m) (rg_reservations rg) []"

definition limit_of :: "(string \<times> nat) list \<Rightarrow> string \<Rightarrow> nat" where
  "limit_of m node = (case map_of m node of None \<Rightarrow> 0 | Some n \<Rightarrow> n)"

definition eligible :: "scheduling_policy \<Rightarrow> registry \<Rightarrow> string \<Rightarrow> string \<Rightarrow> capability_provider list" where
  "eligible policy rg cap action =
     (if sp_max_in_flight policy > 0 \<and> length (rg_reservations rg) \<ge> sp_max_in_flight policy then []
      else filter (\<lambda>p. let limit = limit_of (sp_node_limits policy) (cp_node_id p) in
             cp_healthy p \<and> provider_accepts p action
             \<and> (limit = 0 \<or> limit_of (reservation_counts rg) (cp_node_id p) < limit)) (entry rg cap))"

definition find_providers :: "registry \<Rightarrow> string \<Rightarrow> string \<Rightarrow> capability_provider list" where
  "find_providers rg cap action = filter (\<lambda>p. cp_healthy p \<and> provider_accepts p action) (entry rg cap)"

definition remote_provider_counts :: "registry \<Rightarrow> nat \<times> nat" where
  "remote_provider_counts rg =
     (let remote = filter (\<lambda>p. cp_node_id p \<noteq> ''local'') (providers rg) in
      (length remote, length (filter cp_healthy remote)))"

definition constraint_met :: "capability_provider \<Rightarrow> string \<Rightarrow> json \<Rightarrow> bool" where
  "constraint_met p key v =
     (if key = ''gpu'' then
        (case as_str v of None \<Rightarrow> False | Some gpu \<Rightarrow> gpu \<noteq> [] \<and> ns_gpu_family (cp_node_specs p) = gpu)
      else if key \<in> set [''gpu_vram_min_mb'', ''vram_min_mb''] then
        (case as_u64 v of None \<Rightarrow> False | Some n \<Rightarrow> ns_gpu_vram_mb (cp_node_specs p) \<ge> n)
      else if key = ''node_id'' then (case as_str v of None \<Rightarrow> False | Some i \<Rightarrow> cp_node_id p = i)
      else if key = ''node_name'' then (case as_str v of None \<Rightarrow> False | Some n \<Rightarrow> cp_node_name p = n)
      else if key = ''resource_id'' then
        as_str v \<noteq> None \<and> jget (cp_properties p) ''selected_resource_id'' = Some v
      else if key = ''area'' then as_array v \<noteq> None \<and> jget (cp_properties p) ''area'' = Some v
      else True)"

definition satisfies :: "capability_provider \<Rightarrow> json \<Rightarrow> bool" where
  "satisfies p constraints =
     (case constraints of
        JNull \<Rightarrow> True
      | JObject m \<Rightarrow> list_all (\<lambda>(k, v). constraint_met p k v) m
      | _ \<Rightarrow> False)"


section \<open>Selection\<close>

text \<open>A provider with resources of the capability stands for each of them that is available.\<close>

definition provider_resources :: "capability_provider \<Rightarrow> string \<Rightarrow> json list" where
  "provider_resources p cap =
     (case jget (cp_properties p) ''resources'' of
        Some (JArray rs) \<Rightarrow> filter (\<lambda>r. jindex r ''capability'' = JString cap) rs
      | _ \<Rightarrow> [])"

definition resource_candidate :: "capability_provider \<Rightarrow> json \<Rightarrow> capability_provider option" where
  "resource_candidate p r =
     (if jindex r ''available'' = JBool True then
        map_option (\<lambda>i. p\<lparr>cp_properties := jset (jset (cp_properties p) ''selected_resource_id''
          (JString (resource_id (cp_node_id p) i))) ''area'' (jindex r ''area'')\<rparr>) (as_str (jindex r ''id''))
      else None)"

definition provider_candidates :: "string \<Rightarrow> capability_provider \<Rightarrow> capability_provider list" where
  "provider_candidates cap p =
     (let rs = provider_resources p cap in
      if rs = [] then [p] else List.map_filter (resource_candidate p) rs)"

definition admissible :: "scheduling_policy \<Rightarrow> nat \<Rightarrow> json \<Rightarrow> capability_provider \<Rightarrow> bool" where
  "admissible policy now constraints p \<longleftrightarrow>
     (let ceiling = provider_ceiling p policy in
      \<not> stale p now (sp_freshness_seconds policy * 1000)
      \<and> (ceiling = 0 \<or> cp_in_flight p < ceiling) \<and> satisfies p constraints)"

text \<open>
  The five keys of the comparison: proximity (none without a context), the score, the local
  node first, the node and the selected resource.
\<close>

fun opt_less :: "('a \<Rightarrow> 'a \<Rightarrow> bool) \<Rightarrow> 'a option \<Rightarrow> 'a option \<Rightarrow> bool" where
  "opt_less lt None (Some _) = True"
| "opt_less lt (Some a) (Some b) = lt a b"
| "opt_less lt _ None = False"

definition pair_less :: "nat \<times> nat \<Rightarrow> nat \<times> nat \<Rightarrow> bool" where
  "pair_less a b \<longleftrightarrow> fst a < fst b \<or> (fst a = fst b \<and> snd a < snd b)"

text \<open>\<^verbatim>\<open>from_value::<Vec<String>>(..).unwrap_or_default()\<close>.\<close>

definition area_of :: "json \<Rightarrow> string list" where
  "area_of v = (case v of
     JArray vs \<Rightarrow> (if list_all (\<lambda>x. as_str x \<noteq> None) vs then map (\<lambda>x. the (as_str x)) vs else [])
   | _ \<Rightarrow> [])"

definition proximity :: "request_context option \<Rightarrow> capability_provider \<Rightarrow> (nat \<times> nat) option" where
  "proximity context p = map_option (\<lambda>c. locality c (cp_node_id p) (area_of (jindex (cp_properties p) ''area''))) context"

definition selected_resource :: "capability_provider \<Rightarrow> string option" where
  "selected_resource p = as_str (jindex (cp_properties p) ''selected_resource_id'')"

definition prefers ::
  "(capability_provider \<Rightarrow> int) \<Rightarrow> request_context option \<Rightarrow> capability_provider \<Rightarrow> capability_provider \<Rightarrow> bool" where
  "prefers score context l r \<longleftrightarrow>
     opt_less pair_less (proximity context l) (proximity context r)
     \<or> (proximity context l = proximity context r
        \<and> (score r < score l
           \<or> (score r = score l
              \<and> ((cp_node_id l = ''local'' \<and> cp_node_id r \<noteq> ''local'')
                 \<or> ((cp_node_id l = ''local'') = (cp_node_id r = ''local'')
                    \<and> (bytes_less (cp_node_id l) (cp_node_id r)
                       \<or> (cp_node_id l = cp_node_id r
                          \<and> opt_less bytes_less (selected_resource l) (selected_resource r))))))))"

text \<open>A stable sort; the code takes its first element.\<close>

fun insort_by :: "('a \<Rightarrow> 'a \<Rightarrow> bool) \<Rightarrow> 'a \<Rightarrow> 'a list \<Rightarrow> 'a list" where
  "insort_by lt x [] = [x]"
| "insort_by lt x (y # ys) = (if lt y x then y # insort_by lt x ys else x # y # ys)"

definition sort_by :: "('a \<Rightarrow> 'a \<Rightarrow> bool) \<Rightarrow> 'a list \<Rightarrow> 'a list" where
  "sort_by lt xs = foldr (insort_by lt) xs []"

definition select_provider ::
  "(capability_provider \<Rightarrow> int) \<Rightarrow> nat \<Rightarrow> capability_provider list \<Rightarrow> string \<Rightarrow> json \<Rightarrow> request_context option
   \<Rightarrow> scheduling_policy \<Rightarrow> capability_provider option" where
  "select_provider score now candidates cap constraints context policy =
     (case sort_by (prefers score context)
             (filter (admissible policy now constraints) (concat (map (provider_candidates cap) candidates))) of
        [] \<Rightarrow> None
      | p # _ \<Rightarrow> Some p)"

definition find_best_scoped ::
  "(capability_provider \<Rightarrow> int) \<Rightarrow> nat \<Rightarrow> scheduling_policy \<Rightarrow> registry \<Rightarrow> string \<Rightarrow> string \<Rightarrow> json
   \<Rightarrow> request_context option \<Rightarrow> string list option \<Rightarrow> capability_provider option" where
  "find_best_scoped score now policy rg cap action constraints context permitted =
     select_provider score now
       (filter (\<lambda>p. is_none_or permitted (\<lambda>nodes. cp_node_id p \<in> set nodes)) (eligible policy rg cap action))
       cap constraints context policy"

section \<open>Reservations\<close>

fun update_first :: "('a \<Rightarrow> bool) \<Rightarrow> ('a \<Rightarrow> 'a) \<Rightarrow> 'a list \<Rightarrow> 'a list" where
  "update_first P f [] = []"
| "update_first P f (x # xs) = (if P x then f x # xs else x # update_first P f xs)"

definition update_provider ::
  "registry_key \<Rightarrow> (capability_provider \<Rightarrow> capability_provider) \<Rightarrow> registry \<Rightarrow> registry" where
  "update_provider key f rg = rg\<lparr>rg_entries := map (\<lambda>(c, ps).
     (c, if c = fst (snd key) then update_first (\<lambda>p. provider_key p = key) f ps else ps)) (rg_entries rg)\<rparr>"

definition lookup_provider :: "registry \<Rightarrow> registry_key \<Rightarrow> capability_provider option" where
  "lookup_provider rg key = find (\<lambda>p. provider_key p = key) (entry rg (fst (snd key)))"

text \<open>
  The loop over the dependencies of a bundle: the keys of the providers it adds. The set of
  keys is a list without repetition; the code never observes its order beyond the root. Each
  selection reads the wall clock: \<open>clock n\<close> is its reading with \<open>n\<close> dependencies left.
\<close>

primrec bundle_keys ::
  "(capability_provider \<Rightarrow> int) \<Rightarrow> (nat \<Rightarrow> nat) \<Rightarrow> scheduling_policy \<Rightarrow> registry \<Rightarrow> request_context option
   \<Rightarrow> string \<Rightarrow> (string \<times> string \<times> json) list \<Rightarrow> registry_key list \<Rightarrow> registry_key list option" where
  "bundle_keys score clock policy rg context node [] keys = Some keys"
| "bundle_keys score clock policy rg context node (d # ds) keys =
     (let cap = fst d; action = fst (snd d); constraints = snd (snd d) in
      if as_str (jindex constraints ''node_id'') \<noteq> Some node then None
      else case select_provider score (clock (length ds)) (eligible policy rg cap action) cap constraints
                  context policy of
        None \<Rightarrow> None
      | Some c \<Rightarrow>
          if cp_node_id c \<noteq> node
             \<or> selected_resource c \<noteq> as_str (jindex constraints ''resource_id'') then None
          else bundle_keys score clock policy rg context node ds (List.insert (provider_key c) keys))"

definition can_increment :: "registry \<Rightarrow> registry_key \<Rightarrow> bool" where
  "can_increment rg key = (case lookup_provider rg key of None \<Rightarrow> False | Some p \<Rightarrow> cp_in_flight p + 1 \<le> u32_max)"

definition increment :: "registry_key \<Rightarrow> registry \<Rightarrow> registry" where
  "increment key = update_provider key (\<lambda>p. p\<lparr>cp_in_flight := cp_in_flight p + 1\<rparr>)"

text \<open>\<open>id\<close> is the new UUID of the reservation.\<close>

definition reserve_bundle ::
  "(capability_provider \<Rightarrow> int) \<Rightarrow> (nat \<Rightarrow> nat) \<Rightarrow> string \<Rightarrow> scheduling_policy \<Rightarrow> registry
   \<Rightarrow> string \<Rightarrow> string \<Rightarrow> json \<Rightarrow> request_context option \<Rightarrow> (string \<times> string \<times> json) list
   \<Rightarrow> (capability_provider \<times> registry) option" where
  "reserve_bundle score clock i policy rg cap action constraints context dependencies =
     (if length dependencies > MAX_STEPS then None
      else case select_provider score (clock (length dependencies)) (eligible policy rg cap action) cap
                  constraints context policy of
        None \<Rightarrow> None
      | Some root \<Rightarrow>
          (case bundle_keys score clock policy rg context (cp_node_id root) dependencies [provider_key root] of
             None \<Rightarrow> None
           | Some keys \<Rightarrow>
               if list_all (can_increment rg) keys then
                 (let order = provider_key root # filter (\<lambda>k. k \<noteq> provider_key root) keys;
                      rg' = fold increment order rg;
                      selected = root\<lparr>cp_in_flight := (case lookup_provider rg' (provider_key root) of
                        None \<Rightarrow> cp_in_flight root | Some p \<Rightarrow> cp_in_flight p)\<rparr> in
                  Some (selected, rg'\<lparr>rg_reservations := kv_put i
                    (map (\<lambda>k. \<lparr>rm_key = k, rm_current = True\<rparr>) order) (rg_reservations rg')\<rparr>))
               else None))"

text \<open>\<^verbatim>\<open>Drop for ProviderReservation\<close>.\<close>

definition decrement :: "registry_key \<Rightarrow> registry \<Rightarrow> registry" where
  "decrement key = update_provider key (\<lambda>p. p\<lparr>cp_in_flight := saturating_sub (cp_in_flight p) 1\<rparr>)"

definition release :: "string \<Rightarrow> registry \<Rightarrow> registry" where
  "release i rg =
     (case map_of (rg_reservations rg) i of
        None \<Rightarrow> rg
      | Some ms \<Rightarrow> fold decrement (map rm_key (filter rm_current ms))
          (rg\<lparr>rg_reservations := kv_del i (rg_reservations rg)\<rparr>))"

section \<open>Snapshot\<close>

definition admission_snapshot :: "scheduling_policy \<Rightarrow> registry \<Rightarrow> registry_admission" where
  "admission_snapshot policy rg =
     (let counts = reservation_counts rg;
          ps = filter (\<lambda>p. cp_capability p \<notin> set [''llm.infer'', ''vlm.analyze'']) (providers rg) in
      \<lparr>ad_total_in_flight = length (rg_reservations rg),
       ad_retired_in_flight = length (filter (\<lambda>r. list_ex (\<lambda>m. \<not> rm_current m) (snd r)) (rg_reservations rg)),
       ad_node_counts = map (\<lambda>(node, n). \<lparr>nc_node_id = node, nc_in_flight = n\<rparr>) (take 256 counts),
       ad_nodes_truncated = (length counts > 256),
       ad_providers = map (\<lambda>p. \<lparr>pc_node_id = cp_node_id p, pc_capability = cp_capability p, pc_action = cp_action p,
         pc_in_flight = cp_in_flight p, pc_effective = provider_ceiling p policy\<rparr>) (take 512 ps),
       ad_providers_truncated = (length ps > 512)\<rparr>)"

section \<open>Parameter schemas\<close>

definition type_matches :: "json \<Rightarrow> string \<Rightarrow> bool" where
  "type_matches v expected =
     (if expected = ''any'' then True
      else if expected = ''string'' then as_str v \<noteq> None
      else if expected = ''number'' then is_number v
      else if expected = ''integer'' then as_i64 v \<noteq> None \<or> as_u64 v \<noteq> None
      else if expected = ''boolean'' then (case v of JBool _ \<Rightarrow> True | _ \<Rightarrow> False)
      else if expected \<in> set [''dict'', ''object''] then is_object v
      else if expected \<in> set [''list'', ''array''] then as_array v \<noteq> None
      else True)"

text \<open>
  The rule of one parameter; a rule that is not an object names the type. An allowed value is
  compared by its representation (a float by its bits).
\<close>

definition schema_rule :: "json \<Rightarrow> json" where
  "schema_rule raw = (if is_object raw then raw else JObject [(''type'', raw)])"

definition bound_ok :: "(f64 \<Rightarrow> f64 \<Rightarrow> bool) \<Rightarrow> json option \<Rightarrow> json \<Rightarrow> bool" where
  "bound_ok ok bound v =
     (case as_f64 v of
        None \<Rightarrow> True
      | Some x \<Rightarrow> (case bound of None \<Rightarrow> True | Some b \<Rightarrow> is_none_or (as_f64 b) (\<lambda>y. ok x y)))"

definition param_ok :: "json \<Rightarrow> json option \<Rightarrow> bool" where
  "param_ok raw v =
     (let rule = schema_rule raw in
      if v = None \<or> v = Some JNull then jget rule ''required'' \<noteq> Some (JBool True)
      else
        let value = the v;
            expected = (case jget rule ''type'' of Some (JString t) \<Rightarrow> t | _ \<Rightarrow> ''any'') in
        type_matches value expected
        \<and> (case jget rule ''enum'' of Some (JArray allowed) \<Rightarrow> value \<in> set allowed | _ \<Rightarrow> True)
        \<and> bound_ok (\<lambda>x y. f64_le y x) (jget rule ''min'') value
        \<and> bound_ok (\<lambda>x y. f64_le x y) (jget rule ''max'') value)"

definition validate_schema_params :: "json option \<Rightarrow> json \<Rightarrow> unit result" where
  "validate_schema_params schema params =
     (case schema of
        Some (JObject rules) \<Rightarrow>
          ensure (list_all (\<lambda>(name, raw). param_ok raw (jget params name)) rules) (RegistryE ParamsInvalid) (Inr ())
      | _ \<Rightarrow> Inr ())"

definition validate_provider_params :: "capability_provider \<Rightarrow> json \<Rightarrow> unit result" where
  "validate_provider_params p params = validate_schema_params (jget (cp_properties p) ''params'') params"

end
