(* ===== verification/Registry_Store.thy ===== *)
theory Registry_Store
  imports Capability_Registry Machines
begin

text \<open>
  The registry's entries as a map from provider keys: what a lookup returns after every
  operation that changes the entries. The interface is a locale; its instance is the
  registry's nested lists.
\<close>

section \<open>The interface\<close>

text \<open>
  A store of keyed values: values are put, changed in place under their key, and removed by a
  property of the key.
\<close>

locale keyed_store =
  fixes invar :: "'s \<Rightarrow> bool"
    and look :: "'s \<Rightarrow> 'k \<Rightarrow> 'v option"
    and key :: "'v \<Rightarrow> 'k"
    and put :: "'v \<Rightarrow> 's \<Rightarrow> 's"
    and change :: "'k \<Rightarrow> ('v \<Rightarrow> 'v) \<Rightarrow> 's \<Rightarrow> 's"
  assumes look_key: "invar s \<Longrightarrow> look s k = Some v \<Longrightarrow> key v = k"
    and look_put: "invar s \<Longrightarrow> look (put v s) k = (if k = key v then Some v else look s k)"
    and invar_put: "invar s \<Longrightarrow> invar (put v s)"
    and look_change: "invar s \<Longrightarrow> (\<And>v. key (f v) = key v)
      \<Longrightarrow> look (change k f s) k' = (if k' = k then map_option f (look s k) else look s k')"
    and invar_change: "invar s \<Longrightarrow> (\<And>v. key (f v) = key v) \<Longrightarrow> invar (change k f s)"
begin

lemma look_change_fold:
  assumes f: "\<And>v. key (f v) = key v" and "distinct ks" and "invar s"
  shows "invar (fold (\<lambda>k. change k f) ks s)
    \<and> look (fold (\<lambda>k. change k f) ks s) k = (if k \<in> set ks then map_option f (look s k) else look s k)"
  using assms(2,3)
proof (induction ks arbitrary: s)
  case (Cons a ks)
  have "invar (change a f s)" using invar_change [OF Cons.prems(2)] f by blast
  with Cons.IH [of "change a f s"] Cons.prems show ?case
    by (auto simp: look_change [OF Cons.prems(2) f])
qed simp

lemma look_put_fold:
  assumes "invar s"
  shows "invar (fold put vs s)
    \<and> (\<forall>k. (k \<in> key ` set vs \<and> (\<exists>v \<in> set vs. key v = k \<and> look (fold put vs s) k = Some v))
          \<or> (k \<notin> key ` set vs \<and> look (fold put vs s) k = look s k))"
  using assms
proof (induction vs arbitrary: s)
  case (Cons v vs)
  have i: "invar (put v s)" using invar_put [OF Cons.prems] .
  note IH = Cons.IH [OF i]
  have "(k \<in> key ` set (v # vs) \<and> (\<exists>w \<in> set (v # vs). key w = k \<and> look (fold put (v # vs) s) k = Some w))
      \<or> (k \<notin> key ` set (v # vs) \<and> look (fold put (v # vs) s) k = look s k)" for k
    using IH [THEN conjunct2, rule_format, of k] look_put [OF Cons.prems, of v k] by auto
  then show ?case using IH by simp
qed auto

end

section \<open>Entries\<close>

definition entries_ok :: "registry \<Rightarrow> bool" where
  "entries_ok rg \<longleftrightarrow> sorted_wrt bytes_less (map fst (rg_entries rg))
     \<and> (\<forall>(c, ps) \<in> set (rg_entries rg). distinct (map provider_key ps) \<and> (\<forall>p \<in> set ps. cp_capability p = c))"

lemma entry_ok:
  assumes "entries_ok rg"
  shows "distinct (map provider_key (entry rg c))" and "p \<in> set (entry rg c) \<Longrightarrow> cp_capability p = c"
proof -
  consider "map_of (rg_entries rg) c = None" | ps where "map_of (rg_entries rg) c = Some ps" by fastforce
  then have "distinct (map provider_key (entry rg c)) \<and> (\<forall>p \<in> set (entry rg c). cp_capability p = c)"
    using assms by cases (auto simp: entry_def entries_ok_def dest!: map_of_SomeD)
  then show "distinct (map provider_key (entry rg c))" "p \<in> set (entry rg c) \<Longrightarrow> cp_capability p = c" by blast+
qed

lemma find_key:
  "distinct (map f xs) \<Longrightarrow> find (\<lambda>x. f x = k) xs = Some x \<longleftrightarrow> x \<in> set xs \<and> f x = k"
  by (induction xs) (auto simp: image_iff)

lemma lookup_iff:
  assumes "entries_ok rg"
  shows "lookup_provider rg k = Some p \<longleftrightarrow> p \<in> set (entry rg (fst (snd k))) \<and> provider_key p = k"
  using find_key [OF entry_ok(1) [OF assms]] by (simp add: lookup_provider_def)

lemma lookup_cong: "entry rg (fst (snd k)) = entry rg' (fst (snd k)) \<Longrightarrow> lookup_provider rg k = lookup_provider rg' k"
  by (simp add: lookup_provider_def)

lemma retire_entries [simp]: "rg_entries (retire_members g rg) = rg_entries rg"
  by (simp add: retire_members_def)

lemma entry_update [simp]: "entry (rg\<lparr>rg_reservations := rs\<rparr>) = entry rg"
  by (simp add: entry_def fun_eq_iff)

lemma retire_entry [simp]: "entry (retire_members g rg) = entry rg"
  by (simp add: entry_def fun_eq_iff)

lemma lookup_reservations [simp]:
  "lookup_provider (rg\<lparr>rg_reservations := rs\<rparr>) = lookup_provider rg"
  "lookup_provider (retire_members g rg) = lookup_provider rg"
  "entries_ok (rg\<lparr>rg_reservations := rs\<rparr>) = entries_ok rg" "entries_ok (retire_members g rg) = entries_ok rg"
  by (simp_all add: lookup_provider_def fun_eq_iff entries_ok_def)

subsection \<open>Putting a provider\<close>

lemma btree_insert_cases: "e \<in> set (btree_insert k v m) \<Longrightarrow> e = (k, v) \<or> e \<in> set m"
  by (induction k v m rule: btree_insert.induct) (auto split: if_splits)

lemma entry_put: "entry (put_provider p rg) c = (if c = cp_capability p
    then filter (\<lambda>q. \<not> (cp_node_id q = cp_node_id p \<and> cp_action q = cp_action p)) (entry rg c) @ [p] else entry rg c)"
  by (simp add: entry_def put_provider_def map_of_btree_insert)

lemma entries_ok_put:
  assumes "entries_ok rg"
  shows "entries_ok (put_provider p rg)"
proof -
  let ?ps = "filter (\<lambda>q. \<not> (cp_node_id q = cp_node_id p \<and> cp_action q = cp_action p)) (entry rg (cp_capability p)) @ [p]"
  have d: "distinct (map provider_key ?ps)"
    using entry_ok(1) [OF assms] by (simp add: distinct_map_filter image_iff provider_key_def) metis
  have c: "\<forall>q \<in> set ?ps. cp_capability q = cp_capability p" using entry_ok(2) [OF assms] by simp
  have r: "rg_entries (put_provider p rg) = btree_insert (cp_capability p) ?ps (rg_entries rg)"
    by (simp add: put_provider_def)
  have "distinct (map provider_key ps) \<and> (\<forall>q \<in> set ps. cp_capability q = c)"
    if "(c, ps) \<in> set (rg_entries (put_provider p rg))" for c ps
    using btree_insert_cases [OF that [unfolded r]] assms d c unfolding entries_ok_def by fast
  moreover have "sorted_wrt bytes_less (map fst (rg_entries (put_provider p rg)))"
    unfolding r using assms by (intro sorted_btree_insert) (simp add: entries_ok_def)
  ultimately show ?thesis unfolding entries_ok_def by blast
qed

lemma lookup_put:
  assumes "entries_ok rg"
  shows "lookup_provider (put_provider p rg) k = (if k = provider_key p then Some p else lookup_provider rg k)"
proof (cases "k = provider_key p")
  case True
  then show ?thesis
    using lookup_iff [OF entries_ok_put [OF assms], of p k p] by (simp add: entry_put provider_key_def)
next
  case False
  have "lookup_provider (put_provider p rg) k = Some q \<longleftrightarrow> lookup_provider rg k = Some q" for q
    using lookup_iff [OF entries_ok_put [OF assms], of p k q] lookup_iff [OF assms, of k q] False
      entry_ok(2) [OF assms, of q "fst (snd k)"]
    by (auto simp: entry_put provider_key_def)
  then show ?thesis using False by (metis option.exhaust)
qed

subsection \<open>Changing a provider\<close>

lemma map_update_first:
  assumes "\<And>x. k (f x) = k x"
  shows "map k (update_first P f xs) = map k xs"
  using assms by (induction xs) auto

lemma map_of_map_snd: "map_of (map (\<lambda>(c, ps). (c, g c ps)) m) c = map_option (g c) (map_of m c)"
  by (induction m) auto

lemma entry_change:
  "entry (update_provider key f rg) c =
     (if c = fst (snd key) then update_first (\<lambda>p. provider_key p = key) f (entry rg c) else entry rg c)"
  by (simp add: entry_def update_provider_def map_of_map_snd split: option.splits)

lemma find_update_first:
  assumes "\<And>x. k (f x) = k x"
  shows "find (\<lambda>x. k x = b) (update_first (\<lambda>x. k x = a) f xs)
    = (if b = a then map_option f (find (\<lambda>x. k x = a) xs) else find (\<lambda>x. k x = b) xs)"
  using assms by (induction xs) auto

lemma lookup_change:
  assumes "\<And>p. provider_key (f p) = provider_key p"
  shows "lookup_provider (update_provider key f rg) k =
    (if k = key then map_option f (lookup_provider rg key) else lookup_provider rg k)"
  using find_update_first [of provider_key f, OF assms]
  by (simp add: lookup_provider_def entry_change)

lemma set_update_first: "x \<in> set (update_first P f xs) \<Longrightarrow> x \<in> set xs \<or> (\<exists>y \<in> set xs. x = f y)"
  by (induction xs) (auto split: if_splits)

lemma entries_ok_change:
  assumes "entries_ok rg" and f: "\<And>p. provider_key (f p) = provider_key p"
  shows "entries_ok (update_provider key f rg)"
proof -
  have "cp_capability (f p) = cp_capability p" for p using f [of p] by (simp add: provider_key_def)
  then show ?thesis
    using assms(1) unfolding entries_ok_def update_provider_def
    by (auto simp: map_update_first [of provider_key f, OF f] comp_def case_prod_beta dest!: set_update_first)
qed

interpretation store: keyed_store entries_ok lookup_provider provider_key put_provider update_provider
  by unfold_locales
     (auto simp: lookup_iff lookup_put entries_ok_put lookup_change entries_ok_change)

subsection \<open>Dropping a node\<close>

lemma map_of_drop_empty:
  "distinct (map fst m)
   \<Longrightarrow> (case map_of (filter (\<lambda>e. snd e \<noteq> []) (map (\<lambda>(c, ps). (c, g ps)) m)) c of None \<Rightarrow> [] | Some ps \<Rightarrow> ps)
     = (case map_of m c of None \<Rightarrow> [] | Some ps \<Rightarrow> g ps)"
proof (induction m)
  case (Cons e m)
  obtain d ps where e: "e = (d, ps)" by (cases e)
  have "map_of (filter (\<lambda>e. snd e \<noteq> []) (map (\<lambda>(c, ps). (c, g ps)) m)) d = None"
    using Cons.prems e by (force simp: map_of_eq_None_iff)
  then show ?case using Cons.IH Cons.prems e by (cases "c = d") simp_all
qed simp

lemma entry_drop:
  assumes "entries_ok rg"
  shows "entry (drop_node node rg) c = filter (\<lambda>p. cp_node_id p \<noteq> node) (entry rg c)"
  using map_of_drop_empty [of "rg_entries rg" "filter (\<lambda>p. cp_node_id p \<noteq> node)" c] assms sorted_keys_distinct
  by (auto simp: entry_def drop_node_def entries_ok_def split: option.splits)

lemma sorted_map_filter: "sorted_wrt R (map f xs) \<Longrightarrow> sorted_wrt R (map f (filter P xs))"
  by (induction xs) auto

lemma entries_ok_drop:
  assumes "entries_ok rg"
  shows "entries_ok (drop_node node rg)"
proof -
  let ?m = "map (\<lambda>(c, ps). (c, filter (\<lambda>p. cp_node_id p \<noteq> node) ps)) (rg_entries rg)"
  have "map fst ?m = map fst (rg_entries rg)" by (simp add: case_prod_beta comp_def)
  then have "sorted_wrt bytes_less (map fst ?m)" using assms unfolding entries_ok_def by metis
  from sorted_map_filter [OF this, of "\<lambda>e. snd e \<noteq> []"]
  have "sorted_wrt bytes_less (map fst (rg_entries (drop_node node rg)))" by (simp add: drop_node_def)
  then show ?thesis
    using assms unfolding entries_ok_def by (auto simp: drop_node_def distinct_map_filter)
qed

lemma lookup_drop:
  assumes "entries_ok rg"
  shows "lookup_provider (drop_node node rg) k = (if fst k = node then None else lookup_provider rg k)"
proof -
  have "lookup_provider (drop_node node rg) k = Some p \<longleftrightarrow> fst k \<noteq> node \<and> lookup_provider rg k = Some p" for p
    using lookup_iff [OF entries_ok_drop [OF assms]] lookup_iff [OF assms]
    by (auto simp: entry_drop [OF assms] provider_key_def)
  then show ?thesis by (metis option.exhaust)
qed

subsection \<open>Metrics\<close>

lemma key_measured [simp]: "provider_key (measured node load lat specs t p) = provider_key p"
  by (simp add: measured_def provider_key_def Let_def split: option.splits)

lemma capability_measured [simp]: "cp_capability (measured node load lat specs t p) = cp_capability p"
  by (simp add: measured_def Let_def split: option.splits)

lemma entry_metrics: "entry (update_metrics_at node load lat specs t rg) c = map (measured node load lat specs t) (entry rg c)"
  using map_of_map_snd [of "\<lambda>_. map (measured node load lat specs t)" "rg_entries rg" c]
  by (simp add: entry_def update_metrics_at_def split: option.splits)

lemma entries_ok_metrics: "entries_ok rg \<Longrightarrow> entries_ok (update_metrics_at node load lat specs t rg)"
  unfolding entries_ok_def update_metrics_at_def
  by (auto simp: case_prod_beta comp_def)

lemma find_map: "(\<And>x. P (f x) = P x) \<Longrightarrow> find P (map f xs) = map_option f (find P xs)"
  by (induction xs) auto

lemma lookup_metrics:
  "lookup_provider (update_metrics_at node load lat specs t rg) k
   = map_option (measured node load lat specs t) (lookup_provider rg k)"
  by (simp add: lookup_provider_def entry_metrics find_map)

subsection \<open>Refresh\<close>

lemma set_providers: "entries_ok rg \<Longrightarrow> p \<in> set (providers rg) \<longleftrightarrow> p \<in> set (entry rg (cp_capability p))"
proof -
  assume ok: "entries_ok rg"
  have d: "distinct (map fst (rg_entries rg))" using ok by (simp add: entries_ok_def sorted_keys_distinct)
  have "(c, ps) \<in> set (rg_entries rg) \<Longrightarrow> p \<in> set ps \<Longrightarrow> c = cp_capability p" for c ps
    using ok unfolding entries_ok_def by fast
  then show ?thesis
    using d by (auto simp: providers_def entry_def dest: map_of_SomeD split: option.splits) force+
qed

lemma lookup_providers:
  "entries_ok rg \<Longrightarrow> p \<in> set (providers rg) \<longleftrightarrow> lookup_provider rg (provider_key p) = Some p"
  by (simp add: set_providers lookup_iff provider_key_def)

lemma previous_is_lookup:
  assumes "entries_ok rg" and "cp_node_id p = node"
  shows "previous_provider rg node p = lookup_provider rg (provider_key p)"
proof -
  let ?l = "rev (map (\<lambda>q. ((cp_capability q, cp_action q), q)) (filter (\<lambda>q. cp_node_id q = node) (providers rg)))"
  have a: "map_of ?l (cp_capability p, cp_action p) = Some q \<Longrightarrow> lookup_provider rg (provider_key p) = Some q" for q
    using lookup_providers [OF assms(1), of q] assms(2) by (auto dest!: map_of_SomeD simp: provider_key_def)
  have b: "map_of ?l (cp_capability p, cp_action p) = None \<Longrightarrow> lookup_provider rg (provider_key p) = None"
  proof (rule ccontr)
    assume n: "map_of ?l (cp_capability p, cp_action p) = None" and "lookup_provider rg (provider_key p) \<noteq> None"
    then obtain q where q: "lookup_provider rg (provider_key p) = Some q" by blast
    have k: "provider_key q = provider_key p" using lookup_iff [OF assms(1)] q by blast
    with q have "q \<in> set (providers rg)" using lookup_providers [OF assms(1), of q] by simp
    then have "((cp_capability p, cp_action p), q) \<in> set ?l" using k assms(2)
      by (simp add: provider_key_def image_iff)
    from weak_map_of_SomeI [OF this] show False using n by (elim exE) simp
  qed
  show ?thesis using a b by (cases "map_of ?l (cp_capability p, cp_action p)") (simp_all add: previous_provider_def)
qed

lemma key_carry_over [simp]: "provider_key (carry_over old p) = provider_key p"
  by (simp add: carry_over_def provider_key_def split: option.splits)

lemma fold_map_eq: "fold (\<lambda>x. f (g x)) xs = fold f (map g xs)"
  by (induction xs) auto

text \<open>
  After a refresh the node has the providers it reported, the last of them under each key,
  with what the scheduler owns of the one registered before; other nodes keep theirs.
\<close>

lemma lookup_refresh:
  fixes rg :: registry and node replacements
  assumes ok: "entries_ok rg"
  defines "mine \<equiv> filter (\<lambda>p. cp_node_id p = node) replacements"
  defines "after \<equiv> refresh_node node replacements rg"
  shows "entries_ok after
    \<and> (fst k \<noteq> node \<longrightarrow> lookup_provider after k = lookup_provider rg k)
    \<and> (fst k = node \<longrightarrow> (if k \<in> provider_key ` set mine
         then \<exists>p \<in> set mine. provider_key p = k \<and> lookup_provider after k = Some (carry_over (lookup_provider rg k) p)
         else lookup_provider after k = None))"
proof -
  let ?g = "\<lambda>p. carry_over (previous_provider rg node p) p"
  let ?s = "retire_members (\<lambda>k. fst k = node \<and> k \<notin> set (map provider_key mine)) (drop_node node rg)"
  have s: "entries_ok ?s" using entries_ok_drop [OF ok] by simp
  have after: "after = fold put_provider (map ?g mine) ?s"
    unfolding after_def refresh_node_def Let_def mine_def by (simp only: fold_map_eq [of put_provider ?g])
  have g: "p \<in> set mine \<Longrightarrow> ?g p = carry_over (lookup_provider rg (provider_key p)) p" for p
    using previous_is_lookup [OF ok, of p node] by (simp add: mine_def)
  have n: "p \<in> set mine \<Longrightarrow> fst (provider_key p) = node" for p by (simp add: mine_def provider_key_def)
  have keys: "provider_key ` set (map ?g mine) = provider_key ` set mine" by (simp add: image_image)
  note F = store.look_put_fold [OF s, of "map ?g mine", folded after]
  from F [THEN conjunct2, rule_format, of k] show ?thesis
  proof (elim disjE conjE)
    assume k: "k \<in> provider_key ` set (map ?g mine)"
      and ex: "\<exists>v \<in> set (map ?g mine). provider_key v = k \<and> lookup_provider after k = Some v"
    then have "fst k = node" "k \<in> provider_key ` set mine" using keys n by auto
    with ex show ?thesis using F [THEN conjunct1] g by auto
  next
    assume k: "k \<notin> provider_key ` set (map ?g mine)" and "lookup_provider after k = lookup_provider ?s k"
    then have "k \<notin> provider_key ` set mine" "lookup_provider after k = (if fst k = node then None else lookup_provider rg k)"
      using keys lookup_drop [OF ok] by simp_all
    then show ?thesis using F [THEN conjunct1] by simp
  qed
qed

end
