(* ===== verification/Registry_Invariant.thy ===== *)
theory Registry_Invariant
  imports Registry_Store
begin

text \<open>
  The reservations of the registry: every counter of a provider is the number of reservations
  that hold its current registration, and the owner's ceilings hold in every state the
  coordinator's operations reach.
\<close>

section \<open>Counting reservations\<close>

definition member_uses :: "reservation_member list \<Rightarrow> registry_key \<Rightarrow> nat" where
  "member_uses ms k = length (filter (\<lambda>m. rm_current m \<and> rm_key m = k) ms)"

definition uses :: "(string \<times> reservation_member list) list \<Rightarrow> registry_key \<Rightarrow> nat" where
  "uses rs k = sum_list (map (\<lambda>r. member_uses (snd r) k) rs)"

definition held_at :: "(string \<times> reservation_member list) list \<Rightarrow> string \<Rightarrow> nat" where
  "held_at rs node = length (filter (\<lambda>r. reservation_node (snd r) = node) rs)"

definition in_use :: "registry \<Rightarrow> registry_key \<Rightarrow> nat" where
  "in_use rg k = (case lookup_provider rg k of None \<Rightarrow> 0 | Some p \<Rightarrow> cp_in_flight p)"

lemma reservations_unchanged [simp]:
  "rg_reservations (put_provider p rg) = rg_reservations rg"
  "rg_reservations (drop_node node rg) = rg_reservations rg"
  "rg_reservations (update_provider k f rg) = rg_reservations rg"
  "rg_reservations (update_metrics_at node load lat specs t rg) = rg_reservations rg"
  by (simp_all add: put_provider_def drop_node_def update_provider_def update_metrics_at_def)

lemma reservations_fold [simp]:
  "(\<And>x rg. rg_reservations (f x rg) = rg_reservations rg) \<Longrightarrow> rg_reservations (fold f xs rg) = rg_reservations rg"
  by (induction xs arbitrary: rg) simp_all

lemma limit_of_reservation_counts: "limit_of (reservation_counts rg) node = held_at (rg_reservations rg) node"
proof -
  have "limit_of (fold (\<lambda>r m. let node = reservation_node (snd r) in
      btree_insert node (Suc (case map_of m node of None \<Rightarrow> 0 | Some n \<Rightarrow> n)) m) rs m) node
    = limit_of m node + held_at rs node" for rs m
    by (induction rs arbitrary: m)
       (simp_all add: held_at_def limit_of_def map_of_btree_insert Let_def split: option.splits)
  from this [of "rg_reservations rg" "[]"] show ?thesis by (simp add: reservation_counts_def limit_of_def)
qed

subsection \<open>Retiring members\<close>

lemma member_uses_simps [simp]:
  "member_uses [] k = 0"
  "member_uses (m # ms) k = (if rm_current m \<and> rm_key m = k then Suc (member_uses ms k) else member_uses ms k)"
  by (simp_all add: member_uses_def)

lemma member_uses_retire:
  "member_uses (map (\<lambda>m. if g (rm_key m) then m\<lparr>rm_current := False\<rparr> else m) ms) k
   = (if g k then 0 else member_uses ms k)"
  by (induction ms) auto

lemma uses_retire: "uses (rg_reservations (retire_members g rg)) k = (if g k then 0 else uses (rg_reservations rg) k)"
  unfolding uses_def retire_members_def
  by (simp add: comp_def case_prod_beta member_uses_retire)

lemma node_retire:
  "reservation_node (map (\<lambda>m. if g (rm_key m) then m\<lparr>rm_current := False\<rparr> else m) ms) = reservation_node ms"
  by (cases ms) (simp_all add: reservation_node_def)

lemma held_at_retire: "held_at (rg_reservations (retire_members g rg)) node = held_at (rg_reservations rg) node"
  by (simp add: held_at_def retire_members_def filter_map comp_def case_prod_beta node_retire)

lemma length_retire: "length (rg_reservations (retire_members g rg)) = length (rg_reservations rg)"
  by (simp add: retire_members_def)

subsection \<open>Adding and removing a reservation\<close>

lemma kv_del_fresh: "map_of m i = None \<Longrightarrow> kv_del i m = m"
  by (auto simp: kv_del_def map_of_eq_None_iff filter_id_conv)

lemma uses_put: "map_of rs i = None \<Longrightarrow> uses (kv_put i ms rs) k = member_uses ms k + uses rs k"
  by (simp add: uses_def kv_put_def kv_del_fresh)

lemma held_at_put:
  "map_of rs i = None \<Longrightarrow> held_at (kv_put i ms rs) node = (if reservation_node ms = node then 1 else 0) + held_at rs node"
  by (simp add: held_at_def kv_put_def kv_del_fresh)

lemma length_put_fresh: "map_of rs i = None \<Longrightarrow> length (kv_put i ms rs) = Suc (length rs)"
  by (simp add: kv_put_def kv_del_fresh)

lemma kv_del_Cons: "kv_del i (e # m) = (if fst e = i then kv_del i m else e # kv_del i m)"
  by (simp add: kv_del_def)

lemma uses_del:
  "distinct (map fst rs) \<Longrightarrow> map_of rs i = Some ms \<Longrightarrow> uses rs k = member_uses ms k + uses (kv_del i rs) k"
proof (induction rs)
  case (Cons r rs)
  show ?case
  proof (cases "fst r = i")
    case True
    then have "map_of rs i = None" using Cons.prems(1) by (simp add: map_of_eq_None_iff)
    then show ?thesis using Cons.prems(2) True by (cases r) (simp add: uses_def kv_del_Cons kv_del_fresh)
  next
    case False
    then show ?thesis using Cons by (cases r) (simp add: uses_def kv_del_Cons)
  qed
qed simp

lemma length_filter_mono: "(\<And>x. P x \<Longrightarrow> Q x) \<Longrightarrow> length (filter P xs) \<le> length (filter Q xs)"
  by (induction xs) auto

lemma held_at_del: "held_at (kv_del i rs) node \<le> held_at rs node"
  by (simp add: held_at_def kv_del_def filter_filter) (intro length_filter_mono, simp)

lemma member_uses_distinct:
  "distinct (map rm_key ms) \<Longrightarrow> member_uses ms k = (if k \<in> rm_key ` {m \<in> set ms. rm_current m} then 1 else 0)"
proof (induction ms)
  case (Cons m ms)
  have "rm_key m = k \<Longrightarrow> member_uses ms k = 0" using Cons by auto
  then show ?case using Cons by auto
qed simp

lemma uses_le_length:
  assumes "\<And>i ms. (i, ms) \<in> set rs \<Longrightarrow> distinct (map rm_key ms)"
  shows "uses rs k \<le> length rs"
  using assms
proof (induction rs)
  case (Cons r rs)
  have "member_uses (snd r) k \<le> 1" using Cons.prems [of "fst r" "snd r"] by (simp add: member_uses_distinct)
  moreover have "uses rs k \<le> length rs" using Cons by (meson list.set_intros(2))
  ultimately show ?case by (simp add: uses_def)
qed (simp add: uses_def)

section \<open>The invariant\<close>

definition bundle_ok :: "reservation_member list \<Rightarrow> bool" where
  "bundle_ok ms \<longleftrightarrow> ms \<noteq> [] \<and> distinct (map rm_key ms) \<and> (\<forall>m \<in> set ms. fst (rm_key m) = reservation_node ms)"

definition reservations_ok :: "(string \<times> reservation_member list) list \<Rightarrow> bool" where
  "reservations_ok rs \<longleftrightarrow> distinct (map fst rs) \<and> (\<forall>(i, ms) \<in> set rs. bundle_ok ms)"

definition counters_exact :: "registry \<Rightarrow> bool" where
  "counters_exact rg \<longleftrightarrow> (\<forall>k. in_use rg k = uses (rg_reservations rg) k)"

definition below :: "nat \<Rightarrow> nat \<Rightarrow> bool" where
  "below n limit \<longleftrightarrow> limit = 0 \<or> n \<le> limit"

definition providers_below :: "scheduling_policy \<Rightarrow> registry \<Rightarrow> bool" where
  "providers_below policy rg \<longleftrightarrow>
     (\<forall>k p. lookup_provider rg k = Some p \<longrightarrow> below (cp_in_flight p) (provider_ceiling p policy))"

definition reservations_below :: "scheduling_policy \<Rightarrow> (string \<times> reservation_member list) list \<Rightarrow> bool" where
  "reservations_below policy rs \<longleftrightarrow> below (length rs) (sp_max_in_flight policy)
     \<and> (\<forall>node. below (held_at rs node) (limit_of (sp_node_limits policy) node))"

definition registry_ok :: "scheduling_policy \<Rightarrow> registry \<Rightarrow> bool" where
  "registry_ok policy rg \<longleftrightarrow> entries_ok rg \<and> reservations_ok (rg_reservations rg) \<and> counters_exact rg
     \<and> providers_below policy rg \<and> reservations_below policy (rg_reservations rg)"

lemma registry_okI:
  assumes "entries_ok rg" "reservations_ok (rg_reservations rg)" "counters_exact rg" "providers_below policy rg"
    "reservations_below policy (rg_reservations rg)"
  shows "registry_ok policy rg"
  using assms by (simp add: registry_ok_def)

lemma registry_okD:
  assumes "registry_ok policy rg"
  shows "entries_ok rg" "reservations_ok (rg_reservations rg)" "counters_exact rg" "providers_below policy rg"
    "reservations_below policy (rg_reservations rg)"
  using assms by (simp_all add: registry_ok_def)

lemma providers_belowD:
  "providers_below policy rg \<Longrightarrow> lookup_provider rg k = Some p \<Longrightarrow> below (cp_in_flight p) (provider_ceiling p policy)"
  unfolding providers_below_def by metis

lemma counters_exactD: "counters_exact rg \<Longrightarrow> in_use rg k = uses (rg_reservations rg) k"
  unfolding counters_exact_def by metis

lemma reservations_okD:
  assumes "reservations_ok rs"
  shows "distinct (map fst rs)" and "(i, ms) \<in> set rs \<Longrightarrow> bundle_ok ms"
  using assms unfolding reservations_ok_def by fast+

lemma below_mono: "below n limit \<Longrightarrow> m \<le> n \<Longrightarrow> below m limit"
  by (auto simp: below_def)

lemma empty_registry_ok: "registry_ok policy registry_empty"
  by (simp add: registry_ok_def registry_empty_def entries_ok_def reservations_ok_def counters_exact_def in_use_def
      lookup_provider_def entry_def uses_def providers_below_def reservations_below_def below_def held_at_def)

text \<open>What retiring members keeps, whatever the entries become.\<close>

lemma bundle_ok_retire: "bundle_ok ms \<Longrightarrow> bundle_ok (map (\<lambda>m. if g (rm_key m) then m\<lparr>rm_current := False\<rparr> else m) ms)"
proof -
  assume ok: "bundle_ok ms"
  have "map rm_key (map (\<lambda>m. if g (rm_key m) then m\<lparr>rm_current := False\<rparr> else m) ms) = map rm_key ms" by simp
  then have "distinct (map rm_key (map (\<lambda>m. if g (rm_key m) then m\<lparr>rm_current := False\<rparr> else m) ms))"
    using ok unfolding bundle_ok_def by metis
  then show ?thesis using ok unfolding bundle_ok_def node_retire by auto
qed

lemma reservations_ok_retire:
  assumes "reservations_ok (rg_reservations rg)"
  shows "reservations_ok (rg_reservations (retire_members g rg))"
  using assms bundle_ok_retire unfolding reservations_ok_def retire_members_def
  by (auto simp: case_prod_beta comp_def)

lemma reservations_below_retire:
  "reservations_below policy (rg_reservations rg) \<Longrightarrow> reservations_below policy (rg_reservations (retire_members g rg))"
  by (simp add: reservations_below_def length_retire held_at_retire)

end
