(* ===== verification/Registry_Selection.thy ===== *)
theory Registry_Selection
  imports Registry_Store "HOL-Library.Product_Lexorder" "HOL-Library.Option_ord" "HOL-Library.List_Lexorder"
begin

text \<open>
  The choice of a provider: the comparison of the code is the order of one key, so the first
  element of the sorted candidates is a least one, and what is chosen comes from a registered
  provider that passed every filter.
\<close>

section \<open>The order of candidates\<close>

type_synonym rank = "(nat \<times> nat) option \<times> int \<times> bool \<times> nat list \<times> nat list option"

definition rank ::
  "(capability_provider \<Rightarrow> int) \<Rightarrow> request_context option \<Rightarrow> capability_provider \<Rightarrow> rank" where
  "rank score context p =
     (proximity context p, - score p, cp_node_id p \<noteq> ''local'', map byte (cp_node_id p),
      map_option (map byte) (selected_resource p))"

lemma bytes_less_list: "bytes_less s t \<longleftrightarrow> map byte s < map byte t"
  by (induction s t rule: bytes_less.induct) auto

lemma inj_byte: "inj byte"
  by (auto simp: inj_def byte_def)

lemma opt_less_pair: "opt_less pair_less a b \<longleftrightarrow> a < b"
  by (cases a; cases b) (auto simp: pair_less_def less_prod_def)

lemma opt_less_bytes: "opt_less bytes_less a b \<longleftrightarrow> map_option (map byte) a < map_option (map byte) b"
  by (cases a; cases b) (auto simp: bytes_less_list)

lemma prefers_is_rank: "prefers score context l r \<longleftrightarrow> rank score context l < rank score context r"
  unfolding prefers_def rank_def opt_less_pair opt_less_bytes bytes_less_list
  by (auto simp: less_prod_def' map_injective inj_byte inj_eq)

lemma set_insort_by [simp]: "set (insort_by lt x xs) = insert x (set xs)"
  by (induction xs) auto

lemma set_sort_by [simp]: "set (sort_by lt xs) = set xs"
  by (induction xs) (auto simp: sort_by_def)

lemma sort_by_empty [simp]: "sort_by lt xs = [] \<longleftrightarrow> xs = []"
  using set_sort_by [of lt xs] by (metis set_empty)

lemma sorted_insort_by:
  fixes f :: "'a \<Rightarrow> 'b::linorder"
  assumes "\<And>x y. lt x y \<longleftrightarrow> f x < f y"
  shows "sorted (map f xs) \<Longrightarrow> sorted (map f (insort_by lt x xs))"
  by (induction xs) (auto simp: assms)

lemma sorted_sort_by:
  fixes f :: "'a \<Rightarrow> 'b::linorder"
  assumes "\<And>x y. lt x y \<longleftrightarrow> f x < f y"
  shows "sorted (map f (sort_by lt xs))"
  using sorted_insort_by [of lt f, OF assms] by (induction xs) (auto simp: sort_by_def)

section \<open>What is chosen\<close>

lemma candidate_of_provider:
  "c \<in> set (provider_candidates cap p) \<Longrightarrow> \<exists>props. c = p\<lparr>cp_properties := props\<rparr>"
  by (auto simp: provider_candidates_def Let_def resource_candidate_def List.map_filter_def
      split: if_splits intro: exI [of _ "cp_properties p"])

definition pool ::
  "scheduling_policy \<Rightarrow> nat \<Rightarrow> string \<Rightarrow> json \<Rightarrow> capability_provider list \<Rightarrow> capability_provider list" where
  "pool policy now cap constraints candidates =
     filter (admissible policy now constraints) (concat (map (provider_candidates cap) candidates))"

lemma select_least:
  assumes "select_provider score now candidates cap constraints context policy = Some c"
  shows "c \<in> set (pool policy now cap constraints candidates)
    \<and> (\<forall>q \<in> set (pool policy now cap constraints candidates). rank score context c \<le> rank score context q)"
proof -
  let ?s = "sort_by (prefers score context) (pool policy now cap constraints candidates)"
  obtain cs where s: "?s = c # cs"
    using assms by (auto simp: select_provider_def pool_def split: list.splits)
  have "sorted (map (rank score context) ?s)" by (rule sorted_sort_by) (rule prefers_is_rank)
  then have "\<forall>q \<in> set ?s. rank score context c \<le> rank score context q" unfolding s by simp
  moreover have "c \<in> set ?s" unfolding s by simp
  ultimately show ?thesis by simp
qed

lemma select_none:
  "select_provider score now candidates cap constraints context policy = None
   \<longleftrightarrow> pool policy now cap constraints candidates = []"
  by (simp add: select_provider_def pool_def split: list.split)
     (metis list.discI sort_by_empty)

lemma set_pool:
  "c \<in> set (pool policy now cap constraints candidates)
   \<longleftrightarrow> (\<exists>p \<in> set candidates. c \<in> set (provider_candidates cap p)) \<and> admissible policy now constraints c"
  by (auto simp: pool_def)

end
