(* ===== verification/Registry_Steps.thy ===== *)
theory Registry_Steps
  imports Registry_Invariant Registry_Selection
begin

text \<open>
  The operations on the registry as steps of a state machine, and that each of them keeps the
  invariant of the reservations.
\<close>

section \<open>Registration\<close>

lemma register_ok:
  assumes ok: "registry_ok policy rg" and zero: "cp_in_flight p = 0"
  shows "registry_ok policy (register_provider p rg)"
proof (rule registry_okI)
  let ?r = "retire_members (\<lambda>k. k = provider_key p) rg"
  note D = registry_okD [OF ok]
  have e: "entries_ok ?r" using D(1) by simp
  show "entries_ok (register_provider p rg)" unfolding register_provider_def by (rule store.invar_put [OF e])
  have look: "lookup_provider (register_provider p rg) k
      = (if k = provider_key p then Some p else lookup_provider rg k)" for k
    using store.look_put [OF e, of p k] by (simp add: register_provider_def)
  show "counters_exact (register_provider p rg)"
    using D(3) zero unfolding counters_exact_def in_use_def look
    by (simp add: register_provider_def uses_retire)
  show "providers_below policy (register_provider p rg)"
    using D(4) zero unfolding providers_below_def look by (simp add: below_def)
qed (simp_all add: register_provider_def reservations_ok_retire reservations_below_retire registry_okD [OF ok])

lemma unregister_ok:
  assumes ok: "registry_ok policy rg"
  shows "registry_ok policy (unregister_node node rg)"
proof (rule registry_okI)
  note D = registry_okD [OF ok]
  have e: "entries_ok (retire_members (\<lambda>k. fst k = node) rg)" using D(1) by simp
  show "entries_ok (unregister_node node rg)" unfolding unregister_node_def by (rule entries_ok_drop [OF e])
  have look: "lookup_provider (unregister_node node rg) k = (if fst k = node then None else lookup_provider rg k)" for k
    using lookup_drop [OF e] by (simp add: unregister_node_def)
  show "counters_exact (unregister_node node rg)"
    using D(3) unfolding counters_exact_def in_use_def look
    by (simp add: unregister_node_def uses_retire)
  show "providers_below policy (unregister_node node rg)"
    using D(4) unfolding providers_below_def look by simp
qed (simp_all add: unregister_node_def reservations_ok_retire reservations_below_retire registry_okD [OF ok])

lemma reservations_refresh:
  "rg_reservations (refresh_node node replacements rg) = rg_reservations
     (retire_members (\<lambda>k. fst k = node \<and> k \<notin> provider_key ` set (filter (\<lambda>p. cp_node_id p = node) replacements)) rg)"
  by (simp add: refresh_node_def Let_def retire_members_def)

lemma carry_over_fields:
  "cp_in_flight (carry_over old p) = (case old of None \<Rightarrow> cp_in_flight p | Some q \<Rightarrow> cp_in_flight q)"
  "old = Some q \<Longrightarrow> provider_ceiling (carry_over old p) policy = provider_ceiling q policy"
  by (simp_all add: carry_over_def provider_ceiling_def split: option.splits)

lemma refresh_ok:
  assumes ok: "registry_ok policy rg" and zero: "\<forall>p \<in> set replacements. cp_in_flight p = 0"
  shows "registry_ok policy (refresh_node node replacements rg)"
proof (rule registry_okI)
  let ?after = "refresh_node node replacements rg"
  let ?mine = "filter (\<lambda>p. cp_node_id p = node) replacements"
  note D = registry_okD [OF ok]
  note L = lookup_refresh [OF D(1), of node replacements]
  show "entries_ok ?after" using L by blast
  have look: "lookup_provider ?after k =
      (if fst k \<noteq> node then lookup_provider rg k else None)" if "\<not> (fst k = node \<and> k \<in> provider_key ` set ?mine)" for k
    using L [of k] that by (simp split: if_splits)
  have mine: "\<exists>p \<in> set ?mine. lookup_provider ?after k = Some (carry_over (lookup_provider rg k) p)"
    if "fst k = node" "k \<in> provider_key ` set ?mine" for k
    using L [of k] that by auto
  have u: "in_use ?after k = (if fst k = node \<and> k \<notin> provider_key ` set ?mine then 0 else in_use rg k)" for k
  proof (cases "fst k = node \<and> k \<in> provider_key ` set ?mine")
    case True
    then obtain p where p: "p \<in> set ?mine" "lookup_provider ?after k = Some (carry_over (lookup_provider rg k) p)"
      using mine by blast
    then show ?thesis using True zero by (simp add: in_use_def carry_over_fields(1) split: option.splits)
  qed (auto simp: in_use_def look)
  have d: "uses (rg_reservations rg) k = in_use rg k" for k using D(3) unfolding counters_exact_def by metis
  show "counters_exact ?after" unfolding counters_exact_def reservations_refresh uses_retire u d by (rule allI) (rule refl)
  show "providers_below policy ?after" unfolding providers_below_def
  proof (intro allI impI)
    fix k p assume a: "lookup_provider ?after k = Some p"
    show "below (cp_in_flight p) (provider_ceiling p policy)"
    proof (cases "fst k = node \<and> k \<in> provider_key ` set ?mine")
      case True
      then obtain q where q: "q \<in> set ?mine" "p = carry_over (lookup_provider rg k) q" 
        using mine [of k] a by (metis option.inject)
      show ?thesis
      proof (cases "lookup_provider rg k")
        case None
        then show ?thesis using q zero by (simp add: carry_over_fields(1) below_def)
      next
        case (Some o')
        then show ?thesis using q providers_belowD [OF D(4) Some]
          by (simp add: carry_over_fields(1) carry_over_fields(2) [OF refl])
      qed
    next
      case False
      then show ?thesis using a providers_belowD [OF D(4)] unfolding look [OF False] by (simp split: if_splits)
    qed
  qed
qed (simp_all add: reservations_refresh reservations_ok_retire reservations_below_retire registry_okD [OF ok])

lemma measured_fields:
  "cp_in_flight (measured node load lat specs t p) = cp_in_flight p"
  "provider_ceiling (measured node load lat specs t p) policy = provider_ceiling p policy"
  by (simp_all add: measured_def provider_ceiling_def Let_def split: option.splits)

lemma metrics_ok:
  assumes ok: "registry_ok policy rg"
  shows "registry_ok policy (update_metrics_at node load lat specs t rg)"
proof (rule registry_okI)
  note D = registry_okD [OF ok]
  show "entries_ok (update_metrics_at node load lat specs t rg)" by (rule entries_ok_metrics [OF D(1)])
  have "in_use (update_metrics_at node load lat specs t rg) k = in_use rg k" for k
    by (cases "lookup_provider rg k") (simp_all add: in_use_def lookup_metrics measured_fields)
  then show "counters_exact (update_metrics_at node load lat specs t rg)" using D(3) by (simp add: counters_exact_def)
  show "providers_below policy (update_metrics_at node load lat specs t rg)"
    using D(4) unfolding providers_below_def lookup_metrics by (auto simp: measured_fields)
qed (simp_all add: registry_okD [OF ok])

section \<open>Reservation\<close>

text \<open>A key that a reservation may count: a registered provider below its ceiling.\<close>

definition countable_key :: "scheduling_policy \<Rightarrow> registry \<Rightarrow> registry_key \<Rightarrow> bool" where
  "countable_key policy rg k \<longleftrightarrow> (\<exists>p. lookup_provider rg k = Some p
     \<and> (provider_ceiling p policy = 0 \<or> cp_in_flight p < provider_ceiling p policy))"

lemma eligible_entry:
  "p \<in> set (eligible policy rg cap action) \<longleftrightarrow>
     \<not> (sp_max_in_flight policy > 0 \<and> length (rg_reservations rg) \<ge> sp_max_in_flight policy)
     \<and> p \<in> set (entry rg cap) \<and> cp_healthy p \<and> provider_accepts p action
     \<and> (limit_of (sp_node_limits policy) (cp_node_id p) = 0
        \<or> held_at (rg_reservations rg) (cp_node_id p) < limit_of (sp_node_limits policy) (cp_node_id p))"
  by (auto simp: eligible_def Let_def limit_of_reservation_counts)

lemma selected_from:
  assumes "select_provider score now (eligible policy rg cap action) cap constraints context policy = Some c"
  obtains p props where "p \<in> set (eligible policy rg cap action)" "c = p\<lparr>cp_properties := props\<rparr>"
    "admissible policy now constraints c"
  using select_least [OF assms] candidate_of_provider unfolding set_pool by blast

lemma properties_fields [simp]:
  "provider_key (p\<lparr>cp_properties := props\<rparr>) = provider_key p"
  "provider_ceiling (p\<lparr>cp_properties := props\<rparr>) policy = provider_ceiling p policy"
  by (simp_all add: provider_key_def provider_ceiling_def)

lemma selected_countable:
  assumes "entries_ok rg"
    and "select_provider score now (eligible policy rg cap action) cap constraints context policy = Some c"
  shows "countable_key policy rg (provider_key c)"
proof -
  obtain p props where p: "p \<in> set (eligible policy rg cap action)" "c = p\<lparr>cp_properties := props\<rparr>"
    and a: "admissible policy now constraints c" using selected_from [OF assms(2)] .
  have e: "p \<in> set (entry rg cap)" using p(1) by (simp add: eligible_entry)
  then have "lookup_provider rg (provider_key p) = Some p"
    using entry_ok(2) [OF assms(1) e] lookup_iff [OF assms(1)] by (simp add: provider_key_def)
  then show ?thesis using a p(2) by (auto simp: countable_key_def admissible_def Let_def)
qed

lemma bundle_keys_ok:
  assumes "entries_ok rg"
  shows "bundle_keys score clock policy rg context node ds keys = Some keys' \<Longrightarrow> distinct keys
    \<Longrightarrow> list_all (countable_key policy rg) keys \<Longrightarrow> list_all (\<lambda>k. fst k = node) keys
    \<Longrightarrow> distinct keys' \<and> set keys \<subseteq> set keys' \<and> list_all (countable_key policy rg) keys' \<and> list_all (\<lambda>k. fst k = node) keys'"
proof (induction ds arbitrary: keys)
  case (Cons d ds)
  obtain c where c: "select_provider score (clock (length ds)) (eligible policy rg (fst d) (fst (snd d))) (fst d)
        (snd (snd d)) context policy = Some c" "cp_node_id c = node"
      and rest: "bundle_keys score clock policy rg context node ds (List.insert (provider_key c) keys) = Some keys'"
    using Cons.prems(1) by (auto simp: Let_def split: if_splits option.splits)
  have k: "countable_key policy rg (provider_key c)" "fst (provider_key c) = node"
    using selected_countable [OF assms c(1)] c(2) by (simp_all add: provider_key_def)
  have ins: "list_all P (List.insert (provider_key c) keys)" if "list_all P keys" "P (provider_key c)" for P
    using that by (simp add: list_all_iff)
  show ?case
    using Cons.IH [OF rest] Cons.prems(2) ins [OF Cons.prems(3) k(1)] ins [OF Cons.prems(4) k(2)]
    by (auto simp: distinct_insert)
qed simp

lemma bumped_key: "provider_key (p\<lparr>cp_in_flight := n\<rparr>) = provider_key p"
  by (simp add: provider_key_def)

lemma lookup_increments:
  assumes "distinct order" and "entries_ok rg"
  shows "entries_ok (fold increment order rg)"
    and "lookup_provider (fold increment order rg) k =
      (if k \<in> set order then map_option (\<lambda>p. p\<lparr>cp_in_flight := cp_in_flight p + 1\<rparr>) (lookup_provider rg k)
       else lookup_provider rg k)"
  using store.look_change_fold [of "\<lambda>p. p\<lparr>cp_in_flight := cp_in_flight p + 1\<rparr>", OF bumped_key assms]
  by (simp_all add: increment_def [abs_def])

lemma lookup_decrements:
  assumes "distinct order" and "entries_ok rg"
  shows "entries_ok (fold decrement order rg)"
    and "lookup_provider (fold decrement order rg) k =
      (if k \<in> set order then map_option (\<lambda>p. p\<lparr>cp_in_flight := saturating_sub (cp_in_flight p) 1\<rparr>) (lookup_provider rg k)
       else lookup_provider rg k)"
  using store.look_change_fold [of "\<lambda>p. p\<lparr>cp_in_flight := saturating_sub (cp_in_flight p) 1\<rparr>", OF bumped_key assms]
  by (simp_all add: decrement_def [abs_def])

text \<open>What a reservation that is made did, in one place.\<close>

lemma reserve_bundle_cases:
  assumes r: "reserve_bundle score clock i policy rg cap action constraints context deps = Some (selected, rg')"
    and ok: "entries_ok rg"
  obtains root order where
    "select_provider score (clock (length deps)) (eligible policy rg cap action) cap constraints context policy = Some root"
    "order \<noteq> []" "hd order = provider_key root" "distinct order" "list_all (countable_key policy rg) order"
    "list_all (\<lambda>k. fst k = cp_node_id root) order" "list_all (can_increment rg) order"
    "rg' = (fold increment order rg)\<lparr>rg_reservations :=
       kv_put i (map (\<lambda>k. \<lparr>rm_key = k, rm_current = True\<rparr>) order) (rg_reservations rg)\<rparr>"
    "selected = root\<lparr>cp_in_flight := in_use (fold increment order rg) (provider_key root)\<rparr>"
proof -
  obtain root keys where root: "select_provider score (clock (length deps)) (eligible policy rg cap action) cap constraints
      context policy = Some root"
    and keys: "bundle_keys score clock policy rg context (cp_node_id root) deps [provider_key root] = Some keys"
    and inc: "list_all (can_increment rg) keys"
    using r by (auto simp: reserve_bundle_def split: if_splits option.splits)
  let ?order = "provider_key root # filter (\<lambda>k. k \<noteq> provider_key root) keys"
  have k: "distinct keys" "set [provider_key root] \<subseteq> set keys" "list_all (countable_key policy rg) keys"
    "list_all (\<lambda>k. fst k = cp_node_id root) keys"
    using bundle_keys_ok [OF ok keys] selected_countable [OF ok root] by (simp_all add: provider_key_def)
  have res: "rg_reservations (fold increment ?order rg) = rg_reservations rg"
    by (simp add: increment_def del: fold.simps)
  have order: "distinct ?order" "set ?order = set keys" using k(1,2) by auto
  have all: "list_all P ?order = list_all P keys" for P using order(2) by (simp only: list_all_iff)
  have rg': "rg' = (fold increment ?order rg)\<lparr>rg_reservations :=
       kv_put i (map (\<lambda>k. \<lparr>rm_key = k, rm_current = True\<rparr>) ?order) (rg_reservations rg)\<rparr>"
    and sel: "selected = root\<lparr>cp_in_flight := (case lookup_provider (fold increment ?order rg) (provider_key root) of
                        None \<Rightarrow> cp_in_flight root | Some p \<Rightarrow> cp_in_flight p)\<rparr>"
    using r root keys inc res by (simp_all add: reserve_bundle_def Let_def del: fold.simps split: if_splits)
  show thesis
  proof (rule that [of root ?order])
    show "selected = root\<lparr>cp_in_flight := in_use (fold increment ?order rg) (provider_key root)\<rparr>"
      using sel selected_countable [OF ok root] lookup_increments(2) [OF order(1) ok, of "provider_key root"]
      by (auto simp: countable_key_def in_use_def simp del: fold.simps)
  qed (use root order all k inc rg' in \<open>auto simp: provider_key_def\<close>)
qed

lemma member_uses_current:
  "distinct ks \<Longrightarrow> member_uses (map (\<lambda>k. \<lparr>rm_key = k, rm_current = True\<rparr>) ks) k = (if k \<in> set ks then 1 else 0)"
  by (induction ks) auto

lemma reserve_ok:
  assumes ok: "registry_ok policy rg" and fresh: "map_of (rg_reservations rg) i = None"
    and r: "reserve_bundle score clock i policy rg cap action constraints context deps = Some (selected, rg')"
  shows "registry_ok policy rg'"
proof -
  note D = registry_okD [OF ok]
  obtain root order where root: "select_provider score (clock (length deps)) (eligible policy rg cap action) cap
      constraints context policy = Some root"
    and order: "order \<noteq> []" "hd order = provider_key root" "distinct order" "list_all (countable_key policy rg) order"
      "list_all (\<lambda>k. fst k = cp_node_id root) order"
    and rg': "rg' = (fold increment order rg)\<lparr>rg_reservations :=
       kv_put i (map (\<lambda>k. \<lparr>rm_key = k, rm_current = True\<rparr>) order) (rg_reservations rg)\<rparr>"
    using reserve_bundle_cases [OF r D(1)] by metis
  let ?ms = "map (\<lambda>k. \<lparr>rm_key = k, rm_current = True\<rparr>) order"
  have res: "rg_reservations rg' = kv_put i ?ms (rg_reservations rg)" by (simp add: rg')
  have look: "lookup_provider rg' k = (if k \<in> set order
      then map_option (\<lambda>p. p\<lparr>cp_in_flight := cp_in_flight p + 1\<rparr>) (lookup_provider rg k) else lookup_provider rg k)" for k
    using lookup_increments(2) [OF order(3) D(1)] by (simp add: rg')
  have node: "reservation_node ?ms = cp_node_id root"
    using order(1,2) by (simp add: reservation_node_def hd_map provider_key_def)
  have cnt: "countable_key policy rg k" if "k \<in> set order" for k using order(4) that by (simp add: list_all_iff)
  show ?thesis
  proof (rule registry_okI)
    show "entries_ok rg'" using lookup_increments(1) [OF order(3) D(1)] by (simp add: rg')
    have "bundle_ok ?ms" unfolding bundle_ok_def node using order by (simp add: comp_def list_all_iff)
    then show "reservations_ok (rg_reservations rg')"
      using D(2) unfolding res reservations_ok_def
      by (simp add: distinct_kv_put kv_put_def kv_del_fresh fresh distinct_kv_del keys_kv_del [of i])
         (metis fresh kv_del_fresh keys_kv_del Diff_iff insertI1 image_set)
    show "counters_exact rg'" unfolding counters_exact_def
    proof
      fix k
      show "in_use rg' k = uses (rg_reservations rg') k"
        using counters_exactD [OF D(3), of k] cnt [of k]
        by (auto simp: res uses_put [OF fresh] member_uses_current [OF order(3)] in_use_def look countable_key_def)
    qed
    show "providers_below policy rg'" unfolding providers_below_def
    proof (intro allI impI)
      fix k p assume p: "lookup_provider rg' k = Some p"
      show "below (cp_in_flight p) (provider_ceiling p policy)"
        using p cnt [of k] providers_belowD [OF D(4), of k p]
        by (auto simp: look countable_key_def below_def provider_ceiling_def split: if_splits)
    qed
    show "reservations_below policy (rg_reservations rg')"
    proof -
      obtain p props where p: "p \<in> set (eligible policy rg cap action)" "root = p\<lparr>cp_properties := props\<rparr>"
        using selected_from [OF root] by metis
      then show ?thesis using D(5) unfolding reservations_below_def res
        by (auto simp: eligible_entry below_def held_at_put [OF fresh] node length_put_fresh [OF fresh])
    qed
  qed
qed

section \<open>Release\<close>

lemma release_ok:
  assumes ok: "registry_ok policy rg"
  shows "registry_ok policy (release i rg)"
proof (cases "map_of (rg_reservations rg) i")
  case None
  then show ?thesis using ok by (simp add: release_def)
next
  case (Some ms)
  note D = registry_okD [OF ok]
  let ?keys = "map rm_key (filter rm_current ms)"
  let ?rs = "kv_del i (rg_reservations rg)"
  have b: "bundle_ok ms" using reservations_okD(2) [OF D(2) map_of_SomeD [OF Some]] .
  then have d: "distinct ?keys" by (simp add: bundle_ok_def distinct_map_filter)
  have r: "release i rg = fold decrement ?keys (rg\<lparr>rg_reservations := ?rs\<rparr>)" using Some by (simp add: release_def)
  have res: "rg_reservations (release i rg) = ?rs" unfolding r by (simp add: decrement_def)
  have e: "entries_ok (rg\<lparr>rg_reservations := ?rs\<rparr>)" using D(1) by simp
  have look: "lookup_provider (release i rg) k = (if k \<in> set ?keys
      then map_option (\<lambda>p. p\<lparr>cp_in_flight := saturating_sub (cp_in_flight p) 1\<rparr>) (lookup_provider rg k)
      else lookup_provider rg k)" for k
    unfolding r using lookup_decrements(2) [OF d e] by simp
  show ?thesis
  proof (rule registry_okI)
    show "entries_ok (release i rg)" unfolding r by (rule lookup_decrements(1) [OF d e])
    show "reservations_ok (rg_reservations (release i rg))"
      using D(2) unfolding res reservations_ok_def by (auto simp: distinct_kv_del) (auto simp: kv_del_def)
    show "counters_exact (release i rg)" unfolding counters_exact_def
    proof
      fix k
      have "member_uses ms k = (if k \<in> set ?keys then 1 else 0)"
        using b member_uses_distinct [of ms k] by (simp add: bundle_ok_def)
      then have "uses (rg_reservations rg) k = (if k \<in> set ?keys then 1 else 0) + uses ?rs k"
        using uses_del [OF reservations_okD(1) [OF D(2)] Some, of k] by simp
      then show "in_use (release i rg) k = uses (rg_reservations (release i rg)) k"
        using counters_exactD [OF D(3), of k] unfolding res in_use_def look
        by (cases "lookup_provider rg k") (auto simp: saturating_sub_def split: if_splits)
    qed
    show "providers_below policy (release i rg)" unfolding providers_below_def
    proof (intro allI impI)
      fix k p assume p: "lookup_provider (release i rg) k = Some p"
      show "below (cp_in_flight p) (provider_ceiling p policy)"
        using p providers_belowD [OF D(4), of k] unfolding look
        by (auto simp: below_def provider_ceiling_def saturating_sub_def split: if_splits)
    qed
    show "reservations_below policy (rg_reservations (release i rg))"
      using D(5) unfolding res reservations_below_def
      by (meson below_mono length_kv_del held_at_del)
  qed
qed

section \<open>The state machine\<close>

text \<open>
  The operations other tasks of the coordinator interleave, one lock each. A registered
  provider starts with no operation in flight, as every caller builds it (\<^verbatim>\<open>CapabilityProvider::local\<close>
  and the literal of \<^verbatim>\<open>Runtime::on_node_register\<close>); a new reservation has a new identity.
\<close>

datatype registry_event =
    Registered capability_provider
  | Unregistered string
  | Refreshed string "capability_provider list"
  | Measured string
  | Reserved string capability_provider
  | Released string

inductive registry_step :: "scheduling_policy \<Rightarrow> registry \<Rightarrow> registry_event \<Rightarrow> registry \<Rightarrow> bool" for policy where
  registers: "cp_in_flight p = 0 \<Longrightarrow> registry_step policy rg (Registered p) (register_provider p rg)"
| unregisters: "registry_step policy rg (Unregistered node) (unregister_node node rg)"
| refreshes: "\<forall>p \<in> set ps. cp_in_flight p = 0 \<Longrightarrow>
    registry_step policy rg (Refreshed node ps) (refresh_node node ps rg)"
| measures: "registry_step policy rg (Measured node) (update_metrics_at node load lat specs t rg)"
| reserves: "map_of (rg_reservations rg) i = None \<Longrightarrow>
    reserve_bundle score clock i policy rg cap action constraints context deps = Some (selected, rg') \<Longrightarrow>
    registry_step policy rg (Reserved i selected) rg'"
| releases: "registry_step policy rg (Released i) (release i rg)"

inductive_cases registry_step_cases: "registry_step policy rg e rg'"

lemma registry_step_ok: "registry_ok policy rg \<Longrightarrow> registry_step policy rg e rg' \<Longrightarrow> registry_ok policy rg'"
  by (erule registry_step_cases)
     (auto intro: register_ok unregister_ok refresh_ok metrics_ok reserve_ok release_ok)

interpretation registry_machine: invariant_machine "registry_step policy" "registry_ok policy" for policy
  by unfold_locales (rule registry_step_ok)

section \<open>Undoing a reservation\<close>

lemma update_first_inverse:
  assumes "\<And>x. P (f x) = P x" and "\<And>x. g (f x) = x"
  shows "update_first P g (update_first P f xs) = xs"
  using assms by (induction xs) auto

lemma update_first_commute:
  assumes "\<And>x. P (g x) = P x" and "\<And>x. Q (f x) = Q x" and "\<And>x. \<not> (P x \<and> Q x)"
  shows "update_first P f (update_first Q g xs) = update_first Q g (update_first P f xs)"
  using assms by (induction xs) auto

lemma decrement_increment: "decrement k (increment k rg) = rg"
proof -
  have "update_first (\<lambda>p. provider_key p = k) (\<lambda>p. p\<lparr>cp_in_flight := saturating_sub (cp_in_flight p) 1\<rparr>)
      (update_first (\<lambda>p. provider_key p = k) (\<lambda>p. p\<lparr>cp_in_flight := cp_in_flight p + 1\<rparr>) ps) = ps" for ps
    by (rule update_first_inverse) (simp_all add: bumped_key saturating_sub_def)
  then have "map (\<lambda>(c, ps). (c, if c = fst (snd k) then update_first (\<lambda>p. provider_key p = k)
      (\<lambda>p. p\<lparr>cp_in_flight := saturating_sub (cp_in_flight p) 1\<rparr>) ps else ps))
      (map (\<lambda>(c, ps). (c, if c = fst (snd k) then update_first (\<lambda>p. provider_key p = k)
      (\<lambda>p. p\<lparr>cp_in_flight := cp_in_flight p + 1\<rparr>) ps else ps)) m) = m" for m
    by (induction m) auto
  then show ?thesis unfolding decrement_def increment_def update_provider_def by simp
qed

lemma decrement_increment_commute:
  assumes "j \<noteq> k"
  shows "decrement j (increment k rg) = increment k (decrement j rg)"
proof -
  have "update_first (\<lambda>p. provider_key p = j) (\<lambda>p. p\<lparr>cp_in_flight := saturating_sub (cp_in_flight p) 1\<rparr>)
      (update_first (\<lambda>p. provider_key p = k) (\<lambda>p. p\<lparr>cp_in_flight := cp_in_flight p + 1\<rparr>) ps)
    = update_first (\<lambda>p. provider_key p = k) (\<lambda>p. p\<lparr>cp_in_flight := cp_in_flight p + 1\<rparr>)
      (update_first (\<lambda>p. provider_key p = j) (\<lambda>p. p\<lparr>cp_in_flight := saturating_sub (cp_in_flight p) 1\<rparr>) ps)" for ps
    by (rule update_first_commute) (use assms in \<open>auto simp: bumped_key\<close>)
  then show ?thesis unfolding decrement_def increment_def update_provider_def by (simp add: case_prod_beta)
qed

lemma decrement_past: "j \<notin> set ks \<Longrightarrow> decrement j (fold increment ks rg) = fold increment ks (decrement j rg)"
  by (induction ks arbitrary: rg) (auto simp: decrement_increment_commute)

lemma decrements_increments: "distinct ks \<Longrightarrow> fold decrement ks (fold increment ks rg) = rg"
  by (induction ks arbitrary: rg) (simp_all add: decrement_past decrement_increment)

lemma update_reservations_commute:
  "update_provider k f (rg\<lparr>rg_reservations := rs\<rparr>) = (update_provider k f rg)\<lparr>rg_reservations := rs\<rparr>"
  by (simp add: update_provider_def)

lemma decrements_reservations:
  "fold decrement ks (rg\<lparr>rg_reservations := rs\<rparr>) = (fold decrement ks rg)\<lparr>rg_reservations := rs\<rparr>"
  by (induction ks arbitrary: rg) (simp_all add: decrement_def update_reservations_commute)

lemma reserve_release:
  assumes ok: "entries_ok rg" and fresh: "map_of (rg_reservations rg) i = None"
    and r: "reserve_bundle score clock i policy rg cap action constraints context deps = Some (selected, rg')"
  shows "release i rg' = rg"
proof -
  obtain order where order: "distinct order"
    and rg': "rg' = (fold increment order rg)\<lparr>rg_reservations :=
       kv_put i (map (\<lambda>k. \<lparr>rm_key = k, rm_current = True\<rparr>) order) (rg_reservations rg)\<rparr>"
    using reserve_bundle_cases [OF r ok] by metis
  have "map rm_key (filter rm_current (map (\<lambda>k. \<lparr>rm_key = k, rm_current = True\<rparr>) order)) = order"
    by (induction order) auto
  then have "release i rg' = (fold decrement order (fold increment order rg))\<lparr>rg_reservations := rg_reservations rg\<rparr>"
    by (simp add: release_def rg' decrements_reservations kv_put_def kv_del_Cons kv_del_fresh [OF fresh])
  then show ?thesis by (simp add: decrements_increments [OF order])
qed

section \<open>Retired members\<close>

text \<open>No member of the reservation counts the current registration of the key.\<close>

definition reservation_retired :: "string \<Rightarrow> registry_key \<Rightarrow> registry \<Rightarrow> bool" where
  "reservation_retired i k rg = (case map_of (rg_reservations rg) i of None \<Rightarrow> True | Some ms \<Rightarrow> member_uses ms k = 0)"

lemma map_of_retire: "map_of (rg_reservations (retire_members g rg)) i
    = map_option (map (\<lambda>m. if g (rm_key m) then m\<lparr>rm_current := False\<rparr> else m)) (map_of (rg_reservations rg) i)"
  by (simp add: retire_members_def map_of_map)

lemma reservation_retired_retire: "reservation_retired i k (retire_members g rg) \<longleftrightarrow> g k \<or> reservation_retired i k rg"
  by (simp add: reservation_retired_def map_of_retire member_uses_retire split: option.split)

lemma reservation_retired_cong: "rg_reservations rg' = rg_reservations rg \<Longrightarrow> reservation_retired i k rg' = reservation_retired i k rg"
  by (simp add: reservation_retired_def)

lemma reservation_retired_register: "reservation_retired i k (register_provider p rg) \<longleftrightarrow> k = provider_key p \<or> reservation_retired i k rg"
proof -
  have "reservation_retired i k (register_provider p rg) = reservation_retired i k (retire_members (\<lambda>k. k = provider_key p) rg)"
    by (rule reservation_retired_cong) (simp add: register_provider_def)
  then show ?thesis by (simp add: reservation_retired_retire)
qed

lemma reservation_retired_release: "reservation_retired i k rg \<Longrightarrow> reservation_retired i k (release j rg)"
  by (simp add: reservation_retired_def release_def decrement_def map_of_kv_del split: option.splits)

lemma reservation_retired_step:
  assumes "registry_ok policy rg" and "reservation_retired i k rg" and "registry_step policy rg e rg'" and "\<nexists>q. e = Reserved i q"
  shows "reservation_retired i k rg'"
  using assms(3)
proof (cases rule: registry_step.cases)
  case (registers p)
  then show ?thesis using assms(2) by (simp add: reservation_retired_register)
next
  case (unregisters node)
  have "reservation_retired i k rg' = reservation_retired i k (retire_members (\<lambda>k. fst k = node) rg)"
    unfolding unregisters by (rule reservation_retired_cong) (simp add: unregister_node_def)
  then show ?thesis using assms(2) by (simp add: reservation_retired_retire)
next
  case (refreshes ps node)
  then show ?thesis using assms(2) by (simp add: reservation_retired_cong [OF reservations_refresh] reservation_retired_retire)
next
  case (measures node load lat specs t)
  then show ?thesis using assms(2) by (simp add: reservation_retired_def)
next
  case (reserves j score clock cap action constraints origin deps selected)
  then have "j \<noteq> i" using assms(4) by blast
  moreover have "\<exists>ms. rg_reservations rg' = kv_put j ms (rg_reservations rg)"
    by (rule reserve_bundle_cases [OF reserves(3) registry_okD(1) [OF assms(1)]]) auto
  ultimately show ?thesis using assms(2) by (auto simp: reservation_retired_def)
next
  case (releases j)
  then show ?thesis using assms(2) by (simp add: reservation_retired_release)
qed

lemma reservation_retired_run:
  assumes "run (registry_step policy) rg es rg'" and "registry_ok policy rg" and "reservation_retired i k rg"
    and "\<forall>q. Reserved i q \<notin> set es"
  shows "reservation_retired i k rg'"
  using assms
proof (induction rule: run.induct)
  case (run_cons s e t es u)
  have "reservation_retired i k t" by (rule reservation_retired_step [OF run_cons.prems(1,2) run_cons.hyps(1)]) (use run_cons.prems(3) in auto)
  then show ?case using run_cons registry_step_ok by auto
qed

lemma release_reservation_retired:
  assumes ok: "registry_ok policy rg" and "reservation_retired i k rg"
  shows "lookup_provider (release i rg) k = lookup_provider rg k"
proof (cases "map_of (rg_reservations rg) i")
  case None
  then show ?thesis by (simp add: release_def)
next
  case (Some ms)
  note D = registry_okD [OF ok]
  let ?keys = "map rm_key (filter rm_current ms)"
  have out: "k \<notin> set ?keys" using assms(2) Some by (auto simp: reservation_retired_def member_uses_def filter_empty_conv)
  have d: "distinct ?keys"
    using reservations_okD(2) [OF D(2) map_of_SomeD [OF Some]] by (simp add: bundle_ok_def distinct_map_filter)
  have "entries_ok (rg\<lparr>rg_reservations := kv_del i (rg_reservations rg)\<rparr>)" using D(1) by simp
  from lookup_decrements(2) [OF d this, of k] show ?thesis using Some out by (simp add: release_def)
qed

section \<open>Availability\<close>

text \<open>
  An operation of a bundle can be served at an instant when some provider passes the ceilings and
  one of its candidates is fresh, has room and meets the constraints. The operations of a
  bundle are looked at one after the other, each at its own reading of the clock.
\<close>

definition operation_available ::
  "scheduling_policy \<Rightarrow> registry \<Rightarrow> nat \<Rightarrow> string \<times> string \<times> json \<Rightarrow> bool" where
  "operation_available policy rg now d \<longleftrightarrow>
     (\<exists>p \<in> set (eligible policy rg (fst d) (fst (snd d))). \<exists>c \<in> set (provider_candidates (fst d) p).
        admissible policy now (snd (snd d)) c)"

primrec bundle_available ::
  "(nat \<Rightarrow> nat) \<Rightarrow> scheduling_policy \<Rightarrow> registry \<Rightarrow> (string \<times> string \<times> json) list \<Rightarrow> bool" where
  "bundle_available clock policy rg [] = True"
| "bundle_available clock policy rg (d # ds) \<longleftrightarrow>
     operation_available policy rg (clock (length ds)) d \<and> bundle_available clock policy rg ds"

text \<open>
  A dependency names the node and, where a provider there offers resources of its capability, the
  resource: nothing is bound to a resource it does not name.
\<close>

definition dependency_scoped :: "scheduling_policy \<Rightarrow> registry \<Rightarrow> string \<Rightarrow> string \<times> string \<times> json \<Rightarrow> bool" where
  "dependency_scoped policy rg node d \<longleftrightarrow>
     as_str (jindex (snd (snd d)) ''node_id'') = Some node
     \<and> (as_str (jindex (snd (snd d)) ''resource_id'') = None \<longrightarrow>
          list_all (\<lambda>p. cp_node_id p = node \<longrightarrow> provider_resources p (fst d) = [] \<and> selected_resource p = None)
            (eligible policy rg (fst d) (fst (snd d))))"

lemma select_available:
  "select_provider score now (eligible policy rg cap action) cap constraints context policy = None
   \<longleftrightarrow> \<not> operation_available policy rg now (cap, action, constraints)"
  unfolding select_none operation_available_def using set_pool [of _ policy now cap constraints "eligible policy rg cap action"]
  by (auto simp: set_eq_iff simp flip: set_empty)

lemma as_str_index: "as_str (jindex v k) = Some x \<Longrightarrow> jget v k = Some (JString x)"
  by (cases "jget v k"; cases "jindex v k") (simp_all add: jindex_def)

lemma constraint_holds: "satisfies c constraints \<Longrightarrow> jget constraints k = Some v \<Longrightarrow> constraint_met c k v"
  by (cases constraints) (auto simp: satisfies_def list_all_iff dest: map_of_SomeD)

lemma named_node: "satisfies c constraints \<Longrightarrow> as_str (jindex constraints ''node_id'') = Some node \<Longrightarrow> cp_node_id c = node"
  using constraint_holds [of c constraints "''node_id''"] as_str_index by (fastforce simp: constraint_met_def)

lemma named_resource:
  "satisfies c constraints \<Longrightarrow> as_str (jindex constraints ''resource_id'') = Some r \<Longrightarrow> selected_resource c = Some r"
  using constraint_holds [of c constraints "''resource_id''"] as_str_index
  by (fastforce simp: constraint_met_def selected_resource_def jindex_def)

lemma scoped_candidate:
  assumes scoped: "dependency_scoped policy rg node d"
    and c: "select_provider score now (eligible policy rg (fst d) (fst (snd d))) (fst d) (snd (snd d)) context policy = Some c"
  shows "cp_node_id c = node" and "selected_resource c = as_str (jindex (snd (snd d)) ''resource_id'')"
proof -
  obtain p where p: "p \<in> set (eligible policy rg (fst d) (fst (snd d)))" "c \<in> set (provider_candidates (fst d) p)"
    and a: "admissible policy now (snd (snd d)) c"
    using select_least [OF c] unfolding set_pool by blast
  have s: "satisfies c (snd (snd d))" using a by (simp add: admissible_def Let_def)
  show node: "cp_node_id c = node" using named_node [OF s] scoped by (simp add: dependency_scoped_def)
  show "selected_resource c = as_str (jindex (snd (snd d)) ''resource_id'')"
  proof (cases "as_str (jindex (snd (snd d)) ''resource_id'')")
    case None
    have "cp_node_id p = node" using candidate_of_provider [OF p(2)] node by auto
    then have "provider_resources p (fst d) = []" "selected_resource p = None"
      using scoped None p(1) by (auto simp: dependency_scoped_def list_all_iff)
    then show ?thesis using p(2) None by (simp add: provider_candidates_def)
  qed (simp add: named_resource [OF s])
qed

lemma bundle_keys_available:
  assumes "\<forall>d \<in> set ds. dependency_scoped policy rg node d"
  shows "bundle_keys score clock policy rg context node ds keys = None \<longleftrightarrow> \<not> bundle_available clock policy rg ds"
  using assms
proof (induction ds arbitrary: keys)
  case (Cons d ds)
  have s: "dependency_scoped policy rg node d" using Cons.prems by simp
  have n: "as_str (jindex (snd (snd d)) ''node_id'') = Some node" using s by (simp add: dependency_scoped_def)
  show ?case
  proof (cases "select_provider score (clock (length ds)) (eligible policy rg (fst d) (fst (snd d))) (fst d)
      (snd (snd d)) context policy")
    case None
    moreover have "\<not> operation_available policy rg (clock (length ds)) d" using None select_available by simp
    ultimately show ?thesis using n by (simp add: Let_def)
  next
    case (Some c)
    have "operation_available policy rg (clock (length ds)) (fst d, fst (snd d), snd (snd d))"
      using select_available [of score "clock (length ds)" policy rg "fst d" "fst (snd d)" "snd (snd d)" "context"] Some by simp
    then show ?thesis using Some n scoped_candidate [OF s Some] Cons by (simp add: Let_def)
  qed
qed simp

lemma countable_can_increment:
  assumes "registry_ok policy rg" and "length (rg_reservations rg) < u32_max" and "countable_key policy rg k"
  shows "can_increment rg k"
proof -
  note D = registry_okD [OF assms(1)]
  obtain q where q: "lookup_provider rg k = Some q" using assms(3) by (auto simp: countable_key_def)
  have "cp_in_flight q = uses (rg_reservations rg) k"
    using counters_exactD [OF D(3), of k] q by (simp add: in_use_def)
  also have "\<dots> \<le> length (rg_reservations rg)"
    by (rule uses_le_length) (use reservations_okD(2) [OF D(2)] in \<open>simp add: bundle_ok_def\<close>)
  finally show ?thesis using q assms(2) by (simp add: can_increment_def)
qed

lemma reserve_bundle_available:
  assumes ok: "registry_ok policy rg" and small: "length (rg_reservations rg) < u32_max" "length deps \<le> MAX_STEPS"
    and node: "deps = [] \<or> as_str (jindex constraints ''node_id'') = Some node"
    and deps: "\<forall>d \<in> set deps. dependency_scoped policy rg node d"
  shows "reserve_bundle score clock i policy rg cap action constraints context deps = None
    \<longleftrightarrow> \<not> bundle_available clock policy rg ((cap, action, constraints) # deps)"
proof (cases "select_provider score (clock (length deps)) (eligible policy rg cap action) cap constraints context policy")
  case None
  then show ?thesis using select_available [of score "clock (length deps)" policy rg cap action constraints "context"] small(2)
    by (simp add: reserve_bundle_def)
next
  case (Some root)
  note entries = registry_okD(1) [OF ok]
  have a: "operation_available policy rg (clock (length deps)) (cap, action, constraints)"
    using select_available [of score "clock (length deps)" policy rg cap action constraints "context"] Some by simp
  have "satisfies root constraints" by (rule selected_from [OF Some]) (simp add: admissible_def Let_def)
  then have n: "deps = [] \<or> cp_node_id root = node" using node named_node by blast
  have keys: "bundle_keys score clock policy rg context (cp_node_id root) deps [provider_key root] = None
      \<longleftrightarrow> \<not> bundle_available clock policy rg deps"
    by (rule bundle_keys_available) (use n deps in auto)
  have inc: "list_all (can_increment rg) ks"
    if "bundle_keys score clock policy rg context (cp_node_id root) deps [provider_key root] = Some ks" for ks
    using bundle_keys_ok [OF entries that] selected_countable [OF entries Some] countable_can_increment [OF ok small(1)]
    by (simp add: provider_key_def list_all_iff)
  show ?thesis using Some a keys inc small(2)
    by (cases "bundle_keys score clock policy rg context (cp_node_id root) deps [provider_key root]")
       (simp_all add: reserve_bundle_def Let_def)
qed

text \<open>What a reservation that is made counts: each of its providers once more, and no other.\<close>

lemma reserve_bundle_counts:
  assumes r: "reserve_bundle score clock i policy rg cap action constraints context deps = Some (selected, rg')"
    and ok: "entries_ok rg"
  obtains keys where "map_of (rg_reservations rg') i = Some (map (\<lambda>k. \<lparr>rm_key = k, rm_current = True\<rparr>) keys)"
    "keys \<noteq> []" "hd keys = provider_key selected" "distinct keys"
    "\<And>k. in_use rg' k = in_use rg k + (if k \<in> set keys then 1 else 0)"
    "cp_in_flight selected = in_use rg' (provider_key selected)"
proof (rule reserve_bundle_cases [OF r ok])
  fix root order
  assume a: "order \<noteq> []" "hd order = provider_key root" "distinct order" "list_all (countable_key policy rg) order"
    and rg': "rg' = (fold increment order rg)\<lparr>rg_reservations :=
       kv_put i (map (\<lambda>k. \<lparr>rm_key = k, rm_current = True\<rparr>) order) (rg_reservations rg)\<rparr>"
    and sel: "selected = root\<lparr>cp_in_flight := in_use (fold increment order rg) (provider_key root)\<rparr>"
  have look: "lookup_provider rg' k = lookup_provider (fold increment order rg) k" for k by (simp add: rg')
  have count: "in_use rg' k = in_use rg k + (if k \<in> set order then 1 else 0)" for k
    using a(4) unfolding in_use_def look lookup_increments(2) [OF a(3) ok]
    by (auto simp: list_all_iff countable_key_def split: option.split)
  show thesis
    by (rule that [of order]) (use a count in \<open>simp_all add: rg' sel bumped_key in_use_def\<close>)
qed

end
