(* ===== verification/Registry_Report.thy ===== *)
theory Registry_Report
  imports Registry_Steps
begin

text \<open>
  The registry's snapshot in a scheduling report passes the checks that the command line makes
  of it when the provider names in it are short enough: the counts per node add up, and no node
  and no provider is listed twice.
\<close>

section \<open>Node counts\<close>

lemma sum_btree_insert:
  "sorted_wrt bytes_less (map fst m)
   \<Longrightarrow> sum_list (map snd (btree_insert k v m)) + limit_of m k = sum_list (map snd m) + v"
proof (induction m)
  case (Cons e m)
  obtain k' v' where e: "e = (k', v')" by (cases e)
  have none: "bytes_less k k' \<Longrightarrow> limit_of m k = 0"
  proof -
    assume l: "bytes_less k k'"
    have "k \<notin> fst ` set m"
    proof
      assume "k \<in> fst ` set m"
      then have "bytes_less k' k" using Cons.prems e by auto
      then show False using l bytes_less_trans bytes_less_irrefl by blast
    qed
    then show ?thesis by (simp add: limit_of_def map_of_eq_None_iff split: option.split) (metis map_of_eq_None_iff option.distinct(1))
  qed
  show ?case
  proof (cases "k = k' \<or> bytes_less k k'")
    case True
    then show ?thesis using e none by (auto simp: limit_of_def)
  next
    case False
    then show ?thesis using Cons e by (simp add: limit_of_def)
  qed
qed (simp add: limit_of_def)

definition add_reservation :: "string \<times> reservation_member list \<Rightarrow> (string \<times> nat) list \<Rightarrow> (string \<times> nat) list" where
  "add_reservation r m = btree_insert (reservation_node (snd r)) (Suc (limit_of m (reservation_node (snd r)))) m"

lemma reservation_counts_fold: "reservation_counts rg = fold add_reservation (rg_reservations rg) []"
  unfolding reservation_counts_def add_reservation_def [abs_def] limit_of_def Let_def ..

lemma counts_fold:
  assumes "sorted_wrt bytes_less (map fst m)"
  shows "sorted_wrt bytes_less (map fst (fold add_reservation rs m))
    \<and> sum_list (map snd (fold add_reservation rs m)) = sum_list (map snd m) + length rs
    \<and> fst ` set (fold add_reservation rs m) = fst ` set m \<union> (\<lambda>r. reservation_node (snd r)) ` set rs"
  using assms
proof (induction rs arbitrary: m)
  case (Cons r rs)
  let ?n = "reservation_node (snd r)"
  have s: "sorted_wrt bytes_less (map fst (add_reservation r m))"
    unfolding add_reservation_def by (rule sorted_btree_insert [OF Cons.prems])
  have "sum_list (map snd (add_reservation r m)) = Suc (sum_list (map snd m))"
    using sum_btree_insert [OF Cons.prems, of ?n "Suc (limit_of m ?n)"] by (simp add: add_reservation_def)
  moreover have "fst ` set (add_reservation r m) = insert ?n (fst ` set m)"
    unfolding add_reservation_def by (rule set_keys_btree_insert)
  ultimately show ?case using Cons.IH [OF s] by simp
qed simp

lemma reservation_counts_sound:
  "distinct (map fst (reservation_counts rg))"
  "sum_list (map snd (reservation_counts rg)) = length (rg_reservations rg)"
  "fst ` set (reservation_counts rg) = (\<lambda>r. reservation_node (snd r)) ` set (rg_reservations rg)"
  using counts_fold [of "[]" "rg_reservations rg"] sorted_keys_distinct unfolding reservation_counts_fold by auto

definition node_named :: "string \<Rightarrow> bool" where
  "node_named n \<longleftrightarrow> is_ok (validate_node_id n) \<and> n \<noteq> ''*''"

lemma sum_nodes_total:
  assumes "\<forall>n \<in> nc_node_id ` set ns. node_named n" and "distinct (map nc_node_id ns)"
    and "nc_node_id ` set ns \<inter> set seen = {}" and "acc + sum_list (map nc_in_flight ns) \<le> u64_max"
  shows "sum_nodes seen acc ns = Some (acc + sum_list (map nc_in_flight ns))"
  using assms
proof (induction ns arbitrary: seen acc)
  case (Cons n ns)
  have c: "checked_add acc (nc_in_flight n) = Some (acc + nc_in_flight n)"
    using Cons.prems(4) by (simp add: checked_add_def)
  have "sum_nodes (nc_node_id n # seen) (acc + nc_in_flight n) ns
      = Some (acc + nc_in_flight n + sum_list (map nc_in_flight ns))"
    by (rule Cons.IH) (use Cons.prems in auto)
  then show ?case using Cons.prems(1-3) by (simp add: node_named_def c add.assoc)
qed simp

lemma sum_take_le: "sum_list (take n xs) \<le> sum_list (xs :: nat list)"
  by (induction xs arbitrary: n) (auto simp: take_Cons split: nat.split)

section \<open>Providers\<close>

text \<open>
  What a registration is checked for: a node identity and names that are not empty. The check of
  a report also bounds the names, at 64 bytes; a node may register longer ones.
\<close>

definition provider_named :: "capability_provider \<Rightarrow> bool" where
  "provider_named p \<longleftrightarrow> node_named (cp_node_id p) \<and> cp_capability p \<noteq> [] \<and> cp_action p \<noteq> []"

definition names_short :: "provider_count \<Rightarrow> bool" where
  "names_short c \<longleftrightarrow> length (pc_capability c) \<le> 64 \<and> length (pc_action c) \<le> 64"

definition reported :: "scheduling_policy \<Rightarrow> capability_provider \<Rightarrow> provider_count" where
  "reported policy p = \<lparr>pc_node_id = cp_node_id p, pc_capability = cp_capability p, pc_action = cp_action p,
     pc_in_flight = cp_in_flight p, pc_effective = provider_ceiling p policy\<rparr>"

lemma reported_fields:
  "pc_node_id (reported policy p) = cp_node_id p" "pc_capability (reported policy p) = cp_capability p"
  "pc_action (reported policy p) = cp_action p"
  "names_short (reported policy p) \<longleftrightarrow> length (cp_capability p) \<le> 64 \<and> length (cp_action p) \<le> 64"
  by (simp_all add: reported_def names_short_def)

lemma providers_named_iff:
  assumes "\<forall>p \<in> set ps. provider_named p \<and> cp_capability p \<notin> set [''llm.infer'', ''vlm.analyze'']"
    and "distinct (map provider_key ps)" and "provider_key ` set ps \<inter> set seen = {}"
  shows "providers_named seen (map (reported policy) ps) \<longleftrightarrow> list_all names_short (map (reported policy) ps)"
  using assms
proof (induction ps arbitrary: seen)
  case (Cons p ps)
  have "providers_named (provider_key p # seen) (map (reported policy) ps) \<longleftrightarrow> list_all names_short (map (reported policy) ps)"
    by (rule Cons.IH) (use Cons.prems in auto)
  then show ?case
    using Cons.prems(1,3) by (auto simp: reported_fields provider_named_def node_named_def provider_key_def)
qed simp

lemma distinct_provider_keys: "entries_ok rg \<Longrightarrow> distinct (map provider_key (providers rg))"
proof -
  have "sorted_wrt bytes_less (map fst m) \<Longrightarrow>
      (\<forall>(c, ps) \<in> set m. distinct (map provider_key ps) \<and> (\<forall>p \<in> set ps. cp_capability p = c)) \<Longrightarrow>
      distinct (map provider_key (concat (map snd m)))" for m
  proof (induction m)
    case (Cons e m)
    obtain c ps where e: "e = (c, ps)" by (cases e)
    have c: "\<forall>p \<in> set ps. cp_capability p = c" and d: "distinct (map provider_key ps)" using Cons.prems(2) e by auto
    have other: "cp_capability q \<noteq> c" if "e' \<in> set m" "q \<in> set (snd e')" for e' q
    proof -
      have "cp_capability q = fst e'" using Cons.prems(2) that by (cases e') auto
      moreover have "bytes_less c (fst e')" using Cons.prems(1) that(1) e by simp
      ultimately show ?thesis by auto
    qed
    have "\<forall>q \<in> set (concat (map snd m)). cp_capability q \<noteq> c" using other by auto
    then have "provider_key ` set ps \<inter> provider_key ` set (concat (map snd m)) = {}"
      using c by (force simp: provider_key_def)
    moreover have "distinct (map provider_key (concat (map snd m)))" using Cons by auto
    ultimately show ?case using d e by (simp add: image_Un)
  qed simp
  then show "entries_ok rg \<Longrightarrow> ?thesis" unfolding entries_ok_def providers_def by blast
qed

section \<open>The snapshot\<close>

definition registry_named :: "registry \<Rightarrow> bool" where
  "registry_named rg \<longleftrightarrow> (\<forall>k p. lookup_provider rg k = Some p \<longrightarrow> provider_named p)
     \<and> list_all (\<lambda>r. node_named (reservation_node (snd r))) (rg_reservations rg)"

lemma registry_namedD: "registry_named rg \<Longrightarrow> lookup_provider rg k = Some p \<Longrightarrow> provider_named p"
  unfolding registry_named_def by blast

text \<open>The names an event brings into the registry.\<close>

fun event_named :: "registry_event \<Rightarrow> bool" where
  "event_named (Registered p) = provider_named p"
| "event_named (Refreshed node ps) = list_all provider_named ps"
| "event_named _ = True"

lemma named_retire:
  "list_all (\<lambda>r. node_named (reservation_node (snd r))) (rg_reservations (retire_members g rg))
   = list_all (\<lambda>r. node_named (reservation_node (snd r))) (rg_reservations rg)"
  by (simp add: retire_members_def list_all_iff node_retire case_prod_beta)

lemma named_fields:
  "provider_named (carry_over old p) = provider_named p"
  "provider_named (measured node load lat specs t p) = provider_named p"
  "provider_named (p\<lparr>cp_in_flight := n\<rparr>) = provider_named p"
  by (simp_all add: provider_named_def carry_over_def measured_def Let_def split: option.splits)

lemma named_register:
  assumes ok: "registry_ok policy rg" and named: "registry_named rg" "provider_named p"
  shows "registry_named (register_provider p rg)"
proof -
  have "lookup_provider (register_provider p rg) k = (if k = provider_key p then Some p else lookup_provider rg k)" for k
    using store.look_put [of "retire_members (\<lambda>k. k = provider_key p) rg" p k] registry_okD(1) [OF ok]
    by (simp add: register_provider_def)
  then show ?thesis using named by (simp add: registry_named_def) (simp add: register_provider_def named_retire)
qed

lemma named_unregister:
  assumes ok: "registry_ok policy rg" and named: "registry_named rg"
  shows "registry_named (unregister_node node rg)"
proof -
  have "lookup_provider (unregister_node node rg) k = (if fst k = node then None else lookup_provider rg k)" for k
    using lookup_drop [of "retire_members (\<lambda>k. fst k = node) rg"] registry_okD(1) [OF ok] by (simp add: unregister_node_def)
  then show ?thesis using named by (simp add: registry_named_def) (simp add: unregister_node_def named_retire)
qed

lemma named_refresh:
  assumes ok: "registry_ok policy rg" and named: "registry_named rg" "list_all provider_named ps"
  shows "registry_named (refresh_node node ps rg)"
proof -
  have "provider_named p" if "lookup_provider (refresh_node node ps rg) k = Some p" for k p
    using lookup_refresh [OF registry_okD(1) [OF ok], of node ps k] that registry_namedD [OF named(1), of k] named(2)
    by (auto simp: list_all_iff named_fields split: if_splits)
  then show ?thesis using named(1) by (simp add: registry_named_def reservations_refresh named_retire)
qed

lemma named_reserve:
  assumes ok: "registry_ok policy rg" and named: "registry_named rg"
    and r: "reserve_bundle score clock i policy rg cap action constraints context deps = Some (selected, rg')"
  shows "registry_named rg'"
proof (rule reserve_bundle_cases [OF r registry_okD(1) [OF ok]])
  fix root order
  assume a: "order \<noteq> []" "distinct order" "list_all (countable_key policy rg) order"
    and rg': "rg' = (fold increment order rg)\<lparr>rg_reservations :=
       kv_put i (map (\<lambda>k. \<lparr>rm_key = k, rm_current = True\<rparr>) order) (rg_reservations rg)\<rparr>"
  have "countable_key policy rg (hd order)" using a(1,3) by (simp add: list_all_iff)
  then obtain p where p: "lookup_provider rg (hd order) = Some p" by (auto simp: countable_key_def)
  then have "provider_key p = hd order" using lookup_iff [OF registry_okD(1) [OF ok]] by blast
  then have "node_named (fst (hd order))"
    using registry_namedD [OF named p] by (metis fst_conv provider_key_def provider_named_def)
  then have "list_all (\<lambda>r. node_named (reservation_node (snd r))) (rg_reservations rg')"
    using named a(1) by (auto simp: registry_named_def rg' kv_put_def kv_del_def list_all_iff reservation_node_def hd_map)
  moreover have "provider_named p" if "lookup_provider rg' k = Some p" for k p
    using that registry_namedD [OF named, of k] lookup_increments(2) [OF a(2) registry_okD(1) [OF ok], of k]
    by (auto simp: rg' named_fields split: if_splits)
  ultimately show ?thesis by (simp add: registry_named_def)
qed

lemma named_release:
  assumes ok: "registry_ok policy rg" and named: "registry_named rg"
  shows "registry_named (release i rg)"
proof (cases "map_of (rg_reservations rg) i")
  case None
  then show ?thesis using named by (simp add: release_def)
next
  case (Some ms)
  let ?keys = "map rm_key (filter rm_current ms)"
  let ?rg = "rg\<lparr>rg_reservations := kv_del i (rg_reservations rg)\<rparr>"
  have r: "release i rg = fold decrement ?keys ?rg" using Some by (simp add: release_def)
  have d: "distinct ?keys"
    using reservations_okD(2) [OF registry_okD(2) [OF ok] map_of_SomeD [OF Some]] by (simp add: bundle_ok_def distinct_map_filter)
  have "entries_ok ?rg" using registry_okD(1) [OF ok] by simp
  note look = lookup_decrements(2) [OF d this]
  have "provider_named p" if "lookup_provider (release i rg) k = Some p" for k p
    using that look [of k] registry_namedD [OF named, of k] unfolding r by (auto simp: named_fields split: if_splits)
  moreover have "rg_reservations (release i rg) = kv_del i (rg_reservations rg)" unfolding r by (simp add: decrement_def)
  ultimately show ?thesis using named by (auto simp: registry_named_def kv_del_def list_all_iff)
qed

lemma named_step:
  assumes "registry_ok policy rg" and "registry_named rg" and "registry_step policy rg e rg'" and "event_named e"
  shows "registry_named rg'"
  using assms(3)
proof (cases rule: registry_step.cases)
  case (measures node load lat specs t)
  then show ?thesis using assms(2) by (auto simp: registry_named_def lookup_metrics named_fields)
qed (use assms in \<open>auto intro: named_register named_unregister named_refresh named_reserve named_release\<close>)

lemma named_run:
  assumes "run (registry_step policy) rg es rg'" and "registry_ok policy rg" and "registry_named rg"
    and "list_all event_named es"
  shows "registry_named rg'"
  using assms
  by (induction rule: run.induct) (auto intro: named_step registry_step_ok)

lemma named_empty: "registry_named registry_empty"
  by (simp add: registry_named_def registry_empty_def lookup_provider_def entry_def)

lemma snapshot_consistent:
  assumes ok: "entries_ok rg" and named: "registry_named rg" and small: "length (rg_reservations rg) \<le> u64_max"
  shows "admission_consistent (admission_snapshot policy rg) \<longleftrightarrow> list_all names_short (ad_providers (admission_snapshot policy rg))"
proof -
  let ?a = "admission_snapshot policy rg"
  let ?c = "reservation_counts rg"
  let ?ps = "filter (\<lambda>p. cp_capability p \<notin> set [''llm.infer'', ''vlm.analyze'']) (providers rg)"
  have counts: "ad_node_counts ?a = map (\<lambda>(node, n). \<lparr>nc_node_id = node, nc_in_flight = n\<rparr>) (take 256 ?c)"
    by (simp add: admission_snapshot_def Let_def)
  have ids: "map nc_node_id (ad_node_counts ?a) = take 256 (map fst ?c)"
    and ns: "map nc_in_flight (ad_node_counts ?a) = take 256 (map snd ?c)"
    unfolding counts by (simp_all add: case_prod_beta comp_def take_map)
  have total: "sum_list (map nc_in_flight (ad_node_counts ?a)) \<le> length (rg_reservations rg)"
    unfolding ns using sum_take_le [of 256 "map snd ?c"] reservation_counts_sound(2) [of rg] by simp
  have "nc_node_id ` set (ad_node_counts ?a) \<subseteq> fst ` set ?c"
    using ids by (metis image_set set_take_subset)
  moreover have "\<forall>n \<in> fst ` set ?c. node_named n"
    unfolding reservation_counts_sound(3) using named by (simp add: registry_named_def list_all_iff)
  ultimately have "\<forall>n \<in> nc_node_id ` set (ad_node_counts ?a). node_named n" by blast
  then have "sum_nodes [] 0 (ad_node_counts ?a) = Some (0 + sum_list (map nc_in_flight (ad_node_counts ?a)))"
    by (rule sum_nodes_total)
       (use total small in \<open>simp_all add: ids reservation_counts_sound(1)\<close>)
  moreover have "\<not> ad_nodes_truncated ?a \<Longrightarrow> sum_list (map nc_in_flight (ad_node_counts ?a)) = length (rg_reservations rg)"
    unfolding ns using reservation_counts_sound(2) [of rg] by (simp add: admission_snapshot_def Let_def)
  moreover have "providers_named [] (ad_providers ?a) \<longleftrightarrow> list_all names_short (ad_providers ?a)"
  proof -
    have "provider_named p" if "p \<in> set (providers rg)" for p
      using that lookup_providers [OF ok] registry_namedD [OF named] by blast
    then have "providers_named [] (map (reported policy) (take 512 ?ps)) \<longleftrightarrow> list_all names_short (map (reported policy) (take 512 ?ps))"
      by (intro providers_named_iff)
         (use distinct_provider_keys [OF ok] in \<open>auto simp: distinct_map_filter take_map [symmetric] dest: in_set_takeD\<close>)
    then show ?thesis by (simp add: admission_snapshot_def Let_def reported_def [abs_def])
  qed
  moreover have "ad_retired_in_flight ?a \<le> ad_total_in_flight ?a" "ad_total_in_flight ?a = length (rg_reservations rg)"
    "length (ad_node_counts ?a) \<le> 256" "length (ad_providers ?a) \<le> 512"
    by (simp_all add: admission_snapshot_def Let_def)
  ultimately show ?thesis using total unfolding admission_consistent_def by auto
qed

lemma run_confirmed:
  assumes r: "scheduling_run applied runtime_id adm request stored = Inr (report, stored')"
    and applied: "scheduling_validate applied = Inr ()"
    and rt: "runtime_id \<noteq> []" "length runtime_id \<le> 128"
  shows "(confirmed_report report (Some runtime_id) request \<longleftrightarrow> admission_consistent adm) \<and> rp_admission report = adm
    \<and> scheduling_parse stored' = Inr (rp_saved_policy report)"
proof -
  obtain before saved where parse: "scheduling_parse stored = Inr before"
    and edit: "scheduling_edit request before = Inr saved" and valid: "scheduling_validate saved = Inr ()"
    and fields: "rp_schema_version report = 1" "rp_report_type report = ''coordinator_scheduling''" "rp_success report"
      "rp_changed report = (saved \<noteq> before)" "rp_saved_policy report = saved" "rp_applied_policy report = applied"
      "rp_restart_required report = (saved \<noteq> applied)" "\<not> rp_execution_authorized report" "\<not> rp_dispatched report"
      "rp_scope report = SCHEDULING_SCOPE" "rp_note report = SCHEDULING_NOTE" "rp_runtime_id report = runtime_id"
      "rp_admission report = adm" and stored: "stored' = (if saved \<noteq> before then Some saved else stored)"
    using r by (auto simp: scheduling_run_def)
  have "request_answered request report" by (rule edit_answered [OF edit fields(5) fields(4)])
  moreover have "length SCHEDULING_NOTE \<le> 2048" by (simp add: SCHEDULING_NOTE_def)
  ultimately have "confirmed_report report (Some runtime_id) request \<longleftrightarrow> admission_consistent adm"
    using assms fields valid unfolding confirmed_report_def by (simp add: is_none_or_def)
  moreover have "scheduling_parse stored' = Inr saved"
    using parse valid unfolding stored by (auto simp: scheduling_parse_def)
  ultimately show ?thesis using fields(5,13) by simp
qed

end
