(* ===== verification/Registry_Properties.thy ===== *)
theory Registry_Properties
  imports Registry_Report
begin

text \<open>
  What the coordinator's registry promises: the owner's ceilings, reservations that can be
  undone and that a new registration outlives, the choice of a best provider, and the reports
  that the command line accepts.
\<close>

section \<open>A registry with one provider\<close>

definition sample_limits :: scheduling_policy where
  "sample_limits = \<lparr>sp_freshness_seconds = 10, sp_max_in_flight = 2, sp_per_provider_concurrency = 0,
     sp_node_limits = [(''local'', 1)]\<rparr>"

definition sample_provider :: capability_provider where
  "sample_provider = provider_local 1000 ''system.info'' ''run'' (JObject [])"

definition sample_registry :: registry where
  "sample_registry = register_provider sample_provider registry_empty"

definition sample_reserved :: registry where
  "sample_reserved = \<lparr>rg_entries = [(''system.info'', [sample_provider\<lparr>cp_in_flight := 1\<rparr>])],
     rg_reservations = [(''r1'', [\<lparr>rm_key = (''local'', ''system.info'', ''run''), rm_current = True\<rparr>])]\<rparr>"

lemma sample_entries: "sample_registry = \<lparr>rg_entries = [(''system.info'', [sample_provider])], rg_reservations = []\<rparr>"
  by (simp add: sample_registry_def register_provider_def put_provider_def retire_members_def registry_empty_def entry_def
      sample_provider_def provider_local_def)

lemma sample_eligible: "eligible sample_limits sample_registry ''system.info'' ''run'' = [sample_provider]"
  by (simp add: eligible_def sample_entries entry_def sample_limits_def sample_provider_def provider_local_def limit_of_def
      reservation_counts_def provider_accepts_def)

lemma sample_candidates: "provider_candidates ''system.info'' sample_provider = [sample_provider]"
  by (simp add: provider_candidates_def provider_resources_def sample_provider_def provider_local_def)

lemma sample_admissible: "admissible sample_limits now (JObject []) sample_provider"
  by (simp add: admissible_def stale_def provider_ceiling_def satisfies_def sample_provider_def provider_local_def
      sample_limits_def)

lemma sample_selected:
  "select_provider score now [sample_provider] ''system.info'' (JObject []) context sample_limits = Some sample_provider"
  by (simp add: select_provider_def sample_candidates sample_admissible sort_by_def)

lemma sample_reserve:
  "reserve_bundle (\<lambda>_. 0) (\<lambda>_. 1000) ''r1'' sample_limits sample_registry ''system.info'' ''run'' (JObject []) None []
   = Some (sample_provider\<lparr>cp_in_flight := 1\<rparr>, sample_reserved)"
proof -
  have k: "provider_key sample_provider = (''local'', ''system.info'', ''run'')"
    by (simp add: provider_key_def sample_provider_def provider_local_def)
  have z: "cp_in_flight sample_provider = 0" by (simp add: sample_provider_def provider_local_def)
  have "can_increment sample_registry (provider_key sample_provider)"
    by (simp add: can_increment_def lookup_provider_def sample_entries entry_def k z u32_max_def)
  moreover have "increment (provider_key sample_provider) sample_registry
      = \<lparr>rg_entries = [(''system.info'', [sample_provider\<lparr>cp_in_flight := 1\<rparr>])], rg_reservations = []\<rparr>"
    by (simp add: increment_def update_provider_def sample_entries k z)
  ultimately show ?thesis
    by (simp add: reserve_bundle_def sample_eligible sample_selected Let_def k lookup_provider_def entry_def bumped_key
        kv_put_def kv_del_def sample_reserved_def)
qed

lemma sample_registered: "run (registry_step sample_limits) registry_empty [Registered sample_provider] sample_registry"
  unfolding run_single sample_registry_def
  by (rule registers) (simp add: sample_provider_def provider_local_def)

lemma sample_run: "run (registry_step sample_limits) registry_empty
    [Registered sample_provider, Reserved ''r1'' (sample_provider\<lparr>cp_in_flight := 1\<rparr>)] sample_reserved"
proof -
  have "map_of (rg_reservations sample_registry) ''r1'' = None" by (simp add: sample_entries)
  then have "registry_step sample_limits sample_registry (Reserved ''r1'' (sample_provider\<lparr>cp_in_flight := 1\<rparr>)) sample_reserved"
    by (rule reserves) (rule sample_reserve)
  then show ?thesis using sample_registered by auto
qed

lemma reachable_ok: "run (registry_step policy) registry_empty es rg \<Longrightarrow> registry_ok policy rg"
  by (rule registry_machine.run_inv [OF _ empty_registry_ok])

section \<open>Ceilings\<close>

text \<open>
  C34. In every state that registrations, refreshes, reservations and releases reach, the number
  of reservations is within the owner's account limit, those rooted at a node are within the
  node's limit, every provider's counter is exactly the number of reservations holding its
  current registration and is within its ceiling, and a reservation holds each of its providers
  once, all of them on one node.
\<close>

theorem registry_ceilings_hold:
  assumes "run (registry_step policy) registry_empty es rg"
  shows "(sp_max_in_flight policy = 0 \<or> length (rg_reservations rg) \<le> sp_max_in_flight policy)
    \<and> (\<forall>node. limit_of (sp_node_limits policy) node = 0
          \<or> limit_of (reservation_counts rg) node \<le> limit_of (sp_node_limits policy) node)
    \<and> (\<forall>p \<in> set (providers rg). cp_in_flight p = uses (rg_reservations rg) (provider_key p)
          \<and> (provider_ceiling p policy = 0 \<or> cp_in_flight p \<le> provider_ceiling p policy))
    \<and> (\<forall>r \<in> set (rg_reservations rg). distinct (map rm_key (snd r))
          \<and> (\<forall>m \<in> set (snd r). fst (rm_key m) = reservation_node (snd r)))"
proof -
  note D = registry_okD [OF reachable_ok [OF assms]]
  have "cp_in_flight p = uses (rg_reservations rg) (provider_key p)
      \<and> (provider_ceiling p policy = 0 \<or> cp_in_flight p \<le> provider_ceiling p policy)" if "p \<in> set (providers rg)" for p
  proof -
    have l: "lookup_provider rg (provider_key p) = Some p" using that lookup_providers [OF D(1)] by blast
    show ?thesis using counters_exactD [OF D(3), of "provider_key p"] providers_belowD [OF D(4) l] l
      by (simp add: in_use_def below_def)
  qed
  moreover have "distinct (map rm_key (snd r)) \<and> (\<forall>m \<in> set (snd r). fst (rm_key m) = reservation_node (snd r))"
    if "r \<in> set (rg_reservations rg)" for r
    using reservations_okD(2) [OF D(2), of "fst r" "snd r"] that by (simp add: bundle_ok_def)
  ultimately show ?thesis
    using D(5) unfolding reservations_below_def below_def limit_of_reservation_counts by blast
qed

theorem registry_ceilings_hold_witness:
  "run (registry_step sample_limits) registry_empty
     [Registered sample_provider, Reserved ''r1'' (sample_provider\<lparr>cp_in_flight := 1\<rparr>)] sample_reserved
   \<and> limit_of (reservation_counts sample_reserved) ''local'' \<le> 1 \<and> length (rg_reservations sample_reserved) \<le> 2"
proof -
  have "limit_of (sp_node_limits sample_limits) ''local'' = 1" "sp_max_in_flight sample_limits = 2" by code_simp+
  then show ?thesis using registry_ceilings_hold [OF sample_run] sample_run by (metis zero_neq_one zero_neq_numeral)
qed

section \<open>Reservations\<close>

text \<open>
  Releasing a reservation right after it was made restores the registry exactly: every
  counter of the root and of the dependencies, and nothing else.
\<close>

theorem release_undoes_reserve:
  assumes "run (registry_step policy) registry_empty es rg" and "map_of (rg_reservations rg) i = None"
    and "reserve_bundle score clock i policy rg cap action constraints context deps = Some (selected, rg')"
  shows "release i rg' = rg"
  using reserve_release [OF registry_okD(1) [OF reachable_ok [OF assms(1)]] assms(2,3)] .

theorem release_undoes_reserve_witness: "release ''r1'' sample_reserved = sample_registry"
proof -
  have "map_of (rg_reservations sample_registry) ''r1'' = None" by (simp add: sample_entries)
  then show ?thesis by (rule release_undoes_reserve [OF sample_registered _ sample_reserve])
qed

subsection \<open>A replaced provider\<close>

text \<open>Two reservations of one provider, with a registration between them.\<close>

definition open_limits :: scheduling_policy where
  "open_limits = sample_limits\<lparr>sp_node_limits := []\<rparr>"

definition sample_member :: "bool \<Rightarrow> reservation_member" where
  "sample_member current = \<lparr>rm_key = (''local'', ''system.info'', ''run''), rm_current = current\<rparr>"

definition in_flight_registry :: "nat \<Rightarrow> (string \<times> reservation_member list) list \<Rightarrow> registry" where
  "in_flight_registry n rs = \<lparr>rg_entries = [(''system.info'', [sample_provider\<lparr>cp_in_flight := n\<rparr>])], rg_reservations = rs\<rparr>"

lemma sample_key: "provider_key sample_provider = (''local'', ''system.info'', ''run'')"
  by (simp add: provider_key_def sample_provider_def provider_local_def)

lemma sample_unused: "sample_provider\<lparr>cp_in_flight := 0\<rparr> = sample_provider"
  by (simp add: sample_provider_def provider_local_def)

lemma in_flight_fields:
  "rg_reservations (in_flight_registry n rs) = rs"
  "(in_flight_registry n rs)\<lparr>rg_reservations := rs'\<rparr> = in_flight_registry n rs'"
  "lookup_provider (in_flight_registry n rs) (''local'', ''system.info'', ''run'') = Some (sample_provider\<lparr>cp_in_flight := n\<rparr>)"
  by (simp_all add: in_flight_registry_def lookup_provider_def entry_def bumped_key sample_key)

lemma open_selected:
  "select_provider score now [sample_provider] ''system.info'' (JObject []) context open_limits = Some sample_provider"
  by (simp add: select_provider_def sample_candidates sort_by_def admissible_def stale_def provider_ceiling_def
      satisfies_def open_limits_def sample_limits_def) (simp add: sample_provider_def provider_local_def)

lemma open_eligible:
  "length rs < 2 \<Longrightarrow> eligible open_limits (in_flight_registry 0 rs) ''system.info'' ''run'' = [sample_provider]"
  by (simp add: eligible_def in_flight_registry_def entry_def open_limits_def sample_limits_def sample_unused limit_of_def
      provider_accepts_def) (simp add: sample_provider_def provider_local_def)

lemma open_reserve:
  assumes "length rs < 2"
  shows "reserve_bundle (\<lambda>_. 0) (\<lambda>_. 1000) i open_limits (in_flight_registry 0 rs) ''system.info'' ''run'' (JObject []) None []
    = Some (sample_provider\<lparr>cp_in_flight := 1\<rparr>, in_flight_registry 1 (kv_put i [sample_member True] rs))"
proof -
  have z: "cp_in_flight sample_provider = 0" by (simp add: sample_provider_def provider_local_def)
  have "can_increment (in_flight_registry 0 rs) (provider_key sample_provider)"
    by (simp add: can_increment_def lookup_provider_def in_flight_registry_def entry_def sample_key sample_unused z u32_max_def)
  moreover have "increment (provider_key sample_provider) (in_flight_registry 0 rs) = in_flight_registry 1 rs"
    by (simp add: increment_def update_provider_def in_flight_registry_def sample_key sample_unused z)
  ultimately show ?thesis
    by (simp add: reserve_bundle_def open_eligible [OF assms] open_selected Let_def sample_key in_flight_fields sample_member_def)
qed

definition replaced_registry :: registry where
  "replaced_registry = in_flight_registry 1 [(''r2'', [sample_member True]), (''r1'', [sample_member False])]"

lemma open_run: "run (registry_step open_limits) registry_empty
    [Registered sample_provider, Reserved ''r1'' (sample_provider\<lparr>cp_in_flight := 1\<rparr>)] (in_flight_registry 1 [(''r1'', [sample_member True])])"
proof -
  have "registry_step open_limits registry_empty (Registered sample_provider) (in_flight_registry 0 [])"
    using registers [of sample_provider open_limits registry_empty] sample_entries
    by (simp add: sample_registry_def in_flight_registry_def sample_unused) (simp add: sample_provider_def provider_local_def)
  moreover have "registry_step open_limits (in_flight_registry 0 []) (Reserved ''r1'' (sample_provider\<lparr>cp_in_flight := 1\<rparr>))
      (in_flight_registry 1 [(''r1'', [sample_member True])])"
    using reserves [OF _ open_reserve [of "[]" "''r1''"]] by (simp add: in_flight_registry_def kv_put_def kv_del_def)
  ultimately show ?thesis by auto
qed

lemma open_replaced:
  "register_provider sample_provider (in_flight_registry 1 [(''r1'', [sample_member True])])
   = in_flight_registry 0 [(''r1'', [sample_member False])]"
  by (simp add: register_provider_def put_provider_def retire_members_def in_flight_registry_def entry_def sample_key
      sample_unused sample_member_def bumped_key) (simp add: sample_provider_def provider_local_def)

lemma open_again: "run (registry_step open_limits)
    (register_provider sample_provider (in_flight_registry 1 [(''r1'', [sample_member True])]))
    [Reserved ''r2'' (sample_provider\<lparr>cp_in_flight := 1\<rparr>)] replaced_registry"
  unfolding open_replaced run_single
  using reserves [OF _ open_reserve [of "[(''r1'', [sample_member False])]" "''r2''"]]
  by (simp add: replaced_registry_def in_flight_fields kv_put_def kv_del_def)

text \<open>
  C35. A reservation made before a provider was replaced never gives capacity of the replacement
  back: whatever is reserved, released or registered afterwards, releasing the earlier
  reservation leaves the replacement as it is, with the reservations it has in its counter.
\<close>

theorem late_release_harmless:
  assumes "run (registry_step policy) registry_empty es rg" and "cp_in_flight p = 0"
    and "run (registry_step policy) (register_provider p rg) fs rg'" and "\<forall>q. Reserved i q \<notin> set fs"
  shows "lookup_provider (release i rg') (provider_key p) = lookup_provider rg' (provider_key p)"
proof -
  have ok: "registry_ok policy (register_provider p rg)" by (rule register_ok [OF reachable_ok [OF assms(1)] assms(2)])
  have "reservation_retired i (provider_key p) rg'" by (rule reservation_retired_run [OF assms(3) ok _ assms(4)]) (simp add: reservation_retired_register)
  then show ?thesis by (rule release_reservation_retired [OF registry_machine.run_inv [OF assms(3) ok]])
qed

theorem late_release_harmless_witness:
  "map_of (rg_reservations replaced_registry) ''r1'' = Some [sample_member False]
   \<and> lookup_provider (release ''r1'' replaced_registry) (provider_key sample_provider) = Some (sample_provider\<lparr>cp_in_flight := 1\<rparr>)"
proof -
  have "lookup_provider replaced_registry (provider_key sample_provider) = Some (sample_provider\<lparr>cp_in_flight := 1\<rparr>)"
    by (simp add: replaced_registry_def in_flight_registry_def lookup_provider_def entry_def sample_key bumped_key)
  moreover have "lookup_provider (release ''r1'' replaced_registry) (provider_key sample_provider)
      = lookup_provider replaced_registry (provider_key sample_provider)"
    by (rule late_release_harmless [OF open_run _ open_again]) (simp_all add: sample_provider_def provider_local_def)
  ultimately show ?thesis by (simp add: replaced_registry_def in_flight_registry_def)
qed

subsection \<open>Availability\<close>

text \<open>
  C36. With fewer than \<open>2 ^ 32 - 1\<close> reservations, a reservation of an operation and of at most
  \<^verbatim>\<open>MAX_STEPS\<close> dependencies on the same node is made exactly when each of the operations can be
  served: some provider passes the ceilings and one of its candidates is fresh, has room and
  meets the constraints, whatever the scores. The dependencies name the node of the operation
  and, where a provider there offers resources, the resource. The reservation then counts each
  of its providers once more and no other provider; when it is not made nothing is counted.
\<close>

theorem reservation_available:
  assumes "run (registry_step policy) registry_empty es rg" and "length (rg_reservations rg) < u32_max"
    and "length deps \<le> MAX_STEPS" and "deps = [] \<or> as_str (jindex constraints ''node_id'') = Some node"
    and "\<forall>d \<in> set deps. dependency_scoped policy rg node d"
  shows "case reserve_bundle score clock i policy rg cap action constraints origin deps of
      None \<Rightarrow> \<not> bundle_available clock policy rg ((cap, action, constraints) # deps)
    | Some (selected, rg') \<Rightarrow> bundle_available clock policy rg ((cap, action, constraints) # deps)
        \<and> (\<exists>keys. map_of (rg_reservations rg') i = Some (map (\<lambda>k. \<lparr>rm_key = k, rm_current = True\<rparr>) keys)
             \<and> keys \<noteq> [] \<and> hd keys = provider_key selected \<and> distinct keys
             \<and> (\<forall>k. in_use rg' k = in_use rg k + (if k \<in> set keys then 1 else 0)))
        \<and> cp_in_flight selected = in_use rg' (provider_key selected)"
proof -
  let ?r = "reserve_bundle score clock i policy rg cap action constraints origin deps"
  note ok = reachable_ok [OF assms(1)]
  have made: "?r = None \<longleftrightarrow> \<not> bundle_available clock policy rg ((cap, action, constraints) # deps)"
    by (rule reserve_bundle_available [OF ok assms(2-5)])
  show ?thesis
  proof (cases ?r)
    case None
    then show ?thesis using made by simp
  next
    case (Some r)
    obtain selected rg' where r: "?r = Some (selected, rg')" using Some by (cases r) simp
    from reserve_bundle_counts [OF r registry_okD(1) [OF ok]] obtain keys where
      keys: "map_of (rg_reservations rg') i = Some (map (\<lambda>k. \<lparr>rm_key = k, rm_current = True\<rparr>) keys)" "keys \<noteq> []"
        "hd keys = provider_key selected" "distinct keys" "\<And>k. in_use rg' k = in_use rg k + (if k \<in> set keys then 1 else 0)"
        "cp_in_flight selected = in_use rg' (provider_key selected)" by metis
    have "bundle_available clock policy rg ((cap, action, constraints) # deps)" using made r by simp
    then show ?thesis unfolding r using keys by (simp only: option.case prod.case) blast
  qed
qed

definition paired_constraints :: json where
  "paired_constraints = JObject [(''node_id'', JString ''local'')]"

text \<open>A bundle whose dependency is served by the provider of its root: it is counted once.\<close>

lemma paired_selected:
  "select_provider score now [sample_provider] ''system.info'' paired_constraints context sample_limits = Some sample_provider"
  by (simp add: select_provider_def sample_candidates sort_by_def admissible_def stale_def provider_ceiling_def
      satisfies_def constraint_met_def paired_constraints_def sample_limits_def) (simp add: sample_provider_def provider_local_def)

lemma paired_scoped: "dependency_scoped sample_limits sample_registry ''local'' (''system.info'', ''run'', paired_constraints)"
  by (simp add: dependency_scoped_def sample_eligible jindex_def paired_constraints_def)
     (simp add: sample_provider_def provider_local_def provider_resources_def selected_resource_def jindex_def)

lemma paired_reserve:
  "reserve_bundle (\<lambda>_. 0) (\<lambda>_. 1000) ''r1'' sample_limits sample_registry ''system.info'' ''run'' paired_constraints None
     [(''system.info'', ''run'', paired_constraints)] = Some (sample_provider\<lparr>cp_in_flight := 1\<rparr>, sample_reserved)"
proof -
  have z: "cp_in_flight sample_provider = 0" "cp_node_id sample_provider = ''local''" "selected_resource sample_provider = None"
    by (simp_all add: sample_provider_def provider_local_def selected_resource_def jindex_def)
  have "can_increment sample_registry (provider_key sample_provider)"
    by (simp add: can_increment_def lookup_provider_def sample_entries entry_def sample_key z u32_max_def)
  moreover have "increment (provider_key sample_provider) sample_registry
      = \<lparr>rg_entries = [(''system.info'', [sample_provider\<lparr>cp_in_flight := 1\<rparr>])], rg_reservations = []\<rparr>"
    by (simp add: increment_def update_provider_def sample_entries sample_key z)
  moreover have "as_str (jindex paired_constraints ''node_id'') = Some ''local''" "jindex paired_constraints ''resource_id'' = JNull"
    by (simp_all add: paired_constraints_def jindex_def)
  ultimately show ?thesis
    by (simp add: reserve_bundle_def sample_eligible paired_selected Let_def z sample_key lookup_provider_def entry_def bumped_key
        kv_put_def kv_del_def sample_reserved_def MAX_STEPS_def)
qed

theorem reservation_available_witness:
  "\<exists>keys. map_of (rg_reservations sample_reserved) ''r1'' = Some (map (\<lambda>k. \<lparr>rm_key = k, rm_current = True\<rparr>) keys)
     \<and> hd keys = provider_key sample_provider \<and> distinct keys
     \<and> (\<forall>k. in_use sample_reserved k = in_use sample_registry k + (if k \<in> set keys then 1 else 0))"
proof -
  have l: "length (rg_reservations sample_registry) < u32_max" by (simp add: sample_entries u32_max_def)
  have n: "as_str (jindex paired_constraints ''node_id'') = Some ''local''" by (simp add: paired_constraints_def jindex_def)
  have m: "length [(''system.info'', ''run'', paired_constraints)] \<le> MAX_STEPS" by (simp add: MAX_STEPS_def)
  have "\<forall>d \<in> set [(''system.info'', ''run'', paired_constraints)]. dependency_scoped sample_limits sample_registry ''local'' d"
    using paired_scoped by simp
  note reservation_available [OF sample_registered l m disjI2 [OF n] this, where cap = "''system.info''" and action = "''run''"
      and origin = None and score = "\<lambda>_. 0" and clock = "\<lambda>_. 1000" and i = "''r1''"]
  then show ?thesis unfolding paired_reserve option.case prod.case bumped_key by blast
qed

section \<open>Selection\<close>

text \<open>
  C37. The best provider is a registered one of the capability that is healthy, accepts the action,
  stands on a permitted node and is within its node's limit; its candidate is fresh, has room and meets every
  constraint; and no other candidate that passes the same filters is preferred to it, by
  proximity, then score, then the local node, then the names of the node and the resource.
  Nothing is chosen only when no candidate passes the filters.
\<close>

theorem best_provider_found:
  "case find_best_scoped score now policy rg cap action constraints origin permitted of
    Some c \<Rightarrow>
      (\<exists>p \<in> set (entry rg cap). c \<in> set (provider_candidates cap p) \<and> cp_healthy p \<and> provider_accepts p action
         \<and> is_none_or permitted (\<lambda>nodes. cp_node_id p \<in> set nodes)
         \<and> (limit_of (sp_node_limits policy) (cp_node_id p) = 0
            \<or> limit_of (reservation_counts rg) (cp_node_id p) < limit_of (sp_node_limits policy) (cp_node_id p)))
      \<and> \<not> stale c now (sp_freshness_seconds policy * 1000) \<and> satisfies c constraints
      \<and> (provider_ceiling c policy = 0 \<or> cp_in_flight c < provider_ceiling c policy)
      \<and> (\<forall>p \<in> set (eligible policy rg cap action). \<forall>q \<in> set (provider_candidates cap p).
           is_none_or permitted (\<lambda>nodes. cp_node_id p \<in> set nodes) \<and> admissible policy now constraints q
           \<longrightarrow> \<not> prefers score origin q c)
  | None \<Rightarrow> (\<forall>p \<in> set (eligible policy rg cap action). \<forall>q \<in> set (provider_candidates cap p).
      is_none_or permitted (\<lambda>nodes. cp_node_id p \<in> set nodes) \<longrightarrow> \<not> admissible policy now constraints q)"
proof -
  let ?scope = "\<lambda>p. is_none_or permitted (\<lambda>nodes. cp_node_id p \<in> set nodes)"
  let ?es = "filter ?scope (eligible policy rg cap action)"
  have f: "find_best_scoped score now policy rg cap action constraints origin permitted
      = select_provider score now ?es cap constraints origin policy" by (simp add: find_best_scoped_def)
  show ?thesis
  proof (cases "select_provider score now ?es cap constraints origin policy")
    case None
    then have "\<forall>q. q \<notin> set (pool policy now cap constraints ?es)" unfolding select_none by simp
    then show ?thesis unfolding f None set_pool by auto
  next
    case (Some c)
    have c: "c \<in> set (pool policy now cap constraints ?es)"
      and least: "\<And>q. q \<in> set (pool policy now cap constraints ?es) \<Longrightarrow> \<not> prefers score origin q c"
      using select_least [OF Some] by (auto simp: prefers_is_rank not_less)
    from c obtain p where p: "p \<in> set ?es" "c \<in> set (provider_candidates cap p)" and a: "admissible policy now constraints c"
      unfolding set_pool by blast
    have e: "p \<in> set (entry rg cap)" "cp_healthy p" "provider_accepts p action" "?scope p"
      "limit_of (sp_node_limits policy) (cp_node_id p) = 0
        \<or> limit_of (reservation_counts rg) (cp_node_id p) < limit_of (sp_node_limits policy) (cp_node_id p)"
      using p(1) by (simp_all add: eligible_entry limit_of_reservation_counts)
    have "\<forall>p' \<in> set (eligible policy rg cap action). \<forall>q \<in> set (provider_candidates cap p').
        ?scope p' \<and> admissible policy now constraints q \<longrightarrow> \<not> prefers score origin q c"
      using least unfolding set_pool by auto
    then show ?thesis unfolding f Some using e p(2) a by (simp add: admissible_def Let_def) blast
  qed
qed

theorem best_provider_found_witness:
  "find_best_scoped (\<lambda>_. 0) 1000 sample_limits sample_registry ''system.info'' ''run'' (JObject []) None None = Some sample_provider
   \<and> \<not> stale sample_provider 1000 (sp_freshness_seconds sample_limits * 1000)"
proof -
  have f: "find_best_scoped (\<lambda>_. 0) 1000 sample_limits sample_registry ''system.info'' ''run'' (JObject []) None None
      = Some sample_provider"
    by (simp add: find_best_scoped_def sample_eligible is_none_or_def sample_selected)
  show ?thesis
    using best_provider_found [where score = "\<lambda>_. 0" and now = 1000 and policy = sample_limits and rg = sample_registry
        and cap = "''system.info''" and action = "''run''" and constraints = "JObject []" and origin = None and permitted = None]
    unfolding f by simp
qed

section \<open>Reports\<close>

text \<open>
  C38. The report of a scheduling command passes the command line's check of it exactly when no
  provider that it lists has a name of more than 64 bytes. Registrations carry a valid node
  identity and names that are not empty; then the snapshot of any registry the coordinator
  reaches with fewer than \<open>2 ^ 64\<close> reservations adds up and lists nothing twice, and the saved
  policy in the report is what the command asked for and what a restart reads.
\<close>

theorem report_confirmed:
  assumes "run (registry_step policy) registry_empty es rg" and "list_all event_named es"
    and "length (rg_reservations rg) \<le> u64_max"
    and "scheduling_validate policy = Inr ()" and "runtime_id \<noteq> []" and "length runtime_id \<le> 128"
    and "scheduling_run policy runtime_id (admission_snapshot policy rg) request stored = Inr (report, stored')"
  shows "(confirmed_report report (Some runtime_id) request \<longleftrightarrow> list_all names_short (ad_providers (rp_admission report)))
    \<and> scheduling_parse stored' = Inr (rp_saved_policy report)"
proof -
  have "registry_named rg" by (rule named_run [OF assms(1) empty_registry_ok named_empty assms(2)])
  note snapshot_consistent [OF registry_okD(1) [OF reachable_ok [OF assms(1)]] this assms(3), of policy]
  then show ?thesis using run_confirmed [OF assms(7,4-6)] by simp
qed

definition sample_report :: scheduling_report where
  "sample_report = fst (projr (scheduling_run sample_limits ''rt'' (admission_snapshot sample_limits sample_reserved)
     (SetNode ''local'' 1) None))"

lemma sample_valid: "scheduling_validate sample_limits = Inr ()"
proof -
  have "validate_node_id ''local'' = Inr ()" by code_simp
  then show ?thesis by (simp add: scheduling_validate_def sample_limits_def)
qed

lemma sample_scheduled: "scheduling_run sample_limits ''rt'' (admission_snapshot sample_limits sample_reserved)
     (SetNode ''local'' 1) None
   = Inr (sample_report, Some (scheduling_default\<lparr>sp_node_limits := [(''local'', 1)]\<rparr>))"
proof -
  have "validate_node_id ''local'' = Inr ()" by code_simp
  then have "scheduling_parse None = Inr scheduling_default"
    "scheduling_validate (scheduling_default\<lparr>sp_node_limits := [(''local'', 1)]\<rparr>) = Inr ()"
    "scheduling_edit (SetNode ''local'' 1) scheduling_default = Inr (scheduling_default\<lparr>sp_node_limits := [(''local'', 1)]\<rparr>)"
    "scheduling_default\<lparr>sp_node_limits := [(''local'', 1)]\<rparr> \<noteq> scheduling_default"
    by (simp_all add: scheduling_parse_def scheduling_validate_def scheduling_default_def)
  then show ?thesis unfolding sample_report_def scheduling_run_def by simp
qed

lemma local_named: "provider_named sample_provider"
proof -
  have "node_named ''local''" unfolding node_named_def by code_simp
  then show ?thesis by (simp add: provider_named_def sample_provider_def provider_local_def)
qed

theorem report_confirmed_witness:
  "confirmed_report sample_report (Some ''rt'') (SetNode ''local'' 1)
   \<and> scheduling_parse (Some (scheduling_default\<lparr>sp_node_limits := [(''local'', 1)]\<rparr>)) = Inr (rp_saved_policy sample_report)"
proof -
  have "list_all names_short (ad_providers (rp_admission sample_report))"
    using sample_scheduled unfolding sample_report_def
    by (auto simp: scheduling_run_def admission_snapshot_def Let_def sample_reserved_def providers_def names_short_def
        sample_provider_def provider_local_def)
  moreover have "length (rg_reservations sample_reserved) \<le> u64_max" by (simp add: sample_reserved_def u64_max_def)
  ultimately show ?thesis using report_confirmed [OF sample_run _ _ sample_valid _ _ sample_scheduled] local_named by simp
qed

text \<open>
  A node may register a capability with a name of up to 128 bytes. From then on the
  coordinator's reports are refused, the one of the command that only shows the policy too.
\<close>

definition long_provider :: capability_provider where
  "long_provider = sample_provider\<lparr>cp_node_id := ''n1'', cp_capability := replicate 65 CHR ''c'', cp_action := ''*''\<rparr>"

definition long_registry :: registry where
  "long_registry = refresh_node ''n1'' [long_provider] registry_empty"

lemma long_entries: "long_registry = \<lparr>rg_entries = [(replicate 65 CHR ''c'', [long_provider])], rg_reservations = []\<rparr>"
  by (simp add: long_registry_def refresh_node_def Let_def retire_members_def drop_node_def put_provider_def registry_empty_def
      entry_def carry_over_def previous_provider_def providers_def provider_key_def long_provider_def sample_provider_def provider_local_def)

theorem long_name_unconfirmed:
  "run (registry_step sample_limits) registry_empty [Refreshed ''n1'' [long_provider]] long_registry
   \<and> (\<exists>report. scheduling_run sample_limits ''rt'' (admission_snapshot sample_limits long_registry) ShowPolicy None
          = Inr (report, None) \<and> \<not> confirmed_report report (Some ''rt'') ShowPolicy)"
proof -
  have "run (registry_step sample_limits) registry_empty [Refreshed ''n1'' [long_provider]] long_registry"
    unfolding run_single long_registry_def by (rule refreshes) (simp add: long_provider_def sample_provider_def provider_local_def)
  moreover obtain report where r: "scheduling_run sample_limits ''rt'' (admission_snapshot sample_limits long_registry) ShowPolicy None
      = Inr (report, None)"
    by (simp add: scheduling_run_def scheduling_parse_def scheduling_validate_def scheduling_default_def)
  moreover have "\<not> admission_consistent (admission_snapshot sample_limits long_registry)"
  proof -
    have "length (cp_capability long_provider) = 65" by (simp add: long_provider_def)
    then have "cp_capability long_provider \<notin> set [''llm.infer'', ''vlm.analyze'']" "\<not> length (cp_capability long_provider) \<le> 64"
      by auto
    then have "\<not> providers_named [] (ad_providers (admission_snapshot sample_limits long_registry))"
      by (simp add: admission_snapshot_def Let_def long_entries providers_def)
    then show ?thesis by (simp add: admission_consistent_def)
  qed
  ultimately show ?thesis using run_confirmed [OF r sample_valid] by auto
qed

end
