(* ===== verification/Condition_Numbers.thy ===== *)
theory Condition_Numbers
  imports Conditional_Pipeline
begin

text \<open>
  The comparison of numbers in a guard of a conditional pipeline: two integers are compared
  exactly at any size, and a mixed comparison of an integer with a float is exact for every integer
  it does not refuse, but for one magnitude that rounds to the bound before it is checked.
\<close>

section \<open>Exact values\<close>

text \<open>Values in units of the smallest positive float, \<open>2 ^ -1074\<close>.\<close>

definition f64_value :: "f64 \<Rightarrow> int" where
  "f64_value a = fst a * 2 ^ snd a"

fun number_value :: "json_number \<Rightarrow> int option" where
  "number_value (PosInt n) = Some (int n * 2 ^ 1074)"
| "number_value (NegInt i) = Some (i * 2 ^ 1074)"
| "number_value (Float w) = map_option f64_value (f64_bits w)"

fun number_ok :: "json_number \<Rightarrow> bool" where
  "number_ok (PosInt n) \<longleftrightarrow> n \<le> u64_max"
| "number_ok (NegInt i) \<longleftrightarrow> i < 0"
| "number_ok (Float w) \<longleftrightarrow> f64_bits w \<noteq> None"

fun integer_size :: "json_number \<Rightarrow> nat option" where
  "integer_size (PosInt n) = Some n"
| "integer_size (NegInt i) = Some (nat \<bar>i\<bar>)"
| "integer_size (Float w) = None"

definition value_order :: "int \<Rightarrow> int \<Rightarrow> ordering" where
  "value_order a b = cmp (a < b) (a = b)"

section \<open>Floats\<close>

lemma f64_le_value: "f64_le a b \<longleftrightarrow> f64_value a \<le> f64_value b"
proof -
  let ?m = "min (snd a) (snd b)"
  have "fst a * 2 ^ snd a = (fst a * 2 ^ (snd a - ?m)) * 2 ^ ?m" "fst b * 2 ^ snd b = (fst b * 2 ^ (snd b - ?m)) * 2 ^ ?m"
    by (simp_all add: mult.assoc flip: power_add)
  moreover have "x * 2 ^ ?m \<le> y * 2 ^ ?m \<longleftrightarrow> x \<le> y" for x y :: int by simp
  ultimately show ?thesis unfolding f64_le_def f64_value_def by metis
qed

lemma f64_cmp_value: "f64_cmp a b = value_order (f64_value a) (f64_value b)"
  by (auto simp: f64_cmp_def f64_le_value value_order_def cmp_def)

lemma bit_length_bounds: "0 < n \<Longrightarrow> 0 < bit_length n \<and> 2 ^ (bit_length n - 1) \<le> n \<and> n < 2 ^ bit_length n"
proof (induction n rule: bit_length.induct)
  case (1 n)
  have b: "bit_length n = Suc (bit_length (n div 2))" using 1(2) by (subst bit_length.simps) simp
  show ?case
  proof (cases "n div 2 = 0")
    case True
    then have "n = 1" using 1(2) by linarith
    moreover have "bit_length 0 = 0" by (subst bit_length.simps) simp
    ultimately show ?thesis using b by simp
  next
    case False
    then have IH: "0 < bit_length (n div 2)" "2 ^ (bit_length (n div 2) - 1) \<le> n div 2" "n div 2 < 2 ^ bit_length (n div 2)"
      using 1 by auto
    then obtain k where k: "bit_length (n div 2) = Suc k" using gr0_implies_Suc by blast
    have "2 * 2 ^ k \<le> n" "n < 4 * 2 ^ k" using IH(2,3) unfolding k by simp_all
    then show ?thesis unfolding b k by simp
  qed
qed

lemma bit_length_gt: "2 ^ k \<le> n \<Longrightarrow> k < bit_length n"
proof (rule ccontr)
  assume n: "2 ^ k \<le> n" and "\<not> k < bit_length n"
  then have "(2 :: nat) ^ bit_length n \<le> 2 ^ k" by (intro power_increasing) simp_all
  moreover have "n < 2 ^ bit_length n" using bit_length_bounds [of n] n by (cases "n = 0") simp_all
  ultimately show False using n by linarith
qed

lemma bit_length_le: "n < 2 ^ k \<Longrightarrow> bit_length n \<le> k"
proof (rule ccontr)
  assume n: "n < 2 ^ k" and "\<not> bit_length n \<le> k"
  then have l: "k \<le> bit_length n - 1" "bit_length n \<noteq> 0" by simp_all
  then have "0 < n" by (cases n) (simp_all add: bit_length.simps [of 0])
  then have "2 ^ (bit_length n - 1) \<le> n" using bit_length_bounds by blast
  moreover have "(2 :: nat) ^ k \<le> 2 ^ (bit_length n - 1)" using l(1) by (rule power_increasing) simp
  ultimately show False using n by linarith
qed

lemma f64_nat_small:
  assumes "n \<le> 2 ^ 53"
  shows "f64_value (f64_nat n) = int n * 2 ^ 1074"
proof (cases "n = 2 ^ 53")
  case True
  have "bit_length (2 ^ 53) = 54"
    using bit_length_le [of "2 ^ 53" 54] bit_length_gt [of 53 "2 ^ 53"] by simp
  then show ?thesis unfolding True f64_nat_def f64_value_def Let_def by simp
next
  case False
  then have "bit_length n \<le> 53" using assms by (intro bit_length_le) simp
  then show ?thesis by (simp add: f64_nat_def f64_value_def)
qed

lemma f64_nat_large:
  assumes "n > 2 ^ 53 + 1"
  shows "f64_value (f64_nat n) > 2 ^ 53 * 2 ^ 1074"
proof -
  let ?L = "bit_length n"
  have L: "53 < ?L" using bit_length_gt [of 53 n] assms by simp
  let ?e = "?L - 53"
  let ?q = "n div 2 ^ ?e"
  have q: "2 ^ 53 < ?q * 2 ^ ?e"
  proof (cases "?L = 54")
    case True
    then show ?thesis using assms by simp
  next
    case False
    have "2 ^ (?L - 1) \<le> n" using bit_length_bounds [of n] assms by simp
    moreover have "?L - 1 = 52 + ?e" using L by simp
    then have "2 ^ (?L - 1) = 2 ^ 52 * (2 :: nat) ^ ?e" by (simp only: power_add)
    ultimately have "2 ^ 52 \<le> ?q" by (simp add: less_eq_div_iff_mult_less_eq)
    moreover have "(2 :: nat) ^ 2 \<le> 2 ^ ?e" using False L by (intro power_increasing) simp_all
    ultimately have "2 ^ 52 * 2 ^ 2 \<le> ?q * 2 ^ ?e" by (rule mult_le_mono)
    then show ?thesis by simp
  qed
  have m: "fst (f64_nat n) \<ge> int ?q" "snd (f64_nat n) = ?e + 1074" by (simp_all add: f64_nat_def Let_def)
  have "int (2 ^ 53) < int (?q * 2 ^ ?e)" using q by (simp only: of_nat_less_iff)
  also have "\<dots> \<le> fst (f64_nat n) * 2 ^ ?e" using m(1) by simp
  finally have "2 ^ 53 * 2 ^ 1074 < fst (f64_nat n) * 2 ^ ?e * (2 ^ 1074 :: int)"
    by (intro mult_strict_right_mono) simp_all
  then show ?thesis unfolding f64_value_def m(2) by (simp add: power_add mult.assoc)
qed

lemma f64_beyond_value: "f64_beyond a \<longleftrightarrow> \<bar>f64_value a\<bar> > 2 ^ 53 * 2 ^ 1074"
proof -
  have "f64_value EXACT_INTEGER_BOUND = 2 ^ 53 * 2 ^ 1074"
    using f64_nat_small [of 9007199254740992] by (simp add: EXACT_INTEGER_BOUND_def)
  then show ?thesis unfolding f64_beyond_def f64_le_value by (simp add: f64_value_def abs_mult not_le)
qed

lemma f64_nat_nonneg: "0 \<le> f64_value (f64_nat n)"
  by (simp add: f64_value_def f64_nat_def Let_def)

lemma f64_int_value: "f64_value (f64_int i) = (if i < 0 then - f64_value (f64_nat (nat \<bar>i\<bar>)) else f64_value (f64_nat (nat \<bar>i\<bar>)))"
  by (simp add: f64_int_def f64_value_def split: prod.split)

text \<open>The one magnitude at which the check of the rounded value sees nothing.\<close>

definition UNSEEN :: nat where "UNSEEN = 2 ^ 53 + 1"

lemma integer_as_f64:
  assumes "integer_size a = Some n" and "n \<noteq> UNSEEN"
  shows "\<exists>f. as_f64 (JNum a) = Some f \<and> (f64_beyond f \<longleftrightarrow> n > 2 ^ 53) \<and> (n \<le> 2 ^ 53 \<longrightarrow> number_value a = Some (f64_value f))"
proof -
  have n: "f64_value (f64_nat n) > 2 ^ 53 * 2 ^ 1074 \<longleftrightarrow> n > 2 ^ 53"
  proof (cases "n \<le> 2 ^ 53")
    case True
    then have "int n \<le> 2 ^ 53" by simp
    then show ?thesis using True unfolding f64_nat_small [OF True] by simp
  next
    case False
    then show ?thesis using f64_nat_large [of n] assms(2) by (simp add: UNSEEN_def)
  qed
  show ?thesis
  proof (cases a)
    case (PosInt m)
    then show ?thesis using assms(1) n f64_nat_nonneg [of n] f64_nat_small [of n] by (simp add: f64_beyond_value)
  next
    case (NegInt i)
    then have "n = nat \<bar>i\<bar>" using assms(1) by simp
    moreover have "i < 0 \<Longrightarrow> - int (nat \<bar>i\<bar>) = i" "\<not> i < 0 \<Longrightarrow> int (nat \<bar>i\<bar>) = i" by simp_all
    ultimately show ?thesis using NegInt n f64_nat_nonneg [of n] f64_nat_small [of n]
      by (cases "i < 0") (simp_all add: f64_beyond_value f64_int_value)
  qed (use assms in simp)
qed

lemma float_as_f64: "integer_size a = None \<Longrightarrow> number_value a = Some x \<Longrightarrow> \<exists>f. as_f64 (JNum a) = Some f \<and> f64_value f = x"
  by (cases a) auto

lemma is_integer_size: "is_integer (JNum a) \<longleftrightarrow> integer_size a \<noteq> None"
  by (cases a) auto

lemma scaled_order: "value_order (i * 2 ^ 1074) (j * 2 ^ 1074) = value_order i j"
  by (simp add: value_order_def)

section \<open>Guards\<close>

definition lossy :: "json_number \<Rightarrow> bool" where
  "lossy a \<longleftrightarrow> (case integer_size a of None \<Rightarrow> False | Some n \<Rightarrow> n > 2 ^ 53)"

lemma integers_exact:
  assumes "number_ok a" "number_ok b" and "number_value a = Some x" "number_value b = Some y"
    and "integer_size a \<noteq> None" "integer_size b \<noteq> None"
  shows "number_ordering (JNum a) (JNum b) = Inr (value_order x y)"
  using assms by (cases a; cases b) (auto simp: number_ordering_def value_order_def cmp_def i64_max_def)

lemma mixed_exact:
  assumes "number_ok a" "number_ok b" and "number_value a = Some x" "number_value b = Some y"
    and "integer_size a = None \<or> integer_size b = None"
    and "integer_size a \<noteq> Some UNSEEN" "integer_size b \<noteq> Some UNSEEN"
  shows "number_ordering (JNum a) (JNum b) =
    (if lossy a \<or> lossy b then Inl (PipelineE ConditionPrecision) else Inr (value_order x y))"
proof -
  have op: "\<exists>f. as_f64 (JNum c) = Some f \<and> (is_integer (JNum c) \<and> f64_beyond f \<longleftrightarrow> lossy c) \<and> (\<not> lossy c \<longrightarrow> f64_value f = z)"
    if "number_value c = Some z" "integer_size c \<noteq> Some UNSEEN" for c z
    using that integer_as_f64 [of c] float_as_f64 [of c z]
    by (cases "integer_size c") (auto simp: is_integer_size lossy_def not_less)
  obtain f where f: "as_f64 (JNum a) = Some f" "is_integer (JNum a) \<and> f64_beyond f \<longleftrightarrow> lossy a" "\<not> lossy a \<Longrightarrow> f64_value f = x"
    using op [OF assms(3,6)] by blast
  obtain g where g: "as_f64 (JNum b) = Some g" "is_integer (JNum b) \<and> f64_beyond g \<longleftrightarrow> lossy b" "\<not> lossy b \<Longrightarrow> f64_value g = y"
    using op [OF assms(4,7)] by blast
  have u: "as_u64 (JNum a) = None \<and> as_i64 (JNum a) = None \<or> as_u64 (JNum b) = None \<and> as_i64 (JNum b) = None"
    using assms(5) by (cases a; cases b) auto
  have "number_ordering (JNum a) (JNum b) = ensure (\<not> (is_integer (JNum a) \<and> f64_beyond f) \<and> \<not> (is_integer (JNum b) \<and> f64_beyond g))
      (PipelineE ConditionPrecision) (Inr (f64_cmp f g))"
    using u f(1) g(1) unfolding number_ordering_def
    by (auto simp: or_err_def split: option.splits)
  then show ?thesis unfolding f(2) g(2) using f(3) g(3) by (simp add: f64_cmp_value ensure_def)
qed

text \<open>
  The magnitude the check misses: \<open>2 ^ 53 + 1\<close> rounds to the bound itself, so it is compared, and found
  equal to the float \<open>2 ^ 53\<close> although it is greater.
\<close>

lemma unseen_rounding:
  "number_ordering (JNum (PosInt UNSEEN)) (JNum (Float 0x4340000000000000)) = Inr Equal
   \<and> number_value (Float 0x4340000000000000) = Some (2 ^ 53 * 2 ^ 1074)
   \<and> number_value (PosInt UNSEEN) = Some ((2 ^ 53 + 1) * 2 ^ 1074)"
proof -
  have "bit_length UNSEEN = 54" using bit_length_le [of UNSEEN 54] bit_length_gt [of 53 UNSEEN] by (simp add: UNSEEN_def)
  then have f: "f64_nat UNSEEN = (2 ^ 52, 1075)" by (simp add: f64_nat_def UNSEEN_def)
  have g: "f64_bits 0x4340000000000000 = Some (2 ^ 52, 1075)" by (simp add: f64_bits_def Let_def)
  have v: "f64_value (2 ^ 52, 1075) = 2 ^ 53 * 2 ^ 1074" by (simp add: f64_value_def flip: power_add)
  have "\<not> f64_beyond (2 ^ 52, 1075)" unfolding f64_beyond_value v by simp
  then have "number_ordering (JNum (PosInt UNSEEN)) (JNum (Float 0x4340000000000000)) = Inr (f64_cmp (2 ^ 52, 1075) (2 ^ 52, 1075))"
    by (simp add: number_ordering_def f g or_err_def ensure_def del: power_numeral)
  then show ?thesis using g v by (simp add: f64_cmp_def f64_le_value UNSEEN_def)
qed

text \<open>
  C39. A guard compares two integers exactly at any size. A mixed comparison is either the exact order
  of the two values, or refused because the integer is beyond \<open>2 ^ 53\<close>; this holds for every integer
  but one magnitude, \<open>2 ^ 53 + 1\<close>, which compares equal to the float \<open>2 ^ 53\<close> although it is greater.
\<close>

theorem guard_numbers_exact:
  assumes "number_ok a" and "number_ok b" and "number_value a = Some x" and "number_value b = Some y"
  shows "(integer_size a \<noteq> None \<and> integer_size b \<noteq> None \<longrightarrow> number_ordering (JNum a) (JNum b) = Inr (value_order x y))
    \<and> (integer_size a = None \<or> integer_size b = None \<longrightarrow> integer_size a \<noteq> Some UNSEEN \<longrightarrow> integer_size b \<noteq> Some UNSEEN
       \<longrightarrow> number_ordering (JNum a) (JNum b) =
         (if lossy a \<or> lossy b then Inl (PipelineE ConditionPrecision) else Inr (value_order x y)))
    \<and> number_ordering (JNum (PosInt UNSEEN)) (JNum (Float 0x4340000000000000)) = Inr Equal
    \<and> number_value (Float 0x4340000000000000) = Some (2 ^ 53 * 2 ^ 1074)
    \<and> number_value (PosInt UNSEEN) = Some ((2 ^ 53 + 1) * 2 ^ 1074)"
  using integers_exact [OF assms] mixed_exact [OF assms] unseen_rounding by blast

theorem guard_numbers_exact_witness:
  "number_ordering (JNum (PosInt 18446744073709551615)) (JNum (NegInt (- 1))) = Inr Greater"
proof -
  have "number_ok (PosInt 18446744073709551615)" "number_ok (NegInt (- 1))" by (simp_all add: u64_max_def)
  from guard_numbers_exact [OF this number_value.simps(1) number_value.simps(2)] show ?thesis
    by (simp add: scaled_order) (simp add: value_order_def cmp_def)
qed

end
