(* ===== verification/Plan_Input.thy ===== *)
theory Plan_Input
  imports Grant_Definition
begin

text \<open>
  The concrete input of a plan (\<^verbatim>\<open>eefn/request_planning.rs\<close>): its validation, with the definitions
  of pipelines and workloads it may carry, the capabilities it needs, and the planning command.

  The serde codecs are fields of \<open>plan_externals\<close>, and so is \<^verbatim>\<open>Pair::from_params\<close> of the peer transfers,
  which answers whether the pair carries audio.
\<close>

record plan_input =
  pi_schema_version :: nat
  pi_template :: string
  pi_params :: json
  pi_constraints :: json

record plan_externals = grant_externals +
  input_text :: "plan_input \<Rightarrow> string"
  template_parse :: "json \<Rightarrow> template option"
  pair_from_params :: "json \<Rightarrow> bool result"

section \<open>Definitions inside an input\<close>

fun only_key :: "json \<Rightarrow> string \<Rightarrow> bool" where
  "only_key (JObject m) k \<longleftrightarrow> length m = 1 \<and> map_of m k \<noteq> None"
| "only_key _ k \<longleftrightarrow> False"

fun no_keys :: "json \<Rightarrow> bool" where
  "no_keys (JObject m) \<longleftrightarrow> m = []"
| "no_keys _ \<longleftrightarrow> False"

fun object_entries :: "json \<Rightarrow> (string \<times> json) list" where
  "object_entries (JObject m) = m"
| "object_entries _ = []"

definition template_from_params :: "'x plan_externals_scheme \<Rightarrow> json \<Rightarrow> template result" where
  "template_from_params ext params =
     ensure (only_key params ''workload'') (AutomationE PlanBinding)
     (rbind (or_err (template_parse ext (jindex params ''workload'')) (AutomationE PlanInputInvalid)) (\<lambda>t.
      rbind (template_validate ext t) (\<lambda>_. Inr t)))"

definition WORKLOAD_TEMPLATE :: string where "WORKLOAD_TEMPLATE = ''continuous_workload''"

definition is_pipeline_template :: "string \<Rightarrow> bool" where
  "is_pipeline_template t \<longleftrightarrow> t = ''local_pipeline'' \<or> t = ''conditional_pipeline''"

definition workload_input :: "'x plan_externals_scheme \<Rightarrow> plan_input \<Rightarrow> unit result" where
  "workload_input ext i =
     (if pi_template i = WORKLOAD_TEMPLATE then
        rbind (template_from_params ext (pi_params i)) (\<lambda>_.
        ensure (no_keys (pi_constraints i)) (AutomationE PlanBinding) (Inr ()))
      else Inr ())"

definition pipeline_input :: "'x plan_externals_scheme \<Rightarrow> plan_input \<Rightarrow> unit result" where
  "pipeline_input ext i =
     (if is_pipeline_template (pi_template i) then
        ensure (only_key (pi_params i) ''pipeline'') (AutomationE PlanBinding)
        (let executor = Option.bind (jget (pi_constraints i) ''node_id'') as_str;
             body = jindex (pi_params i) ''pipeline'' in
         rbind (if pi_template i = ''conditional_pipeline''
                then rbind (or_err (conditional_parse ext body) (PipelineE PipelineDecode)) (\<lambda>p. conditional_validate ext p executor)
                else rbind (or_err (finite_parse ext body) (PipelineE PipelineDecode)) (\<lambda>p. validate_for_executor ext p executor)) (\<lambda>_.
         ensure (list_all (\<lambda>kv. fst kv \<notin> {''resource_id'', ''backend'', ''model_role''}) (object_entries (pi_constraints i)))
           (AutomationE PlanBinding) (Inr ())))
      else Inr ())"

definition peer_input :: "'x plan_externals_scheme \<Rightarrow> plan_input \<Rightarrow> unit result" where
  "peer_input ext i =
     (if pi_template i = ''peer_transfer'' then
        rbind (pair_from_params ext (pi_params i)) (\<lambda>_.
        ensure (no_keys (pi_constraints i)) (AutomationE PlanBinding) (Inr ()))
      else Inr ())"

section \<open>Constraints\<close>

definition identifier_check :: "string \<Rightarrow> unit result" where
  "identifier_check s = ensure (is_identifier s) (AutomationE PlanInputInvalid) (Inr ())"

fun string_array :: "json \<Rightarrow> string list option" where
  "string_array (JArray vs) = (if list_all (\<lambda>v. as_str v \<noteq> None) vs then Some (map (the \<circ> as_str) vs) else None)"
| "string_array _ = None"

definition check_constraint :: "string \<Rightarrow> json \<Rightarrow> unit result" where
  "check_constraint key v =
     (if key = ''node_id'' then rbind (or_err (as_str v) (AutomationE PlanConstraint)) validate_remote_node_id
      else if key \<in> {''backend'', ''model_role'', ''gpu''} then rbind (or_err (as_str v) (AutomationE PlanConstraint)) identifier_check
      else if key \<in> {''gpu_vram_min_mb'', ''vram_min_mb''} then
        rbind (or_err (as_u64 v) (AutomationE PlanConstraint)) (\<lambda>_. Inr ())
      else if key = ''area'' then rbind (or_err (string_array v) (AutomationE PlanConstraint)) validate_area
      else if key \<in> {''node_name'', ''resource_id''} then
        rbind (or_err (as_str v) (AutomationE PlanConstraint)) (\<lambda>s.
        ensure (s \<noteq> [] \<and> length s \<le> 256 \<and> \<not> has_control s) (AutomationE PlanConstraint) (Inr ()))
      else Inl (AutomationE PlanConstraint))"

primrec check_constraints :: "(string \<times> json) list \<Rightarrow> unit result" where
  "check_constraints [] = Inr ()"
| "check_constraints (kv # m) = rbind (check_constraint (fst kv) (snd kv)) (\<lambda>_. check_constraints m)"

definition plan_input_validate :: "'x plan_externals_scheme \<Rightarrow> plan_input \<Rightarrow> unit result" where
  "plan_input_validate ext i =
     rbind (identifier_check (pi_template i)) (\<lambda>_.
     ensure (pi_schema_version i = 1 \<and> is_object (pi_params i) \<and> is_object (pi_constraints i)
         \<and> length (input_text ext i) \<le> 64 * 1024) (AutomationE PlanInputInvalid)
     (rbind (workload_input ext i) (\<lambda>_.
      rbind (pipeline_input ext i) (\<lambda>_.
      rbind (peer_input ext i) (\<lambda>_.
      check_constraints (object_entries (pi_constraints i)))))))"

section \<open>Capabilities\<close>

definition push_new :: "string \<Rightarrow> string list \<Rightarrow> string list" where
  "push_new x xs = (if x \<in> set xs then xs else xs @ [x])"

definition input_steps :: "'x plan_externals_scheme \<Rightarrow> plan_input \<Rightarrow> pipeline_step list result" where
  "input_steps ext i =
     (let body = jindex (pi_params i) ''pipeline'' in
      if pi_template i = ''conditional_pipeline''
      then rbind (or_err (conditional_parse ext body) (PipelineE PipelineDecode)) (\<lambda>p. Inr (pg_steps (cg_graph p)))
      else rbind (or_err (finite_parse ext body) (PipelineE PipelineDecode)) (\<lambda>p. Inr (pg_steps p)))"

definition concrete_capabilities :: "'x plan_externals_scheme \<Rightarrow> plan_input \<Rightarrow> string list result" where
  "concrete_capabilities ext i =
     rbind (plan_input_validate ext i) (\<lambda>_.
     rbind (template_steps (pi_template i)) (\<lambda>steps.
     let caps = [fst (hd steps)] @ (if pi_template i = WORKLOAD_TEMPLATE then [''audio.capture''] else []) in
     rbind (if is_pipeline_template (pi_template i)
            then rbind (input_steps ext i) (\<lambda>ss. Inr (fold (\<lambda>s. push_new (ps_capability s)) ss caps)) else Inr caps) (\<lambda>caps.
     if pi_template i = ''peer_transfer''
     then rbind (pair_from_params ext (pi_params i)) (\<lambda>audio.
       Inr (if audio then caps @ [''audio.capture'', ''audio.play''] else caps))
     else Inr caps)))"

section \<open>The planning command\<close>

datatype planning_command =
    PlanInspect (pc_id: string)
  | PlanCompile (pc_id: string) (pc_expected_revision: nat) (pc_operation_id: string) (pc_input: plan_input)

definition planning_mutates :: "planning_command \<Rightarrow> bool" where
  "planning_mutates c = (case c of PlanInspect _ \<Rightarrow> False | PlanCompile _ _ _ _ \<Rightarrow> True)"

definition planning_command_validate :: "'x plan_externals_scheme \<Rightarrow> planning_command \<Rightarrow> unit result" where
  "planning_command_validate ext c =
     rbind (validate_id (pc_id c)) (\<lambda>_.
     (case c of
        PlanInspect _ \<Rightarrow> Inr ()
      | PlanCompile _ revision operation i \<Rightarrow>
          ensure (revision \<noteq> 0 \<and> revision \<noteq> u64_max) (AutomationE PlanRevision)
          (rbind (validate_operation_id ext operation) (\<lambda>_. plan_input_validate ext i))))"

section \<open>What an accepted input carries\<close>

lemma conditional_validate_graph:
  "conditional_validate ext p executor = Inr u \<Longrightarrow> validate_for_executor ext (cg_graph p) executor = Inr ()"
  by (auto simp: conditional_validate_def)

text \<open>The pipelines of an accepted input are validated definitions, so its capabilities are found.\<close>

lemma accepted_steps:
  assumes "plan_input_validate ext i = Inr u" and "is_pipeline_template (pi_template i)"
  shows "\<exists>p executor. input_steps ext i = Inr (pg_steps p) \<and> validate_for_executor ext p executor = Inr ()"
  using assms
  by (auto simp: plan_input_validate_def pipeline_input_def input_steps_def Let_def intro: conditional_validate_graph
      split: if_splits)

lemma peer_accepted:
  "plan_input_validate ext i = Inr u \<Longrightarrow> pi_template i = ''peer_transfer'' \<Longrightarrow> \<exists>b. pair_from_params ext (pi_params i) = Inr b"
  by (auto simp: plan_input_validate_def peer_input_def)

lemma capabilities_found:
  assumes "plan_input_validate ext i = Inr ()" and "template_steps (pi_template i) = Inr steps"
  shows "\<exists>caps. concrete_capabilities ext i = Inr caps \<and> fst (hd steps) \<in> set caps"
proof -
  have keep: "x \<in> set cs \<Longrightarrow> x \<in> set (fold (\<lambda>s. push_new (ps_capability s)) ss cs)" for x cs ss
    by (induction ss arbitrary: cs) (auto simp: push_new_def)
  show ?thesis
  proof (cases "is_pipeline_template (pi_template i)")
    case True
    then obtain ss where "input_steps ext i = Inr ss" using accepted_steps [OF assms(1)] by blast
    moreover have "pi_template i \<noteq> WORKLOAD_TEMPLATE" "pi_template i \<noteq> ''peer_transfer''"
      using True by (auto simp: is_pipeline_template_def WORKLOAD_TEMPLATE_def)
    ultimately show ?thesis using assms True keep [of "fst (hd steps)" "[fst (hd steps)]" ss]
      by (simp add: concrete_capabilities_def Let_def)
  next
    case False
    show ?thesis
    proof (cases "pi_template i = ''peer_transfer''")
      case True
      then obtain b where b: "pair_from_params ext (pi_params i) = Inr b" using peer_accepted [OF assms(1)] by blast
      then show ?thesis using assms False True by (cases b) (auto simp: concrete_capabilities_def Let_def)
    qed (use assms False in \<open>simp add: concrete_capabilities_def Let_def\<close>)
  qed
qed

end
