(* ===== verification/Automation_Policy.thy ===== *)
theory Automation_Policy
  imports Plan_Input
begin

text \<open>
  The records of automation: a saved, disabled definition (\<^verbatim>\<open>eefn/automation.rs\<close>) and the
  owner's bounded approval of it (\<^verbatim>\<open>eefn/automation_policy.rs\<close>), with their commands and checks.

  The serde encodings of the records are fields of \<open>automation_externals\<close>; those of a definition and of
  an approval are of the fields that its digest covers.
\<close>

section \<open>Definitions\<close>

datatype automation_command =
    AutomationList nat "string option"
  | AutomationShow string
  | AutomationDefine (ad_operation_id: string) (ad_from_job: string) (ad_revision: nat) (ad_plan_sha256: string)
      (ad_name: string) (ad_every_ms: nat) (ad_max_runs: nat) (ad_valid_for_ms: nat)
  | AutomationRemove string nat string

record removal_receipt =
  rr_operation_id :: string
  rr_source_revision :: nat

record automation_definition =
  af_schema_version :: nat
  af_id :: string
  af_owner_context :: request_context
  af_created_at_ms :: nat
  af_creation :: automation_command
  af_source_sha256 :: string
  af_definition_sha256 :: string
  af_revision :: nat
  af_state :: string
  af_source :: "json option"
  af_removal :: "removal_receipt option"

section \<open>Approvals\<close>

datatype policy_command =
    PolicyList "string option" nat "string option"
  | PolicyShow string
  | PolicyApprove (pa_definition: string) (pa_revision: nat) (pa_definition_sha256: string) (pa_generation: nat)
      (pa_operation_id: string) (pa_valid_for_ms: nat) (pa_max_runs: nat) (pa_max_execution_ms_per_task: nat)
      (pa_max_result_bytes_per_task: nat) (pa_max_reserved_execution_ms: nat) (pa_max_reserved_result_bytes: nat)
  | PolicyRevoke string nat string

record scoped_operation =
  so_capability :: string
  so_action :: string
  so_params :: json
  so_constraints :: json
  so_dependencies :: "nat list"
  so_timeout_ms :: nat
  so_executor_node :: string
  so_resource_id :: "string option"
  so_model_id :: "string option"
  so_backend :: "string option"

record fixed_scope =
  fs_owner_context :: request_context
  fs_input :: plan_input
  fs_operations :: "scoped_operation list"

record revocation =
  rv_operation_id :: string
  rv_source_revision :: nat
  rv_revoked_at_ms :: nat
  rv_runtime_id :: string

record authorization =
  au_schema_version :: nat
  au_id :: string
  au_creation :: policy_command
  au_generation :: nat
  au_runtime_id :: string
  au_issuer_id :: string
  au_approved_at_ms :: nat
  au_expires_at_ms :: nat
  au_scope :: fixed_scope
  au_scope_sha256 :: string
  au_authorization_sha256 :: string
  au_revision :: nat
  au_state :: string
  au_revocation :: "revocation option"

record automation_externals = plan_externals +
  context_json :: "request_context \<Rightarrow> json"
  definition_json :: "automation_definition \<Rightarrow> json"
  definition_text :: "automation_definition \<Rightarrow> string"
  scope_json :: "fixed_scope \<Rightarrow> json"
  scope_text :: "fixed_scope \<Rightarrow> string"
  authorization_json :: "authorization \<Rightarrow> json"
  authorization_text :: "authorization \<Rightarrow> string"

section \<open>Checks of a definition\<close>

definition automation_receipt :: "automation_command \<Rightarrow> string option" where
  "automation_receipt c = (case c of AutomationDefine i _ _ _ _ _ _ _ \<Rightarrow> Some i | AutomationRemove _ _ i \<Rightarrow> Some i
     | _ \<Rightarrow> None)"

definition opt_check :: "('a \<Rightarrow> unit result) \<Rightarrow> 'a option \<Rightarrow> unit result" where
  "opt_check f v = (case v of None \<Rightarrow> Inr () | Some x \<Rightarrow> f x)"

definition automation_command_validate :: "'x automation_externals_scheme \<Rightarrow> automation_command \<Rightarrow> unit result" where
  "automation_command_validate ext c =
     rbind (opt_check (validate_operation_id ext) (automation_receipt c)) (\<lambda>_.
     (case c of
        AutomationList limit after \<Rightarrow>
          ensure (1 \<le> limit \<and> limit \<le> 100) (AutomationE AutomationPage)
            (opt_check (validate_operation_id ext) after)
      | AutomationShow i \<Rightarrow> validate_operation_id ext i
      | AutomationDefine _ from_job revision plan_sha256 name every_ms max_runs valid_for_ms \<Rightarrow>
          rbind (validate_id from_job) (\<lambda>_.
          ensure (revision \<noteq> 0 \<and> revision \<noteq> u64_max \<and> hex_digest plan_sha256 \<and> \<not> is_blank name
              \<and> length name \<le> 128 \<and> \<not> has_control name \<and> 1000 \<le> every_ms \<and> every_ms \<le> 86400000
              \<and> 1 \<le> max_runs \<and> max_runs \<le> 128 \<and> 1000 \<le> valid_for_ms \<and> valid_for_ms \<le> 86400000
              \<and> every_ms \<le> valid_for_ms) (AutomationE AutomationBounds) (Inr ()))
      | AutomationRemove i revision _ \<Rightarrow>
          rbind (validate_operation_id ext i) (\<lambda>_.
          ensure (revision = 1) (AutomationE AutomationBounds) (Inr ()))))"

definition automation_definition_digest :: "'x automation_externals_scheme \<Rightarrow> automation_definition \<Rightarrow> string" where
  "automation_definition_digest ext d = definition_digest ext (definition_json ext d)"

definition source_snapshot_ok :: "'x automation_externals_scheme \<Rightarrow> automation_definition \<Rightarrow> json \<Rightarrow> bool" where
  "source_snapshot_ok ext d source \<longleftrightarrow>
     definition_digest ext source = af_source_sha256 d
     \<and> jindex source ''plan_id'' = JString (ad_from_job (af_creation d))
     \<and> as_u64 (jindex source ''revision'') = Some (ad_revision (af_creation d))
     \<and> jindex (jindex source ''planning'') ''plan_sha256'' = JString (ad_plan_sha256 (af_creation d))
     \<and> jindex source ''status'' = JString ''awaiting_approval''
     \<and> jindex (jindex source ''goal'') ''request_context'' = context_json ext (af_owner_context d)
     \<and> jindex source ''approval'' = JNull \<and> jindex source ''execution'' = JNull
     \<and> length (json_text ext source) \<le> 1024 * 1024"

definition is_define :: "automation_command \<Rightarrow> bool" where
  "is_define c = (case c of AutomationDefine _ _ _ _ _ _ _ _ \<Rightarrow> True | _ \<Rightarrow> False)"

definition automation_definition_validate ::
  "'x automation_externals_scheme \<Rightarrow> automation_definition \<Rightarrow> unit result" where
  "automation_definition_validate ext d =
     rbind (automation_command_validate ext (af_creation d)) (\<lambda>_.
     ensure (is_define (af_creation d)) (AutomationE AutomationDamaged)
     (ensure (af_schema_version d = 1 \<and> af_id d = ad_operation_id (af_creation d) \<and> af_created_at_ms d \<noteq> 0
         \<and> hex_digest (af_source_sha256 d) \<and> automation_definition_digest ext d = af_definition_sha256 d)
       (AutomationE AutomationDamaged)
     (rbind (validate_remote_node_id (origin_node (af_owner_context d))) (\<lambda>_.
     (case (af_source d, af_removal d) of
        (Some source, None) \<Rightarrow>
          ensure (af_revision d = 1 \<and> af_state d = ''disabled'' \<and> source_snapshot_ok ext d source)
            (AutomationE AutomationDamaged) (Inr ())
      | (None, Some r) \<Rightarrow>
          ensure (af_revision d = 2 \<and> af_state d = ''removed'') (AutomationE AutomationDamaged)
          (rbind (validate_operation_id ext (rr_operation_id r)) (\<lambda>_.
           ensure (rr_source_revision r = 1 \<and> rr_operation_id r \<noteq> af_id d) (AutomationE AutomationDamaged) (Inr ())))
      | _ \<Rightarrow> Inl (AutomationE AutomationDamaged))))))"

section \<open>Checks of an approval\<close>

definition MAX_RESERVED_EXECUTION_MS :: nat where "MAX_RESERVED_EXECUTION_MS = 86400000"
definition MAX_RESERVED_RESULT_BYTES :: nat where "MAX_RESERVED_RESULT_BYTES = 128 * 1024 * 1024"

definition policy_receipt :: "policy_command \<Rightarrow> string option" where
  "policy_receipt c = (case c of PolicyApprove _ _ _ _ i _ _ _ _ _ _ \<Rightarrow> Some i | PolicyRevoke _ _ i \<Rightarrow> Some i
     | _ \<Rightarrow> None)"

definition policy_limits :: "policy_command \<Rightarrow> grant_limits option" where
  "policy_limits c =
     (case c of
        PolicyApprove _ _ _ _ _ _ _ ms bytes _ _ \<Rightarrow> Some \<lparr>gl_max_execution_ms = ms, gl_max_result_bytes = bytes\<rparr>
      | _ \<Rightarrow> None)"

definition policy_command_validate :: "'x automation_externals_scheme \<Rightarrow> policy_command \<Rightarrow> unit result" where
  "policy_command_validate ext c =
     rbind (opt_check (uuid ext) (policy_receipt c)) (\<lambda>_.
     (case c of
        PolicyList definition limit after \<Rightarrow>
          ensure (1 \<le> limit \<and> limit \<le> 100) (AutomationE AutomationPage)
          (rbind (opt_check (validate_operation_id ext) definition) (\<lambda>_.
            opt_check (validate_operation_id ext) after))
      | PolicyShow i \<Rightarrow> validate_operation_id ext i
      | PolicyRevoke i revision _ \<Rightarrow>
          rbind (validate_operation_id ext i) (\<lambda>_.
          ensure (revision = 1) (AutomationE PolicyBounds) (Inr ()))
      | PolicyApprove definition revision definition_sha256 generation _ valid_for_ms max_runs ms bytes
          reserved_ms reserved_bytes \<Rightarrow>
          rbind (validate_operation_id ext definition) (\<lambda>_.
          ensure (revision = 1 \<and> generation \<noteq> u64_max \<and> hex_digest definition_sha256
              \<and> 1000 \<le> valid_for_ms \<and> valid_for_ms \<le> 86400000 \<and> 1 \<le> max_runs \<and> max_runs \<le> 128
              \<and> 1 \<le> ms \<and> ms \<le> MAX_DURATION_MS \<and> 1024 \<le> bytes \<and> bytes \<le> 1024 * 1024
              \<and> ms \<le> valid_for_ms \<and> 1 \<le> reserved_ms \<and> reserved_ms \<le> MAX_RESERVED_EXECUTION_MS
              \<and> 1024 \<le> reserved_bytes \<and> reserved_bytes \<le> MAX_RESERVED_RESULT_BYTES)
            (AutomationE PolicyBounds) (Inr ()))))"

primrec check_operations :: "nat \<Rightarrow> scoped_operation list \<Rightarrow> unit result" where
  "check_operations index [] = Inr ()"
| "check_operations index (o' # os) =
     rbind (validate_remote_node_id (so_executor_node o')) (\<lambda>_.
     ensure (so_dependencies o' = [0..<index] \<and> so_timeout_ms o' \<noteq> 0 \<and> is_object (so_params o')
         \<and> is_object (so_constraints o')
         \<and> jindex (so_constraints o') ''node_id'' = JString (so_executor_node o'))
       (AutomationE ScopeBinding) (check_operations (Suc index) os))"

definition fixed_scope_validate :: "'x automation_externals_scheme \<Rightarrow> fixed_scope \<Rightarrow> unit result" where
  "fixed_scope_validate ext s =
     rbind (validate_operation_id ext (request_id (fs_owner_context s))) (\<lambda>_.
     rbind (validate_remote_node_id (origin_node (fs_owner_context s))) (\<lambda>_.
     rbind (plan_input_validate ext (fs_input s)) (\<lambda>_.
     ensure (fs_operations s \<noteq> [] \<and> length (fs_operations s) \<le> 128 \<and> length (scope_text ext s) \<le> 1024 * 1024)
       (AutomationE ScopeBinding) (check_operations 0 (fs_operations s)))))"

definition run_allowance :: "'x automation_externals_scheme \<Rightarrow> fixed_scope \<Rightarrow> grant_limits \<Rightarrow> (nat \<times> nat) result" where
  "run_allowance ext s limits =
     rbind (fixed_scope_validate ext s) (\<lambda>_.
     let count = length (fs_operations s) in
     rbind (or_err (checked_mul count (gl_max_execution_ms limits)) (AutomationE AllowanceOverflow)) (\<lambda>ms.
     rbind (or_err (checked_mul count (gl_max_result_bytes limits)) (AutomationE AllowanceOverflow)) (\<lambda>bytes.
     Inr (ms, bytes))))"

definition authorization_digest :: "'x automation_externals_scheme \<Rightarrow> authorization \<Rightarrow> string" where
  "authorization_digest ext a = definition_digest ext (authorization_json ext a)"

definition check_lifecycle :: "'x automation_externals_scheme \<Rightarrow> authorization \<Rightarrow> unit result" where
  "check_lifecycle ext a =
     (case au_revocation a of
        None \<Rightarrow> ensure (au_revision a = 1 \<and> au_state a = ''approved'') (AutomationE PolicyDamaged) (Inr ())
      | Some r \<Rightarrow>
          ensure (au_revision a = 2 \<and> au_state a = ''revoked'') (AutomationE PolicyDamaged)
          (rbind (validate_operation_id ext (rv_operation_id r)) (\<lambda>_.
           rbind (validate_operation_id ext (rv_runtime_id r)) (\<lambda>_.
           ensure (rv_operation_id r \<noteq> au_id a \<and> rv_source_revision r = 1 \<and> rv_revoked_at_ms r \<noteq> 0)
             (AutomationE PolicyDamaged) (Inr ())))))"

definition authorization_validate :: "'x automation_externals_scheme \<Rightarrow> authorization \<Rightarrow> unit result" where
  "authorization_validate ext a =
     rbind (policy_command_validate ext (au_creation a)) (\<lambda>_.
     rbind (fixed_scope_validate ext (au_scope a)) (\<lambda>_.
     rbind (or_err (policy_limits (au_creation a)) (AutomationE PolicyDamaged)) (\<lambda>limits.
     rbind (validate_operation_id ext (au_runtime_id a)) (\<lambda>_.
     rbind (run_allowance ext (au_scope a) limits) (\<lambda>allowance.
     ensure (au_schema_version a = 1 \<and> au_id a = pa_operation_id (au_creation a)
         \<and> checked_add (pa_generation (au_creation a)) 1 = Some (au_generation a)
         \<and> hex_digest (au_issuer_id a) \<and> au_approved_at_ms a \<noteq> 0
         \<and> checked_add (au_approved_at_ms a) (pa_valid_for_ms (au_creation a)) = Some (au_expires_at_ms a)
         \<and> definition_digest ext (scope_json ext (au_scope a)) = au_scope_sha256 a
         \<and> authorization_digest ext a = au_authorization_sha256 a
         \<and> fst allowance \<le> pa_max_reserved_execution_ms (au_creation a)
         \<and> snd allowance \<le> pa_max_reserved_result_bytes (au_creation a)
         \<and> list_all (\<lambda>o'. gl_max_execution_ms limits \<le> so_timeout_ms o') (fs_operations (au_scope a)))
       (AutomationE PolicyDamaged) (check_lifecycle ext a))))))"

text \<open>\<^verbatim>\<open>Authorization::current_at\<close>: whether an approval may be used at a moment.\<close>

definition is_approve :: "policy_command \<Rightarrow> bool" where
  "is_approve c = (case c of PolicyApprove _ _ _ _ _ _ _ _ _ _ _ \<Rightarrow> True | _ \<Rightarrow> False)"

definition current_at ::
  "'x automation_externals_scheme \<Rightarrow> authorization \<Rightarrow> string \<Rightarrow> string \<Rightarrow> nat \<Rightarrow> automation_definition \<Rightarrow> nat \<Rightarrow> bool" where
  "current_at ext a runtime issuer generation d now \<longleftrightarrow>
     is_approve (au_creation a)
     \<and> is_ok (authorization_validate ext a) \<and> is_ok (automation_definition_validate ext d)
     \<and> au_revocation a = None \<and> af_state d = ''disabled'' \<and> af_source d \<noteq> None
     \<and> af_id d = pa_definition (au_creation a) \<and> af_definition_sha256 d = pa_definition_sha256 (au_creation a)
     \<and> au_runtime_id a = runtime \<and> au_issuer_id a = issuer \<and> au_generation a = generation
     \<and> au_approved_at_ms a \<le> now \<and> now < au_expires_at_ms a"

section \<open>Lemmas\<close>

lemma current_at_times:
  "current_at ext a runtime issuer generation d now
   \<Longrightarrow> au_approved_at_ms a \<le> now \<and> now < au_expires_at_ms a \<and> au_revocation a = None"
  by (simp add: current_at_def)

end
