(* ===== verification/Trigger_Records.thy ===== *)
theory Trigger_Records
  imports Automation_Policy
begin

text \<open>
  The durable trigger ledger of the coordinator (\<^verbatim>\<open>eef/automation_schedules.rs\<close>), its records and
  the checks every retained record passes before it is used: a schedule armed for one approval,
  and the triggers it has claimed.

  A row holds the decoded record; its text is \<open>schedule_text\<close> or \<open>trigger_text\<close> of it. What the other
  tables of the database answer (approvals, definitions, occurrences, jobs and the storage in
  use) is the environment of a call, \<open>ledger_env\<close>: every theorem holds for all answers. The rows are
  kept in the order of their insertion; the code reads them by identity, which no check depends
  on but that of the claims, where \<open>own_claims\<close> sorts by ordinal as the query does;
  \<open>schedule_list\<close> returns the schedules ordered by identity.
\<close>

section \<open>Records\<close>

record arm =
  ar_policy :: string
  ar_policy_sha256 :: string
  ar_operation_id :: string

datatype schedule_state = Waiting | InFlight | Stopped | Interrupted | Exhausted | Resolved

record schedule_stop =
  ss_operation_id :: string
  ss_source_revision :: nat

record refusal =
  rf_schema_version :: nat
  rf_trigger_id :: string
  rf_trigger_sha256 :: string
  rf_runtime_id :: string
  rf_observed_at_ms :: nat
  rf_phase :: string
  rf_refusal_sha256 :: string

record refusal_resolution =
  rs_operation_id :: string
  rs_source_revision :: nat
  rs_trigger_id :: string
  rs_refusal_sha256 :: string
  rs_resolved_at_ms :: nat

record schedule =
  sh_schema_version :: nat
  sh_id :: string
  sh_creation :: arm
  sh_definition_id :: string
  sh_runtime_id :: string
  sh_issuer_id :: string
  sh_generation :: nat
  sh_armed_at_ms :: nat
  sh_expires_at_ms :: nat
  sh_every_ms :: nat
  sh_revision :: nat
  sh_state :: schedule_state
  sh_observed_at_ms :: nat
  sh_next_due_ms :: "nat option"
  sh_active_trigger :: "string option"
  sh_launch_started_at_ms :: "nat option"
  sh_refusal :: "refusal option"
  sh_refusal_resolution :: "refusal_resolution option"
  sh_claimed_runs :: nat
  sh_stop :: "schedule_stop option"
  sh_reason :: "string option"
  sh_record_sha256 :: string

record trigger =
  tg_schema_version :: nat
  tg_id :: string
  tg_schedule_id :: string
  tg_ordinal :: nat
  tg_due_at_ms :: nat
  tg_claimed_at_ms :: nat
  tg_request_context :: request_context
  tg_reservation_id :: string
  tg_execution_id :: string
  tg_record_sha256 :: string

record ledger_externals = automation_externals +
  schedule_json :: "schedule \<Rightarrow> json"
  schedule_text :: "schedule \<Rightarrow> string"
  trigger_json :: "trigger \<Rightarrow> json"
  trigger_text :: "trigger \<Rightarrow> string"
  refusal_json :: "refusal \<Rightarrow> json"

text \<open>The digests leave their own field out of the hashed object.\<close>

definition schedule_digest :: "'x ledger_externals_scheme \<Rightarrow> schedule \<Rightarrow> string" where
  "schedule_digest ext s = definition_digest ext (schedule_json ext (s\<lparr>sh_record_sha256 := []\<rparr>))"

definition trigger_digest :: "'x ledger_externals_scheme \<Rightarrow> trigger \<Rightarrow> string" where
  "trigger_digest ext t = definition_digest ext (trigger_json ext (t\<lparr>tg_record_sha256 := []\<rparr>))"

definition refusal_digest :: "'x ledger_externals_scheme \<Rightarrow> refusal \<Rightarrow> string" where
  "refusal_digest ext r = definition_digest ext (refusal_json ext (r\<lparr>rf_refusal_sha256 := []\<rparr>))"

section \<open>Checks of a schedule\<close>

primrec check_all :: "('a \<Rightarrow> unit result) \<Rightarrow> 'a list \<Rightarrow> unit result" where
  "check_all f [] = Inr ()"
| "check_all f (x # xs) = rbind (f x) (\<lambda>_. check_all f xs)"

definition schedule_base_ok ::
  "'x ledger_externals_scheme \<Rightarrow> schedule \<Rightarrow> authorization \<Rightarrow> automation_definition \<Rightarrow> bool" where
  "schedule_base_ok ext s p d \<longleftrightarrow>
     sh_schema_version s = 1 \<and> ar_operation_id (sh_creation s) = sh_id s
     \<and> ar_policy_sha256 (sh_creation s) = au_authorization_sha256 p
     \<and> sh_id s \<noteq> au_id p \<and> sh_id s \<noteq> sh_definition_id s \<and> sh_id s \<noteq> sh_runtime_id s
     \<and> sh_definition_id s = pa_definition (au_creation p) \<and> sh_runtime_id s = au_runtime_id p
     \<and> sh_issuer_id s = au_issuer_id p \<and> sh_generation s = au_generation p
     \<and> sh_expires_at_ms s = au_expires_at_ms p \<and> au_approved_at_ms p \<le> sh_armed_at_ms s
     \<and> sh_armed_at_ms s < sh_expires_at_ms s \<and> sh_every_ms s = ad_every_ms (af_creation d)
     \<and> sh_revision s \<noteq> 0 \<and> sh_claimed_runs s * 2 \<le> sh_revision s
     \<and> sh_claimed_runs s \<le> pa_max_runs (au_creation p) \<and> sh_observed_at_ms s \<noteq> 0
     \<and> sh_record_sha256 s = schedule_digest ext s \<and> length (schedule_text ext s) \<le> 4096"

definition check_stop :: "'x ledger_externals_scheme \<Rightarrow> schedule \<Rightarrow> schedule_stop \<Rightarrow> unit result" where
  "check_stop ext s stop =
     rbind (uuid ext (ss_operation_id stop)) (\<lambda>_.
     ensure (ss_operation_id stop \<noteq> sh_id s
         \<and> (sh_refusal_resolution s = None \<longrightarrow> checked_add (ss_source_revision stop) 1 = Some (sh_revision s))
         \<and> (sh_refusal_resolution s \<noteq> None \<longrightarrow> saturating_add (ss_source_revision stop) 1 < sh_revision s)
         \<and> sh_state s \<in> {Stopped, Resolved})
       (AutomationE ScheduleDamaged) (Inr ()))"

definition REFUSED_BEFORE_LAUNCH :: string where "REFUSED_BEFORE_LAUNCH = ''refused_before_launch''"

definition check_refusal :: "'x ledger_externals_scheme \<Rightarrow> schedule \<Rightarrow> refusal \<Rightarrow> unit result" where
  "check_refusal ext s r =
     rbind (uuid ext (rf_trigger_id r)) (\<lambda>_.
     rbind (uuid ext (rf_runtime_id r)) (\<lambda>_.
     ensure (rf_schema_version r = 1 \<and> rf_runtime_id r = sh_runtime_id s \<and> rf_observed_at_ms r \<noteq> 0
         \<and> sh_active_trigger s = Some (rf_trigger_id r) \<and> sh_launch_started_at_ms s = None
         \<and> sh_state s \<in> {Interrupted, Stopped, Resolved} \<and> rf_phase r = REFUSED_BEFORE_LAUNCH
         \<and> rf_refusal_sha256 r = refusal_digest ext r)
       (AutomationE ScheduleDamaged) (Inr ())))"

definition check_resolution :: "'x ledger_externals_scheme \<Rightarrow> schedule \<Rightarrow> unit result" where
  "check_resolution ext s =
     (case sh_refusal_resolution s of
        None \<Rightarrow> ensure (sh_state s \<noteq> Resolved) (AutomationE ScheduleDamaged) (Inr ())
      | Some r \<Rightarrow>
          rbind (uuid ext (rs_operation_id r)) (\<lambda>_.
          rbind (or_err (sh_refusal s) (AutomationE ScheduleDamaged)) (\<lambda>f.
          ensure (sh_state s = Resolved \<and> rs_operation_id r \<noteq> sh_id s \<and> rs_operation_id r \<noteq> rf_trigger_id f
              \<and> checked_add (rs_source_revision r) 1 = Some (sh_revision s) \<and> rs_resolved_at_ms r \<noteq> 0
              \<and> rs_refusal_sha256 r = rf_refusal_sha256 f \<and> rs_trigger_id r = rf_trigger_id f)
            (AutomationE ScheduleDamaged) (Inr ()))))"

definition interrupt_reasons :: "string list" where
  "interrupt_reasons = [''restart'', ''backward_clock'', ''missed_trigger'', ''policy_changed'', ''launch_failed'',
     ''source_present'', ''shutdown'', ''clock_discontinuity'', ''job_unresolved'', ''checkpoint_failed'',
     ''preflight_refused'']"

definition exhausted_reasons :: "string list" where
  "exhausted_reasons = [''run_budget'', ''time_budget'', ''policy_budget'']"

definition opt_ex :: "'a option \<Rightarrow> ('a \<Rightarrow> bool) \<Rightarrow> bool" where
  "opt_ex v P = (case v of None \<Rightarrow> False | Some x \<Rightarrow> P x)"

definition schedule_shape :: "schedule \<Rightarrow> bool" where
  "schedule_shape s =
     (case sh_state s of
        Waiting \<Rightarrow> sh_stop s = None \<and> sh_reason s = None \<and> sh_active_trigger s = None
          \<and> sh_launch_started_at_ms s = None \<and> sh_armed_at_ms s \<le> sh_observed_at_ms s
          \<and> opt_ex (sh_next_due_ms s) (\<lambda>n. sh_observed_at_ms s < n \<and> n < sh_expires_at_ms s)
      | InFlight \<Rightarrow> sh_stop s = None \<and> sh_reason s = None \<and> sh_active_trigger s \<noteq> None
          \<and> sh_next_due_ms s = None \<and> sh_armed_at_ms s \<le> sh_observed_at_ms s \<and> 0 < sh_claimed_runs s
      | Stopped \<Rightarrow> sh_stop s \<noteq> None \<and> sh_next_due_ms s = None \<and> sh_reason s = Some ''owner_stop''
      | Interrupted \<Rightarrow> sh_stop s = None \<and> sh_next_due_ms s = None
          \<and> opt_ex (sh_reason s) (\<lambda>r. r \<in> set interrupt_reasons)
      | Exhausted \<Rightarrow> sh_stop s = None \<and> sh_next_due_ms s = None \<and> sh_active_trigger s = None
          \<and> sh_launch_started_at_ms s = None \<and> opt_ex (sh_reason s) (\<lambda>r. r \<in> set exhausted_reasons)
      | Resolved \<Rightarrow> sh_refusal_resolution s \<noteq> None \<and> sh_refusal s \<noteq> None \<and> sh_next_due_ms s = None
          \<and> sh_active_trigger s \<noteq> None \<and> sh_reason s = Some ''refusal_resolved'')"

definition validate_schedule_data ::
  "'x ledger_externals_scheme \<Rightarrow> schedule \<Rightarrow> authorization \<Rightarrow> automation_definition \<Rightarrow> unit result" where
  "validate_schedule_data ext s p d =
     rbind (check_all (uuid ext) [sh_id s, sh_definition_id s, sh_runtime_id s, ar_policy (sh_creation s)]) (\<lambda>_.
     ensure (schedule_base_ok ext s p d) (AutomationE ScheduleDamaged)
     (rbind (opt_check (uuid ext) (sh_active_trigger s)) (\<lambda>_.
      rbind (opt_check (check_stop ext s) (sh_stop s)) (\<lambda>_.
      rbind (opt_check (check_refusal ext s) (sh_refusal s)) (\<lambda>_.
      rbind (check_resolution ext s) (\<lambda>_.
      ensure (schedule_shape s) (AutomationE ScheduleDamaged) (Inr ())))))))"

section \<open>Rows\<close>

definition SCHEDULE_COST :: nat where "SCHEDULE_COST = 4096"

record schedule_row =
  sr_id :: string
  sr_record :: schedule
  sr_reserved :: nat

record trigger_row =
  tr_id :: string
  tr_schedule_id :: string
  tr_ordinal :: nat
  tr_request_id :: string
  tr_reservation_id :: string
  tr_record :: trigger

record trigger_db =
  td_schedules :: "schedule_row list"
  td_triggers :: "trigger_row list"

definition row_headroom :: "'x ledger_externals_scheme \<Rightarrow> schedule_row \<Rightarrow> bool" where
  "row_headroom ext r \<longleftrightarrow> sh_id (sr_record r) = sr_id r \<and> length (schedule_text ext (sr_record r)) \<le> SCHEDULE_COST
     \<and> sr_reserved r = SCHEDULE_COST - length (schedule_text ext (sr_record r))"

section \<open>The environment of a call\<close>

text \<open>
  Of a job (\<^verbatim>\<open>Plan\<close>) the ledger reads its request, whether it is approved, the delegation of the
  approval, the receipt of its execution and whether it is resolved.
\<close>

record delegation =
  dg_policy_id :: string
  dg_reservation_id :: string
  dg_runtime_id :: string
  dg_trigger :: "(string \<times> string) option"

record plan_view =
  pv_context :: "request_context option"
  pv_approved :: bool
  pv_delegation :: "delegation option"
  pv_execution :: "string option"
  pv_resolved :: bool

record ledger_env =
  le_policy :: "string \<Rightarrow> authorization option result"
  le_definition :: "string \<Rightarrow> automation_definition result"
  le_policies :: "authorization list result"
  le_history :: "((string \<times> authorization) list \<times> (string \<times> automation_definition) list) result"
  le_reserved :: "string \<Rightarrow> bool"
  le_requested :: "string \<Rightarrow> bool"
  le_occurrence :: "string \<Rightarrow> plan_view option result"
  le_jobs :: "string \<Rightarrow> plan_view result list"
  le_definition_resolved :: "string \<Rightarrow> bool result"
  le_allowance :: "authorization \<Rightarrow> bool result"
  le_admission :: "string \<Rightarrow> authorization \<Rightarrow> (bool \<times> bool) result"
  le_count :: nat
  le_used :: "nat option"
  le_max_count :: nat
  le_max_bytes :: nat

section \<open>Point reads\<close>

definition schedule_policy :: "ledger_env \<Rightarrow> schedule \<Rightarrow> authorization result" where
  "schedule_policy env s =
     rbind (le_policy env (ar_policy (sh_creation s))) (\<lambda>p. or_err p (AutomationE PolicyMissing))"

definition validate_schedule :: "'x ledger_externals_scheme \<Rightarrow> ledger_env \<Rightarrow> schedule \<Rightarrow> unit result" where
  "validate_schedule ext env s =
     rbind (schedule_policy env s) (\<lambda>p.
     rbind (le_definition env (pa_definition (au_creation p))) (\<lambda>d. validate_schedule_data ext s p d))"

definition find_row :: "trigger_db \<Rightarrow> string \<Rightarrow> schedule_row option" where
  "find_row db i = find (\<lambda>r. sr_id r = i) (td_schedules db)"

definition read_schedule :: "'x ledger_externals_scheme \<Rightarrow> ledger_env \<Rightarrow> trigger_db \<Rightarrow> string \<Rightarrow> schedule option result" where
  "read_schedule ext env db i =
     (case find_row db i of
        None \<Rightarrow> Inr None
      | Some r \<Rightarrow>
          rbind (validate_schedule ext env (sr_record r)) (\<lambda>_.
          ensure (row_headroom ext r) (AutomationE ScheduleDamaged) (Inr (Some (sr_record r)))))"

definition get_schedule :: "'x ledger_externals_scheme \<Rightarrow> ledger_env \<Rightarrow> trigger_db \<Rightarrow> string \<Rightarrow> schedule result" where
  "get_schedule ext env db i =
     rbind (read_schedule ext env db i) (\<lambda>s. or_err s (AutomationE ScheduleMissing))"

primrec map_result :: "('a \<Rightarrow> 'b result) \<Rightarrow> 'a list \<Rightarrow> 'b list result" where
  "map_result f [] = Inr []"
| "map_result f (x # xs) = rbind (f x) (\<lambda>y. rbind (map_result f xs) (\<lambda>ys. Inr (y # ys)))"

definition schedules :: "'x ledger_externals_scheme \<Rightarrow> ledger_env \<Rightarrow> trigger_db \<Rightarrow> schedule list result" where
  "schedules ext env db = map_result (\<lambda>r. get_schedule ext env db (sr_id r)) (td_schedules db)"

section \<open>Checks of a trigger\<close>

definition trigger_identities :: "trigger \<Rightarrow> string list" where
  "trigger_identities t = [tg_id t, tg_reservation_id t, tg_execution_id t, request_id (tg_request_context t)]"

definition validate_trigger_data ::
  "'x ledger_externals_scheme \<Rightarrow> trigger_row \<Rightarrow> schedule \<Rightarrow> authorization \<Rightarrow> unit result" where
  "validate_trigger_data ext r s p =
     (let t = tr_record r; context = tg_request_context t; owner = fs_owner_context (au_scope p);
          identities = [tg_id t, tg_schedule_id t, tg_reservation_id t, tg_execution_id t] in
      rbind (check_all (uuid ext) identities) (\<lambda>_.
      rbind (uuid ext (request_id context)) (\<lambda>_.
      ensure (tg_schema_version t = 1 \<and> tg_id t = tr_id r \<and> tg_schedule_id t = tr_schedule_id r
          \<and> tg_ordinal t = tr_ordinal r \<and> tg_reservation_id t = tr_reservation_id r
          \<and> request_id context = tr_request_id r \<and> tg_ordinal t \<noteq> 0 \<and> tg_ordinal t \<le> sh_claimed_runs s
          \<and> tg_due_at_ms t \<le> tg_claimed_at_ms t
          \<and> saturating_add (sh_armed_at_ms s) (sh_every_ms s) \<le> tg_due_at_ms t
          \<and> tg_claimed_at_ms t < sh_expires_at_ms s
          \<and> saturating_sub (tg_claimed_at_ms t) (tg_due_at_ms t) < sh_every_ms s
          \<and> origin_node context = origin_node owner \<and> origin_area context = origin_area owner
          \<and> request_id context \<noteq> request_id owner
          \<and> distinct (identities @ [request_id context, au_id p])
          \<and> tg_record_sha256 t = trigger_digest ext t \<and> length (trigger_text ext t) \<le> 4096)
        (AutomationE TriggerDamaged) (Inr ()))))"

definition read_trigger :: "'x ledger_externals_scheme \<Rightarrow> ledger_env \<Rightarrow> trigger_db \<Rightarrow> string \<Rightarrow> trigger option result" where
  "read_trigger ext env db i =
     (case find (\<lambda>r. tr_id r = i) (td_triggers db) of
        None \<Rightarrow> Inr None
      | Some r \<Rightarrow>
          rbind (get_schedule ext env db (tg_schedule_id (tr_record r))) (\<lambda>s.
          rbind (schedule_policy env s) (\<lambda>p.
          rbind (validate_trigger_data ext r s p) (\<lambda>_. Inr (Some (tr_record r))))))"

definition get_trigger :: "'x ledger_externals_scheme \<Rightarrow> ledger_env \<Rightarrow> trigger_db \<Rightarrow> string \<Rightarrow> trigger result" where
  "get_trigger ext env db i =
     rbind (read_trigger ext env db i) (\<lambda>t. or_err t (AutomationE ScheduleMissing))"

definition triggers :: "'x ledger_externals_scheme \<Rightarrow> ledger_env \<Rightarrow> trigger_db \<Rightarrow> trigger list result" where
  "triggers ext env db = map_result (\<lambda>r. get_trigger ext env db (tr_id r)) (td_triggers db)"

section \<open>The whole history\<close>

definition history_schedule ::
  "'x ledger_externals_scheme \<Rightarrow> (string \<times> authorization) list \<Rightarrow> (string \<times> automation_definition) list
   \<Rightarrow> schedule_row \<Rightarrow> unit result" where
  "history_schedule ext policies definitions r =
     (let s = sr_record r in
      rbind (or_err (map_of policies (ar_policy (sh_creation s))) (AutomationE PolicyMissing)) (\<lambda>p.
      rbind (or_err (map_of definitions (pa_definition (au_creation p))) (AutomationE PolicyMissing)) (\<lambda>d.
      rbind (validate_schedule_data ext s p d) (\<lambda>_.
      ensure (row_headroom ext r) (AutomationE ScheduleDamaged) (Inr ())))))"

definition history_trigger ::
  "'x ledger_externals_scheme \<Rightarrow> trigger_db \<Rightarrow> (string \<times> authorization) list \<Rightarrow> trigger_row \<Rightarrow> unit result" where
  "history_trigger ext db policies r =
     rbind (or_err (find_row db (tg_schedule_id (tr_record r))) (AutomationE ScheduleMissing)) (\<lambda>sr.
     rbind (or_err (map_of policies (ar_policy (sh_creation (sr_record sr)))) (AutomationE PolicyMissing)) (\<lambda>p.
     validate_trigger_data ext r (sr_record sr) p))"

definition active_state :: "schedule \<Rightarrow> bool" where
  "active_state s \<longleftrightarrow> sh_state s = Waiting \<or> sh_state s = InFlight"

text \<open>The claims of one schedule, by ordinal.\<close>

definition own_claims :: "trigger_db \<Rightarrow> schedule \<Rightarrow> trigger list" where
  "own_claims db s = sort_key tg_ordinal (filter (\<lambda>t. tg_schedule_id t = sh_id s) (map tr_record (td_triggers db)))"

definition claims_match :: "ledger_env \<Rightarrow> schedule \<Rightarrow> trigger list \<Rightarrow> unit result" where
  "claims_match env s own =
     (let final = (if own = [] then None else Some (last own)) in
      ensure (length own = sh_claimed_runs s \<and> map tg_ordinal own = [1..<Suc (length own)]
          \<and> (case sh_active_trigger s of None \<Rightarrow> True | Some i \<Rightarrow> opt_ex final (\<lambda>t. tg_id t = i)))
        (AutomationE HistoryDamaged)
     (ensure (sh_state s = InFlight \<longrightarrow> opt_ex final (\<lambda>t.
          sh_observed_at_ms s = (case sh_launch_started_at_ms s of None \<Rightarrow> tg_claimed_at_ms t | Some at \<Rightarrow> at)
          \<and> (case sh_launch_started_at_ms s of None \<Rightarrow> True
             | Some at \<Rightarrow> tg_claimed_at_ms t \<le> at \<and> at < sh_expires_at_ms s)))
        (AutomationE HistoryDamaged)
      (case sh_refusal s of
         None \<Rightarrow> Inr ()
       | Some r \<Rightarrow>
           rbind (or_err final (AutomationE HistoryDamaged)) (\<lambda>t.
           ensure (rf_trigger_id r = tg_id t \<and> rf_trigger_sha256 r = tg_record_sha256 t
               \<and> \<not> le_reserved env (tg_reservation_id t) \<and> \<not> le_requested env (request_id (tg_request_context t)))
             (AutomationE HistoryDamaged) (Inr ())))))"

text \<open>
  \<^verbatim>\<open>validated_history\<close>: the approvals and definitions of the view, when every row passes. The
  schedules and claims of the view are those of the database it read.
\<close>

definition validated_history ::
  "'x ledger_externals_scheme \<Rightarrow> ledger_env \<Rightarrow> trigger_db
   \<Rightarrow> ((string \<times> authorization) list \<times> (string \<times> automation_definition) list) result" where
  "validated_history ext env db =
     rbind (le_history env) (\<lambda>(policies, definitions).
     rbind (check_all (history_schedule ext policies definitions) (td_schedules db)) (\<lambda>_.
     rbind (check_all (history_trigger ext db policies) (td_triggers db)) (\<lambda>_.
     ensure (distinct (concat (map (\<lambda>r. trigger_identities (tr_record r)) (td_triggers db)))) (AutomationE HistoryDamaged)
     (ensure (distinct (map (\<lambda>r. sh_definition_id (sr_record r))
          (filter (\<lambda>r. active_state (sr_record r)) (td_schedules db)))) (AutomationE HistoryDamaged)
     (rbind (check_all (\<lambda>r. claims_match env (sr_record r) (own_claims db (sr_record r))) (td_schedules db)) (\<lambda>_.
     Inr (policies, definitions)))))))"

definition latest_generation :: "authorization list \<Rightarrow> string \<Rightarrow> nat" where
  "latest_generation ps definition =
     fold (\<lambda>p n. if is_approve (au_creation p) \<and> pa_definition (au_creation p) = definition then max (au_generation p) n else n)
       ps 0"

definition history_current ::
  "'x ledger_externals_scheme \<Rightarrow> (string \<times> authorization) list \<times> (string \<times> automation_definition) list
   \<Rightarrow> schedule \<Rightarrow> string \<Rightarrow> string \<Rightarrow> nat \<Rightarrow> bool result" where
  "history_current ext view s runtime issuer now =
     rbind (or_err (map_of (fst view) (ar_policy (sh_creation s))) (AutomationE PolicyMissing)) (\<lambda>p.
     rbind (or_err (map_of (snd view) (sh_definition_id s)) (AutomationE PolicyMissing)) (\<lambda>d.
     Inr (sh_runtime_id s = runtime \<and> sh_issuer_id s = issuer
       \<and> current_at ext p runtime issuer (latest_generation (map snd (fst view)) (sh_definition_id s)) d now)))"

definition current_schedule ::
  "'x ledger_externals_scheme \<Rightarrow> ledger_env \<Rightarrow> schedule \<Rightarrow> string \<Rightarrow> string \<Rightarrow> nat \<Rightarrow> bool result" where
  "current_schedule ext env s runtime issuer now =
     rbind (schedule_policy env s) (\<lambda>p.
     rbind (le_definition env (sh_definition_id s)) (\<lambda>d.
     rbind (le_policies env) (\<lambda>ps.
     Inr (sh_runtime_id s = runtime \<and> sh_issuer_id s = issuer
       \<and> current_at ext p runtime issuer (latest_generation ps (sh_definition_id s)) d now))))"

end
