(* ===== verification/Trigger_Ledger.thy ===== *)
theory Trigger_Ledger
  imports Trigger_Records
begin

text \<open>
  The operations of the trigger ledger (\<^verbatim>\<open>eef/automation_schedules.rs\<close>): arming a schedule, claiming
  a due trigger, launching, refusing, settling, stopping and interrupting it, and the fences that
  other parts of the coordinator ask.

  Each operation holds the journal's lock and writes in one transaction or one statement, so it
  is a function of the ledger whose error leaves the ledger as it was. The readings of the
  clock and the new UUIDs are arguments.
\<close>

section \<open>Saving\<close>

definition schedule_advance :: "schedule \<Rightarrow> nat \<Rightarrow> schedule result" where
  "schedule_advance s now =
     rbind (or_err (checked_add (sh_revision s) 1) (AutomationE RevisionExhausted)) (\<lambda>r.
     Inr (s\<lparr>sh_revision := r, sh_observed_at_ms := now\<rparr>))"

definition schedule_interrupted :: "schedule \<Rightarrow> string \<Rightarrow> nat \<Rightarrow> schedule result" where
  "schedule_interrupted s reason now =
     rbind (schedule_advance s now) (\<lambda>s.
     Inr (s\<lparr>sh_state := Interrupted, sh_reason := Some reason, sh_next_due_ms := None\<rparr>))"

text \<open>\<open>previous\<close> is the cost of the row that is replaced, if there is one.\<close>

definition ledger_quota :: "ledger_env \<Rightarrow> nat option \<Rightarrow> nat \<Rightarrow> bool \<Rightarrow> unit result" where
  "ledger_quota env previous cost is_new =
     ensure (\<not> (is_new \<and> le_max_count env \<le> le_count env)) (AutomationE TriggerQuota)
     (if opt_ex previous (\<lambda>old. cost \<le> old) then Inr ()
      else
        rbind (or_err (le_used env) (AutomationE TriggerQuota)) (\<lambda>used.
        rbind (or_err (checked_sub used (case previous of None \<Rightarrow> 0 | Some old \<Rightarrow> old)) (AutomationE TriggerQuota)) (\<lambda>used.
        ensure (cost \<le> saturating_sub (le_max_bytes env) used) (AutomationE TriggerQuota) (Inr ()))))"

definition row_cost :: "'x ledger_externals_scheme \<Rightarrow> schedule_row \<Rightarrow> nat" where
  "row_cost ext r = length (schedule_text ext (sr_record r)) + sr_reserved r"

definition put_row :: "schedule_row \<Rightarrow> trigger_db \<Rightarrow> trigger_db" where
  "put_row r db = db\<lparr>td_schedules := map (\<lambda>q. if sr_id q = sr_id r then r else q) (td_schedules db)\<rparr>"

definition save_schedule ::
  "'x ledger_externals_scheme \<Rightarrow> ledger_env \<Rightarrow> schedule \<Rightarrow> bool \<Rightarrow> trigger_db \<Rightarrow> (schedule \<times> trigger_db) result" where
  "save_schedule ext env s is_new db =
     (let s = s\<lparr>sh_record_sha256 := schedule_digest ext s\<rparr> in
      rbind (validate_schedule ext env s) (\<lambda>_.
      rbind (ledger_quota env (map_option (row_cost ext) (find_row db (sh_id s))) SCHEDULE_COST is_new) (\<lambda>_.
      let row = \<lparr>sr_id = sh_id s, sr_record = s, sr_reserved = SCHEDULE_COST - length (schedule_text ext s)\<rparr> in
      if is_new then
        ensure (find_row db (sh_id s) = None) (JournalE SqlConstraint)
          (Inr (s, db\<lparr>td_schedules := td_schedules db @ [row]\<rparr>))
      else Inr (s, put_row row db))))"

section \<open>Jobs of a trigger\<close>

definition trigger_for_request ::
  "'x ledger_externals_scheme \<Rightarrow> ledger_env \<Rightarrow> trigger_db \<Rightarrow> string \<Rightarrow> trigger option result" where
  "trigger_for_request ext env db request =
     (case find (\<lambda>r. tr_request_id r = request) (td_triggers db) of
        None \<Rightarrow> Inr None
      | Some r \<Rightarrow> rbind (get_trigger ext env db (tr_id r)) (\<lambda>t. Inr (Some t)))"

definition validate_delegation ::
  "'x ledger_externals_scheme \<Rightarrow> ledger_env \<Rightarrow> trigger_db \<Rightarrow> plan_view \<Rightarrow> unit result" where
  "validate_delegation ext env db plan =
     (case pv_context plan of
        None \<Rightarrow> Inr ()
      | Some context \<Rightarrow>
          rbind (trigger_for_request ext env db (request_id context)) (\<lambda>claim.
          let link = Option.bind (pv_delegation plan) dg_trigger in
          (case (claim, link) of
             (None, None) \<Rightarrow> Inr ()
           | (Some t, Some (schedule_id, trigger_id)) \<Rightarrow>
               rbind (get_schedule ext env db (tg_schedule_id t)) (\<lambda>s.
               let d = the (pv_delegation plan) in
               ensure (schedule_id = sh_id s \<and> trigger_id = tg_id t \<and> dg_policy_id d = ar_policy (sh_creation s)
                   \<and> dg_reservation_id d = tg_reservation_id t \<and> dg_runtime_id d = sh_runtime_id s
                   \<and> context = tg_request_context t
                   \<and> (case pv_execution plan of None \<Rightarrow> True | Some i \<Rightarrow> i = tg_execution_id t))
                 (AutomationE TriggerAuthority) (Inr ()))
           | (Some _, None) \<Rightarrow> ensure (\<not> pv_approved plan) (AutomationE TriggerAuthority) (Inr ())
           | _ \<Rightarrow> Inl (AutomationE TriggerAuthority))))"

text \<open>The loop of \<^verbatim>\<open>source_job\<close> over the jobs with the trigger's request identity.\<close>

primrec matching_job :: "request_context \<Rightarrow> plan_view option \<Rightarrow> plan_view result list \<Rightarrow> plan_view option result" where
  "matching_job context found [] = Inr found"
| "matching_job context found (j # js) =
     rbind j (\<lambda>plan.
     if pv_context plan = Some context then
       ensure (found = None) (AutomationE ClaimUnresolved) (matching_job context (Some plan) js)
     else matching_job context found js)"

definition source_job ::
  "'x ledger_externals_scheme \<Rightarrow> ledger_env \<Rightarrow> trigger_db \<Rightarrow> trigger \<Rightarrow> plan_view option result" where
  "source_job ext env db t =
     rbind (le_occurrence env (tg_reservation_id t)) (\<lambda>occurrence.
     (case occurrence of
        Some p \<Rightarrow> rbind (validate_delegation ext env db p) (\<lambda>_. Inr (Some p))
      | None \<Rightarrow> matching_job (tg_request_context t) None (le_jobs env (request_id (tg_request_context t)))))"

definition resolved_claim :: "'x ledger_externals_scheme \<Rightarrow> ledger_env \<Rightarrow> trigger_db \<Rightarrow> trigger \<Rightarrow> bool result" where
  "resolved_claim ext env db t =
     rbind (get_schedule ext env db (tg_schedule_id t)) (\<lambda>s.
     if opt_ex (sh_refusal_resolution s) (\<lambda>r. rs_trigger_id r = tg_id t) then
       rbind (validated_history ext env db) (\<lambda>_. Inr True)
     else
       rbind (le_occurrence env (tg_reservation_id t)) (\<lambda>occurrence.
       (case occurrence of
          Some p \<Rightarrow> rbind (validate_delegation ext env db p) (\<lambda>_. Inr (pv_resolved p))
        | None \<Rightarrow> rbind (source_job ext env db t) (\<lambda>job.
            Inr (opt_ex job (\<lambda>p. \<not> pv_approved p \<and> pv_execution p = None \<and> pv_resolved p))))))"

section \<open>Arming\<close>

definition is_hex_digit :: "char \<Rightarrow> bool" where
  "is_hex_digit c \<longleftrightarrow> is_lower_hex c \<or> (65 \<le> byte c \<and> byte c \<le> 70)"

definition no_overlap ::
  "'x ledger_externals_scheme \<Rightarrow> ledger_env \<Rightarrow> trigger_db \<Rightarrow> schedule \<Rightarrow> unit result" where
  "no_overlap ext env db old =
     ensure (\<not> active_state old) (AutomationE ArmOverlap)
     (rbind (triggers ext env db) (\<lambda>ts.
      ensure (list_all (\<lambda>t. tg_schedule_id t = sh_id old \<longrightarrow> resolved_claim ext env db t = Inr True) ts)
        (AutomationE ArmOverlap) (Inr ())))"

definition new_schedule ::
  "arm \<Rightarrow> authorization \<Rightarrow> string \<Rightarrow> string \<Rightarrow> string \<Rightarrow> nat \<Rightarrow> nat \<Rightarrow> nat \<Rightarrow> schedule" where
  "new_schedule command p definition runtime issuer every_ms now due =
     \<lparr>sh_schema_version = 1, sh_id = ar_operation_id command, sh_creation = command,
      sh_definition_id = definition, sh_runtime_id = runtime, sh_issuer_id = issuer,
      sh_generation = au_generation p, sh_armed_at_ms = now, sh_expires_at_ms = au_expires_at_ms p,
      sh_every_ms = every_ms, sh_revision = 1, sh_state = Waiting, sh_observed_at_ms = now,
      sh_next_due_ms = Some due, sh_active_trigger = None, sh_launch_started_at_ms = None,
      sh_refusal = None, sh_refusal_resolution = None, sh_claimed_runs = 0, sh_stop = None,
      sh_reason = None, sh_record_sha256 = []\<rparr>"

definition policy_allowance :: "'x ledger_externals_scheme \<Rightarrow> authorization \<Rightarrow> nat result" where
  "policy_allowance ext p =
     rbind (or_err (policy_limits (au_creation p)) (AutomationE PolicyDamaged)) (\<lambda>limits.
     rbind (run_allowance ext (au_scope p) limits) (\<lambda>a. Inr (fst a)))"

text \<open>The checks of \<^verbatim>\<open>schedule_arm\<close> on the other schedules and occurrences of the definition.\<close>

definition arm_free ::
  "'x ledger_externals_scheme \<Rightarrow> ledger_env \<Rightarrow> trigger_db \<Rightarrow> authorization \<Rightarrow> unit result" where
  "arm_free ext env db p =
     (let definition = pa_definition (au_creation p) in
      rbind (schedules ext env db) (\<lambda>ss.
      rbind (check_all (no_overlap ext env db) (filter (\<lambda>old. sh_definition_id old = definition) ss)) (\<lambda>_.
      rbind (le_definition_resolved env definition) (\<lambda>resolved.
      ensure resolved (AutomationE ArmOverlap)
      (rbind (le_allowance env p) (\<lambda>available.
       ensure available (AutomationE ArmRefused) (Inr ())))))))"

definition arm_new ::
  "'x ledger_externals_scheme \<Rightarrow> ledger_env \<Rightarrow> nat \<Rightarrow> nat \<Rightarrow> arm \<Rightarrow> string \<Rightarrow> string \<Rightarrow> trigger_db
   \<Rightarrow> ((schedule \<times> bool) \<times> trigger_db) result" where
  "arm_new ext env now commit command runtime issuer db =
     rbind (rbind (le_policy env (ar_policy command)) (\<lambda>p. or_err p (AutomationE PolicyMissing))) (\<lambda>p.
     rbind (le_definition env (pa_definition (au_creation p))) (\<lambda>source.
     rbind (or_err (checked_add now (ad_every_ms (af_creation source))) (AutomationE ArmRefused)) (\<lambda>due.
     let s = new_schedule command p (pa_definition (au_creation p)) runtime issuer (ad_every_ms (af_creation source)) now due in
     rbind (current_schedule ext env s runtime issuer now) (\<lambda>current.
     rbind (policy_allowance ext p) (\<lambda>allowance.
     ensure (ar_policy_sha256 command = au_authorization_sha256 p \<and> current
         \<and> allowance \<le> saturating_sub (au_expires_at_ms p) due) (AutomationE ArmRefused)
     (rbind (arm_free ext env db p) (\<lambda>_.
      rbind (save_schedule ext env s True db) (\<lambda>(s, db').
      rbind (current_schedule ext env s runtime issuer commit) (\<lambda>current.
      ensure (now \<le> commit \<and> current \<and> allowance \<le> saturating_sub (au_expires_at_ms p) (max due commit))
        (AutomationE ArmRefused) (Inr ((s, False), db')))))))))))"

definition schedule_arm ::
  "'x ledger_externals_scheme \<Rightarrow> ledger_env \<Rightarrow> nat \<Rightarrow> nat \<Rightarrow> arm \<Rightarrow> string \<Rightarrow> string \<Rightarrow> trigger_db
   \<Rightarrow> ((schedule \<times> bool) \<times> trigger_db) result" where
  "schedule_arm ext env now commit command runtime issuer db =
     rbind (check_all (uuid ext) [ar_operation_id command, ar_policy command, runtime]) (\<lambda>_.
     ensure (ar_operation_id command \<noteq> ar_policy command \<and> length (ar_policy_sha256 command) = 64
         \<and> list_all is_hex_digit (ar_policy_sha256 command)) (AutomationE ArmInvalid)
     (rbind (validated_history ext env db) (\<lambda>_.
      rbind (read_schedule ext env db (ar_operation_id command)) (\<lambda>old.
      (case old of
         Some s \<Rightarrow> ensure (sh_creation s = command) (AutomationE ArmInvalid) (Inr ((s, True), db))
       | None \<Rightarrow> arm_new ext env now commit command runtime issuer db)))))"

section \<open>Claiming\<close>

definition claim_denied :: "schedule \<Rightarrow> nat \<Rightarrow> nat \<Rightarrow> bool \<Rightarrow> string option" where
  "claim_denied s due now current =
     (if now < sh_observed_at_ms s then Some ''backward_clock''
      else if \<not> current then Some ''policy_changed''
      else if saturating_add due (sh_every_ms s) \<le> now then Some ''missed_trigger''
      else None)"

definition exhausted_reason :: "bool \<Rightarrow> bool \<Rightarrow> string" where
  "exhausted_reason runs_left budget =
     (if \<not> runs_left then ''run_budget'' else if \<not> budget then ''policy_budget'' else ''time_budget'')"

definition new_trigger :: "schedule \<Rightarrow> request_context \<Rightarrow> string \<Rightarrow> string \<Rightarrow> string \<Rightarrow> nat \<Rightarrow> nat \<Rightarrow> trigger" where
  "new_trigger s context i reservation execution due now =
     \<lparr>tg_schema_version = 1, tg_id = i, tg_schedule_id = sh_id s, tg_ordinal = sh_claimed_runs s + 1,
      tg_due_at_ms = due, tg_claimed_at_ms = now, tg_request_context = context,
      tg_reservation_id = reservation, tg_execution_id = execution, tg_record_sha256 = []\<rparr>"

definition insert_trigger :: "trigger \<Rightarrow> trigger_db \<Rightarrow> trigger_db result" where
  "insert_trigger t db =
     ensure (list_all (\<lambda>r. tr_id r \<noteq> tg_id t \<and> tr_request_id r \<noteq> request_id (tg_request_context t)
         \<and> tr_reservation_id r \<noteq> tg_reservation_id t
         \<and> \<not> (tr_schedule_id r = tg_schedule_id t \<and> tr_ordinal r = tg_ordinal t)) (td_triggers db))
       (JournalE SqlConstraint)
       (Inr (db\<lparr>td_triggers := td_triggers db @ [\<lparr>tr_id = tg_id t, tr_schedule_id = tg_schedule_id t,
          tr_ordinal = tg_ordinal t, tr_request_id = request_id (tg_request_context t),
          tr_reservation_id = tg_reservation_id t, tr_record = t\<rparr>]\<rparr>))"

text \<open>The four new identities of a claim: trigger, request, reservation and execution.\<close>

record claim_ids =
  ci_trigger :: string
  ci_request :: string
  ci_reservation :: string
  ci_execution :: string

definition claim_commit ::
  "'x ledger_externals_scheme \<Rightarrow> ledger_env \<Rightarrow> nat \<Rightarrow> nat \<Rightarrow> claim_ids \<Rightarrow> string \<Rightarrow> string
   \<Rightarrow> schedule \<Rightarrow> nat \<Rightarrow> authorization \<Rightarrow> nat \<Rightarrow> trigger_db \<Rightarrow> (trigger option \<times> trigger_db) result" where
  "claim_commit ext env now commit ids runtime issuer s due p allowance db =
     rbind (request_context_new (ci_request ids) (origin_node (fs_owner_context (au_scope p)))
              (origin_area (fs_owner_context (au_scope p)))) (\<lambda>context.
     let t = new_trigger s context (ci_trigger ids) (ci_reservation ids) (ci_execution ids) due now;
         t = t\<lparr>tg_record_sha256 := trigger_digest ext t\<rparr> in
     rbind (schedule_advance s now) (\<lambda>s.
     let s = s\<lparr>sh_claimed_runs := tg_ordinal t, sh_state := InFlight, sh_next_due_ms := None,
               sh_active_trigger := Some (tg_id t), sh_launch_started_at_ms := None\<rparr> in
     rbind (save_schedule ext env s False db) (\<lambda>(s, db').
     rbind (ledger_quota env None (length (trigger_text ext t)) True) (\<lambda>_.
     rbind (insert_trigger t db') (\<lambda>db''.
     rbind (validated_history ext env db'') (\<lambda>view.
     rbind (history_current ext view s runtime issuer commit) (\<lambda>current.
     ensure (now \<le> commit \<and> commit < saturating_add due (sh_every_ms s) \<and> current
         \<and> allowance \<le> saturating_sub (sh_expires_at_ms s) commit) (AutomationE ClaimFence)
       (Inr (Some t, db'')))))))))"

definition schedule_claim_due ::
  "'x ledger_externals_scheme \<Rightarrow> ledger_env \<Rightarrow> nat \<Rightarrow> nat \<Rightarrow> claim_ids \<Rightarrow> string \<Rightarrow> string \<Rightarrow> string
   \<Rightarrow> trigger_db \<Rightarrow> (trigger option \<times> trigger_db) result" where
  "schedule_claim_due ext env now commit ids i runtime issuer db =
     rbind (validated_history ext env db) (\<lambda>view.
     rbind (or_err (map_option sr_record (find_row db i)) (AutomationE ScheduleMissing)) (\<lambda>s.
     if sh_state s \<noteq> Waiting then Inr (None, db)
     else
       let due = the (sh_next_due_ms s) in
       rbind (if now < sh_observed_at_ms s then Inr True else history_current ext view s runtime issuer now) (\<lambda>current.
       (case claim_denied s due now current of
          Some reason \<Rightarrow>
            rbind (schedule_interrupted s reason now) (\<lambda>s.
            rbind (save_schedule ext env s False db) (\<lambda>(_, db'). Inr (None, db')))
        | None \<Rightarrow>
            if now < due then Inr (None, db)
            else
              rbind (or_err (map_of (fst view) (ar_policy (sh_creation s))) (AutomationE PolicyMissing)) (\<lambda>p.
              rbind (le_admission env (sh_definition_id s) p) (\<lambda>(resolved, budget).
              ensure resolved (AutomationE ClaimUnresolved)
              (let runs_left = (sh_claimed_runs s < pa_max_runs (au_creation p)) in
               rbind (if runs_left \<and> budget then policy_allowance ext p else Inr 0) (\<lambda>allowance.
               if \<not> runs_left \<or> \<not> budget \<or> saturating_sub (sh_expires_at_ms s) now < allowance then
                 rbind (schedule_advance s now) (\<lambda>s.
                 rbind (save_schedule ext env (s\<lparr>sh_state := Exhausted,
                     sh_reason := Some (exhausted_reason runs_left budget), sh_next_due_ms := None\<rparr>) False db) (\<lambda>(_, db').
                 Inr (None, db')))
               else claim_commit ext env now commit ids runtime issuer s due p allowance db))))))))"

section \<open>Launching and refusing\<close>

definition owns_trigger :: "schedule \<Rightarrow> string \<Rightarrow> bool" where
  "owns_trigger s i \<longleftrightarrow> sh_state s = InFlight \<and> sh_active_trigger s = Some i"

definition trigger_begin_launch ::
  "'x ledger_externals_scheme \<Rightarrow> ledger_env \<Rightarrow> nat \<Rightarrow> nat \<Rightarrow> string \<Rightarrow> string \<Rightarrow> trigger_db
   \<Rightarrow> (bool \<times> trigger_db) result" where
  "trigger_begin_launch ext env now commit i runtime db =
     rbind (validated_history ext env db) (\<lambda>_.
     rbind (get_trigger ext env db i) (\<lambda>t.
     rbind (get_schedule ext env db (tg_schedule_id t)) (\<lambda>s.
     ensure (sh_runtime_id s = runtime \<and> owns_trigger s i) (AutomationE LaunchRefused)
     (if sh_launch_started_at_ms s \<noteq> None then Inr (False, db)
      else
        rbind (source_job ext env db t) (\<lambda>job.
        ensure (job = None) (AutomationE LaunchRefused)
        (rbind (current_schedule ext env s runtime (sh_issuer_id s) now) (\<lambda>current.
         ensure (sh_observed_at_ms s \<le> now \<and> current) (AutomationE LaunchRefused)
         (rbind (schedule_advance s now) (\<lambda>s.
          rbind (save_schedule ext env (s\<lparr>sh_launch_started_at_ms := Some now\<rparr>) False db) (\<lambda>(s, db').
          rbind (current_schedule ext env s runtime (sh_issuer_id s) commit) (\<lambda>current.
          ensure (now \<le> commit \<and> current) (AutomationE LaunchRefused) (Inr (True, db')))))))))))))"

definition trigger_record_refusal ::
  "'x ledger_externals_scheme \<Rightarrow> ledger_env \<Rightarrow> nat \<Rightarrow> string \<Rightarrow> string \<Rightarrow> trigger_db \<Rightarrow> (bool \<times> trigger_db) result" where
  "trigger_record_refusal ext env now i runtime db =
     rbind (validated_history ext env db) (\<lambda>_.
     rbind (get_trigger ext env db i) (\<lambda>t.
     rbind (get_schedule ext env db (tg_schedule_id t)) (\<lambda>s.
     if sh_refusal s \<noteq> None then Inr (True, db)
     else if \<not> (sh_runtime_id s = runtime \<and> owns_trigger s i \<and> sh_launch_started_at_ms s = None) then Inr (False, db)
     else
       rbind (source_job ext env db t) (\<lambda>job.
       if job \<noteq> None then Inr (False, db)
       else
         let r = \<lparr>rf_schema_version = 1, rf_trigger_id = tg_id t, rf_trigger_sha256 = tg_record_sha256 t,
               rf_runtime_id = runtime, rf_observed_at_ms = now, rf_phase = REFUSED_BEFORE_LAUNCH, rf_refusal_sha256 = []\<rparr>;
             r = r\<lparr>rf_refusal_sha256 := refusal_digest ext r\<rparr> in
         rbind (schedule_interrupted s ''preflight_refused'' now) (\<lambda>s.
         rbind (save_schedule ext env (s\<lparr>sh_refusal := Some r\<rparr>) False db) (\<lambda>(_, db').
         rbind (validated_history ext env db') (\<lambda>_. Inr (True, db'))))))))"

definition identity_taken :: "'x ledger_externals_scheme \<Rightarrow> ledger_env \<Rightarrow> trigger_db \<Rightarrow> string \<Rightarrow> bool result" where
  "identity_taken ext env db operation =
     rbind (triggers ext env db) (\<lambda>ts. Inr (list_ex (\<lambda>t. operation \<in> set (trigger_identities t)) ts))"

definition resolve_trigger_refusal ::
  "'x ledger_externals_scheme \<Rightarrow> ledger_env \<Rightarrow> nat \<Rightarrow> string \<Rightarrow> nat \<Rightarrow> string \<Rightarrow> string \<Rightarrow> string \<Rightarrow> trigger_db
   \<Rightarrow> ((schedule \<times> bool) \<times> trigger_db) result" where
  "resolve_trigger_refusal ext env now i revision trigger_id hash operation db =
     rbind (check_all (uuid ext) [operation, trigger_id]) (\<lambda>_.
     rbind (validated_history ext env db) (\<lambda>_.
     rbind (get_schedule ext env db i) (\<lambda>s.
     (case sh_refusal_resolution s of
        Some old \<Rightarrow>
          ensure (rs_source_revision old = revision \<and> rs_trigger_id old = trigger_id \<and> rs_refusal_sha256 old = hash
              \<and> rs_operation_id old = operation) (AutomationE RefusalReceipt) (Inr ((s, True), db))
      | None \<Rightarrow>
          rbind (or_err (sh_refusal s) (AutomationE RefusalReceipt)) (\<lambda>r.
          rbind (identity_taken ext env db operation) (\<lambda>taken.
          ensure (sh_revision s = revision \<and> sh_state s \<in> {Interrupted, Stopped} \<and> rf_trigger_id r = trigger_id
              \<and> rf_refusal_sha256 r = hash \<and> operation \<noteq> sh_id s \<and> operation \<noteq> ar_policy (sh_creation s) \<and> \<not> taken)
            (AutomationE RefusalReceipt)
          (rbind (schedule_advance s now) (\<lambda>s.
           rbind (save_schedule ext env (s\<lparr>sh_state := Resolved, sh_next_due_ms := None,
               sh_reason := Some ''refusal_resolved'',
               sh_refusal_resolution := Some \<lparr>rs_operation_id = operation, rs_source_revision = revision,
                 rs_trigger_id = trigger_id, rs_refusal_sha256 = hash, rs_resolved_at_ms = now\<rparr>\<rparr>) False db) (\<lambda>(s, db').
           rbind (validated_history ext env db') (\<lambda>_. Inr ((s, False), db')))))))))))"

section \<open>Interrupting\<close>

definition schedule_interrupt_now ::
  "'x ledger_externals_scheme \<Rightarrow> ledger_env \<Rightarrow> nat \<Rightarrow> string \<Rightarrow> string \<Rightarrow> trigger_db \<Rightarrow> (schedule \<times> trigger_db) result" where
  "schedule_interrupt_now ext env now i reason db =
     rbind (validated_history ext env db) (\<lambda>_.
     rbind (get_schedule ext env db i) (\<lambda>s.
     if active_state s then
       rbind (schedule_interrupted s reason now) (\<lambda>s. save_schedule ext env s False db)
     else Inr (s, db)))"

definition trigger_interrupt_now ::
  "'x ledger_externals_scheme \<Rightarrow> ledger_env \<Rightarrow> nat \<Rightarrow> string \<Rightarrow> string \<Rightarrow> trigger_db \<Rightarrow> (schedule \<times> trigger_db) result" where
  "trigger_interrupt_now ext env now i reason db =
     rbind (validated_history ext env db) (\<lambda>_.
     rbind (get_trigger ext env db i) (\<lambda>t.
     rbind (get_schedule ext env db (tg_schedule_id t)) (\<lambda>s.
     if owns_trigger s i then
       rbind (schedule_interrupted s reason now) (\<lambda>s. save_schedule ext env s False db)
     else Inr (s, db))))"

text \<open>The loop of \<^verbatim>\<open>interrupt_on_open\<close>; \<open>clock n\<close> is the reading with \<open>n\<close> schedules left.\<close>

primrec interrupt_rows ::
  "'x ledger_externals_scheme \<Rightarrow> ledger_env \<Rightarrow> (nat \<Rightarrow> nat) \<Rightarrow> schedule list \<Rightarrow> trigger_db \<Rightarrow> trigger_db result" where
  "interrupt_rows ext env clock [] db = Inr db"
| "interrupt_rows ext env clock (s # ss) db =
     (if active_state s then
        rbind (schedule_interrupted s ''restart'' (clock (length ss))) (\<lambda>s.
        rbind (save_schedule ext env s False db) (\<lambda>(_, db'). interrupt_rows ext env clock ss db'))
      else interrupt_rows ext env clock ss db)"

definition interrupt_on_open ::
  "'x ledger_externals_scheme \<Rightarrow> ledger_env \<Rightarrow> (nat \<Rightarrow> nat) \<Rightarrow> trigger_db \<Rightarrow> trigger_db result" where
  "interrupt_on_open ext env clock db =
     rbind (schedules ext env db) (\<lambda>retained.
     rbind (interrupt_rows ext env clock retained db) (\<lambda>db'.
     rbind (validated_history ext env db') (\<lambda>_. Inr db')))"

section \<open>Stopping and settling\<close>

definition schedule_stop_at ::
  "'x ledger_externals_scheme \<Rightarrow> ledger_env \<Rightarrow> nat \<Rightarrow> string \<Rightarrow> nat \<Rightarrow> string \<Rightarrow> trigger_db
   \<Rightarrow> ((schedule \<times> bool) \<times> trigger_db) result" where
  "schedule_stop_at ext env now i revision operation db =
     rbind (uuid ext operation) (\<lambda>_.
     rbind (validated_history ext env db) (\<lambda>_.
     rbind (get_schedule ext env db i) (\<lambda>s.
     let stop = \<lparr>ss_operation_id = operation, ss_source_revision = revision\<rparr> in
     (case sh_stop s of
        Some old \<Rightarrow> ensure (old = stop) (AutomationE StopReceipt) (Inr ((s, True), db))
      | None \<Rightarrow>
          ensure (revision = sh_revision s \<and> operation \<noteq> i \<and> operation \<noteq> ar_policy (sh_creation s)) (AutomationE StopReceipt)
          (rbind (identity_taken ext env db operation) (\<lambda>taken.
           ensure (\<not> taken) (AutomationE StopReceipt)
           (rbind (schedule_advance s now) (\<lambda>s.
            rbind (save_schedule ext env (s\<lparr>sh_state := Stopped, sh_stop := Some stop, sh_next_due_ms := None,
                sh_reason := Some ''owner_stop''\<rparr>) False db) (\<lambda>(s, db').
            Inr ((s, False), db'))))))))))"

definition settled :: "schedule \<Rightarrow> bool \<Rightarrow> bool \<Rightarrow> nat \<Rightarrow> nat \<Rightarrow> schedule" where
  "settled s runs_left budget allowance next =
     (let s = s\<lparr>sh_active_trigger := None, sh_launch_started_at_ms := None\<rparr> in
      if \<not> runs_left \<or> \<not> budget \<or> saturating_sub (sh_expires_at_ms s) next < allowance then
        s\<lparr>sh_state := Exhausted, sh_next_due_ms := None, sh_reason := Some (exhausted_reason runs_left budget)\<rparr>
      else s\<lparr>sh_state := Waiting, sh_next_due_ms := Some next\<rparr>)"

definition settle_current ::
  "'x ledger_externals_scheme \<Rightarrow> ledger_env \<Rightarrow> nat \<Rightarrow> schedule \<Rightarrow> schedule result" where
  "settle_current ext env now s =
     rbind (schedule_policy env s) (\<lambda>p.
     rbind (or_err (checked_add now (sh_every_ms s)) (AutomationE SettleRefused)) (\<lambda>next.
     rbind (schedule_advance s now) (\<lambda>s.
     rbind (le_allowance env p) (\<lambda>budget.
     let runs_left = (sh_claimed_runs s < pa_max_runs (au_creation p)) in
     rbind (if runs_left \<and> budget then policy_allowance ext p else Inr 0) (\<lambda>allowance.
     Inr (settled s runs_left budget allowance next))))))"

definition schedule_settle ::
  "'x ledger_externals_scheme \<Rightarrow> ledger_env \<Rightarrow> nat \<Rightarrow> string \<Rightarrow> string \<Rightarrow> string \<Rightarrow> trigger_db
   \<Rightarrow> (schedule \<times> trigger_db) result" where
  "schedule_settle ext env now i runtime issuer db =
     rbind (validated_history ext env db) (\<lambda>_.
     rbind (get_schedule ext env db i) (\<lambda>s.
     ensure (sh_state s = InFlight) (AutomationE SettleRefused)
     (rbind (get_trigger ext env db (the (sh_active_trigger s))) (\<lambda>t.
      rbind (resolved_claim ext env db t) (\<lambda>resolved.
      ensure resolved (AutomationE SettleRefused)
      (rbind (if now < sh_observed_at_ms s then schedule_interrupted s ''backward_clock'' now
              else rbind (current_schedule ext env s runtime issuer now) (\<lambda>current.
                if \<not> current then schedule_interrupted s ''policy_changed'' now
                else settle_current ext env now s)) (\<lambda>s.
       save_schedule ext env s False db)))))))"

section \<open>Fences\<close>

text \<open>\<^verbatim>\<open>reservation_link\<close>: the schedule and trigger a reservation of an occurrence belongs to.\<close>

definition reservation_link ::
  "'x ledger_externals_scheme \<Rightarrow> ledger_env \<Rightarrow> nat \<Rightarrow> plan_view \<Rightarrow> authorization \<Rightarrow> string \<Rightarrow> trigger_db
   \<Rightarrow> (string \<times> string) option result" where
  "reservation_link ext env now plan p reservation db =
     (case pv_context plan of
        None \<Rightarrow> Inr None
      | Some context \<Rightarrow>
          rbind (trigger_for_request ext env db (request_id context)) (\<lambda>claim.
          (case claim of
             None \<Rightarrow> Inr None
           | Some t \<Rightarrow>
               rbind (get_schedule ext env db (tg_schedule_id t)) (\<lambda>s.
               rbind (current_schedule ext env s (au_runtime_id p) (au_issuer_id p) now) (\<lambda>current.
               ensure (tg_request_context t = context \<and> tg_reservation_id t = reservation
                   \<and> ar_policy (sh_creation s) = au_id p \<and> owns_trigger s (tg_id t)
                   \<and> sh_observed_at_ms s \<le> now \<and> current) (AutomationE TriggerAuthority)
                 (Inr (Some (sh_id s, tg_id t))))))))"

definition trigger_fence ::
  "'x ledger_externals_scheme \<Rightarrow> ledger_env \<Rightarrow> nat \<Rightarrow> plan_view \<Rightarrow> string \<Rightarrow> trigger_db \<Rightarrow> unit result" where
  "trigger_fence ext env now plan runtime db =
     rbind (validate_delegation ext env db plan) (\<lambda>_.
     (case Option.bind (pv_delegation plan) dg_trigger of
        None \<Rightarrow> Inr ()
      | Some (schedule_id, trigger_id) \<Rightarrow>
          rbind (get_schedule ext env db schedule_id) (\<lambda>s.
          ensure (owns_trigger s trigger_id \<and> sh_runtime_id s = runtime \<and> sh_observed_at_ms s \<le> now
              \<and> now < sh_expires_at_ms s) (AutomationE TriggerAuthority) (Inr ()))))"

definition refuse_removal :: "'x ledger_externals_scheme \<Rightarrow> ledger_env \<Rightarrow> plan_view \<Rightarrow> trigger_db \<Rightarrow> unit result" where
  "refuse_removal ext env plan db =
     (case pv_context plan of
        None \<Rightarrow> Inr ()
      | Some context \<Rightarrow>
          rbind (trigger_for_request ext env db (request_id context)) (\<lambda>claim.
          ensure (claim = None) (AutomationE TriggerAuthority) (Inr ())))"

definition source_authority ::
  "'x ledger_externals_scheme \<Rightarrow> ledger_env \<Rightarrow> nat \<Rightarrow> request_context \<Rightarrow> trigger_db \<Rightarrow> unit result" where
  "source_authority ext env now context db =
     rbind (trigger_for_request ext env db (request_id context)) (\<lambda>claim.
     (case claim of
        None \<Rightarrow> Inr ()
      | Some t \<Rightarrow>
          rbind (get_schedule ext env db (tg_schedule_id t)) (\<lambda>s.
          rbind (current_schedule ext env s (sh_runtime_id s) (sh_issuer_id s) now) (\<lambda>current.
          ensure (context = tg_request_context t \<and> owns_trigger s (tg_id t) \<and> current)
            (AutomationE TriggerAuthority) (Inr ())))))"

section \<open>Reads\<close>

definition schedule_find :: "'x ledger_externals_scheme \<Rightarrow> ledger_env \<Rightarrow> string \<Rightarrow> trigger_db \<Rightarrow> schedule option result" where
  "schedule_find ext env i db =
     rbind (uuid ext i) (\<lambda>_. rbind (validated_history ext env db) (\<lambda>_. Inr (map_option sr_record (find_row db i))))"

definition schedule_snapshot ::
  "'x ledger_externals_scheme \<Rightarrow> ledger_env \<Rightarrow> (schedule \<Rightarrow> bool) \<Rightarrow> string \<Rightarrow> trigger_db
   \<Rightarrow> (schedule \<times> plan_view option) result" where
  "schedule_snapshot ext env include_job i db =
     rbind (uuid ext i) (\<lambda>_.
     rbind (validated_history ext env db) (\<lambda>_.
     rbind (or_err (map_option sr_record (find_row db i)) (AutomationE ScheduleMissing)) (\<lambda>s.
     (case (if include_job s then sh_active_trigger s else None) of
        None \<Rightarrow> Inr (s, None)
      | Some t \<Rightarrow>
          rbind (or_err (map_option tr_record (find (\<lambda>r. tg_id (tr_record r) = t) (td_triggers db)))
                  (AutomationE ScheduleMissing)) (\<lambda>t.
          rbind (source_job ext env db t) (\<lambda>job. Inr (s, job)))))))"

definition trigger_find :: "'x ledger_externals_scheme \<Rightarrow> ledger_env \<Rightarrow> string \<Rightarrow> trigger_db \<Rightarrow> trigger result" where
  "trigger_find ext env i db =
     rbind (uuid ext i) (\<lambda>_. rbind (validated_history ext env db) (\<lambda>_.
     or_err (map_option tr_record (find (\<lambda>r. tg_id (tr_record r) = i) (td_triggers db))) (AutomationE ScheduleMissing)))"

text \<open>The schedules of a reading stand in a map ordered by id.\<close>

definition schedule_list :: "'x ledger_externals_scheme \<Rightarrow> ledger_env \<Rightarrow> trigger_db \<Rightarrow> schedule list result" where
  "schedule_list ext env db = rbind (validated_history ext env db) (\<lambda>_.
     Inr (map snd (btree_collect (map (\<lambda>r. (sr_id r, sr_record r)) (td_schedules db)))))"

definition schedule_get :: "'x ledger_externals_scheme \<Rightarrow> ledger_env \<Rightarrow> string \<Rightarrow> trigger_db \<Rightarrow> schedule result" where
  "schedule_get ext env i db = rbind (schedule_find ext env i db) (\<lambda>s. or_err s (AutomationE ScheduleMissing))"

definition schedule_timer_snapshot ::
  "'x ledger_externals_scheme \<Rightarrow> ledger_env \<Rightarrow> string \<Rightarrow> bool \<Rightarrow> trigger_db \<Rightarrow> (schedule \<times> plan_view option) result" where
  "schedule_timer_snapshot ext env i launching db =
     schedule_snapshot ext env (\<lambda>s. sh_state s = InFlight \<and> \<not> launching) i db"

definition trigger_job ::
  "'x ledger_externals_scheme \<Rightarrow> ledger_env \<Rightarrow> string \<Rightarrow> trigger_db \<Rightarrow> plan_view option result" where
  "trigger_job ext env i db =
     rbind (validated_history ext env db) (\<lambda>_.
     rbind (or_err (map_option tr_record (find (\<lambda>r. tg_id (tr_record r) = i) (td_triggers db)))
             (AutomationE ScheduleMissing)) (\<lambda>t.
     source_job ext env db t))"

end
