(* ===== verification/Trigger_History.thy ===== *)
theory Trigger_History
  imports Trigger_Ledger Machines
begin

text \<open>
  What the operations of the trigger ledger keep: the claims of a schedule are numbered without
  a gap, lie in their windows and are at least one period apart, and no two active schedules
  own the same definition.
\<close>

section \<open>The invariant\<close>

definition claims_of :: "trigger_db \<Rightarrow> string \<Rightarrow> trigger list" where
  "claims_of db i = filter (\<lambda>t. tg_schedule_id t = i) (map tr_record (td_triggers db))"

definition in_window :: "schedule \<Rightarrow> trigger \<Rightarrow> bool" where
  "in_window s t \<longleftrightarrow> sh_armed_at_ms s + sh_every_ms s \<le> tg_due_at_ms t \<and> tg_due_at_ms t \<le> tg_claimed_at_ms t
     \<and> tg_claimed_at_ms t < tg_due_at_ms t + sh_every_ms s \<and> tg_claimed_at_ms t < sh_expires_at_ms s"

definition apart :: "nat \<Rightarrow> trigger \<Rightarrow> trigger \<Rightarrow> bool" where
  "apart every a b \<longleftrightarrow> tg_claimed_at_ms a + every \<le> tg_due_at_ms b"

definition claims_ok :: "schedule \<Rightarrow> trigger list \<Rightarrow> bool" where
  "claims_ok s ts \<longleftrightarrow> map tg_ordinal ts = [1..<Suc (sh_claimed_runs s)] \<and> list_all (in_window s) ts
     \<and> sorted_wrt (apart (sh_every_ms s)) ts"

text \<open>What the state of an active schedule says about its claims.\<close>

definition active_ok :: "schedule \<Rightarrow> trigger list \<Rightarrow> bool" where
  "active_ok s ts \<longleftrightarrow>
     (sh_state s = Waiting \<longrightarrow> opt_ex (sh_next_due_ms s) (\<lambda>d. sh_armed_at_ms s + sh_every_ms s \<le> d
        \<and> list_all (\<lambda>t. tg_claimed_at_ms t + sh_every_ms s \<le> d) ts))
     \<and> (sh_state s = InFlight \<longrightarrow> list_all (\<lambda>t. tg_claimed_at_ms t \<le> sh_observed_at_ms s) ts)"

definition row_ok :: "trigger_db \<Rightarrow> schedule_row \<Rightarrow> bool" where
  "row_ok db r \<longleftrightarrow> sh_id (sr_record r) = sr_id r \<and> claims_ok (sr_record r) (claims_of db (sr_id r))
     \<and> active_ok (sr_record r) (claims_of db (sr_id r))"

definition active_definitions :: "schedule_row list \<Rightarrow> string list" where
  "active_definitions rs = map (\<lambda>r. sh_definition_id (sr_record r)) (filter (\<lambda>r. active_state (sr_record r)) rs)"

definition ledger_ok :: "trigger_db \<Rightarrow> bool" where
  "ledger_ok db \<longleftrightarrow> distinct (map sr_id (td_schedules db)) \<and> list_all (row_ok db) (td_schedules db)
     \<and> list_all (\<lambda>r. tg_schedule_id (tr_record r) \<in> set (map sr_id (td_schedules db))) (td_triggers db)
     \<and> distinct (active_definitions (td_schedules db))"

definition same_plan :: "schedule \<Rightarrow> schedule \<Rightarrow> bool" where
  "same_plan a b \<longleftrightarrow> sh_id a = sh_id b \<and> sh_definition_id a = sh_definition_id b \<and> sh_armed_at_ms a = sh_armed_at_ms b
     \<and> sh_expires_at_ms a = sh_expires_at_ms b \<and> sh_every_ms a = sh_every_ms b \<and> sh_claimed_runs a = sh_claimed_runs b"

section \<open>Reads\<close>

lemma check_all_Inr: "check_all f xs = Inr u \<longleftrightarrow> (\<forall>x \<in> set xs. f x = Inr ())"
  by (induction xs) (auto simp: old.unit.exhaust)

lemma find_row_Some: "find_row db i = Some r \<Longrightarrow> r \<in> set (td_schedules db) \<and> sr_id r = i"
  by (auto simp: find_row_def find_Some_iff)

lemma find_row_member:
  "distinct (map sr_id (td_schedules db)) \<Longrightarrow> r \<in> set (td_schedules db) \<Longrightarrow> find_row db (sr_id r) = Some r"
proof -
  have "distinct (map f xs) \<Longrightarrow> x \<in> set xs \<Longrightarrow> find (\<lambda>y. f y = f x) xs = Some x"
    for f :: "'b \<Rightarrow> 'c" and x xs by (induction xs) (auto simp: image_iff)
  then show "distinct (map sr_id (td_schedules db)) \<Longrightarrow> r \<in> set (td_schedules db) \<Longrightarrow> ?thesis"
    unfolding find_row_def .
qed

lemma find_row_None: "find_row db i = None \<longleftrightarrow> i \<notin> set (map sr_id (td_schedules db))"
  by (auto simp: find_row_def find_None_iff)

lemma get_schedule_row:
  "get_schedule ext env db i = Inr s \<Longrightarrow>
     \<exists>r. find_row db i = Some r \<and> sr_record r = s \<and> sr_id r = i \<and> sh_id s = i \<and> validate_schedule ext env s = Inr ()"
  by (auto simp: get_schedule_def read_schedule_def row_headroom_def dest: find_row_Some split: option.splits)

lemma validate_schedule_shape: "validate_schedule ext env s = Inr u \<Longrightarrow> schedule_shape s"
  by (auto simp: validate_schedule_def validate_schedule_data_def)

lemma map_result_Inr:
  "map_result f xs = Inr ys \<Longrightarrow> length ys = length xs \<and> (\<forall>i < length xs. f (xs ! i) = Inr (ys ! i))"
proof (induction xs arbitrary: ys)
  case (Cons x xs)
  then obtain y zs where "f x = Inr y" "map_result f xs = Inr zs" "ys = y # zs" by auto
  then show ?case using Cons.IH [of zs] by (auto simp: less_Suc_eq_0_disj)
qed simp

lemma schedules_rows:
  assumes "schedules ext env db = Inr ss" and "distinct (map sr_id (td_schedules db))"
  shows "ss = map sr_record (td_schedules db)"
proof (rule nth_equalityI)
  note m = map_result_Inr [OF assms(1) [unfolded schedules_def]]
  show "length ss = length (map sr_record (td_schedules db))" using m by simp
  fix i assume "i < length ss"
  then have i: "i < length (td_schedules db)" using m by simp
  then have "get_schedule ext env db (sr_id (td_schedules db ! i)) = Inr (ss ! i)" using m by blast
  from get_schedule_row [OF this] find_row_member [OF assms(2) nth_mem [OF i]]
  show "ss ! i = map sr_record (td_schedules db) ! i" using i by auto
qed

section \<open>Writes\<close>

lemma save_update:
  assumes "save_schedule ext env s False db = Inr (s', db')"
  shows "\<exists>n. s' = s\<lparr>sh_record_sha256 := schedule_digest ext s\<rparr> \<and> validate_schedule ext env s' = Inr ()
    \<and> db' = put_row \<lparr>sr_id = sh_id s, sr_record = s', sr_reserved = n\<rparr> db"
  using assms by (auto simp: save_schedule_def Let_def)

lemma save_insert:
  assumes "save_schedule ext env s True db = Inr (s', db')"
  shows "\<exists>n. s' = s\<lparr>sh_record_sha256 := schedule_digest ext s\<rparr> \<and> find_row db (sh_id s) = None
    \<and> db' = db\<lparr>td_schedules := td_schedules db @ [\<lparr>sr_id = sh_id s, sr_record = s', sr_reserved = n\<rparr>]\<rparr>"
  using assms by (auto simp: save_schedule_def Let_def)

lemma claims_of_put [simp]: "claims_of (put_row r db) = claims_of db"
  by (simp add: claims_of_def put_row_def fun_eq_iff)

lemma ids_put [simp]: "map sr_id (td_schedules (put_row r db)) = map sr_id (td_schedules db)"
  by (simp add: put_row_def comp_def)

lemma triggers_put [simp]: "td_triggers (put_row r db) = td_triggers db"
  by (simp add: put_row_def)

lemma active_definitions_simps [simp]:
  "active_definitions [] = []"
  "active_definitions (q # rs) = (if active_state (sr_record q) then [sh_definition_id (sr_record q)] else [])
     @ active_definitions rs"
  "active_definitions (rs @ qs) = active_definitions rs @ active_definitions qs"
  by (simp_all add: active_definitions_def)

lemma active_definitions_replace_subset:
  assumes "\<And>q. q \<in> set rs \<Longrightarrow> sr_id q = sr_id r \<Longrightarrow> sh_definition_id (sr_record q) = sh_definition_id (sr_record r)
      \<and> (active_state (sr_record r) \<longrightarrow> active_state (sr_record q))"
  shows "set (active_definitions (map (\<lambda>q. if sr_id q = sr_id r then r else q) rs)) \<subseteq> set (active_definitions rs)"
  using assms by (induction rs) (auto split: if_splits)

lemma distinct_active_replace:
  assumes "distinct (active_definitions rs)"
    and "\<And>q. q \<in> set rs \<Longrightarrow> sr_id q = sr_id r \<Longrightarrow> sh_definition_id (sr_record q) = sh_definition_id (sr_record r)
      \<and> (active_state (sr_record r) \<longrightarrow> active_state (sr_record q))"
  shows "distinct (active_definitions (map (\<lambda>q. if sr_id q = sr_id r then r else q) rs))"
  using assms
proof (induction rs)
  case (Cons q rs)
  have sub: "set (active_definitions (map (\<lambda>q. if sr_id q = sr_id r then r else q) rs)) \<subseteq> set (active_definitions rs)"
    by (rule active_definitions_replace_subset) (use Cons.prems(2) in auto)
  have IH: "distinct (active_definitions (map (\<lambda>q. if sr_id q = sr_id r then r else q) rs))"
    using Cons by (simp split: if_splits)
  show ?case using sub IH Cons.prems(1) Cons.prems(2) [of q] by (auto split: if_splits)
qed simp

lemma claims_ok_same: "same_plan a b \<Longrightarrow> claims_ok a ts = claims_ok b ts"
  by (simp add: same_plan_def claims_ok_def in_window_def [abs_def])

text \<open>Replacing a row by one with the same plan, whose state says no more than its claims allow.\<close>

lemma update_ok:
  assumes ok: "ledger_ok db" and r: "find_row db (sh_id s) = Some r" and same: "same_plan (sr_record r) s"
    and act: "active_state s \<Longrightarrow> active_state (sr_record r)" and st: "active_ok s (claims_of db (sh_id s))"
  shows "ledger_ok (put_row \<lparr>sr_id = sh_id s, sr_record = s, sr_reserved = n\<rparr> db)"
proof -
  let ?row = "\<lparr>sr_id = sh_id s, sr_record = s, sr_reserved = n\<rparr>"
  have rm: "r \<in> set (td_schedules db)" "sr_id r = sh_id s" using find_row_Some [OF r] by auto
  have dist: "distinct (map sr_id (td_schedules db))" using ok by (simp add: ledger_ok_def)
  have uniq: "q = r" if "q \<in> set (td_schedules db)" "sr_id q = sh_id s" for q
    using find_row_member [OF dist that(1)] that(2) r by simp
  have "row_ok db r" using ok rm by (simp add: ledger_ok_def list_all_iff)
  then have new: "row_ok db ?row" using same st claims_ok_same [OF same] by (simp add: row_ok_def rm(2))
  have "list_all (row_ok (put_row ?row db)) (td_schedules (put_row ?row db))"
    using ok new unfolding list_all_iff row_ok_def claims_of_put
    by (auto simp: ledger_ok_def put_row_def list_all_iff row_ok_def)
  moreover have "distinct (active_definitions (td_schedules (put_row ?row db)))"
    unfolding put_row_def by (simp, rule distinct_active_replace [of "td_schedules db" ?row, simplified])
      (use ok uniq same act in \<open>auto simp: ledger_ok_def same_plan_def\<close>)
  ultimately show ?thesis using ok unfolding ledger_ok_def ids_put triggers_put by blast
qed

section \<open>Operations on one schedule\<close>

lemma active_ok_digest [simp]: "active_ok (s\<lparr>sh_record_sha256 := x\<rparr>) ts = active_ok s ts"
  by (simp add: active_ok_def)

lemma active_state_digest [simp]: "active_state (s\<lparr>sh_record_sha256 := x\<rparr>) = active_state s"
  by (simp add: active_state_def)

lemma same_plan_digest [simp]: "same_plan a (s\<lparr>sh_record_sha256 := x\<rparr>) = same_plan a s"
  by (simp add: same_plan_def)

lemma same_plan_refl [simp]: "same_plan s s"
  by (simp add: same_plan_def)

lemma row_record:
  assumes "ledger_ok db" and "find_row db i = Some r"
  shows "sh_id (sr_record r) = i" "row_ok db r" "sr_id r = i"
  using find_row_Some [OF assms(2)] assms(1) by (auto simp: ledger_ok_def list_all_iff row_ok_def)

lemma save_ok:
  assumes ok: "ledger_ok db" and r: "find_row db i = Some r" and same: "same_plan (sr_record r) s"
    and act: "active_state s \<Longrightarrow> active_state (sr_record r)" and st: "active_ok s (claims_of db i)"
    and save: "save_schedule ext env s False db = Inr (s', db')"
  shows "ledger_ok db'"
proof -
  have i: "sh_id s = i" using row_record(1) [OF ok r] same by (simp add: same_plan_def)
  obtain n where s': "s' = s\<lparr>sh_record_sha256 := schedule_digest ext s\<rparr>"
    and db': "db' = put_row \<lparr>sr_id = sh_id s, sr_record = s', sr_reserved = n\<rparr> db" using save_update [OF save] by blast
  have "ledger_ok (put_row \<lparr>sr_id = sh_id s', sr_record = s', sr_reserved = n\<rparr> db)"
    by (rule update_ok [OF ok]) (use r same act st i s' in auto)
  then show ?thesis using db' s' by simp
qed

lemma advance_fields:
  "schedule_advance s now = Inr s' \<Longrightarrow> \<exists>n. s' = s\<lparr>sh_revision := n, sh_observed_at_ms := now\<rparr>"
  by (auto simp: schedule_advance_def)

text \<open>A schedule that becomes inactive says nothing about its claims.\<close>

lemma inactive_ok: "\<not> active_state s \<Longrightarrow> active_ok s ts"
  by (simp add: active_state_def active_ok_def)

lemma retire_ok:
  assumes ok: "ledger_ok db" and r: "find_row db i = Some r" and same: "same_plan (sr_record r) s"
    and "\<not> active_state s" and save: "save_schedule ext env s False db = Inr (s', db')"
  shows "ledger_ok db'"
  using save_ok [OF ok r same _ _ save] assms(4) inactive_ok by blast

lemma interrupted_fields:
  "schedule_interrupted s reason now = Inr s' \<Longrightarrow> same_plan s s' \<and> \<not> active_state s'"
  by (auto simp: schedule_interrupted_def same_plan_def active_state_def dest!: advance_fields)

lemma interrupt_ok:
  assumes "ledger_ok db" and "find_row db i = Some r" and "same_plan (sr_record r) s"
    and "schedule_interrupted s reason now = Inr s1" and "save_schedule ext env s1 False db = Inr (s', db')"
  shows "ledger_ok db'"
proof (rule retire_ok [OF assms(1,2) _ _ assms(5)])
  show "same_plan (sr_record r) s1" using assms(3) interrupted_fields [OF assms(4)] by (simp add: same_plan_def)
  show "\<not> active_state s1" using interrupted_fields [OF assms(4)] by simp
qed

lemma schedule_interrupt_ok:
  assumes ok: "ledger_ok db" and op: "schedule_interrupt_now ext env now i reason db = Inr (s', db')"
  shows "ledger_ok db'"
proof (cases "db' = db")
  case False
  then obtain s s1 where s: "get_schedule ext env db i = Inr s"
    and eff: "schedule_interrupted s reason now = Inr s1" "save_schedule ext env s1 False db = Inr (s', db')"
    using op by (auto simp: schedule_interrupt_now_def split: if_splits)
  obtain r where r: "find_row db i = Some r" "sr_record r = s" using get_schedule_row [OF s] by blast
  show ?thesis by (rule interrupt_ok [OF ok r(1) _ eff]) (simp add: r(2))
qed (use ok in simp)

lemma trigger_interrupt_ok:
  assumes ok: "ledger_ok db" and op: "trigger_interrupt_now ext env now i reason db = Inr (s', db')"
  shows "ledger_ok db'"
proof (cases "db' = db")
  case False
  obtain t where "get_trigger ext env db i = Inr t"
    and op': "rbind (get_schedule ext env db (tg_schedule_id t)) (\<lambda>s. if owns_trigger s i then
       rbind (schedule_interrupted s reason now) (\<lambda>s. save_schedule ext env s False db) else Inr (s, db)) = Inr (s', db')"
    using op by (auto simp: trigger_interrupt_now_def)
  then obtain s s1 where s: "get_schedule ext env db (tg_schedule_id t) = Inr s"
    and eff: "schedule_interrupted s reason now = Inr s1" "save_schedule ext env s1 False db = Inr (s', db')"
    using False by (auto split: if_splits)
  obtain r where r: "find_row db (tg_schedule_id t) = Some r" "sr_record r = s" using get_schedule_row [OF s] by blast
  show ?thesis by (rule interrupt_ok [OF ok r(1) _ eff]) (simp add: r(2))
qed (use ok in simp)

lemma stop_ok:
  assumes ok: "ledger_ok db" and "schedule_stop_at ext env now i revision operation db = Inr (x, db')"
  shows "ledger_ok db'"
proof -
  obtain s where s: "get_schedule ext env db i = Inr s"
    and eff: "(\<exists>s1 s2 stop. schedule_advance s now = Inr s1 \<and> save_schedule ext env (s1\<lparr>sh_state := Stopped, sh_stop := Some stop,
      sh_next_due_ms := None, sh_reason := Some ''owner_stop''\<rparr>) False db = Inr (s2, db')) \<or> db' = db"
    using assms(2) by (auto simp: schedule_stop_at_def Let_def split: option.splits if_splits)
  obtain r where r: "find_row db i = Some r" "sr_record r = s" using get_schedule_row [OF s] by blast
  from eff show ?thesis
  proof (elim disjE exE conjE)
    fix s1 s2 stop assume "schedule_advance s now = Inr s1" and save: "save_schedule ext env (s1\<lparr>sh_state := Stopped,
      sh_stop := Some stop, sh_next_due_ms := None, sh_reason := Some ''owner_stop''\<rparr>) False db = Inr (s2, db')"
    then show ?thesis
      using retire_ok [OF ok r(1) _ _ save] r(2) advance_fields [of s now s1] by (auto simp: same_plan_def active_state_def)
  qed (use ok in simp)
qed

lemma resolve_ok:
  assumes ok: "ledger_ok db" and "resolve_trigger_refusal ext env now i revision trigger_id hash operation db = Inr (x, db')"
  shows "ledger_ok db'"
proof -
  obtain s where s: "get_schedule ext env db i = Inr s"
    and eff: "(\<exists>s1 s2 q. schedule_advance s now = Inr s1 \<and> save_schedule ext env (s1\<lparr>sh_state := Resolved,
      sh_next_due_ms := None, sh_reason := Some ''refusal_resolved'', sh_refusal_resolution := Some q\<rparr>) False db = Inr (s2, db'))
      \<or> db' = db"
    using assms(2) by (auto simp: resolve_trigger_refusal_def split: option.splits if_splits)
  obtain r where r: "find_row db i = Some r" "sr_record r = s" using get_schedule_row [OF s] by blast
  from eff show ?thesis
  proof (elim disjE exE conjE)
    fix s1 s2 q assume "schedule_advance s now = Inr s1" and save: "save_schedule ext env (s1\<lparr>sh_state := Resolved,
      sh_next_due_ms := None, sh_reason := Some ''refusal_resolved'', sh_refusal_resolution := Some q\<rparr>) False db = Inr (s2, db')"
    then show ?thesis
      using retire_ok [OF ok r(1) _ _ save] r(2) advance_fields [of s now s1] by (auto simp: same_plan_def active_state_def)
  qed (use ok in simp)
qed

lemma refusal_ok:
  assumes ok: "ledger_ok db" and op: "trigger_record_refusal ext env now i runtime db = Inr (x, db')"
  shows "ledger_ok db'"
proof (cases "db' = db")
  case False
  obtain t where t: "get_trigger ext env db i = Inr t" using op by (auto simp: trigger_record_refusal_def)
  obtain s where s: "get_schedule ext env db (tg_schedule_id t) = Inr s"
    using op by (auto simp: trigger_record_refusal_def t)
  obtain s1 s2 f where i: "schedule_interrupted s ''preflight_refused'' now = Inr s1"
    and save: "save_schedule ext env (s1\<lparr>sh_refusal := Some f\<rparr>) False db = Inr (s2, db')"
    using op False by (auto simp: trigger_record_refusal_def t s Let_def split: if_splits)
  obtain r where r: "find_row db (tg_schedule_id t) = Some r" "sr_record r = s" using get_schedule_row [OF s] by blast
  show ?thesis
    using retire_ok [OF ok r(1) _ _ save] r(2) interrupted_fields [OF i] by (auto simp: same_plan_def active_state_def)
qed (use ok in simp)

lemma launch_ok:
  assumes ok: "ledger_ok db" and op: "trigger_begin_launch ext env now commit i runtime db = Inr (x, db')"
  shows "ledger_ok db'"
proof (cases "db' = db")
  case False
  obtain t where t: "get_trigger ext env db i = Inr t" using op by (auto simp: trigger_begin_launch_def)
  obtain s where s: "get_schedule ext env db (tg_schedule_id t) = Inr s" and own: "owns_trigger s i"
    using op by (auto simp: trigger_begin_launch_def t)
  obtain s1 s2 where adv: "schedule_advance s now = Inr s1" "sh_observed_at_ms s \<le> now"
    and save: "save_schedule ext env (s1\<lparr>sh_launch_started_at_ms := Some now\<rparr>) False db = Inr (s2, db')"
    using op False by (auto simp: trigger_begin_launch_def t s split: if_splits)
  obtain r where r: "find_row db (tg_schedule_id t) = Some r" "sr_record r = s" using get_schedule_row [OF s] by blast
  obtain n where s1: "s1 = s\<lparr>sh_revision := n, sh_observed_at_ms := now\<rparr>" using advance_fields [OF adv(1)] by blast
  have st: "active_ok s (claims_of db (tg_schedule_id t))"
    using row_record [OF ok r(1)] r(2) by (simp add: row_ok_def)
  show ?thesis
  proof (rule save_ok [OF ok r(1) _ _ _ save])
    show "active_ok (s1\<lparr>sh_launch_started_at_ms := Some now\<rparr>) (claims_of db (tg_schedule_id t))"
      using st own adv(2) by (auto simp: s1 active_ok_def owns_trigger_def list_all_iff)
  qed (simp_all add: s1 r(2) same_plan_def active_state_def)
qed (use ok in simp)

lemma settled_fields:
  "same_plan s (settled s runs budget allowance due)"
  "sh_state (settled s runs budget allowance due) = Waiting \<longrightarrow>
     sh_next_due_ms (settled s runs budget allowance due) = Some due"
  "sh_state (settled s runs budget allowance due) \<noteq> InFlight"
  by (simp_all add: settled_def Let_def same_plan_def)

lemma settle_current_fields:
  assumes "settle_current ext env now s = Inr s'"
  shows "same_plan s s' \<and> sh_state s' \<noteq> InFlight \<and> (sh_state s' = Waiting \<longrightarrow> sh_next_due_ms s' = Some (now + sh_every_ms s))"
proof -
  obtain s1 runs budget allowance where "schedule_advance s now = Inr s1"
    and s': "s' = settled s1 runs budget allowance (now + sh_every_ms s)"
    using assms by (auto simp: settle_current_def Let_def)
  then obtain n where "s1 = s\<lparr>sh_revision := n, sh_observed_at_ms := now\<rparr>" using advance_fields by blast
  then show ?thesis using settled_fields [of s1 runs budget allowance "now + sh_every_ms s"]
    by (simp add: s' same_plan_def)
qed

lemma settle_ok:
  assumes ok: "ledger_ok db" and op: "schedule_settle ext env now i runtime issuer db = Inr (x, db')"
  shows "ledger_ok db'"
proof -
  obtain s where s: "get_schedule ext env db i = Inr s" and fl: "sh_state s = InFlight"
    using op by (auto simp: schedule_settle_def)
  obtain r where r: "find_row db i = Some r" "sr_record r = s" and valid: "validate_schedule ext env s = Inr ()"
    using get_schedule_row [OF s] by blast
  have armed: "sh_armed_at_ms s \<le> sh_observed_at_ms s"
    using validate_schedule_shape [OF valid] fl by (simp add: schedule_shape_def)
  have st: "active_ok s (claims_of db i)" using row_record [OF ok r(1)] r(2) by (simp add: row_ok_def)
  consider (interrupt) reason s1 where "schedule_interrupted s reason now = Inr s1" "save_schedule ext env s1 False db = Inr (x, db')"
    | (settle) s1 where "sh_observed_at_ms s \<le> now" "settle_current ext env now s = Inr s1" "save_schedule ext env s1 False db = Inr (x, db')"
    using op by (auto simp: schedule_settle_def s not_less split: if_splits)
  then show ?thesis
  proof cases
    case interrupt
    show ?thesis by (rule interrupt_ok [OF ok r(1) _ interrupt]) (simp add: r(2))
  next
    case settle
    note f = settle_current_fields [OF settle(2)]
    show ?thesis
    proof (rule save_ok [OF ok r(1) _ _ _ settle(3)])
      show "active_ok s1 (claims_of db i)"
        using f st fl armed settle(1) by (auto simp: active_ok_def same_plan_def opt_ex_def list_all_iff)
    qed (use f r(2) fl in \<open>auto simp: active_state_def\<close>)
  qed
qed

section \<open>Arming\<close>

lemma arm_free_active:
  assumes "arm_free ext env db p = Inr ()" and "distinct (map sr_id (td_schedules db))"
  shows "pa_definition (au_creation p) \<notin> set (active_definitions (td_schedules db))"
proof -
  obtain ss where ss: "schedules ext env db = Inr ss"
    and free: "\<forall>old \<in> set ss. sh_definition_id old = pa_definition (au_creation p) \<longrightarrow> no_overlap ext env db old = Inr ()"
    using assms(1) by (auto simp: arm_free_def Let_def check_all_Inr)
  have "\<forall>old \<in> set ss. sh_definition_id old = pa_definition (au_creation p) \<longrightarrow> \<not> active_state old"
    using free by (auto simp: no_overlap_def)
  then show ?thesis using schedules_rows [OF ss assms(2)] by (auto simp: active_definitions_def)
qed

lemma claims_of_unknown:
  assumes "ledger_ok db" and "find_row db i = None"
  shows "claims_of db i = []"
  using assms unfolding find_row_None by (auto simp: claims_of_def ledger_ok_def list_all_iff filter_empty_conv)

lemma claims_of_schedules [simp]: "claims_of (db\<lparr>td_schedules := rs\<rparr>) = claims_of db"
  by (simp add: claims_of_def fun_eq_iff)

lemma insert_ok:
  assumes ok: "ledger_ok db" and new: "find_row db (sh_id s) = None"
    and s: "sh_claimed_runs s = 0" "active_ok s []" and free: "sh_definition_id s \<notin> set (active_definitions (td_schedules db))"
  shows "ledger_ok (db\<lparr>td_schedules := td_schedules db @ [\<lparr>sr_id = sh_id s, sr_record = s, sr_reserved = n\<rparr>]\<rparr>)"
  using assms claims_of_unknown [OF ok new] unfolding ledger_ok_def find_row_None
  by (auto simp: list_all_iff row_ok_def claims_ok_def)

lemma arm_ok:
  assumes ok: "ledger_ok db" and op: "schedule_arm ext env now commit command runtime issuer db = Inr (x, db')"
  shows "ledger_ok db'"
proof (cases "db' = db")
  case False
  have new: "arm_new ext env now commit command runtime issuer db = Inr (x, db')"
    using op False by (auto simp: schedule_arm_def split: option.splits if_splits)
  obtain p where p: "le_policy env (ar_policy command) = Inr (Some p)" using new by (auto simp: arm_new_def)
  obtain source where source: "le_definition env (pa_definition (au_creation p)) = Inr source"
    using new by (auto simp: arm_new_def p)
  obtain due where due: "checked_add now (ad_every_ms (af_creation source)) = Some due"
    using new by (auto simp: arm_new_def p source)
  obtain s' where arm: "arm_free ext env db p = Inr ()"
    and save: "save_schedule ext env (new_schedule command p (pa_definition (au_creation p)) runtime issuer
        (ad_every_ms (af_creation source)) now due) True db = Inr (s', db')"
    using new by (auto simp: arm_new_def p source due Let_def)
  let ?s = "new_schedule command p (pa_definition (au_creation p)) runtime issuer (ad_every_ms (af_creation source)) now due"
  have free: "pa_definition (au_creation p) \<notin> set (active_definitions (td_schedules db))"
    using arm_free_active [OF arm] ok by (simp add: ledger_ok_def)
  obtain n where s': "s' = ?s\<lparr>sh_record_sha256 := schedule_digest ext ?s\<rparr>" and none: "find_row db (sh_id ?s) = None"
    and db': "db' = db\<lparr>td_schedules := td_schedules db @ [\<lparr>sr_id = sh_id ?s, sr_record = s', sr_reserved = n\<rparr>]\<rparr>"
    using save_insert [OF save] by blast
  have "ledger_ok (db\<lparr>td_schedules := td_schedules db @ [\<lparr>sr_id = sh_id s', sr_record = s', sr_reserved = n\<rparr>]\<rparr>)"
    by (rule insert_ok [OF ok]) (use none free due in \<open>auto simp: s' new_schedule_def active_ok_def opt_ex_def\<close>)
  then show ?thesis using db' s' by simp
qed (use ok in simp)

section \<open>Claiming\<close>

lemma history_expiry:
  assumes "validated_history ext env db = Inr view" and "r \<in> set (td_schedules db)"
    and "history_current ext view (sr_record r) runtime issuer now = Inr True"
  shows "now < sh_expires_at_ms (sr_record r)"
proof -
  obtain policies definitions where view: "view = (policies, definitions)" by (cases view)
  have "history_schedule ext policies definitions r = Inr ()"
    using assms(1,2) by (auto simp: validated_history_def check_all_Inr view)
  then obtain p d where p: "map_of policies (ar_policy (sh_creation (sr_record r))) = Some p"
    and base: "schedule_base_ok ext (sr_record r) p d"
    by (auto simp: history_schedule_def Let_def validate_schedule_data_def)
  have "now < au_expires_at_ms p" using assms(3) by (auto simp: history_current_def view p current_at_def)
  then show ?thesis using base by (simp add: schedule_base_ok_def)
qed

lemma claim_denied_None:
  "claim_denied s due now current = None \<Longrightarrow> sh_observed_at_ms s \<le> now \<and> current \<and> now < due + sh_every_ms s"
  by (auto simp: claim_denied_def saturating_add_def split: if_splits)

lemma claims_of_insert:
  "insert_trigger t db = Inr db' \<Longrightarrow> claims_of db' i = claims_of db i @ (if tg_schedule_id t = i then [t] else [])
     \<and> td_schedules db' = td_schedules db \<and> map tr_record (td_triggers db') = map tr_record (td_triggers db) @ [t]"
  by (auto simp: insert_trigger_def claims_of_def)

lemma claims_ok_snoc:
  assumes old: "claims_ok s ts" and w: "in_window s t" and ord: "tg_ordinal t = sh_claimed_runs s + 1"
    and sep: "list_all (\<lambda>u. tg_claimed_at_ms u + sh_every_ms s \<le> tg_due_at_ms t) ts"
    and same: "same_plan (s\<lparr>sh_claimed_runs := tg_ordinal t\<rparr>) s'"
  shows "claims_ok s' (ts @ [t])"
proof -
  have "sh_claimed_runs s' = Suc (sh_claimed_runs s)" using same by (simp add: same_plan_def ord)
  then have "map tg_ordinal (ts @ [t]) = [1..<Suc (sh_claimed_runs s')]" using old by (simp add: claims_ok_def ord)
  then show ?thesis using old w sep same unfolding claims_ok_def
    by (auto simp: same_plan_def in_window_def apart_def sorted_wrt_append list_all_iff)
qed

text \<open>A claim replaces the row of its schedule and adds the trigger.\<close>

lemma claim_rows_ok:
  assumes ok: "ledger_ok db" and r: "find_row db i = Some r" and wait: "active_state (sr_record r)"
    and t: "tg_schedule_id t = i" and new: "claims_ok s (claims_of db i @ [t])" "active_ok s (claims_of db i @ [t])"
    and s: "sh_id s = i" "sh_definition_id s = sh_definition_id (sr_record r)"
    and ins: "insert_trigger t (put_row \<lparr>sr_id = i, sr_record = s, sr_reserved = n\<rparr> db) = Inr db'"
  shows "ledger_ok db'"
proof -
  let ?row = "\<lparr>sr_id = i, sr_record = s, sr_reserved = n\<rparr>"
  note ins' = claims_of_insert [OF ins]
  have rows: "td_schedules db' = td_schedules (put_row ?row db)"
    and recs: "map tr_record (td_triggers db') = map tr_record (td_triggers db) @ [t]" using ins' by auto
  have claims: "claims_of db' j = claims_of db j @ (if i = j then [t] else [])" for j using ins' t by simp
  have rm: "r \<in> set (td_schedules db)" "sr_id r = i" using find_row_Some [OF r] by auto
  have dist: "distinct (map sr_id (td_schedules db))" using ok by (simp add: ledger_ok_def)
  have uniq: "q = r" if "q \<in> set (td_schedules db)" "sr_id q = i" for q
    using find_row_member [OF dist that(1)] that(2) r by simp
  have "list_all (row_ok db') (td_schedules db')"
    unfolding rows list_all_iff
  proof
    fix q assume "q \<in> set (td_schedules (put_row ?row db))"
    then consider "q = ?row" | "q \<in> set (td_schedules db)" "sr_id q \<noteq> i" by (auto simp: put_row_def split: if_splits)
    then show "row_ok db' q"
      by cases (use new s ok in \<open>auto simp: row_ok_def claims ledger_ok_def list_all_iff\<close>)
  qed
  moreover have "distinct (active_definitions (td_schedules db'))"
    unfolding rows put_row_def by (simp, rule distinct_active_replace [of "td_schedules db" ?row, simplified])
      (use ok uniq s wait in \<open>auto simp: ledger_ok_def\<close>)
  moreover have "\<forall>u \<in> set (map tr_record (td_triggers db')). tg_schedule_id u \<in> set (map sr_id (td_schedules db))"
    unfolding recs using ok t imageI [OF rm(1), of sr_id] rm(2) by (auto simp: ledger_ok_def list_all_iff)
  ultimately show ?thesis using dist unfolding ledger_ok_def rows ids_put by (simp add: list_all_iff)
qed

lemma claim_commit_ok:
  assumes ok: "ledger_ok db" and r: "find_row db i = Some r" and wait: "sh_state (sr_record r) = Waiting"
    and due: "sh_next_due_ms (sr_record r) = Some due" "due \<le> now" "now < due + sh_every_ms (sr_record r)"
    and expiry: "now < sh_expires_at_ms (sr_record r)"
    and op: "claim_commit ext env now commit ids runtime issuer (sr_record r) due p allowance db = Inr (x, db')"
  shows "ledger_ok db'"
proof -
  let ?s = "sr_record r"
  obtain origin where c: "request_context_new (ci_request ids) (origin_node (fs_owner_context (au_scope p)))
      (origin_area (fs_owner_context (au_scope p))) = Inr origin" using op by (auto simp: claim_commit_def)
  define u where "u = new_trigger ?s origin (ci_trigger ids) (ci_reservation ids) (ci_execution ids) due now"
  define t where "t = u\<lparr>tg_record_sha256 := trigger_digest ext u\<rparr>"
  obtain s1 where adv: "schedule_advance ?s now = Inr s1" using op by (auto simp: claim_commit_def c Let_def)
  define s2 where "s2 = s1\<lparr>sh_claimed_runs := tg_ordinal t, sh_state := InFlight, sh_next_due_ms := None,
      sh_active_trigger := Some (tg_id t), sh_launch_started_at_ms := None\<rparr>"
  obtain s3 db1 where save: "save_schedule ext env s2 False db = Inr (s3, db1)" and ins: "insert_trigger t db1 = Inr db'"
    using op by (auto simp: claim_commit_def c adv Let_def s2_def t_def u_def)
  obtain k where s1: "s1 = ?s\<lparr>sh_revision := k, sh_observed_at_ms := now\<rparr>" using advance_fields [OF adv] by blast
  obtain n where s3: "s3 = s2\<lparr>sh_record_sha256 := schedule_digest ext s2\<rparr>"
    and db1: "db1 = put_row \<lparr>sr_id = sh_id s2, sr_record = s3, sr_reserved = n\<rparr> db" using save_update [OF save] by blast
  note row = row_record [OF ok r]
  have old: "claims_ok ?s (claims_of db i)" "active_ok ?s (claims_of db i)" using row by (auto simp: row_ok_def)
  have sep: "sh_armed_at_ms ?s + sh_every_ms ?s \<le> due" "list_all (\<lambda>v. tg_claimed_at_ms v + sh_every_ms ?s \<le> due) (claims_of db i)"
    using old(2) wait due(1) by (auto simp: active_ok_def opt_ex_def)
  have t: "tg_schedule_id t = i" "tg_ordinal t = sh_claimed_runs ?s + 1" "tg_due_at_ms t = due" "tg_claimed_at_ms t = now"
    using row(1) by (simp_all add: t_def u_def new_trigger_def)
  have ids: "sh_id s2 = i" "sh_id s3 = i" "sh_definition_id s3 = sh_definition_id ?s"
    using row(1) by (simp_all add: s3 s2_def s1)
  have "claims_ok s3 (claims_of db i @ [t])"
    by (rule claims_ok_snoc [OF old(1)]) (use sep due expiry in \<open>simp_all add: in_window_def t s3 s2_def s1 same_plan_def\<close>)
  moreover have "active_ok s3 (claims_of db i @ [t])"
    using sep(2) due by (auto simp: active_ok_def s3 s2_def s1 t list_all_iff)
  ultimately show ?thesis
    using claim_rows_ok [OF ok r _ t(1) _ _ ids(2,3), of n db'] ins wait by (simp add: db1 ids active_state_def)
qed

lemma claim_ok:
  assumes ok: "ledger_ok db" and op: "schedule_claim_due ext env now commit ids i runtime issuer db = Inr (x, db')"
  shows "ledger_ok db'"
proof (cases "db' = db")
  case False
  obtain view r where view: "validated_history ext env db = Inr view" and r: "find_row db i = Some r"
    using op by (auto simp: schedule_claim_due_def)
  have wait: "sh_state (sr_record r) = Waiting"
    using op False by (auto simp: schedule_claim_due_def view r split: if_splits)
  have st: "active_ok (sr_record r) (claims_of db i)" using row_record [OF ok r] by (simp add: row_ok_def)
  obtain due where due: "sh_next_due_ms (sr_record r) = Some due"
    using st wait by (auto simp: active_ok_def opt_ex_def split: option.splits)
  obtain current where current: "(if now < sh_observed_at_ms (sr_record r) then Inr True
      else history_current ext view (sr_record r) runtime issuer now) = Inr current"
    using op by (auto simp: schedule_claim_due_def view r wait Let_def)
  show ?thesis
  proof (cases "claim_denied (sr_record r) due now current")
    case None
    note free = claim_denied_None [OF None]
    have "history_current ext view (sr_record r) runtime issuer now = Inr True" using free current by (simp split: if_splits)
    then have expiry: "now < sh_expires_at_ms (sr_record r)"
      using history_expiry [OF view] find_row_Some [OF r] by blast
    have "due \<le> now" using op False by (auto simp: schedule_claim_due_def view r wait Let_def current due None split: if_splits)
    obtain p where p: "map_of (fst view) (ar_policy (sh_creation (sr_record r))) = Some p"
      using op \<open>due \<le> now\<close> by (auto simp: schedule_claim_due_def view r wait Let_def current due None)
    consider (exhausted) s1 s2 reason where "schedule_advance (sr_record r) now = Inr s1"
        "save_schedule ext env (s1\<lparr>sh_state := Exhausted, sh_reason := Some reason, sh_next_due_ms := None\<rparr>) False db = Inr (s2, db')"
      | (commit) allowance where
        "claim_commit ext env now commit ids runtime issuer (sr_record r) due p allowance db = Inr (x, db')"
      using op \<open>due \<le> now\<close> by (auto simp: schedule_claim_due_def view r wait Let_def current due None p split: if_splits)
    then show ?thesis
    proof cases
      case exhausted
      then show ?thesis using retire_ok [OF ok r _ _ exhausted(2)] advance_fields [OF exhausted(1)]
        by (auto simp: same_plan_def active_state_def)
    next
      case commit
      show ?thesis by (rule claim_commit_ok [OF ok r wait due \<open>due \<le> now\<close> _ expiry commit]) (use free in simp)
    qed
  next
    case (Some reason)
    then obtain s1 s2 where "schedule_interrupted (sr_record r) reason now = Inr s1"
      "save_schedule ext env s1 False db = Inr (s2, db')"
      using op by (auto simp: schedule_claim_due_def view r wait Let_def current due)
    then show ?thesis by (rule interrupt_ok [OF ok r same_plan_refl])
  qed
qed (use ok in simp)

section \<open>Opening\<close>

text \<open>
  The rows are read once, before the loop; a row the loop has not reached is still the one read.
\<close>

definition unread :: "trigger_db \<Rightarrow> schedule list \<Rightarrow> bool" where
  "unread db ss \<longleftrightarrow> distinct (map sh_id ss) \<and> list_all (\<lambda>s. \<exists>r. find_row db (sh_id s) = Some r \<and> sr_record r = s) ss"

lemma find_put_other: "i \<noteq> sr_id r \<Longrightarrow> find_row (put_row r db) i = find_row db i"
proof -
  assume "i \<noteq> sr_id r"
  then have "find (\<lambda>q. sr_id q = i) (map (\<lambda>q. if sr_id q = sr_id r then r else q) rs) = find (\<lambda>q. sr_id q = i) rs" for rs
    by (induction rs) auto
  then show ?thesis by (simp add: find_row_def put_row_def)
qed

lemma interrupt_rows_ok:
  "interrupt_rows ext env clock ss db = Inr db' \<Longrightarrow> ledger_ok db \<Longrightarrow> unread db ss \<Longrightarrow> ledger_ok db'"
proof (induction ss arbitrary: db)
  case (Cons s ss)
  obtain r where r: "find_row db (sh_id s) = Some r" "sr_record r = s" and rest: "unread db ss"
    using Cons.prems(3) by (auto simp: unread_def)
  show ?case
  proof (cases "active_state s")
    case True
    then obtain s1 s2 db1 where i: "schedule_interrupted s ''restart'' (clock (length ss)) = Inr s1"
      and save: "save_schedule ext env s1 False db = Inr (s2, db1)" and more: "interrupt_rows ext env clock ss db1 = Inr db'"
      using Cons.prems(1) by auto
    have "ledger_ok db1" by (rule interrupt_ok [OF Cons.prems(2) r(1) _ i save]) (simp add: r(2))
    moreover have "unread db1 ss"
    proof -
      have "sh_id s1 = sh_id s" using interrupted_fields [OF i] by (simp add: same_plan_def)
      moreover have "sh_id s \<notin> sh_id ` set ss" using Cons.prems(3) by (simp add: unread_def)
      ultimately have "find_row db1 (sh_id q) = find_row db (sh_id q)" if "q \<in> set ss" for q
        using save_update [OF save] that by (auto simp: image_iff intro!: find_put_other)
      then show ?thesis using rest by (simp add: unread_def list_all_iff)
    qed
    ultimately show ?thesis using Cons.IH [OF more] by blast
  next
    case False
    then show ?thesis using Cons.IH Cons.prems(1,2) rest by simp
  qed
qed simp

lemma open_ok:
  assumes ok: "ledger_ok db" and op: "interrupt_on_open ext env clock db = Inr db'"
  shows "ledger_ok db'"
proof -
  have dist: "distinct (map sr_id (td_schedules db))" using ok by (simp add: ledger_ok_def)
  obtain ss where ss: "schedules ext env db = Inr ss" and rows: "interrupt_rows ext env clock ss db = Inr db'"
    using op by (auto simp: interrupt_on_open_def)
  have ids: "sh_id (sr_record r) = sr_id r" if "r \<in> set (td_schedules db)" for r
    using ok that by (simp add: ledger_ok_def list_all_iff row_ok_def)
  have "map sh_id ss = map sr_id (td_schedules db)" using schedules_rows [OF ss dist] ids by simp
  then have "distinct (map sh_id ss)" using dist by simp
  moreover have "list_all (\<lambda>s. \<exists>r. find_row db (sh_id s) = Some r \<and> sr_record r = s) ss"
    using schedules_rows [OF ss dist] ids find_row_member [OF dist] by (auto simp: list_all_iff)
  ultimately show ?thesis using interrupt_rows_ok [OF rows ok] by (simp add: unread_def)
qed

section \<open>The ledger as a machine\<close>

text \<open>
  A call succeeds under the answers \<open>env\<close> of the other tables and any reading of the clock; one that
  fails leaves the ledger as it was. A step of the ledger is a call under any answers.
\<close>

datatype ledger_event =
    LedgerOpened | Armed schedule bool | ClaimedDue "trigger option" | LaunchBegun string bool | RefusalRecorded string bool
  | RefusalResolved schedule bool | ScheduleInterrupted schedule | ScheduleStopped schedule bool | Settled schedule

inductive ledger_call :: "'x ledger_externals_scheme \<Rightarrow> ledger_env \<Rightarrow> trigger_db \<Rightarrow> ledger_event \<Rightarrow> trigger_db \<Rightarrow> bool"
  for ext env where
  opens: "interrupt_on_open ext env clock db = Inr db' \<Longrightarrow> ledger_call ext env db LedgerOpened db'"
| arms: "schedule_arm ext env now commit command runtime issuer db = Inr ((s, again), db')
    \<Longrightarrow> ledger_call ext env db (Armed s again) db'"
| claims: "schedule_claim_due ext env now commit ids i runtime issuer db = Inr (claim, db')
    \<Longrightarrow> ledger_call ext env db (ClaimedDue claim) db'"
| launches: "trigger_begin_launch ext env now commit i runtime db = Inr (first, db')
    \<Longrightarrow> ledger_call ext env db (LaunchBegun i first) db'"
| refuses: "trigger_record_refusal ext env now i runtime db = Inr (refused, db')
    \<Longrightarrow> ledger_call ext env db (RefusalRecorded i refused) db'"
| resolves: "resolve_trigger_refusal ext env now i revision trigger_id hash operation db = Inr ((s, again), db')
    \<Longrightarrow> ledger_call ext env db (RefusalResolved s again) db'"
| interrupts: "schedule_interrupt_now ext env now i reason db = Inr (s, db') \<Longrightarrow> ledger_call ext env db (ScheduleInterrupted s) db'"
| interrupts_trigger: "trigger_interrupt_now ext env now i reason db = Inr (s, db')
    \<Longrightarrow> ledger_call ext env db (ScheduleInterrupted s) db'"
| stops: "schedule_stop_at ext env now i revision operation db = Inr ((s, again), db')
    \<Longrightarrow> ledger_call ext env db (ScheduleStopped s again) db'"
| settles: "schedule_settle ext env now i runtime issuer db = Inr (s, db') \<Longrightarrow> ledger_call ext env db (Settled s) db'"

definition ledger_step :: "'x ledger_externals_scheme \<Rightarrow> trigger_db \<Rightarrow> ledger_event \<Rightarrow> trigger_db \<Rightarrow> bool" where
  "ledger_step ext db e db' \<longleftrightarrow> (\<exists>env. ledger_call ext env db e db')"

definition ledger_empty :: trigger_db where
  "ledger_empty = \<lparr>td_schedules = [], td_triggers = []\<rparr>"

lemma ledger_empty_ok: "ledger_ok ledger_empty"
  by (simp add: ledger_ok_def ledger_empty_def)

lemma ledger_call_ok: "ledger_call ext env db e db' \<Longrightarrow> ledger_ok db \<Longrightarrow> ledger_ok db'"
  by (induction rule: ledger_call.induct)
    (blast intro: open_ok arm_ok claim_ok launch_ok refusal_ok resolve_ok schedule_interrupt_ok trigger_interrupt_ok
      stop_ok settle_ok)+

interpretation ledger_machine: invariant_machine "ledger_step ext" ledger_ok
  by unfold_locales (auto simp: ledger_step_def intro: ledger_call_ok)

end
