(* ===== verification/Automation_Store.thy ===== *)
theory Automation_Store
  imports Trigger_Records "HOL-Library.Char_ord" "HOL-Library.List_Lexorder"
begin

text \<open>
  The coordinator's stores of automation definitions (\<^verbatim>\<open>eef/automations.rs\<close>) and of the owner's
  approvals (\<^verbatim>\<open>eef/automation_authorizations.rs\<close>, \<^verbatim>\<open>eef/automation_policy.rs\<close>): reading with every check,
  saving within the quotas, and the owner's commands with their reports.

  What the stores ask of the job store and the planner is the environment \<open>store_env\<close> of a call:
  whether a source is a valid retained review, the fixed scope compiled from it, whether a
  scope still compiles, the job a definition is made from, and the storage in use: the bytes of
  the jobs, of the occurrences, schedules, triggers and verification intents (\<open>av_others\<close>) and of
  the model checks of the setup.
\<close>

section \<open>Tables and environment\<close>

record approval_row =
  ap_id :: string
  ap_record :: authorization
  ap_reserved :: nat

record automation_db =
  ab_definitions :: "(string \<times> automation_definition) list"
  ab_approvals :: "approval_row list"
  ab_ledger :: trigger_db

text \<open>Of the job a definition is made from: its request, revision, status and compiled plan.\<close>

record source_plan =
  sp_context :: "request_context option"
  sp_revision :: nat
  sp_awaiting :: bool
  sp_approved :: bool
  sp_executed :: bool
  sp_plan_sha256 :: "string option"
  sp_json :: json

record store_env =
  av_review :: "json \<Rightarrow> unit result"
  av_source_scope :: "json \<Rightarrow> fixed_scope result"
  av_compiles :: "authorization \<Rightarrow> unit result"
  av_job :: "string \<Rightarrow> source_plan result"
  av_count :: nat
  av_jobs :: nat
  av_others :: nat
  av_checks :: nat
  av_max_count :: nat
  av_max_bytes :: nat

section \<open>Definitions\<close>

definition validate_definition :: "'x automation_externals_scheme \<Rightarrow> store_env \<Rightarrow> automation_definition \<Rightarrow> unit result" where
  "validate_definition ext env d =
     rbind (automation_definition_validate ext d) (\<lambda>_. opt_check (av_review env) (af_source d))"

definition read_definition ::
  "'x automation_externals_scheme \<Rightarrow> store_env \<Rightarrow> automation_db \<Rightarrow> string \<Rightarrow> automation_definition result" where
  "read_definition ext env db i =
     rbind (or_err (map_of (ab_definitions db) i) (AutomationE DefinitionMissing)) (\<lambda>d.
     rbind (validate_definition ext env d) (\<lambda>_.
     ensure (af_id d = i) (AutomationE AutomationDamaged) (Inr d)))"

text \<open>
  The quota of both stores. What is in use is a checked sum; only that of a definition counts
  the model checks.
\<close>

definition bytes_total :: "nat list \<Rightarrow> nat option" where
  "bytes_total ns = (if sum_list ns \<le> u64_max then Some (sum_list ns) else None)"

definition store_quota :: "store_env \<Rightarrow> nat option \<Rightarrow> nat option \<Rightarrow> nat \<Rightarrow> bool \<Rightarrow> unit result" where
  "store_quota env held previous cost is_new =
     ensure (\<not> (is_new \<and> av_max_count env \<le> av_count env)) (AutomationE StoreQuota)
     (if opt_ex previous (\<lambda>old. cost \<le> old) then Inr ()
      else
        rbind (or_err held (AutomationE StoreQuota)) (\<lambda>used.
        ensure (cost \<le> 8 * 1024 * 1024 \<and> cost \<le> saturating_sub (av_max_bytes env) used) (AutomationE StoreQuota) (Inr ())))"

definition definition_cost :: "'x automation_externals_scheme \<Rightarrow> automation_definition \<Rightarrow> nat" where
  "definition_cost ext d = length (definition_text ext d)"

definition approval_cost :: "'x automation_externals_scheme \<Rightarrow> approval_row \<Rightarrow> nat" where
  "approval_cost ext r = length (authorization_text ext (ap_record r)) + ap_reserved r"

definition definition_used :: "'x automation_externals_scheme \<Rightarrow> store_env \<Rightarrow> automation_db \<Rightarrow> string \<Rightarrow> nat option" where
  "definition_used ext env db i = bytes_total
     [av_jobs env, sum_list (map (definition_cost ext \<circ> snd) (filter (\<lambda>q. fst q \<noteq> i) (ab_definitions db))),
      sum_list (map (approval_cost ext) (ab_approvals db)), av_others env, av_checks env]"

definition approval_used :: "'x automation_externals_scheme \<Rightarrow> store_env \<Rightarrow> automation_db \<Rightarrow> string \<Rightarrow> nat option" where
  "approval_used ext env db i = bytes_total
     [av_jobs env, sum_list (map (definition_cost ext \<circ> snd) (ab_definitions db)),
      sum_list (map (approval_cost ext) (filter (\<lambda>r. ap_id r \<noteq> i) (ab_approvals db))), av_others env]"

definition put_definition :: "automation_definition \<Rightarrow> automation_db \<Rightarrow> automation_db" where
  "put_definition d db =
     db\<lparr>ab_definitions := map (\<lambda>q. if fst q = af_id d then (af_id d, d) else q) (ab_definitions db)\<rparr>"

definition save_definition ::
  "'x automation_externals_scheme \<Rightarrow> store_env \<Rightarrow> automation_definition \<Rightarrow> bool \<Rightarrow> automation_db \<Rightarrow> automation_db result" where
  "save_definition ext env d is_new db =
     rbind (validate_definition ext env d) (\<lambda>_.
     let previous = map_option (definition_cost ext) (map_of (ab_definitions db) (af_id d)) in
     rbind (store_quota env (definition_used ext env db (af_id d)) previous (definition_cost ext d) is_new) (\<lambda>_.
     if is_new then
       ensure (map_of (ab_definitions db) (af_id d) = None) (JournalE SqlConstraint)
         (Inr (db\<lparr>ab_definitions := ab_definitions db @ [(af_id d, d)]\<rparr>))
     else Inr (put_definition d db)))"

section \<open>The commands of the definition store\<close>

record definition_report =
  dr_command :: automation_command
  dr_definition :: "automation_definition option"
  dr_items :: "automation_definition list"
  dr_next_after :: "string option"
  dr_reused :: bool

text \<open>The loop of both lists: after \<open>limit\<close> items a further one only sets where to continue.\<close>

primrec page :: "nat \<Rightarrow> ('a \<Rightarrow> string) \<Rightarrow> 'a list \<Rightarrow> 'a list \<Rightarrow> string option \<Rightarrow> 'a list \<times> string option" where
  "page limit key [] items after = (items, after)"
| "page limit key (x # xs) items after =
     (if length items = limit then page limit key xs items (if items = [] then None else Some (key (last items)))
      else page limit key xs (items @ [x]) after)"

definition own_node :: "string option \<Rightarrow> automation_definition \<Rightarrow> bool" where
  "own_node origin d \<longleftrightarrow> (case origin of None \<Rightarrow> True | Some node \<Rightarrow> node = origin_node (af_owner_context d))"

definition automation_list ::
  "'x automation_externals_scheme \<Rightarrow> store_env \<Rightarrow> string option \<Rightarrow> nat \<Rightarrow> string option \<Rightarrow> automation_db
   \<Rightarrow> (automation_definition list \<times> string option) result" where
  "automation_list ext env origin limit after db =
     rbind (map_result (read_definition ext env db) (sort (map fst (ab_definitions db)))) (\<lambda>ds.
     Inr (page limit af_id (filter (\<lambda>d. own_node origin d \<and> \<not> opt_ex after (\<lambda>a. af_id d \<le> a)) ds) [] None))"

definition new_definition ::
  "'x automation_externals_scheme \<Rightarrow> automation_command \<Rightarrow> request_context \<Rightarrow> json \<Rightarrow> nat \<Rightarrow> automation_definition" where
  "new_definition ext command context source now =
     (let d = \<lparr>af_schema_version = 1, af_id = ad_operation_id command, af_owner_context = context, af_created_at_ms = now,
            af_creation = command, af_source_sha256 = definition_digest ext source, af_definition_sha256 = [],
            af_revision = 1, af_state = ''disabled'', af_source = Some source, af_removal = None\<rparr> in
      d\<lparr>af_definition_sha256 := automation_definition_digest ext d\<rparr>)"

definition automation_define ::
  "'x automation_externals_scheme \<Rightarrow> store_env \<Rightarrow> nat \<Rightarrow> string option \<Rightarrow> automation_command \<Rightarrow> automation_db
   \<Rightarrow> ((automation_definition \<times> bool) \<times> automation_db) result" where
  "automation_define ext env now origin command db =
     (if map_of (ab_definitions db) (ad_operation_id command) \<noteq> None then
        rbind (read_definition ext env db (ad_operation_id command)) (\<lambda>d.
        ensure (own_node origin d) (AutomationE DefinitionMissing)
        (ensure (af_creation d = command) (AutomationE DefinitionReceipt) (Inr ((d, True), db))))
      else
        rbind (av_job env (ad_from_job command)) (\<lambda>plan.
        rbind (or_err (sp_context plan) (AutomationE DefinitionChanged)) (\<lambda>context.
        ensure (case origin of None \<Rightarrow> True | Some node \<Rightarrow> node = origin_node context) (AutomationE DefinitionMissing)
        (ensure (sp_revision plan = ad_revision command \<and> sp_awaiting plan \<and> \<not> sp_approved plan \<and> \<not> sp_executed plan
            \<and> sp_plan_sha256 plan = Some (ad_plan_sha256 command)) (AutomationE DefinitionChanged)
        (let d = new_definition ext command context (sp_json plan) now in
         rbind (save_definition ext env d True db) (\<lambda>db'. Inr ((d, False), db')))))))"

definition automation_remove ::
  "'x automation_externals_scheme \<Rightarrow> store_env \<Rightarrow> string option \<Rightarrow> string \<Rightarrow> nat \<Rightarrow> string \<Rightarrow> automation_db
   \<Rightarrow> ((automation_definition \<times> bool) \<times> automation_db) result" where
  "automation_remove ext env origin i revision operation db =
     rbind (read_definition ext env db i) (\<lambda>d.
     ensure (own_node origin d) (AutomationE DefinitionMissing)
     (case af_removal d of
        Some r \<Rightarrow>
          ensure (rr_operation_id r = operation \<and> rr_source_revision r = revision) (AutomationE DefinitionReceipt)
            (Inr ((d, True), db))
      | None \<Rightarrow>
          ensure (af_revision d = revision \<and> af_state d = ''disabled'' \<and> operation \<noteq> i) (AutomationE DefinitionChanged)
          (let d = d\<lparr>af_source := None, af_revision := 2, af_state := ''removed'',
                 af_removal := Some \<lparr>rr_operation_id = operation, rr_source_revision = revision\<rparr>\<rparr> in
           rbind (save_definition ext env d False db) (\<lambda>db'. Inr ((d, False), db')))))"

definition automation_run ::
  "'x automation_externals_scheme \<Rightarrow> store_env \<Rightarrow> nat \<Rightarrow> string option \<Rightarrow> automation_command \<Rightarrow> automation_db
   \<Rightarrow> (definition_report \<times> automation_db) result" where
  "automation_run ext env now origin command db =
     (let answer = (\<lambda>d items after reused. \<lparr>dr_command = command, dr_definition = d, dr_items = items,
            dr_next_after = after, dr_reused = reused\<rparr>) in
      rbind (automation_command_validate ext command) (\<lambda>_.
      rbind (opt_check validate_remote_node_id origin) (\<lambda>_.
      (case command of
         AutomationList limit after \<Rightarrow>
           rbind (automation_list ext env origin limit after db) (\<lambda>(items, after). Inr (answer None items after False, db))
       | AutomationShow i \<Rightarrow>
           rbind (read_definition ext env db i) (\<lambda>d.
           ensure (own_node origin d) (AutomationE DefinitionMissing) (Inr (answer (Some d) [] None False, db)))
       | AutomationDefine _ _ _ _ _ _ _ _ \<Rightarrow>
           rbind (automation_define ext env now origin command db) (\<lambda>((d, reused), db').
           Inr (answer (Some d) [] None reused, db'))
       | AutomationRemove i revision operation \<Rightarrow>
           rbind (automation_remove ext env origin i revision operation db) (\<lambda>((d, reused), db').
           Inr (answer (Some d) [] None reused, db'))))))"

section \<open>Approvals\<close>

definition REVOCATION_RESERVE :: nat where "REVOCATION_RESERVE = 1024"

definition approval_reserve :: "authorization \<Rightarrow> nat" where
  "approval_reserve a = (if au_revocation a = None then REVOCATION_RESERVE else 0)"

definition scope_grant :: "authorization \<Rightarrow> string \<Rightarrow> grant_limits \<Rightarrow> nat \<Rightarrow> scoped_operation \<Rightarrow> execution_grant" where
  "scope_grant a from_job limits expires o' =
     \<lparr>g_schema_version = 1, g_grant_id = au_id a, g_issuer_id = au_issuer_id a, g_session_id = au_runtime_id a,
      g_executor_node = so_executor_node o', g_job_id = from_job, g_task_id = from_job, g_attempt = 1,
      g_plan_sha256 = au_scope_sha256 a, g_request_context = fs_owner_context (au_scope a),
      g_capability = so_capability o', g_action = so_action o', g_params = so_params o',
      g_resource_id = so_resource_id o', g_model_id = so_model_id o', g_backend = so_backend o',
      g_model_role = as_str (jindex (so_constraints o') ''model_role''), g_priority = 0, g_limits = limits,
      g_reporting = ''acceptance_and_completion'', g_issued_at_ms = au_approved_at_ms a, g_expires_at_ms = expires\<rparr>"

definition validate_authorization ::
  "'x automation_externals_scheme \<Rightarrow> store_env \<Rightarrow> authorization \<Rightarrow> automation_definition \<Rightarrow> unit result" where
  "validate_authorization ext env a d =
     rbind (authorization_validate ext a) (\<lambda>_.
     rbind (automation_definition_validate ext d) (\<lambda>_.
     ensure (is_approve (au_creation a) \<and> is_define (af_creation d)) (AutomationE PolicyDamaged)
     (ensure (pa_definition (au_creation a) = af_id d \<and> pa_revision (au_creation a) = 1
         \<and> pa_definition_sha256 (au_creation a) = af_definition_sha256 d
         \<and> pa_valid_for_ms (au_creation a) \<le> ad_valid_for_ms (af_creation d)
         \<and> pa_max_runs (au_creation a) \<le> ad_max_runs (af_creation d)
         \<and> af_created_at_ms d \<le> au_approved_at_ms a
         \<and> fs_owner_context (au_scope a) = af_owner_context d) (AutomationE PolicyDamaged)
     (rbind (opt_check (\<lambda>source. rbind (av_source_scope env source) (\<lambda>scope.
        ensure (scope = au_scope a) (AutomationE PolicyDamaged) (Inr ()))) (af_source d)) (\<lambda>_.
      rbind (av_compiles env a) (\<lambda>_.
      rbind (or_err (policy_limits (au_creation a)) (AutomationE PolicyDamaged)) (\<lambda>limits.
      check_all (\<lambda>o'.
        rbind (or_err (checked_add (au_approved_at_ms a) (gl_max_execution_ms limits)) (AutomationE PolicyDamaged)) (\<lambda>expires.
        grant_validate ext (scope_grant a (ad_from_job (af_creation d)) limits expires o'))) (fs_operations (au_scope a)))))))))"

definition validate_read_record ::
  "'x automation_externals_scheme \<Rightarrow> store_env \<Rightarrow> approval_row \<Rightarrow> automation_definition \<Rightarrow> unit result" where
  "validate_read_record ext env r d =
     rbind (validate_authorization ext env (ap_record r) d) (\<lambda>_.
     ensure (au_id (ap_record r) = ap_id r \<and> ap_reserved r = approval_reserve (ap_record r)) (AutomationE PolicyDamaged) (Inr ()))"

definition find_approval :: "automation_db \<Rightarrow> string \<Rightarrow> approval_row option" where
  "find_approval db i = find (\<lambda>r. ap_id r = i) (ab_approvals db)"

definition read_approval ::
  "'x automation_externals_scheme \<Rightarrow> store_env \<Rightarrow> automation_db \<Rightarrow> string \<Rightarrow> authorization option result" where
  "read_approval ext env db i =
     (case find_approval db i of
        None \<Rightarrow> Inr None
      | Some r \<Rightarrow>
          ensure (is_approve (au_creation (ap_record r))) (AutomationE PolicyDamaged)
          (rbind (read_definition ext env db (pa_definition (au_creation (ap_record r)))) (\<lambda>d.
           rbind (validate_read_record ext env r d) (\<lambda>_. Inr (Some (ap_record r))))))"

definition generations_of :: "authorization list \<Rightarrow> string \<Rightarrow> nat list" where
  "generations_of as definition =
     sort (map au_generation (filter (\<lambda>a. pa_definition (au_creation a) = definition) as))"

definition validate_generations :: "authorization list \<Rightarrow> unit result" where
  "validate_generations as =
     check_all (\<lambda>a. let gs = generations_of as (pa_definition (au_creation a)) in
       ensure (gs = [1..<Suc (length gs)]) (AutomationE GenerationDamaged) (Inr ())) as"

definition approval_records :: "'x automation_externals_scheme \<Rightarrow> store_env \<Rightarrow> automation_db \<Rightarrow> authorization list result" where
  "approval_records ext env db =
     rbind (map_result (\<lambda>i. rbind (read_approval ext env db i) (\<lambda>a. or_err a (AutomationE PolicyMissing)))
              (sort (map ap_id (ab_approvals db)))) (\<lambda>as.
     rbind (validate_generations as) (\<lambda>_. Inr as))"

text \<open>\<^verbatim>\<open>records_loading_definitions\<close>: each definition is read once.\<close>

primrec load_records ::
  "'x automation_externals_scheme \<Rightarrow> store_env \<Rightarrow> automation_db \<Rightarrow> approval_row list \<Rightarrow> (string \<times> automation_definition) list
   \<Rightarrow> authorization list \<Rightarrow> (authorization list \<times> (string \<times> automation_definition) list) result" where
  "load_records ext env db [] ds as = Inr (as, ds)"
| "load_records ext env db (r # rs) ds as =
     ensure (is_approve (au_creation (ap_record r))) (AutomationE PolicyDamaged)
     (let i = pa_definition (au_creation (ap_record r)) in
      rbind (case map_of ds i of
               Some d \<Rightarrow> Inr (d, ds)
             | None \<Rightarrow> rbind (read_definition ext env db i) (\<lambda>d. Inr (d, ds @ [(i, d)]))) (\<lambda>(d, ds).
      rbind (validate_read_record ext env r d) (\<lambda>_.
      load_records ext env db rs ds (as @ [ap_record r]))))"

definition records_and_definitions ::
  "'x automation_externals_scheme \<Rightarrow> store_env \<Rightarrow> automation_db
   \<Rightarrow> (authorization list \<times> (string \<times> automation_definition) list) result" where
  "records_and_definitions ext env db =
     rbind (load_records ext env db (sort_key ap_id (ab_approvals db)) [] []) (\<lambda>(as, ds).
     rbind (validate_generations as) (\<lambda>_. Inr (as, ds)))"

definition put_approval :: "approval_row \<Rightarrow> automation_db \<Rightarrow> automation_db" where
  "put_approval r db = db\<lparr>ab_approvals := map (\<lambda>q. if ap_id q = ap_id r then r else q) (ab_approvals db)\<rparr>"

definition save_authorization ::
  "'x automation_externals_scheme \<Rightarrow> store_env \<Rightarrow> authorization \<Rightarrow> bool \<Rightarrow> automation_db \<Rightarrow> automation_db result" where
  "save_authorization ext env a is_new db =
     ensure (is_approve (au_creation a)) (AutomationE PolicyDamaged)
     (rbind (read_definition ext env db (pa_definition (au_creation a))) (\<lambda>d.
      rbind (validate_authorization ext env a d) (\<lambda>_.
      rbind (or_err (checked_add (length (authorization_text ext a)) (approval_reserve a)) (AutomationE StoreQuota)) (\<lambda>cost.
      let previous = map_option (approval_cost ext) (find_approval db (au_id a));
          row = \<lparr>ap_id = au_id a, ap_record = a, ap_reserved = approval_reserve a\<rparr> in
      rbind (store_quota env (approval_used ext env db (au_id a)) previous cost is_new) (\<lambda>_.
      if is_new then
        ensure (find_approval db (au_id a) = None) (JournalE SqlConstraint)
          (Inr (db\<lparr>ab_approvals := ab_approvals db @ [row]\<rparr>))
      else Inr (put_approval row db))))))"

section \<open>The commands of the approval store\<close>

record policy_report =
  pr_runtime_id :: string
  pr_command :: policy_command
  pr_authorization :: "authorization option"
  pr_items :: "authorization list"
  pr_next_after :: "string option"
  pr_reused :: bool

definition policy_approve ::
  "'x automation_externals_scheme \<Rightarrow> store_env \<Rightarrow> nat \<Rightarrow> string \<Rightarrow> authorization option \<Rightarrow> policy_command \<Rightarrow> authorization list
   \<Rightarrow> automation_db \<Rightarrow> ((authorization \<times> bool) \<times> automation_db) result" where
  "policy_approve ext env now runtime candidate command retained db =
     (case find (\<lambda>a. au_id a = pa_operation_id command) retained of
        Some old \<Rightarrow> ensure (au_creation old = command) (AutomationE PolicyReceipt) (Inr ((old, True), db))
      | None \<Rightarrow>
          rbind (or_err candidate (AutomationE PolicyMissing)) (\<lambda>a.
          rbind (read_definition ext env db (pa_definition command)) (\<lambda>source.
          let current = latest_generation retained (pa_definition command) in
          ensure (af_state source = ''disabled'' \<and> af_revision source = 1 \<and> af_source source \<noteq> None
              \<and> current = pa_generation command \<and> au_creation a = command \<and> au_runtime_id a = runtime
              \<and> au_generation a = current + 1 \<and> au_approved_at_ms a \<le> now \<and> now < au_expires_at_ms a)
            (AutomationE PolicyChanged)
          (rbind (save_authorization ext env a True db) (\<lambda>db'. Inr ((a, False), db'))))))"

definition policy_revoke ::
  "'x automation_externals_scheme \<Rightarrow> store_env \<Rightarrow> nat \<Rightarrow> string \<Rightarrow> string \<Rightarrow> nat \<Rightarrow> string \<Rightarrow> automation_db
   \<Rightarrow> ((authorization \<times> bool) \<times> automation_db) result" where
  "policy_revoke ext env now runtime i revision operation db =
     rbind (rbind (read_approval ext env db i) (\<lambda>a. or_err a (AutomationE PolicyMissing))) (\<lambda>a.
     (case au_revocation a of
        Some old \<Rightarrow>
          ensure (rv_operation_id old = operation \<and> rv_source_revision old = revision) (AutomationE PolicyReceipt)
            (Inr ((a, True), db))
      | None \<Rightarrow>
          ensure (au_revision a = revision \<and> au_state a = ''approved'' \<and> operation \<noteq> i \<and> now \<noteq> 0) (AutomationE PolicyChanged)
          (let a = a\<lparr>au_revision := 2, au_state := ''revoked'',
                 au_revocation := Some \<lparr>rv_operation_id = operation, rv_source_revision = revision, rv_revoked_at_ms = now,
                   rv_runtime_id = runtime\<rparr>\<rparr> in
           rbind (save_authorization ext env a False db) (\<lambda>db'. Inr ((a, False), db')))))"

definition policy_checkpoint ::
  "'x automation_externals_scheme \<Rightarrow> store_env \<Rightarrow> nat \<Rightarrow> string \<Rightarrow> authorization option \<Rightarrow> policy_command \<Rightarrow> automation_db
   \<Rightarrow> (policy_report \<times> automation_db) result" where
  "policy_checkpoint ext env now runtime candidate command db =
     (let answer = (\<lambda>a items after reused. \<lparr>pr_runtime_id = runtime, pr_command = command, pr_authorization = a,
            pr_items = items, pr_next_after = after, pr_reused = reused\<rparr>) in
      rbind (policy_command_validate ext command) (\<lambda>_.
      rbind (validate_operation_id ext runtime) (\<lambda>_.
      rbind (approval_records ext env db) (\<lambda>retained.
      (case command of
         PolicyShow i \<Rightarrow>
           rbind (rbind (read_approval ext env db i) (\<lambda>a. or_err a (AutomationE PolicyMissing))) (\<lambda>a.
           Inr (answer (Some a) [] None False, db))
       | PolicyList definition limit after \<Rightarrow>
           let found = page limit au_id (filter (\<lambda>a. \<not> opt_ex definition (\<lambda>d. d \<noteq> pa_definition (au_creation a))
                 \<and> \<not> opt_ex after (\<lambda>p. au_id a \<le> p)) retained) [] None in
           Inr (answer None (fst found) (snd found) False, db)
       | PolicyApprove _ _ _ _ _ _ _ _ _ _ _ \<Rightarrow>
           rbind (policy_approve ext env now runtime candidate command retained db) (\<lambda>((a, reused), db').
           Inr (answer (Some a) [] None reused, db'))
       | PolicyRevoke i revision operation \<Rightarrow>
           rbind (policy_revoke ext env now runtime i revision operation db) (\<lambda>((a, reused), db').
           Inr (answer (Some a) [] None reused, db')))))))"

text \<open>\<^verbatim>\<open>JobStore::automation_authorization\<close>: one approval, fully checked.\<close>

definition automation_authorization ::
  "'x automation_externals_scheme \<Rightarrow> store_env \<Rightarrow> automation_db \<Rightarrow> string \<Rightarrow> authorization option result" where
  "automation_authorization ext env db i = rbind (validate_operation_id ext i) (\<lambda>_. read_approval ext env db i)"

section \<open>What the trigger ledger reads of the stores\<close>

definition reads_store :: "'x automation_externals_scheme \<Rightarrow> store_env \<Rightarrow> automation_db \<Rightarrow> ledger_env \<Rightarrow> bool" where
  "reads_store ext env db le \<longleftrightarrow>
     le_policy le = read_approval ext env db \<and> le_definition le = read_definition ext env db
     \<and> le_policies le = approval_records ext env db
     \<and> le_history le = rbind (records_and_definitions ext env db) (\<lambda>(as, ds). Inr (map (\<lambda>a. (au_id a, a)) as, ds))"

end
