(* ===== verification/Occurrence_Records.thy ===== *)
theory Occurrence_Records
  imports Automation_Store Workload_Definition
begin

text \<open>
  The records of an automation's occurrences (\<^verbatim>\<open>eefn/automation_occurrence.rs\<close>): the owner's
  commands, a reservation of one run from the budget of an approval, the archive of a resolved
  job, the reports and their confirmation; and what the store reads of a job (\<^verbatim>\<open>eef/task.rs\<close>,
  \<^verbatim>\<open>eef/request_approval.rs\<close>). The fields of a job, a task or an execution that no occurrence
  looks at are one JSON value, its \<open>rest\<close>.
\<close>

section \<open>Commands\<close>

datatype occurrence_command =
    OccurrenceReserve (rc_policy: string) (rc_policy_sha256: string) (rc_job: string) (rc_revision: nat)
      (rc_plan_sha256: string) (rc_operation_id: string)
  | OccurrenceShow string
  | OccurrenceArchive (xc_reservation: string) (xc_reservation_sha256: string) (xc_job: string) (xc_revision: nat)
      (xc_operation_id: string)
  | OccurrenceArchiveShow string
  | OccurrenceList "string option" nat "string option"

definition is_reserve :: "occurrence_command \<Rightarrow> bool" where
  "is_reserve c = (case c of OccurrenceReserve _ _ _ _ _ _ \<Rightarrow> True | _ \<Rightarrow> False)"

definition is_archive :: "occurrence_command \<Rightarrow> bool" where
  "is_archive c = (case c of OccurrenceArchive _ _ _ _ _ \<Rightarrow> True | _ \<Rightarrow> False)"

definition occurrence_receipt :: "occurrence_command \<Rightarrow> string option" where
  "occurrence_receipt c =
     (case c of OccurrenceReserve _ _ _ _ _ i \<Rightarrow> Some i | OccurrenceArchive _ _ _ _ i \<Rightarrow> Some i | _ \<Rightarrow> None)"

definition occurrence_command_validate :: "'x externals_scheme \<Rightarrow> occurrence_command \<Rightarrow> unit result" where
  "occurrence_command_validate ext c =
     (case c of
        OccurrenceReserve policy policy_sha256 job revision plan_sha256 operation \<Rightarrow>
          rbind (uuid ext policy) (\<lambda>_.
          rbind (uuid ext operation) (\<lambda>_.
          rbind (validate_id job) (\<lambda>_.
          ensure (policy \<noteq> operation \<and> revision \<noteq> 0 \<and> revision \<noteq> u64_max \<and> hex_digest policy_sha256 \<and> hex_digest plan_sha256)
            (AutomationE OccurrenceInvalid) (Inr ()))))
      | OccurrenceArchive reservation reservation_sha256 job revision operation \<Rightarrow>
          rbind (uuid ext reservation) (\<lambda>_.
          rbind (uuid ext operation) (\<lambda>_.
          rbind (validate_id job) (\<lambda>_.
          ensure (reservation \<noteq> operation \<and> revision \<noteq> 0 \<and> revision \<noteq> u64_max \<and> hex_digest reservation_sha256)
            (AutomationE OccurrenceInvalid) (Inr ()))))
      | OccurrenceShow i \<Rightarrow> uuid ext i
      | OccurrenceArchiveShow i \<Rightarrow> uuid ext i
      | OccurrenceList policy limit after \<Rightarrow>
          ensure (1 \<le> limit \<and> limit \<le> 100) (AutomationE OccurrenceInvalid)
          (rbind (opt_check (uuid ext) policy) (\<lambda>_. opt_check (uuid ext) after)))"

section \<open>Delegations and approvals of a job\<close>

record occurrence_delegation = delegation +
  dg_schema_version :: nat
  dg_policy_sha256 :: string
  dg_definition_id :: string
  dg_generation :: nat

definition delegation_validate :: "'x externals_scheme \<Rightarrow> occurrence_delegation \<Rightarrow> unit result" where
  "delegation_validate ext d =
     rbind (opt_check (\<lambda>(schedule_id, trigger_id).
       rbind (uuid ext schedule_id) (\<lambda>_.
       rbind (uuid ext trigger_id) (\<lambda>_.
       ensure (schedule_id \<noteq> trigger_id \<and> schedule_id \<noteq> dg_policy_id d \<and> trigger_id \<noteq> dg_reservation_id d)
         (AutomationE OccurrenceDamaged) (Inr ())))) (dg_trigger d)) (\<lambda>_.
     rbind (check_all (uuid ext) [dg_reservation_id d, dg_policy_id d, dg_definition_id d, dg_runtime_id d]) (\<lambda>_.
     ensure (dg_schema_version d = 1 \<and> dg_generation d \<noteq> 0 \<and> dg_reservation_id d \<noteq> dg_policy_id d
         \<and> hex_digest (dg_policy_sha256 d)) (AutomationE OccurrenceDamaged) (Inr ())))"

record approval_record =
  ao_schema_version :: nat
  ao_operation_id :: string
  ao_source_revision :: nat
  ao_plan_sha256 :: string
  ao_issuer_id :: string
  ao_approved_at_ms :: nat
  ao_valid_for_ms :: nat
  ao_expires_at_ms :: nat
  ao_limits :: grant_limits
  ao_approval_sha256 :: string
  ao_delegation :: "occurrence_delegation option"
  ao_workload :: "template option"

section \<open>Jobs\<close>

datatype plan_status =
    JobReview | JobAwaitingApproval | JobApproved | JobPending | JobRunning | JobCompleted | JobFailed | JobCancelled
  | JobPaused | JobPausing | JobStopping | JobInterrupted | JobAbandoned

datatype task_status =
    TaskPending | TaskRunning | TaskCompleted | TaskFailed | TaskSkipped | TaskCancelled | TaskInterrupted

record job_task =
  jt_status :: task_status
  jt_attempts :: nat
  jt_assignments :: "json list"
  jt_result :: "json option"
  jt_rest :: json

record job_execution =
  je_operation_id :: string
  je_attempts :: "json list"
  je_rest :: json

record job_event =
  jv_revision :: nat
  jv_at_ms :: nat
  jv_message :: string

record job =
  jb_plan_id :: string
  jb_context :: "request_context option"
  jb_status :: plan_status
  jb_revision :: nat
  jb_updated_at_ms :: nat
  jb_plan_sha256 :: "string option"
  jb_approval :: "approval_record option"
  jb_execution :: "job_execution option"
  jb_tasks :: "job_task list"
  jb_results :: "(string \<times> json) list"
  jb_history :: "job_event list"
  jb_rest :: json

text \<open>A job is resolved when its outcome is known: all tasks completed, or cancelled before any attempt.\<close>

definition job_resolved :: "job \<Rightarrow> bool" where
  "job_resolved p =
     (case jb_status p of
        JobCompleted \<Rightarrow> jb_tasks p \<noteq> [] \<and> list_all (\<lambda>t. jt_status t = TaskCompleted) (jb_tasks p)
          \<and> opt_ex (jb_execution p) (\<lambda>e. length (je_attempts e) = length (jb_tasks p))
      | JobCancelled \<Rightarrow> \<not> opt_ex (jb_execution p) (\<lambda>e. je_attempts e \<noteq> [])
          \<and> list_all (\<lambda>t. jt_status t = TaskCancelled \<and> jt_attempts t = 0 \<and> jt_assignments t = [] \<and> jt_result t = None)
              (jb_tasks p)
          \<and> jb_results p = []
      | _ \<Rightarrow> False)"

text \<open>What the trigger ledger sees of a job.\<close>

definition job_delegation :: "job \<Rightarrow> occurrence_delegation option" where
  "job_delegation p = Option.bind (jb_approval p) ao_delegation"

definition job_view :: "job \<Rightarrow> plan_view" where
  "job_view p =
     \<lparr>pv_context = jb_context p, pv_approved = (jb_approval p \<noteq> None),
      pv_delegation = map_option delegation.truncate (job_delegation p),
      pv_execution = map_option je_operation_id (jb_execution p), pv_resolved = job_resolved p\<rparr>"

text \<open>\<^verbatim>\<open>stamp\<close> of \<^verbatim>\<open>eef/jobs.rs\<close>: a new revision and an event; of the events the last 128 are kept.\<close>

definition stamp :: "nat \<Rightarrow> string \<Rightarrow> job \<Rightarrow> job result" where
  "stamp now message p =
     rbind (or_err (checked_add (jb_revision p) 1) (AutomationE RevisionExhausted)) (\<lambda>revision.
     let history = jb_history p @ [\<lparr>jv_revision = revision, jv_at_ms = now, jv_message = message\<rparr>] in
     Inr (p\<lparr>jb_revision := revision, jb_updated_at_ms := now,
            jb_history := (if 128 < length history then tl history else history)\<rparr>))"

section \<open>Reservations and archives\<close>

record reservation =
  ro_schema_version :: nat
  ro_id :: string
  ro_command :: occurrence_command
  ro_delegation :: occurrence_delegation
  ro_ordinal :: nat
  ro_reserved_at_ms :: nat
  ro_reserved_execution_ms :: nat
  ro_reserved_result_bytes :: nat
  ro_approved_job :: json
  ro_approved_job_sha256 :: string
  ro_reservation_sha256 :: string

record occurrence_archive =
  xa_schema_version :: nat
  xa_id :: string
  xa_command :: occurrence_command
  xa_runtime_id :: string
  xa_archived_at_ms :: nat
  xa_terminal_job :: json
  xa_terminal_job_sha256 :: string
  xa_archive_sha256 :: string

record occurrence_externals = ledger_externals +
  job_json :: "job \<Rightarrow> json"
  job_of_json :: "json \<Rightarrow> job option"
  job_text :: "job \<Rightarrow> string"
  delegation_json :: "occurrence_delegation \<Rightarrow> json"
  approval_record_json :: "approval_record \<Rightarrow> json"
  reservation_json :: "reservation \<Rightarrow> json"
  reservation_text :: "reservation \<Rightarrow> string"
  archive_json :: "occurrence_archive \<Rightarrow> json"
  archive_text :: "occurrence_archive \<Rightarrow> string"

definition approval_record_digest :: "'x occurrence_externals_scheme \<Rightarrow> approval_record \<Rightarrow> string" where
  "approval_record_digest ext a = definition_digest ext (approval_record_json ext (a\<lparr>ao_approval_sha256 := []\<rparr>))"

definition reservation_digest :: "'x occurrence_externals_scheme \<Rightarrow> reservation \<Rightarrow> string" where
  "reservation_digest ext r = definition_digest ext (reservation_json ext (r\<lparr>ro_reservation_sha256 := []\<rparr>))"

definition archive_digest :: "'x occurrence_externals_scheme \<Rightarrow> occurrence_archive \<Rightarrow> string" where
  "archive_digest ext a = definition_digest ext (archive_json ext (a\<lparr>xa_archive_sha256 := []\<rparr>))"

text \<open>What the checks of a reservation read of its approved job.\<close>

definition snapshot_ok :: "'x occurrence_externals_scheme \<Rightarrow> reservation \<Rightarrow> bool" where
  "snapshot_ok ext r \<longleftrightarrow>
     (let j = ro_approved_job r; a = jindex j ''approval''; c = ro_command r in
      jindex j ''plan_id'' = JString (rc_job c) \<and> as_u64 (jindex j ''revision'') = Some (rc_revision c + 1)
      \<and> jindex j ''status'' = JString ''approved'' \<and> jindex j ''execution'' = JNull
      \<and> jindex (jindex j ''planning'') ''plan_sha256'' = JString (rc_plan_sha256 c)
      \<and> jindex a ''operation_id'' = JString (ro_id r) \<and> as_u64 (jindex a ''source_revision'') = Some (rc_revision c)
      \<and> as_u64 (jindex a ''approved_at_ms'') = Some (ro_reserved_at_ms r)
      \<and> jindex a ''delegation'' = delegation_json ext (ro_delegation r)
      \<and> definition_digest ext j = ro_approved_job_sha256 r)"

definition reservation_validate :: "'x occurrence_externals_scheme \<Rightarrow> reservation \<Rightarrow> unit result" where
  "reservation_validate ext r =
     rbind (occurrence_command_validate ext (ro_command r)) (\<lambda>_.
     rbind (delegation_validate ext (ro_delegation r)) (\<lambda>_.
     ensure (is_reserve (ro_command r)) (AutomationE OccurrenceDamaged)
     (ensure (ro_schema_version r = 1 \<and> ro_id r = rc_operation_id (ro_command r)
         \<and> ro_id r = dg_reservation_id (ro_delegation r)
         \<and> dg_policy_id (ro_delegation r) = rc_policy (ro_command r)
         \<and> dg_policy_sha256 (ro_delegation r) = rc_policy_sha256 (ro_command r)
         \<and> 1 \<le> ro_ordinal r \<and> ro_ordinal r \<le> 128 \<and> ro_reserved_at_ms r \<noteq> 0
         \<and> 1 \<le> ro_reserved_execution_ms r \<and> ro_reserved_execution_ms r \<le> MAX_RESERVED_EXECUTION_MS
         \<and> 1024 \<le> ro_reserved_result_bytes r \<and> ro_reserved_result_bytes r \<le> MAX_RESERVED_RESULT_BYTES
         \<and> length (reservation_text ext r) \<le> 2 * 1024 * 1024 \<and> snapshot_ok ext r
         \<and> reservation_digest ext r = ro_reservation_sha256 r)
       (AutomationE OccurrenceDamaged) (Inr ()))))"

definition archive_validate :: "'x occurrence_externals_scheme \<Rightarrow> occurrence_archive \<Rightarrow> unit result" where
  "archive_validate ext a =
     rbind (occurrence_command_validate ext (xa_command a)) (\<lambda>_.
     rbind (uuid ext (xa_runtime_id a)) (\<lambda>_.
     ensure (length (archive_text ext a) \<le> 2 * 1024 * 1024) (AutomationE ArchiveDamaged)
     (ensure (is_archive (xa_command a)) (AutomationE ArchiveDamaged)
     (ensure (xa_schema_version a = 1 \<and> xa_id a = xc_operation_id (xa_command a) \<and> xa_archived_at_ms a \<noteq> 0
         \<and> jindex (xa_terminal_job a) ''plan_id'' = JString (xc_job (xa_command a))
         \<and> as_u64 (jindex (xa_terminal_job a) ''revision'') = Some (xc_revision (xa_command a))
         \<and> as_str (jindex (xa_terminal_job a) ''status'') \<in> {Some ''completed'', Some ''cancelled''}
         \<and> xa_terminal_job_sha256 a = definition_digest ext (xa_terminal_job a)
         \<and> xa_archive_sha256 a = archive_digest ext a)
       (AutomationE ArchiveDamaged) (Inr ())))))"

section \<open>Reports\<close>

record occurrence_summary =
  sm_id :: string
  sm_policy_id :: string
  sm_definition_id :: string
  sm_job_id :: string
  sm_generation :: nat
  sm_ordinal :: nat
  sm_reserved_at_ms :: nat
  sm_reserved_execution_ms :: nat
  sm_reserved_result_bytes :: nat
  sm_reservation_sha256 :: string

definition occurrence_summary_of :: "reservation \<Rightarrow> occurrence_summary" where
  "occurrence_summary_of r =
     \<lparr>sm_id = ro_id r, sm_policy_id = dg_policy_id (ro_delegation r), sm_definition_id = dg_definition_id (ro_delegation r),
      sm_job_id = rc_job (ro_command r), sm_generation = dg_generation (ro_delegation r), sm_ordinal = ro_ordinal r,
      sm_reserved_at_ms = ro_reserved_at_ms r, sm_reserved_execution_ms = ro_reserved_execution_ms r,
      sm_reserved_result_bytes = ro_reserved_result_bytes r, sm_reservation_sha256 = ro_reservation_sha256 r\<rparr>"

record occurrence_report =
  or_schema_version :: nat
  or_report_type :: string
  or_runtime_id :: string
  or_command :: occurrence_command
  or_reservation :: "reservation option"
  or_archive :: "occurrence_archive option"
  or_items :: "occurrence_summary list"
  or_next_after :: "string option"
  or_reused :: bool
  or_execution_requested :: bool
  or_timers_started :: bool
  or_automatically_retried :: bool

definition occurrence_report_of ::
  "string \<Rightarrow> occurrence_command \<Rightarrow> reservation option \<Rightarrow> occurrence_summary list \<Rightarrow> string option \<Rightarrow> bool \<Rightarrow> occurrence_report" where
  "occurrence_report_of runtime command reservation items after reused =
     \<lparr>or_schema_version = 1, or_report_type = ''automation_occurrence'', or_runtime_id = runtime, or_command = command,
      or_reservation = reservation, or_archive = None, or_items = items, or_next_after = after, or_reused = reused,
      or_execution_requested = False, or_timers_started = False, or_automatically_retried = False\<rparr>"

text \<open>The loop of \<^verbatim>\<open>confirmed\<close> over the summaries: each item is checked and comes after the one before it.\<close>

definition summary_ok :: "'x externals_scheme \<Rightarrow> string option \<Rightarrow> occurrence_summary \<Rightarrow> bool" where
  "summary_ok ext policy s \<longleftrightarrow>
     is_ok (uuid ext (sm_id s)) \<and> is_ok (uuid ext (sm_policy_id s)) \<and> is_ok (uuid ext (sm_definition_id s))
     \<and> is_ok (validate_id (sm_job_id s)) \<and> sm_generation s \<noteq> 0 \<and> 1 \<le> sm_ordinal s \<and> sm_ordinal s \<le> 128
     \<and> sm_reserved_at_ms s \<noteq> 0
     \<and> 1 \<le> sm_reserved_execution_ms s \<and> sm_reserved_execution_ms s \<le> MAX_RESERVED_EXECUTION_MS
     \<and> 1024 \<le> sm_reserved_result_bytes s \<and> sm_reserved_result_bytes s \<le> MAX_RESERVED_RESULT_BYTES
     \<and> hex_digest (sm_reservation_sha256 s) \<and> \<not> opt_ex policy (\<lambda>p. p \<noteq> sm_policy_id s)"

fun summaries_ok :: "'x externals_scheme \<Rightarrow> string option \<Rightarrow> string option \<Rightarrow> occurrence_summary list \<Rightarrow> string option option" where
  "summaries_ok ext policy previous [] = Some previous"
| "summaries_ok ext policy previous (s # ss) =
     (if summary_ok ext policy s \<and> \<not> opt_ex previous (\<lambda>i. sm_id s \<le> i)
      then summaries_ok ext policy (Some (sm_id s)) ss else None)"

definition occurrence_confirmed ::
  "'x occurrence_externals_scheme \<Rightarrow> occurrence_report \<Rightarrow> occurrence_command \<Rightarrow> string \<Rightarrow> bool" where
  "occurrence_confirmed ext r command runtime \<longleftrightarrow>
     is_ok (occurrence_command_validate ext command) \<and> is_ok (uuid ext runtime) \<and> or_schema_version r = 1
     \<and> or_report_type r = ''automation_occurrence'' \<and> or_runtime_id r = runtime \<and> or_command r = command
     \<and> \<not> or_execution_requested r \<and> \<not> or_timers_started r \<and> \<not> or_automatically_retried r
     \<and> (case command of
          OccurrenceReserve _ _ _ _ _ _ \<Rightarrow>
            opt_ex (or_reservation r) (\<lambda>v. is_ok (reservation_validate ext v) \<and> ro_command v = command)
            \<and> or_archive r = None \<and> or_items r = [] \<and> or_next_after r = None
        | OccurrenceShow i \<Rightarrow>
            opt_ex (or_reservation r) (\<lambda>v. is_ok (reservation_validate ext v) \<and> ro_id v = i) \<and> \<not> or_reused r
            \<and> or_archive r = None \<and> or_items r = [] \<and> or_next_after r = None
        | OccurrenceArchive _ _ _ _ _ \<Rightarrow>
            opt_ex (or_archive r) (\<lambda>v. is_ok (archive_validate ext v) \<and> xa_command v = command)
            \<and> or_reservation r = None \<and> or_items r = [] \<and> or_next_after r = None
        | OccurrenceArchiveShow i \<Rightarrow>
            opt_ex (or_archive r) (\<lambda>v. is_ok (archive_validate ext v) \<and> xa_id v = i) \<and> \<not> or_reused r
            \<and> or_reservation r = None \<and> or_items r = [] \<and> or_next_after r = None
        | OccurrenceList policy limit after \<Rightarrow>
            or_reservation r = None \<and> or_archive r = None \<and> \<not> or_reused r \<and> length (or_items r) \<le> limit
            \<and> opt_ex (summaries_ok ext policy after (or_items r)) (\<lambda>previous.
                (case or_next_after r of None \<Rightarrow> True | Some i \<Rightarrow> length (or_items r) = limit \<and> Some i = previous)))"

end
