(* ===== verification/Trigger_Samples.thy ===== *)
theory Trigger_Samples
  imports Trigger_History Occurrence_Records Pipeline_Samples
begin

text \<open>
  A ledger on which the witness evaluates the model: one approval of one definition, a schedule
  armed for it and its first claim. The external crates are instantiated by functions that
  recognise the sample identities and print every value alike.
\<close>

section \<open>Identities and externals\<close>

definition ledger_key :: "nat \<Rightarrow> string" where
  "ledger_key k = ''11111111-1111-4111-8111-11111111111'' @ [char_of (48 + k)]"

definition ledger_base :: pipeline_externals where
  "ledger_base = sample_pipeline_ext
     \<lparr>uuid_parse := (\<lambda>s. if s = [] then None else Some (of_char (last s) - 48)), uuid_show := ledger_key,
      sha256_hex := (\<lambda>_. sample_digest), json_text := (\<lambda>_. ''null'')\<rparr>"

text \<open>The JSON of a job holds the fields the checks of a reservation read.\<close>

definition sample_job_json :: "job \<Rightarrow> json" where
  "sample_job_json j =
     JObject ([(''plan_id'', JString (jb_plan_id j)), (''revision'', JNum (PosInt (jb_revision j))),
       (''status'', JString (if jb_status j = JobApproved then ''approved'' else ''awaiting_approval'')),
       (''planning'', JObject [(''plan_sha256'', JString sample_digest)])]
       @ (case jb_approval j of None \<Rightarrow> [] | Some a \<Rightarrow>
            [(''approval'', JObject [(''operation_id'', JString (ao_operation_id a)),
               (''source_revision'', JNum (PosInt (ao_source_revision a))), (''approved_at_ms'', JNum (PosInt (ao_approved_at_ms a)))])]))"

definition run_context :: request_context where
  "run_context = \<lparr>request_id = ledger_key 8, origin_node = sample_node, origin_area = []\<rparr>"

definition run_job :: string where "run_job = replicate 32 (CHR ''d'')"

definition awaiting_job :: job where
  "awaiting_job =
     \<lparr>jb_plan_id = run_job, jb_context = Some run_context, jb_status = JobAwaitingApproval, jb_revision = 3,
      jb_updated_at_ms = 1500, jb_plan_sha256 = Some sample_digest, jb_approval = None, jb_execution = None, jb_tasks = [],
      jb_results = [], jb_history = [], jb_rest = JNull\<rparr>"

definition run_delegation :: occurrence_delegation where
  "run_delegation =
     \<lparr>dg_policy_id = ledger_key 7, dg_reservation_id = ledger_key 6, dg_runtime_id = ledger_key 3, dg_trigger = None,
      dg_schema_version = 1, dg_policy_sha256 = sample_digest, dg_definition_id = ledger_key 2, dg_generation = 1\<rparr>"

definition approved_job :: job where
  "approved_job = awaiting_job
     \<lparr>jb_approval := Some \<lparr>ao_schema_version = 1, ao_operation_id = ledger_key 6, ao_source_revision = 3,
        ao_plan_sha256 = sample_digest, ao_issuer_id = sample_issuer, ao_approved_at_ms = 2000, ao_valid_for_ms = 99000,
        ao_expires_at_ms = 101000, ao_limits = \<lparr>gl_max_execution_ms = 1000, gl_max_result_bytes = 1024\<rparr>,
        ao_approval_sha256 = sample_digest, ao_delegation = Some run_delegation, ao_workload = None\<rparr>,
      jb_status := JobApproved, jb_revision := 4, jb_updated_at_ms := 2000,
      jb_history := [\<lparr>jv_revision = 4, jv_at_ms = 2000,
        jv_message = ''Occurrence authority reserved atomically; no timer, grant or dispatch''\<rparr>]\<rparr>"

definition ledger_ext :: occurrence_externals where
  "ledger_ext = pipeline_externals.extend ledger_base
     \<lparr>grant_json = (\<lambda>_. JNull), report_json = (\<lambda>_. JNull), report_text = (\<lambda>_. ''{}''),
      report_parse = (\<lambda>_. None), peer_definition = (\<lambda>_. False), peer_result = (\<lambda>_ _. False),
      input_text = (\<lambda>_. ''{}''), template_parse = (\<lambda>_. None), pair_from_params = (\<lambda>_. Inr False),
      context_json = (\<lambda>_. JNull), definition_json = (\<lambda>_. JNull), definition_text = (\<lambda>_. ''{}''),
      scope_json = (\<lambda>_. JNull), scope_text = (\<lambda>_. ''{}''), authorization_json = (\<lambda>_. JNull),
      authorization_text = (\<lambda>_. ''{}''),
      schedule_json = (\<lambda>_. JNull), schedule_text = (\<lambda>_. ''{}''), trigger_json = (\<lambda>_. JNull),
      trigger_text = (\<lambda>_. ''{}''), refusal_json = (\<lambda>_. JNull), job_json = sample_job_json,
      job_of_json = (\<lambda>_. Some approved_job), job_text = (\<lambda>_. ''{}''), delegation_json = (\<lambda>_. JNull),
      approval_record_json = (\<lambda>_. JNull), reservation_json = (\<lambda>_. JNull), reservation_text = (\<lambda>_. ''{}''),
      archive_json = (\<lambda>_. JNull), archive_text = (\<lambda>_. ''{}'')\<rparr>"

lemma ledger_ext_base [simp]:
  "uuid_parse ledger_ext s = (if s = [] then None else Some (of_char (last s) - 48))" "uuid_show ledger_ext = ledger_key"
  "sha256_hex ledger_ext v = sample_digest" "json_text ledger_ext j = ''null''"
  by (simp_all add: ledger_ext_def ledger_base_def pipeline_externals.defs)

lemma ledger_ext_fields [simp]:
  "definition_digest ledger_ext v = sample_digest" "schedule_digest ledger_ext s = sample_digest"
  "trigger_digest ledger_ext t = sample_digest" "schedule_text ledger_ext s = ''{}''" "trigger_text ledger_ext t = ''{}''"
  "scope_text ledger_ext c = ''{}''" "input_text ledger_ext i = ''{}''" "context_json ledger_ext r = JNull"
  by (simp_all add: definition_digest_def schedule_digest_def trigger_digest_def)
    (simp_all add: ledger_ext_def pipeline_externals.defs)

lemma char_of_digit: "k < 10 \<Longrightarrow> of_char (char_of (48 + k) :: char) = (48 + k :: nat)"
  by (simp add: take_bit_eq_mod)

lemma ledger_key_eq [simp]: "i < 10 \<Longrightarrow> j < 10 \<Longrightarrow> ledger_key i = ledger_key j \<longleftrightarrow> i = j"
  unfolding ledger_key_def using char_of_digit [of i] char_of_digit [of j] by (metis add_left_cancel last_snoc)

lemma ledger_key_valid [simp]: "k < 10 \<Longrightarrow> validate_operation_id ledger_ext (ledger_key k) = Inr ()"
  unfolding validate_operation_id_def ledger_ext_base by (simp add: ledger_key_def take_bit_eq_mod)

lemma ledger_key_parse: "k < 10 \<Longrightarrow> uuid_parse ledger_ext (ledger_key k) = Some k"
  unfolding ledger_ext_base by (simp add: ledger_key_def take_bit_eq_mod)

lemma ledger_key_uuid [simp]: "0 < k \<Longrightarrow> k < 10 \<Longrightarrow> uuid ledger_ext (ledger_key k) = Inr ()"
  unfolding uuid_def by (simp add: ledger_key_parse del: ledger_ext_base)

lemma ledger_key_length [simp]: "length (ledger_key k) = 36" "ledger_key k \<noteq> []"
  by (simp_all add: ledger_key_def)

section \<open>The approval\<close>

definition owner_context :: request_context where
  "owner_context = \<lparr>request_id = ledger_key 9, origin_node = sample_node, origin_area = []\<rparr>"

definition sample_title :: string where "sample_title = ''nightly''"

lemma sample_title_ok [simp]: "\<not> is_blank sample_title" "\<not> has_control sample_title" "length sample_title \<le> 128"
  by code_simp+

definition sample_source :: json where
  "sample_source = JObject [(''plan_id'', JString sample_id), (''revision'', JNum (PosInt 1)),
     (''planning'', JObject [(''plan_sha256'', JString sample_digest)]), (''status'', JString ''awaiting_approval'')]"

definition sample_automation :: automation_definition where
  "sample_automation =
     \<lparr>af_schema_version = 1, af_id = ledger_key 2, af_owner_context = owner_context, af_created_at_ms = 500,
      af_creation = AutomationDefine (ledger_key 2) sample_id 1 sample_digest sample_title 10000 2 100000,
      af_source_sha256 = sample_digest, af_definition_sha256 = sample_digest, af_revision = 1,
      af_state = ''disabled'', af_source = Some sample_source, af_removal = None\<rparr>"

definition sample_operation_scope :: scoped_operation where
  "sample_operation_scope =
     \<lparr>so_capability = ''system.info'', so_action = ''run'', so_params = JObject [],
      so_constraints = JObject [(''node_id'', JString sample_node)], so_dependencies = [], so_timeout_ms = 1000,
      so_executor_node = sample_node, so_resource_id = None, so_model_id = None, so_backend = None\<rparr>"

definition sample_fixed_scope :: fixed_scope where
  "sample_fixed_scope =
     \<lparr>fs_owner_context = owner_context,
      fs_input = \<lparr>pi_schema_version = 1, pi_template = ''system_info'', pi_params = JObject [], pi_constraints = JObject []\<rparr>,
      fs_operations = [sample_operation_scope]\<rparr>"

definition sample_approval :: authorization where
  "sample_approval =
     \<lparr>au_schema_version = 1, au_id = ledger_key 7,
      au_creation = PolicyApprove (ledger_key 2) 1 sample_digest 0 (ledger_key 7) 100000 2 1000 1024 2000 2048,
      au_generation = 1, au_runtime_id = ledger_key 3, au_issuer_id = sample_issuer, au_approved_at_ms = 1000,
      au_expires_at_ms = 101000, au_scope = sample_fixed_scope, au_scope_sha256 = sample_digest,
      au_authorization_sha256 = sample_digest, au_revision = 1, au_state = ''approved'', au_revocation = None\<rparr>"

lemma sample_automation_valid: "automation_definition_validate ledger_ext sample_automation = Inr ()"
  by (simp add: automation_definition_validate_def automation_command_validate_def automation_receipt_def opt_check_def
      sample_automation_def is_define_def automation_definition_digest_def source_snapshot_ok_def sample_source_def
      owner_context_def jindex_def u64_max_def)

lemma sample_input_ok: "plan_input_validate ledger_ext \<lparr>pi_schema_version = 1, pi_template = ''system_info'',
    pi_params = JObject [], pi_constraints = JObject []\<rparr> = Inr ()"
  by (simp add: plan_input_validate_def identifier_check_def is_identifier_def is_name_byte_def is_ascii_alphanumeric_def
      byte_def is_object_def workload_input_def pipeline_input_def peer_input_def is_pipeline_template_def WORKLOAD_TEMPLATE_def)

lemma sample_scope_ok: "fixed_scope_validate ledger_ext sample_fixed_scope = Inr ()"
  by (simp add: fixed_scope_validate_def sample_fixed_scope_def sample_operation_scope_def owner_context_def jindex_def
      is_object_def sample_input_ok [unfolded One_nat_def])

lemma sample_allowance:
  "run_allowance ledger_ext sample_fixed_scope \<lparr>gl_max_execution_ms = 1000, gl_max_result_bytes = 1024\<rparr> = Inr (1000, 1024)"
  by (simp add: run_allowance_def sample_scope_ok) (simp add: sample_fixed_scope_def checked_mul_def u64_max_def)

lemma sample_approval_valid: "authorization_validate ledger_ext sample_approval = Inr ()"
  using sample_allowance sample_scope_ok
  by (simp add: authorization_validate_def sample_approval_def policy_command_validate_def policy_receipt_def opt_check_def
      u64_max_def MAX_DURATION_MS_def MAX_RESERVED_EXECUTION_MS_def MAX_RESERVED_RESULT_BYTES_def policy_limits_def
      checked_add_def authorization_digest_def check_lifecycle_def)
    (simp add: sample_fixed_scope_def sample_operation_scope_def)

section \<open>Arming and claiming\<close>

definition sample_env :: ledger_env where
  "sample_env =
     \<lparr>le_policy = (\<lambda>i. Inr (if i = ledger_key 7 then Some sample_approval else None)),
      le_definition = (\<lambda>_. Inr sample_automation), le_policies = Inr [sample_approval],
      le_history = Inr ([(ledger_key 7, sample_approval)], [(ledger_key 2, sample_automation)]),
      le_reserved = (\<lambda>_. False), le_requested = (\<lambda>_. False), le_occurrence = (\<lambda>_. Inr None), le_jobs = (\<lambda>_. []),
      le_definition_resolved = (\<lambda>_. Inr True), le_allowance = (\<lambda>_. Inr True), le_admission = (\<lambda>_ _. Inr (True, True)),
      le_count = 0, le_used = Some 0, le_max_count = 10, le_max_bytes = 100000\<rparr>"

definition sample_arm :: arm where
  "sample_arm = \<lparr>ar_policy = ledger_key 7, ar_policy_sha256 = sample_digest, ar_operation_id = ledger_key 4\<rparr>"

definition armed_schedule :: schedule where
  "armed_schedule = (new_schedule sample_arm sample_approval (ledger_key 2) (ledger_key 3) sample_issuer 10000 2000 12000)
     \<lparr>sh_record_sha256 := sample_digest\<rparr>"

definition armed_ledger :: trigger_db where
  "armed_ledger = \<lparr>td_schedules = [\<lparr>sr_id = ledger_key 4, sr_record = armed_schedule, sr_reserved = 4094\<rparr>], td_triggers = []\<rparr>"

lemma sample_current:
  "1000 \<le> now \<Longrightarrow> now < 101000 \<Longrightarrow> current_at ledger_ext sample_approval (ledger_key 3) sample_issuer (Suc 0) sample_automation now"
  by (simp add: current_at_def sample_approval_valid sample_automation_valid)
    (simp add: sample_approval_def sample_automation_def is_approve_def)

lemma sample_generation: "latest_generation [sample_approval] (ledger_key 2) = 1"
  by (simp add: latest_generation_def sample_approval_def is_approve_def)

lemma armed_valid: "validate_schedule_data ledger_ext armed_schedule sample_approval sample_automation = Inr ()"
  by (simp add: validate_schedule_data_def schedule_base_ok_def opt_check_def check_resolution_def schedule_shape_def opt_ex_def
      armed_schedule_def new_schedule_def sample_arm_def sample_approval_def sample_automation_def)

lemma sample_env_fields [simp]:
  "le_policy sample_env (ledger_key 7) = Inr (Some sample_approval)" "le_definition sample_env i = Inr sample_automation"
  "le_policies sample_env = Inr [sample_approval]" "le_definition_resolved sample_env i = Inr True"
  "le_allowance sample_env p = Inr True" "le_admission sample_env i p = Inr (True, True)"
  "le_history sample_env = Inr ([(ledger_key 7, sample_approval)], [(ledger_key 2, sample_automation)])"
  "ledger_quota sample_env None SCHEDULE_COST True = Inr ()"
  "ledger_quota sample_env None (Suc (Suc 0)) True = Inr ()"
  by (simp_all add: sample_env_def ledger_quota_def SCHEDULE_COST_def checked_sub_def saturating_sub_def opt_ex_def)

lemma sample_approval_fields [simp]:
  "pa_definition (au_creation sample_approval) = ledger_key 2" "au_authorization_sha256 sample_approval = sample_digest"
  "au_expires_at_ms sample_approval = 101000" "pa_max_runs (au_creation sample_approval) = 2"
  "au_scope sample_approval = sample_fixed_scope" "ad_every_ms (af_creation sample_automation) = 10000"
  by (simp_all add: sample_approval_def sample_automation_def)

lemma sample_policy_allowance [simp]: "policy_allowance ledger_ext sample_approval = Inr 1000"
  using sample_allowance by (simp add: policy_allowance_def sample_approval_def policy_limits_def)

definition for_approval :: "schedule \<Rightarrow> bool" where
  "for_approval s \<longleftrightarrow> ar_policy (sh_creation s) = ledger_key 7 \<and> sh_definition_id s = ledger_key 2
     \<and> sh_runtime_id s = ledger_key 3 \<and> sh_issuer_id s = sample_issuer"

lemma sample_current_schedule:
  "for_approval s \<Longrightarrow> 1000 \<le> now \<Longrightarrow> now < 101000
   \<Longrightarrow> current_schedule ledger_ext sample_env s (ledger_key 3) sample_issuer now = Inr True"
  unfolding for_approval_def current_schedule_def schedule_policy_def by (simp add: sample_generation sample_current)

lemma armed_for [simp]: "for_approval armed_schedule" "for_approval (armed_schedule\<lparr>sh_record_sha256 := h\<rparr>)"
  by (simp_all add: for_approval_def armed_schedule_def new_schedule_def sample_arm_def)

lemma sample_save_armed:
  "save_schedule ledger_ext sample_env (armed_schedule\<lparr>sh_record_sha256 := h\<rparr>) True ledger_empty
   = Inr (armed_schedule, armed_ledger)"
proof -
  have d: "armed_schedule\<lparr>sh_record_sha256 := sample_digest\<rparr> = armed_schedule"
    by (simp add: armed_schedule_def)
  have i: "sh_id armed_schedule = ledger_key 4" "ar_policy (sh_creation armed_schedule) = ledger_key 7"
    by (simp_all add: armed_schedule_def new_schedule_def sample_arm_def)
  have "validate_schedule ledger_ext sample_env armed_schedule = Inr ()"
    by (simp add: validate_schedule_def schedule_policy_def i armed_valid)
  then show ?thesis
    by (simp add: save_schedule_def Let_def d i find_row_def ledger_empty_def armed_ledger_def) (simp add: SCHEDULE_COST_def)
qed

lemma sample_armed:
  "schedule_arm ledger_ext sample_env 2000 2000 sample_arm (ledger_key 3) sample_issuer ledger_empty
   = Inr ((armed_schedule, False), armed_ledger)"
proof -
  have s: "new_schedule sample_arm sample_approval (ledger_key 2) (ledger_key 3) sample_issuer 10000 2000 12000
      = armed_schedule\<lparr>sh_record_sha256 := []\<rparr>" by (simp add: armed_schedule_def new_schedule_def)
  have free: "arm_free ledger_ext sample_env ledger_empty sample_approval = Inr ()"
    by (simp add: arm_free_def Let_def schedules_def ledger_empty_def)
  have hex: "list_all is_hex_digit sample_digest" "length sample_digest = 64" by code_simp+
  have c: "checked_add 2000 10000 = Some 12000" by (simp add: checked_add_def u64_max_def)
  have arm: "ar_policy sample_arm = ledger_key 7" "ar_policy_sha256 sample_arm = sample_digest" "ar_operation_id sample_arm = ledger_key 4"
    by (simp_all add: sample_arm_def)
  have "arm_new ledger_ext sample_env 2000 2000 sample_arm (ledger_key 3) sample_issuer ledger_empty
      = Inr ((armed_schedule, False), armed_ledger)"
    unfolding arm_new_def Let_def
    by (simp add: arm c s sample_current_schedule free sample_save_armed saturating_sub_def)
  then show ?thesis
    by (simp add: schedule_arm_def arm hex validated_history_def ledger_empty_def read_schedule_def find_row_def)
qed

definition sample_claim_ids :: claim_ids where
  "sample_claim_ids = \<lparr>ci_trigger = ledger_key 5, ci_request = ledger_key 6, ci_reservation = ledger_key 8, ci_execution = ledger_key 1\<rparr>"

definition claim_context :: request_context where
  "claim_context = \<lparr>request_id = ledger_key 6, origin_node = sample_node, origin_area = []\<rparr>"

definition claimed_trigger :: trigger where
  "claimed_trigger = (new_trigger armed_schedule claim_context (ledger_key 5) (ledger_key 8) (ledger_key 1) 12000 12500)
     \<lparr>tg_record_sha256 := sample_digest\<rparr>"

definition claimed_schedule :: schedule where
  "claimed_schedule = armed_schedule\<lparr>sh_revision := 2, sh_observed_at_ms := 12500, sh_claimed_runs := 1, sh_state := InFlight,
     sh_next_due_ms := None, sh_active_trigger := Some (ledger_key 5)\<rparr>"

definition claimed_ledger :: trigger_db where
  "claimed_ledger =
     \<lparr>td_schedules = [\<lparr>sr_id = ledger_key 4, sr_record = claimed_schedule, sr_reserved = 4094\<rparr>],
      td_triggers = [\<lparr>tr_id = ledger_key 5, tr_schedule_id = ledger_key 4, tr_ordinal = 1, tr_request_id = ledger_key 6,
        tr_reservation_id = ledger_key 8, tr_record = claimed_trigger\<rparr>]\<rparr>"

lemma claimed_valid: "validate_schedule_data ledger_ext claimed_schedule sample_approval sample_automation = Inr ()"
  by (simp add: validate_schedule_data_def schedule_base_ok_def opt_check_def check_resolution_def schedule_shape_def opt_ex_def
      claimed_schedule_def armed_schedule_def new_schedule_def sample_arm_def sample_approval_def sample_automation_def)

lemma armed_fields [simp]:
  "sh_id armed_schedule = ledger_key 4" "ar_policy (sh_creation armed_schedule) = ledger_key 7" "sh_every_ms armed_schedule = 10000"
  "sh_definition_id armed_schedule = ledger_key 2" "sh_runtime_id armed_schedule = ledger_key 3" "sh_claimed_runs armed_schedule = 0"
  "sh_issuer_id armed_schedule = sample_issuer" "sh_next_due_ms armed_schedule = Some 12000" "sh_state armed_schedule = Waiting"
  "sh_observed_at_ms armed_schedule = 2000" "sh_expires_at_ms armed_schedule = 101000" "sh_armed_at_ms armed_schedule = 2000"
  "sh_revision armed_schedule = 1" "sh_refusal armed_schedule = None" "sh_active_trigger armed_schedule = None"
  "sh_launch_started_at_ms armed_schedule = None" "sh_record_sha256 armed_schedule = sample_digest"
  by (simp_all add: armed_schedule_def new_schedule_def sample_arm_def)

lemma sample_history_row:
  assumes "for_approval s" "validate_schedule_data ledger_ext s sample_approval sample_automation = Inr ()" "sh_id s = i"
  shows "history_schedule ledger_ext [(ledger_key 7, sample_approval)] [(ledger_key 2, sample_automation)]
     \<lparr>sr_id = i, sr_record = s, sr_reserved = 4094\<rparr> = Inr ()"
  using assms by (simp add: history_schedule_def Let_def for_approval_def row_headroom_def SCHEDULE_COST_def)

lemma claimed_for [simp]: "for_approval claimed_schedule"
  using armed_for(1) by (simp add: for_approval_def claimed_schedule_def)

lemma claimed_trigger_fields [simp]:
  "tg_id claimed_trigger = ledger_key 5" "tg_schedule_id claimed_trigger = ledger_key 4" "tg_ordinal claimed_trigger = 1"
  "tg_due_at_ms claimed_trigger = 12000" "tg_claimed_at_ms claimed_trigger = 12500"
  "tg_request_context claimed_trigger = claim_context" "tg_reservation_id claimed_trigger = ledger_key 8"
  "tg_execution_id claimed_trigger = ledger_key 1" "tg_record_sha256 claimed_trigger = sample_digest"
  "tg_schema_version claimed_trigger = 1"
  by (simp_all add: claimed_trigger_def new_trigger_def)

lemma armed_history: "validated_history ledger_ext sample_env armed_ledger
    = Inr ([(ledger_key 7, sample_approval)], [(ledger_key 2, sample_automation)])"
  by (simp add: validated_history_def armed_ledger_def sample_history_row armed_valid claims_match_def own_claims_def Let_def)

lemma claimed_history: "validated_history ledger_ext sample_env claimed_ledger
    = Inr ([(ledger_key 7, sample_approval)], [(ledger_key 2, sample_automation)])"
proof -
  have i: "sh_id claimed_schedule = ledger_key 4" by (simp add: claimed_schedule_def)
  have row: "find_row claimed_ledger (ledger_key 4) = Some \<lparr>sr_id = ledger_key 4, sr_record = claimed_schedule, sr_reserved = 4094\<rparr>"
    by (simp add: find_row_def claimed_ledger_def)
  have "history_trigger ledger_ext claimed_ledger [(ledger_key 7, sample_approval)] \<lparr>tr_id = ledger_key 5,
      tr_schedule_id = ledger_key 4, tr_ordinal = 1, tr_request_id = ledger_key 6, tr_reservation_id = ledger_key 8,
      tr_record = claimed_trigger\<rparr> = Inr ()"
    by (simp add: history_trigger_def row validate_trigger_data_def Let_def claimed_schedule_def claim_context_def
        sample_fixed_scope_def owner_context_def saturating_add_def saturating_sub_def u64_max_def)
      (simp add: sample_approval_def)
  then show ?thesis
    by (simp add: validated_history_def claimed_ledger_def sample_history_row claimed_valid claims_match_def own_claims_def
        Let_def i trigger_identities_def claim_context_def)
      (simp add: claimed_schedule_def opt_ex_def)
qed

lemma sample_history_current:
  "for_approval s \<Longrightarrow> 1000 \<le> now \<Longrightarrow> now < 101000
   \<Longrightarrow> history_current ledger_ext ([(ledger_key 7, sample_approval)], [(ledger_key 2, sample_automation)]) s
         (ledger_key 3) sample_issuer now = Inr True"
  unfolding for_approval_def history_current_def by (simp add: sample_generation sample_current)

lemma sample_save_claimed:
  "save_schedule ledger_ext sample_env claimed_schedule False armed_ledger
   = Inr (claimed_schedule, claimed_ledger\<lparr>td_triggers := []\<rparr>)"
proof -
  have d: "claimed_schedule\<lparr>sh_record_sha256 := sample_digest\<rparr> = claimed_schedule"
    by (simp add: claimed_schedule_def armed_schedule_def)
  have i: "sh_id claimed_schedule = ledger_key 4" "ar_policy (sh_creation claimed_schedule) = ledger_key 7"
    by (simp_all add: claimed_schedule_def)
  have "validate_schedule ledger_ext sample_env claimed_schedule = Inr ()"
    by (simp add: validate_schedule_def schedule_policy_def i claimed_valid)
  moreover have "ledger_quota sample_env (map_option (row_cost ledger_ext) (find_row armed_ledger (ledger_key 4)))
      SCHEDULE_COST False = Inr ()"
    by (simp add: find_row_def armed_ledger_def row_cost_def) (simp add: ledger_quota_def SCHEDULE_COST_def opt_ex_def)
  ultimately show ?thesis
    by (simp add: save_schedule_def Let_def d i)
      (simp add: put_row_def armed_ledger_def claimed_ledger_def SCHEDULE_COST_def)
qed

lemma sample_insert: "insert_trigger claimed_trigger (claimed_ledger\<lparr>td_triggers := []\<rparr>) = Inr claimed_ledger"
  by (simp add: insert_trigger_def claimed_ledger_def claim_context_def)

lemma sample_commit:
  "claim_commit ledger_ext sample_env 12500 12600 sample_claim_ids (ledger_key 3) sample_issuer armed_schedule 12000
     sample_approval 1000 armed_ledger = Inr (Some claimed_trigger, claimed_ledger)"
proof -
  have o': "fs_owner_context sample_fixed_scope = owner_context" by (simp add: sample_fixed_scope_def)
  have c: "request_context_new (ci_request sample_claim_ids) (origin_node owner_context) (origin_area owner_context)
      = Inr claim_context"
    by (simp add: request_context_new_def sample_claim_ids_def owner_context_def claim_context_def validate_area_def sample_node_def)
  have t: "(new_trigger armed_schedule claim_context (ci_trigger sample_claim_ids) (ci_reservation sample_claim_ids)
      (ci_execution sample_claim_ids) 12000 12500)\<lparr>tg_record_sha256 := sample_digest\<rparr> = claimed_trigger"
    by (simp add: claimed_trigger_def sample_claim_ids_def)
  have u: "tg_ordinal (new_trigger armed_schedule c (ci_trigger sample_claim_ids) r x d n) = Suc 0"
      "tg_id (new_trigger armed_schedule c (ci_trigger sample_claim_ids) r x d n) = ledger_key 5" for c r x d n
    by (simp_all add: new_trigger_def sample_claim_ids_def)
  have a: "schedule_advance armed_schedule 12500 = Inr (armed_schedule\<lparr>sh_revision := 2, sh_observed_at_ms := 12500\<rparr>)"
    by (simp add: schedule_advance_def checked_add_def u64_max_def)
  have s: "armed_schedule\<lparr>sh_revision := 2, sh_observed_at_ms := 12500, sh_claimed_runs := Suc 0, sh_state := InFlight,
      sh_next_due_ms := None, sh_active_trigger := Some (ledger_key 5), sh_launch_started_at_ms := None\<rparr> = claimed_schedule"
    by (simp add: claimed_schedule_def armed_schedule_def new_schedule_def)
  have e: "sh_every_ms claimed_schedule = 10000" "sh_expires_at_ms claimed_schedule = 101000"
    by (simp_all add: claimed_schedule_def)
  show ?thesis
    unfolding claim_commit_def Let_def
    by (simp add: o' c t u a s e sample_save_claimed sample_insert claimed_history sample_history_current saturating_add_def
        saturating_sub_def u64_max_def)
qed

lemma sample_claimed:
  "schedule_claim_due ledger_ext sample_env 12500 12600 sample_claim_ids (ledger_key 4) (ledger_key 3) sample_issuer armed_ledger
   = Inr (Some claimed_trigger, claimed_ledger)"
proof -
  have row: "map_option sr_record (find_row armed_ledger (ledger_key 4)) = Some armed_schedule"
    by (simp add: find_row_def armed_ledger_def)
  have free: "claim_denied armed_schedule 12000 12500 True = None"
    by (simp add: claim_denied_def saturating_add_def u64_max_def)
  show ?thesis
    unfolding schedule_claim_due_def Let_def armed_history row
    by (simp add: sample_history_current free sample_commit saturating_sub_def)
qed

lemma sample_ledger_run:
  "run (ledger_step ledger_ext) ledger_empty [Armed armed_schedule False, ClaimedDue (Some claimed_trigger)] claimed_ledger"
  using arms [OF sample_armed] claims [OF sample_claimed] by (auto simp: ledger_step_def)

end
