(* ===== verification/Trigger_Properties.thy ===== *)
theory Trigger_Properties
  imports Trigger_Samples
begin

text \<open>What the trigger ledger promises about the claims of a schedule, over every sequence of its operations.\<close>

text \<open>
  C40. In every ledger that arming, claiming, launching, refusing, settling, stopping,
  interrupting and reopening reach, whatever the clock reads and the other tables answer: the
  claims of a schedule are numbered from one to its count of claimed runs without a gap; each
  was claimed within one period of its due time, no earlier than one period after arming and
  before the approval expires; a later claim falls due at least one period after an earlier one
  was claimed, so that missed times are never caught up; and no two active schedules run the
  same definition.
\<close>

theorem claims_paced:
  assumes "run (ledger_step ext) ledger_empty es db"
  shows "(\<forall>r \<in> set (td_schedules db). let s = sr_record r; ts = claims_of db (sr_id r) in
      map tg_ordinal ts = [1..<Suc (sh_claimed_runs s)]
      \<and> (\<forall>t \<in> set ts. sh_armed_at_ms s + sh_every_ms s \<le> tg_due_at_ms t \<and> tg_due_at_ms t \<le> tg_claimed_at_ms t
           \<and> tg_claimed_at_ms t < tg_due_at_ms t + sh_every_ms s \<and> tg_claimed_at_ms t < sh_expires_at_ms s)
      \<and> (\<forall>i j. i < j \<and> j < length ts \<longrightarrow> tg_claimed_at_ms (ts ! i) + sh_every_ms s \<le> tg_due_at_ms (ts ! j)))
    \<and> distinct (active_definitions (td_schedules db))"
proof -
  have "ledger_ok db" by (rule ledger_machine.run_inv [OF assms ledger_empty_ok])
  then show ?thesis
    by (auto simp: ledger_ok_def list_all_iff row_ok_def claims_ok_def in_window_def apart_def sorted_wrt_iff_nth_less Let_def)
qed

theorem claims_paced_witness:
  "run (ledger_step ledger_ext) ledger_empty [Armed armed_schedule False, ClaimedDue (Some claimed_trigger)] claimed_ledger
   \<and> map tg_ordinal (claims_of claimed_ledger (ledger_key 4)) = [1]
   \<and> tg_claimed_at_ms claimed_trigger < tg_due_at_ms claimed_trigger + sh_every_ms claimed_schedule"
proof -
  have r: "td_schedules claimed_ledger = [\<lparr>sr_id = ledger_key 4, sr_record = claimed_schedule, sr_reserved = 4094\<rparr>]"
    by (simp add: claimed_ledger_def)
  have t: "claimed_trigger \<in> set (claims_of claimed_ledger (ledger_key 4))"
    by (simp add: claims_of_def claimed_ledger_def)
  have n: "sh_claimed_runs claimed_schedule = 1" by (simp add: claimed_schedule_def)
  show ?thesis using claims_paced [OF sample_ledger_run] sample_ledger_run t by (auto simp: r n Let_def)
qed

end
