(* ===== verification/Occurrence_Store.thy ===== *)
theory Occurrence_Store
  imports Occurrence_Records Trigger_Ledger
begin

text \<open>
  The coordinator's occurrences (\<^verbatim>\<open>eef/automation_occurrences.rs\<close>) and their archives
  (\<^verbatim>\<open>eef/automation_occurrence_archives.rs\<close>), over the tables of jobs, definitions, approvals,
  schedules and triggers: reading with every check, reserving one run from the budget of an
  approval, archiving a resolved job, and the reports.

  The environment of a call holds what the job store and the planner answer: whether a job is a
  valid retained review, the fixed scope compiled from it, the bytes kept free for its progress,
  and the rows and bytes of the two tables that are not modelled.
\<close>

section \<open>Tables and environment\<close>

record occurrence_row =
  oc_id :: string
  oc_job :: string
  oc_record :: reservation

record archive_row =
  ac_id :: string
  ac_reservation :: string
  ac_job :: string
  ac_record :: occurrence_archive

record job_row =
  jr_id :: string
  jr_job :: job
  jr_reserved :: nat

record occurrence_db =
  ob_store :: automation_db
  ob_occurrences :: "occurrence_row list"
  ob_archives :: "archive_row list"
  ob_jobs :: "job_row list"

record occurrence_env =
  oe_store :: store_env
  oe_review :: "job \<Rightarrow> unit result"
  oe_scope :: "job \<Rightarrow> fixed_scope result"
  oe_reserve :: "job \<Rightarrow> nat"
  oe_other_rows :: nat
  oe_other_bytes :: nat

text \<open>
  What the checks of the trigger ledger read. The answers they never ask for (the job of a
  claim, the allowance of an approval) are refused.
\<close>

definition ledger_reads :: "'x ledger_externals_scheme \<Rightarrow> occurrence_env \<Rightarrow> occurrence_db \<Rightarrow> ledger_env" where
  "ledger_reads ext env db =
     (let st = ob_store db in
      \<lparr>le_policy = read_approval ext (oe_store env) st, le_definition = read_definition ext (oe_store env) st,
       le_policies = approval_records ext (oe_store env) st,
       le_history = rbind (records_and_definitions ext (oe_store env) st) (\<lambda>(as, ds). Inr (map (\<lambda>a. (au_id a, a)) as, ds)),
       le_reserved = (\<lambda>i. list_ex (\<lambda>o'. oc_id o' = i) (ob_occurrences db)),
       le_requested = (\<lambda>i. list_ex (\<lambda>j. opt_ex (jb_context (jr_job j)) (\<lambda>c. request_id c = i)) (ob_jobs db)),
       le_occurrence = (\<lambda>_. Inl (AutomationE JobMissing)), le_jobs = (\<lambda>_. [Inl (AutomationE JobMissing)]),
       le_definition_resolved = (\<lambda>_. Inl (AutomationE JobMissing)), le_allowance = (\<lambda>_. Inl (AutomationE JobMissing)),
       le_admission = (\<lambda>_ _. Inl (AutomationE JobMissing)), le_count = 0, le_used = None,
       le_max_count = 0, le_max_bytes = 0\<rparr>)"

definition approval_of :: "'x occurrence_externals_scheme \<Rightarrow> occurrence_env \<Rightarrow> occurrence_db \<Rightarrow> string \<Rightarrow> authorization result" where
  "approval_of ext env db i =
     rbind (read_approval ext (oe_store env) (ob_store db) i) (\<lambda>p. or_err p (AutomationE PolicyMissing))"

definition definition_of ::
  "'x occurrence_externals_scheme \<Rightarrow> occurrence_env \<Rightarrow> occurrence_db \<Rightarrow> string \<Rightarrow> automation_definition result" where
  "definition_of ext env db i = read_definition ext (oe_store env) (ob_store db) i"

definition job_authority :: "'x occurrence_externals_scheme \<Rightarrow> occurrence_env \<Rightarrow> occurrence_db \<Rightarrow> job \<Rightarrow> unit result" where
  "job_authority ext env db p = validate_delegation ext (ledger_reads ext env db) (ab_ledger (ob_store db)) (job_view p)"

section \<open>Checks of a reservation\<close>

definition matching_scope :: "occurrence_env \<Rightarrow> job \<Rightarrow> authorization \<Rightarrow> unit result" where
  "matching_scope env plan p =
     rbind (oe_scope env plan) (\<lambda>scope.
     let fresh = fs_owner_context scope; owner = fs_owner_context (au_scope p) in
     ensure (origin_node fresh = origin_node owner \<and> origin_area fresh = origin_area owner \<and> request_id fresh \<noteq> request_id owner)
       (AutomationE OccurrenceScope)
     (ensure (scope\<lparr>fs_owner_context := owner\<rparr> = au_scope p) (AutomationE OccurrenceScope) (Inr ())))"

definition lineage_ok ::
  "reservation \<Rightarrow> job \<Rightarrow> approval_record \<Rightarrow> authorization \<Rightarrow> string \<Rightarrow> grant_limits \<Rightarrow> nat \<times> nat \<Rightarrow> bool" where
  "lineage_ok r snapshot approval p from_job limits allowance \<longleftrightarrow>
     jb_plan_id snapshot \<noteq> from_job \<and> dg_definition_id (ro_delegation r) = pa_definition (au_creation p)
     \<and> dg_policy_sha256 (ro_delegation r) = au_authorization_sha256 p
     \<and> dg_generation (ro_delegation r) = au_generation p \<and> dg_runtime_id (ro_delegation r) = au_runtime_id p
     \<and> ro_ordinal r \<le> pa_max_runs (au_creation p) \<and> ao_issuer_id approval = au_issuer_id p \<and> ao_limits approval = limits
     \<and> ao_expires_at_ms approval = au_expires_at_ms p \<and> ao_delegation approval = Some (ro_delegation r)
     \<and> au_approved_at_ms p \<le> ro_reserved_at_ms r \<and> ro_reserved_at_ms r < au_expires_at_ms p
     \<and> (ro_reserved_execution_ms r, ro_reserved_result_bytes r) = allowance
     \<and> ro_reserved_execution_ms r \<le> au_expires_at_ms p - ro_reserved_at_ms r"

definition validate_occurrence ::
  "'x occurrence_externals_scheme \<Rightarrow> occurrence_env \<Rightarrow> occurrence_db \<Rightarrow> reservation \<Rightarrow> unit result" where
  "validate_occurrence ext env db r =
     rbind (reservation_validate ext r) (\<lambda>_.
     rbind (approval_of ext env db (dg_policy_id (ro_delegation r))) (\<lambda>p.
     rbind (definition_of ext env db (pa_definition (au_creation p))) (\<lambda>d.
     rbind (or_err (job_of_json ext (ro_approved_job r)) (AutomationE JobDamaged)) (\<lambda>snapshot.
     ensure (job_json ext snapshot = ro_approved_job r) (AutomationE OccurrenceDamaged)
     (rbind (oe_review env snapshot) (\<lambda>_.
      rbind (job_authority ext env db snapshot) (\<lambda>_.
      rbind (matching_scope env snapshot p) (\<lambda>_.
      rbind (or_err (jb_approval snapshot) (AutomationE OccurrenceDamaged)) (\<lambda>approval.
      rbind (or_err (policy_limits (au_creation p)) (AutomationE PolicyDamaged)) (\<lambda>limits.
      rbind (run_allowance ext (au_scope p) limits) (\<lambda>allowance.
      ensure (lineage_ok r snapshot approval p (ad_from_job (af_creation d)) limits allowance)
        (AutomationE OccurrenceDamaged) (Inr ()))))))))))))"

definition find_occurrence :: "occurrence_db \<Rightarrow> string \<Rightarrow> occurrence_row option" where
  "find_occurrence db i = find (\<lambda>o'. oc_id o' = i) (ob_occurrences db)"

definition occurrence_at ::
  "'x occurrence_externals_scheme \<Rightarrow> occurrence_env \<Rightarrow> occurrence_db \<Rightarrow> string \<Rightarrow> reservation option result" where
  "occurrence_at ext env db i =
     (case find_occurrence db i of
        None \<Rightarrow> Inr None
      | Some o' \<Rightarrow>
          rbind (validate_occurrence ext env db (oc_record o')) (\<lambda>_.
          ensure (ro_id (oc_record o') = i \<and> jindex (ro_approved_job (oc_record o')) ''plan_id'' = JString (oc_job o'))
            (AutomationE OccurrenceDamaged) (Inr (Some (oc_record o')))))"

definition get_occurrence ::
  "'x occurrence_externals_scheme \<Rightarrow> occurrence_env \<Rightarrow> occurrence_db \<Rightarrow> string \<Rightarrow> reservation result" where
  "get_occurrence ext env db i =
     rbind (occurrence_at ext env db i) (\<lambda>r. or_err r (AutomationE OccurrenceMissing))"

definition live_matches :: "'x occurrence_externals_scheme \<Rightarrow> occurrence_env \<Rightarrow> reservation \<Rightarrow> job \<Rightarrow> unit result" where
  "live_matches ext env r plan =
     rbind (or_err (job_of_json ext (ro_approved_job r)) (AutomationE JobDamaged)) (\<lambda>snapshot.
     ensure (jb_plan_id plan = jb_plan_id snapshot \<and> jb_revision snapshot \<le> jb_revision plan
         \<and> jb_context plan = jb_context snapshot
         \<and> map_option (approval_record_json ext) (jb_approval plan) = map_option (approval_record_json ext) (jb_approval snapshot))
       (AutomationE OccurrenceDamaged)
     (rbind (oe_scope env plan) (\<lambda>current.
      rbind (oe_scope env snapshot) (\<lambda>approved.
      ensure (current = approved \<and> jb_plan_sha256 plan \<noteq> None \<and> jb_plan_sha256 plan = jb_plan_sha256 snapshot)
        (AutomationE OccurrenceDamaged) (Inr ())))))"

definition validate_job :: "'x occurrence_externals_scheme \<Rightarrow> occurrence_env \<Rightarrow> occurrence_db \<Rightarrow> job \<Rightarrow> unit result" where
  "validate_job ext env db plan =
     rbind (job_authority ext env db plan) (\<lambda>_.
     ensure (\<not> list_ex (\<lambda>a. ac_job a = jb_plan_id plan) (ob_archives db)) (AutomationE ArchiveDamaged)
     (case find (\<lambda>o'. oc_job o' = jb_plan_id plan) (ob_occurrences db) of
        Some o' \<Rightarrow> rbind (get_occurrence ext env db (oc_id o')) (\<lambda>r. live_matches ext env r plan)
      | None \<Rightarrow> ensure (job_delegation plan = None) (AutomationE OccurrenceMissing) (Inr ())))"

section \<open>Jobs\<close>

definition find_job :: "occurrence_db \<Rightarrow> string \<Rightarrow> job_row option" where
  "find_job db i = find (\<lambda>j. jr_id j = i) (ob_jobs db)"

text \<open>\<^verbatim>\<open>read\<close> of \<^verbatim>\<open>eef/jobs.rs\<close>.\<close>

definition read_job :: "'x occurrence_externals_scheme \<Rightarrow> occurrence_env \<Rightarrow> occurrence_db \<Rightarrow> string \<Rightarrow> job result" where
  "read_job ext env db i =
     rbind (or_err (find_job db i) (AutomationE JobMissing)) (\<lambda>j.
     rbind (oe_review env (jr_job j)) (\<lambda>_.
     rbind (validate_job ext env db (jr_job j)) (\<lambda>_. Inr (jr_job j))))"

definition job_cost :: "'x occurrence_externals_scheme \<Rightarrow> job_row \<Rightarrow> nat" where
  "job_cost ext j = length (job_text ext (jr_job j)) + jr_reserved j"

definition count_rows :: "occurrence_env \<Rightarrow> occurrence_db \<Rightarrow> nat" where
  "count_rows env db =
     length (ob_jobs db) + length (ab_definitions (ob_store db)) + length (ab_approvals (ob_store db))
     + length (ob_occurrences db) + length (ob_archives db) + length (td_schedules (ab_ledger (ob_store db)))
     + length (td_triggers (ab_ledger (ob_store db))) + oe_other_rows env"

definition automation_bytes :: "'x occurrence_externals_scheme \<Rightarrow> occurrence_env \<Rightarrow> occurrence_db \<Rightarrow> nat" where
  "automation_bytes ext env db =
     sum_list (map (definition_cost ext \<circ> snd) (ab_definitions (ob_store db)))
     + sum_list (map (approval_cost ext) (ab_approvals (ob_store db)))
     + sum_list (map (\<lambda>o'. length (reservation_text ext (oc_record o'))) (ob_occurrences db))
     + sum_list (map (\<lambda>a. length (archive_text ext (ac_record a))) (ob_archives db))
     + sum_list (map (\<lambda>s. length (schedule_text ext (sr_record s)) + sr_reserved s) (td_schedules (ab_ledger (ob_store db))))
     + sum_list (map (\<lambda>t. length (trigger_text ext (tr_record t))) (td_triggers (ab_ledger (ob_store db))))
     + oe_other_bytes env"

text \<open>\<^verbatim>\<open>JobStore::check_size\<close>: a checkpoint that does not grow a job always passes.\<close>

definition check_size ::
  "'x occurrence_externals_scheme \<Rightarrow> occurrence_env \<Rightarrow> occurrence_db \<Rightarrow> string \<Rightarrow> nat \<Rightarrow> nat \<Rightarrow> unit result" where
  "check_size ext env db i bytes reserved =
     rbind (or_err (checked_add bytes reserved) (AutomationE JobQuota)) (\<lambda>cost.
     if opt_ex (map_option (job_cost ext) (find_job db i)) (\<lambda>old. cost \<le> old) then Inr ()
     else
       ensure (cost \<le> 8 * 1024 * 1024) (AutomationE JobQuota)
       (rbind (or_err (bytes_total [sum_list (map (job_cost ext) (filter (\<lambda>j. jr_id j \<noteq> i) (ob_jobs db))),
                 automation_bytes ext env db]) (AutomationE JobQuota)) (\<lambda>other.
        ensure (cost \<le> saturating_sub (av_max_bytes (oe_store env)) other) (AutomationE JobQuota) (Inr ()))))"

section \<open>Archives\<close>

definition validate_archive ::
  "'x occurrence_externals_scheme \<Rightarrow> occurrence_env \<Rightarrow> occurrence_db \<Rightarrow> occurrence_archive \<Rightarrow> job result" where
  "validate_archive ext env db a =
     rbind (archive_validate ext a) (\<lambda>_.
     rbind (get_occurrence ext env db (xc_reservation (xa_command a))) (\<lambda>r.
     rbind (or_err (job_of_json ext (xa_terminal_job a)) (AutomationE JobDamaged)) (\<lambda>plan.
     ensure (ro_reservation_sha256 r = xc_reservation_sha256 (xa_command a) \<and> job_json ext plan = xa_terminal_job a
         \<and> ro_reserved_at_ms r \<le> xa_archived_at_ms a \<and> jb_updated_at_ms plan \<le> xa_archived_at_ms a \<and> job_resolved plan)
       (AutomationE ArchiveDamaged)
     (rbind (oe_review env plan) (\<lambda>_.
      rbind (live_matches ext env r plan) (\<lambda>_.
      ensure (find_job db (xc_job (xa_command a)) = None) (AutomationE ArchiveDamaged) (Inr plan)))))))"

definition read_archive ::
  "'x occurrence_externals_scheme \<Rightarrow> occurrence_env \<Rightarrow> occurrence_db \<Rightarrow> string \<Rightarrow> occurrence_archive option result" where
  "read_archive ext env db i =
     (case find (\<lambda>a. ac_id a = i) (ob_archives db) of
        None \<Rightarrow> Inr None
      | Some a \<Rightarrow>
          rbind (validate_archive ext env db (ac_record a)) (\<lambda>_.
          ensure (xa_id (ac_record a) = i \<and> is_archive (xa_command (ac_record a))
              \<and> xc_reservation (xa_command (ac_record a)) = ac_reservation a \<and> xc_job (xa_command (ac_record a)) = ac_job a)
            (AutomationE ArchiveDamaged) (Inr (Some (ac_record a)))))"

definition get_archive ::
  "'x occurrence_externals_scheme \<Rightarrow> occurrence_env \<Rightarrow> occurrence_db \<Rightarrow> string \<Rightarrow> occurrence_archive result" where
  "get_archive ext env db i = rbind (read_archive ext env db i) (\<lambda>a. or_err a (AutomationE ArchiveMissing))"

definition archives :: "'x occurrence_externals_scheme \<Rightarrow> occurrence_env \<Rightarrow> occurrence_db \<Rightarrow> occurrence_archive list result" where
  "archives ext env db = map_result (get_archive ext env db) (sort (map ac_id (ob_archives db)))"

text \<open>The job of a reservation: the archived one, or the live one that still matches it.\<close>

definition retained_plan ::
  "'x occurrence_externals_scheme \<Rightarrow> occurrence_env \<Rightarrow> occurrence_db \<Rightarrow> reservation \<Rightarrow> job result" where
  "retained_plan ext env db r =
     (case find (\<lambda>a. ac_reservation a = ro_id r) (ob_archives db) of
        Some row \<Rightarrow>
          rbind (get_archive ext env db (ac_id row)) (\<lambda>a.
          or_err (job_of_json ext (xa_terminal_job a)) (AutomationE JobDamaged))
      | None \<Rightarrow>
          rbind (or_err (Option.bind (as_str (jindex (ro_approved_job r) ''plan_id'')) (find_job db)) (AutomationE JobMissing)) (\<lambda>j.
          rbind (oe_review env (jr_job j)) (\<lambda>_.
          rbind (live_matches ext env r (jr_job j)) (\<lambda>_. Inr (jr_job j)))))"

definition refuse_request ::
  "'x occurrence_externals_scheme \<Rightarrow> occurrence_env \<Rightarrow> occurrence_db \<Rightarrow> request_context \<Rightarrow> unit result" where
  "refuse_request ext env db origin =
     rbind (archives ext env db) (check_all (\<lambda>a.
       rbind (or_err (job_of_json ext (xa_terminal_job a)) (AutomationE JobDamaged)) (\<lambda>plan.
       ensure (\<not> opt_ex (jb_context plan) (\<lambda>c. origin_node c = origin_node origin \<and> request_id c = request_id origin))
         (AutomationE OccurrenceOverlap) (Inr ()))))"

section \<open>The whole history\<close>

text \<open>The reservations of one approval by ordinal: counted without a gap and within its budget.\<close>

definition reservations_of :: "reservation list \<Rightarrow> string \<Rightarrow> reservation list" where
  "reservations_of rs policy = filter (\<lambda>r. dg_policy_id (ro_delegation r) = policy) rs"

definition check_budget ::
  "'x occurrence_externals_scheme \<Rightarrow> occurrence_env \<Rightarrow> occurrence_db \<Rightarrow> reservation list \<Rightarrow> string \<Rightarrow> unit result" where
  "check_budget ext env db rs policy =
     (let own = sort_key ro_ordinal (reservations_of rs policy) in
      rbind (approval_of ext env db policy) (\<lambda>p.
      ensure (map ro_ordinal own = [1..<Suc (length own)]) (AutomationE OccurrenceBudget)
      (rbind (or_err (bytes_total (map ro_reserved_execution_ms own)) (AutomationE OccurrenceBudget)) (\<lambda>duration.
       rbind (or_err (bytes_total (map ro_reserved_result_bytes own)) (AutomationE OccurrenceBudget)) (\<lambda>results.
       ensure (length own \<le> pa_max_runs (au_creation p) \<and> duration \<le> pa_max_reserved_execution_ms (au_creation p)
           \<and> results \<le> pa_max_reserved_result_bytes (au_creation p))
         (AutomationE OccurrenceBudget) (Inr ()))))))"

definition checked_records ::
  "'x occurrence_externals_scheme \<Rightarrow> occurrence_env \<Rightarrow> occurrence_db \<Rightarrow> (reservation \<times> bool) list result" where
  "checked_records ext env db =
     rbind (validated_history ext (ledger_reads ext env db) (ab_ledger (ob_store db))) (\<lambda>_.
     rbind (archives ext env db) (\<lambda>_.
     rbind (map_result (\<lambda>i. rbind (get_occurrence ext env db i) (\<lambda>r.
              rbind (retained_plan ext env db r) (\<lambda>plan. Inr (r, job_resolved plan))))
              (sort (map oc_id (ob_occurrences db)))) (\<lambda>found.
     let rs = map fst found in
     rbind (check_all (check_budget ext env db rs) (sort (remdups (map (\<lambda>r. dg_policy_id (ro_delegation r)) rs)))) (\<lambda>_.
     Inr found))))"

definition occurrence_records ::
  "'x occurrence_externals_scheme \<Rightarrow> occurrence_env \<Rightarrow> occurrence_db \<Rightarrow> reservation list result" where
  "occurrence_records ext env db = rbind (checked_records ext env db) (\<lambda>found. Inr (map fst found))"

definition definition_resolved ::
  "'x occurrence_externals_scheme \<Rightarrow> occurrence_env \<Rightarrow> occurrence_db \<Rightarrow> string \<Rightarrow> bool result" where
  "definition_resolved ext env db d =
     rbind (checked_records ext env db) (\<lambda>found.
     Inr (list_all snd (filter (\<lambda>c. dg_definition_id (ro_delegation (fst c)) = d) found)))"

text \<open>Whether the budget of an approval still holds one more run.\<close>

definition budget_left :: "reservation list \<Rightarrow> authorization \<Rightarrow> nat \<times> nat \<Rightarrow> bool result" where
  "budget_left own p allowance =
     rbind (or_err (bytes_total (map ro_reserved_execution_ms own)) (AutomationE OccurrenceBudget)) (\<lambda>used_ms.
     rbind (or_err (bytes_total (map ro_reserved_result_bytes own)) (AutomationE OccurrenceBudget)) (\<lambda>used_bytes.
     Inr (length own < pa_max_runs (au_creation p)
       \<and> fst allowance \<le> saturating_sub (pa_max_reserved_execution_ms (au_creation p)) used_ms
       \<and> snd allowance \<le> saturating_sub (pa_max_reserved_result_bytes (au_creation p)) used_bytes)))"

definition allowance_from_records ::
  "'x occurrence_externals_scheme \<Rightarrow> reservation list \<Rightarrow> authorization \<Rightarrow> bool result" where
  "allowance_from_records ext retained p =
     rbind (or_err (policy_limits (au_creation p)) (AutomationE PolicyDamaged)) (\<lambda>limits.
     rbind (run_allowance ext (au_scope p) limits) (\<lambda>allowance.
     budget_left (reservations_of retained (au_id p)) p allowance))"

definition allowance_available ::
  "'x occurrence_externals_scheme \<Rightarrow> occurrence_env \<Rightarrow> occurrence_db \<Rightarrow> authorization \<Rightarrow> bool result" where
  "allowance_available ext env db p = rbind (occurrence_records ext env db) (\<lambda>rs. allowance_from_records ext rs p)"

definition trigger_admission_state ::
  "'x occurrence_externals_scheme \<Rightarrow> occurrence_env \<Rightarrow> occurrence_db \<Rightarrow> string \<Rightarrow> authorization \<Rightarrow> (bool \<times> bool) result" where
  "trigger_admission_state ext env db d p =
     rbind (checked_records ext env db) (\<lambda>found.
     if list_all snd (filter (\<lambda>c. dg_definition_id (ro_delegation (fst c)) = d) found)
     then rbind (allowance_from_records ext (map fst found) p) (\<lambda>budget. Inr (True, budget))
     else Inr (False, False))"

definition generation_of :: "'x occurrence_externals_scheme \<Rightarrow> occurrence_env \<Rightarrow> occurrence_db \<Rightarrow> string \<Rightarrow> nat result" where
  "generation_of ext env db d =
     rbind (approval_records ext (oe_store env) (ob_store db)) (\<lambda>as. Inr (latest_generation as d))"

text \<open>\<^verbatim>\<open>fence\<close>: whether a delegated job may still be issued.\<close>

definition occurrence_fence ::
  "'x occurrence_externals_scheme \<Rightarrow> occurrence_env \<Rightarrow> occurrence_db \<Rightarrow> job \<Rightarrow> string \<Rightarrow> string \<Rightarrow> nat \<Rightarrow> unit result" where
  "occurrence_fence ext env db plan runtime issuer now =
     (case job_delegation plan of
        None \<Rightarrow> Inr ()
      | Some dg \<Rightarrow>
          rbind (occurrence_records ext env db) (\<lambda>retained.
          rbind (or_err (find (\<lambda>r. ro_id r = dg_reservation_id dg) retained) (AutomationE OccurrenceMissing)) (\<lambda>r.
          rbind (live_matches ext env r plan) (\<lambda>_.
          rbind (approval_of ext env db (dg_policy_id dg)) (\<lambda>p.
          rbind (definition_of ext env db (dg_definition_id dg)) (\<lambda>d.
          rbind (generation_of ext env db (dg_definition_id dg)) (\<lambda>generation.
          ensure (current_at ext p runtime issuer generation d now) (AutomationE OccurrencePolicy)
            (trigger_fence ext (ledger_reads ext env db) now (job_view plan) runtime (ab_ledger (ob_store db))))))))))"

end
