(* ===== verification/Occurrence_Commands.thy ===== *)
theory Occurrence_Commands
  imports Occurrence_Store
begin

text \<open>
  The owner's commands on occurrences: \<^verbatim>\<open>occurrence_checkpoint_clock\<close> of
  \<^verbatim>\<open>eef/automation_occurrences.rs\<close> and \<^verbatim>\<open>checkpoint\<close> of \<^verbatim>\<open>eef/automation_occurrence_archives.rs\<close>. Both
  write in one transaction; the clock is read at the start, when the job is stamped, and again
  before the commit.
\<close>

section \<open>Reserving a run\<close>

definition reserve_ready ::
  "'x occurrence_externals_scheme \<Rightarrow> occurrence_env \<Rightarrow> occurrence_command \<Rightarrow> reservation list \<Rightarrow> automation_definition
   \<Rightarrow> authorization \<Rightarrow> job \<Rightarrow> occurrence_db \<Rightarrow> unit result" where
  "reserve_ready ext env command retained source p plan db =
     ensure (jb_revision plan = rc_revision command \<and> jb_status plan = JobAwaitingApproval \<and> jb_approval plan = None
         \<and> jb_execution plan = None \<and> jb_plan_sha256 plan = Some (rc_plan_sha256 command)) (AutomationE OccurrenceJob)
     (rbind (matching_scope env plan p) (\<lambda>_.
      ensure (rc_job command \<noteq> ad_from_job (af_creation source)
          \<and> \<not> list_ex (\<lambda>r. jindex (ro_approved_job r) ''plan_id'' = JString (rc_job command)) retained) (AutomationE OccurrenceJob)
      (check_all (\<lambda>r. rbind (retained_plan ext env db r) (\<lambda>previous.
         ensure (job_resolved previous) (AutomationE OccurrenceOverlap) (Inr ())))
       (filter (\<lambda>r. dg_definition_id (ro_delegation r) = pa_definition (au_creation p)) retained))))"

definition new_approval :: "occurrence_command \<Rightarrow> authorization \<Rightarrow> grant_limits \<Rightarrow> string \<Rightarrow> nat \<Rightarrow> occurrence_delegation \<Rightarrow> approval_record" where
  "new_approval command p limits issuer now d =
     \<lparr>ao_schema_version = 1, ao_operation_id = rc_operation_id command, ao_source_revision = rc_revision command,
      ao_plan_sha256 = rc_plan_sha256 command, ao_issuer_id = issuer, ao_approved_at_ms = now,
      ao_valid_for_ms = au_expires_at_ms p - now, ao_expires_at_ms = au_expires_at_ms p, ao_limits = limits,
      ao_approval_sha256 = [], ao_delegation = Some d, ao_workload = None\<rparr>"

definition new_reservation ::
  "'x occurrence_externals_scheme \<Rightarrow> occurrence_command \<Rightarrow> occurrence_delegation \<Rightarrow> nat \<Rightarrow> nat \<Rightarrow> nat \<times> nat \<Rightarrow> job \<Rightarrow> reservation" where
  "new_reservation ext command d ordinal now allowance plan =
     (let r = \<lparr>ro_schema_version = 1, ro_id = rc_operation_id command, ro_command = command, ro_delegation = d,
            ro_ordinal = ordinal, ro_reserved_at_ms = now, ro_reserved_execution_ms = fst allowance,
            ro_reserved_result_bytes = snd allowance, ro_approved_job = job_json ext plan,
            ro_approved_job_sha256 = definition_digest ext (job_json ext plan), ro_reservation_sha256 = []\<rparr> in
      r\<lparr>ro_reservation_sha256 := reservation_digest ext r\<rparr>)"

definition put_job :: "job_row \<Rightarrow> occurrence_db \<Rightarrow> occurrence_db" where
  "put_job j db = db\<lparr>ob_jobs := map (\<lambda>k. if jr_id k = jr_id j then j else k) (ob_jobs db)\<rparr>"

text \<open>The transaction: the approved job, the row of the reservation and every check over the result.\<close>

definition reserve_commit ::
  "'x occurrence_externals_scheme \<Rightarrow> occurrence_env \<Rightarrow> string \<Rightarrow> reservation \<Rightarrow> job \<Rightarrow> occurrence_db \<Rightarrow> occurrence_db result" where
  "reserve_commit ext env job r plan db =
     rbind (check_size ext env db job (length (job_text ext plan)) (oe_reserve env plan)) (\<lambda>_.
     let db1 = put_job \<lparr>jr_id = job, jr_job = plan, jr_reserved = oe_reserve env plan\<rparr> db in
     ensure (count_rows env db1 < av_max_count (oe_store env)) (AutomationE OccurrenceQuota)
     (rbind (or_err (bytes_total [sum_list (map (job_cost ext) (ob_jobs db1)), automation_bytes ext env db1])
               (AutomationE OccurrenceQuota)) (\<lambda>used.
      ensure (length (reservation_text ext r) \<le> saturating_sub (av_max_bytes (oe_store env)) used) (AutomationE OccurrenceQuota)
      (ensure (\<not> list_ex (\<lambda>o'. oc_id o' = ro_id r \<or> oc_job o' = job) (ob_occurrences db1)) (JournalE SqlConstraint)
      (let db2 = db1\<lparr>ob_occurrences := ob_occurrences db1 @ [\<lparr>oc_id = ro_id r, oc_job = job, oc_record = r\<rparr>]\<rparr> in
       rbind (validate_job ext env db2 plan) (\<lambda>_.
       rbind (occurrence_records ext env db2) (\<lambda>_. Inr db2)))))))"

definition occurrence_reserve ::
  "'x occurrence_externals_scheme \<Rightarrow> occurrence_env \<Rightarrow> nat \<Rightarrow> nat \<Rightarrow> nat \<Rightarrow> occurrence_command \<Rightarrow> string \<Rightarrow> string option
   \<Rightarrow> reservation list \<Rightarrow> occurrence_db \<Rightarrow> ((reservation \<times> bool) \<times> occurrence_db) result" where
  "occurrence_reserve ext env now stamped commit command runtime issuer retained db =
     (case find (\<lambda>r. ro_id r = rc_operation_id command) retained of
        Some old \<Rightarrow> ensure (ro_command old = command) (AutomationE OccurrenceReceipt) (Inr ((old, True), db))
      | None \<Rightarrow>
          rbind (or_err issuer (AutomationE OccurrencePolicy)) (\<lambda>issuer.
          rbind (approval_of ext env db (rc_policy command)) (\<lambda>p.
          rbind (definition_of ext env db (pa_definition (au_creation p))) (\<lambda>source.
          rbind (generation_of ext env db (pa_definition (au_creation p))) (\<lambda>generation.
          ensure (au_authorization_sha256 p = rc_policy_sha256 command \<and> current_at ext p runtime issuer generation source now)
            (AutomationE OccurrencePolicy)
          (rbind (read_job ext env db (rc_job command)) (\<lambda>plan.
          rbind (reserve_ready ext env command retained source p plan db) (\<lambda>_.
          let own = reservations_of retained (rc_policy command) in
          rbind (or_err (policy_limits (au_creation p)) (AutomationE PolicyDamaged)) (\<lambda>limits.
          rbind (run_allowance ext (au_scope p) limits) (\<lambda>allowance.
          rbind (budget_left own p allowance) (\<lambda>left.
          ensure (left \<and> fst allowance \<le> au_expires_at_ms p - now) (AutomationE OccurrenceBudget)
          (rbind (reservation_link ext (ledger_reads ext env db) now (job_view plan) p (rc_operation_id command)
                    (ab_ledger (ob_store db))) (\<lambda>link.
          let d = \<lparr>dg_policy_id = rc_policy command, dg_reservation_id = rc_operation_id command, dg_runtime_id = runtime,
                dg_trigger = link, dg_schema_version = 1, dg_policy_sha256 = rc_policy_sha256 command,
                dg_definition_id = pa_definition (au_creation p), dg_generation = generation\<rparr>;
              approval = new_approval command p limits issuer now d;
              approval = approval\<lparr>ao_approval_sha256 := approval_record_digest ext approval\<rparr> in
          rbind (stamp stamped ''Occurrence authority reserved atomically; no timer, grant or dispatch''
                   (plan\<lparr>jb_approval := Some approval, jb_status := JobApproved\<rparr>)) (\<lambda>plan.
          rbind (oe_review env plan) (\<lambda>_.
          ensure (length own + 1 \<le> 65535) IntConversion
          (let r = new_reservation ext command d (length own + 1) now allowance plan in
          rbind (validate_occurrence ext env db r) (\<lambda>_.
          rbind (reserve_commit ext env (rc_job command) r plan db) (\<lambda>db'.
          ensure (now \<le> commit \<and> current_at ext p runtime issuer generation source commit
              \<and> fst allowance \<le> saturating_sub (au_expires_at_ms p) commit)
            (AutomationE OccurrenceClock) (Inr ((r, False), db'))))))))))))))))))))"

section \<open>Archiving a resolved run\<close>

definition new_archive :: "'x occurrence_externals_scheme \<Rightarrow> occurrence_command \<Rightarrow> string \<Rightarrow> nat \<Rightarrow> job \<Rightarrow> occurrence_archive" where
  "new_archive ext command runtime now plan =
     (let a = \<lparr>xa_schema_version = 1, xa_id = xc_operation_id command, xa_command = command, xa_runtime_id = runtime,
            xa_archived_at_ms = now, xa_terminal_job = job_json ext plan,
            xa_terminal_job_sha256 = definition_digest ext (job_json ext plan), xa_archive_sha256 = []\<rparr> in
      a\<lparr>xa_archive_sha256 := archive_digest ext a\<rparr>)"

definition archive_commit ::
  "'x occurrence_externals_scheme \<Rightarrow> occurrence_env \<Rightarrow> occurrence_archive \<Rightarrow> string \<Rightarrow> occurrence_db \<Rightarrow> occurrence_db result" where
  "archive_commit ext env a job db =
     rbind (or_err (find_job db job) (AutomationE JobMissing)) (\<lambda>old.
     ensure (\<not> list_ex (\<lambda>x. ac_id x = xa_id a \<or> ac_reservation x = xc_reservation (xa_command a) \<or> ac_job x = job)
         (ob_archives db)) (JournalE SqlConstraint)
     (let db' = db\<lparr>ob_archives := ob_archives db @ [\<lparr>ac_id = xa_id a, ac_reservation = xc_reservation (xa_command a),
              ac_job = job, ac_record = a\<rparr>],
            ob_jobs := filter (\<lambda>j. jr_id j \<noteq> job) (ob_jobs db)\<rparr> in
      rbind (if job_cost ext old < length (archive_text ext a)
             then rbind (or_err (bytes_total [sum_list (map (job_cost ext) (ob_jobs db')), automation_bytes ext env db'])
                           (AutomationE OccurrenceQuota)) (\<lambda>used.
                  ensure (used \<le> av_max_bytes (oe_store env)) (AutomationE OccurrenceQuota) (Inr ()))
             else Inr ()) (\<lambda>_.
      rbind (validate_archive ext env db' a) (\<lambda>_.
      rbind (occurrence_records ext env db') (\<lambda>_. Inr db')))))"

definition archive_run ::
  "'x occurrence_externals_scheme \<Rightarrow> occurrence_env \<Rightarrow> nat \<Rightarrow> nat \<Rightarrow> occurrence_command \<Rightarrow> string \<Rightarrow> occurrence_db
   \<Rightarrow> ((occurrence_archive \<times> bool) \<times> occurrence_db) result" where
  "archive_run ext env now commit command runtime db =
     rbind (read_archive ext env db (xc_operation_id command)) (\<lambda>found.
     (case found of
        Some a \<Rightarrow> ensure (xa_command a = command) (AutomationE ArchiveReceipt) (Inr ((a, True), db))
      | None \<Rightarrow>
          rbind (occurrence_at ext env db (xc_operation_id command)) (\<lambda>taken.
          rbind (if taken = None then read_approval ext (oe_store env) (ob_store db) (xc_operation_id command) else Inr None) (\<lambda>approved.
          ensure (taken = None \<and> approved = None) (AutomationE ArchiveReceipt)
          (rbind (get_occurrence ext env db (xc_reservation command)) (\<lambda>r.
          rbind (read_job ext env db (xc_job command)) (\<lambda>plan.
          ensure (ro_reservation_sha256 r = xc_reservation_sha256 command
              \<and> jindex (ro_approved_job r) ''plan_id'' = JString (xc_job command)
              \<and> jb_revision plan = xc_revision command \<and> job_resolved plan) (AutomationE ArchiveUnresolved)
          (let a = new_archive ext command runtime now plan in
          rbind (archive_validate ext a) (\<lambda>_.
          rbind (archive_commit ext env a (xc_job command) db) (\<lambda>db'.
          ensure (now \<le> commit) (AutomationE OccurrenceClock) (Inr ((a, False), db'))))))))))))"

section \<open>All commands\<close>

definition occurrence_checkpoint ::
  "'x occurrence_externals_scheme \<Rightarrow> occurrence_env \<Rightarrow> nat \<Rightarrow> nat \<Rightarrow> nat \<Rightarrow> occurrence_command \<Rightarrow> string \<Rightarrow> string option
   \<Rightarrow> occurrence_db \<Rightarrow> (occurrence_report \<times> occurrence_db) result" where
  "occurrence_checkpoint ext env now stamped commit command runtime issuer db =
     rbind (occurrence_command_validate ext command) (\<lambda>_.
     rbind (uuid ext runtime) (\<lambda>_.
     rbind (occurrence_records ext env db) (\<lambda>retained.
     (case command of
        OccurrenceArchive _ _ _ _ _ \<Rightarrow>
          rbind (archive_run ext env now commit command runtime db) (\<lambda>((a, reused), db').
          Inr ((occurrence_report_of runtime command None [] None reused)\<lparr>or_archive := Some a\<rparr>, db'))
      | OccurrenceArchiveShow i \<Rightarrow>
          rbind (get_archive ext env db i) (\<lambda>a.
          Inr ((occurrence_report_of runtime command None [] None False)\<lparr>or_archive := Some a\<rparr>, db))
      | OccurrenceShow i \<Rightarrow>
          rbind (get_occurrence ext env db i) (\<lambda>r.
          Inr (occurrence_report_of runtime command (Some r) [] None False, db))
      | OccurrenceList policy limit after \<Rightarrow>
          (let found = page limit sm_id (map occurrence_summary_of (filter (\<lambda>r.
                 \<not> opt_ex policy (\<lambda>p. p \<noteq> dg_policy_id (ro_delegation r)) \<and> \<not> opt_ex after (\<lambda>i. ro_id r \<le> i)) retained)) [] None in
           Inr (occurrence_report_of runtime command None (fst found) (snd found) False, db))
      | OccurrenceReserve _ _ _ _ _ _ \<Rightarrow>
          rbind (occurrence_reserve ext env now stamped commit command runtime issuer retained db) (\<lambda>((r, reused), db').
          Inr (occurrence_report_of runtime command (Some r) [] None reused, db'))))))"

text \<open>\<^verbatim>\<open>occurrence_source\<close>: the retained reservation of a receipt, or the job it would reserve.\<close>

definition occurrence_source ::
  "'x occurrence_externals_scheme \<Rightarrow> occurrence_env \<Rightarrow> occurrence_db \<Rightarrow> occurrence_command
   \<Rightarrow> (reservation option \<times> job option) result" where
  "occurrence_source ext env db command =
     rbind (occurrence_command_validate ext command) (\<lambda>_.
     ensure (is_reserve command) (AutomationE OccurrenceInvalid)
     (rbind (occurrence_at ext env db (rc_operation_id command)) (\<lambda>found.
     (case found of
        Some r \<Rightarrow> ensure (ro_command r = command) (AutomationE OccurrenceReceipt) (Inr (Some r, None))
      | None \<Rightarrow> rbind (read_job ext env db (rc_job command)) (\<lambda>plan. Inr (None, Some plan))))))"

definition automation_occurrence ::
  "'x occurrence_externals_scheme \<Rightarrow> occurrence_env \<Rightarrow> occurrence_db \<Rightarrow> string \<Rightarrow> reservation option result" where
  "automation_occurrence ext env db i = rbind (uuid ext i) (\<lambda>_. occurrence_at ext env db i)"

end
