(* ===== verification/Automation_Machine.thy ===== *)
theory Automation_Machine
  imports Automation_Store Trigger_History
begin

text \<open>
  The automation tables of the coordinator as one machine: the commands on definitions, the
  commands on approvals, and the calls of the trigger ledger, which read both. What a retired
  approval can no longer start.
\<close>

section \<open>Steps\<close>

datatype store_event = DefinitionRun definition_report | PolicyRun policy_report | LedgerRun ledger_event

inductive store_step :: "'x ledger_externals_scheme \<Rightarrow> automation_db \<Rightarrow> store_event \<Rightarrow> automation_db \<Rightarrow> bool" for ext where
  definition_runs: "automation_run ext env now origin command db = Inr (r, db') \<Longrightarrow> store_step ext db (DefinitionRun r) db'"
| policy_runs: "policy_checkpoint ext env now runtime candidate command db = Inr (r, db') \<Longrightarrow> store_step ext db (PolicyRun r) db'"
| ledger_runs: "reads_store ext env db le \<Longrightarrow> ledger_call ext le (ab_ledger db) e l'
    \<Longrightarrow> store_step ext db (LedgerRun e) (db\<lparr>ab_ledger := l'\<rparr>)"

inductive_cases ledger_runsE: "store_step ext db (LedgerRun e) db'"

definition store_empty :: automation_db where
  "store_empty = \<lparr>ab_definitions = [], ab_approvals = [], ab_ledger = ledger_empty\<rparr>"

section \<open>Retired approvals\<close>

text \<open>Revoked, superseded by a newer generation for the same definition, or of a removed definition.\<close>

definition superseded :: "automation_db \<Rightarrow> authorization \<Rightarrow> bool" where
  "superseded db a \<longleftrightarrow> list_ex (\<lambda>q. pa_definition (au_creation (ap_record q)) = pa_definition (au_creation a)
     \<and> au_generation a < au_generation (ap_record q)) (ab_approvals db)"

definition definition_removed :: "automation_db \<Rightarrow> string \<Rightarrow> bool" where
  "definition_removed db i \<longleftrightarrow> opt_ex (map_of (ab_definitions db) i) (\<lambda>d. af_state d = ''removed'')"

definition retired :: "string \<Rightarrow> automation_db \<Rightarrow> bool" where
  "retired i db \<longleftrightarrow> list_ex (\<lambda>r. ap_id r = i \<and> (au_revocation (ap_record r) \<noteq> None \<or> superseded db (ap_record r)
     \<or> definition_removed db (pa_definition (au_creation (ap_record r))))) (ab_approvals db)"

text \<open>The events that start work for an approval: a new schedule, a claim, a first launch.\<close>

definition policy_of :: "trigger_db \<Rightarrow> string \<Rightarrow> string option" where
  "policy_of l i = map_option (\<lambda>r. ar_policy (sh_creation (sr_record r))) (find_row l i)"

definition trigger_policy :: "trigger_db \<Rightarrow> string \<Rightarrow> string option" where
  "trigger_policy l k = Option.bind (find (\<lambda>r. tr_id r = k) (td_triggers l)) (\<lambda>r. policy_of l (tg_schedule_id (tr_record r)))"

fun starts :: "string \<Rightarrow> trigger_db \<Rightarrow> ledger_event \<Rightarrow> bool" where
  "starts i l (Armed s again) \<longleftrightarrow> \<not> again \<and> ar_policy (sh_creation s) = i"
| "starts i l (ClaimedDue (Some t)) \<longleftrightarrow> policy_of l (tg_schedule_id t) = Some i"
| "starts i l (LaunchBegun k first) \<longleftrightarrow> first \<and> trigger_policy l k = Some i"
| "starts i l _ \<longleftrightarrow> False"

section \<open>The stores keep what they recorded\<close>

definition store_ok :: "automation_db \<Rightarrow> bool" where
  "store_ok db \<longleftrightarrow> distinct (map ap_id (ab_approvals db)) \<and> list_all (\<lambda>r. au_id (ap_record r) = ap_id r) (ab_approvals db)
     \<and> list_all (\<lambda>q. af_id (snd q) = fst q) (ab_definitions db) \<and> ledger_ok (ab_ledger db)"

definition same_approval :: "approval_row \<Rightarrow> approval_row \<Rightarrow> bool" where
  "same_approval r q \<longleftrightarrow> ap_id r = ap_id q \<and> au_creation (ap_record r) = au_creation (ap_record q)
     \<and> au_generation (ap_record r) = au_generation (ap_record q)
     \<and> (au_revocation (ap_record r) \<noteq> None \<longrightarrow> au_revocation (ap_record q) \<noteq> None)"

definition store_le :: "automation_db \<Rightarrow> automation_db \<Rightarrow> bool" where
  "store_le db db' \<longleftrightarrow> (\<forall>r \<in> set (ab_approvals db). \<exists>q \<in> set (ab_approvals db'). same_approval r q)
     \<and> (\<forall>i. definition_removed db i \<longrightarrow> definition_removed db' i)"

lemma store_le_refl [simp]: "store_le db db"
  by (auto simp: store_le_def same_approval_def)

lemma store_le_trans: "store_le a b \<Longrightarrow> store_le b c \<Longrightarrow> store_le a c"
  unfolding store_le_def same_approval_def by (metis (no_types, lifting))

lemma retired_mono:
  assumes "retired i db" and le: "store_le db db'"
  shows "retired i db'"
proof -
  obtain r where r: "r \<in> set (ab_approvals db)" "ap_id r = i" and cause: "au_revocation (ap_record r) \<noteq> None \<or> superseded db (ap_record r)
      \<or> definition_removed db (pa_definition (au_creation (ap_record r)))"
    using assms(1) by (auto simp: retired_def list_ex_iff)
  obtain q where q: "q \<in> set (ab_approvals db')" "same_approval r q" using le r(1) by (auto simp: store_le_def)
  have "superseded db' (ap_record q)" if s: "superseded db (ap_record r)"
  proof -
    obtain n where "n \<in> set (ab_approvals db)" "pa_definition (au_creation (ap_record n)) = pa_definition (au_creation (ap_record r))"
      "au_generation (ap_record r) < au_generation (ap_record n)" using s by (auto simp: superseded_def list_ex_iff)
    moreover from this(1) obtain m where "m \<in> set (ab_approvals db')" "same_approval n m" using le by (auto simp: store_le_def)
    ultimately show ?thesis using q(2) by (auto simp: superseded_def list_ex_iff same_approval_def)
  qed
  then show ?thesis using q r(2) cause le by (auto simp: retired_def list_ex_iff store_le_def same_approval_def)
qed

section \<open>Reads\<close>

lemma read_definition_Inr:
  "read_definition ext env db i = Inr d \<Longrightarrow> map_of (ab_definitions db) i = Some d \<and> af_id d = i"
  by (auto simp: read_definition_def)

lemma find_approval_Some: "find_approval db i = Some r \<Longrightarrow> r \<in> set (ab_approvals db) \<and> ap_id r = i"
  by (auto simp: find_approval_def find_Some_iff)

lemma find_approval_None: "find_approval db i = None \<longleftrightarrow> i \<notin> set (map ap_id (ab_approvals db))"
  by (auto simp: find_approval_def find_None_iff)

lemma find_distinct: "distinct (map f xs) \<Longrightarrow> x \<in> set xs \<Longrightarrow> find (\<lambda>y. f y = f x) xs = Some x"
  by (induction xs) (auto simp: image_iff)

lemma find_approval_member:
  "store_ok db \<Longrightarrow> r \<in> set (ab_approvals db) \<Longrightarrow> find_approval db (ap_id r) = Some r"
  unfolding find_approval_def by (rule find_distinct) (simp_all add: store_ok_def)

lemma read_approval_Inr:
  "read_approval ext env db i = Inr (Some a) \<Longrightarrow> \<exists>r. find_approval db i = Some r \<and> ap_record r = a
     \<and> is_approve (au_creation a) \<and> au_id a = i"
  by (auto simp: read_approval_def validate_read_record_def dest: find_approval_Some split: option.splits)

lemma map_result_set: "map_result f xs = Inr ys \<Longrightarrow> x \<in> set xs \<Longrightarrow> \<exists>y \<in> set ys. f x = Inr y"
  by (induction xs arbitrary: ys) auto

lemma approval_records_all:
  assumes ok: "store_ok db" and as: "approval_records ext env db = Inr as" and r: "r \<in> set (ab_approvals db)"
  shows "ap_record r \<in> set as \<and> is_approve (au_creation (ap_record r))"
proof -
  have "map_result (\<lambda>i. rbind (read_approval ext env db i) (\<lambda>a. or_err a (AutomationE PolicyMissing)))
      (sort (map ap_id (ab_approvals db))) = Inr as" using as by (auto simp: approval_records_def)
  then obtain a where "a \<in> set as" "read_approval ext env db (ap_id r) = Inr (Some a)"
    using map_result_set [of _ _ as "ap_id r"] r by fastforce
  then show ?thesis using read_approval_Inr [of ext env db "ap_id r" a] find_approval_member [OF ok r] by auto
qed

lemma latest_generation_ge:
  assumes "a \<in> set as" and "is_approve (au_creation a)" and "pa_definition (au_creation a) = i"
  shows "au_generation a \<le> latest_generation as i"
proof -
  let ?f = "\<lambda>p n. if is_approve (au_creation p) \<and> pa_definition (au_creation p) = i then max (au_generation p) n else n"
  have grow: "n \<le> fold ?f xs n" for n xs
  proof (induction xs arbitrary: n)
    case (Cons x xs)
    have "n \<le> ?f x n" by simp
    then show ?case using Cons.IH [of "?f x n"] unfolding fold_simps comp_def by (rule order_trans)
  qed simp
  have "a \<in> set xs \<Longrightarrow> au_generation a \<le> fold ?f xs n" for xs n
  proof (induction xs arbitrary: n)
    case (Cons x xs)
    show ?case
    proof (cases "a = x")
      case True
      have "max (au_generation a) n \<le> fold ?f (x # xs) n" using grow [of "max (au_generation a) n" xs] assms(2,3) True by simp
      then show ?thesis by simp
    qed (use Cons in auto)
  qed simp
  then show ?thesis unfolding latest_generation_def using assms(1) by blast
qed

text \<open>An approval that is current under the stored records is not retired.\<close>

lemma current_not_retired:
  assumes ok: "store_ok db" and a: "find_approval db i = Some r" "ap_record r = a"
    and d: "map_of (ab_definitions db) j = Some d" "af_id d = j"
    and all: "\<forall>q \<in> set (ab_approvals db). ap_record q \<in> set as \<and> is_approve (au_creation (ap_record q))"
    and cur: "current_at ext a runtime issuer (latest_generation as j) d now"
  shows "\<not> retired i db"
proof -
  have j: "pa_definition (au_creation a) = j" using cur d by (simp add: current_at_def)
  have "\<not> superseded db a"
  proof
    assume "superseded db a"
    then obtain q where "q \<in> set (ab_approvals db)" "pa_definition (au_creation (ap_record q)) = j"
      "au_generation a < au_generation (ap_record q)" using j by (auto simp: superseded_def list_ex_iff)
    then show False using latest_generation_ge [of "ap_record q" as j] all cur by (auto simp: current_at_def)
  qed
  moreover have "\<not> definition_removed db (pa_definition (au_creation a))"
    using cur d j by (simp add: definition_removed_def opt_ex_def current_at_def)
  moreover have "q = r" if "q \<in> set (ab_approvals db)" "ap_id q = i" for q
    using find_approval_member [OF ok that(1)] that(2) a(1) by simp
  ultimately show ?thesis using cur a(2) by (auto simp: retired_def list_ex_iff current_at_def)
qed

lemma current_schedule_not_retired:
  assumes ok: "store_ok db" and reads: "reads_store ext env db le"
    and cur: "current_schedule ext le s runtime issuer now = Inr True"
  shows "\<not> retired (ar_policy (sh_creation s)) db"
proof -
  note R = reads [unfolded reads_store_def]
  obtain p d as where p: "read_approval ext env db (ar_policy (sh_creation s)) = Inr (Some p)"
    and d: "read_definition ext env db (sh_definition_id s) = Inr d" and as: "approval_records ext env db = Inr as"
    and c: "current_at ext p runtime issuer (latest_generation as (sh_definition_id s)) d now"
    using cur R by (auto simp: current_schedule_def schedule_policy_def)
  obtain r where "find_approval db (ar_policy (sh_creation s)) = Some r" "ap_record r = p"
    using read_approval_Inr [OF p] by blast
  then show ?thesis using current_not_retired [OF ok _ _ _ _ _ c] read_definition_Inr [OF d] approval_records_all [OF ok as]
    by blast
qed

lemma load_records_Inr:
  assumes "load_records ext env db rs ds as = Inr (as', ds')"
    and "\<forall>q \<in> set ds. read_definition ext env db (fst q) = Inr (snd q)"
  shows "as' = as @ map ap_record rs \<and> (\<forall>q \<in> set ds'. read_definition ext env db (fst q) = Inr (snd q))
    \<and> (\<forall>r \<in> set rs. is_approve (au_creation (ap_record r)))"
  using assms
proof (induction rs arbitrary: ds as)
  case (Cons r rs)
  let ?i = "pa_definition (au_creation (ap_record r))"
  obtain ds1 where more: "load_records ext env db rs ds1 (as @ [ap_record r]) = Inr (as', ds')"
    and ds1: "ds1 = ds \<or> (\<exists>d. read_definition ext env db ?i = Inr d \<and> ds1 = ds @ [(?i, d)])"
    using Cons.prems(1) by (auto simp: Let_def split: option.splits)
  have "\<forall>q \<in> set ds1. read_definition ext env db (fst q) = Inr (snd q)" using ds1 Cons.prems(2) by auto
  with Cons.IH [OF more] Cons.prems(1) show ?case by auto
qed simp

lemma history_not_retired:
  assumes ok: "store_ok db" and reads: "reads_store ext env db le"
    and view: "validated_history ext le l = Inr view" and cur: "history_current ext view s runtime issuer now = Inr True"
  shows "\<not> retired (ar_policy (sh_creation s)) db"
proof -
  note R = reads [unfolded reads_store_def]
  have "le_history le = Inr view" using view by (auto simp: validated_history_def)
  then obtain as ds where lr: "load_records ext env db (sort_key ap_id (ab_approvals db)) [] [] = Inr (as, ds)"
    and v: "view = (map (\<lambda>a. (au_id a, a)) as, ds)"
    using R by (auto simp: records_and_definitions_def)
  note L = load_records_Inr [OF lr]
  have as: "as = map ap_record (sort_key ap_id (ab_approvals db))" using L by simp
  obtain p d where p: "map_of (map (\<lambda>a. (au_id a, a)) as) (ar_policy (sh_creation s)) = Some p"
    and d: "map_of ds (sh_definition_id s) = Some d"
    and c: "current_at ext p runtime issuer (latest_generation as (sh_definition_id s)) d now"
    using cur by (auto simp: history_current_def v comp_def)
  have "(ar_policy (sh_creation s), p) \<in> set (map (\<lambda>a. (au_id a, a)) as)" using p by (rule map_of_SomeD)
  then obtain r where r: "r \<in> set (ab_approvals db)" "ap_record r = p" "au_id p = ar_policy (sh_creation s)" by (auto simp: as)
  have i: "ap_id r = ar_policy (sh_creation s)" using ok r by (auto simp: store_ok_def list_all_iff)
  have "read_definition ext env db (sh_definition_id s) = Inr d" using L map_of_SomeD [OF d] by auto
  then have dd: "map_of (ab_definitions db) (sh_definition_id s) = Some d" "af_id d = sh_definition_id s"
    using read_definition_Inr by blast+
  have f: "find_approval db (ar_policy (sh_creation s)) = Some r" using find_approval_member [OF ok r(1)] i by simp
  have all: "\<forall>q \<in> set (ab_approvals db). ap_record q \<in> set as \<and> is_approve (au_creation (ap_record q))"
    using L by (auto simp: as)
  show ?thesis by (rule current_not_retired [OF ok f r(2) dd all c])
qed

section \<open>What starts work is current\<close>

lemma arm_current:
  assumes "schedule_arm ext le now commit command runtime issuer l = Inr ((s, False), l')"
  shows "current_schedule ext le s runtime issuer commit = Inr True"
proof -
  have new: "arm_new ext le now commit command runtime issuer l = Inr ((s, False), l')"
    using assms by (auto simp: schedule_arm_def split: option.splits)
  then show ?thesis by (auto simp: arm_new_def Let_def)
qed

lemma launch_current:
  assumes "trigger_begin_launch ext le now commit k runtime l = Inr (True, l')"
  shows "\<exists>r s. find (\<lambda>q. tr_id q = k) (td_triggers l) = Some r \<and> get_schedule ext le l (tg_schedule_id (tr_record r)) = Inr s
    \<and> current_schedule ext le s runtime (sh_issuer_id s) now = Inr True"
proof -
  obtain t where t: "get_trigger ext le l k = Inr t" using assms by (auto simp: trigger_begin_launch_def)
  then obtain r where r: "find (\<lambda>q. tr_id q = k) (td_triggers l) = Some r" "tr_record r = t"
    by (auto simp: get_trigger_def read_trigger_def split: option.splits)
  obtain s where s: "get_schedule ext le l (tg_schedule_id t) = Inr s" using assms by (auto simp: trigger_begin_launch_def t)
  have "current_schedule ext le s runtime (sh_issuer_id s) now = Inr True"
    using assms by (auto simp: trigger_begin_launch_def t s split: if_splits)
  then show ?thesis using r s by blast
qed

lemma claim_trigger_schedule:
  "claim_commit ext le now commit ids runtime issuer s due p allowance l = Inr (Some t, l') \<Longrightarrow> tg_schedule_id t = sh_id s"
  by (auto simp: claim_commit_def Let_def new_trigger_def)

lemma claim_current:
  assumes "schedule_claim_due ext le now commit ids i runtime issuer l = Inr (Some t, l')"
  shows "\<exists>view r. validated_history ext le l = Inr view \<and> find_row l i = Some r \<and> tg_schedule_id t = sh_id (sr_record r)
    \<and> history_current ext view (sr_record r) runtime issuer now = Inr True"
proof -
  obtain view r where view: "validated_history ext le l = Inr view" and r: "find_row l i = Some r"
    using assms by (auto simp: schedule_claim_due_def)
  have wait: "sh_state (sr_record r) = Waiting" using assms by (auto simp: schedule_claim_due_def view r split: if_splits)
  let ?due = "the (sh_next_due_ms (sr_record r))"
  obtain current where current: "(if now < sh_observed_at_ms (sr_record r) then Inr True
      else history_current ext view (sr_record r) runtime issuer now) = Inr current"
    using assms by (auto simp: schedule_claim_due_def view r wait Let_def)
  have free: "claim_denied (sr_record r) ?due now current = None"
    using assms by (auto simp: schedule_claim_due_def view r wait Let_def current split: option.splits)
  have cur: "history_current ext view (sr_record r) runtime issuer now = Inr True"
    using claim_denied_None [OF free] current by (simp split: if_splits)
  have "\<exists>p allowance. claim_commit ext le now commit ids runtime issuer (sr_record r) ?due p allowance l = Inr (Some t, l')"
    using assms by (auto simp: schedule_claim_due_def view r wait Let_def current free split: if_splits)
  then show ?thesis using claim_trigger_schedule view r cur by blast
qed

lemma retired_starts_nothing:
  assumes ok: "store_ok db" and ret: "retired i db" and reads: "reads_store ext env db le"
    and call: "ledger_call ext le (ab_ledger db) e l'"
  shows "\<not> starts i (ab_ledger db) e"
  using call
proof cases
  case (arms now commit command runtime issuer s again)
  show ?thesis
  proof
    assume "starts i (ab_ledger db) e"
    then have "\<not> again" "ar_policy (sh_creation s) = i" using arms by auto
    then show False using arm_current current_schedule_not_retired [OF ok reads] arms ret by metis
  qed
next
  case (claims now commit ids k runtime issuer claim)
  show ?thesis
  proof
    assume st: "starts i (ab_ledger db) e"
    then obtain t where t: "claim = Some t" "policy_of (ab_ledger db) (tg_schedule_id t) = Some i"
      using claims(1) by (cases claim) auto
    obtain view r where v: "validated_history ext le (ab_ledger db) = Inr view" "find_row (ab_ledger db) k = Some r"
      "tg_schedule_id t = sh_id (sr_record r)" "history_current ext view (sr_record r) runtime issuer now = Inr True"
      using claim_current claims(2) t(1) by blast
    have "sh_id (sr_record r) = k" using row_record(1) [OF _ v(2)] ok by (simp add: store_ok_def)
    then have "ar_policy (sh_creation (sr_record r)) = i" using t(2) v(2,3) by (simp add: policy_of_def)
    then show False using history_not_retired [OF ok reads v(1,4)] ret by simp
  qed
next
  case (launches now commit k runtime first)
  show ?thesis
  proof
    assume st: "starts i (ab_ledger db) e"
    then have first and p: "trigger_policy (ab_ledger db) k = Some i" using launches(1) by auto
    then obtain r s where r: "find (\<lambda>q. tr_id q = k) (td_triggers (ab_ledger db)) = Some r"
      and s: "get_schedule ext le (ab_ledger db) (tg_schedule_id (tr_record r)) = Inr s"
      and c: "current_schedule ext le s runtime (sh_issuer_id s) now = Inr True"
      using launch_current [of ext le now commit k runtime "ab_ledger db" l'] launches(2) by auto
    have "ar_policy (sh_creation s) = i" using p r get_schedule_row [OF s] by (auto simp: trigger_policy_def policy_of_def)
    then show False using current_schedule_not_retired [OF ok reads c] ret by simp
  qed
qed simp_all

section \<open>The commands keep the records\<close>

lemma save_definition_cases:
  assumes "save_definition ext env d is_new db = Inr db'"
  shows "db' = (if is_new then db\<lparr>ab_definitions := ab_definitions db @ [(af_id d, d)]\<rparr> else put_definition d db)
    \<and> (is_new \<longrightarrow> map_of (ab_definitions db) (af_id d) = None)"
  using assms by (auto simp: save_definition_def Let_def split: if_splits)

lemma definition_effect:
  assumes "automation_run ext env now origin command db = Inr (r, db')"
  shows "db' = db \<or> (\<exists>d. db' = db\<lparr>ab_definitions := ab_definitions db @ [(af_id d, d)]\<rparr> \<and> map_of (ab_definitions db) (af_id d) = None)
    \<or> (\<exists>d. db' = put_definition d db \<and> af_state d = ''removed'')"
proof (cases "db' = db")
  case False
  then consider x where "automation_define ext env now origin command db = Inr (x, db')"
    | i revision operation x where "automation_remove ext env origin i revision operation db = Inr (x, db')"
    using assms by (cases command) (auto simp: automation_run_def Let_def)
  then show ?thesis
  proof cases
    case 1
    then obtain d where "save_definition ext env d True db = Inr db'"
      using False by (auto simp: automation_define_def Let_def split: if_splits)
    then show ?thesis using save_definition_cases by fastforce
  next
    case 2
    then obtain d where "save_definition ext env d False db = Inr db'" "af_state d = ''removed''"
      using False by (auto simp: automation_remove_def Let_def split: option.splits)
    then show ?thesis using save_definition_cases by fastforce
  qed
qed simp

lemma save_authorization_cases:
  assumes "save_authorization ext env a is_new db = Inr db'"
  shows "\<exists>n. db' = (if is_new then db\<lparr>ab_approvals := ab_approvals db @ [\<lparr>ap_id = au_id a, ap_record = a, ap_reserved = n\<rparr>]\<rparr>
      else put_approval \<lparr>ap_id = au_id a, ap_record = a, ap_reserved = n\<rparr> db)
    \<and> (is_new \<longrightarrow> find_approval db (au_id a) = None)"
  using assms by (auto simp: save_authorization_def Let_def split: if_splits)

lemma policy_effect:
  assumes "policy_checkpoint ext env now runtime candidate command db = Inr (r, db')"
  shows "db' = db \<or> (\<exists>a n. db' = db\<lparr>ab_approvals := ab_approvals db @ [\<lparr>ap_id = au_id a, ap_record = a, ap_reserved = n\<rparr>]\<rparr>
      \<and> find_approval db (au_id a) = None)
    \<or> (\<exists>q a n. find_approval db (au_id a) = Some q \<and> au_creation a = au_creation (ap_record q)
        \<and> au_generation a = au_generation (ap_record q) \<and> au_revocation a \<noteq> None
        \<and> db' = put_approval \<lparr>ap_id = au_id a, ap_record = a, ap_reserved = n\<rparr> db)"
proof (cases "db' = db")
  case False
  then consider retained x where "policy_approve ext env now runtime candidate command retained db = Inr (x, db')"
    | i revision operation x where "policy_revoke ext env now runtime i revision operation db = Inr (x, db')"
    using assms by (cases command) (auto simp: policy_checkpoint_def Let_def)
  then show ?thesis
  proof cases
    case 1
    then obtain a where "save_authorization ext env a True db = Inr db'"
      using False by (auto simp: policy_approve_def Let_def split: option.splits)
    then show ?thesis using save_authorization_cases by fastforce
  next
    case 2
    then obtain a where a: "read_approval ext env db i = Inr (Some a)" by (auto simp: policy_revoke_def)
    then obtain v where save: "save_authorization ext env (a\<lparr>au_revision := 2, au_state := ''revoked'', au_revocation := Some v\<rparr>) False db
        = Inr db'" using 2 False by (auto simp: policy_revoke_def Let_def split: option.splits)
    obtain q where "find_approval db i = Some q" "ap_record q = a" "au_id a = i" using read_approval_Inr [OF a] by blast
    moreover define b where "b = a\<lparr>au_revision := 2, au_state := ''revoked'', au_revocation := Some v\<rparr>"
    moreover obtain n where "db' = put_approval \<lparr>ap_id = au_id b, ap_record = b, ap_reserved = n\<rparr> db"
      using save_authorization_cases [OF save] unfolding b_def by auto
    ultimately have "find_approval db (au_id b) = Some q \<and> au_creation b = au_creation (ap_record q)
        \<and> au_generation b = au_generation (ap_record q) \<and> au_revocation b \<noteq> None
        \<and> db' = put_approval \<lparr>ap_id = au_id b, ap_record = b, ap_reserved = n\<rparr> db" by simp
    then show ?thesis by blast
  qed
qed simp

lemma map_of_put:
  "map_of (map (\<lambda>q. if fst q = k then (k, v) else q) xs) i = (if i = k then map_option (\<lambda>_. v) (map_of xs i) else map_of xs i)"
  by (induction xs) (auto split: if_splits)

lemma put_definition_removed:
  "af_state d = ''removed'' \<Longrightarrow> definition_removed db i \<Longrightarrow> definition_removed (put_definition d db) i"
  by (auto simp: definition_removed_def put_definition_def map_of_put opt_ex_def split: option.splits)

lemma definition_step:
  assumes "automation_run ext env now origin command db = Inr (r, db')" and ok: "store_ok db"
  shows "store_ok db' \<and> store_le db db'"
  using definition_effect [OF assms(1)]
proof (elim disjE exE conjE)
  fix d assume "db' = db\<lparr>ab_definitions := ab_definitions db @ [(af_id d, d)]\<rparr>" "map_of (ab_definitions db) (af_id d) = None"
  then show ?thesis using ok
    by (auto simp: store_ok_def store_le_def same_approval_def definition_removed_def opt_ex_def map_add_def split: option.splits)
next
  fix d assume "db' = put_definition d db" "af_state d = ''removed''"
  then show ?thesis using ok put_definition_removed [of d db]
    by (auto simp: store_ok_def store_le_def same_approval_def put_definition_def list_all_iff)
qed (use ok in simp_all)

lemma put_approval_rows:
  assumes ok: "store_ok db" and q: "find_approval db (ap_id r) = Some q" and same: "same_approval q r" and i: "au_id (ap_record r) = ap_id r"
  shows "store_ok (put_approval r db) \<and> store_le db (put_approval r db)"
proof -
  have keep: "map ap_id (ab_approvals (put_approval r db)) = map ap_id (ab_approvals db)" by (simp add: put_approval_def)
  have uniq: "p = q" if "p \<in> set (ab_approvals db)" "ap_id p = ap_id r" for p
    using find_approval_member [OF ok that(1)] that(2) q by simp
  have "\<exists>p' \<in> set (ab_approvals (put_approval r db)). same_approval p p'" if p: "p \<in> set (ab_approvals db)" for p
  proof (cases "ap_id p = ap_id r")
    case True
    have "r \<in> set (ab_approvals (put_approval r db))" using p True by (auto simp: put_approval_def intro!: image_eqI [of _ _ p])
    then show ?thesis using uniq [OF p True] same by blast
  next
    case False
    then show ?thesis using p by (intro bexI [of _ p]) (auto simp: same_approval_def put_approval_def)
  qed
  moreover have "definition_removed (put_approval r db) = definition_removed db"
    by (simp add: definition_removed_def put_approval_def fun_eq_iff)
  moreover have "list_all (\<lambda>r. au_id (ap_record r) = ap_id r) (ab_approvals (put_approval r db))"
    using ok i by (auto simp: store_ok_def list_all_iff put_approval_def)
  moreover have "ab_definitions (put_approval r db) = ab_definitions db" "ab_ledger (put_approval r db) = ab_ledger db"
    by (simp_all add: put_approval_def)
  ultimately show ?thesis using ok unfolding store_ok_def store_le_def keep by simp
qed

lemma policy_step:
  assumes "policy_checkpoint ext env now runtime candidate command db = Inr (r, db')" and ok: "store_ok db"
  shows "store_ok db' \<and> store_le db db'"
  using policy_effect [OF assms(1)]
proof (elim disjE exE conjE)
  fix a n assume "db' = db\<lparr>ab_approvals := ab_approvals db @ [\<lparr>ap_id = au_id a, ap_record = a, ap_reserved = n\<rparr>]\<rparr>"
    "find_approval db (au_id a) = None"
  then show ?thesis using ok unfolding find_approval_None
    by (auto simp: store_ok_def store_le_def same_approval_def definition_removed_def)
next
  fix q a n assume q: "find_approval db (au_id a) = Some q" and "au_creation a = au_creation (ap_record q)"
    "au_generation a = au_generation (ap_record q)" "au_revocation a \<noteq> None"
    and db': "db' = put_approval \<lparr>ap_id = au_id a, ap_record = a, ap_reserved = n\<rparr> db"
  then have "same_approval q \<lparr>ap_id = au_id a, ap_record = a, ap_reserved = n\<rparr>"
    using find_approval_Some [OF q] by (simp add: same_approval_def)
  then show ?thesis using put_approval_rows [OF ok] q db' by simp
qed (use ok in simp_all)

lemma ledger_field: "store_le db (db\<lparr>ab_ledger := l\<rparr>)"
  by (auto simp: store_le_def same_approval_def definition_removed_def)

lemma store_step_ok: "store_step ext db e db' \<Longrightarrow> store_ok db \<Longrightarrow> store_ok db' \<and> store_le db db'"
proof (induction rule: store_step.induct)
  case (ledger_runs env db le e l')
  have "ledger_ok l'" using ledger_call_ok [OF ledger_runs(2)] ledger_runs(3) by (simp add: store_ok_def)
  then show ?case using ledger_runs(3) ledger_field [of db l'] by (simp add: store_ok_def)
qed (use definition_step policy_step in blast)+

interpretation store_machine: monotone_machine "store_step ext" store_ok store_le
  by unfold_locales (use store_step_ok store_le_trans in auto)

lemma store_empty_ok: "store_ok store_empty"
  by (simp add: store_ok_def store_empty_def ledger_empty_ok)

end
