(* ===== verification/Occurrence_Machine.thy ===== *)
theory Occurrence_Machine
  imports Occurrence_Commands Automation_Machine "HOL-Library.Multiset"
begin

text \<open>
  Occurrences, the automation tables and the trigger ledger as one machine: the commands on
  occurrences, every step of the tables below them, and any change of the jobs by the rest of
  the coordinator. What a run of it hands out of the budget of an approval.
\<close>

section \<open>Steps\<close>

datatype occurrence_event = StoreRun store_event | OccurrenceRun occurrence_report | JobsRun

inductive occurrence_step :: "'x occurrence_externals_scheme \<Rightarrow> occurrence_db \<Rightarrow> occurrence_event \<Rightarrow> occurrence_db \<Rightarrow> bool" for ext where
  store_runs: "store_step ext (ob_store db) e st \<Longrightarrow> occurrence_step ext db (StoreRun e) (db\<lparr>ob_store := st\<rparr>)"
| occurrence_runs: "occurrence_checkpoint ext env now stamped commit command runtime issuer db = Inr (r, db')
    \<Longrightarrow> occurrence_step ext db (OccurrenceRun r) db'"
| jobs_run: "occurrence_step ext db JobsRun (db\<lparr>ob_jobs := js\<rparr>)"

inductive_cases store_runsE: "occurrence_step ext db (StoreRun e) db'"
inductive_cases occurrence_runsE: "occurrence_step ext db (OccurrenceRun r) db'"

definition occurrences_empty :: occurrence_db where
  "occurrences_empty = \<lparr>ob_store = store_empty, ob_occurrences = [], ob_archives = [], ob_jobs = []\<rparr>"

text \<open>The reservations a run has handed out, in order.\<close>

definition reserved_by :: "occurrence_event \<Rightarrow> reservation list" where
  "reserved_by e =
     (case e of
        OccurrenceRun r \<Rightarrow> if is_reserve (or_command r) \<and> \<not> or_reused r then (case or_reservation r of None \<Rightarrow> [] | Some v \<Rightarrow> [v]) else []
      | _ \<Rightarrow> [])"

definition handed_out :: "occurrence_event list \<Rightarrow> reservation list" where
  "handed_out es = concat (map reserved_by es)"

text \<open>What an approval promises of the runs reserved under it.\<close>

definition budget_kept :: "policy_command \<Rightarrow> reservation list \<Rightarrow> bool" where
  "budget_kept c own \<longleftrightarrow> sort (map ro_ordinal own) = [1..<Suc (length own)] \<and> length own \<le> pa_max_runs c
     \<and> sum_list (map ro_reserved_execution_ms own) \<le> pa_max_reserved_execution_ms c
     \<and> sum_list (map ro_reserved_result_bytes own) \<le> pa_max_reserved_result_bytes c"

lemma budget_kept_mset:
  assumes "mset xs = mset ys"
  shows "budget_kept c xs \<longleftrightarrow> budget_kept c ys"
proof -
  have m: "mset (map f xs) = mset (map f ys)" for f :: "reservation \<Rightarrow> nat" using assms by simp
  have s: "sum_list (map f xs) = sum_list (map f ys)" for f :: "reservation \<Rightarrow> nat"
    by (metis m sum_mset_sum_list)
  have "sort (map ro_ordinal xs) = sort (map ro_ordinal ys)" by (intro properties_for_sort) (use m in simp_all)
  then show ?thesis using s mset_eq_length [OF assms] by (simp add: budget_kept_def)
qed

lemma budget_kept_Nil [simp]: "budget_kept c []"
  by (simp add: budget_kept_def)

section \<open>The checks read every row\<close>

lemma get_occurrence_Inr:
  "get_occurrence ext env db i = Inr r \<Longrightarrow> \<exists>o'. find_occurrence db i = Some o' \<and> oc_record o' = r \<and> ro_id r = i
     \<and> validate_occurrence ext env db r = Inr ()"
  by (auto simp: get_occurrence_def occurrence_at_def split: option.splits)

lemma map_result_map: "map_result f xs = Inr ys \<Longrightarrow> map Inr ys = map f xs"
  by (induction xs arbitrary: ys) auto

lemma occurrence_records_list:
  assumes "occurrence_records ext env db = Inr rs"
  shows "rs = map (\<lambda>i. oc_record (the (find_occurrence db i))) (sort (map oc_id (ob_occurrences db)))
    \<and> (\<forall>r \<in> set rs. validate_occurrence ext env db r = Inr ()) \<and> map ro_id rs = sort (map oc_id (ob_occurrences db))"
proof -
  let ?f = "\<lambda>i. rbind (get_occurrence ext env db i) (\<lambda>r. rbind (retained_plan ext env db r) (\<lambda>plan. Inr (r, job_resolved plan)))"
  obtain found where f: "map_result ?f (sort (map oc_id (ob_occurrences db))) = Inr found" and rs: "rs = map fst found"
    using assms by (auto simp: occurrence_records_def checked_records_def Let_def)
  have "map_result ?f is = Inr found \<Longrightarrow> map fst found = map (\<lambda>i. oc_record (the (find_occurrence db i))) is
      \<and> list_all (\<lambda>c. validate_occurrence ext env db (fst c) = Inr ()) found \<and> map (ro_id \<circ> fst) found = is" for "is" found
    by (induction "is" arbitrary: found) (auto dest!: get_occurrence_Inr)
  note found = this [OF f]
  moreover have "\<forall>r \<in> set rs. validate_occurrence ext env db r = Inr ()" using found unfolding rs list_all_iff set_map by blast
  moreover have "map ro_id rs = sort (map oc_id (ob_occurrences db))" using found unfolding rs by (metis map_map)
  ultimately show ?thesis unfolding rs by blast
qed

lemma occurrence_records_mset:
  assumes "occurrence_records ext env db = Inr rs" and "distinct (map oc_id (ob_occurrences db))"
  shows "mset rs = mset (map oc_record (ob_occurrences db))"
proof -
  have "mset rs = image_mset (\<lambda>i. oc_record (the (find_occurrence db i))) (mset (map oc_id (ob_occurrences db)))"
    using occurrence_records_list [OF assms(1)] by (metis mset_map mset_sort)
  also have "\<dots> = mset (map (\<lambda>o'. oc_record (the (find_occurrence db (oc_id o')))) (ob_occurrences db))"
    by (simp add: multiset.map_comp comp_def)
  also have "map (\<lambda>o'. oc_record (the (find_occurrence db (oc_id o')))) (ob_occurrences db) = map oc_record (ob_occurrences db)"
    unfolding find_occurrence_def using find_distinct [OF assms(2)] by (intro map_cong) auto
  finally show ?thesis .
qed

lemma check_budget_within:
  assumes "check_budget ext env db rs i = Inr ()"
  shows "\<exists>p. read_approval ext (oe_store env) (ob_store db) i = Inr (Some p) \<and> budget_kept (au_creation p) (reservations_of rs i)"
proof -
  have o: "map ro_ordinal (sort_key ro_ordinal own) = sort (map ro_ordinal own)" for own
    by (rule properties_for_sort [symmetric]) simp_all
  have s: "sum_list (map f (sort_key ro_ordinal own)) = sum_list (map f own)" for own and f :: "reservation \<Rightarrow> nat"
    by (metis mset_map mset_sort sum_mset_sum_list)
  show ?thesis using assms
    by (auto simp: check_budget_def Let_def approval_of_def budget_kept_def bytes_total_def o s simp del: upt_Suc split: if_splits)
qed

lemma records_within:
  assumes "occurrence_records ext env db = Inr rs" and "r \<in> set rs"
  shows "\<exists>p. read_approval ext (oe_store env) (ob_store db) (dg_policy_id (ro_delegation r)) = Inr (Some p)
    \<and> budget_kept (au_creation p) (reservations_of rs (dg_policy_id (ro_delegation r)))"
proof -
  have "check_all (check_budget ext env db rs) (sort (remdups (map (\<lambda>r. dg_policy_id (ro_delegation r)) rs))) = Inr ()"
    using assms(1) by (auto simp: occurrence_records_def checked_records_def Let_def)
  then have "check_budget ext env db rs (dg_policy_id (ro_delegation r)) = Inr ()" using assms(2) by (simp add: check_all_Inr)
  then show ?thesis by (rule check_budget_within)
qed

section \<open>What a command changes\<close>

lemma reserve_commit_effect:
  assumes "reserve_commit ext env job r plan db = Inr db'"
  shows "ob_store db' = ob_store db \<and> ob_archives db' = ob_archives db
    \<and> ob_occurrences db' = ob_occurrences db @ [\<lparr>oc_id = ro_id r, oc_job = job, oc_record = r\<rparr>]
    \<and> ro_id r \<notin> oc_id ` set (ob_occurrences db) \<and> (\<exists>rs. occurrence_records ext env db' = Inr rs)"
  using assms by (auto simp: reserve_commit_def Let_def put_job_def list_ex_iff)

lemma reserve_effect:
  assumes "occurrence_reserve ext env now stamped commit command runtime issuer retained db = Inr ((r, reused), db')"
  shows "(reused \<and> db' = db \<and> r \<in> set retained \<and> ro_command r = command)
    \<or> (\<not> reused \<and> (\<exists>plan. reserve_commit ext env (rc_job command) r plan db = Inr db')
       \<and> ro_command r = command \<and> dg_policy_id (ro_delegation r) = rc_policy command
       \<and> validate_occurrence ext env db r = Inr ()
       \<and> (\<exists>p source generation issuer. approval_of ext env db (rc_policy command) = Inr p
            \<and> definition_of ext env db (pa_definition (au_creation p)) = Inr source
            \<and> generation_of ext env db (pa_definition (au_creation p)) = Inr generation
            \<and> current_at ext p runtime issuer generation source commit))"
proof (cases "find (\<lambda>r. ro_id r = rc_operation_id command) retained")
  case None
  show ?thesis using assms unfolding occurrence_reserve_def None Let_def
    by (auto simp: new_reservation_def Let_def)
next
  case (Some old)
  have "old \<in> set retained" using Some by (auto simp: find_Some_iff)
  then show ?thesis using assms Some by (simp add: occurrence_reserve_def) blast
qed

lemma archive_effect:
  assumes "archive_run ext env now commit command runtime db = Inr ((a, reused), db')"
  shows "ob_store db' = ob_store db \<and> ob_occurrences db' = ob_occurrences db
    \<and> archive_validate ext a = Inr () \<and> xa_command a = command"
  using assms
  by (auto simp: archive_run_def archive_commit_def Let_def read_archive_def validate_archive_def new_archive_def split: option.splits if_splits)

lemma checkpoint_effect:
  assumes "occurrence_checkpoint ext env now stamped commit command runtime issuer db = Inr (r, db')"
  shows "ob_store db' = ob_store db \<and> map oc_record (ob_occurrences db') = map oc_record (ob_occurrences db) @ reserved_by (OccurrenceRun r)
    \<and> (reserved_by (OccurrenceRun r) = [] \<longrightarrow> ob_occurrences db' = ob_occurrences db)"
proof (cases command)
  case (OccurrenceReserve policy policy_sha256 job revision plan_sha256 operation)
  obtain retained v reused where "occurrence_reserve ext env now stamped commit command runtime issuer retained db = Inr ((v, reused), db')"
    and r: "r = occurrence_report_of runtime command (Some v) [] None reused"
    using assms OccurrenceReserve by (auto simp: occurrence_checkpoint_def)
  from reserve_effect [OF this(1)] show ?thesis
    by (auto dest!: reserve_commit_effect simp: r reserved_by_def occurrence_report_of_def OccurrenceReserve is_reserve_def)
next
  case (OccurrenceArchive a b c d e)
  then obtain x where "archive_run ext env now commit command runtime db = Inr (x, db')"
    and r: "or_command r = command"
    using assms by (auto simp: occurrence_checkpoint_def occurrence_report_of_def)
  then show ?thesis using archive_effect OccurrenceArchive by (cases x) (force simp: reserved_by_def is_reserve_def)
qed (use assms in \<open>auto simp: occurrence_checkpoint_def occurrence_report_of_def reserved_by_def is_reserve_def Let_def\<close>)

section \<open>The invariant\<close>

definition occurrence_ok :: "occurrence_db \<Rightarrow> bool" where
  "occurrence_ok db \<longleftrightarrow> store_ok (ob_store db) \<and> distinct (map oc_id (ob_occurrences db))
     \<and> (\<forall>o' \<in> set (ob_occurrences db). \<exists>r \<in> set (ab_approvals (ob_store db)). ap_id r = dg_policy_id (ro_delegation (oc_record o')))
     \<and> (\<forall>r \<in> set (ab_approvals (ob_store db)).
          budget_kept (au_creation (ap_record r)) (reservations_of (map oc_record (ob_occurrences db)) (ap_id r)))"

lemma occurrences_empty_ok: "occurrence_ok occurrences_empty"
  using store_empty_ok by (simp add: occurrence_ok_def occurrences_empty_def store_empty_def reservations_of_def)

lemma store_runs_ok:
  assumes ok: "occurrence_ok db" and st: "store_ok st" "store_le (ob_store db) st"
  shows "occurrence_ok (db\<lparr>ob_store := st\<rparr>)"
proof -
  have "\<exists>q \<in> set (ab_approvals st). ap_id q = ap_id r" if "r \<in> set (ab_approvals (ob_store db))" for r
    using st(2) that unfolding store_le_def same_approval_def by metis
  moreover have "budget_kept (au_creation (ap_record q)) (reservations_of (map oc_record (ob_occurrences db)) (ap_id q))"
    if q: "q \<in> set (ab_approvals st)" for q
  proof (cases "\<exists>r \<in> set (ab_approvals (ob_store db)). ap_id r = ap_id q")
    case True
    then obtain r where r: "r \<in> set (ab_approvals (ob_store db))" "ap_id r = ap_id q" by blast
    then obtain q' where q': "q' \<in> set (ab_approvals st)" "same_approval r q'" using st(2) by (auto simp: store_le_def)
    then have "q' = q" using find_approval_member [OF st(1)] q r(2) by (metis option.inject same_approval_def)
    then show ?thesis using ok r q'(2) by (auto simp: occurrence_ok_def same_approval_def)
  next
    case False
    then have "reservations_of (map oc_record (ob_occurrences db)) (ap_id q) = []"
      using ok by (auto simp: occurrence_ok_def reservations_of_def filter_empty_conv)
    then show ?thesis by simp
  qed
  ultimately show ?thesis using ok st(1) by (fastforce simp: occurrence_ok_def)
qed

lemma reservation_ok:
  assumes ok: "occurrence_ok db" and c: "reserve_commit ext env job v plan db = Inr db'"
  shows "occurrence_ok db'"
proof -
  note e = reserve_commit_effect [OF c]
  obtain rs where rs: "occurrence_records ext env db' = Inr rs" using e by blast
  have d: "distinct (map oc_id (ob_occurrences db'))" using e ok by (auto simp: occurrence_ok_def)
  note m = occurrence_records_mset [OF rs d]
  have own: "mset (reservations_of rs i) = mset (reservations_of (map oc_record (ob_occurrences db')) i)" for i
    unfolding reservations_of_def mset_filter m ..
  have st: "store_ok (ob_store db')" using ok e by (simp add: occurrence_ok_def)
  have row: "\<exists>r \<in> set (ab_approvals (ob_store db')). ap_id r = i \<and> read_approval ext (oe_store env) (ob_store db') i = Inr (Some (ap_record r))"
    if "read_approval ext (oe_store env) (ob_store db') i = Inr (Some p)" for i p
    using read_approval_Inr [OF that] find_approval_Some that by blast
  have known: "\<exists>r \<in> set (ab_approvals (ob_store db')). ap_id r = dg_policy_id (ro_delegation (oc_record o'))"
    if "o' \<in> set (ob_occurrences db')" for o'
  proof -
    have "oc_record o' \<in> set rs" using that m by (metis list.set_map imageI set_mset_mset)
    then show ?thesis using records_within [OF rs] row by blast
  qed
  have "budget_kept (au_creation (ap_record r)) (reservations_of (map oc_record (ob_occurrences db')) (ap_id r))"
    if r: "r \<in> set (ab_approvals (ob_store db'))" for r
  proof (cases "reservations_of rs (ap_id r) = []")
    case True
    then show ?thesis using own [of "ap_id r"] by simp
  next
    case False
    then obtain x where x: "x \<in> set rs" "dg_policy_id (ro_delegation x) = ap_id r"
      by (auto simp: reservations_of_def filter_empty_conv)
    then obtain p where p: "read_approval ext (oe_store env) (ob_store db') (ap_id r) = Inr (Some p)"
      "budget_kept (au_creation p) (reservations_of rs (ap_id r))" using records_within [OF rs x(1)] by auto
    have "p = ap_record r" using read_approval_Inr [OF p(1)] find_approval_member [OF st r] by auto
    then show ?thesis using p(2) budget_kept_mset [OF own] by blast
  qed
  then show ?thesis using st d known by (simp add: occurrence_ok_def)
qed

lemma occurrence_ok_same:
  "occurrence_ok db \<Longrightarrow> ob_store db' = ob_store db \<Longrightarrow> ob_occurrences db' = ob_occurrences db \<Longrightarrow> occurrence_ok db'"
  by (simp add: occurrence_ok_def)

lemma checkpoint_ok:
  assumes "occurrence_checkpoint ext env now stamped commit command runtime issuer db = Inr (r, db')" and ok: "occurrence_ok db"
  shows "occurrence_ok db'"
proof (cases "reserved_by (OccurrenceRun r) = []")
  case True
  then show ?thesis using checkpoint_effect [OF assms(1)] occurrence_ok_same [OF ok] by blast
next
  case False
  then have "is_reserve (or_command r)" "\<not> or_reused r" by (auto simp: reserved_by_def split: if_splits)
  then obtain retained v where "occurrence_reserve ext env now stamped commit command runtime issuer retained db = Inr ((v, False), db')"
    using assms(1) by (cases command) (auto simp: occurrence_checkpoint_def occurrence_report_of_def is_reserve_def Let_def)
  from reserve_effect [OF this] show ?thesis using reservation_ok [OF ok] by blast
qed

definition occurrence_le :: "occurrence_db \<Rightarrow> occurrence_db \<Rightarrow> bool" where
  "occurrence_le db db' \<longleftrightarrow> store_le (ob_store db) (ob_store db')"

interpretation occurrence_machine: monotone_machine "occurrence_step ext" occurrence_ok occurrence_le for ext
proof (unfold_locales, goal_cases)
  case (1 db e db')
  from 1(2) show ?case
  proof cases
    case (store_runs e st)
    have "store_ok (ob_store db)" using 1(1) by (simp add: occurrence_ok_def)
    then show ?thesis using store_runs store_runs_ok [OF 1(1)] store_machine.step_inv store_machine.step_le by blast
  next
    case (occurrence_runs env now stamped commit command runtime issuer r)
    then show ?thesis using checkpoint_ok 1(1) by blast
  next
    case (jobs_run js)
    then show ?thesis using 1(1) by (simp add: occurrence_ok_def)
  qed
next
  case (2 db)
  then show ?case by (simp add: occurrence_le_def)
next
  case (3 a b c)
  then show ?case unfolding occurrence_le_def by (rule store_le_trans)
next
  case (4 db e db')
  from 4(2) show ?case
  proof cases
    case (store_runs e st)
    have "store_ok (ob_store db)" using 4(1) by (simp add: occurrence_ok_def)
    then show ?thesis using store_runs store_machine.step_le by (auto simp: occurrence_le_def)
  next
    case (occurrence_runs env now stamped commit command runtime issuer r)
    then show ?thesis using checkpoint_effect [OF occurrence_runs(2)] by (simp add: occurrence_le_def)
  next
    case (jobs_run js)
    then show ?thesis by (simp add: occurrence_le_def)
  qed
qed

section \<open>The rows are what the runs handed out\<close>

lemma step_hands_out:
  "occurrence_step ext db e db' \<Longrightarrow> map oc_record (ob_occurrences db') = map oc_record (ob_occurrences db) @ reserved_by e"
  by (cases rule: occurrence_step.cases) (auto dest: checkpoint_effect simp: reserved_by_def)

lemma run_hands_out:
  "run (occurrence_step ext) db es db' \<Longrightarrow> map oc_record (ob_occurrences db') = map oc_record (ob_occurrences db) @ handed_out es"
  by (induction rule: run.induct) (auto dest!: step_hands_out simp: handed_out_def)

lemma store_run_lifts:
  "run (store_step ext) st es st' \<Longrightarrow> run (occurrence_step ext) (db\<lparr>ob_store := st\<rparr>) (map StoreRun es) (db\<lparr>ob_store := st'\<rparr>)"
proof (induction rule: run.induct)
  case (run_cons s e t es u)
  have "occurrence_step ext (db\<lparr>ob_store := s\<rparr>) (StoreRun e) (db\<lparr>ob_store := t\<rparr>)"
    using store_runs [of ext "db\<lparr>ob_store := s\<rparr>" e t] run_cons.hyps(1) by simp
  then show ?case using run_cons.IH by auto
qed (simp add: run.run_nil)

section \<open>What a retired approval can no longer do\<close>

fun engages :: "string \<Rightarrow> occurrence_db \<Rightarrow> occurrence_event \<Rightarrow> bool" where
  "engages i db (StoreRun (LedgerRun e)) \<longleftrightarrow> starts i (ab_ledger (ob_store db)) e"
| "engages i db (OccurrenceRun r) \<longleftrightarrow> list_ex (\<lambda>v. dg_policy_id (ro_delegation v) = i) (reserved_by (OccurrenceRun r))"
| "engages i db _ \<longleftrightarrow> False"

lemma reserve_not_retired:
  assumes ok: "store_ok (ob_store db)" and p: "approval_of ext env db i = Inr p"
    and d: "definition_of ext env db (pa_definition (au_creation p)) = Inr d"
    and g: "generation_of ext env db (pa_definition (au_creation p)) = Inr generation"
    and c: "current_at ext p runtime issuer generation d now"
  shows "\<not> retired i (ob_store db)"
proof -
  obtain as where as: "approval_records ext (oe_store env) (ob_store db) = Inr as"
    "generation = latest_generation as (pa_definition (au_creation p))" using g by (auto simp: generation_of_def)
  have "read_approval ext (oe_store env) (ob_store db) i = Inr (Some p)" using p by (auto simp: approval_of_def)
  then obtain r where "find_approval (ob_store db) i = Some r" "ap_record r = p" using read_approval_Inr by blast
  then show ?thesis using current_not_retired [OF ok _ _ _ _ _ c [unfolded as(2)]] read_definition_Inr
      [OF d [unfolded definition_of_def]] approval_records_all [OF ok as(1)] by blast
qed

lemma retired_engages_nothing:
  assumes ok: "occurrence_ok db" and ret: "retired i (ob_store db)" and step: "occurrence_step ext db e db'"
  shows "\<not> engages i db e"
  using step
proof cases
  case (store_runs s st)
  have st: "store_ok (ob_store db)" using ok by (simp add: occurrence_ok_def)
  show ?thesis
  proof (cases s)
    case (LedgerRun l)
    obtain env le l' where "reads_store ext env (ob_store db) le" "ledger_call ext le (ab_ledger (ob_store db)) l l'"
      using store_runs(3) [unfolded LedgerRun] by (rule ledger_runsE) blast
    then have "\<not> starts i (ab_ledger (ob_store db)) l" by (rule retired_starts_nothing [OF st ret])
    then show ?thesis by (simp add: store_runs(1) LedgerRun)
  qed (simp_all add: store_runs(1))
next
  case (occurrence_runs env now stamped commit command runtime issuer r)
  show ?thesis
  proof
    assume "engages i db e"
    then have en: "list_ex (\<lambda>v. dg_policy_id (ro_delegation v) = i) (reserved_by (OccurrenceRun r))"
      using occurrence_runs(1) by simp
    then have res: "is_reserve (or_command r)" "\<not> or_reused r" by (auto simp: reserved_by_def split: if_splits)
    then obtain retained v where run: "occurrence_reserve ext env now stamped commit command runtime issuer retained db = Inr ((v, False), db')"
      and v: "or_reservation r = Some v" using occurrence_runs(2)
      by (cases command) (auto simp: occurrence_checkpoint_def occurrence_report_of_def is_reserve_def Let_def)
    have "dg_policy_id (ro_delegation v) = i" using en res v by (simp add: reserved_by_def)
    moreover have "store_ok (ob_store db)" using ok by (simp add: occurrence_ok_def)
    ultimately show False using reserve_effect [OF run] reserve_not_retired [of db ext env i] ret by metis
  qed
qed simp

end
