(* ===== verification/Occurrence_Reports.thy ===== *)
theory Occurrence_Reports
  imports Occurrence_Machine
begin

text \<open>
  Every report of an occurrence command passes the separate check of the command line
  (\<^verbatim>\<open>confirmed\<close> of \<^verbatim>\<open>eefn/automation_occurrence.rs\<close>): the lemmas about pages and summaries.
\<close>

section \<open>Pages\<close>

lemma page_full:
  "length items = limit \<Longrightarrow> items \<noteq> [] \<Longrightarrow> page limit key xs items after = (items, if xs = [] then after else Some (key (last items)))"
  by (induction xs arbitrary: after) auto

lemma page_take:
  "length items \<le> limit \<Longrightarrow> 0 < limit \<Longrightarrow> page limit key xs items None =
     (let ys = items @ take (limit - length items) xs in (ys, if limit < length items + length xs then Some (key (last ys)) else None))"
proof (induction xs arbitrary: items)
  case (Cons x xs)
  show ?case
  proof (cases "length items = limit")
    case True
    then have "items \<noteq> []" using Cons.prems(2) by auto
    from page_full [OF True this] True \<open>items \<noteq> []\<close> show ?thesis by (simp add: Let_def)
  next
    case False
    then have "length (items @ [x]) \<le> limit" using Cons.prems(1) by simp
    note Cons.IH [OF this Cons.prems(2)]
    moreover have "take (limit - length items) (x # xs) = x # take (limit - length (items @ [x])) xs"
      using False Cons.prems(1) by (simp add: take_Cons' Suc_diff_Suc)
    ultimately show ?thesis using False by (simp add: Let_def)
  qed
qed simp

lemma summaries_ok_last:
  assumes "\<forall>s \<in> set ss. summary_ok ext policy s" and "sorted_wrt (<) (map sm_id ss)"
    and "\<forall>s \<in> set ss. \<not> opt_ex previous (\<lambda>i. sm_id s \<le> i)"
  shows "summaries_ok ext policy previous ss = Some (if ss = [] then previous else Some (sm_id (last ss)))"
  using assms
proof (induction ss arbitrary: previous)
  case (Cons s ss)
  have "\<forall>x \<in> set ss. \<not> opt_ex (Some (sm_id s)) (\<lambda>i. sm_id x \<le> i)" using Cons.prems(2) by (auto simp: opt_ex_def)
  then show ?case using Cons.IH [of "Some (sm_id s)"] Cons.prems by auto
qed simp

lemma definition_digest_hex: "(\<And>s. hex_digest (sha256_hex ext s)) \<Longrightarrow> hex_digest (definition_digest ext v)"
  by (simp add: definition_digest_def)

lemma reservation_summary:
  assumes hex: "\<And>s. hex_digest (sha256_hex ext s)" and v: "reservation_validate ext r = Inr ()"
    and p: "\<not> opt_ex policy (\<lambda>p. p \<noteq> dg_policy_id (ro_delegation r))"
  shows "summary_ok ext policy (occurrence_summary_of r)"
proof -
  have res: "is_reserve (ro_command r)" using v by (simp add: reservation_validate_def)
  have d: "delegation_validate ext (ro_delegation r) = Inr ()" "occurrence_command_validate ext (ro_command r) = Inr ()"
    using v by (simp_all add: reservation_validate_def)
  have "uuid ext (dg_reservation_id (ro_delegation r)) = Inr ()" "uuid ext (dg_policy_id (ro_delegation r)) = Inr ()"
    "uuid ext (dg_definition_id (ro_delegation r)) = Inr ()" "dg_generation (ro_delegation r) \<noteq> 0"
    using d(1) by (auto simp: delegation_validate_def)
  moreover have "validate_id (rc_job (ro_command r)) = Inr ()"
    using d(2) res by (cases "ro_command r") (auto simp: occurrence_command_validate_def is_reserve_def)
  moreover have "ro_reservation_sha256 r = reservation_digest ext r" using v by (simp add: reservation_validate_def)
  then have "hex_digest (ro_reservation_sha256 r)" using definition_digest_hex [OF hex] by (simp add: reservation_digest_def)
  ultimately show ?thesis using v p by (auto simp: summary_ok_def occurrence_summary_of_def reservation_validate_def is_ok_unit)
qed

section \<open>Reports\<close>

lemma listed_confirmed:
  assumes hex: "\<And>s. hex_digest (sha256_hex ext s)" and c: "occurrence_command_validate ext (OccurrenceList policy limit after) = Inr ()"
    and u: "uuid ext runtime = Inr ()" and rs: "occurrence_records ext env db = Inr rs" and ids: "distinct (map oc_id (ob_occurrences db))"
    and r: "r = (let found = page limit sm_id (map occurrence_summary_of (filter (\<lambda>r.
                 \<not> opt_ex policy (\<lambda>p. p \<noteq> dg_policy_id (ro_delegation r)) \<and> \<not> opt_ex after (\<lambda>i. ro_id r \<le> i)) rs)) [] None in
           occurrence_report_of runtime (OccurrenceList policy limit after) None (fst found) (snd found) False)"
  shows "occurrence_confirmed ext r (OccurrenceList policy limit after) runtime"
proof -
  define fs where "fs = filter (\<lambda>r. \<not> opt_ex policy (\<lambda>p. p \<noteq> dg_policy_id (ro_delegation r)) \<and> \<not> opt_ex after (\<lambda>i. ro_id r \<le> i)) rs"
  define xs where "xs = map occurrence_summary_of fs"
  note all = occurrence_records_list [OF rs]
  have "map ro_id rs = sort (map oc_id (ob_occurrences db))" using all by blast
  then have "sorted_wrt (<) (map ro_id rs)" using ids by (simp add: strict_sorted_iff)
  then have "sorted_wrt (<) (map ro_id fs)" by (simp add: fs_def sorted_wrt_map sorted_wrt_filter)
  moreover have "map sm_id xs = map ro_id fs" by (simp add: xs_def occurrence_summary_of_def)
  ultimately have s: "sorted_wrt (<) (map sm_id xs)" by simp
  have ok: "\<forall>x \<in> set xs. summary_ok ext policy x \<and> \<not> opt_ex after (\<lambda>i. sm_id x \<le> i)"
    using all reservation_summary [OF hex] by (auto simp: xs_def fs_def validate_occurrence_def) (simp add: occurrence_summary_of_def)
  have lim: "0 < limit" using c by (auto simp: occurrence_command_validate_def)
  define ys where "ys = take limit xs"
  have "page limit sm_id xs [] None = (ys, if limit < length xs then Some (sm_id (last ys)) else None)"
    using page_take [of "[]" limit sm_id xs] lim by (simp add: ys_def Let_def)
  then have r: "r = occurrence_report_of runtime (OccurrenceList policy limit after) None ys
      (if limit < length xs then Some (sm_id (last ys)) else None) False"
    using r by (simp add: xs_def fs_def Let_def)
  have "sorted_wrt (<) (map sm_id ys)" using s by (simp add: ys_def take_map [symmetric] sorted_wrt_take)
  then have "summaries_ok ext policy after ys = Some (if ys = [] then after else Some (sm_id (last ys)))"
    using ok by (intro summaries_ok_last) (auto simp: ys_def dest: in_set_takeD)
  then show ?thesis using c u lim unfolding r
    by (auto simp: occurrence_confirmed_def occurrence_report_of_def ys_def opt_ex_def split: if_splits)
qed

lemma get_archive_valid: "get_archive ext env db i = Inr a \<Longrightarrow> archive_validate ext a = Inr () \<and> xa_id a = i"
  by (auto simp: get_archive_def read_archive_def validate_archive_def split: option.splits)

lemma checkpoint_confirmed:
  assumes hex: "\<And>s. hex_digest (sha256_hex ext s)" and ok: "occurrence_ok db"
    and call: "occurrence_checkpoint ext env now stamped commit command runtime issuer db = Inr (r, db')"
  shows "occurrence_confirmed ext r command runtime"
proof -
  obtain rs where rs: "occurrence_records ext env db = Inr rs" and cu: "occurrence_command_validate ext command = Inr ()"
    "uuid ext runtime = Inr ()" using call by (auto simp: occurrence_checkpoint_def)
  note base = occurrence_confirmed_def occurrence_report_of_def opt_ex_def
  show ?thesis
  proof (cases command)
    case (OccurrenceReserve a b c d e f)
    then obtain v reused where run: "occurrence_reserve ext env now stamped commit command runtime issuer rs db = Inr ((v, reused), db')"
      and r: "r = occurrence_report_of runtime command (Some v) [] None reused"
      using call by (auto simp: occurrence_checkpoint_def rs)
    have "reservation_validate ext v = Inr () \<and> ro_command v = command"
      using reserve_effect [OF run] occurrence_records_list [OF rs] by (auto simp: validate_occurrence_def)
    then show ?thesis using cu by (simp add: r OccurrenceReserve base)
  next
    case (OccurrenceShow i)
    then obtain v where "get_occurrence ext env db i = Inr v" "r = occurrence_report_of runtime command (Some v) [] None False"
      using call by (auto simp: occurrence_checkpoint_def rs)
    then show ?thesis using cu get_occurrence_Inr [of ext env db i v] by (auto simp: OccurrenceShow base validate_occurrence_def)
  next
    case (OccurrenceArchive a b c d e)
    then obtain v reused where run: "archive_run ext env now commit command runtime db = Inr ((v, reused), db')"
      and r: "r = (occurrence_report_of runtime command None [] None reused)\<lparr>or_archive := Some v\<rparr>"
      using call by (auto simp: occurrence_checkpoint_def rs)
    then show ?thesis using cu archive_effect [OF run] by (auto simp: OccurrenceArchive base)
  next
    case (OccurrenceArchiveShow i)
    then obtain v where "get_archive ext env db i = Inr v"
      "r = (occurrence_report_of runtime command None [] None False)\<lparr>or_archive := Some v\<rparr>"
      using call by (auto simp: occurrence_checkpoint_def rs)
    then show ?thesis using cu get_archive_valid [of ext env db i v] by (simp add: OccurrenceArchiveShow base)
  next
    case (OccurrenceList policy limit after)
    have "distinct (map oc_id (ob_occurrences db))" using ok by (simp add: occurrence_ok_def)
    then show ?thesis using call cu unfolding OccurrenceList
      by (intro listed_confirmed [OF hex _ _ rs]) (auto simp: occurrence_checkpoint_def rs Let_def)
  qed
qed

end
