(* ===== verification/Automation_Properties.thy ===== *)
theory Automation_Properties
  imports Automation_Machine Trigger_Samples
begin

text \<open>A sample of the automation tables: a definition, its approval and the revocation of it.\<close>

section \<open>A defined, approved and revoked automation\<close>

definition sample_store_env :: store_env where
  "sample_store_env =
     \<lparr>av_review = (\<lambda>_. Inr ()), av_source_scope = (\<lambda>_. Inr sample_fixed_scope), av_compiles = (\<lambda>_. Inr ()),
      av_job = (\<lambda>_. Inr \<lparr>sp_context = Some owner_context, sp_revision = 1, sp_awaiting = True, sp_approved = False,
        sp_executed = False, sp_plan_sha256 = Some sample_digest, sp_json = sample_source\<rparr>),
      av_count = 0, av_jobs = 0, av_others = 0, av_checks = 0, av_max_count = 10, av_max_bytes = 100000\<rparr>"

definition defined_store :: automation_db where
  "defined_store = store_empty\<lparr>ab_definitions := [(ledger_key 2, sample_automation)]\<rparr>"

definition approved_store :: automation_db where
  "approved_store = defined_store\<lparr>ab_approvals := [\<lparr>ap_id = ledger_key 7, ap_record = sample_approval, ap_reserved = 1024\<rparr>]\<rparr>"

definition revoked_approval :: authorization where
  "revoked_approval = sample_approval\<lparr>au_revision := 2, au_state := ''revoked'', au_revocation := Some
     \<lparr>rv_operation_id = ledger_key 5, rv_source_revision = 1, rv_revoked_at_ms = 2000, rv_runtime_id = ledger_key 3\<rparr>\<rparr>"

definition revoked_store :: automation_db where
  "revoked_store = defined_store\<lparr>ab_approvals := [\<lparr>ap_id = ledger_key 7, ap_record = revoked_approval, ap_reserved = 0\<rparr>]\<rparr>"

lemma sample_env_quota: "opt_ex previous (\<lambda>old. cost \<le> old) \<or> used = Some 0 \<or> used = Some 2 \<Longrightarrow> cost \<le> 8192
   \<Longrightarrow> store_quota sample_store_env used previous cost b = Inr ()"
  by (auto simp: store_quota_def sample_store_env_def saturating_sub_def)

lemma sample_bytes: "av_jobs sample_store_env = 0" "av_others sample_store_env = 0" "av_checks sample_store_env = 0"
  by (simp_all add: sample_store_env_def)

lemma sample_definition_valid: "validate_definition ledger_ext sample_store_env sample_automation = Inr ()"
  by (simp add: validate_definition_def sample_automation_valid) (simp add: sample_store_env_def opt_check_def split: option.splits)

lemma sample_texts [simp]: "definition_text ledger_ext d = ''{}''" "authorization_text ledger_ext a = ''{}''"
  by (simp_all add: ledger_ext_def pipeline_externals.defs)

lemma sample_defined:
  "automation_run ledger_ext sample_store_env 500 None (af_creation sample_automation) store_empty
   = Inr (\<lparr>dr_command = af_creation sample_automation, dr_definition = Some sample_automation, dr_items = [],
       dr_next_after = None, dr_reused = False\<rparr>, defined_store)"
proof -
  have c: "af_creation sample_automation = AutomationDefine (ledger_key 2) sample_id 1 sample_digest sample_title 10000 2 100000"
    by (simp add: sample_automation_def)
  have sel: "ad_operation_id (af_creation sample_automation) = ledger_key 2" "ad_revision (af_creation sample_automation) = 1"
    "ad_plan_sha256 (af_creation sample_automation) = sample_digest" by (simp_all add: c)
  have job: "av_job sample_store_env i = Inr \<lparr>sp_context = Some owner_context, sp_revision = 1, sp_awaiting = True, sp_approved = False,
      sp_executed = False, sp_plan_sha256 = Some sample_digest, sp_json = sample_source\<rparr>" for i by (simp add: sample_store_env_def)
  have v: "automation_command_validate ledger_ext (af_creation sample_automation) = Inr ()"
    using sample_automation_valid by (simp add: automation_definition_validate_def)
  have new: "new_definition ledger_ext (af_creation sample_automation) owner_context sample_source 500 = sample_automation"
    by (simp add: new_definition_def Let_def automation_definition_digest_def) (simp add: sample_automation_def)
  have save: "save_definition ledger_ext sample_store_env sample_automation True store_empty = Inr defined_store"
    by (simp add: save_definition_def sample_definition_valid Let_def store_empty_def defined_store_def definition_used_def
        definition_cost_def bytes_total_def sample_bytes sample_env_quota) (simp add: sample_automation_def)
  have "automation_define ledger_ext sample_store_env 500 None (af_creation sample_automation) store_empty
      = Inr ((sample_automation, False), defined_store)"
    unfolding automation_define_def Let_def
    using new save by (simp add: sel job) (simp add: store_empty_def)
  then show ?thesis unfolding automation_run_def using v by (simp add: c opt_check_def)
qed

lemma stored_definition:
  "ab_definitions db = [(ledger_key 2, sample_automation)] \<Longrightarrow>
     read_definition ledger_ext sample_store_env db (ledger_key 2) = Inr sample_automation"
  by (simp add: read_definition_def sample_definition_valid) (simp add: sample_automation_def)

definition sample_limits_record :: grant_limits where
  "sample_limits_record = \<lparr>gl_max_execution_ms = 1000, gl_max_result_bytes = 1024\<rparr>"

lemma sample_scope_grant:
  "grant_validate ledger_ext (scope_grant sample_approval sample_id sample_limits_record 2000 sample_operation_scope) = Inr ()"
proof -
  have "is_identifier ''system.info''" "is_identifier ''run''"
    by (simp_all add: is_identifier_def is_name_byte_def is_ascii_alphanumeric_def byte_def)
  then show ?thesis
    by (simp add: grant_validate_def scope_grant_def sample_operation_scope_def sample_limits_record_def sample_fixed_scope_def
        owner_context_def is_object_def MAX_DURATION_MS_def CONDITIONAL_def shape_validate_def grant_shape_def
        supported_operation_def shape_resource_def shape_model_def jindex_def ledger_key_parse
        del: validate_remote_node_id_ok validate_id_ok ledger_ext_base(1))
      (simp add: sample_approval_def ledger_key_parse del: ledger_ext_base(1))
qed

lemma revoked_valid: "authorization_validate ledger_ext revoked_approval = Inr ()"
proof -
  have "check_lifecycle ledger_ext revoked_approval = Inr ()"
    by (simp add: check_lifecycle_def revoked_approval_def) (simp add: sample_approval_def)
  then show ?thesis using sample_approval_valid
    by (simp add: authorization_validate_def authorization_digest_def) (auto simp: revoked_approval_def)
qed

lemma sample_checked:
  assumes "a = sample_approval \<or> a = revoked_approval"
  shows "validate_authorization ledger_ext sample_store_env a sample_automation = Inr ()"
proof -
  have same: "au_creation a = au_creation sample_approval" "au_scope a = sample_fixed_scope" "au_approved_at_ms a = 1000"
    "scope_grant a j l e o' = scope_grant sample_approval j l e o'" for j l e o'
    using assms by (auto simp: revoked_approval_def scope_grant_def) (simp add: sample_approval_def)+
  have p: "is_approve (au_creation sample_approval)" "policy_limits (au_creation sample_approval) = Some sample_limits_record"
    "pa_revision (au_creation sample_approval) = 1" "pa_definition_sha256 (au_creation sample_approval) = sample_digest"
    "pa_valid_for_ms (au_creation sample_approval) = 100000"
    by (simp_all add: sample_approval_def is_approve_def policy_limits_def sample_limits_record_def)
  have d: "is_define (af_creation sample_automation)" "af_id sample_automation = ledger_key 2" "ad_max_runs (af_creation sample_automation) = 2"
    "af_definition_sha256 sample_automation = sample_digest" "ad_valid_for_ms (af_creation sample_automation) = 100000"
    "af_created_at_ms sample_automation = 500" "af_owner_context sample_automation = owner_context"
    "af_source sample_automation = Some sample_source" "ad_from_job (af_creation sample_automation) = sample_id"
    by (simp_all add: sample_automation_def is_define_def)
  have e: "av_source_scope sample_store_env s = Inr sample_fixed_scope" "av_compiles sample_store_env b = Inr ()" for s b
    by (simp_all add: sample_store_env_def)
  have f: "fs_owner_context sample_fixed_scope = owner_context" "fs_operations sample_fixed_scope = [sample_operation_scope]"
    by (simp_all add: sample_fixed_scope_def)
  have m: "checked_add 1000 (gl_max_execution_ms sample_limits_record) = Some 2000"
    by (simp add: sample_limits_record_def checked_add_def u64_max_def)
  have v: "authorization_validate ledger_ext a = Inr ()" using assms sample_approval_valid revoked_valid by blast
  show ?thesis
    unfolding validate_authorization_def
    by (simp add: v sample_automation_valid same p d e f m opt_check_def sample_scope_grant)
qed

lemma sample_ids_of [simp]:
  "au_id sample_approval = ledger_key 7" "au_id revoked_approval = ledger_key 7" "is_approve (au_creation sample_approval)"
  "au_creation revoked_approval = au_creation sample_approval" "au_generation sample_approval = 1"
  "au_generation revoked_approval = 1" "au_revocation sample_approval = None" "au_revocation revoked_approval \<noteq> None"
  "approval_reserve sample_approval = 1024" "approval_reserve revoked_approval = 0"
  by (simp_all add: revoked_approval_def sample_approval_def is_approve_def approval_reserve_def REVOCATION_RESERVE_def)

lemma sample_read:
  assumes "ab_definitions db = [(ledger_key 2, sample_automation)]" and "ab_approvals db = [\<lparr>ap_id = ledger_key 7, ap_record = a, ap_reserved = approval_reserve a\<rparr>]"
    and "a = sample_approval \<or> a = revoked_approval"
  shows "read_approval ledger_ext sample_store_env db (ledger_key 7) = Inr (Some a)"
    and "approval_records ledger_ext sample_store_env db = Inr [a]"
    and "records_and_definitions ledger_ext sample_store_env db = Inr ([a], [(ledger_key 2, sample_automation)])"
proof -
  have c: "is_approve (au_creation a)" "pa_definition (au_creation a) = ledger_key 2" "au_id a = ledger_key 7" "au_generation a = 1"
    using assms(3) by auto
  note v = sample_checked [OF assms(3)] stored_definition [OF assms(1)]
  show r: "read_approval ledger_ext sample_store_env db (ledger_key 7) = Inr (Some a)"
    by (simp add: read_approval_def find_approval_def assms(2) c v validate_read_record_def)
  have g: "validate_generations [a] = Inr ()" by (simp add: validate_generations_def generations_of_def c)
  show "approval_records ledger_ext sample_store_env db = Inr [a]"
    by (simp add: approval_records_def assms(2) r g)
  show "records_and_definitions ledger_ext sample_store_env db = Inr ([a], [(ledger_key 2, sample_automation)])"
    by (simp add: records_and_definitions_def assms(2) c v validate_read_record_def g Let_def)
qed

lemma sample_approved:
  "policy_checkpoint ledger_ext sample_store_env 1000 (ledger_key 3) (Some sample_approval) (au_creation sample_approval) defined_store
   = Inr (\<lparr>pr_runtime_id = ledger_key 3, pr_command = au_creation sample_approval, pr_authorization = Some sample_approval,
       pr_items = [], pr_next_after = None, pr_reused = False\<rparr>, approved_store)"
proof -
  have c: "au_creation sample_approval = PolicyApprove (ledger_key 2) 1 sample_digest 0 (ledger_key 7) 100000 2 1000 1024 2000 2048"
    by (simp add: sample_approval_def)
  have v: "policy_command_validate ledger_ext (au_creation sample_approval) = Inr ()"
    using sample_approval_valid by (simp add: authorization_validate_def)
  have d: "ab_definitions defined_store = [(ledger_key 2, sample_automation)]" "ab_approvals defined_store = []"
    by (simp_all add: defined_store_def store_empty_def)
  have k: "checked_add 2 1024 = Some 1026" by (simp add: checked_add_def u64_max_def)
  have save: "save_authorization ledger_ext sample_store_env sample_approval True defined_store = Inr approved_store"
    using k by (simp add: save_authorization_def stored_definition [OF d(1)] sample_checked Let_def find_approval_def d approved_store_def
        approval_used_def definition_cost_def bytes_total_def sample_bytes sample_env_quota u64_max_def) 
  have f: "af_state sample_automation = ''disabled''" "af_revision sample_automation = 1" "af_source sample_automation = Some sample_source"
    "au_runtime_id sample_approval = ledger_key 3" "au_approved_at_ms sample_approval = 1000"
    by (simp_all add: sample_automation_def sample_approval_def)
  have g: "pa_generation (au_creation sample_approval) = 0" "pa_operation_id (au_creation sample_approval) = ledger_key 7"
    by (simp_all add: c)
  have "policy_approve ledger_ext sample_store_env 1000 (ledger_key 3) (Some sample_approval) (au_creation sample_approval) [] defined_store
      = Inr ((sample_approval, False), approved_store)"
    by (simp add: policy_approve_def stored_definition [OF d(1)] Let_def latest_generation_def f g save)
  moreover have "approval_records ledger_ext sample_store_env defined_store = Inr []"
    by (simp add: approval_records_def d validate_generations_def)
  ultimately show ?thesis using v by (simp add: policy_checkpoint_def Let_def c)
qed

lemma sample_revoked:
  "policy_checkpoint ledger_ext sample_store_env 2000 (ledger_key 3) None (PolicyRevoke (ledger_key 7) 1 (ledger_key 5)) approved_store
   = Inr (\<lparr>pr_runtime_id = ledger_key 3, pr_command = PolicyRevoke (ledger_key 7) 1 (ledger_key 5),
       pr_authorization = Some revoked_approval, pr_items = [], pr_next_after = None, pr_reused = False\<rparr>, revoked_store)"
proof -
  have d: "ab_definitions approved_store = [(ledger_key 2, sample_automation)]"
    "ab_approvals approved_store = [\<lparr>ap_id = ledger_key 7, ap_record = sample_approval, ap_reserved = approval_reserve sample_approval\<rparr>]"
    by (simp_all add: approved_store_def defined_store_def store_empty_def)
  note r = sample_read [OF d, simplified]
  have k: "checked_add 2 0 = Some 2" by (simp add: checked_add_def u64_max_def)
  have save: "save_authorization ledger_ext sample_store_env revoked_approval False approved_store = Inr revoked_store"
    using k by (simp add: save_authorization_def stored_definition [OF d(1)] sample_checked Let_def put_approval_def find_approval_def
        d approval_cost_def sample_env_quota opt_ex_def) (simp add: approved_store_def revoked_store_def)
  have f: "au_revision sample_approval = 1" "au_state sample_approval = ''approved''" by (simp_all add: sample_approval_def)
  show ?thesis
    using save by (simp add: policy_checkpoint_def Let_def policy_command_validate_def policy_receipt_def opt_check_def r policy_revoke_def f
        revoked_approval_def [symmetric, unfolded One_nat_def])
qed

definition sample_reports :: "store_event list" where
  "sample_reports =
     [DefinitionRun \<lparr>dr_command = af_creation sample_automation, dr_definition = Some sample_automation, dr_items = [],
        dr_next_after = None, dr_reused = False\<rparr>,
      PolicyRun \<lparr>pr_runtime_id = ledger_key 3, pr_command = au_creation sample_approval, pr_authorization = Some sample_approval,
        pr_items = [], pr_next_after = None, pr_reused = False\<rparr>,
      PolicyRun \<lparr>pr_runtime_id = ledger_key 3, pr_command = PolicyRevoke (ledger_key 7) 1 (ledger_key 5),
        pr_authorization = Some revoked_approval, pr_items = [], pr_next_after = None, pr_reused = False\<rparr>]"

lemma sample_store_run: "run (store_step ledger_ext) store_empty sample_reports revoked_store"
  unfolding sample_reports_def
  using definition_runs [OF sample_defined] policy_runs [OF sample_approved] policy_runs [OF sample_revoked]
  by (metis run_cons run_nil)

definition sample_reads :: ledger_env where
  "sample_reads = sample_env\<lparr>le_policy := read_approval ledger_ext sample_store_env revoked_store,
     le_definition := read_definition ledger_ext sample_store_env revoked_store,
     le_policies := approval_records ledger_ext sample_store_env revoked_store,
     le_history := Inr ([(ledger_key 7, revoked_approval)], [(ledger_key 2, sample_automation)])\<rparr>"

lemma sample_opened: "store_step ledger_ext revoked_store (LedgerRun LedgerOpened) revoked_store"
proof -
  have d: "ab_definitions revoked_store = [(ledger_key 2, sample_automation)]"
    "ab_approvals revoked_store = [\<lparr>ap_id = ledger_key 7, ap_record = revoked_approval, ap_reserved = approval_reserve revoked_approval\<rparr>]"
    "ab_ledger revoked_store = ledger_empty"
    by (simp_all add: revoked_store_def defined_store_def store_empty_def)
  have "reads_store ledger_ext sample_store_env revoked_store sample_reads"
    unfolding reads_store_def sample_read(3) [OF d(1,2), simplified] by (simp add: sample_reads_def)
  moreover have "interrupt_on_open ledger_ext sample_reads (\<lambda>_. 3000) ledger_empty = Inr ledger_empty"
    by (simp add: interrupt_on_open_def schedules_def ledger_empty_def validated_history_def sample_reads_def)
  ultimately have "store_step ledger_ext revoked_store (LedgerRun LedgerOpened) (revoked_store\<lparr>ab_ledger := ledger_empty\<rparr>)"
    by (intro ledger_runs opens) (simp_all add: d(3))
  then show ?thesis using d(3) by (metis (full_types) automation_db.surjective automation_db.update_convs(3) automation_db.ext_inject)
qed

lemma sample_retired: "retired (ledger_key 7) revoked_store"
  by (simp add: retired_def revoked_store_def revoked_approval_def)

end
