(* ===== verification/Occurrence_Properties.thy ===== *)
theory Occurrence_Properties
  imports Occurrence_Reports Automation_Properties
begin

text \<open>
  What occurrences promise: the runs reserved under an approval stay within its budget, every
  report passes the check of the command line, and a retired approval starts nothing. The sample is
  one run of the approval of \<open>Automation_Properties\<close>.
\<close>

section \<open>A reserved run\<close>

definition run_env :: occurrence_env where
  "run_env =
     \<lparr>oe_store = sample_store_env, oe_review = (\<lambda>_. Inr ()),
      oe_scope = (\<lambda>_. Inr (sample_fixed_scope\<lparr>fs_owner_context := run_context\<rparr>)), oe_reserve = (\<lambda>_. 1024),
      oe_other_rows = 0, oe_other_bytes = 0\<rparr>"

definition run_command :: occurrence_command where
  "run_command = OccurrenceReserve (ledger_key 7) sample_digest run_job 3 sample_digest (ledger_key 6)"

definition run_reservation :: reservation where
  "run_reservation = new_reservation ledger_ext run_command run_delegation 1 2000 (1000, 1024) approved_job"

definition waiting_db :: occurrence_db where
  "waiting_db = occurrences_empty\<lparr>ob_store := approved_store,
     ob_jobs := [\<lparr>jr_id = run_job, jr_job = awaiting_job, jr_reserved = 1024\<rparr>]\<rparr>"

definition reserved_db :: occurrence_db where
  "reserved_db = waiting_db\<lparr>ob_occurrences := [\<lparr>oc_id = ledger_key 6, oc_job = run_job, oc_record = run_reservation\<rparr>],
     ob_jobs := [\<lparr>jr_id = run_job, jr_job = approved_job, jr_reserved = 1024\<rparr>]\<rparr>"

lemma run_ext [simp]:
  "job_json ledger_ext = sample_job_json" "job_of_json ledger_ext j = Some approved_job" "job_text ledger_ext p = ''{}''"
  "delegation_json ledger_ext g = JNull" "reservation_text ledger_ext r = ''{}''" "reservation_digest ledger_ext r = sample_digest"
  "approval_record_digest ledger_ext a = sample_digest" "approval_record_json ledger_ext a = JNull"
  by (simp_all add: reservation_digest_def approval_record_digest_def) (simp_all add: ledger_ext_def pipeline_externals.defs)

lemma run_job_ok [simp]: "validate_id run_job = Inr ()" "run_job \<noteq> sample_id"
  by (simp_all add: run_job_def validate_id_def is_lower_hex_def sample_id_def byte_def list_all_iff)

lemma run_store:
  assumes "ob_store db = approved_store"
  shows "approval_of ledger_ext run_env db (ledger_key 7) = Inr sample_approval"
    and "definition_of ledger_ext run_env db (ledger_key 2) = Inr sample_automation"
    and "generation_of ledger_ext run_env db (ledger_key 2) = Inr 1"
    and "validated_history ledger_ext (ledger_reads ledger_ext run_env db) (ab_ledger (ob_store db))
      = Inr ([(ledger_key 7, sample_approval)], [(ledger_key 2, sample_automation)])"
proof -
  have d: "ab_definitions approved_store = [(ledger_key 2, sample_automation)]"
    "ab_approvals approved_store = [\<lparr>ap_id = ledger_key 7, ap_record = sample_approval, ap_reserved = approval_reserve sample_approval\<rparr>]"
    "ab_ledger approved_store = ledger_empty"
    by (simp_all add: approved_store_def defined_store_def store_empty_def)
  note r = sample_read [OF d(1,2), simplified]
  have s: "oe_store run_env = sample_store_env" by (simp add: run_env_def)
  have p: "pa_definition (au_creation sample_approval) = ledger_key 2" by (simp add: sample_approval_def)
  show "approval_of ledger_ext run_env db (ledger_key 7) = Inr sample_approval" by (simp add: approval_of_def assms s r)
  show "definition_of ledger_ext run_env db (ledger_key 2) = Inr sample_automation"
    by (simp add: definition_of_def assms s stored_definition [OF d(1)])
  show "generation_of ledger_ext run_env db (ledger_key 2) = Inr 1"
    by (simp add: generation_of_def assms s r latest_generation_def p)
  show "validated_history ledger_ext (ledger_reads ledger_ext run_env db) (ab_ledger (ob_store db))
      = Inr ([(ledger_key 7, sample_approval)], [(ledger_key 2, sample_automation)])"
    by (simp add: validated_history_def ledger_reads_def Let_def assms s r d(3) ledger_empty_def)
qed

lemma run_authority:
  assumes "ob_store db = approved_store" and "p = awaiting_job \<or> p = approved_job"
  shows "job_authority ledger_ext run_env db p = Inr ()"
proof -
  have "ab_ledger (ob_store db) = ledger_empty" using assms(1) by (simp add: approved_store_def defined_store_def store_empty_def)
  moreover have "Option.bind (pv_delegation (job_view p)) dg_trigger = None" using assms(2)
    by (auto simp: job_view_def job_delegation_def approved_job_def awaiting_job_def run_delegation_def delegation.defs)
  ultimately show ?thesis
    by (simp add: job_authority_def validate_delegation_def trigger_for_request_def ledger_empty_def Let_def split: option.splits)
qed

lemma run_scope: "matching_scope run_env p sample_approval = Inr ()"
  by (simp add: matching_scope_def run_env_def Let_def run_context_def owner_context_def sample_fixed_scope_def sample_approval_def)

lemma run_reservation_valid: "reservation_validate ledger_ext run_reservation = Inr ()"
  by (simp add: reservation_validate_def run_reservation_def new_reservation_def Let_def run_command_def
      occurrence_command_validate_def u64_max_def is_reserve_def delegation_validate_def run_delegation_def opt_check_def
      MAX_RESERVED_EXECUTION_MS_def MAX_RESERVED_RESULT_BYTES_def snapshot_ok_def)
    (simp add: sample_job_json_def approved_job_def awaiting_job_def jindex_def)

lemma run_occurrence_valid:
  assumes "ob_store db = approved_store"
  shows "validate_occurrence ledger_ext run_env db run_reservation = Inr ()"
proof -
  have f: "dg_policy_id run_delegation = ledger_key 7" "ro_delegation run_reservation = run_delegation"
    "ro_approved_job run_reservation = sample_job_json approved_job" "ro_reserved_at_ms run_reservation = 2000"
    "ro_reserved_execution_ms run_reservation = 1000" "ro_reserved_result_bytes run_reservation = 1024" "ro_ordinal run_reservation = 1"
    by (simp_all add: run_reservation_def new_reservation_def Let_def run_delegation_def)
  have p: "pa_definition (au_creation sample_approval) = ledger_key 2" "policy_limits (au_creation sample_approval) = Some sample_limits_record"
    "au_scope sample_approval = sample_fixed_scope"
    by (simp_all add: sample_approval_def policy_limits_def sample_limits_record_def)
  have "lineage_ok run_reservation approved_job (the (jb_approval approved_job)) sample_approval sample_id sample_limits_record (1000, 1024)"
    by (simp add: lineage_ok_def f) (simp add: approved_job_def awaiting_job_def run_delegation_def sample_approval_def sample_limits_record_def)
  moreover have "ad_from_job (af_creation sample_automation) = sample_id" by (simp add: sample_automation_def)
  moreover obtain a where "jb_approval approved_job = Some a" by (simp add: approved_job_def)
  moreover have "oe_review run_env q = Inr ()" for q by (simp add: run_env_def)
  ultimately show ?thesis
    using run_authority [OF assms, of approved_job] sample_allowance [folded sample_limits_record_def]
    by (simp add: validate_occurrence_def run_reservation_valid f p run_store [OF assms] run_scope)
qed

lemma run_fields:
  "ro_id run_reservation = ledger_key 6" "ro_command run_reservation = run_command" "ro_delegation run_reservation = run_delegation"
  "dg_policy_id run_delegation = ledger_key 7" "ro_ordinal run_reservation = 1" "ro_reserved_execution_ms run_reservation = 1000"
  "ro_reserved_result_bytes run_reservation = 1024" "ro_approved_job run_reservation = sample_job_json approved_job"
  "jindex (sample_job_json approved_job) ''plan_id'' = JString run_job"
  by (simp_all add: run_reservation_def new_reservation_def Let_def run_command_def run_delegation_def)
    (simp add: sample_job_json_def jindex_def approved_job_def awaiting_job_def)

lemma run_live: "live_matches ledger_ext run_env run_reservation approved_job = Inr ()"
  by (simp add: live_matches_def run_env_def) (simp add: approved_job_def awaiting_job_def)

lemma waiting_fields:
  "ob_store waiting_db = approved_store" "ob_occurrences waiting_db = []" "ob_archives waiting_db = []"
  "find_job waiting_db run_job = Some \<lparr>jr_id = run_job, jr_job = awaiting_job, jr_reserved = 1024\<rparr>"
  by (simp_all add: waiting_db_def occurrences_empty_def find_job_def)

lemma reserved_fields:
  "ob_store reserved_db = approved_store" "ob_archives reserved_db = []"
  "ob_occurrences reserved_db = [\<lparr>oc_id = ledger_key 6, oc_job = run_job, oc_record = run_reservation\<rparr>]"
  "find_job reserved_db run_job = Some \<lparr>jr_id = run_job, jr_job = approved_job, jr_reserved = 1024\<rparr>"
  by (simp_all add: reserved_db_def waiting_db_def occurrences_empty_def find_job_def)

lemma waiting_records: "occurrence_records ledger_ext run_env waiting_db = Inr []"
  using run_store(4) [OF waiting_fields(1)]
  by (simp add: occurrence_records_def checked_records_def archives_def waiting_fields Let_def)

lemma reserved_records: "occurrence_records ledger_ext run_env reserved_db = Inr [run_reservation]"
proof -
  have g: "get_occurrence ledger_ext run_env reserved_db (ledger_key 6) = Inr run_reservation"
    by (simp add: get_occurrence_def occurrence_at_def find_occurrence_def reserved_fields run_occurrence_valid [OF reserved_fields(1)] run_fields)
  have "oe_review run_env q = Inr ()" for q by (simp add: run_env_def)
  then have r: "retained_plan ledger_ext run_env reserved_db run_reservation = Inr approved_job"
    by (simp add: retained_plan_def reserved_fields run_fields run_live)
  have "pa_max_runs (au_creation sample_approval) = 2" "pa_max_reserved_execution_ms (au_creation sample_approval) = 2000"
    "pa_max_reserved_result_bytes (au_creation sample_approval) = 2048" by (simp_all add: sample_approval_def)
  then have b: "check_budget ledger_ext run_env reserved_db [run_reservation] (ledger_key 7) = Inr ()"
    by (simp add: check_budget_def reservations_of_def run_fields run_store [OF reserved_fields(1)] bytes_total_def u64_max_def)
  show ?thesis using run_store(4) [OF reserved_fields(1)] g r b
    by (simp add: occurrence_records_def checked_records_def archives_def reserved_fields Let_def run_fields)
qed

lemma run_commits: "reserve_commit ledger_ext run_env run_job run_reservation approved_job waiting_db = Inr reserved_db"
proof -
  have e: "oe_reserve run_env q = 1024" "oe_store run_env = sample_store_env" "oe_other_rows run_env = 0" "oe_other_bytes run_env = 0"
    "oe_review run_env q = Inr ()" for q by (simp_all add: run_env_def)
  have m: "av_max_count sample_store_env = 10" "av_max_bytes sample_store_env = 100000" by (simp_all add: sample_store_env_def)
  have put: "put_job \<lparr>jr_id = run_job, jr_job = approved_job, jr_reserved = 1024\<rparr> waiting_db
      = waiting_db\<lparr>ob_jobs := [\<lparr>jr_id = run_job, jr_job = approved_job, jr_reserved = 1024\<rparr>]\<rparr>"
    by (simp add: put_job_def waiting_db_def occurrences_empty_def)
  have rows: "count_rows run_env (waiting_db\<lparr>ob_jobs := [j]\<rparr>) = 3" for j
    by (simp add: count_rows_def e waiting_fields) (simp add: approved_store_def defined_store_def store_empty_def ledger_empty_def)
  have bytes: "automation_bytes ledger_ext run_env (waiting_db\<lparr>ob_jobs := js\<rparr>) = 1028" for js
    by (simp add: automation_bytes_def e waiting_fields)
      (simp add: approved_store_def defined_store_def store_empty_def ledger_empty_def definition_cost_def approval_cost_def)
  have size: "check_size ledger_ext run_env waiting_db run_job (Suc (Suc 0)) 1024 = Inr ()"
    by (simp add: check_size_def waiting_fields job_cost_def checked_add_def u64_max_def opt_ex_def)
  have db2: "waiting_db\<lparr>ob_jobs := [\<lparr>jr_id = run_job, jr_job = approved_job, jr_reserved = 1024\<rparr>],
      ob_occurrences := [\<lparr>oc_id = ledger_key 6, oc_job = run_job, oc_record = run_reservation\<rparr>]\<rparr> = reserved_db"
    by (simp add: reserved_db_def)
  have i: "jb_plan_id approved_job = run_job" by (simp add: approved_job_def awaiting_job_def)
  have g: "get_occurrence ledger_ext run_env reserved_db (ledger_key 6) = Inr run_reservation"
    by (simp add: get_occurrence_def occurrence_at_def find_occurrence_def reserved_fields run_occurrence_valid [OF reserved_fields(1)] run_fields)
  have v: "validate_job ledger_ext run_env reserved_db approved_job = Inr ()"
    using run_authority [OF reserved_fields(1), of approved_job] by (simp add: validate_job_def reserved_fields i g run_live)
  show ?thesis
    using size by (simp add: reserve_commit_def Let_def e m put rows bytes job_cost_def bytes_total_def u64_max_def saturating_sub_def
        waiting_fields run_fields db2 v reserved_records)
qed

lemma run_reserves:
  "occurrence_reserve ledger_ext run_env 2000 2000 2000 run_command (ledger_key 3) (Some sample_issuer) [] waiting_db
   = Inr ((run_reservation, False), reserved_db)"
proof -
  have c: "rc_policy run_command = ledger_key 7" "rc_policy_sha256 run_command = sample_digest" "rc_job run_command = run_job"
    "rc_revision run_command = 3" "rc_plan_sha256 run_command = sample_digest" "rc_operation_id run_command = ledger_key 6"
    by (simp_all add: run_command_def)
  have p: "pa_definition (au_creation sample_approval) = ledger_key 2" "policy_limits (au_creation sample_approval) = Some sample_limits_record"
    "au_scope sample_approval = sample_fixed_scope" "au_authorization_sha256 sample_approval = sample_digest"
    "au_expires_at_ms sample_approval = 101000" "pa_max_runs (au_creation sample_approval) = 2"
    "pa_max_reserved_execution_ms (au_creation sample_approval) = 2000" "pa_max_reserved_result_bytes (au_creation sample_approval) = 2048"
    by (simp_all add: sample_approval_def policy_limits_def sample_limits_record_def)
  have e: "oe_review run_env q = Inr ()" for q by (simp add: run_env_def)
  have i: "jb_plan_id awaiting_job = run_job" "job_delegation awaiting_job = None" by (simp_all add: awaiting_job_def job_delegation_def)
  have read: "read_job ledger_ext run_env waiting_db run_job = Inr awaiting_job"
    using run_authority [OF waiting_fields(1), of awaiting_job] by (simp add: read_job_def waiting_fields e validate_job_def i)
  have ready: "reserve_ready ledger_ext run_env run_command [] sample_automation sample_approval awaiting_job waiting_db = Inr ()"
    by (simp add: reserve_ready_def run_scope c) (simp add: awaiting_job_def sample_automation_def)
  have link: "reservation_link ledger_ext le 2000 (job_view awaiting_job) sample_approval k (ab_ledger (ob_store waiting_db)) = Inr None" for le k
    by (simp add: reservation_link_def trigger_for_request_def waiting_fields split: option.splits)
      (simp add: approved_store_def defined_store_def store_empty_def ledger_empty_def)
  have left: "budget_left [] sample_approval (1000, 1024) = Inr True"
    by (simp add: budget_left_def bytes_total_def p saturating_sub_def)
  have d: "\<lparr>dg_policy_id = ledger_key 7, dg_reservation_id = ledger_key 6, dg_runtime_id = ledger_key 3, dg_trigger = None,
      dg_schema_version = Suc 0, dg_policy_sha256 = sample_digest, dg_definition_id = ledger_key 2, dg_generation = Suc 0\<rparr> = run_delegation"
    by (simp add: run_delegation_def)
  have st: "stamp 2000 ''Occurrence authority reserved atomically; no timer, grant or dispatch''
      (awaiting_job\<lparr>jb_approval := Some ((new_approval run_command sample_approval sample_limits_record sample_issuer 2000 run_delegation)
         \<lparr>ao_approval_sha256 := sample_digest\<rparr>), jb_status := JobApproved\<rparr>) = Inr approved_job"
    by (simp add: stamp_def checked_add_def u64_max_def Let_def new_approval_def c p)
      (simp add: approved_job_def awaiting_job_def sample_limits_record_def)
  have cur: "current_at ledger_ext sample_approval (ledger_key 3) sample_issuer (Suc 0) sample_automation 2000"
    by (rule sample_current) simp_all
  note s = run_store [OF waiting_fields(1)]
  show ?thesis unfolding occurrence_reserve_def
    using sample_allowance [folded sample_limits_record_def] cur run_occurrence_valid [OF waiting_fields(1)] run_commits
    by (simp add: c s p read ready reservations_of_def left link d st e run_reservation_def [symmetric, unfolded One_nat_def]
        saturating_sub_def Let_def)
qed

definition run_report :: occurrence_report where
  "run_report = occurrence_report_of (ledger_key 3) run_command (Some run_reservation) [] None False"

lemma run_checkpoint:
  "occurrence_checkpoint ledger_ext run_env 2000 2000 2000 run_command (ledger_key 3) (Some sample_issuer) waiting_db
   = Inr (run_report, reserved_db)"
proof -
  have v: "occurrence_command_validate ledger_ext run_command = Inr ()" using run_reservation_valid
    by (simp add: reservation_validate_def run_fields)
  obtain a b c d e f where eq: "run_command = OccurrenceReserve a b c d e f" using run_command_def by blast
  show ?thesis using run_reserves v unfolding run_report_def eq by (simp add: occurrence_checkpoint_def waiting_records)
qed

definition run_events :: "occurrence_event list" where
  "run_events = map StoreRun (take 2 sample_reports) @ [JobsRun, OccurrenceRun run_report]"

lemma waiting_reached: "run (occurrence_step ledger_ext) occurrences_empty (map StoreRun (take 2 sample_reports) @ [JobsRun]) waiting_db"
proof -
  have "run (store_step ledger_ext) store_empty (take 2 sample_reports) approved_store"
    using definition_runs [OF sample_defined] policy_runs [OF sample_approved] by (auto simp: sample_reports_def)
  from store_run_lifts [OF this, of occurrences_empty]
  have "run (occurrence_step ledger_ext) occurrences_empty (map StoreRun (take 2 sample_reports)) (occurrences_empty\<lparr>ob_store := approved_store\<rparr>)"
    by (simp add: occurrences_empty_def)
  moreover have "occurrence_step ledger_ext (occurrences_empty\<lparr>ob_store := approved_store\<rparr>) JobsRun waiting_db"
    unfolding waiting_db_def by (rule jobs_run)
  ultimately show ?thesis by auto
qed

lemma run_steps: "run (occurrence_step ledger_ext) occurrences_empty run_events reserved_db"
  using waiting_reached occurrence_runs [OF run_checkpoint] by (auto simp: run_events_def)

lemma run_approval: "\<lparr>ap_id = ledger_key 7, ap_record = sample_approval, ap_reserved = 1024\<rparr> \<in> set (ab_approvals (ob_store reserved_db))"
  by (simp add: reserved_fields approved_store_def)

lemma run_handed_out: "handed_out run_events = [run_reservation]"
  by (simp add: handed_out_def run_events_def sample_reports_def reserved_by_def run_report_def occurrence_report_of_def
      is_reserve_def run_command_def)

section \<open>The budget of an approval\<close>

text \<open>
  C12. Over any sequence of commands, ledger calls and job changes since an empty journal, the runs
  handed out under an approval number at most its run limit, their reserved execution time
  and result bytes add up to at most its limits, and their ordinals are 1 to their number. No
  archive, revocation, removal or repeated command gives any of it back.
\<close>

theorem reserved_runs_within_budget:
  assumes "run (occurrence_step ext) occurrences_empty es db" and "r \<in> set (ab_approvals (ob_store db))"
  shows "budget_kept (au_creation (ap_record r)) (reservations_of (handed_out es) (ap_id r))"
proof -
  have "occurrence_ok db" by (rule occurrence_machine.run_inv [OF assms(1) occurrences_empty_ok])
  moreover have "map oc_record (ob_occurrences db) = handed_out es"
    using run_hands_out [OF assms(1)] by (simp add: occurrences_empty_def)
  ultimately show ?thesis using assms(2) by (auto simp: occurrence_ok_def)
qed

theorem reserved_runs_within_budget_witness:
  "budget_kept (PolicyApprove (ledger_key 2) 1 sample_digest 0 (ledger_key 7) 100000 2 1000 1024 2000 2048) [run_reservation]
   \<and> handed_out run_events = [run_reservation]"
  using reserved_runs_within_budget [OF run_steps run_approval]
  by (simp add: run_handed_out reservations_of_def run_fields) (simp add: sample_approval_def)

section \<open>Reports\<close>

text \<open>
  C14. Every report an occurrence command returns on a reachable journal passes the separate check of
  the command line for that command and runtime.
\<close>

theorem occurrence_reports_confirmed:
  assumes "\<And>s. hex_digest (sha256_hex ext s)" and "run (occurrence_step ext) occurrences_empty es db"
    and "occurrence_checkpoint ext env now stamped commit command runtime issuer db = Inr (r, db')"
  shows "occurrence_confirmed ext r command runtime"
  using checkpoint_confirmed [OF assms(1) _ assms(3)] occurrence_machine.run_inv [OF assms(2) occurrences_empty_ok] by blast

theorem occurrence_reports_confirmed_witness: "occurrence_confirmed ledger_ext run_report run_command (ledger_key 3)"
proof (rule occurrence_reports_confirmed [OF _ waiting_reached run_checkpoint])
  show "hex_digest (sha256_hex ledger_ext s)" for s by simp
qed

section \<open>Retired approvals\<close>

text \<open>
  C13. Once an approval was revoked, superseded by a newer generation for its definition, or its
  definition was removed, then after any further commands, calls and job changes no schedule is
  armed for it, none of its schedules claims a trigger, no claimed trigger of it begins its
  launch and no run is reserved under it.
\<close>

theorem retired_approval_starts_nothing:
  assumes "run (occurrence_step ext) occurrences_empty es db" and "retired i (ob_store db)"
    and "run (occurrence_step ext) db fs db1" and "occurrence_step ext db1 e db2"
  shows "\<not> engages i db1 e"
proof -
  have ok: "occurrence_ok db" by (rule occurrence_machine.run_inv [OF assms(1) occurrences_empty_ok])
  have "occurrence_ok db1" by (rule occurrence_machine.run_inv [OF assms(3) ok])
  moreover have "retired i (ob_store db1)"
    using retired_mono [OF assms(2)] occurrence_machine.run_le [OF assms(3) ok] by (simp add: occurrence_le_def)
  ultimately show ?thesis using retired_engages_nothing assms(4) by blast
qed

theorem retired_approval_starts_nothing_witness:
  "run (occurrence_step ledger_ext) occurrences_empty (map StoreRun sample_reports) (occurrences_empty\<lparr>ob_store := revoked_store\<rparr>)
   \<and> retired (ledger_key 7) revoked_store
   \<and> \<not> engages (ledger_key 7) (occurrences_empty\<lparr>ob_store := revoked_store\<rparr>) (StoreRun (LedgerRun LedgerOpened))"
proof -
  let ?db = "occurrences_empty\<lparr>ob_store := revoked_store\<rparr>"
  have a: "run (occurrence_step ledger_ext) occurrences_empty (map StoreRun sample_reports) ?db"
    using store_run_lifts [OF sample_store_run, of occurrences_empty] by (simp add: occurrences_empty_def)
  have b: "occurrence_step ledger_ext ?db (StoreRun (LedgerRun LedgerOpened)) ?db"
    using store_runs [of ledger_ext ?db "LedgerRun LedgerOpened" revoked_store] sample_opened by simp
  have "retired (ledger_key 7) (ob_store ?db)" using sample_retired by simp
  from retired_approval_starts_nothing [OF a this run_nil b] show ?thesis using a sample_retired by blast
qed

end
