(* ===== verification/Spec2Isabelle.thy ===== *)
theory Spec2Isabelle
  imports Journal_Properties Workload_Properties Pipeline_Properties Registry_Properties Condition_Numbers Trigger_Properties Occurrence_Properties
begin

text \<open>
  \<^bold>\<open>A verification of the grant, workload, pipeline, scheduling and trigger core of eef\<close>

  eef is a coordinator (\<^verbatim>\<open>crates/eef\<close>) and a node (\<^verbatim>\<open>crates/eefn\<close>). The coordinator reviews and
  approves requests and issues grants; a node executes them. Each node keeps a SQLite journal
  that decides what it may execute: a one-operation grant is consumed once, its outcome is
  recorded before it is reported, a stop is durable, and an outcome that is not known is never
  retried. A continuous workload (a microphone session) is consumed the same way, runs under
  short leases that the coordinator renews, appends its events to a hash chain in the same
  journal, and ends with a completion report or as unknown. A pipeline is a grant whose
  operation is a small graph of operations that the node executes in order. An automation is a
  saved plan that its owner approved for a bounded time; the coordinator's trigger ledger arms
  a schedule for the approval and claims each due run once, and every run is reserved from the
  approval's budget before it starts.

  \<^bold>\<open>Conventions\<close>

  Every fallible Rust function is a HOL function into \<open>error + 'a\<close>; the operator \<^verbatim>\<open>?\<close> is \<open>rbind\<close>,
  a guard with an early return is \<open>ensure\<close>, \<^verbatim>\<open>Option::context\<close> is \<open>or_err\<close>. The error texts are
  collapsed to constructors of one datatype per component. Unsigned integers are \<open>nat\<close> with
  the checked, saturating and conversion operations written out (\<open>checked_add\<close>,
  \<open>saturating_add\<close>, \<open>to_i64\<close>); floats are kept by their bits. Strings are byte strings. A struct
  is a record, an enum a datatype, a SQLite table a list of rows, a transaction a function
  from journal to journal whose error leaves the old journal in place. A \<^verbatim>\<open>BTreeMap\<close> is a list
  sorted by key, or a map where its order is never observed. Clocks, the answers of the
  owner's policy, the engine that runs an operation and the interleaving with other tasks are
  arguments of the functions and of the step relations: every theorem holds for all of them.

  Code outside the repository is a field of an \<open>externals\<close> record: UUID parsing, SHA-256, the
  serde encodings and RFC 6901 pointers. A theorem that relies on one of them names what it
  relies on as a hypothesis (a codec that decodes what it encoded, a digest with hexadecimal
  digits, a decoder of a map that returns no key twice), and its witness instantiates the
  record by concrete functions.

  No definition needs fuel: loops are structural recursions over the list of events, rows,
  steps or ticks they consume, so every function is total. A supervised run that is fed
  finitely many ticks may still be running (\<open>None\<close>); \<open>run_ends_by_deadline\<close> shows that it is
  not once a tick reaches the deadline.

  \<^bold>\<open>Theories and the code they model\<close> (paths under \<^verbatim>\<open>crates/eefn/src\<close> unless given)

  \<^item> \<open>Prelude\<close>: results, bounded integers, instants, bytes, table rows, association lists.
    \<open>Machines\<close>: runs of a labelled step relation and two contracts as locales
    (\<open>invariant_machine\<close>, \<open>monotone_machine\<close>), interpreted by the issuer of leases, the node's
    journal, the coordinator's registry, its trigger ledger, its automation tables and its occurrences.
  \<^item> \<open>Identity\<close> and \<open>Grant_Scope\<close>: identifiers, request context and locality (\<^verbatim>\<open>network.rs\<close>,
    \<^verbatim>\<open>context.rs\<close>, \<^verbatim>\<open>job_commands.rs\<close>, \<^verbatim>\<open>request_drafts.rs\<close>), canonical digests and the scope of
    a grant attempt (\<^verbatim>\<open>grants.rs\<close>, \<^verbatim>\<open>grant_stop.rs\<close>).
  \<^item> \<open>Workload_Leases\<close>, \<open>Workload_Window\<close>, \<open>Lease_Protocol\<close>: contracts, the issuer's window, the
    node's proof, window and supervisor, the reporting authority (\<^verbatim>\<open>workload_leases.rs\<close>,
    \<^verbatim>\<open>workload_reporting.rs\<close>) and the protocol between both sides.
  \<^item> \<open>Workload_Definition\<close>, \<open>Workload_Events\<close>: the reviewed definition, its contract, the event
    filter and its seal (\<^verbatim>\<open>workload_definition.rs\<close>, \<^verbatim>\<open>workload_events.rs\<close>).
  \<^item> \<open>Grant_Operation\<close>, \<open>Pipeline_Definition\<close>, \<open>Conditional_Pipeline\<close>, \<open>Grant_Definition\<close>: the
    granted operation, finite and conditional graphs, grant and report validation
    (\<^verbatim>\<open>grants.rs\<close>, \<^verbatim>\<open>pipeline.rs\<close>, \<^verbatim>\<open>conditional_pipeline.rs\<close>). \<open>Plan_Input\<close>: the input of a plan,
    its constraints and capabilities (\<^verbatim>\<open>request_planning.rs\<close>).
  \<^item> \<open>Journal_Tables\<close>, \<open>Grant_Stop\<close>, \<open>Grant_Ledger\<close>, \<open>Grant_Run\<close>, \<open>Ledger_Open\<close>: the tables, stop
    rows, claim, finish, progress and stop requests, the life of an accepted grant, opening and
    migrating a journal (\<^verbatim>\<open>grants.rs\<close>, \<^verbatim>\<open>grant_stop.rs\<close>, \<^verbatim>\<open>pipeline_progress.rs\<close>,
    \<^verbatim>\<open>request_receipt.rs\<close>). \<open>Retained_Result\<close>: reading results back (\<^verbatim>\<open>request_result.rs\<close>).
  \<^item> \<open>Workload_Journal\<close>, \<open>Event_Append\<close>, \<open>Workload_Receipts\<close>: consumption of a workload, the
    event chain, completion, the final slot and its failure latch
    (\<^verbatim>\<open>workload_event_journal.rs\<close>, \<^verbatim>\<open>workload_receipts.rs\<close>, \<^verbatim>\<open>workload_completion.rs\<close>,
    \<^verbatim>\<open>workload_finalization.rs\<close>, \<^verbatim>\<open>workload_inspection.rs\<close>).
  \<^item> \<open>Pipeline_Runtime\<close>: the execution of a pipeline, stage by stage (\<^verbatim>\<open>pipeline_runtime.rs\<close>).
  \<^item> \<open>Scheduling_Policy\<close>, \<open>Capability_Registry\<close>: the owner's limits, the coordinator's registry of
    providers, the choice of a provider and its reservation (\<^verbatim>\<open>crates/eef/src/scheduling.rs\<close>,
    \<^verbatim>\<open>capability.rs\<close>). \<open>Registry_Store\<close> is the locale of a keyed store and its instance, the
    registry's entries; \<open>Registry_Selection\<close>, \<open>Registry_Invariant\<close>, \<open>Registry_Steps\<close> and
    \<open>Registry_Report\<close> hold the lemmas and the registry as a step relation.
  \<^item> \<open>Automation_Policy\<close>: automation definitions and the owner's approvals (\<^verbatim>\<open>automation.rs\<close>,
    \<^verbatim>\<open>automation_policy.rs\<close>). \<open>Trigger_Records\<close>, \<open>Trigger_Ledger\<close>: the schedules and triggers of the
    coordinator, the checks of every retained record and the operations on them
    (\<^verbatim>\<open>crates/eef/src/automation_schedules.rs\<close>); the other tables of the database are the
    environment of a call. \<open>Trigger_History\<close>: the ledger as a step relation and its invariant;
    \<open>Trigger_Samples\<close>: an approval with an armed and claimed schedule.
  \<^item> \<open>Automation_Store\<close>: the tables of definitions and approvals with their commands, reads and
    quotas (\<^verbatim>\<open>crates/eef/src/automations.rs\<close>, \<^verbatim>\<open>automation_authorizations.rs\<close>,
    \<^verbatim>\<open>automation_policy.rs\<close>). \<open>Automation_Machine\<close>: these tables and the trigger ledger as one
    step relation, in which a call of the ledger reads what the tables hold (\<open>reads_store\<close>);
    \<open>Automation_Properties\<close>: a sample of them.
  \<^item> \<open>Occurrence_Records\<close>, \<open>Occurrence_Store\<close>, \<open>Occurrence_Commands\<close>: the runs reserved under an
    approval and their archives (\<^verbatim>\<open>automation_occurrence.rs\<close>, \<^verbatim>\<open>crates/eef/src/automation_occurrences.rs\<close>,
    \<^verbatim>\<open>automation_occurrence_archives.rs\<close>), with the part of a job they read (\<^verbatim>\<open>jobs.rs\<close>, \<^verbatim>\<open>task.rs\<close>).
    \<open>Occurrence_Machine\<close>: occurrences over all the tables before as one step relation, in which
    the rest of the coordinator may change the jobs in any way; \<open>Occurrence_Reports\<close>: reports.
  \<^item> \<open>Grant_Invariant\<close>, \<open>Workload_Invariant\<close>, \<open>Event_Evidence\<close>, \<open>Completion_Evidence\<close>,
    \<open>Pipeline_Resolution\<close>, \<open>Pipeline_Accounting\<close>, \<open>Pipeline_Stages\<close>: the lemmas about these
    operations. \<open>Samples\<close>, \<open>Journal_Samples\<close>, \<open>Workload_Samples\<close>, \<open>Pipeline_Samples\<close>,
    \<open>Pipeline_Runs\<close>: concrete inputs for the witnesses.

  \<^bold>\<open>How the parts are put together\<close>

  \<open>Journal_Machine\<close> is the node's journal as a step relation: one step is one call of the
  program that may write (admission, end of a run, a dropped grant, a pipeline observation, a
  stop request, consumption of a workload, an appended event, the final saves and one that no
  worker takes), the growth of
  the file, or a restart, which keeps only the journal. A run is any sequence of such steps, so
  it covers every interleaving of the callers, which the code serialises by the journal's
  transactions. \<open>Journal_History\<close> derives what a run can never do again.

  \<^bold>\<open>What is shown\<close>

  \<^item> \<open>Journal_Properties\<close>: at most one open attempt per task; every grant admitted once and
    attempts in order; after a recorded stop the grant is never admitted again and nothing of a
    workload is saved under it; an unknown outcome blocks the task; a final
    report is durable and reads back; a completed outcome lies within the grant's deadline and
    policy; a run's report confirms its grant; the run ends by the deadline; quotas hold.
  \<^item> \<open>Lease_Protocol\<close>, \<open>Workload_Definition\<close>, \<open>Workload_Events\<close>: a lease ends at the node before
    the issuer's deadline even with drifting clocks, lease sequences only grow, supervision
    stays within the session, reporting ends when it is retired; a valid definition has a
    valid contract; the events the filter lets through within the session length are a chain
    that the journal accepts, within its bounds.
  \<^item> \<open>Workload_Properties\<close>: consumption is durable before it starts, one workload at a time,
    after a failed final save nothing is consumed before a restart, saved events and completions read back, and the prefix digest
    determines the events unless the hash collides.
  \<^item> \<open>Pipeline_Properties\<close>: the engine is asked only for the reviewed operations, in order and
    with their literals; the bookkeeping of references and bytes never fails and is exact;
    every report the runtime makes is accepted by the separate completion check.
    \<open>Condition_Numbers\<close>: numbers in guards compare exactly or are refused, but for one
    magnitude, which \<open>unseen_rounding\<close> exhibits.
  \<^item> \<open>Registry_Properties\<close>: the owner's ceilings hold and counters are exact in every reachable
    registry; a release undoes its reservation, and one made before a provider was replaced
    gives no capacity of the replacement back; a reservation with its dependencies is made
    exactly when each of them can be served; the choice is a best one; a report passes the check
    of the command line exactly when the names in it have at most 64 bytes, which registration
    does not ensure (\<open>long_name_unconfirmed\<close>).
  \<^item> \<open>Trigger_Properties\<close>: the claims of a schedule are counted without a gap, each lies in its
    own window before the approval expires, missed times are never caught up, and no two
    active schedules run the same definition. \<open>Occurrence_Properties\<close>: the runs handed
    out under an approval stay within its budget over any history; an approval that was
    revoked, superseded or whose definition was removed starts nothing any more; every
    report passes the check of the command line.

  \<^bold>\<open>Not modelled\<close>

  The async plumbing (tokio tasks, channels, the thread that performs a final save, whose
  effect is one atomic step), networking, TLS and enrolment, the HTTP and web surface,
  the console, model downloads and processes, packaging and the installer, and the coordinator's
  job engine and its planner. They are I/O and glue around the modelled decisions, or code whose
  answers are the environment of a modelled call. SQLite itself is trusted for the atomicity
  of a transaction and the constraints written in the table definitions.
\<close>

end
